(* ===== verification/Prelude.thy ===== *)
theory Prelude
  imports Main "HOL-Library.State_Monad" "HOL-Library.Sublist"
begin

text \<open>
  What the components share and what is not specific to Kubernetes: the part of the Go
  language and of its standard library the operator uses (string functions of package
  \<^verbatim>\<open>strings\<close>, decimal formatting and parsing of \<^verbatim>\<open>strconv\<close> and \<^verbatim>\<open>fmt\<close>, calendar
  times of \<^verbatim>\<open>time\<close>, dynamically typed \<^verbatim>\<open>interface{}\<close> values), errors as values, and the
  generic lemmas on strings and lists the component proofs rest on.

  Go strings are byte sequences: a Go string is a HOL \<open>string\<close> (one \<open>char\<close> per byte).
  Positions that Go reports as \<open>-1\<close> when there is none are \<open>None\<close> of an option.
\<close>

named_theorems go_simps \<comment> \<open>unfolding rules of the small standard library models\<close>
named_theorems only_intros \<comment> \<open>compositional rules for the requests a program can make\<close>
named_theorems spec_intros \<comment> \<open>backward rules of the program logic of theory Client\<close>

section \<open>Strings\<close>

definition hasPrefix :: "string \<Rightarrow> string \<Rightarrow> bool" where
  "hasPrefix s p \<longleftrightarrow> take (length p) s = p"

definition hasSuffix :: "string \<Rightarrow> string \<Rightarrow> bool" where
  "hasSuffix s p \<longleftrightarrow> length p \<le> length s \<and> drop (length s - length p) s = p"

definition trimPrefix :: "string \<Rightarrow> string \<Rightarrow> string" where
  "trimPrefix s p = (if hasPrefix s p then drop (length p) s else s)"

fun strContains :: "string \<Rightarrow> string \<Rightarrow> bool" where
  "strContains [] p = (p = [])"
| "strContains (c # s) p = (hasPrefix (c # s) p \<or> strContains s p)"

text \<open>\<open>cutByte c s\<close> splits at the first occurrence of the byte: what \<^verbatim>\<open>strings.Index\<close> of a
  one-byte separator and the two slices around it give.\<close>

fun cutByte :: "char \<Rightarrow> string \<Rightarrow> (string \<times> string) option" where
  "cutByte c [] = None"
| "cutByte c (x # xs) =
     (if x = c then Some ([], xs)
      else map_option (\<lambda>(a, b). (x # a, b)) (cutByte c xs))"

text \<open>\<open>afterLastByte c s\<close> is \<^verbatim>\<open>s[strings.LastIndex(s, c)+1:]\<close>, \<open>None\<close> where the index is -1.\<close>

fun afterLastByte :: "char \<Rightarrow> string \<Rightarrow> string option" where
  "afterLastByte c [] = None"
| "afterLastByte c (x # xs) =
     (case afterLastByte c xs of
        Some r \<Rightarrow> Some r
      | None \<Rightarrow> (if x = c then Some xs else None))"

text \<open>\<^verbatim>\<open>strings.Split\<close> with a one-byte separator, and \<^verbatim>\<open>strings.SplitN\<close> with a bound.\<close>

fun splitByte :: "char \<Rightarrow> string \<Rightarrow> string list" where
  "splitByte c [] = [[]]"
| "splitByte c (x # xs) =
     (if x = c then [] # splitByte c xs
      else (case splitByte c xs of [] \<Rightarrow> [[x]] | w # ws \<Rightarrow> (x # w) # ws))"

fun splitN :: "char \<Rightarrow> string \<Rightarrow> nat \<Rightarrow> string list" where
  "splitN c s 0 = []"
| "splitN c s (Suc 0) = [s]"
| "splitN c s (Suc (Suc n)) =
     (case cutByte c s of None \<Rightarrow> [s] | Some (a, b) \<Rightarrow> a # splitN c b (Suc n))"

fun joinWith :: "string \<Rightarrow> string list \<Rightarrow> string" where
  "joinWith sep [] = []"
| "joinWith sep [x] = x"
| "joinWith sep (x # y # ys) = x @ sep @ joinWith sep (y # ys)"

text \<open>\<^verbatim>\<open>strings.ReplaceAll\<close> of a one-byte string.\<close>

definition replaceByte :: "char \<Rightarrow> string \<Rightarrow> string \<Rightarrow> string" where
  "replaceByte c r s = concat (map (\<lambda>x. if x = c then r else [x]) s)"

text \<open>Decimal output (\<^verbatim>\<open>%d\<close>) and \<^verbatim>\<open>strconv.Atoi\<close> on 64-bit integers.\<close>

definition digit_char :: "nat \<Rightarrow> char" where
  "digit_char d = char_of (48 + d)"

fun nat_digits :: "nat \<Rightarrow> string" where
  "nat_digits n = (if n < 10 then [digit_char n] else nat_digits (n div 10) @ [digit_char (n mod 10)])"

declare nat_digits.simps [simp del]

definition itoa :: "int \<Rightarrow> string" where
  "itoa i = (if i < 0 then ''-'' @ nat_digits (nat (- i)) else nat_digits (nat i))"

definition is_digit :: "char \<Rightarrow> bool" where
  "is_digit c \<longleftrightarrow> 48 \<le> (of_char c :: nat) \<and> (of_char c :: nat) \<le> 57"

fun digits_value :: "nat \<Rightarrow> string \<Rightarrow> nat option" where
  "digits_value acc [] = Some acc"
| "digits_value acc (c # cs) =
     (if is_digit c then digits_value (10 * acc + (of_char c - 48)) cs else None)"

definition atoi :: "string \<Rightarrow> int option" where
  "atoi s =
     (let (neg, ds) = (case s of [] \<Rightarrow> (False, [])
                       | c # cs \<Rightarrow> (if c = CHR ''-'' then (True, cs)
                                   else if c = CHR ''+'' then (False, cs) else (False, s)))
      in if ds = [] then None
         else (case digits_value 0 ds of None \<Rightarrow> None
               | Some n \<Rightarrow> (let i = (if neg then - int n else int n)
                          in if - (2 ^ 63) \<le> i \<and> i < 2 ^ 63 then Some i else None)))"

section \<open>Times, durations, interface values, errors\<close>

text \<open>A calendar time (\<^verbatim>\<open>time.Time\<close>, \<^verbatim>\<open>metav1.Time\<close>), by its civil fields.\<close>

record gotime =
  t_year :: int
  t_month :: int
  t_day :: int
  t_hour :: int
  t_minute :: int
  t_second :: int

definition pad :: "nat \<Rightarrow> int \<Rightarrow> string" where
  "pad n i = (let ds = itoa i in replicate (n - length ds) (CHR ''0'') @ ds)"

text \<open>Durations are nanoseconds (\<^verbatim>\<open>time.Duration\<close>).\<close>

type_synonym duration = int

definition second :: duration where "second = 1000000000"
definition minute :: duration where "minute = 60 * second"
definition hour :: duration where "hour = 60 * minute"

text \<open>A value of type \<^verbatim>\<open>interface{}\<close> as the operator builds and reads them. Slices carry their
  element type in their dynamic type: \<open>GList\<close> is a \<^verbatim>\<open>[]interface{}\<close>, \<open>GStrs\<close> a \<^verbatim>\<open>[]string\<close> and
  \<open>GMaps\<close> a \<^verbatim>\<open>[]map[string]interface{}\<close>, and a type assertion tells them apart.\<close>

datatype goval =
    GNil
  | GBool bool
  | GInt int
  | GStr string
  | GList "goval list"
  | GStrs "string list"
  | GMap "string \<Rightarrow> goval option"
  | GMaps "(string \<Rightarrow> goval option) list"

type_synonym gomap = "string \<Rightarrow> goval option" \<comment> \<open>\<^verbatim>\<open>map[string]interface{}\<close>\<close>

text \<open>Type assertions with the comma-ok form.\<close>

fun asStr :: "goval option \<Rightarrow> string option" where
  "asStr (Some (GStr s)) = Some s"
| "asStr _ = None"

fun asMap :: "goval option \<Rightarrow> (string \<Rightarrow> goval option) option" where
  "asMap (Some (GMap m)) = Some m"
| "asMap _ = None"

fun asMaps :: "goval option \<Rightarrow> gomap list option" where
  "asMaps (Some (GMaps l)) = Some l"
| "asMaps _ = None"

fun asList :: "goval option \<Rightarrow> goval list option" where
  "asList (Some (GList l)) = Some l"
| "asList _ = None"

text \<open>The comma-ok form that discards \<^verbatim>\<open>ok\<close>: the zero value where the assertion fails.\<close>

definition strOrEmpty :: "goval option \<Rightarrow> string" where
  "strOrEmpty v = (case asStr v of Some s \<Rightarrow> s | None \<Rightarrow> [])"

text \<open>Lookup in a \<^verbatim>\<open>map[string]string\<close>: the zero value for a missing key.\<close>

definition mapGet :: "(string \<Rightarrow> string option) \<Rightarrow> string \<Rightarrow> string" where
  "mapGet m k = (case m k of Some v \<Rightarrow> v | None \<Rightarrow> [])"

text \<open>
  Go errors. What the operator asks of an error is its text and whether it is, or wraps,
  a status error of the API server with a given reason (\<^verbatim>\<open>apierrors.IsNotFound\<close> and its kin).
  A run-time panic (a nil dereference, a write to a nil map, a failed type assertion) unwinds to
  the controller runtime, which turns it into an error of the reconciliation: it is an error with
  reason \<open>PanicReason\<close>. \<open>wrap p e\<close> is \<^verbatim>\<open>fmt.Errorf("p: %w", e)\<close>, \<open>errorf m\<close> a new error with that text.
\<close>

datatype reason = NotFound | AlreadyExists | ConflictReason | PanicReason | OtherReason

datatype goerr = GoErr (err_reason: reason) (err_text: string)

definition isNotFound :: "goerr \<Rightarrow> bool" where "isNotFound e \<longleftrightarrow> err_reason e = NotFound"
definition isAlreadyExists :: "goerr \<Rightarrow> bool" where "isAlreadyExists e \<longleftrightarrow> err_reason e = AlreadyExists"
definition isConflict :: "goerr \<Rightarrow> bool" where "isConflict e \<longleftrightarrow> err_reason e = ConflictReason"

definition wrap :: "string \<Rightarrow> goerr \<Rightarrow> goerr" where
  "wrap p e = GoErr (err_reason e) (p @ '': '' @ err_text e)"

definition panic :: "string \<Rightarrow> goerr" where
  "panic m = GoErr PanicReason m"

definition errorf :: "string \<Rightarrow> goerr" where
  "errorf m = GoErr OtherReason m"

type_synonym 'a res = "goerr + 'a"

fun errOf :: "'a res \<Rightarrow> goerr option" where
  "errOf (Inl e) = Some e"
| "errOf (Inr _) = None"

definition isPanic :: "goerr \<Rightarrow> bool" where "isPanic e \<longleftrightarrow> err_reason e = PanicReason"

section \<open>Encodings\<close>

text \<open>\<^verbatim>\<open>time.RFC3339\<close> of a UTC time.\<close>

definition rfc3339 :: "gotime \<Rightarrow> string" where
  "rfc3339 t = pad 4 (t_year t) @ ''-'' @ pad 2 (t_month t) @ ''-'' @ pad 2 (t_day t) @ ''T'' @
     pad 2 (t_hour t) @ '':'' @ pad 2 (t_minute t) @ '':'' @ pad 2 (t_second t) @ ''Z''"

text \<open>Base64 (RFC 4648): the value of a character, for the two alphabets, and the decoder of
  \<^verbatim>\<open>base64.RawURLEncoding\<close>, which skips line breaks, needs no padding and rejects a lone last character.\<close>

definition b64Alphabet :: "bool \<Rightarrow> string" where
  "b64Alphabet url = ''ABCDEFGHIJKLMNOPQRSTUVWXYZabcdefghijklmnopqrstuvwxyz0123456789'' @ (if url then ''-_'' else ''+/'')"

fun indexOf :: "'a \<Rightarrow> 'a list \<Rightarrow> nat option" where
  "indexOf x [] = None"
| "indexOf x (y # ys) = (if x = y then Some 0 else map_option Suc (indexOf x ys))"

fun decodeQuanta :: "nat list \<Rightarrow> nat list option" where
  "decodeQuanta (a # b # c # d # rest) =
     map_option (\<lambda>bs. [a * 4 + b div 16, b mod 16 * 16 + c div 4, c mod 4 * 64 + d] @ bs) (decodeQuanta rest)"
| "decodeQuanta [a, b, c] = Some [a * 4 + b div 16, b mod 16 * 16 + c div 4]"
| "decodeQuanta [a, b] = Some [a * 4 + b div 16]"
| "decodeQuanta [a] = None"
| "decodeQuanta [] = Some []"

definition rawDecode :: "bool \<Rightarrow> string \<Rightarrow> string option" where
  "rawDecode url s =
     (case those (map (\<lambda>c. indexOf c (b64Alphabet url)) (filter (\<lambda>c. c \<noteq> CHR 0x0A \<and> c \<noteq> CHR 0x0D) s)) of
        None \<Rightarrow> None
      | Some vs \<Rightarrow> map_option (map char_of) (decodeQuanta vs))"

abbreviation rawURLDecode :: "string \<Rightarrow> string option" where "rawURLDecode \<equiv> rawDecode True"

text \<open>The encoder, padded for \<^verbatim>\<open>base64.StdEncoding\<close>.\<close>

fun encodeQuanta :: "nat list \<Rightarrow> nat list" where
  "encodeQuanta (x # y # z # rest) =
     [x div 4, x mod 4 * 16 + y div 16, y mod 16 * 4 + z div 64, z mod 64] @ encodeQuanta rest"
| "encodeQuanta [x, y] = [x div 4, x mod 4 * 16 + y div 16, y mod 16 * 4]"
| "encodeQuanta [x] = [x div 4, x mod 4 * 16]"
| "encodeQuanta [] = []"

definition rawEncode :: "bool \<Rightarrow> string \<Rightarrow> string" where
  "rawEncode url s = map (\<lambda>v. b64Alphabet url ! v) (encodeQuanta (map of_char s))"

definition stdEncodeToString :: "string \<Rightarrow> string" where
  "stdEncodeToString s = (let e = rawEncode False s in e @ replicate ((4 - length e mod 4) mod 4) (CHR ''=''))"

text \<open>Updating the first entry of a list that satisfies a test, appending where none does: the loop all
  the controllers use on condition lists.\<close>

fun upsertFirst :: "('a \<Rightarrow> bool) \<Rightarrow> 'a \<Rightarrow> 'a list \<Rightarrow> 'a list" where
  "upsertFirst p new [] = [new]"
| "upsertFirst p new (x # xs) = (if p x then new # xs else x # upsertFirst p new xs)"

text \<open>A text of lines, each ended by a line feed.\<close>

definition unlines :: "string list \<Rightarrow> string" where
  "unlines ls = concat (map (\<lambda>l. l @ [CHR 0x0A]) ls)"

section \<open>Lemmas on encodings and lists\<close>

lemma digit_split: "(b :: nat) < c \<Longrightarrow> (a * c + b) div c = a" "(b :: nat) < c \<Longrightarrow> (a * c + b) mod c = b"
  by simp_all

lemma sextets:
  fixes x y z :: nat
  assumes "y < 256" "z < 256"
  shows "x div 4 * 4 + (x mod 4 * 16 + y div 16) div 16 = x"
    "(x mod 4 * 16 + y div 16) mod 16 * 16 + (y mod 16 * 4 + z div 64) div 4 = y"
    "(y mod 16 * 4 + z div 64) mod 4 * 64 + z mod 64 = z"
proof -
  have "y div 16 < 16" "z div 64 < 4"
    using assms by (simp_all add: div_less_iff_less_mult)
  then show "x div 4 * 4 + (x mod 4 * 16 + y div 16) div 16 = x"
    "(x mod 4 * 16 + y div 16) mod 16 * 16 + (y mod 16 * 4 + z div 64) div 4 = y"
    "(y mod 16 * 4 + z div 64) mod 4 * 64 + z mod 64 = z"
    by (simp_all add: digit_split)
qed

lemma decode_encodeQuanta: "list_all (\<lambda>x. x < 256) xs \<Longrightarrow> decodeQuanta (encodeQuanta xs) = Some xs"
proof (induction xs rule: encodeQuanta.induct)
  case (1 x y z rest)
  then show ?case using sextets(1,2) [of y z x] sextets(3) [of y z] by simp
next
  case (2 x y)
  then show ?case using sextets(1,2) [of y 0 x] by simp
qed auto

lemma sextet_bound: "(y :: nat) < 256 \<Longrightarrow> x mod 4 * 16 + y div 16 < 64" "(z :: nat) < 256 \<Longrightarrow> y mod 16 * 4 + z div 64 < 64"
  "(x :: nat) < 256 \<Longrightarrow> x div 4 < 64"
proof -
  have "x mod 4 \<le> 3" "y mod 16 \<le> 15" by simp_all
  moreover have "y < 256 \<Longrightarrow> y div 16 < 16" "z < 256 \<Longrightarrow> z div 64 < 4" "x < 256 \<Longrightarrow> x div 4 < 64"
    by (simp_all add: div_less_iff_less_mult)
  ultimately show "y < 256 \<Longrightarrow> x mod 4 * 16 + y div 16 < 64" "z < 256 \<Longrightarrow> y mod 16 * 4 + z div 64 < 64" "x < 256 \<Longrightarrow> x div 4 < 64"
    by linarith+
qed

lemma encodeQuanta_bound: "list_all (\<lambda>x. x < 256) xs \<Longrightarrow> list_all (\<lambda>v. v < 64) (encodeQuanta xs)"
proof (induction xs rule: encodeQuanta.induct)
  case (2 x y)
  then show ?case using sextet_bound(2) [of 0 y] by (simp add: sextet_bound)
next
  case (3 x)
  then show ?case using sextet_bound(1) [of 0 x] by (simp add: sextet_bound)
qed (auto simp: sextet_bound)

lemma indexOf_nth: "distinct xs \<Longrightarrow> i < length xs \<Longrightarrow> indexOf (xs ! i) xs = Some i"
  by (induction xs arbitrary: i) (auto simp: nth_Cons split: nat.split)

lemma b64Alphabet_facts: "distinct (b64Alphabet url)" "length (b64Alphabet url) = 64"
  "CHR 0x0A \<notin> set (b64Alphabet url)" "CHR 0x0D \<notin> set (b64Alphabet url)"
  "CHR ''.'' \<notin> set (b64Alphabet url)" "CHR ''='' \<notin> set (b64Alphabet url)"
  by (cases url; simp add: b64Alphabet_def)+

lemma those_map_Some: "(\<And>x. x \<in> set xs \<Longrightarrow> f x = Some (g x)) \<Longrightarrow> those (map f xs) = Some (map g xs)"
  by (induction xs) auto

lemma rawEncode_set: "set (rawEncode url s) \<subseteq> set (b64Alphabet url)"
proof -
  have "\<forall>v \<in> set (encodeQuanta (map of_char s)). v < 64"
    using encodeQuanta_bound [of "map of_char s"] by (simp add: list_all_iff)
  then show ?thesis using b64Alphabet_facts(2) by (auto simp: rawEncode_def)
qed

lemma rawDecode_roundtrip: "rawDecode url (rawEncode url s) = Some s"
proof -
  let ?q = "encodeQuanta (map of_char s) :: nat list"
  have b: "list_all (\<lambda>x. x < 256) (map of_char s :: nat list)"
    by (simp add: list_all_iff)
  have q: "\<forall>v \<in> set ?q. v < 64"
    using encodeQuanta_bound [OF b] by (simp add: list_all_iff)
  have "filter (\<lambda>c. c \<noteq> CHR 0x0A \<and> c \<noteq> CHR 0x0D) (rawEncode url s) = rawEncode url s"
    using rawEncode_set [of url s] b64Alphabet_facts(3,4) [of url] by (intro filter_True) blast
  moreover have "those (map (\<lambda>c. indexOf c (b64Alphabet url)) (rawEncode url s)) = Some ?q"
    unfolding rawEncode_def map_map comp_def
    using those_map_Some [of ?q "\<lambda>v. indexOf (b64Alphabet url ! v) (b64Alphabet url)" "\<lambda>v. v"]
      q indexOf_nth [OF b64Alphabet_facts(1)] b64Alphabet_facts(2) by simp
  ultimately show ?thesis
    by (simp add: rawDecode_def decode_encodeQuanta [OF b] comp_def)
qed

lemma upsertFirst_ex: "new \<in> set (upsertFirst p new xs)"
  by (induction xs) auto

lemma upsertFirst_others: "filter (\<lambda>x. \<not> p x) (upsertFirst p new xs) = (if p new then filter (\<lambda>x. \<not> p x) xs
    else filter (\<lambda>x. \<not> p x) (upsertFirst p new xs))"
  by (induction xs) auto

lemma upsertFirst_count:
  "p new \<Longrightarrow> length (filter p (upsertFirst p new xs)) = max 1 (length (filter p xs))"
  by (induction xs) auto

lemma upsertFirst_idem: "p new \<Longrightarrow> upsertFirst p new (upsertFirst p new xs) = upsertFirst p new xs"
  by (induction xs) auto

section \<open>Lemmas on strings\<close>

lemma hasPrefix_iff: "hasPrefix s p \<longleftrightarrow> (\<exists>r. s = p @ r)"
  by (auto simp: hasPrefix_def) (metis append_take_drop_id)

lemma hasPrefix_append [simp]: "hasPrefix (p @ r) p"
  by (simp add: hasPrefix_def)

lemma hasSuffix_iff: "hasSuffix s p \<longleftrightarrow> (\<exists>r. s = r @ p)"
  by (auto simp: hasSuffix_def) (metis append_take_drop_id)

lemma strContains_byte [simp]: "strContains s [c] \<longleftrightarrow> c \<in> set s"
  by (induction s) (auto simp: hasPrefix_def)

lemma cutByte_None [simp]: "cutByte c s = None \<longleftrightarrow> c \<notin> set s"
  by (induction s) auto

lemma cutByte_Some: "cutByte c s = Some (a, b) \<longleftrightarrow> s = a @ c # b \<and> c \<notin> set a"
proof (induction s arbitrary: a)
  case Nil
  then show ?case by simp
next
  case (Cons x xs)
  then show ?case by (cases a) (auto split: if_splits)
qed

lemma afterLastByte_None [simp]: "afterLastByte c s = None \<longleftrightarrow> c \<notin> set s"
  by (induction s) (auto split: option.splits)

lemma afterLastByte_Some:
  "afterLastByte c s = Some r \<Longrightarrow> \<exists>a. s = a @ c # r \<and> c \<notin> set r"
proof (induction s)
  case Nil
  then show ?case by simp
next
  case (Cons x xs)
  then show ?case by (auto split: option.splits if_splits simp: Cons_eq_append_conv)
qed

lemma splitByte_neq_Nil [simp]: "splitByte c s \<noteq> []"
  by (induction s) (auto split: list.splits)

lemma join_splitByte: "joinWith [c] (splitByte c s) = s"
proof (induction s)
  case Nil
  then show ?case by simp
next
  case (Cons x xs)
  obtain w ws where s: "splitByte c xs = w # ws"
    by (cases "splitByte c xs") auto
  show ?case using Cons s by (cases ws) auto
qed

lemma splitByte_no_sep: "w \<in> set (splitByte c s) \<Longrightarrow> c \<notin> set w"
proof (induction s arbitrary: w)
  case Nil
  then show ?case by simp
next
  case (Cons x xs)
  then show ?case by (cases "splitByte c xs") (auto split: if_splits)
qed

lemma splitByte_id: "c \<notin> set s \<Longrightarrow> splitByte c s = [s]"
  by (induction s) auto

lemma splitByte_append: "splitByte c (a @ c # b) = splitByte c a @ splitByte c b"
proof (induction a)
  case Nil
  then show ?case by simp
next
  case (Cons x xs)
  then show ?case by (cases "splitByte c xs") auto
qed

lemma last_splitByte: "c \<notin> set b \<Longrightarrow> last (splitByte c (a @ c # b)) = b"
  by (simp add: splitByte_append splitByte_id)

lemma replaceByte_no_byte: "c \<notin> set r \<Longrightarrow> c \<notin> set (replaceByte c r s)"
  by (auto simp: replaceByte_def)

lemma replaceByte_id: "c \<notin> set s \<Longrightarrow> replaceByte c r s = s"
  by (induction s) (auto simp: replaceByte_def)

end
