(* ===== verification/Types.thy ===== *)
theory Types
  imports Prelude
begin

text \<open>
  The data of the operator. First the fields of Kubernetes, Tekton and OpenShift objects that
  the operator reads or writes (their Go types are in the client libraries); then one record
  per struct of \<^verbatim>\<open>api/v1\<close>, field by field, with the struct's field order. A pointer is an
  \<open>option\<close>, a slice a list, a \<^verbatim>\<open>map[string]string\<close> a partial function, a defined string type
  (\<^verbatim>\<open>type PlatformPhase string\<close>) a string, an \<^verbatim>\<open>int32\<close> an integer (the operator formats, copies
  and compares these values, it never computes with them). \<^verbatim>\<open>TypeMeta\<close> is the constructor of
  \<open>kobj\<close> an object is stored under.
\<close>

section \<open>Kubernetes data\<close>

type_synonym strmap = "string \<Rightarrow> string option"

text \<open>A \<^verbatim>\<open>resource.Quantity\<close>, by its text; comparing and parsing quantities is not the
  operator's code.\<close>

type_synonym quantity = string

record localObjectReference =
  lor_Name :: string

record condition =
  c_Type :: string
  c_Status :: string
  c_ObservedGeneration :: int
  c_LastTransitionTime :: gotime
  c_Reason :: string
  c_Message :: string

definition zeroTime :: gotime where
  "zeroTime = \<lparr>t_year = 1, t_month = 1, t_day = 1, t_hour = 0, t_minute = 0, t_second = 0\<rparr>"

record ownerReference =
  or_APIVersion :: string
  or_Kind :: string
  or_Name :: string
  or_UID :: string
  or_Controller :: bool

record objectMeta =
  m_Name :: string
  m_GenerateName :: string
  m_Namespace :: string
  m_UID :: string
  m_ResourceVersion :: string
  m_Generation :: int
  m_Labels :: strmap
  m_Annotations :: strmap
  m_Finalizers :: "string list"
  m_OwnerReferences :: "ownerReference list"
  m_CreationTimestamp :: gotime
  m_DeletionTimestamp :: "gotime option"

definition emptyMeta :: objectMeta where
  "emptyMeta = \<lparr>m_Name = [], m_GenerateName = [], m_Namespace = [], m_UID = [], m_ResourceVersion = [], m_Generation = 0,
     m_Labels = Map.empty, m_Annotations = Map.empty, m_Finalizers = [], m_OwnerReferences = [],
     m_CreationTimestamp = zeroTime, m_DeletionTimestamp = None\<rparr>"

text \<open>A nil Go map reads as empty, but writing to it panics: \<open>None\<close> is the nil map.\<close>

record configMap =
  cm_Meta :: objectMeta
  cm_Data :: "strmap option"

record secret =
  sec_Meta :: objectMeta
  sec_Type :: string
  sec_Data :: "strmap option"
  sec_StringData :: "strmap option"

record serviceAccount =
  sa_Meta :: objectMeta
  sa_ImagePullSecrets :: "string list"

text \<open>A typed object of another kind of the core APIs (\<^verbatim>\<open>Deployment\<close>, \<^verbatim>\<open>StatefulSet\<close>, \<^verbatim>\<open>Service\<close>, \<^verbatim>\<open>Role\<close>, ...), by the fields of
  its JSON form.\<close>

record nativeObj =
  n_Kind :: string
  n_Meta :: objectMeta
  n_Spec :: goval
  n_Status :: goval

record persistentVolumeClaim =
  pvc_Meta :: objectMeta
  pvc_AccessModes :: "string list"
  pvc_Requests :: "(string \<Rightarrow> quantity option) option"
  pvc_Capacity :: "string \<Rightarrow> quantity option"
  pvc_Phase :: string

record nodeAddress =
  na_Type :: string
  na_Address :: string

record nodeCondition =
  nc_Type :: string
  nc_Status :: string

record node =
  node_Meta :: objectMeta
  node_Addresses :: "nodeAddress list"
  node_Conditions :: "nodeCondition list"

record containerStatus =
  cs_RestartCount :: int
  cs_Waiting :: "string option"

record pod =
  pod_Meta :: objectMeta
  pod_Containers :: "string list" \<comment> \<open>their names\<close>
  pod_Phase :: string
  pod_ContainerStatuses :: "containerStatus list"
  pod_Claims :: "string list" \<comment> \<open>the claims of its volumes\<close>

record secretKeySelector =
  sks_Name :: string
  sks_Key :: string

record envVar =
  ev_Name :: string
  ev_Value :: string
  ev_SecretKeyRef :: "secretKeySelector option"

record container =
  ctr_Name :: string
  ctr_Image :: string
  ctr_Command :: "string list"
  ctr_Args :: "string list"
  ctr_Env :: "envVar list"

record job =
  job_Meta :: objectMeta
  job_TTLSecondsAfterFinished :: int
  job_BackoffLimit :: int
  job_RestartPolicy :: string
  job_Containers :: "container list"

text \<open>Tekton: the parts of a \<^verbatim>\<open>PipelineRun\<close> the operator builds and reads. Parameters are string
  parameters.\<close>

datatype workspaceSource =
    WsPVC string
  | WsConfigMap string "bool option"
  | WsSecret string
  | WsEmptyDir

record workspaceBinding =
  wb_Name :: string
  wb_Source :: workspaceSource

record param =
  p_Name :: string
  p_Value :: string

record pipelineTask =
  pt_Name :: string
  pt_StepEnvs :: "string list list option" \<comment> \<open>\<^verbatim>\<open>TaskSpec.Steps[_].Env[_].Name\<close>\<close>

record runCondition =
  rc_Type :: string
  rc_Status :: string

record pipelineRun =
  pr_Meta :: objectMeta
  pr_PipelineRef :: string
  pr_PipelineSpec :: "pipelineTask list option"
  pr_Params :: "param list"
  pr_Workspaces :: "workspaceBinding list"
  pr_TimeoutPipeline :: duration
  pr_TimeoutTasks :: duration
  pr_StartTime :: "gotime option"
  pr_CompletionTime :: "gotime option"
  pr_Conditions :: "runCondition list"
  pr_Results :: "param list"

text \<open>Objects of kinds without a Go type (\<^verbatim>\<open>unstructured.Unstructured\<close>): the metadata its accessor
  methods give and the content map.\<close>

record gvk =
  g_Group :: string
  g_Version :: string
  g_Kind :: string

record unstr =
  u_GVK :: gvk
  u_Meta :: objectMeta
  u_Object :: goval

section \<open>The resources of package \<^verbatim>\<open>api/v1\<close>\<close>

type_synonym platformMode = string
type_synonym triggerType = string
type_synonym platformPhase = string
type_synonym bootstrapPhase = string
type_synonym collectionPhase = string

record artifactStorageConfig =
  ast_StorageClass :: "string"
  ast_Size :: "string"

record olmSubscriptionConfig =
  olm_Disabled :: "bool"
  olm_Channel :: "string"
  olm_ApprovalStrategy :: "string"
  olm_CatalogSource :: "string"
  olm_CatalogSourceNS :: "string"
  olm_StartingCSV :: "string"

record operatorConfig =
  ops_OpenShiftPipelines :: "olmSubscriptionConfig option"
  ops_Keycloak :: "olmSubscriptionConfig option"
  ops_RHTAS :: "olmSubscriptionConfig option"
  ops_RHTPA :: "olmSubscriptionConfig option"
  ops_QuayOperator :: "olmSubscriptionConfig option"
  ops_OSUS :: "olmSubscriptionConfig option"

record managedKeycloakConfig =
  mkc_Enabled :: "bool"
  mkc_Realm :: "string"
  mkc_AdminUser :: "string"
  mkc_AdminPassword :: "string"
  mkc_TLSSecret :: "localObjectReference option"

record rhtasoidcConfig =
  tasoidc_Issuer :: "string"
  tasoidc_ClientID :: "string"
  tasoidc_ClientSecret :: "string"
  tasoidc_Type :: "string"
  tasoidc_Managed :: "managedKeycloakConfig option"

record rhtasDatabaseConfig =
  tasdb_Host :: "string"
  tasdb_Name :: "string"
  tasdb_Port :: "int"
  tasdb_Username :: "string"
  tasdb_Password :: "string"

record rhtasInstallerConfig =
  tas_OIDC :: "rhtasoidcConfig option"
  tas_Database :: "rhtasDatabaseConfig option"
  tas_TrustedRootKeys :: "localObjectReference option"

record rhtpaStorageConfig =
  tpast_Type :: "string"
  tpast_Size :: "string"
  tpast_AccessKey :: "string"
  tpast_SecretKey :: "string"
  tpast_Bucket :: "string"
  tpast_Region :: "string"

record rhtpaDatabaseConfig =
  tpadb_Host :: "string"
  tpadb_Name :: "string"
  tpadb_Username :: "string"
  tpadb_Password :: "string"

record rhtpaoidcConfig =
  tpaoidc_Issuer :: "string"
  tpaoidc_ClientID :: "string"
  tpaoidc_ClientSecret :: "string"

record rhtpaImportersConfig =
  tpaimp_RedHatSBOMs :: "bool"
  tpaimp_CVE :: "bool"
  tpaimp_OSVGitHub :: "bool"

record rhtpaInstallerConfig =
  tpa_Storage :: "rhtpaStorageConfig option"
  tpa_Database :: "rhtpaDatabaseConfig option"
  tpa_OIDC :: "rhtpaoidcConfig option"
  tpa_DatabaseStorageSize :: "string"
  tpa_DatabaseMaxStorageSize :: "string"
  tpa_Importers :: "rhtpaImportersConfig option"

record quayStorageConfig =
  qst_Type :: "string"
  qst_Size :: "string"
  qst_StorageClass :: "string"
  qst_S3Bucket :: "string"
  qst_S3AccessKey :: "string"
  qst_S3SecretKey :: "string"
  qst_S3Endpoint :: "string"

record quayDatabaseConfig =
  qdb_Host :: "string"
  qdb_Name :: "string"
  qdb_Port :: "int"
  qdb_Username :: "string"
  qdb_Password :: "string"

record clairConfig =
  clair_UseRedHatVEXOnly :: "bool"

record managedQuayConfig =
  mq_Enabled :: "bool"
  mq_OrganizationName :: "string"
  mq_Storage :: "quayStorageConfig option"
  mq_Database :: "quayDatabaseConfig option"
  mq_AdminUser :: "string"
  mq_AdminPassword :: "string"
  mq_Clair :: "clairConfig option"
  mq_Replicas :: "int option"

record quayInstallerConfig =
  quay_Managed :: "managedQuayConfig option"
  quay_ExternalURL :: "string"

record certIssuerReference =
  cir_Name :: "string"
  cir_Kind :: "string"

record rhcosCollectionConfig =
  rhc_Enabled :: "bool"
  rhc_ServerBaseImage :: "string"

record connectedConfig =
  con_CollectionSchedule :: "string"
  con_MirrorRegistry :: "string"
  con_ArtifactStorage :: "artifactStorageConfig"
  con_TriggerTypes :: "triggerType list"
  con_Operators :: "operatorConfig option"
  con_RHTAS :: "rhtasInstallerConfig option"
  con_RHTPA :: "rhtpaInstallerConfig option"
  con_Quay :: "quayInstallerConfig option"
  con_CertIssuer :: "certIssuerReference option"
  con_RHCOSCollection :: "rhcosCollectionConfig option"
  con_MirrorOperatorCatalog :: "string"

record mirrorRegistryConfig =
  mrc_DataPath :: "string"
  mrc_Port :: "int"
  mrc_QuayImage :: "string"
  mrc_RedisImage :: "string"
  mrc_PauseImage :: "string"
  mrc_ImagePullSecret :: "localObjectReference option"

record airgappedQuayStorageConfig =
  aqst_Size :: "string"
  aqst_StorageClass :: "string"

record airgappedQuayConfig =
  aq_Enabled :: "bool"
  aq_OrganizationName :: "string"
  aq_Storage :: "airgappedQuayStorageConfig option"
  aq_AdminUser :: "string"
  aq_AdminPassword :: "string"
  aq_Clair :: "clairConfig option"
  aq_Replicas :: "int option"

record multiClusterHubConfig =
  mch_ImagePullSecret :: "localObjectReference option"
  mch_CustomCAConfigMap :: "string"
  mch_DisableHubSelfManagement :: "bool"

record hostInventoryVersion =
  hiv_OpenshiftVersion :: "string"
  hiv_CpuArchitecture :: "string"

record infraEnvConfig =
  ie_Enabled :: "bool"
  ie_Namespace :: "string"
  ie_NetworkType :: "string"
  ie_NMStateConfigLabels :: "string \<Rightarrow> string option"
  ie_SSHAuthorizedKey :: "string"
  ie_AdditionalNTPSources :: "string list"
  ie_CpuArchitecture :: "string"
  ie_ImageType :: "string"

record credentialConfig =
  cred_Enabled :: "bool"
  cred_Name :: "string"
  cred_Namespace :: "string"
  cred_BaseDomain :: "string"

record hostInventoryConfig =
  hi_Enabled :: "bool"
  hi_RHCOSImage :: "string"
  hi_Versions :: "hostInventoryVersion list"
  hi_DatabaseStorageSize :: "string"
  hi_FilesystemStorageSize :: "string"
  hi_ImageStorageSize :: "string"
  hi_StorageClass :: "string"
  hi_InfraEnv :: "infraEnvConfig option"
  hi_Credential :: "credentialConfig option"

record airgappedACMConfig =
  acm_Enabled :: "bool"
  acm_Subscription :: "olmSubscriptionConfig option"
  acm_MultiClusterHub :: "multiClusterHubConfig option"
  acm_HostInventory :: "hostInventoryConfig option"

record airgappedRHTASConfig =
  agtas_TrustedRootKeys :: "localObjectReference option"

record airgappedConfig =
  ag_ManagementCluster :: "bool"
  ag_MirrorRegistry :: "string"
  ag_BootstrapEnabled :: "bool"
  ag_ImportPath :: "string"
  ag_ImportScanSchedule :: "string"
  ag_RegistryCredentials :: "localObjectReference option"
  ag_Quay :: "airgappedQuayConfig option"
  ag_ACM :: "airgappedACMConfig option"
  ag_RHTAS :: "airgappedRHTASConfig option"
  ag_MirrorRegistryConfig :: "mirrorRegistryConfig option"
  ag_DefaultImageSetConfig :: "string"
  ag_VerifyPublicKey :: "localObjectReference option"

record tlsConfig =
  tls_Termination :: "string"

record routeConfig =
  rt_Host :: "string"
  rt_TLS :: "tlsConfig option"

record consolePluginConfig =
  cpl_Enabled :: "bool"
  cpl_Image :: "string"

record airgapArchitectConfig =
  arch_Enabled :: "bool"
  arch_FrontendImage :: "string"
  arch_BackendImage :: "string"
  arch_ConsolePlugin :: "consolePluginConfig option"
  arch_Replicas :: "int"
  arch_Route :: "routeConfig option"
  arch_PullSecret :: "localObjectReference option"
  arch_GitHubTokenSecret :: "localObjectReference option"

record gitOpsConfig =
  gop_Enabled :: "bool"
  gop_RepositoryURL :: "string"
  gop_Branch :: "string"
  gop_Path :: "string"
  gop_Credentials :: "localObjectReference option"

record disconnectedPlatformSpec =
  dps_Mode :: "platformMode"
  dps_Connected :: "connectedConfig option"
  dps_Airgapped :: "airgappedConfig option"
  dps_Architect :: "airgapArchitectConfig option"
  dps_GitOps :: "gitOpsConfig option"

record collectionInfo =
  ci_Version :: "string"
  ci_Timestamp :: "gotime"
  ci_Size :: "string"
  ci_Status :: "string"

record importInfo =
  ii_Version :: "string"
  ii_Timestamp :: "gotime"
  ii_Status :: "string"

record componentStatus =
  cst_Name :: "string"
  cst_Status :: "string"
  cst_Kind :: "string"
  cst_APIGroup :: "string"
  cst_Namespace :: "string"
  cst_URL :: "string"
  cst_LastCheck :: "gotime option"

record rhtasRootKeysInfo =
  rki_ConfigMap :: "string"
  rki_FulcioRootHash :: "string"
  rki_RekorKeyHash :: "string"
  rki_LastUpdated :: "gotime"
  rki_TUFRepositoryURL :: "string"

record disconnectedPlatformStatus =
  dpst_Phase :: "platformPhase"
  dpst_Conditions :: "condition list"
  dpst_LastCollection :: "collectionInfo option"
  dpst_CollectionHistory :: "collectionInfo list"
  dpst_LastImport :: "importInfo option"
  dpst_ImportHistory :: "importInfo list"
  dpst_Components :: "componentStatus list"
  dpst_RHTASRootKeys :: "rhtasRootKeysInfo option"

record disconnectedPlatform =
  dp_ObjectMeta :: "objectMeta"
  dp_Spec :: "disconnectedPlatformSpec"
  dp_Status :: "disconnectedPlatformStatus"

record bundleSource =
  bs_PVC :: "string"
  bs_Filename :: "string"

record registryConfig =
  reg_URL :: "string"
  reg_CAConfigMap :: "string"

record publishConfig =
  pub_CatalogSource :: "bool"
  pub_ImageContentSourcePolicy :: "bool"

record enterpriseContractPolicy =
  ecp_ConfigMapRef :: "localObjectReference"

record cosignVerificationConfig =
  cvc_PublicKeySecretRef :: "localObjectReference option"
  cvc_EnterpriseContractPolicy :: "enterpriseContractPolicy option"

record mirrorImportSpec =
  mis_ImageSetConfig :: "string"
  mis_Bundle :: "bundleSource"
  mis_TargetRegistry :: "registryConfig"
  mis_Publish :: "publishConfig"
  mis_CollectionVersion :: "string"
  mis_Verify :: "cosignVerificationConfig option"

record mirrorImportStatus =
  mist_Conditions :: "condition list"
  mist_Phase :: "string"
  mist_PipelineRunRef :: "string"

record mirrorImport =
  mi_ObjectMeta :: "objectMeta"
  mi_Spec :: "mirrorImportSpec"
  mi_Status :: "mirrorImportStatus"

record networkConfig =
  net_ClusterNetwork :: "string"
  net_ServiceNetwork :: "string"
  net_NetworkType :: "string"

record nodeResources =
  nres_CPU :: "int"
  nres_Memory :: "int"
  nres_Disk :: "int"

record nodePoolConfig =
  npc_Replicas :: "int"
  npc_Resources :: "nodeResources option"

record operatorInstall =
  oi_Name :: "string"
  oi_Namespace :: "string"
  oi_Channel :: "string"

record postInstallConfig =
  pic_Operators :: "operatorInstall list"

record clusterBootstrapSpec =
  cbs_Version :: "string"
  cbs_Platform :: "string"
  cbs_InstallConfig :: "localObjectReference"
  cbs_MirrorRegistry :: "string"
  cbs_PullSecret :: "localObjectReference"
  cbs_TrustBundle :: "localObjectReference option"
  cbs_Network :: "networkConfig option"
  cbs_ControlPlane :: "nodePoolConfig option"
  cbs_Compute :: "nodePoolConfig option"
  cbs_PostInstall :: "postInstallConfig option"

record clusterBootstrapStatus =
  cbst_Phase :: "bootstrapPhase"
  cbst_Conditions :: "condition list"
  cbst_Kubeconfig :: "localObjectReference option"
  cbst_ConsoleURL :: "string"
  cbst_StartTime :: "gotime option"
  cbst_CompletionTime :: "gotime option"

record clusterBootstrap =
  cb_ObjectMeta :: "objectMeta"
  cb_Spec :: "clusterBootstrapSpec"
  cb_Status :: "clusterBootstrapStatus"

record s3Config =
  s3_Bucket :: "string"
  s3_Region :: "string"
  s3_Endpoint :: "string"
  s3_SecretRef :: "localObjectReference"

record bundleOutput =
  bo_PVC :: "string"
  bo_Filename :: "string"
  bo_S3 :: "s3Config option"

record artifactOutput =
  ao_Output :: "bundleOutput option"

record keylessSigningConfig =
  ksc_FulcioURL :: "string"
  ksc_RekorURL :: "string"
  ksc_TUFURL :: "string"
  ksc_OIDCIssuer :: "string"
  ksc_OIDCClientID :: "string"
  ksc_OIDCClientSecret :: "localObjectReference option"

record cosignSigningConfig =
  csc_KeySecretRef :: "localObjectReference option"
  csc_PasswordSecretRef :: "localObjectReference option"
  csc_Keyless :: "keylessSigningConfig option"

record collectionPipelineSpec =
  cps_ImageSetConfig :: "string"
  cps_TriggerType :: "triggerType"
  cps_Incremental :: "bool"
  cps_BaseVersion :: "string"
  cps_Storage :: "artifactOutput"
  cps_Signing :: "cosignSigningConfig option"
  cps_Timeout :: "duration option"
  cps_ParentPipeline :: "string"
  cps_StorageSize :: "quantity option"

record collectionPipelineStatus =
  cpst_Conditions :: "condition list"
  cpst_Phase :: "string"
  cpst_Version :: "string"
  cpst_PipelineRunRef :: "string"
  cpst_ConfigMapRef :: "string"
  cpst_StartTime :: "gotime option"
  cpst_CompletionTime :: "gotime option"
  cpst_BundleURL :: "string"
  cpst_SignatureURL :: "string"
  cpst_SbomUrl :: "string"
  cpst_WorkingPVCName :: "string"
  cpst_ParentPipelineVersion :: "string"

record collectionPipeline =
  cp_ObjectMeta :: "objectMeta"
  cp_Spec :: "collectionPipelineSpec"
  cp_Status :: "collectionPipelineStatus"

record mirrorReleaseSpec =
  mrs_ImageSetConfig :: "string"
  mrs_Output :: "bundleOutput option"

record mirrorReleaseStatus =
  mrst_Conditions :: "condition list"
  mrst_Phase :: "string"
  mrst_PipelineRunRef :: "string"
  mrst_ConfigMapRef :: "string"

record mirrorRelease =
  mr_ObjectMeta :: "objectMeta"
  mr_Spec :: "mirrorReleaseSpec"
  mr_Status :: "mirrorReleaseStatus"

section \<open>The \<^verbatim>\<open>ImageSetConfiguration\<close> document of oc-mirror\<close>

record channelConfig =
  ch_Name :: string
  ch_MinVersion :: string
  ch_MaxVersion :: string
  ch_Full :: bool

record packageConfig =
  pk_Name :: string
  pk_DefaultChannel :: string
  pk_Channels :: "channelConfig list"

record isOperatorConfig =
  op_Catalog :: string
  op_Packages :: "packageConfig list"

record imageConfig =
  im_Name :: string

record platformConfig =
  pf_Channels :: "channelConfig list"
  pf_Graph :: bool
  pf_Architectures :: "string list"

record helmRepoConfig =
  hr_Name :: string
  hr_URL :: string

record helmChartConfig =
  hc_Name :: string
  hc_Repository :: string
  hc_Version :: string

record helmConfig =
  helm_Repositories :: "helmRepoConfig list"
  helm_Charts :: "helmChartConfig list"

record imageSetConfigurationMirror =
  ism_Platform :: "platformConfig option"
  ism_Operators :: "isOperatorConfig list"
  ism_AdditionalImages :: "imageConfig list"
  ism_Helm :: "helmConfig option"

record imageSetConfiguration =
  isc_Kind :: string
  isc_APIVersion :: string
  isc_Mirror :: imageSetConfigurationMirror

section \<open>Constants of package \<^verbatim>\<open>api/v1\<close>\<close>

definition PlatformModeConnected :: platformMode where "PlatformModeConnected = ''connected''"
definition PlatformModeAirgapped :: platformMode where "PlatformModeAirgapped = ''airgapped''"

definition PlatformPhaseReady :: platformPhase where "PlatformPhaseReady = ''Ready''"
definition PlatformPhaseError :: platformPhase where "PlatformPhaseError = ''Error''"

definition BootstrapPhasePending :: bootstrapPhase where "BootstrapPhasePending = ''Pending''"

definition CollectionPhaseComplete :: collectionPhase where "CollectionPhaseComplete = ''Complete''"

lemmas api_consts [go_simps] =
  PlatformModeConnected_def PlatformModeAirgapped_def PlatformPhaseReady_def PlatformPhaseError_def
  BootstrapPhasePending_def CollectionPhaseComplete_def

end
