(* ===== verification/Client.thy ===== *)
theory Client
  imports Types
begin

text \<open>
  The boundary of the operator. Everything the controllers call that is not in this repository
  is a field of the record \<open>env\<close>, an argument of the definitions that use it: the API
  server behind \<^verbatim>\<open>client.Client\<close>, the clock, the environment variables, and the library
  functions on unstructured content, YAML, quantities and Tekton runs. No behaviour of these
  functions is assumed here; a theorem that needs one states it as a hypothesis.

  A controller is a program in the state monad over \<open>st\<close>: the world the parameters act on
  (of any type) and the trace of the API requests made so far, each with its response. The
  program logic \<open>spec m R\<close> says that every run of \<open>m\<close>, whatever the server answers, appends
  events \<open>es\<close> to the trace and returns \<open>r\<close> with \<open>R es r\<close>.
\<close>

section \<open>Requests and the environment\<close>

datatype kobj =
    OPlatform disconnectedPlatform
  | OPipeline collectionPipeline
  | OImport mirrorImport
  | OBootstrap clusterBootstrap
  | OConfigMap configMap
  | OSecret secret
  | OPVC persistentVolumeClaim
  | OPipelineRun pipelineRun
  | OJob job
  | ONode node
  | OPod pod
  | ONamespace objectMeta
  | OServiceAccount serviceAccount
  | ONative nativeObj
  | OUnstr unstr

datatype kind =
    KPlatform | KPipeline | KImport | KBootstrap | KConfigMap | KSecret | KPVC
  | KPipelineRun | KJob | KNode | KPod | KNamespace | KServiceAccount | KNative string | KUnstr gvk

type_synonym nsname = "string \<times> string" \<comment> \<open>namespace and name\<close>

record listOptions =
  lo_Namespace :: "string option"
  lo_Labels :: strmap

datatype request =
    RGet kind nsname
  | RList kind listOptions
  | RCreate kobj
  | RUpdate kobj
  | RStatusUpdate kobj
  | RDelete kind nsname

text \<open>A request fails with an error or answers with objects: the one read, created or updated as
  the server now holds it, the items of a list, nothing for a deletion.\<close>

type_synonym response = "kobj list res"

type_synonym event = "request \<times> response"

record 'w env =
  api :: "request \<Rightarrow> 'w \<Rightarrow> response \<times> 'w"
  clock :: "'w \<Rightarrow> gotime \<times> 'w"
  getenv :: "string \<Rightarrow> string"
  httpPostForm :: "string \<Rightarrow> (string \<times> string) list \<Rightarrow> 'w \<Rightarrow> (int \<times> string) res \<times> 'w"
  jsonDecode :: "string \<Rightarrow> gomap res" \<comment> \<open>\<^verbatim>\<open>json.Decoder.Decode\<close>\<close>
  jsonUnmarshal :: "string \<Rightarrow> gomap option res" \<comment> \<open>the text \<^verbatim>\<open>null\<close> gives the nil map\<close>
  nestedString :: "goval \<Rightarrow> string list \<Rightarrow> string \<times> bool \<times> goerr option"
  nestedSlice :: "goval \<Rightarrow> string list \<Rightarrow> goval list \<times> bool \<times> goerr option"
  nestedStringSlice :: "goval \<Rightarrow> string list \<Rightarrow> string list \<times> bool \<times> goerr option"
  nestedMap :: "goval \<Rightarrow> string list \<Rightarrow> gomap \<times> bool \<times> goerr option"
  setNestedField :: "goval \<Rightarrow> goval \<Rightarrow> string list \<Rightarrow> goval res"
  quantityCmp :: "quantity \<Rightarrow> quantity \<Rightarrow> int"
  newControllerRef :: "objectMeta \<Rightarrow> gvk \<Rightarrow> ownerReference"
  isDone :: "pipelineRun \<Rightarrow> bool"
  yamlToMap :: "string \<Rightarrow> gomap res"
  yamlOfMap :: "gomap \<Rightarrow> string res"
  yamlToConfig :: "string \<Rightarrow> imageSetConfiguration res"
  yamlOfConfig :: "imageSetConfiguration \<Rightarrow> string res"

record 'w st =
  world :: 'w
  trace :: "event list"

text \<open>A nil map reads as the empty one.\<close>

fun orEmptyMap :: "gomap option \<Rightarrow> gomap" where
  "orEmptyMap None = Map.empty"
| "orEmptyMap (Some m) = m"

type_synonym ('w, 'a) go = "('w st, 'a) state"

abbreviation return :: "'a \<Rightarrow> ('w, 'a) go" where "return \<equiv> State_Monad.return"

definition call :: "('w, 'x) env_scheme \<Rightarrow> request \<Rightarrow> ('w, response) go" where
  "call E q = State (\<lambda>s. let (r, w') = api E q (world s) in (r, \<lparr>world = w', trace = trace s @ [(q, r)]\<rparr>))"

text \<open>Effects that are not API requests: the clock and HTTP requests.\<close>

definition effect :: "('w \<Rightarrow> 'a \<times> 'w) \<Rightarrow> ('w, 'a) go" where
  "effect f = State (\<lambda>s. let (r, w') = f (world s) in (r, s\<lparr>world := w'\<rparr>))"

section \<open>The typed client\<close>

text \<open>An answer that is not an object of the requested type is a decoding error.\<close>

definition decodeError :: goerr where
  "decodeError = errorf ''unable to decode the response''"

fun decode1 :: "(kobj \<Rightarrow> 'a option) \<Rightarrow> response \<Rightarrow> 'a res" where
  "decode1 prj (Inl e) = Inl e"
| "decode1 prj (Inr xs) =
     (case map prj xs of [Some a] \<Rightarrow> Inr a | _ \<Rightarrow> Inl decodeError)"

fun decodeAll :: "(kobj \<Rightarrow> 'a option) \<Rightarrow> response \<Rightarrow> 'a list res" where
  "decodeAll prj (Inl e) = Inl e"
| "decodeAll prj (Inr xs) =
     (case those (map prj xs) of Some as \<Rightarrow> Inr as | None \<Rightarrow> Inl decodeError)"

fun decode0 :: "response \<Rightarrow> unit res" where
  "decode0 (Inl e) = Inl e"
| "decode0 (Inr _) = Inr ()"

definition Get :: "('w, 'x) env_scheme \<Rightarrow> kind \<Rightarrow> (kobj \<Rightarrow> 'a option) \<Rightarrow> nsname \<Rightarrow> ('w, 'a res) go" where
  "Get E k prj nn = do { r \<leftarrow> call E (RGet k nn); return (decode1 prj r) }"

definition ListObjs :: "('w, 'x) env_scheme \<Rightarrow> kind \<Rightarrow> (kobj \<Rightarrow> 'a option) \<Rightarrow> listOptions \<Rightarrow> ('w, 'a list res) go" where
  "ListObjs E k prj opts = do { r \<leftarrow> call E (RList k opts); return (decodeAll prj r) }"

definition Create :: "('w, 'x) env_scheme \<Rightarrow> ('a \<Rightarrow> kobj) \<Rightarrow> (kobj \<Rightarrow> 'a option) \<Rightarrow> 'a \<Rightarrow> ('w, 'a res) go" where
  "Create E mk prj x = do { r \<leftarrow> call E (RCreate (mk x)); return (decode1 prj r) }"

definition Update :: "('w, 'x) env_scheme \<Rightarrow> ('a \<Rightarrow> kobj) \<Rightarrow> (kobj \<Rightarrow> 'a option) \<Rightarrow> 'a \<Rightarrow> ('w, 'a res) go" where
  "Update E mk prj x = do { r \<leftarrow> call E (RUpdate (mk x)); return (decode1 prj r) }"

definition StatusUpdate :: "('w, 'x) env_scheme \<Rightarrow> ('a \<Rightarrow> kobj) \<Rightarrow> (kobj \<Rightarrow> 'a option) \<Rightarrow> 'a \<Rightarrow> ('w, 'a res) go" where
  "StatusUpdate E mk prj x = do { r \<leftarrow> call E (RStatusUpdate (mk x)); return (decode1 prj r) }"

definition Delete :: "('w, 'x) env_scheme \<Rightarrow> kind \<Rightarrow> nsname \<Rightarrow> ('w, unit res) go" where
  "Delete E k nn = do { r \<leftarrow> call E (RDelete k nn); return (decode0 r) }"

fun thePlatform where "thePlatform (OPlatform x) = Some x" | "thePlatform _ = None"
fun thePipeline where "thePipeline (OPipeline x) = Some x" | "thePipeline _ = None"
fun theImport where "theImport (OImport x) = Some x" | "theImport _ = None"
fun theBootstrap where "theBootstrap (OBootstrap x) = Some x" | "theBootstrap _ = None"
fun theConfigMap where "theConfigMap (OConfigMap x) = Some x" | "theConfigMap _ = None"
fun theSecret where "theSecret (OSecret x) = Some x" | "theSecret _ = None"
fun thePVC where "thePVC (OPVC x) = Some x" | "thePVC _ = None"
fun thePipelineRun where "thePipelineRun (OPipelineRun x) = Some x" | "thePipelineRun _ = None"
fun theJob where "theJob (OJob x) = Some x" | "theJob _ = None"
fun theNode where "theNode (ONode x) = Some x" | "theNode _ = None"
fun thePod where "thePod (OPod x) = Some x" | "thePod _ = None"
fun theNamespace where "theNamespace (ONamespace x) = Some x" | "theNamespace _ = None"
fun theServiceAccount where "theServiceAccount (OServiceAccount x) = Some x" | "theServiceAccount _ = None"
fun theNative where "theNative (ONative x) = Some x" | "theNative _ = None"
fun theUnstr where "theUnstr (OUnstr x) = Some x" | "theUnstr _ = None"

definition allObjects :: listOptions where
  "allObjects = \<lparr>lo_Namespace = None, lo_Labels = Map.empty\<rparr>"

definition inNamespace :: "string \<Rightarrow> listOptions" where
  "inNamespace ns = \<lparr>lo_Namespace = Some ns, lo_Labels = Map.empty\<rparr>"

definition matchingLabels :: "strmap \<Rightarrow> listOptions" where
  "matchingLabels m = \<lparr>lo_Namespace = None, lo_Labels = m\<rparr>"

text \<open>The outcome of a reconciliation: \<^verbatim>\<open>ctrl.Result\<close> and the error.\<close>

record reconcileResult =
  r_Requeue :: bool
  r_RequeueAfter :: duration

definition noRequeue :: reconcileResult where
  "noRequeue = \<lparr>r_Requeue = False, r_RequeueAfter = 0\<rparr>"

definition requeueAfter :: "duration \<Rightarrow> reconcileResult" where
  "requeueAfter d = \<lparr>r_Requeue = False, r_RequeueAfter = d\<rparr>"

definition requeueNow :: reconcileResult where
  "requeueNow = \<lparr>r_Requeue = True, r_RequeueAfter = 0\<rparr>"

type_synonym outcome = "reconcileResult \<times> goerr option"

text \<open>\<^verbatim>\<open>return ctrl.Result{}, err\<close> with the error of a last call, nil where it succeeded.\<close>

definition finish :: "'a res \<Rightarrow> outcome" where
  "finish r = (noRequeue, errOf r)"

section \<open>Program logic over traces\<close>

definition spec :: "('w, 'a) go \<Rightarrow> (event list \<Rightarrow> 'a \<Rightarrow> bool) \<Rightarrow> bool" where
  "spec m R \<longleftrightarrow> (\<forall>s. \<exists>es. trace (snd (run_state m s)) = trace s @ es \<and> R es (fst (run_state m s)))"

lemma spec_return [simp]: "spec (return x) R \<longleftrightarrow> R [] x"
  by (auto simp: spec_def)

lemma spec_mono: "spec m R \<Longrightarrow> (\<And>es x. R es x \<Longrightarrow> R' es x) \<Longrightarrow> spec m R'"
  unfolding spec_def by blast

lemma specD:
  "spec m R \<Longrightarrow> run_state m s = (x, s') \<Longrightarrow> \<exists>es. trace s' = trace s @ es \<and> R es x"
  unfolding spec_def by (metis fst_conv snd_conv)

lemma spec_run:
  "spec m R \<Longrightarrow> trace s = [] \<Longrightarrow> R (trace (snd (run_state m s))) (fst (run_state m s))"
  unfolding spec_def by (metis append_Nil)

lemma spec_bindI:
  assumes m: "spec m P" and f: "\<And>es x. P es x \<Longrightarrow> spec (f x) (\<lambda>es'. R (es @ es'))"
  shows "spec (State_Monad.bind m f) R"
  unfolding spec_def
proof
  fix s
  obtain x s' where r: "run_state m s = (x, s')" by force
  from specD [OF m r] obtain es where es: "trace s' = trace s @ es" "P es x"
    by blast
  obtain y s'' where r': "run_state (f x) s' = (y, s'')" by force
  from specD [OF f [OF es(2)] r'] obtain es' where "trace s'' = trace s' @ es'" "R (es @ es') y"
    by blast
  with r r' es(1) show "\<exists>es. trace (snd (run_state (State_Monad.bind m f) s)) = trace s @ es \<and>
      R es (fst (run_state (State_Monad.bind m f) s))"
    by auto
qed

lemma spec_bind_seq:
  assumes "spec m P" "\<And>x. spec (f x) R" "\<And>es x es' y. P es x \<Longrightarrow> R es' y \<Longrightarrow> R' (es @ es') y"
  shows "spec (State_Monad.bind m f) R'"
  by (rule spec_bindI [OF assms(1)], rule spec_mono [OF assms(2)]) (rule assms(3))

lemma spec_call: "(\<And>r. R [(q, r)] r) \<Longrightarrow> spec (call E q) R"
  by (auto simp: spec_def call_def split: prod.splits)

lemma spec_effect: "(\<And>x. R [] x) \<Longrightarrow> spec (effect f) R"
  by (auto simp: spec_def effect_def split: prod.splits)

lemma spec_conj: "spec m P \<Longrightarrow> spec m (\<lambda>es x. Q es x) \<Longrightarrow> (\<And>es x. P es x \<Longrightarrow> Q es x \<Longrightarrow> R es x) \<Longrightarrow> spec m R"
  unfolding spec_def by (metis same_append_eq)

text \<open>A typed client call appends exactly one event; the response is arbitrary.\<close>

lemma spec_Get [spec_intros]:
  "(\<And>r. R [(RGet k nn, r)] (decode1 prj r)) \<Longrightarrow> spec (Get E k prj nn) R"
  unfolding Get_def by (rule spec_bindI [OF spec_call [where R = "\<lambda>es r. es = [(RGet k nn, r)]"]]) auto

lemma spec_ListObjs [spec_intros]:
  "(\<And>r. R [(RList k opts, r)] (decodeAll prj r)) \<Longrightarrow> spec (ListObjs E k prj opts) R"
  unfolding ListObjs_def by (rule spec_bindI [OF spec_call [where R = "\<lambda>es r. es = [(RList k opts, r)]"]]) auto

lemma spec_Create [spec_intros]:
  "(\<And>r. R [(RCreate (mk x), r)] (decode1 prj r)) \<Longrightarrow> spec (Create E mk prj x) R"
  unfolding Create_def by (rule spec_bindI [OF spec_call [where R = "\<lambda>es r. es = [(RCreate (mk x), r)]"]]) auto

lemma spec_Update [spec_intros]:
  "(\<And>r. R [(RUpdate (mk x), r)] (decode1 prj r)) \<Longrightarrow> spec (Update E mk prj x) R"
  unfolding Update_def by (rule spec_bindI [OF spec_call [where R = "\<lambda>es r. es = [(RUpdate (mk x), r)]"]]) auto

lemma spec_StatusUpdate [spec_intros]:
  "(\<And>r. R [(RStatusUpdate (mk x), r)] (decode1 prj r)) \<Longrightarrow> spec (StatusUpdate E mk prj x) R"
  unfolding StatusUpdate_def
  by (rule spec_bindI [OF spec_call [where R = "\<lambda>es r. es = [(RStatusUpdate (mk x), r)]"]]) auto

lemma spec_Delete [spec_intros]:
  "(\<And>r. R [(RDelete k nn, r)] (decode0 r)) \<Longrightarrow> spec (Delete E k nn) R"
  unfolding Delete_def by (rule spec_bindI [OF spec_call [where R = "\<lambda>es r. es = [(RDelete k nn, r)]"]]) auto

text \<open>The same calls in front of a continuation, so that a whole program unfolds backwards.\<close>

lemma spec_bind_Get [spec_intros]:
  "(\<And>r. spec (f (decode1 prj r)) (\<lambda>es. R ((RGet k nn, r) # es))) \<Longrightarrow> spec (State_Monad.bind (Get E k prj nn) f) R"
  by (rule spec_bindI, rule spec_Get [where R = "\<lambda>es y. \<exists>r. es = [(RGet k nn, r)] \<and> y = decode1 prj r"]) auto

lemma spec_bind_ListObjs [spec_intros]:
  "(\<And>r. spec (f (decodeAll prj r)) (\<lambda>es. R ((RList k opts, r) # es))) \<Longrightarrow> spec (State_Monad.bind (ListObjs E k prj opts) f) R"
  by (rule spec_bindI, rule spec_ListObjs [where R = "\<lambda>es y. \<exists>r. es = [(RList k opts, r)] \<and> y = decodeAll prj r"]) auto

lemma spec_bind_Create [spec_intros]:
  "(\<And>r. spec (f (decode1 prj r)) (\<lambda>es. R ((RCreate (mk x), r) # es))) \<Longrightarrow> spec (State_Monad.bind (Create E mk prj x) f) R"
  by (rule spec_bindI, rule spec_Create [where R = "\<lambda>es y. \<exists>r. es = [(RCreate (mk x), r)] \<and> y = decode1 prj r"]) auto

lemma spec_bind_Update [spec_intros]:
  "(\<And>r. spec (f (decode1 prj r)) (\<lambda>es. R ((RUpdate (mk x), r) # es))) \<Longrightarrow> spec (State_Monad.bind (Update E mk prj x) f) R"
  by (rule spec_bindI, rule spec_Update [where R = "\<lambda>es y. \<exists>r. es = [(RUpdate (mk x), r)] \<and> y = decode1 prj r"]) auto

lemma spec_bind_StatusUpdate [spec_intros]:
  "(\<And>r. spec (f (decode1 prj r)) (\<lambda>es. R ((RStatusUpdate (mk x), r) # es))) \<Longrightarrow> spec (State_Monad.bind (StatusUpdate E mk prj x) f) R"
  by (rule spec_bindI, rule spec_StatusUpdate [where R = "\<lambda>es y. \<exists>r. es = [(RStatusUpdate (mk x), r)] \<and> y = decode1 prj r"]) auto

lemma spec_bind_Delete [spec_intros]:
  "(\<And>r. spec (f (decode0 r)) (\<lambda>es. R ((RDelete k nn, r) # es))) \<Longrightarrow> spec (State_Monad.bind (Delete E k nn) f) R"
  by (rule spec_bindI, rule spec_Delete [where R = "\<lambda>es y. \<exists>r. es = [(RDelete k nn, r)] \<and> y = decode0 r"]) auto

lemma spec_bind_effect [spec_intros]:
  "(\<And>x. spec (f x) R) \<Longrightarrow> spec (State_Monad.bind (effect g) f) R"
  by (rule spec_bindI, rule spec_effect [where R = "\<lambda>es x. es = []"]) auto

declare spec_effect [spec_intros]

text \<open>The control structures, also in front of a continuation: \<open>intro spec_intros\<close> takes a program
  apart and leaves one condition per path.\<close>

lemma spec_returnI [spec_intros]: "R [] x \<Longrightarrow> spec (return x) R"
  by simp

lemma spec_if [spec_intros]:
  "(b \<Longrightarrow> spec m R) \<Longrightarrow> (\<not> b \<Longrightarrow> spec n R) \<Longrightarrow> spec (if b then m else n) R"
  by simp

lemma spec_case_sum [spec_intros]:
  "(\<And>e. r = Inl e \<Longrightarrow> spec (f e) R) \<Longrightarrow> (\<And>x. r = Inr x \<Longrightarrow> spec (g x) R) \<Longrightarrow>
   spec (case r of Inl e \<Rightarrow> f e | Inr x \<Rightarrow> g x) R"
  by (cases r) auto

lemma spec_case_option [spec_intros]:
  "(r = None \<Longrightarrow> spec f R) \<Longrightarrow> (\<And>x. r = Some x \<Longrightarrow> spec (g x) R) \<Longrightarrow>
   spec (case r of None \<Rightarrow> f | Some x \<Rightarrow> g x) R"
  by (cases r) auto

lemma spec_case_list [spec_intros]:
  "(r = [] \<Longrightarrow> spec f R) \<Longrightarrow> (\<And>x xs. r = x # xs \<Longrightarrow> spec (g x xs) R) \<Longrightarrow>
   spec (case r of [] \<Rightarrow> f | x # xs \<Rightarrow> g x xs) R"
  by (cases r) auto

lemma spec_case_prod [spec_intros]:
  "(\<And>x y. r = (x, y) \<Longrightarrow> spec (f x y) R) \<Longrightarrow> spec (case r of (x, y) \<Rightarrow> f x y) R"
  by (cases r) auto

lemma spec_Let [spec_intros]: "spec (f t) R \<Longrightarrow> spec (Let t f) R"
  by (simp add: Let_def)

lemma spec_bind_return [spec_intros]:
  "spec (f x) R \<Longrightarrow> spec (State_Monad.bind (return x) f) R"
  by simp

lemma spec_bind_bind [spec_intros]:
  "spec (State_Monad.bind m (\<lambda>x. State_Monad.bind (f x) g)) R \<Longrightarrow> spec (State_Monad.bind (State_Monad.bind m f) g) R"
  by (simp add: State_Monad.bind_assoc)

lemma spec_bind_if [spec_intros]:
  "(b \<Longrightarrow> spec (State_Monad.bind m k) R) \<Longrightarrow> (\<not> b \<Longrightarrow> spec (State_Monad.bind n k) R) \<Longrightarrow>
   spec (State_Monad.bind (if b then m else n) k) R"
  by simp

lemma spec_bind_case_sum [spec_intros]:
  "(\<And>e. r = Inl e \<Longrightarrow> spec (State_Monad.bind (f e) k) R) \<Longrightarrow> (\<And>x. r = Inr x \<Longrightarrow> spec (State_Monad.bind (g x) k) R) \<Longrightarrow>
   spec (State_Monad.bind (case r of Inl e \<Rightarrow> f e | Inr x \<Rightarrow> g x) k) R"
  by (cases r) auto

lemma spec_bind_case_option [spec_intros]:
  "(r = None \<Longrightarrow> spec (State_Monad.bind f k) R) \<Longrightarrow> (\<And>x. r = Some x \<Longrightarrow> spec (State_Monad.bind (g x) k) R) \<Longrightarrow>
   spec (State_Monad.bind (case r of None \<Rightarrow> f | Some x \<Rightarrow> g x) k) R"
  by (cases r) auto

lemma spec_bind_case_list [spec_intros]:
  "(r = [] \<Longrightarrow> spec (State_Monad.bind f k) R) \<Longrightarrow> (\<And>x xs. r = x # xs \<Longrightarrow> spec (State_Monad.bind (g x xs) k) R) \<Longrightarrow>
   spec (State_Monad.bind (case r of [] \<Rightarrow> f | x # xs \<Rightarrow> g x xs) k) R"
  by (cases r) auto

lemma spec_bind_case_prod [spec_intros]:
  "(\<And>x y. r = (x, y) \<Longrightarrow> spec (State_Monad.bind (f x y) k) R) \<Longrightarrow>
   spec (State_Monad.bind (case r of (x, y) \<Rightarrow> f x y) k) R"
  by (cases r) auto

lemma spec_bind_Let [spec_intros]:
  "spec (State_Monad.bind (f t) k) R \<Longrightarrow> spec (State_Monad.bind (Let t f) k) R"
  by (simp add: Let_def)

text \<open>A decoded answer determines the response, for the projections of the typed client.\<close>

lemma decode1_Inl: "decode1 prj r = Inl e \<Longrightarrow> r = Inl e \<or> e = decodeError"
  by (cases r) (auto split: list.splits option.splits)

lemma decode1_Inr [simp]: "decode1 prj r = Inr a \<longleftrightarrow> (\<exists>x. r = Inr [x] \<and> prj x = Some a)"
  by (cases r) (auto split: list.splits option.splits)

lemma prj_inverse [simp]:
  "thePlatform x = Some p \<longleftrightarrow> x = OPlatform p" "thePipeline x = Some l \<longleftrightarrow> x = OPipeline l"
  "theImport x = Some i \<longleftrightarrow> x = OImport i" "theBootstrap x = Some b \<longleftrightarrow> x = OBootstrap b"
  "theConfigMap x = Some c \<longleftrightarrow> x = OConfigMap c" "theSecret x = Some s \<longleftrightarrow> x = OSecret s"
  "thePVC x = Some v \<longleftrightarrow> x = OPVC v" "thePipelineRun x = Some n \<longleftrightarrow> x = OPipelineRun n"
  "theJob x = Some j \<longleftrightarrow> x = OJob j" "theNode x = Some d \<longleftrightarrow> x = ONode d"
  "thePod x = Some o' \<longleftrightarrow> x = OPod o'" "theNamespace x = Some m \<longleftrightarrow> x = ONamespace m"
  "theServiceAccount x = Some a \<longleftrightarrow> x = OServiceAccount a" "theNative x = Some t \<longleftrightarrow> x = ONative t"
  "theUnstr x = Some u \<longleftrightarrow> x = OUnstr u"
  by (cases x; auto)+

section \<open>Traces against a step relation\<close>

text \<open>What an event reads, writes or creates of one type, and the traces in which every status
  write is a step from the object as it was last read.\<close>

definition readObj :: "kind \<Rightarrow> (kobj \<Rightarrow> 'a option) \<Rightarrow> event \<Rightarrow> 'a option" where
  "readObj K prj e =
     (case fst e of
        RGet k nn \<Rightarrow> (if k = K then (case decode1 prj (snd e) of Inl _ \<Rightarrow> None | Inr x \<Rightarrow> Some x) else None)
      | _ \<Rightarrow> None)"

definition statusWrite :: "(kobj \<Rightarrow> 'a option) \<Rightarrow> event \<Rightarrow> 'a option" where
  "statusWrite prj e = (case fst e of RStatusUpdate x \<Rightarrow> prj x | _ \<Rightarrow> None)"

definition createdObj :: "(kobj \<Rightarrow> 'a option) \<Rightarrow> event \<Rightarrow> 'a option" where
  "createdObj prj e = (case fst e of RCreate x \<Rightarrow> prj x | _ \<Rightarrow> None)"

definition creations :: "(kobj \<Rightarrow> 'a option) \<Rightarrow> event list \<Rightarrow> 'a list" where
  "creations prj es = List.map_filter (createdObj prj) es"

definition writes :: "event list \<Rightarrow> request list" where
  "writes es = filter (\<lambda>q. case q of RGet _ _ \<Rightarrow> False | RList _ _ \<Rightarrow> False | _ \<Rightarrow> True) (map fst es)"

fun conforms :: "kind \<Rightarrow> (kobj \<Rightarrow> 'a option) \<Rightarrow> ('a \<Rightarrow> 'a \<Rightarrow> bool) \<Rightarrow> 'a option \<Rightarrow> event list \<Rightarrow> bool" where
  "conforms K prj step cur [] \<longleftrightarrow> True"
| "conforms K prj step cur (e # es) \<longleftrightarrow>
     (case statusWrite prj e of
        Some w \<Rightarrow> (case cur of None \<Rightarrow> False | Some i \<Rightarrow> step i w) \<and> conforms K prj step cur es
      | None \<Rightarrow> conforms K prj step (case readObj K prj e of Some i \<Rightarrow> Some i | None \<Rightarrow> cur) es)"

lemma readObj_simps [simp]:
  "readObj K prj (RGet k nn, r) = (if k = K then (case decode1 prj r of Inl _ \<Rightarrow> None | Inr x \<Rightarrow> Some x) else None)"
  "readObj K prj (RList k lo, r) = None" "readObj K prj (RCreate x, r) = None" "readObj K prj (RUpdate x, r) = None"
  "readObj K prj (RStatusUpdate x, r) = None" "readObj K prj (RDelete k nn, r) = None"
  by (simp_all add: readObj_def)

lemma statusWrite_simps [simp]:
  "statusWrite prj (RStatusUpdate x, r) = prj x"
  "statusWrite prj (RGet k nn, r) = None" "statusWrite prj (RList k lo, r) = None"
  "statusWrite prj (RCreate x, r) = None" "statusWrite prj (RUpdate x, r) = None" "statusWrite prj (RDelete k nn, r) = None"
  by (simp_all add: statusWrite_def)

lemma creations_simps [simp]:
  "creations prj [] = []"
  "creations prj ((RCreate x, r) # es) = (case prj x of Some y \<Rightarrow> y # creations prj es | None \<Rightarrow> creations prj es)"
  "creations prj ((RGet k nn, r) # es) = creations prj es" "creations prj ((RList k lo, r) # es) = creations prj es"
  "creations prj ((RUpdate x, r) # es) = creations prj es" "creations prj ((RStatusUpdate x, r) # es) = creations prj es"
  "creations prj ((RDelete k nn, r) # es) = creations prj es"
  "creations prj (es @ es') = creations prj es @ creations prj es'"
  by (simp_all add: creations_def createdObj_def map_filter_def split: option.splits)

lemma writes_simps [simp]:
  "writes [] = []" "writes ((RGet k nn, r) # es) = writes es" "writes ((RList k lo, r) # es) = writes es"
  "writes ((RCreate x, r) # es) = RCreate x # writes es" "writes ((RUpdate x, r) # es) = RUpdate x # writes es"
  "writes ((RStatusUpdate x, r) # es) = RStatusUpdate x # writes es"
  "writes ((RDelete k nn, r) # es) = RDelete k nn # writes es"
  "writes (es @ es') = writes es @ writes es'"
  by (simp_all add: writes_def)

text \<open>The first successful creation of an object of a type, and the events after it.\<close>

fun afterCreation :: "(kobj \<Rightarrow> 'a option) \<Rightarrow> event list \<Rightarrow> ('a \<times> event list) option" where
  "afterCreation prj [] = None"
| "afterCreation prj (e # es) =
     (case (createdObj prj e, decode1 prj (snd e)) of
        (Some _, Inr x) \<Rightarrow> Some (x, es)
      | _ \<Rightarrow> afterCreation prj es)"

lemma createdObj_simps [simp]:
  "createdObj prj (RCreate x, r) = prj x"
  "createdObj prj (RGet k nn, r) = None" "createdObj prj (RList k lo, r) = None"
  "createdObj prj (RUpdate x, r) = None" "createdObj prj (RStatusUpdate x, r) = None"
  "createdObj prj (RDelete k nn, r) = None"
  by (simp_all add: createdObj_def)

text \<open>Stretches of a trace that only list objects leave all of this alone.\<close>

definition listsOnly :: "event list \<Rightarrow> bool" where
  "listsOnly es \<longleftrightarrow> (\<forall>e \<in> set es. \<exists>k lo. fst e = RList k lo)"

lemma listsOnly_simps [simp]:
  "listsOnly []" "listsOnly ((RList k lo, r) # es) \<longleftrightarrow> listsOnly es"
  by (auto simp: listsOnly_def)

lemma listsOnly_Cons: "listsOnly (e # es) \<longleftrightarrow> (\<exists>k lo r. e = (RList k lo, r)) \<and> listsOnly es"
  by (cases e) (auto simp: listsOnly_def)

lemma listsOnly_conforms [simp]:
  "listsOnly es \<Longrightarrow> conforms K prj step cur (es @ es') = conforms K prj step cur es'"
  "listsOnly es \<Longrightarrow> conforms K prj step cur es"
  by (induction es) (auto simp: listsOnly_Cons)

lemma listsOnly_afterCreation [simp]:
  "listsOnly es \<Longrightarrow> afterCreation prj (es @ es') = afterCreation prj es'"
  "listsOnly es \<Longrightarrow> afterCreation prj es = None"
  by (induction es) (auto simp: listsOnly_Cons)

lemma listsOnly_creations [simp]: "listsOnly es \<Longrightarrow> creations prj es = []"
  by (induction es) (auto simp: listsOnly_Cons)

lemma listsOnly_writes [simp]: "listsOnly es \<Longrightarrow> writes es = []"
  by (induction es) (auto simp: listsOnly_Cons)

section \<open>The requests a program can make\<close>

text \<open>\<open>only P m\<close>: every request of every run of \<open>m\<close> satisfies \<open>P\<close>. The rules follow the structure of the
  program, one goal per request, so they carry frame conditions through long programs.\<close>

definition only :: "(request \<Rightarrow> bool) \<Rightarrow> ('w, 'a) go \<Rightarrow> bool" where
  "only P m \<longleftrightarrow> spec m (\<lambda>es _. list_all (\<lambda>e. P (fst e)) es)"

lemma only_spec: "only P m \<Longrightarrow> (\<And>es x. list_all (\<lambda>e. P (fst e)) es \<Longrightarrow> R es x) \<Longrightarrow> spec m R"
  unfolding only_def by (rule spec_mono)

lemma only_mono: "only P m \<Longrightarrow> (\<And>q. P q \<Longrightarrow> Q q) \<Longrightarrow> only Q m"
  unfolding only_def by (erule spec_mono) (auto simp: list_all_iff)

lemma only_bind [only_intros]: "only P m \<Longrightarrow> (\<And>x. only P (f x)) \<Longrightarrow> only P (State_Monad.bind m f)"
  unfolding only_def by (erule spec_bindI) (auto elim: spec_mono)

lemma only_return [only_intros]: "only P (return x)"
  by (simp add: only_def)

lemma only_effect [only_intros]: "only P (effect f)"
  unfolding only_def by (rule spec_effect) simp

lemma only_calls [only_intros]:
  "P (RGet k nn) \<Longrightarrow> only P (Get E k prj nn)"
  "P (RList k lo) \<Longrightarrow> only P (ListObjs E k prj lo)"
  "P (RCreate (mk x)) \<Longrightarrow> only P (Create E mk prj x)"
  "P (RUpdate (mk x)) \<Longrightarrow> only P (Update E mk prj x)"
  "P (RStatusUpdate (mk x)) \<Longrightarrow> only P (StatusUpdate E mk prj x)"
  "P (RDelete k nn) \<Longrightarrow> only P (Delete E k nn)"
  unfolding only_def by (intro spec_intros; simp)+

lemma spec_bind_value:
  "only (\<lambda>_. True) m \<Longrightarrow> (\<And>x. spec (f x) (\<lambda>_. R)) \<Longrightarrow> spec (State_Monad.bind m f) (\<lambda>_. R)"
  unfolding only_def by (erule spec_bind_seq, assumption) simp

lemma only_control [only_intros]:
  "(b \<Longrightarrow> only P m) \<Longrightarrow> (\<not> b \<Longrightarrow> only P n) \<Longrightarrow> only P (if b then m else n)"
  "(\<And>e. r = Inl e \<Longrightarrow> only P (fl e)) \<Longrightarrow> (\<And>x. r = Inr x \<Longrightarrow> only P (fr x)) \<Longrightarrow>
   only P (case r of Inl e \<Rightarrow> fl e | Inr x \<Rightarrow> fr x)"
  "(o' = None \<Longrightarrow> only P m) \<Longrightarrow> (\<And>x. o' = Some x \<Longrightarrow> only P (g x)) \<Longrightarrow> only P (case o' of None \<Rightarrow> m | Some x \<Rightarrow> g x)"
  "(l = [] \<Longrightarrow> only P m) \<Longrightarrow> (\<And>x xs. l = x # xs \<Longrightarrow> only P (h x xs)) \<Longrightarrow> only P (case l of [] \<Rightarrow> m | x # xs \<Rightarrow> h x xs)"
  "(\<And>x y. p = (x, y) \<Longrightarrow> only P (k x y)) \<Longrightarrow> only P (case p of (x, y) \<Rightarrow> k x y)"
  "only P (j t) \<Longrightarrow> only P (Let t j)"
  by (auto split: sum.split option.split list.split prod.split)

fun isRead :: "request \<Rightarrow> bool" where
  "isRead (RGet k nn) = True"
| "isRead (RList k lo) = True"
| "isRead _ = False"

text \<open>What a request of a kind that is not a creation of the type leaves alone.\<close>

fun creates :: "(kobj \<Rightarrow> 'a option) \<Rightarrow> request \<Rightarrow> bool" where
  "creates prj (RCreate x) = (prj x \<noteq> None)"
| "creates prj _ = False"

lemma creates_simps [simp]:
  "\<not> creates prj (RGet k nn)" "\<not> creates prj (RList k lo)" "\<not> creates prj (RUpdate x)"
  "\<not> creates prj (RStatusUpdate x)" "\<not> creates prj (RDelete k nn)"
  by simp_all

lemma createdObj_creates: "createdObj prj e = None \<longleftrightarrow> \<not> creates prj (fst e)"
  by (cases e; cases "fst e") auto

lemma no_creations [simp]:
  "list_all (\<lambda>e. \<not> creates prj (fst e)) es \<Longrightarrow> creations prj es = []"
  "list_all (\<lambda>e. \<not> creates prj (fst e)) es \<Longrightarrow> afterCreation prj es = None"
  "list_all (\<lambda>e. \<not> creates prj (fst e)) es \<Longrightarrow> afterCreation prj (es @ es') = afterCreation prj es'"
  by (induction es) (auto simp: creations_def createdObj_creates [THEN iffD2] map_filter_def)

lemma isRead_iff: "isRead q \<longleftrightarrow> (\<exists>k nn. q = RGet k nn) \<or> (\<exists>k lo. q = RList k lo)"
  by (cases q) auto

text \<open>Predicates on traces that hold of the empty trace and of a trace put together from two: what a
  reconciliation keeps, because each of its parts does.\<close>

locale trace_closed =
  fixes Q :: "event list \<Rightarrow> bool"
  assumes Q_Nil: "Q []"
    and Q_append: "Q es \<Longrightarrow> Q es' \<Longrightarrow> Q (es @ es')"
begin

lemma bind: "spec m (\<lambda>es _. Q es) \<Longrightarrow> (\<And>x. spec (f x) (\<lambda>es _. Q es)) \<Longrightarrow> spec (State_Monad.bind m f) (\<lambda>es _. Q es)"
  by (erule spec_bind_seq, assumption) (rule Q_append)

lemma ret: "spec (return x) (\<lambda>es _. Q es)"
  by (simp add: Q_Nil)

lemma from_only: "only P m \<Longrightarrow> (\<And>q r. P q \<Longrightarrow> Q [(q, r)]) \<Longrightarrow> spec m (\<lambda>es _. Q es)"
proof (erule only_spec)
  fix es :: "event list"
  assume Q: "\<And>q r. P q \<Longrightarrow> Q [(q, r)]" and es: "list_all (\<lambda>e. P (fst e)) es"
  from es show "Q es"
  proof (induction es)
    case (Cons e es)
    then have "Q [(fst e, snd e)]" "Q es" using Q [of "fst e" "snd e"] by simp_all
    then show ?case using Q_append by force
  qed (simp add: Q_Nil)
qed

lemmas control = bind ret spec_if spec_case_sum spec_case_option spec_case_prod spec_Let

end

interpretation requests: trace_closed "list_all (\<lambda>e :: event. P (fst e))"
  by unfold_locales auto

end
