(* ===== verification/Helpers.thy ===== *)
theory Helpers
  imports Client
begin

text \<open>
  The helpers of \<^verbatim>\<open>internal/controller/helpers.go\<close> and the constants of the controller package:
  cluster introspection (topology, version, proxy, SSH key), the component list of a
  \<^verbatim>\<open>QuayRegistry\<close>, finalizer lists, proxy environment variables, CA injection into Tekton tasks
  and the trusted CA \<^verbatim>\<open>ConfigMap\<close>. The finalizer contract every controller relies on is the
  locale \<open>finalizer_ops\<close>.
\<close>

section \<open>Constants\<close>

definition platformFinalizer :: string where
  "platformFinalizer = ''mirror.mathianasj.github.com/platform-finalizer''"
definition architectNamespace :: string where "architectNamespace = ''mirror-operator-system''"
definition defaultPullSecretName :: string where "defaultPullSecretName = ''pull-secret''"
definition defaultPullSecretNS :: string where "defaultPullSecretNS = ''openshift-config''"
definition clusterCABundleName :: string where "clusterCABundleName = ''cluster-ca-bundle''"
definition clusterCABundleKey :: string where "clusterCABundleKey = ''ca-bundle.crt''"
definition trustedCAConfigMapName :: string where "trustedCAConfigMapName = ''trusted-ca-bundle''"

lemmas controller_consts =
  platformFinalizer_def architectNamespace_def defaultPullSecretName_def defaultPullSecretNS_def
  clusterCABundleName_def clusterCABundleKey_def trustedCAConfigMapName_def

text \<open>Reading the data of a \<^verbatim>\<open>Secret\<close>, with and without the test for presence.\<close>

definition secLookup :: "secret \<Rightarrow> string \<Rightarrow> string option" where
  "secLookup s k = (case sec_Data s of None \<Rightarrow> None | Some m \<Rightarrow> m k)"

definition secGet :: "secret \<Rightarrow> string \<Rightarrow> string" where
  "secGet s k = (case secLookup s k of Some v \<Rightarrow> v | None \<Rightarrow> [])"

abbreviation configGVK :: "string \<Rightarrow> gvk" where
  "configGVK k \<equiv> \<lparr>g_Group = ''config.openshift.io'', g_Version = ''v1'', g_Kind = k\<rparr>"

definition envOrDefault :: "('w, 'x) env_scheme \<Rightarrow> string \<Rightarrow> string \<Rightarrow> string" where
  "envOrDefault E key fallback = (let v = getenv E key in if v \<noteq> [] then v else fallback)"

section \<open>Cluster introspection\<close>

definition isSingleNodeOpenShift :: "('w, 'x) env_scheme \<Rightarrow> ('w, bool) go" where
  "isSingleNodeOpenShift E = do {
     infra \<leftarrow> Get E (KUnstr (configGVK ''Infrastructure'')) theUnstr ([], ''cluster'');
     case infra of
       Inl err \<Rightarrow> return False
     | Inr infra \<Rightarrow> do {
         let (topology, _, _) = nestedString E (u_Object infra) [''status'', ''controlPlaneTopology''];
         return (topology = ''SingleReplica'') } }"

definition resolveQuayReplicaOverride :: "('w, 'x) env_scheme \<Rightarrow> int option \<Rightarrow> ('w, int option) go" where
  "resolveQuayReplicaOverride E explicit =
     (case explicit of
        Some n \<Rightarrow> return (Some n)
      | None \<Rightarrow> do {
          sno \<leftarrow> isSingleNodeOpenShift E;
          if sno then return (Some 1) else return None })"

text \<open>The closure \<^verbatim>\<open>makeComponent\<close> of \<^verbatim>\<open>buildQuayComponents\<close>, with the captured override as
  its first argument. The overrides map is attached only when it has an entry.\<close>

definition makeComponent :: "int option \<Rightarrow> string \<Rightarrow> bool \<Rightarrow> goval" where
  "makeComponent replicaOverride kind managed =
     (let c = [''kind'' \<mapsto> GStr kind, ''managed'' \<mapsto> GBool managed];
          overrides = Map.empty;
          overrides =
            (case replicaOverride of
               Some n \<Rightarrow> (if kind = ''quay'' \<or> kind = ''clair'' \<or> kind = ''mirror''
                         then overrides(''replicas'' \<mapsto> GInt n) else overrides)
             | None \<Rightarrow> overrides);
          overrides =
            (if kind = ''quay''
             then overrides(''env'' \<mapsto> GList [GMap [''name'' \<mapsto> GStr ''GUNICORN_CMD_ARGS'',
                                                   ''value'' \<mapsto> GStr ''--timeout 300'']])
             else overrides)
      in GMap (if overrides \<noteq> Map.empty then c(''overrides'' \<mapsto> GMap overrides) else c))"

definition buildQuayComponents :: "int option \<Rightarrow> bool \<Rightarrow> bool \<Rightarrow> bool \<Rightarrow> goval list" where
  "buildQuayComponents replicaOverride objectStorageManaged routeManaged tlsManaged =
     (let hpaManaged = (replicaOverride = None)
      in [makeComponent replicaOverride ''clair'' True,
          makeComponent replicaOverride ''postgres'' True,
          makeComponent replicaOverride ''objectstorage'' objectStorageManaged,
          makeComponent replicaOverride ''redis'' True,
          GMap [''kind'' \<mapsto> GStr ''horizontalpodautoscaler'', ''managed'' \<mapsto> GBool hpaManaged],
          makeComponent replicaOverride ''route'' routeManaged,
          makeComponent replicaOverride ''mirror'' True,
          makeComponent replicaOverride ''tls'' tlsManaged,
          makeComponent replicaOverride ''quay'' True])"

definition getClusterVersion :: "('w, 'x) env_scheme \<Rightarrow> ('w, string) go" where
  "getClusterVersion E = do {
     cv \<leftarrow> Get E (KUnstr (configGVK ''ClusterVersion'')) theUnstr ([], ''version'');
     case cv of
       Inl err \<Rightarrow> return []
     | Inr cv \<Rightarrow> do {
         let (version, _, _) = nestedString E (u_Object cv) [''status'', ''desired'', ''version''];
         return version } }"

definition getClusterProxy :: "('w, 'x) env_scheme \<Rightarrow> ('w, string \<times> string \<times> string) go" where
  "getClusterProxy E = do {
     proxy \<leftarrow> Get E (KUnstr (configGVK ''Proxy'')) theUnstr ([], ''cluster'');
     case proxy of
       Inl err \<Rightarrow> return ([], [], [])
     | Inr proxy \<Rightarrow> do {
         let (httpProxy, _, _) = nestedString E (u_Object proxy) [''status'', ''httpProxy''];
         let (httpsProxy, _, _) = nestedString E (u_Object proxy) [''status'', ''httpsProxy''];
         let (noProxy, _, _) = nestedString E (u_Object proxy) [''status'', ''noProxy''];
         return (httpProxy, httpsProxy, noProxy) } }"

definition getClusterSSHKey :: "('w, 'x) env_scheme \<Rightarrow> ('w, string) go" where
  "getClusterSSHKey E = do {
     mc \<leftarrow> Get E (KUnstr \<lparr>g_Group = ''machineconfiguration.openshift.io'', g_Version = ''v1'',
                          g_Kind = ''MachineConfig''\<rparr>) theUnstr ([], ''99-master-ssh'');
     case mc of
       Inl err \<Rightarrow> return []
     | Inr mc \<Rightarrow> do {
         let (users, found, _) = nestedSlice E (u_Object mc) [''spec'', ''config'', ''passwd'', ''users''];
         if \<not> found then return []
         else (case users of
             [] \<Rightarrow> return []
           | u # _ \<Rightarrow>
               (case asMap (Some u) of
                  None \<Rightarrow> return []
                | Some user \<Rightarrow> do {
                    let (keys, found, _) = nestedStringSlice E (GMap user) [''sshAuthorizedKeys''];
                    if \<not> found then return []
                    else (case keys of [] \<Rightarrow> return [] | k # _ \<Rightarrow> return k) })) } }"

definition getClusterProxyFromClient :: "('w, 'x) env_scheme \<Rightarrow> ('w, string \<times> string \<times> string) go" where
  "getClusterProxyFromClient E = do {
     proxy \<leftarrow> Get E (KUnstr (configGVK ''Proxy'')) theUnstr ([], ''cluster'');
     case proxy of
       Inl err \<Rightarrow> return ([], [], [])
     | Inr proxy \<Rightarrow> do {
         let (httpProxy, _, _) = nestedString E (u_Object proxy) [''status'', ''httpProxy''];
         let (httpsProxy, _, _) = nestedString E (u_Object proxy) [''status'', ''httpsProxy''];
         let (noProxy, _, _) = nestedString E (u_Object proxy) [''status'', ''noProxy''];
         return (httpProxy, httpsProxy, noProxy) } }"

section \<open>Lists of strings, pointers\<close>

definition boolPtr :: "bool \<Rightarrow> bool option" where
  "boolPtr b = Some b"

fun containsString :: "string list \<Rightarrow> string \<Rightarrow> bool" where
  "containsString [] s = False"
| "containsString (item # slice) s = (if item = s then True else containsString slice s)"

fun removeString_loop :: "string list \<Rightarrow> string \<Rightarrow> string list \<Rightarrow> string list" where
  "removeString_loop [] s out = out"
| "removeString_loop (item # slice) s out =
     removeString_loop slice s (if item \<noteq> s then out @ [item] else out)"

definition removeString :: "string list \<Rightarrow> string \<Rightarrow> string list" where
  "removeString slice s = removeString_loop slice s []"

section \<open>Proxy and CA environment of containers\<close>

definition envEntry :: "string \<Rightarrow> string \<Rightarrow> gomap" where
  "envEntry n v = [''name'' \<mapsto> GStr n, ''value'' \<mapsto> GStr v]"

definition proxyEnvVarsUnstructured :: "string \<Rightarrow> string \<Rightarrow> string \<Rightarrow> gomap list" where
  "proxyEnvVarsUnstructured httpProxy httpsProxy noProxy =
     (if httpProxy = [] \<and> httpsProxy = [] \<and> noProxy = [] then []
      else map (\<lambda>(k, v). envEntry k v) (filter (\<lambda>(k, v). v \<noteq> [])
        [(''HTTP_PROXY'', httpProxy), (''HTTPS_PROXY'', httpsProxy), (''NO_PROXY'', noProxy),
         (''http_proxy'', httpProxy), (''https_proxy'', httpsProxy), (''no_proxy'', noProxy)]))"

definition proxyEnvVarsTyped :: "string \<Rightarrow> string \<Rightarrow> string \<Rightarrow> envVar list" where
  "proxyEnvVarsTyped httpProxy httpsProxy noProxy =
     (if httpProxy = [] \<and> httpsProxy = [] \<and> noProxy = [] then []
      else map (\<lambda>(k, v). \<lparr>ev_Name = k, ev_Value = v, ev_SecretKeyRef = None\<rparr>) (filter (\<lambda>(k, v). v \<noteq> [])
        [(''HTTP_PROXY'', httpProxy), (''HTTPS_PROXY'', httpsProxy), (''NO_PROXY'', noProxy),
         (''http_proxy'', httpProxy), (''https_proxy'', httpsProxy), (''no_proxy'', noProxy)]))"

definition proxyEnvForSubscription :: "string \<Rightarrow> string \<Rightarrow> string \<Rightarrow> gomap list" where
  "proxyEnvForSubscription httpProxy httpsProxy noProxy =
     (if httpProxy = [] \<and> httpsProxy = [] \<and> noProxy = [] then []
      else map (\<lambda>(k, v). envEntry k v) (filter (\<lambda>(k, v). v \<noteq> [])
        [(''HTTP_PROXY'', httpProxy), (''HTTPS_PROXY'', httpsProxy), (''NO_PROXY'', noProxy)]))"

text \<open>The body of the inner loop of \<^verbatim>\<open>injectCABundleIntoTasks\<close> on one step, and of the outer
  loop on one task. The slices are mutated in place in the source; the result is the same.\<close>

definition injectCAStep :: "gomap \<Rightarrow> gomap" where
  "injectCAStep step =
     (let env = (case asMaps (step ''env'') of Some e \<Rightarrow> e | None \<Rightarrow> []);
          caPath = ''/workspace/cluster-ca-bundle/'' @ clusterCABundleKey
      in step(''env'' \<mapsto> GMaps (env @ [envEntry ''SSL_CERT_FILE'' caPath, envEntry ''CURL_CA_BUNDLE'' caPath,
                                      envEntry ''AWS_CA_BUNDLE'' caPath, envEntry ''REQUESTS_CA_BUNDLE'' caPath])))"

definition injectCATask :: "gomap \<Rightarrow> gomap" where
  "injectCATask task =
     (let ws = (case asMaps (task ''workspaces'') of Some w \<Rightarrow> w | None \<Rightarrow> []);
          task1 = task(''workspaces'' \<mapsto> GMaps (ws @ [[''name'' \<mapsto> GStr ''cluster-ca-bundle'']]))
      in case asMap (task1 ''taskSpec'') of
           None \<Rightarrow> task1
         | Some taskSpec \<Rightarrow>
             (case asMaps (taskSpec ''steps'') of
                None \<Rightarrow> task1
              | Some steps \<Rightarrow>
                  task1(''taskSpec'' \<mapsto> GMap (taskSpec(''steps'' \<mapsto> GMaps (map injectCAStep steps))))))"

definition injectCABundleIntoTasks :: "gomap list \<Rightarrow> gomap list" where
  "injectCABundleIntoTasks tasks = map injectCATask tasks"

section \<open>The trusted CA ConfigMap\<close>

definition reconcileTrustedCAConfigMap :: "('w, 'x) env_scheme \<Rightarrow> ('w, goerr option) go" where
  "reconcileTrustedCAConfigMap E = do {
     cm \<leftarrow> Get E KConfigMap theConfigMap (architectNamespace, trustedCAConfigMapName);
     case cm of
       Inr _ \<Rightarrow> return None
     | Inl err \<Rightarrow>
         if \<not> isNotFound err then return (Some err)
         else do {
           r \<leftarrow> Create E OConfigMap theConfigMap
                 \<lparr>cm_Meta = emptyMeta\<lparr>m_Name := trustedCAConfigMapName, m_Namespace := architectNamespace,
                     m_Labels := [''config.openshift.io/inject-trusted-cabundle'' \<mapsto> ''true'']\<rparr>,
                  cm_Data = None\<rparr>;
           case r of Inl err \<Rightarrow> return (Some err) | Inr _ \<Rightarrow> return None } }"

section \<open>The finalizer contract\<close>

lemma containsString_iff [simp]: "containsString xs s \<longleftrightarrow> s \<in> set xs"
  by (induction xs) auto

lemma removeString_loop_eq: "removeString_loop xs s out = out @ filter (\<lambda>x. x \<noteq> s) xs"
  by (induction xs arbitrary: out) auto

lemma removeString_filter [simp]: "removeString xs s = filter (\<lambda>x. x \<noteq> s) xs"
  by (simp add: removeString_def removeString_loop_eq)

text \<open>What a controller relies on when it guards an object with a finalizer: \<open>has\<close> is the test,
  \<open>add\<close> what it does to the list before its work, \<open>del\<close> what it does in cleanup.\<close>

locale finalizer_ops =
  fixes has :: "string list \<Rightarrow> bool"
    and add :: "string list \<Rightarrow> string list"
    and del :: "string list \<Rightarrow> string list"
    and fin :: string
  assumes has_iff: "has fs \<longleftrightarrow> fin \<in> set fs"
    and set_add: "set (add fs) = insert fin (set fs)"
    and add_last: "\<exists>x. add fs = fs @ [x]"
    and set_del: "set (del fs) = set fs - {fin}"
    and del_other: "fin \<notin> set fs \<Longrightarrow> del fs = fs"
    and del_append: "del (fs @ gs) = del fs @ del gs"
begin

lemma add_has: "has (add fs)"
  by (simp add: has_iff set_add)

lemma del_has: "\<not> has (del fs)"
  by (simp add: has_iff set_del)

lemma add_eq: "\<not> has fs \<Longrightarrow> add fs = fs @ [fin]"
  using add_last [of fs] set_add [of fs] by (auto simp: has_iff) (metis insertE insertI1)

lemma del_add: "\<not> has fs \<Longrightarrow> del (add fs) = fs"
proof -
  assume n: "\<not> has fs"
  have "del [fin] = []"
    using set_del [of "[fin]"] by simp
  with n show ?thesis
    by (simp add: add_eq del_append del_other has_iff)
qed

lemma others_kept: "f \<noteq> fin \<Longrightarrow> f \<in> set (del fs) \<longleftrightarrow> f \<in> set fs"
  by (simp add: set_del)

end

lemma finalizer_ops_string:
  "finalizer_ops (\<lambda>fs. containsString fs f) (\<lambda>fs. fs @ [f]) (\<lambda>fs. removeString fs f) f"
  by unfold_locales (auto simp: filter_id_conv)

interpretation platform_fin: finalizer_ops
  "\<lambda>fs. containsString fs platformFinalizer" "\<lambda>fs. fs @ [platformFinalizer]"
  "\<lambda>fs. removeString fs platformFinalizer" platformFinalizer
  by (rule finalizer_ops_string)

section \<open>Properties\<close>

lemma asMaps_env_injectCAStep:
  "asMaps (injectCAStep step ''env'') =
     Some ((case asMaps (step ''env'') of Some e \<Rightarrow> e | None \<Rightarrow> []) @
           map (\<lambda>n. envEntry n ''/workspace/cluster-ca-bundle/ca-bundle.crt'')
             [''SSL_CERT_FILE'', ''CURL_CA_BUNDLE'', ''AWS_CA_BUNDLE'', ''REQUESTS_CA_BUNDLE''])"
  by (simp add: injectCAStep_def Let_def clusterCABundleKey_def)

lemma proxyEnvVars_pairs:
  "map (\<lambda>e. (strOrEmpty (e ''name''), strOrEmpty (e ''value''))) (proxyEnvVarsUnstructured h hs n) =
   map (\<lambda>e. (ev_Name e, ev_Value e)) (proxyEnvVarsTyped h hs n)"
  by (simp add: proxyEnvVarsUnstructured_def proxyEnvVarsTyped_def envEntry_def strOrEmpty_def)

lemma proxyEnvVars_subscription:
  "proxyEnvForSubscription h hs n =
   filter (\<lambda>e. strOrEmpty (e ''name'') \<in> {''HTTP_PROXY'', ''HTTPS_PROXY'', ''NO_PROXY''})
     (proxyEnvVarsUnstructured h hs n)"
  by (simp add: proxyEnvVarsUnstructured_def proxyEnvForSubscription_def envEntry_def strOrEmpty_def)

end
