(* ===== verification/History.thy ===== *)
theory History
  imports Helpers
begin

text \<open>
  The version bookkeeping the controllers share: finding the \<^verbatim>\<open>DisconnectedPlatform\<close>, version
  names, the membership test on the import history, and the aggregation of the collection and
  import history by the platform controller.
\<close>

section \<open>Definitions\<close>

text \<open>\<^verbatim>\<open>(*metav1.Time).IsZero\<close>: nil or the zero time.\<close>

definition isZeroTime :: "gotime option \<Rightarrow> bool" where
  "isZeroTime t \<longleftrightarrow> t = None \<or> t = Some zeroTime"

definition configMapKey :: string where
  "configMapKey = ''imageset-config.yaml''"

definition mirrorGVK :: "string \<Rightarrow> gvk" where
  "mirrorGVK k = \<lparr>g_Group = ''mirror.mirror.mathianasj.github.com'', g_Version = ''v1'', g_Kind = k\<rparr>"

definition defaultMirrorImage :: "('w, 'x) env_scheme \<Rightarrow> string" where
  "defaultMirrorImage E = envOrDefault E ''RELATED_IMAGE_OC_MIRROR'' ''quay.io/mathianasj/oc-mirror:v2''"

definition stringParam :: "string \<Rightarrow> string \<Rightarrow> param" where
  "stringParam n v = \<lparr>p_Name = n, p_Value = v\<rparr>"

definition CollectionPipeline_findPlatform :: "('w, 'x) env_scheme \<Rightarrow> ('w, disconnectedPlatform option res) go" where
  "CollectionPipeline_findPlatform E = do {
     r \<leftarrow> ListObjs E KPlatform thePlatform allObjects;
     case r of
       Inl err \<Rightarrow> return (Inl err)
     | Inr items \<Rightarrow> (case items of [] \<Rightarrow> return (Inr None) | p # _ \<Rightarrow> return (Inr (Some p))) }"

definition MirrorImport_findPlatform :: "('w, 'x) env_scheme \<Rightarrow> ('w, disconnectedPlatform option res) go" where
  "MirrorImport_findPlatform E = do {
     r \<leftarrow> ListObjs E KPlatform thePlatform allObjects;
     case r of
       Inl err \<Rightarrow> return (Inl err)
     | Inr items \<Rightarrow> (case items of [] \<Rightarrow> return (Inr None) | p # _ \<Rightarrow> return (Inr (Some p))) }"

definition generateVersion :: "gotime \<Rightarrow> triggerType \<Rightarrow> string" where
  "generateVersion now triggerType =
     (let tt = (if triggerType = [] then ''manual'' else triggerType)
      in ''v'' @ pad 4 (t_year now) @ ''.'' @ pad 2 (t_month now) @ ''.'' @ pad 2 (t_day now) @ ''.001-'' @ tt)"

fun versionExists :: "importInfo list \<Rightarrow> string \<Rightarrow> bool" where
  "versionExists [] version = False"
| "versionExists (h # history) version = (if ii_Version h = version then True else versionExists history version)"

definition collectionVersionComplete :: "string \<Rightarrow> bool" where
  "collectionVersionComplete phase \<longleftrightarrow> phase = ''Complete'' \<or> phase = ''Succeeded''"

text \<open>The loops of the platform controller that rebuild the histories from the pipelines and the
  imports; the clock is read once per entry.\<close>

fun collectHistory :: "('w, 'x) env_scheme \<Rightarrow> collectionPipeline list \<Rightarrow> collectionInfo list \<Rightarrow> ('w, collectionInfo list) go" where
  "collectHistory E [] history = return history"
| "collectHistory E (p # ps) history =
     (if cpst_Version (cp_Status p) \<noteq> [] \<and> collectionVersionComplete (cpst_Phase (cp_Status p))
      then do {
        now \<leftarrow> effect (clock E);
        collectHistory E ps (history @ [\<lparr>ci_Version = cpst_Version (cp_Status p), ci_Timestamp = now,
                                        ci_Size = [], ci_Status = cpst_Phase (cp_Status p)\<rparr>]) }
      else collectHistory E ps history)"

definition aggregateCollections :: "('w, 'x) env_scheme \<Rightarrow> disconnectedPlatformStatus \<Rightarrow> ('w, disconnectedPlatformStatus) go" where
  "aggregateCollections E st = do {
     r \<leftarrow> ListObjs E KPipeline thePipeline allObjects;
     case r of
       Inl _ \<Rightarrow> return st
     | Inr items \<Rightarrow> do {
         history \<leftarrow> collectHistory E items [];
         if history \<noteq> []
         then return (st\<lparr>dpst_CollectionHistory := history, dpst_LastCollection := Some (last history)\<rparr>)
         else return st } }"

definition importEntry :: "mirrorImport \<Rightarrow> importInfo" where
  "importEntry imp =
     \<lparr>ii_Version = (if mis_CollectionVersion (mi_Spec imp) = [] then m_Name (mi_ObjectMeta imp)
                    else mis_CollectionVersion (mi_Spec imp)),
      ii_Timestamp = m_CreationTimestamp (mi_ObjectMeta imp),
      ii_Status = mist_Phase (mi_Status imp)\<rparr>"

definition aggregateImports :: "('w, 'x) env_scheme \<Rightarrow> disconnectedPlatformStatus \<Rightarrow> ('w, disconnectedPlatformStatus) go" where
  "aggregateImports E st = do {
     r \<leftarrow> ListObjs E KImport theImport allObjects;
     case r of
       Inl _ \<Rightarrow> return st
     | Inr items \<Rightarrow> do {
         let history = map importEntry (filter (\<lambda>imp. mist_Phase (mi_Status imp) = ''Complete'') items);
         if history \<noteq> []
         then return (st\<lparr>dpst_ImportHistory := history, dpst_LastImport := Some (last history)\<rparr>)
         else return st } }"

section \<open>Lemmas\<close>

lemma versionExists_iff [simp]: "versionExists hs v \<longleftrightarrow> v \<in> ii_Version ` set hs"
  by (induction hs) auto

lemma findPlatform_same: "MirrorImport_findPlatform E = CollectionPipeline_findPlatform E"
  by (simp add: MirrorImport_findPlatform_def CollectionPipeline_findPlatform_def)

text \<open>Both lookups make one list request and nothing else; the platform is the first item.\<close>

fun firstItem :: "'a list res \<Rightarrow> 'a option res" where
  "firstItem (Inl e) = Inl e"
| "firstItem (Inr []) = Inr None"
| "firstItem (Inr (x # xs)) = Inr (Some x)"

lemma findPlatform_firstItem:
  "CollectionPipeline_findPlatform E =
     do { r \<leftarrow> ListObjs E KPlatform thePlatform allObjects; return (firstItem r) }"
  unfolding CollectionPipeline_findPlatform_def
  by (intro arg_cong [where f = "State_Monad.bind _"] ext) (auto split: sum.splits list.splits)

lemma spec_findPlatform [spec_intros]:
  "(\<And>r. R [(RList KPlatform allObjects, r)] (firstItem (decodeAll thePlatform r))) \<Longrightarrow>
   spec (CollectionPipeline_findPlatform E) R"
  unfolding findPlatform_firstItem
  by (rule spec_bindI, rule spec_ListObjs [where R = "\<lambda>es x. \<exists>r. es = [(RList KPlatform allObjects, r)] \<and> x = decodeAll thePlatform r"])
     auto

lemma spec_importFindPlatform [spec_intros]:
  "(\<And>r. R [(RList KPlatform allObjects, r)] (firstItem (decodeAll thePlatform r))) \<Longrightarrow>
   spec (MirrorImport_findPlatform E) R"
  unfolding findPlatform_same by (rule spec_findPlatform)

lemma spec_bind_findPlatform [spec_intros]:
  "(\<And>r. spec (f (firstItem (decodeAll thePlatform r))) (\<lambda>es. R ((RList KPlatform allObjects, r) # es))) \<Longrightarrow>
   spec (State_Monad.bind (CollectionPipeline_findPlatform E) f) R"
  "(\<And>r. spec (f (firstItem (decodeAll thePlatform r))) (\<lambda>es. R ((RList KPlatform allObjects, r) # es))) \<Longrightarrow>
   spec (State_Monad.bind (MirrorImport_findPlatform E) f) R"
  unfolding findPlatform_same findPlatform_firstItem by (auto intro!: spec_intros)

lemma only_findPlatform [only_intros]: "P (RList KPlatform allObjects) \<Longrightarrow> only P (CollectionPipeline_findPlatform E)"
  unfolding CollectionPipeline_findPlatform_def by (intro only_intros)

section \<open>Phases of a run\<close>

text \<open>What the controllers rely on of the function that reads a run's phase: the terminal phases say
  exactly that the run has completed, and which way.\<close>

definition succeeded :: "pipelineRun \<Rightarrow> bool" where
  "succeeded pr \<longleftrightarrow> (\<exists>c \<in> set (pr_Conditions pr). rc_Type c = ''Succeeded'' \<and> rc_Status c = ''True'')"

text \<open>A later state of the same run: times once set stay, and a completed run keeps its conditions.\<close>

definition later_run :: "pipelineRun \<Rightarrow> pipelineRun \<Rightarrow> bool" where
  "later_run pr pr' \<longleftrightarrow>
     (pr_StartTime pr \<noteq> None \<longrightarrow> pr_StartTime pr' \<noteq> None) \<and>
     (pr_CompletionTime pr \<noteq> None \<longrightarrow> pr_CompletionTime pr' \<noteq> None \<and> pr_Conditions pr' = pr_Conditions pr)"

locale run_phases =
  fixes phase :: "pipelineRun \<Rightarrow> string" and active :: string
  assumes active_distinct: "active \<notin> {''Complete'', ''Failed'', ''Pending''}"
    and complete_iff: "phase pr = ''Complete'' \<longleftrightarrow> pr_CompletionTime pr \<noteq> None \<and> succeeded pr"
    and failed_iff: "phase pr = ''Failed'' \<longleftrightarrow> pr_CompletionTime pr \<noteq> None \<and> \<not> succeeded pr"
    and active_iff: "phase pr = active \<longleftrightarrow> pr_CompletionTime pr = None \<and> pr_StartTime pr \<noteq> None"
    and pending_iff: "phase pr = ''Pending'' \<longleftrightarrow> pr_CompletionTime pr = None \<and> pr_StartTime pr = None"
begin

lemma terminal_iff: "phase pr \<in> {''Complete'', ''Failed''} \<longleftrightarrow> pr_CompletionTime pr \<noteq> None"
  using complete_iff [of pr] failed_iff [of pr] by auto

lemma phase_total: "phase pr \<in> {''Pending'', active, ''Complete'', ''Failed''}"
  using complete_iff [of pr] failed_iff [of pr] active_iff [of pr] pending_iff [of pr] by auto

lemma terminal_stable:
  assumes "phase pr \<in> {''Complete'', ''Failed''}" "later_run pr pr'"
  shows "phase pr' = phase pr"
proof -
  have c: "pr_CompletionTime pr \<noteq> None"
    using assms(1) unfolding terminal_iff .
  with assms(2) have "pr_CompletionTime pr' \<noteq> None" "succeeded pr' = succeeded pr"
    by (auto simp: later_run_def succeeded_def)
  with c show ?thesis
    using complete_iff [of pr] complete_iff [of pr'] failed_iff [of pr] failed_iff [of pr'] by metis
qed

lemma never_back_to_pending:
  "phase pr \<noteq> ''Pending'' \<Longrightarrow> later_run pr pr' \<Longrightarrow> phase pr' \<noteq> ''Pending''"
  by (auto simp: pending_iff later_run_def)

end

end
