(* ===== verification/Bootstrap.thy ===== *)
theory Bootstrap
  imports History
begin

text \<open>
  The \<^verbatim>\<open>ClusterBootstrap\<close> controller of \<^verbatim>\<open>internal/controller/clusterbootstrap_controller.go\<close>: the
  finalizer life cycle and the transition of a new request to phase \<^verbatim>\<open>Pending\<close> (the rest of the
  workflow is not implemented in the source).
\<close>

section \<open>Definitions\<close>

definition bootstrapFinalizer :: string where
  "bootstrapFinalizer = ''mirror.mathianasj.github.com/bootstrap-finalizer''"

abbreviation cb_setFinalizers :: "clusterBootstrap \<Rightarrow> string list \<Rightarrow> clusterBootstrap" where
  "cb_setFinalizers b fs \<equiv> b\<lparr>cb_ObjectMeta := (cb_ObjectMeta b)\<lparr>m_Finalizers := fs\<rparr>\<rparr>"

definition ClusterBootstrap_cleanup :: "('w, 'x) env_scheme \<Rightarrow> clusterBootstrap \<Rightarrow> ('w, outcome) go" where
  "ClusterBootstrap_cleanup E bootstrap =
     (let fs = m_Finalizers (cb_ObjectMeta bootstrap) in
      if containsString fs bootstrapFinalizer then do {
        r \<leftarrow> Update E OBootstrap theBootstrap (cb_setFinalizers bootstrap (removeString fs bootstrapFinalizer));
        return (finish r) }
      else return (noRequeue, None))"

definition ClusterBootstrap_Reconcile :: "('w, 'x) env_scheme \<Rightarrow> nsname \<Rightarrow> ('w, outcome) go" where
  "ClusterBootstrap_Reconcile E req = do {
     r \<leftarrow> Get E KBootstrap theBootstrap req;
     case r of
       Inl err \<Rightarrow> if isNotFound err then return (noRequeue, None) else return (noRequeue, Some err)
     | Inr bootstrap \<Rightarrow>
         if \<not> isZeroTime (m_DeletionTimestamp (cb_ObjectMeta bootstrap))
         then ClusterBootstrap_cleanup E bootstrap
         else if \<not> containsString (m_Finalizers (cb_ObjectMeta bootstrap)) bootstrapFinalizer then do {
           u \<leftarrow> Update E OBootstrap theBootstrap
                 (cb_setFinalizers bootstrap (m_Finalizers (cb_ObjectMeta bootstrap) @ [bootstrapFinalizer]));
           return (finish u) }
         else if cbst_Phase (cb_Status bootstrap) = [] then do {
           u \<leftarrow> StatusUpdate E OBootstrap theBootstrap
                 (bootstrap\<lparr>cb_Status := (cb_Status bootstrap)\<lparr>cbst_Phase := BootstrapPhasePending\<rparr>\<rparr>);
           return (finish u) }
         else return (noRequeue, None) }"

interpretation bootstrap_fin: finalizer_ops
  "\<lambda>fs. containsString fs bootstrapFinalizer" "\<lambda>fs. fs @ [bootstrapFinalizer]"
  "\<lambda>fs. removeString fs bootstrapFinalizer" bootstrapFinalizer
  by (rule finalizer_ops_string)

section \<open>The writes of the controller\<close>

text \<open>\<open>bootstrap_write b q\<close>: having read the resource as \<open>b\<close>, the reconciler may send the request \<open>q\<close>.\<close>

inductive bootstrap_write :: "clusterBootstrap \<Rightarrow> request \<Rightarrow> bool" where
  release: "\<not> isZeroTime (m_DeletionTimestamp (cb_ObjectMeta b)) \<Longrightarrow> bootstrapFinalizer \<in> set (m_Finalizers (cb_ObjectMeta b)) \<Longrightarrow>
    bootstrapFinalizer \<notin> set fs \<Longrightarrow> set fs \<union> {bootstrapFinalizer} = set (m_Finalizers (cb_ObjectMeta b)) \<Longrightarrow>
    bootstrap_write b (RUpdate (OBootstrap (cb_setFinalizers b fs)))"
| guard: "isZeroTime (m_DeletionTimestamp (cb_ObjectMeta b)) \<Longrightarrow> bootstrapFinalizer \<notin> set (m_Finalizers (cb_ObjectMeta b)) \<Longrightarrow>
    fs = m_Finalizers (cb_ObjectMeta b) @ [bootstrapFinalizer] \<Longrightarrow>
    bootstrap_write b (RUpdate (OBootstrap (cb_setFinalizers b fs)))"
| pending: "isZeroTime (m_DeletionTimestamp (cb_ObjectMeta b)) \<Longrightarrow> bootstrapFinalizer \<in> set (m_Finalizers (cb_ObjectMeta b)) \<Longrightarrow>
    cbst_Phase (cb_Status b) = [] \<Longrightarrow>
    bootstrap_write b (RStatusUpdate (OBootstrap (b\<lparr>cb_Status := (cb_Status b)\<lparr>cbst_Phase := ''Pending''\<rparr>\<rparr>)))"

section \<open>Properties\<close>

text \<open>A reconciliation of a bootstrap request reads it and makes at most one write, which is the
  finalizer added to a live request, the finalizer (and no other) removed from a deleted one, or the first
  phase of a live request that holds the finalizer.\<close>

theorem bootstrap_one_write:
  "spec (ClusterBootstrap_Reconcile E req) (\<lambda>es out.
     (\<exists>e. es = [(RGet KBootstrap req, e)]) \<or>
     (\<exists>b q r. es = [(RGet KBootstrap req, Inr [OBootstrap b]), (q, r)] \<and> bootstrap_write b q \<and>
        out = (noRequeue, errOf (decode1 theBootstrap r))))"
  unfolding ClusterBootstrap_Reconcile_def ClusterBootstrap_cleanup_def
  by (intro spec_intros;
      auto intro: bootstrap_write.intros simp: go_simps finish_def bootstrap_fin.del_has [unfolded containsString_iff])

end
