(* ===== verification/Scripted.thy ===== *)
theory Scripted
  imports Client
begin

text \<open>
  A concrete environment to evaluate the controllers on: the API server answers requests from a
  list of prepared responses, the clock stands still, unstructured content is read by walking
  the nested maps as its documentation says, quantities are whole numbers in decimal. It is
  one instance of the parameter \<open>env\<close>, used to evaluate examples; no general theorem rests on it.
\<close>

fun walk :: "goval \<Rightarrow> string list \<Rightarrow> goval option" where
  "walk v [] = Some v"
| "walk v (f # fs) =
     (case asMap (Some v) of
        None \<Rightarrow> None
      | Some m \<Rightarrow> (case m f of None \<Rightarrow> None | Some u \<Rightarrow> walk u fs))"

definition scr_nestedString :: "goval \<Rightarrow> string list \<Rightarrow> string \<times> bool \<times> goerr option" where
  "scr_nestedString v fs = (case walk v fs of
     None \<Rightarrow> ([], False, None)
   | Some u \<Rightarrow> (case asStr (Some u) of Some s \<Rightarrow> (s, True, None) | None \<Rightarrow> ([], False, Some (errorf ''not a string''))))"

definition scr_nestedSlice :: "goval \<Rightarrow> string list \<Rightarrow> goval list \<times> bool \<times> goerr option" where
  "scr_nestedSlice v fs = (case walk v fs of
     None \<Rightarrow> ([], False, None)
   | Some u \<Rightarrow> (case asList (Some u) of Some l \<Rightarrow> (l, True, None) | None \<Rightarrow> ([], False, Some (errorf ''not a slice''))))"

definition scr_nestedStringSlice :: "goval \<Rightarrow> string list \<Rightarrow> string list \<times> bool \<times> goerr option" where
  "scr_nestedStringSlice v fs = (let (l, found, err) = scr_nestedSlice v fs in
     case those (map (\<lambda>u. asStr (Some u)) l) of
       Some ss \<Rightarrow> (ss, found, err) | None \<Rightarrow> ([], False, Some (errorf ''not a string slice'')))"

definition scr_nestedMap :: "goval \<Rightarrow> string list \<Rightarrow> gomap \<times> bool \<times> goerr option" where
  "scr_nestedMap v fs = (case walk v fs of
     None \<Rightarrow> (Map.empty, False, None)
   | Some u \<Rightarrow> (case asMap (Some u) of Some m \<Rightarrow> (m, True, None) | None \<Rightarrow> (Map.empty, False, Some (errorf ''not a map''))))"

fun scr_setNestedField :: "goval \<Rightarrow> goval \<Rightarrow> string list \<Rightarrow> goval res" where
  "scr_setNestedField v x [] = Inr x"
| "scr_setNestedField v x (f # fs) =
     (case asMap (Some v) of
        None \<Rightarrow> Inl (errorf ''not a map'')
      | Some m \<Rightarrow> (case scr_setNestedField (case m f of None \<Rightarrow> GMap Map.empty | Some u \<Rightarrow> u) x fs of
          Inl e \<Rightarrow> Inl e | Inr u \<Rightarrow> Inr (GMap (m(f \<mapsto> u)))))"

definition scr_quantityCmp :: "quantity \<Rightarrow> quantity \<Rightarrow> int" where
  "scr_quantityCmp a b = (let v = (\<lambda>q. case atoi q of Some i \<Rightarrow> i | None \<Rightarrow> 0) in sgn (v a - v b))"

definition scriptedTime :: gotime where
  "scriptedTime = \<lparr>t_year = 2026, t_month = 3, t_day = 7, t_hour = 0, t_minute = 0, t_second = 0\<rparr>"

definition scripted :: "response list env" where
  "scripted =
     \<lparr>api = (\<lambda>q w. case w of [] \<Rightarrow> (Inl (GoErr NotFound ''not found''), []) | r # rs \<Rightarrow> (r, rs)),
      clock = (\<lambda>w. (scriptedTime, w)),
      getenv = (\<lambda>_. []),
      httpPostForm = (\<lambda>_ _ w. (Inl (errorf ''no network''), w)),
      jsonDecode = (\<lambda>_. Inl (errorf ''no json'')),
      jsonUnmarshal = (\<lambda>_. Inr (Some [''email_verified'' \<mapsto> GBool True])),
      nestedString = scr_nestedString,
      nestedSlice = scr_nestedSlice,
      nestedStringSlice = scr_nestedStringSlice,
      nestedMap = scr_nestedMap,
      setNestedField = scr_setNestedField,
      quantityCmp = scr_quantityCmp,
      newControllerRef = (\<lambda>m g. \<lparr>or_APIVersion = g_Group g, or_Kind = g_Kind g, or_Name = m_Name m,
                                 or_UID = m_UID m, or_Controller = True\<rparr>),
      isDone = (\<lambda>pr. pr_CompletionTime pr \<noteq> None),
      yamlToMap = (\<lambda>_. Inl (errorf ''no yaml'')),
      yamlOfMap = (\<lambda>_. Inl (errorf ''no yaml'')),
      yamlToConfig = (\<lambda>_. Inl (errorf ''no yaml'')),
      yamlOfConfig = (\<lambda>_. Inl (errorf ''no yaml''))\<rparr>"

definition start :: "response list \<Rightarrow> response list st" where
  "start rs = \<lparr>world = rs, trace = []\<rparr>"

named_theorems scripted_simps \<comment> \<open>evaluation of a program on a scripted server\<close>

lemma call_scripted [scripted_simps]:
  "run_state (call scripted q) \<lparr>world = r # rs, trace = t\<rparr> = (r, \<lparr>world = rs, trace = t @ [(q, r)]\<rparr>)"
  by (simp add: call_def scripted_def)

lemma call_scripted_Nil [scripted_simps]:
  "run_state (call scripted q) \<lparr>world = [], trace = t\<rparr> =
     (Inl (GoErr NotFound ''not found''), \<lparr>world = [], trace = t @ [(q, Inl (GoErr NotFound ''not found''))]\<rparr>)"
  by (simp add: call_def scripted_def)

lemma effect_scripted [scripted_simps]:
  "run_state (effect (clock scripted)) s = (scriptedTime, s)"
  by (simp add: effect_def scripted_def)

lemma params_scripted [scripted_simps]:
  "getenv scripted k = []" "nestedString scripted = scr_nestedString" "nestedSlice scripted = scr_nestedSlice"
  "nestedStringSlice scripted = scr_nestedStringSlice" "nestedMap scripted = scr_nestedMap"
  "setNestedField scripted = scr_setNestedField" "quantityCmp scripted = scr_quantityCmp"
  "yamlToConfig scripted y = Inl (errorf ''no yaml'')" "yamlToMap scripted y = Inl (errorf ''no yaml'')"
  "jsonUnmarshal scripted j = Inr (Some [''email_verified'' \<mapsto> GBool True])"
  "isDone scripted pr \<longleftrightarrow> pr_CompletionTime pr \<noteq> None"
  by (simp_all add: scripted_def)

declare Get_def [scripted_simps] ListObjs_def [scripted_simps] Create_def [scripted_simps]
  Update_def [scripted_simps] StatusUpdate_def [scripted_simps] Delete_def [scripted_simps]
  start_def [scripted_simps]

text \<open>The scripted environment reads and writes nested content as documented, also beside the field that is written.\<close>

lemma scr_read_after_write:
  "scr_setNestedField v (GList l) fs = Inr v' \<Longrightarrow> scr_nestedSlice v' fs = (l, True, None)"
proof (induction fs arbitrary: v v')
  case (Cons f fs)
  then obtain m u where "v' = GMap (m(f \<mapsto> u))"
    "scr_setNestedField (case m f of None \<Rightarrow> GMap Map.empty | Some u \<Rightarrow> u) (GList l) fs = Inr u"
    by (auto split: option.splits sum.splits)
  with Cons.IH [OF this(2)] show ?case by (simp add: scr_nestedSlice_def)
qed (simp add: scr_nestedSlice_def)

lemma scr_read_beside:
  "scr_setNestedField v x (fs @ [f]) = Inr v' \<Longrightarrow> f \<noteq> g \<Longrightarrow> scr_nestedSlice v' (fs @ [g]) = scr_nestedSlice v (fs @ [g])"
proof (induction fs arbitrary: v v')
  case (Cons h fs)
  from Cons.prems obtain m u where m: "v = GMap m" "v' = GMap (m(h \<mapsto> u))"
    and u: "scr_setNestedField (case m h of None \<Rightarrow> GMap Map.empty | Some w \<Rightarrow> w) x (fs @ [f]) = Inr u"
    by (cases v) (auto split: option.splits sum.splits)
  have "scr_nestedSlice (GMap Map.empty) (fs @ [g]) = ([], False, None)"
    by (cases fs) (simp_all add: scr_nestedSlice_def)
  with Cons.IH [OF u Cons.prems(2)] m show ?case
    by (auto simp: scr_nestedSlice_def split: option.splits)
qed (auto simp: scr_nestedSlice_def split: option.splits sum.splits)

section \<open>Sample objects\<close>

definition sampleConnected :: connectedConfig where
  "sampleConnected = \<lparr>con_CollectionSchedule = [], con_MirrorRegistry = [],
     con_ArtifactStorage = \<lparr>ast_StorageClass = [], ast_Size = []\<rparr>, con_TriggerTypes = [], con_Operators = None,
     con_RHTAS = None, con_RHTPA = None,
     con_Quay = Some \<lparr>quay_Managed = Some \<lparr>mq_Enabled = True, mq_OrganizationName = ''mirror'', mq_Storage = None,
        mq_Database = None, mq_AdminUser = [], mq_AdminPassword = [], mq_Clair = None, mq_Replicas = None\<rparr>, quay_ExternalURL = []\<rparr>,
     con_CertIssuer = None, con_RHCOSCollection = None, con_MirrorOperatorCatalog = []\<rparr>"

definition samplePlatform :: "connectedConfig option \<Rightarrow> importInfo list \<Rightarrow> disconnectedPlatform" where
  "samplePlatform conn history =
     \<lparr>dp_ObjectMeta = emptyMeta\<lparr>m_Name := ''platform''\<rparr>,
      dp_Spec = \<lparr>dps_Mode = ''connected'', dps_Connected = conn, dps_Airgapped = None, dps_Architect = None, dps_GitOps = None\<rparr>,
      dp_Status = \<lparr>dpst_Phase = [], dpst_Conditions = [], dpst_LastCollection = None, dpst_CollectionHistory = [],
         dpst_LastImport = None, dpst_ImportHistory = history, dpst_Components = [], dpst_RHTASRootKeys = None\<rparr>\<rparr>"

definition samplePipeline :: "string list \<Rightarrow> string \<Rightarrow> string \<Rightarrow> collectionPipeline" where
  "samplePipeline fins parent phase =
     \<lparr>cp_ObjectMeta = emptyMeta\<lparr>m_Name := ''base'', m_Namespace := ''ns'', m_Finalizers := fins\<rparr>,
      cp_Spec = \<lparr>cps_ImageSetConfig = ''user config'', cps_TriggerType = [], cps_Incremental = False, cps_BaseVersion = [],
         cps_Storage = \<lparr>ao_Output = None\<rparr>, cps_Signing = None, cps_Timeout = None, cps_ParentPipeline = parent,
         cps_StorageSize = None\<rparr>,
      cp_Status = \<lparr>cpst_Conditions = [], cpst_Phase = phase, cpst_Version = ''v1'', cpst_PipelineRunRef = [],
         cpst_ConfigMapRef = ''mirror-config-base'', cpst_StartTime = None, cpst_CompletionTime = None, cpst_BundleURL = [],
         cpst_SignatureURL = [], cpst_SbomUrl = [], cpst_WorkingPVCName = ''collection-storage-base'',
         cpst_ParentPipelineVersion = ''v1''\<rparr>\<rparr>"

definition sampleClaim :: persistentVolumeClaim where
  "sampleClaim = \<lparr>pvc_Meta = emptyMeta\<lparr>m_Name := ''collection-storage-base'', m_Namespace := ''ns''\<rparr>,
     pvc_AccessModes = [], pvc_Requests = Some [''storage'' \<mapsto> ''100Gi''], pvc_Capacity = Map.empty, pvc_Phase = []\<rparr>"

lemmas sample_defs = sampleConnected_def samplePlatform_def samplePipeline_def sampleClaim_def emptyMeta_def

end
