(* ===== verification/HealthCheck.thy ===== *)
theory HealthCheck
  imports History Scripted
begin

text \<open>
  The periodic health check of \<^verbatim>\<open>internal/controller/rhtashealthcheck_controller.go\<close>: the repair of the TUF
  key list, the restart of a crash-looping Fulcio pod, the \<^verbatim>\<open>email_verified\<close> claim of the OIDC token, and
  the health condition on the \<^verbatim>\<open>Securesign\<close> resource. A check gives \<open>None\<close> or its error; a panic unwinds
  the reconciliation instead of counting as an issue.
\<close>

section \<open>Definitions\<close>

definition securesignGVK :: gvk where
  "securesignGVK = \<lparr>g_Group = ''rhtas.redhat.com'', g_Version = ''v1alpha1'', g_Kind = ''Securesign''\<rparr>"

definition badTUFKey :: string where "badTUFKey = ''tsa.certchain.pem''"

definition tufKeyName :: "goval \<Rightarrow> string option" where
  "tufKeyName k = map_option (\<lambda>m. strOrEmpty (m ''name'')) (asMap (Some k))"

text \<open>The keys that the inner loop keeps: maps with another name.\<close>

definition keptTUFKeys :: "goval list \<Rightarrow> goval list" where
  "keptTUFKeys keys = filter (\<lambda>k. case tufKeyName k of Some n \<Rightarrow> n \<noteq> badTUFKey | None \<Rightarrow> False) keys"

text \<open>The resource is changed in place and by the update: it is returned with the error.\<close>

definition validateTUFKeys :: "('w, 'x) env_scheme \<Rightarrow> unstr \<Rightarrow> ('w, unstr \<times> goerr option) go" where
  "validateTUFKeys E securesign = do {
     let (keys, found, err) = nestedSlice E (u_Object securesign) [''spec'', ''tuf'', ''keys''];
     if err \<noteq> None \<or> \<not> found then return (securesign, None)
     else if \<exists>k \<in> set keys. tufKeyName k = Some badTUFKey then
       (case setNestedField E (u_Object securesign) (GList (keptTUFKeys keys)) [''spec'', ''tuf'', ''keys''] of
          Inl err \<Rightarrow> return (securesign, Some err)
        | Inr obj \<Rightarrow> do {
            u \<leftarrow> Update E OUnstr theUnstr (securesign\<lparr>u_Object := obj\<rparr>);
            case u of
              Inl err \<Rightarrow> return (securesign\<lparr>u_Object := obj\<rparr>, Some err)
            | Inr securesign \<Rightarrow> return (securesign, None) })
     else return (securesign, None) }"

text \<open>Whether one of the conditions is \<^verbatim>\<open>Ready=True\<close>; the loop asserts the type of the conditions it passes, and panics
  on one that is not a map.\<close>

fun readyAssert :: "goval list \<Rightarrow> bool res" where
  "readyAssert [] = Inr False"
| "readyAssert (c # cs) =
     (case asMap (Some c) of
        None \<Rightarrow> Inl (panic ''interface conversion'')
      | Some m \<Rightarrow>
          if m ''type'' = Some (GStr ''Ready'') \<and> m ''status'' = Some (GStr ''True'') then Inr True
          else readyAssert cs)"

definition keycloakObjGVK :: gvk where
  "keycloakObjGVK = \<lparr>g_Group = ''k8s.keycloak.org'', g_Version = ''v2alpha1'', g_Kind = ''Keycloak''\<rparr>"

fun restartLoop :: "('w, 'x) env_scheme \<Rightarrow> pod \<Rightarrow> containerStatus list \<Rightarrow> ('w, goerr option) go" where
  "restartLoop E pod [] = return None"
| "restartLoop E pod (s # ss) =
     (if cs_RestartCount s > 3 then do {
        kc \<leftarrow> Get E (KUnstr keycloakObjGVK) theUnstr (architectNamespace, ''mirror-operator-keycloak'');
        case kc of
          Inl _ \<Rightarrow> restartLoop E pod ss
        | Inr kc \<Rightarrow> do {
            let (conditions, _, _) = nestedSlice E (u_Object kc) [''status'', ''conditions''];
            case readyAssert conditions of
              Inl p \<Rightarrow> return (Some p)
            | Inr ready \<Rightarrow>
                if ready then do {
                  d \<leftarrow> Delete E KPod (m_Namespace (pod_Meta pod), m_Name (pod_Meta pod));
                  case d of Inl err \<Rightarrow> return (Some err) | Inr _ \<Rightarrow> return None }
                else restartLoop E pod ss } }
      else restartLoop E pod ss)"

definition validateFulcioKeycloakConnection :: "('w, 'x) env_scheme \<Rightarrow> ('w, goerr option) go" where
  "validateFulcioKeycloakConnection E = do {
     podList \<leftarrow> ListObjs E KPod thePod \<lparr>lo_Namespace = Some architectNamespace, lo_Labels = [''app'' \<mapsto> ''fulcio-server'']\<rparr>;
     case podList of
       Inl err \<Rightarrow> return (Some err)
     | Inr [] \<Rightarrow> return None
     | Inr (pod # _) \<Rightarrow> restartLoop E pod (pod_ContainerStatuses pod) }"

text \<open>Only logs, and never fails.\<close>

definition validateComponentReadiness :: "unstr \<Rightarrow> goerr option" where
  "validateComponentReadiness securesign = None"

text \<open>The part of \<^verbatim>\<open>validateEmailVerifiedClaim\<close> on the token (the value of a wrong claim is not put in the text).\<close>

definition checkToken :: "('w, 'x) env_scheme \<Rightarrow> string \<Rightarrow> goerr option" where
  "checkToken E accessToken =
     (case splitByte (CHR ''.'') accessToken of
        [_, body, _] \<Rightarrow>
          (case rawURLDecode body of
             None \<Rightarrow> Some (errorf ''failed to decode JWT payload: illegal base64 data'')
           | Some payload \<Rightarrow>
               (case jsonUnmarshal E payload of
                  Inl err \<Rightarrow> Some (wrap ''failed to unmarshal JWT claims'' err)
                | Inr claims \<Rightarrow>
                    (case orEmptyMap claims ''email_verified'' of
                       None \<Rightarrow> Some (errorf ''email_verified claim is missing from OIDC token'')
                     | Some emailVerified \<Rightarrow>
                         if emailVerified = GBool True then None
                         else Some (errorf ''email_verified claim is false''))))
      | _ \<Rightarrow> Some (errorf ''invalid JWT format''))"

definition managedKeycloak :: "disconnectedPlatform \<Rightarrow> managedKeycloakConfig option" where
  "managedKeycloak platform =
     Option.bind (dps_Connected (dp_Spec platform)) (\<lambda>c. Option.bind (con_RHTAS c)
       (\<lambda>t. Option.bind (tas_OIDC t) tasoidc_Managed))"

definition requestToken :: "('w, 'x) env_scheme \<Rightarrow> string \<Rightarrow> string \<Rightarrow> ('w, string res) go" where
  "requestToken E tokenURL clientSecret = do {
     resp \<leftarrow> effect (httpPostForm E tokenURL
               [(''grant_type'', ''client_credentials''), (''client_id'', ''trusted-artifact-signer''),
                (''client_secret'', clientSecret)]);
     case resp of
       Inl err \<Rightarrow> return (Inl (wrap ''failed to get access token'' err))
     | Inr (status, body) \<Rightarrow>
         if status \<noteq> 200 then return (Inl (errorf (''token request failed with status '' @ itoa status)))
         else (case jsonDecode E body of
                 Inl err \<Rightarrow> return (Inl (wrap ''failed to decode token response'' err))
               | Inr tokenResp \<Rightarrow>
                   if strOrEmpty (tokenResp ''access_token'') = [] then return (Inl (errorf ''no access token in response''))
                   else return (Inr (strOrEmpty (tokenResp ''access_token'')))) }"

definition validateEmailVerifiedClaim :: "('w, 'x) env_scheme \<Rightarrow> ('w, goerr option) go" where
  "validateEmailVerifiedClaim E = do {
     secret \<leftarrow> Get E KSecret theSecret (architectNamespace, ''mirror-operator-keycloak-client-secret'');
     case secret of
       Inl err \<Rightarrow> if isNotFound err then return None else return (Some err)
     | Inr secret \<Rightarrow> do {
         let clientSecret = secGet secret ''clientSecret'';
         if clientSecret = [] then return None
         else do {
           platformList \<leftarrow> ListObjs E KPlatform thePlatform allObjects;
           case platformList of
             Inl err \<Rightarrow> return (Some err)
           | Inr [] \<Rightarrow> return None
           | Inr (platform # _) \<Rightarrow>
               (case managedKeycloak platform of
                  None \<Rightarrow> return None
                | Some managed \<Rightarrow> do {
                    let realmName = (if mkc_Realm managed = [] then ''trusted-artifact-signer'' else mkc_Realm managed);
                    ingress \<leftarrow> Get E (KUnstr (configGVK ''Ingress'')) theUnstr ([], ''cluster'');
                    case ingress of
                      Inl err \<Rightarrow> return (Some err)
                    | Inr ingress \<Rightarrow> do {
                        let (domain, _, _) = nestedString E (u_Object ingress) [''spec'', ''domain''];
                        token \<leftarrow> requestToken E (''https://keycloak.'' @ domain @ ''/realms/'' @ realmName @
                                   ''/protocol/openid-connect/token'') clientSecret;
                        case token of
                          Inl err \<Rightarrow> return (Some err)
                        | Inr accessToken \<Rightarrow> return (checkToken E accessToken) } }) } } }"

definition healthCondition :: "gotime \<Rightarrow> bool \<Rightarrow> string \<Rightarrow> gomap" where
  "healthCondition now healthy message =
     [''type'' \<mapsto> GStr ''HealthCheckPassed'',
      ''status'' \<mapsto> GStr (if healthy then ''True'' else ''False''),
      ''reason'' \<mapsto> GStr (if healthy then ''AllHealthChecksPassed'' else ''HealthCheckFailed''),
      ''message'' \<mapsto> GStr message,
      ''lastTransitionTime'' \<mapsto> GStr (rfc3339 now)]"

definition isHealthCondition :: "goval \<Rightarrow> bool" where
  "isHealthCondition c \<longleftrightarrow> (case asMap (Some c) of Some m \<Rightarrow> m ''type'' = Some (GStr ''HealthCheckPassed'') | None \<Rightarrow> False)"

definition updateSecuresignHealthStatus :: "('w, 'x) env_scheme \<Rightarrow> unstr \<Rightarrow> bool \<Rightarrow> string \<Rightarrow> ('w, unit) go" where
  "updateSecuresignHealthStatus E securesign healthy message = do {
     let (conditions, found, err) = nestedSlice E (u_Object securesign) [''status'', ''conditions''];
     let conditions = (if err \<noteq> None \<or> \<not> found then [] else conditions);
     now \<leftarrow> effect (clock E);
     case setNestedField E (u_Object securesign)
            (GList (upsertFirst isHealthCondition (GMap (healthCondition now healthy message)) conditions))
            [''status'', ''conditions''] of
       Inl _ \<Rightarrow> return ()
     | Inr obj \<Rightarrow> do {
         _ \<leftarrow> StatusUpdate E OUnstr theUnstr (securesign\<lparr>u_Object := obj\<rparr>);
         return () } }"

text \<open>An issue is added for an error.\<close>

definition issueIf :: "goerr option \<Rightarrow> string \<Rightarrow> string list" where
  "issueIf err text = (if err \<noteq> None then [text] else [])"

text \<open>The rest of \<^verbatim>\<open>Reconcile\<close> after the second check, whose panic ends it before.\<close>

definition reportHealth :: "('w, 'x) env_scheme \<Rightarrow> unstr \<Rightarrow> goerr option \<Rightarrow> goerr option \<Rightarrow> ('w, outcome) go" where
  "reportHealth E securesign e1 e2 = do {
     let e3 = validateComponentReadiness securesign;
     e4 \<leftarrow> validateEmailVerifiedClaim E;
     let healthIssues = issueIf e1 ''TUF keys contain problematic entries'' @
                        issueIf e2 ''Fulcio cannot reach Keycloak OIDC endpoint'' @
                        issueIf e3 ''RHTAS components not all ready'' @
                        issueIf e4 ''OIDC token missing email_verified claim or claim is false'';
     (if healthIssues \<noteq> []
      then updateSecuresignHealthStatus E securesign False (joinWith ''; '' healthIssues)
      else updateSecuresignHealthStatus E securesign True ''All RHTAS components healthy'');
     return (requeueAfter (10 * minute), None) }"

definition RHTASHealthCheck_Reconcile :: "('w, 'x) env_scheme \<Rightarrow> nsname \<Rightarrow> ('w, outcome) go" where
  "RHTASHealthCheck_Reconcile E req = do {
     r \<leftarrow> Get E (KUnstr securesignGVK) theUnstr req;
     case r of
       Inl err \<Rightarrow> if isNotFound err then return (noRequeue, None) else return (noRequeue, Some err)
     | Inr securesign \<Rightarrow> do {
         (securesign, e1) \<leftarrow> validateTUFKeys E securesign;
         e2 \<leftarrow> validateFulcioKeycloakConnection E;
         case e2 of
           Some p \<Rightarrow>
             if isPanic p then return (noRequeue, Some p) else reportHealth E securesign e1 e2
         | None \<Rightarrow> reportHealth E securesign e1 e2 } }"

section \<open>Lemmas\<close>

lemma keptTUFKeys_clean: "tufKeyName k \<noteq> Some badTUFKey" if "k \<in> set (keptTUFKeys keys)"
  using that by (auto simp: keptTUFKeys_def split: option.splits)

lemma isHealthCondition_health [simp]: "isHealthCondition (GMap (healthCondition now healthy msg))"
  by (simp add: isHealthCondition_def healthCondition_def)

text \<open>What the loop over the conditions gives.\<close>

definition upserted :: "gomap \<Rightarrow> goval list \<Rightarrow> goval list \<Rightarrow> bool" where
  "upserted c cs cs' \<longleftrightarrow> GMap c \<in> set cs' \<and>
     filter (\<lambda>x. \<not> isHealthCondition x) cs' = filter (\<lambda>x. \<not> isHealthCondition x) cs \<and>
     length (filter isHealthCondition cs') = max 1 (length (filter isHealthCondition cs))"

lemma upserted_upsertFirst [simp]:
  "upserted (healthCondition now h msg) cs (upsertFirst isHealthCondition (GMap (healthCondition now h msg)) cs)"
  using upsertFirst_others [of isHealthCondition "GMap (healthCondition now h msg)" cs]
  by (simp add: upserted_def upsertFirst_ex upsertFirst_count)

definition readConditions :: "('w, 'x) env_scheme \<Rightarrow> unstr \<Rightarrow> goval list" where
  "readConditions E s =
     (case nestedSlice E (u_Object s) [''status'', ''conditions''] of (l, found, err) \<Rightarrow> if err \<noteq> None \<or> \<not> found then [] else l)"

lemma rawEncode_no_dot: "CHR ''.'' \<notin> set (rawEncode True s)"
  using rawEncode_set [of True s] b64Alphabet_facts(5) by blast

text \<open>The pods a trace deletes, and what justifies deleting one: a container that restarted more than
  three times, and Keycloak read as ready.\<close>

definition podDeletes :: "event list \<Rightarrow> nsname list" where
  "podDeletes es = concat (map (\<lambda>e. case fst e of RDelete k nn \<Rightarrow> (if k = KPod then [nn] else []) | _ \<Rightarrow> []) es)"

lemma podDeletes_simps [simp]:
  "podDeletes [] = []" "podDeletes ((RDelete k nn, r) # es) = (if k = KPod then [nn] else []) @ podDeletes es"
  "podDeletes ((RGet k nn, r) # es) = podDeletes es" "podDeletes ((RList k lo, r) # es) = podDeletes es"
  "podDeletes ((RUpdate x, r) # es) = podDeletes es" "podDeletes ((RStatusUpdate x, r) # es) = podDeletes es"
  by (simp_all add: podDeletes_def)

definition keycloakReady :: "('w, 'x) env_scheme \<Rightarrow> event list \<Rightarrow> bool" where
  "keycloakReady E es \<longleftrightarrow>
     (\<exists>nn kc. (RGet (KUnstr keycloakObjGVK) nn, Inr [OUnstr kc]) \<in> set es \<and>
        readyAssert (fst (nestedSlice E (u_Object kc) [''status'', ''conditions''])) = Inr True)"

lemma keycloakReady_Cons: "keycloakReady E es \<Longrightarrow> keycloakReady E (e # es)"
  by (auto simp: keycloakReady_def)

lemma spec_restartLoop:
  "spec (restartLoop E pod ss) (\<lambda>es _. podDeletes es = [] \<or>
     podDeletes es = [(m_Namespace (pod_Meta pod), m_Name (pod_Meta pod))] \<and>
     list_ex (\<lambda>s. cs_RestartCount s > 3) ss \<and> keycloakReady E es)"
proof (induction ss)
  case (Cons s ss)
  show ?case
    by (simp, intro conjI impI spec_intros; (rule spec_mono [OF Cons.IH])?)
       (auto simp: keycloakReady_Cons keycloakReady_def split: prod.splits)
qed simp

lemma only_restartLoop: "only (\<lambda>_. True) (restartLoop E pod ss)"
proof (induction ss)
  case Nil
  show ?case by (simp, intro only_intros)
next
  case (Cons s ss)
  show ?case unfolding restartLoop.simps by (intro only_intros Cons.IH; simp)
qed

lemma only_checks [only_intros]:
  "only (\<lambda>_. True) (validateTUFKeys E s)"
  "only (\<lambda>_. True) (validateFulcioKeycloakConnection E)"
  "only (\<lambda>_. True) (validateEmailVerifiedClaim E)"
  "only (\<lambda>_. True) (updateSecuresignHealthStatus E s h msg)"
  unfolding validateTUFKeys_def validateFulcioKeycloakConnection_def validateEmailVerifiedClaim_def requestToken_def
    updateSecuresignHealthStatus_def
  by (intro only_intros only_restartLoop; simp)+

lemma spec_reportHealth:
  "spec (reportHealth E s e1 e2) (\<lambda>_ out. out = (requeueAfter (10 * minute), None))"
  unfolding reportHealth_def by (intro spec_Let spec_bind_value only_intros spec_returnI) simp

section \<open>Properties\<close>

text \<open>The health check never stops: a reconciliation that found the resource ends with a requeue after ten minutes,
  whatever its checks and its writes gave, unless it panicked.\<close>

theorem health_check_requeued:
  "spec (RHTASHealthCheck_Reconcile E req) (\<lambda>es out.
     (\<exists>r. es = [(RGet (KUnstr securesignGVK) req, r)]) \<or> out = (requeueAfter (10 * minute), None) \<or>
     (\<exists>p. out = (noRequeue, Some p) \<and> isPanic p))"
  unfolding RHTASHealthCheck_Reconcile_def
proof (rule spec_bind_Get, rule spec_case_sum, (intro spec_intros; simp))
  fix r securesign
  let ?R = "\<lambda>out. out = (requeueAfter (10 * minute), None) \<or> (\<exists>p. out = (noRequeue, Some p) \<and> isPanic p)"
  show "spec (do { (securesign, e1) \<leftarrow> validateTUFKeys E securesign; e2 \<leftarrow> validateFulcioKeycloakConnection E;
         case e2 of
           Some p \<Rightarrow> if isPanic p then return (noRequeue, Some p) else reportHealth E securesign e1 e2
         | None \<Rightarrow> reportHealth E securesign e1 e2 })
       (\<lambda>es out. (\<exists>r'. (RGet (KUnstr securesignGVK) req, r) # es = [(RGet (KUnstr securesignGVK) req, r')]) \<or> ?R out)"
    by (rule spec_mono [where R = "\<lambda>_. ?R"],
        intro spec_bind_value only_checks spec_case_prod spec_case_option spec_if spec_returnI spec_mono [OF spec_reportHealth]) auto
qed

text \<open>C40. A Fulcio pod is restarted only when one of its containers restarted more than three times and Keycloak was read
  as ready, and at most one pod is deleted.\<close>

theorem fulcio_restart_guarded:
  "spec (validateFulcioKeycloakConnection E) (\<lambda>es _. podDeletes es = [] \<or>
     (\<exists>r pod pods rest. es = (RList KPod \<lparr>lo_Namespace = Some architectNamespace, lo_Labels = [''app'' \<mapsto> ''fulcio-server'']\<rparr>, r) # rest \<and>
        decodeAll thePod r = Inr (pod # pods) \<and>
        podDeletes es = [(m_Namespace (pod_Meta pod), m_Name (pod_Meta pod))] \<and>
        list_ex (\<lambda>s. cs_RestartCount s > 3) (pod_ContainerStatuses pod) \<and> keycloakReady E es))"
  unfolding validateFulcioKeycloakConnection_def
  by (intro spec_intros; (rule spec_mono [OF spec_restartLoop])?; auto intro: keycloakReady_Cons)

text \<open>The health condition is upserted: the conditions written are those read with every other condition in place and
  order, the new health condition among them, and no second health condition added.\<close>

theorem health_condition_upserted:
  "spec (updateSecuresignHealthStatus E s healthy msg) (\<lambda>es _. es = [] \<or>
     (\<exists>obj r now cs'. es = [(RStatusUpdate (OUnstr (s\<lparr>u_Object := obj\<rparr>)), r)] \<and>
        upserted (healthCondition now healthy msg) (readConditions E s) cs' \<and>
        setNestedField E (u_Object s) (GList cs') [''status'', ''conditions''] = Inr obj))"
proof (cases "nestedSlice E (u_Object s) [''status'', ''conditions'']")
  case (fields l found err)
  define cs where "cs = (if err \<noteq> None \<or> \<not> found then [] else l)"
  have "readConditions E s = cs"
    by (simp only: readConditions_def fields prod.case cs_def)
  then show ?thesis
    unfolding updateSecuresignHealthStatus_def fields prod.case Let_def cs_def [symmetric]
    by (intro spec_intros) (simp, use upserted_upsertFirst in blast)
qed

text \<open>Repairing the TUF keys converges: where reading a slice after setting it gives that slice, validating the
  repaired resource finds nothing to repair and sends no request.\<close>

theorem tuf_repair_converges:
  assumes law: "\<And>v l fs v'. setNestedField E v (GList l) fs = Inr v' \<Longrightarrow> nestedSlice E v' fs = (l, True, None)"
    and repaired: "setNestedField E (u_Object s) (GList (keptTUFKeys keys)) [''spec'', ''tuf'', ''keys''] = Inr obj"
  shows "spec (validateTUFKeys E (s\<lparr>u_Object := obj\<rparr>)) (\<lambda>es x. es = [] \<and> x = (s\<lparr>u_Object := obj\<rparr>, None))"
proof -
  have "\<not> (\<exists>k \<in> set (keptTUFKeys keys). tufKeyName k = Some badTUFKey)"
    using keptTUFKeys_clean by blast
  then show ?thesis
    unfolding validateTUFKeys_def using law [OF repaired] by (auto simp: Let_def)
qed

theorem tuf_repair_converges_witness:
  "let key = (\<lambda>n. GMap [''name'' \<mapsto> GStr n]);
       s = \<lparr>u_GVK = securesignGVK, u_Meta = emptyMeta, u_Object = GMap Map.empty\<rparr>;
       obj = GMap [''spec'' \<mapsto> GMap [''tuf'' \<mapsto> GMap [''keys'' \<mapsto> GList [key ''rekor.pub'']]]]
   in spec (validateTUFKeys scripted (s\<lparr>u_Object := obj\<rparr>)) (\<lambda>es x. es = [] \<and> x = (s\<lparr>u_Object := obj\<rparr>, None))"
  unfolding Let_def
  by (rule tuf_repair_converges [where keys = "[GMap [''name'' \<mapsto> GStr ''tsa.certchain.pem''], GMap [''name'' \<mapsto> GStr ''rekor.pub'']]"])
     (simp_all add: scripted_simps scr_read_after_write keptTUFKeys_def tufKeyName_def strOrEmpty_def badTUFKey_def)

text \<open>A token whose payload is the base64url encoding of a JSON text passes exactly when the text decodes to claims in
  which \<^verbatim>\<open>email_verified\<close> is the boolean true: a missing, false or mistyped claim is an issue.\<close>

theorem token_passes_iff_verified:
  assumes "CHR ''.'' \<notin> set header" "CHR ''.'' \<notin> set signature"
  shows "checkToken E (header @ ''.'' @ rawEncode True json @ ''.'' @ signature) = None \<longleftrightarrow>
    (\<exists>claims. jsonUnmarshal E json = Inr claims \<and> orEmptyMap claims ''email_verified'' = Some (GBool True))"
proof -
  have "splitByte (CHR ''.'') (header @ ''.'' @ rawEncode True json @ ''.'' @ signature) = [header, rawEncode True json, signature]"
    using assms rawEncode_no_dot [of json] by (simp add: splitByte_append splitByte_id)
  then show ?thesis
    by (simp add: checkToken_def rawDecode_roundtrip split: sum.split option.split)
qed

theorem token_passes_iff_verified_witness: "checkToken scripted ''h.e30.s'' = None"
proof -
  have e: "rawEncode True ''{}'' = ''e30''"
    by (simp add: rawEncode_def b64Alphabet_def)
  show ?thesis
    using token_passes_iff_verified [of "''h''" "''s''" scripted "''{}''"] by (simp add: e scripted_simps)
qed

end
