(* ===== verification/PlatformStatus.thy ===== *)
theory PlatformStatus
  imports HealthCheck History
begin

text \<open>
  The status of the \<^verbatim>\<open>DisconnectedPlatform\<close>, from \<^verbatim>\<open>internal/controller/disconnectedplatform_controller.go\<close>: the
  \<^verbatim>\<open>Ready\<close> and \<^verbatim>\<open>Degraded\<close> conditions and the phase, the health that is taken over from the
  \<^verbatim>\<open>Securesign\<close> resource, the platform controller's own copies of two health checks, and the event handlers that
  decide when a platform is reconciled. A function that changes the platform in place returns it; a handler
  returns the requests it adds to the work queue.
\<close>

abbreviation dp_Conditions :: "disconnectedPlatform \<Rightarrow> condition list" where
  "dp_Conditions p \<equiv> dpst_Conditions (dp_Status p)"
abbreviation dp_Phase :: "disconnectedPlatform \<Rightarrow> platformPhase" where "dp_Phase p \<equiv> dpst_Phase (dp_Status p)"
abbreviation dp_setConditions :: "disconnectedPlatform \<Rightarrow> condition list \<Rightarrow> disconnectedPlatform" where
  "dp_setConditions p cs \<equiv> p\<lparr>dp_Status := (dp_Status p)\<lparr>dpst_Conditions := cs\<rparr>\<rparr>"
abbreviation dp_setPhase :: "disconnectedPlatform \<Rightarrow> platformPhase \<Rightarrow> disconnectedPlatform" where
  "dp_setPhase p ph \<equiv> p\<lparr>dp_Status := (dp_Status p)\<lparr>dpst_Phase := ph\<rparr>\<rparr>"
abbreviation dp_Generation :: "disconnectedPlatform \<Rightarrow> int" where "dp_Generation p \<equiv> m_Generation (dp_ObjectMeta p)"

definition isCRDNotFoundError :: "goerr \<Rightarrow> bool" where
  "isCRDNotFoundError err \<longleftrightarrow> strContains (err_text err) ''no matches for kind''"

section \<open>The Ready condition\<close>

text \<open>The loops over the conditions: the first condition of the type is replaced, or one is added.\<close>

fun setErrorLoop :: "('w, 'x) env_scheme \<Rightarrow> int \<Rightarrow> string \<Rightarrow> string \<Rightarrow> condition list \<Rightarrow> ('w, condition list) go" where
  "setErrorLoop E gen reason message [] = do {
     now \<leftarrow> effect (clock E);
     return [\<lparr>c_Type = ''Ready'', c_Status = ''False'', c_ObservedGeneration = gen, c_LastTransitionTime = now,
              c_Reason = reason, c_Message = message\<rparr>] }"
| "setErrorLoop E gen reason message (c # cs) =
     (if c_Type c = ''Ready'' then
        if c_Status c = ''False'' \<and> c_Reason c = reason \<and> c_Message c = message then return (c # cs)
        else do {
          lastTransition \<leftarrow> (if c_Status c \<noteq> ''False'' then effect (clock E) else return (c_LastTransitionTime c));
          return (\<lparr>c_Type = ''Ready'', c_Status = ''False'', c_ObservedGeneration = gen,
                   c_LastTransitionTime = lastTransition, c_Reason = reason, c_Message = message\<rparr> # cs) }
      else do {
        cs' \<leftarrow> setErrorLoop E gen reason message cs;
        return (c # cs') })"

definition setErrorCondition :: "('w, 'x) env_scheme \<Rightarrow> disconnectedPlatform \<Rightarrow> string \<Rightarrow> string \<Rightarrow> ('w, disconnectedPlatform) go" where
  "setErrorCondition E platform reason message = do {
     cs \<leftarrow> setErrorLoop E (dp_Generation platform) reason message (dp_Conditions platform);
     return (dp_setConditions platform cs) }"

fun setReadyLoop :: "('w, 'x) env_scheme \<Rightarrow> int \<Rightarrow> string \<Rightarrow> string \<Rightarrow> condition list \<Rightarrow> ('w, condition list) go" where
  "setReadyLoop E gen reason message [] = do {
     now \<leftarrow> effect (clock E);
     return [\<lparr>c_Type = ''Ready'', c_Status = ''True'', c_ObservedGeneration = gen, c_LastTransitionTime = now,
              c_Reason = reason, c_Message = message\<rparr>] }"
| "setReadyLoop E gen reason message (c # cs) =
     (if c_Type c = ''Ready'' then
        if c_Status c = ''True'' \<and> c_Reason c = reason \<and> c_Message c = message \<and> c_ObservedGeneration c = gen
        then return (c # cs)
        else do {
          lastTransition \<leftarrow> (if c_Status c \<noteq> ''True'' then effect (clock E) else return (c_LastTransitionTime c));
          return (\<lparr>c_Type = ''Ready'', c_Status = ''True'', c_ObservedGeneration = gen,
                   c_LastTransitionTime = lastTransition, c_Reason = reason, c_Message = message\<rparr> # cs) }
      else do {
        cs' \<leftarrow> setReadyLoop E gen reason message cs;
        return (c # cs') })"

definition setReadyCondition :: "('w, 'x) env_scheme \<Rightarrow> disconnectedPlatform \<Rightarrow> string \<Rightarrow> string \<Rightarrow> ('w, disconnectedPlatform) go" where
  "setReadyCondition E platform reason message = do {
     cs \<leftarrow> setReadyLoop E (dp_Generation platform) reason message (dp_Conditions platform);
     return (dp_setConditions platform cs) }"

section \<open>The Degraded condition\<close>

fun degradedLoop :: "condition \<Rightarrow> condition list \<Rightarrow> condition list" where
  "degradedLoop new [] = [new]"
| "degradedLoop new (c # cs) =
     (if c_Type c = ''Degraded''
      then (if c_Status c \<noteq> ''True'' \<or> c_Reason c \<noteq> c_Reason new then new else c) # cs
      else c # degradedLoop new cs)"

definition updateDegradedCondition ::
  "('w, 'x) env_scheme \<Rightarrow> disconnectedPlatform \<Rightarrow> string \<Rightarrow> string \<Rightarrow> ('w, disconnectedPlatform) go" where
  "updateDegradedCondition E platform reason message = do {
     now \<leftarrow> effect (clock E);
     let degradedCondition = \<lparr>c_Type = ''Degraded'', c_Status = ''True'', c_ObservedGeneration = 0,
           c_LastTransitionTime = now, c_Reason = reason, c_Message = message\<rparr>;
     let platform = dp_setConditions platform (degradedLoop degradedCondition (dp_Conditions platform));
     return (if dp_Phase platform \<noteq> PlatformPhaseError then dp_setPhase platform ''Degraded'' else platform) }"

fun clearLoop :: "('w, 'x) env_scheme \<Rightarrow> string \<Rightarrow> condition list \<Rightarrow> ('w, condition list) go" where
  "clearLoop E reason [] = return []"
| "clearLoop E reason (c # cs) =
     (if c_Type c = ''Degraded'' \<and> c_Reason c = reason then
        if c_Status c = ''False'' \<and> c_Message c = ''Health check passed'' then return (c # cs)
        else do {
          now \<leftarrow> effect (clock E);
          return (c\<lparr>c_Status := ''False'', c_LastTransitionTime := now, c_Message := ''Health check passed''\<rparr> # cs) }
      else do {
        cs' \<leftarrow> clearLoop E reason cs;
        return (c # cs') })"

definition clearDegradedCondition :: "('w, 'x) env_scheme \<Rightarrow> disconnectedPlatform \<Rightarrow> string \<Rightarrow> ('w, disconnectedPlatform) go" where
  "clearDegradedCondition E platform reason = do {
     cs \<leftarrow> clearLoop E reason (dp_Conditions platform);
     let platform = dp_setConditions platform cs;
     let allCleared = \<not> (\<exists>cond \<in> set cs. c_Type cond = ''Degraded'' \<and> c_Status cond = ''True'');
     return (if allCleared \<and> dp_Phase platform = ''Degraded'' then dp_setPhase platform PlatformPhaseReady else platform) }"

text \<open>The loop of \<^verbatim>\<open>updateStatusFromSecuresignHealth\<close>: the first health condition decides.\<close>

fun applyHealth :: "('w, 'x) env_scheme \<Rightarrow> goval list \<Rightarrow> disconnectedPlatform \<Rightarrow> ('w, disconnectedPlatform) go" where
  "applyHealth E [] platform = return platform"
| "applyHealth E (cond # conds) platform =
     (case asMap (Some cond) of
        None \<Rightarrow> applyHealth E conds platform
      | Some condMap \<Rightarrow>
          if condMap ''type'' = Some (GStr ''HealthCheckPassed'') then
            if strOrEmpty (condMap ''status'') = ''False''
            then updateDegradedCondition E platform (strOrEmpty (condMap ''reason'')) (strOrEmpty (condMap ''message''))
            else do {
              platform \<leftarrow> clearDegradedCondition E platform ''HealthCheckFailed'';
              clearDegradedCondition E platform ''AllHealthChecksPassed'' }
          else applyHealth E conds platform)"

definition updateStatusFromSecuresignHealth ::
  "('w, 'x) env_scheme \<Rightarrow> disconnectedPlatform \<Rightarrow> ('w, disconnectedPlatform \<times> goerr option) go" where
  "updateStatusFromSecuresignHealth E platform = do {
     securesign \<leftarrow> Get E (KUnstr securesignGVK) theUnstr (architectNamespace, ''mirror-operator-securesign'');
     case securesign of
       Inl err \<Rightarrow> if isNotFound err then return (platform, None) else return (platform, Some err)
     | Inr securesign \<Rightarrow> do {
         let (conditions, found, err) = nestedSlice E (u_Object securesign) [''status'', ''conditions''];
         if err \<noteq> None \<or> \<not> found then return (platform, None)
         else do {
           platform \<leftarrow> applyHealth E conditions platform;
           return (platform, None) } } }"

section \<open>The platform controller's own health checks\<close>

text \<open>Drops the first bad key only, and keeps the keys that are not maps.\<close>

fun dropFirstTSAKey :: "goval list \<Rightarrow> goval list" where
  "dropFirstTSAKey [] = []"
| "dropFirstTSAKey (k # ks) = (if tufKeyName k = Some badTUFKey then ks else k # dropFirstTSAKey ks)"

definition checkAndFixTUFKeys :: "('w, 'x) env_scheme \<Rightarrow> ('w, goerr option) go" where
  "checkAndFixTUFKeys E = do {
     securesign \<leftarrow> Get E (KUnstr securesignGVK) theUnstr (architectNamespace, ''mirror-operator-securesign'');
     case securesign of
       Inl err \<Rightarrow> if isNotFound err then return None else return (Some err)
     | Inr securesign \<Rightarrow> do {
         let (keys, found, err) = nestedSlice E (u_Object securesign) [''spec'', ''tuf'', ''keys''];
         if err \<noteq> None \<or> \<not> found then return None
         else if \<exists>k \<in> set keys. tufKeyName k = Some badTUFKey then
           (case setNestedField E (u_Object securesign) (GList (dropFirstTSAKey keys)) [''spec'', ''tuf'', ''keys''] of
              Inl err \<Rightarrow> return (Some (wrap ''failed to update TUF keys'' err))
            | Inr obj \<Rightarrow> do {
                u \<leftarrow> Update E OUnstr theUnstr (securesign\<lparr>u_Object := obj\<rparr>);
                case u of
                  Inl err \<Rightarrow> return (Some (wrap ''failed to patch Securesign to remove tsa.certchain.pem'' err))
                | Inr _ \<Rightarrow> return None })
         else return None } }"

text \<open>The loop over the containers goes on after a restart: the \<^verbatim>\<open>break\<close> leaves the loop over the conditions.\<close>

fun connectivityLoop :: "('w, 'x) env_scheme \<Rightarrow> pod \<Rightarrow> containerStatus list \<Rightarrow> ('w, goerr option) go" where
  "connectivityLoop E pod [] = return None"
| "connectivityLoop E pod (s # ss) =
     (if cs_RestartCount s > 3 then do {
        kc \<leftarrow> Get E (KUnstr keycloakObjGVK) theUnstr (architectNamespace, ''mirror-operator-keycloak'');
        case kc of
          Inl _ \<Rightarrow> connectivityLoop E pod ss
        | Inr kc \<Rightarrow> do {
            let (conditions, _, _) = nestedSlice E (u_Object kc) [''status'', ''conditions''];
            case readyAssert conditions of
              Inl p \<Rightarrow> return (Some p)
            | Inr ready \<Rightarrow>
                if ready then do {
                  d \<leftarrow> Delete E KPod (m_Namespace (pod_Meta pod), m_Name (pod_Meta pod));
                  case d of
                    Inl err \<Rightarrow> return (Some (wrap ''failed to restart Fulcio pod'' err))
                  | Inr _ \<Rightarrow> connectivityLoop E pod ss }
                else connectivityLoop E pod ss } }
      else connectivityLoop E pod ss)"

definition checkFulcioKeycloakConnectivity :: "('w, 'x) env_scheme \<Rightarrow> ('w, goerr option) go" where
  "checkFulcioKeycloakConnectivity E = do {
     securesign \<leftarrow> Get E (KUnstr securesignGVK) theUnstr (architectNamespace, ''mirror-operator-securesign'');
     case securesign of
       Inl err \<Rightarrow> if isNotFound err then return None else return (Some err)
     | Inr _ \<Rightarrow> do {
         podList \<leftarrow> ListObjs E KPod thePod
           \<lparr>lo_Namespace = Some architectNamespace, lo_Labels = [''app'' \<mapsto> ''fulcio-server'']\<rparr>;
         case podList of
           Inl err \<Rightarrow> return (Some err)
         | Inr [] \<Rightarrow> return None
         | Inr (pod # _) \<Rightarrow> connectivityLoop E pod (pod_ContainerStatuses pod) } }"

text \<open>\<^verbatim>\<open>platform.Spec.Connected\<close> is dereferenced without a check; the errors of the checks are logged, a panic of
  the second passes by.\<close>

definition performRHTASHealthChecks :: "('w, 'x) env_scheme \<Rightarrow> disconnectedPlatform \<Rightarrow> ('w, goerr option) go" where
  "performRHTASHealthChecks E platform =
     (case dps_Connected (dp_Spec platform) of
        None \<Rightarrow> return (Some (panic ''nil pointer dereference: platform.Spec.Connected''))
      | Some connected \<Rightarrow>
          (case Option.bind (con_RHTAS connected) (\<lambda>cfg. Option.bind (tas_OIDC cfg) tasoidc_Managed) of
             None \<Rightarrow> return None
           | Some managed \<Rightarrow>
               if \<not> mkc_Enabled managed then return None
               else do {
                 _ \<leftarrow> checkAndFixTUFKeys E;
                 e \<leftarrow> checkFulcioKeycloakConnectivity E;
                 case e of
                   Some p \<Rightarrow> if isPanic p then return (Some p) else return None
                 | None \<Rightarrow> return None }))"

section \<open>Events that wake the controller\<close>

text \<open>One request per platform that the server lists; the three handlers that queue requests share the text of this
  loop.\<close>

definition triggerPlatformReconcile :: "('w, 'x) env_scheme \<Rightarrow> ('w, nsname list) go" where
  "triggerPlatformReconcile E = do {
     platformList \<leftarrow> ListObjs E KPlatform thePlatform allObjects;
     case platformList of
       Inl _ \<Rightarrow> return []
     | Inr items \<Rightarrow> return (map (\<lambda>p. (m_Namespace (dp_ObjectMeta p), m_Name (dp_ObjectMeta p))) items) }"

definition handleSecret :: "('w, 'x) env_scheme \<Rightarrow> kobj \<Rightarrow> ('w, nsname list) go" where
  "handleSecret E obj =
     (case theSecret obj of
        None \<Rightarrow> return []
      | Some secret \<Rightarrow>
          if m_Namespace (sec_Meta secret) \<noteq> defaultPullSecretNS \<or> m_Name (sec_Meta secret) \<noteq> defaultPullSecretName
          then return []
          else triggerPlatformReconcile E)"

definition collectionPipeline_Update :: "('w, 'x) env_scheme \<Rightarrow> kobj \<Rightarrow> kobj \<Rightarrow> ('w, nsname list) go" where
  "collectionPipeline_Update E objectOld objectNew =
     (case (thePipeline objectOld, thePipeline objectNew) of
        (Some oldPipeline, Some newPipeline) \<Rightarrow>
          if (cpst_Phase (cp_Status newPipeline) = ''Complete'' \<or> cpst_Phase (cp_Status newPipeline) = ''Succeeded'') \<and>
             cpst_Phase (cp_Status oldPipeline) \<noteq> cpst_Phase (cp_Status newPipeline)
          then triggerPlatformReconcile E else return []
      | _ \<Rightarrow> return [])"

fun readyStatusLoop :: "nodeCondition list \<Rightarrow> string" where
  "readyStatusLoop [] = ''Unknown''"
| "readyStatusLoop (c # cs) = (if nc_Type c = ''Ready'' then nc_Status c else readyStatusLoop cs)"

definition nodeReadyStatus :: "node \<Rightarrow> string" where
  "nodeReadyStatus node = readyStatusLoop (node_Conditions node)"

definition masterLabel :: "objectMeta \<Rightarrow> bool" where
  "masterLabel m \<longleftrightarrow> m_Labels m ''node-role.kubernetes.io/master'' \<noteq> None"

definition node_Update :: "('w, 'x) env_scheme \<Rightarrow> kobj \<Rightarrow> kobj \<Rightarrow> ('w, nsname list) go" where
  "node_Update E objectOld objectNew =
     (case (theNode objectOld, theNode objectNew) of
        (Some oldNode, Some newNode) \<Rightarrow>
          if \<not> masterLabel (node_Meta newNode) then return []
          else if nodeReadyStatus oldNode \<noteq> nodeReadyStatus newNode then triggerPlatformReconcile E
          else return []
      | _ \<Rightarrow> return [])"

definition node_Delete :: "('w, 'x) env_scheme \<Rightarrow> kobj \<Rightarrow> ('w, nsname list) go" where
  "node_Delete E object =
     (case theNode object of
        Some node \<Rightarrow> if masterLabel (node_Meta node) then triggerPlatformReconcile E else return []
      | None \<Rightarrow> return [])"

text \<open>A \<^verbatim>\<open>TaskRun\<close> is unstructured content; its labels are in the metadata of the object.\<close>

definition taskRunSucceeded :: "('w, 'x) env_scheme \<Rightarrow> unstr \<Rightarrow> bool" where
  "taskRunSucceeded E u =
     (let (conditions, found, _) = nestedSlice E (u_Object u) [''status'', ''conditions'']
      in found \<and> (\<exists>c \<in> set conditions. case asMap (Some c) of
           None \<Rightarrow> False
         | Some cond \<Rightarrow> cond ''type'' = Some (GStr ''Succeeded'') \<and> cond ''status'' = Some (GStr ''True'')))"

fun deletePods :: "('w, 'x) env_scheme \<Rightarrow> pod list \<Rightarrow> ('w, unit) go" where
  "deletePods E [] = return ()"
| "deletePods E (p # ps) = do {
     _ \<leftarrow> Delete E KPod (m_Namespace (pod_Meta p), m_Name (pod_Meta p));
     deletePods E ps }"

definition handleTaskRun :: "('w, 'x) env_scheme \<Rightarrow> kobj \<Rightarrow> kobj \<Rightarrow> ('w, unit) go" where
  "handleTaskRun E oldObj newObj =
     (case theUnstr newObj of
        None \<Rightarrow> return ()
      | Some newU \<Rightarrow>
          if mapGet (m_Labels (u_Meta newU)) ''tekton.dev/pipelineTask'' \<noteq> ''mirror-to-intermediate'' then return ()
          else (case theUnstr oldObj of
             None \<Rightarrow> return ()
           | Some oldU \<Rightarrow>
               if taskRunSucceeded E oldU \<or> \<not> taskRunSucceeded E newU then return ()
               else do {
                 podList \<leftarrow> ListObjs E KPod thePod
                   \<lparr>lo_Namespace = Some ''openshift-update-service'', lo_Labels = [''app'' \<mapsto> ''update-service-oc-mirror'']\<rparr>;
                 case podList of
                   Inl _ \<Rightarrow> return ()
                 | Inr items \<Rightarrow> deletePods E items }))"

section \<open>The Ready condition as a pure function\<close>

definition isReady :: "condition \<Rightarrow> bool" where "isReady c \<longleftrightarrow> c_Type c = ''Ready''"
definition isDegraded :: "condition \<Rightarrow> bool" where "isDegraded c \<longleftrightarrow> c_Type c = ''Degraded''"

text \<open>What both setters do, with the time they would read from the clock and, for a condition that agrees in status, reason
  and message, the test whether it is fresh.\<close>

fun setCond :: "string \<Rightarrow> (int \<Rightarrow> condition \<Rightarrow> bool) \<Rightarrow> gotime \<Rightarrow> int \<Rightarrow> string \<Rightarrow> string \<Rightarrow> condition list \<Rightarrow> condition list" where
  "setCond status fresh now g r m [] =
     [\<lparr>c_Type = ''Ready'', c_Status = status, c_ObservedGeneration = g, c_LastTransitionTime = now, c_Reason = r, c_Message = m\<rparr>]"
| "setCond status fresh now g r m (c # cs) =
     (if isReady c then
        if c_Status c = status \<and> c_Reason c = r \<and> c_Message c = m \<and> fresh g c then c # cs
        else \<lparr>c_Type = ''Ready'', c_Status = status, c_ObservedGeneration = g,
               c_LastTransitionTime = (if c_Status c \<noteq> status then now else c_LastTransitionTime c),
               c_Reason = r, c_Message = m\<rparr> # cs
      else c # setCond status fresh now g r m cs)"

text \<open>The contract of a setter: the other conditions stay, there is one \<^verbatim>\<open>Ready\<close> condition more only where there was none, it
  says what was set, its transition time moves exactly with the status, and nothing happens where nothing is new.\<close>

locale ready_setter =
  fixes status :: string
    and fresh :: "int \<Rightarrow> condition \<Rightarrow> bool"
    and set_cond :: "gotime \<Rightarrow> int \<Rightarrow> string \<Rightarrow> string \<Rightarrow> condition list \<Rightarrow> condition list"
  assumes others: "filter (\<lambda>c. \<not> isReady c) (set_cond now g r m cs) = filter (\<lambda>c. \<not> isReady c) cs"
    and count: "length (filter isReady (set_cond now g r m cs)) = max 1 (length (filter isReady cs))"
    and first: "\<exists>c. find isReady (set_cond now g r m cs) = Some c \<and> c_Status c = status \<and> c_Reason c = r \<and> c_Message c = m \<and>
          fresh g c \<and> c_LastTransitionTime c =
            (case find isReady cs of Some c0 \<Rightarrow> (if c_Status c0 = status then c_LastTransitionTime c0 else now) | None \<Rightarrow> now)"
    and same: "find isReady cs = Some c \<Longrightarrow> c_Status c = status \<Longrightarrow> c_Reason c = r \<Longrightarrow> c_Message c = m \<Longrightarrow> fresh g c \<Longrightarrow>
          set_cond now g r m cs = cs"
begin

lemma settles: "set_cond now' g r m (set_cond now g r m cs) = set_cond now g r m cs"
  using first [of now g r m cs] same by metis

lemma reports: "\<exists>c \<in> set (set_cond now g r m cs). isReady c \<and> c_Status c = status \<and> c_Reason c = r \<and> c_Message c = m \<and> fresh g c"
  using first [of now g r m cs] by (metis find_Some_iff nth_mem)

end

lemma ready_setter_setCond:
  assumes new: "\<And>g c. c_ObservedGeneration c = g \<Longrightarrow> fresh g c"
  shows "ready_setter status fresh (setCond status fresh)"
proof
  fix now g r m cs
  show "filter (\<lambda>c. \<not> isReady c) (setCond status fresh now g r m cs) = filter (\<lambda>c. \<not> isReady c) cs"
    by (induction cs) (auto simp: isReady_def)
  show "length (filter isReady (setCond status fresh now g r m cs)) = max 1 (length (filter isReady cs))"
    by (induction cs) (auto simp: isReady_def)
  show "\<exists>c. find isReady (setCond status fresh now g r m cs) = Some c \<and> c_Status c = status \<and> c_Reason c = r \<and> c_Message c = m \<and>
      fresh g c \<and> c_LastTransitionTime c =
        (case find isReady cs of Some c0 \<Rightarrow> (if c_Status c0 = status then c_LastTransitionTime c0 else now) | None \<Rightarrow> now)"
    by (induction cs) (auto simp: isReady_def new)
  fix c
  assume "find isReady cs = Some c" "c_Status c = status" "c_Reason c = r" "c_Message c = m" "fresh g c"
  then show "setCond status fresh now g r m cs = cs"
    by (induction cs) (auto split: if_splits)
qed

interpretation error_setter: ready_setter "''False''" "\<lambda>_ _. True" "setCond ''False'' (\<lambda>_ _. True)"
  by (rule ready_setter_setCond) simp

interpretation success_setter: ready_setter "''True''" "\<lambda>g c. c_ObservedGeneration c = g" "setCond ''True'' (\<lambda>g c. c_ObservedGeneration c = g)"
  by (rule ready_setter_setCond) simp

lemma spec_setErrorLoop:
  "spec (setErrorLoop E g r m cs) (\<lambda>es cs'. es = [] \<and> (\<exists>now. cs' = setCond ''False'' (\<lambda>_ _. True) now g r m cs))"
proof (induction cs)
  case (Cons c cs)
  show ?case
    unfolding setErrorLoop.simps
    by (rule spec_if; (intro spec_intros | rule spec_bindI [OF Cons.IH]); auto simp: isReady_def)
qed (simp, intro spec_intros, auto)

lemma spec_setReadyLoop:
  "spec (setReadyLoop E g r m cs) (\<lambda>es cs'. es = [] \<and> (\<exists>now. cs' = setCond ''True'' (\<lambda>g c. c_ObservedGeneration c = g) now g r m cs))"
proof (induction cs)
  case (Cons c cs)
  show ?case
    unfolding setReadyLoop.simps
    by (rule spec_if; (intro spec_intros | rule spec_bindI [OF Cons.IH]); auto simp: isReady_def)
qed (simp, intro spec_intros, auto)

lemma spec_setReadyCondition:
  "spec (setReadyCondition E p r m) (\<lambda>es p'. es = [] \<and>
     (\<exists>now. p' = dp_setConditions p (setCond ''True'' (\<lambda>g c. c_ObservedGeneration c = g) now (dp_Generation p) r m (dp_Conditions p))))"
  unfolding setReadyCondition_def by (rule spec_bindI [OF spec_setReadyLoop]) auto

lemma spec_setErrorCondition:
  "spec (setErrorCondition E p r m) (\<lambda>es p'. es = [] \<and>
     (\<exists>now. p' = dp_setConditions p (setCond ''False'' (\<lambda>_ _. True) now (dp_Generation p) r m (dp_Conditions p))))"
  unfolding setErrorCondition_def by (rule spec_bindI [OF spec_setErrorLoop]) auto

section \<open>Lemmas on health and degradation\<close>

definition degraded :: "disconnectedPlatform \<Rightarrow> bool" where
  "degraded p \<longleftrightarrow> (\<exists>c \<in> set (dp_Conditions p). isDegraded c \<and> c_Status c = ''True'')"

fun clearCond :: "string \<Rightarrow> gotime \<Rightarrow> condition list \<Rightarrow> condition list" where
  "clearCond r now [] = []"
| "clearCond r now (c # cs) =
     (if isDegraded c \<and> c_Reason c = r then
        (if c_Status c = ''False'' \<and> c_Message c = ''Health check passed'' then c
         else c\<lparr>c_Status := ''False'', c_LastTransitionTime := now, c_Message := ''Health check passed''\<rparr>) # cs
      else c # clearCond r now cs)"

lemma spec_clearLoop: "spec (clearLoop E r cs) (\<lambda>es cs'. es = [] \<and> (\<exists>now. cs' = clearCond r now cs))"
proof (induction cs)
  case (Cons c cs)
  show ?case
    unfolding clearLoop.simps
    by (rule spec_if; (intro spec_intros | rule spec_bindI [OF Cons.IH]); auto simp: isDegraded_def)
qed simp

lemma spec_clearDegraded:
  "spec (clearDegradedCondition E p r) (\<lambda>es p'. es = [] \<and> (\<exists>now. dp_Conditions p' = clearCond r now (dp_Conditions p)) \<and>
     dp_Phase p' = (if dp_Phase p = ''Degraded'' \<and> \<not> degraded p' then ''Ready'' else dp_Phase p))"
  unfolding clearDegradedCondition_def Let_def
  by (rule spec_bindI [OF spec_clearLoop])
     (auto intro!: spec_returnI simp: degraded_def isDegraded_def api_consts)

lemma spec_updateDegraded:
  "spec (updateDegradedCondition E p r m) (\<lambda>es p'. es = [] \<and>
     (\<exists>now. dp_Conditions p' = degradedLoop \<lparr>c_Type = ''Degraded'', c_Status = ''True'', c_ObservedGeneration = 0,
        c_LastTransitionTime = now, c_Reason = r, c_Message = m\<rparr> (dp_Conditions p)) \<and>
     dp_Phase p' = (if dp_Phase p = ''Error'' then ''Error'' else ''Degraded''))"
  unfolding updateDegradedCondition_def Let_def by (intro spec_intros; auto simp: api_consts)

lemma degradedLoop_first:
  "isDegraded new \<Longrightarrow> c_Status new = ''True'' \<Longrightarrow>
   \<exists>c. find isDegraded (degradedLoop new cs) = Some c \<and> c_Status c = ''True'' \<and> c_Reason c = c_Reason new"
  by (induction cs) (auto simp: isDegraded_def)

lemma degradedLoop_count:
  "isDegraded new \<Longrightarrow> length (filter isDegraded (degradedLoop new cs)) = max 1 (length (filter isDegraded cs))"
  by (induction cs) (auto simp: isDegraded_def)

text \<open>Where there is one \<^verbatim>\<open>Degraded\<close> condition, with the reason cleared, nothing is degraded afterwards.\<close>

lemma clearCond_clears:
  assumes "find isDegraded cs = Some c" "c_Reason c = r" "length (filter isDegraded cs) \<le> 1" "d \<in> set (clearCond r now cs)" "isDegraded d"
  shows "c_Status d = ''False''"
  using assms
proof (induction cs)
  case (Cons x cs)
  show ?case
  proof (cases "isDegraded x")
    case True
    with Cons.prems have "filter isDegraded cs = []" by simp
    with Cons.prems True show ?thesis by (auto simp: filter_empty_conv split: if_splits)
  qed (use Cons in auto)
qed simp

lemma clearCond_False:
  "\<forall>d \<in> set cs. isDegraded d \<longrightarrow> c_Status d = ''False'' \<Longrightarrow> d \<in> set (clearCond r now cs) \<Longrightarrow> isDegraded d \<Longrightarrow> c_Status d = ''False''"
  by (induction cs) (auto split: if_splits)

text \<open>The condition the health check controller wrote is the one that the platform controller finds.\<close>

lemma applyHealth_upsert:
  "applyHealth E (upsertFirst isHealthCondition (GMap h) cs) p = applyHealth E [GMap h] p"
  if "h ''type'' = Some (GStr ''HealthCheckPassed'')"
proof (induction cs)
  case (Cons c cs)
  then show ?case using that by (cases c) (auto simp: isHealthCondition_def)
qed simp

lemma spec_applyHealth_unhealthy:
  "spec (applyHealth E (upsertFirst isHealthCondition (GMap (healthCondition t False m)) cs) p)
     (\<lambda>es p'. es = [] \<and> dp_Phase p' = (if dp_Phase p = ''Error'' then ''Error'' else ''Degraded'') \<and>
        length (filter isDegraded (dp_Conditions p')) = max 1 (length (filter isDegraded (dp_Conditions p))) \<and>
        (\<exists>c. find isDegraded (dp_Conditions p') = Some c \<and> c_Status c = ''True'' \<and> c_Reason c = ''HealthCheckFailed''))"
proof -
  have "applyHealth E (upsertFirst isHealthCondition (GMap (healthCondition t False m)) cs) p =
      updateDegradedCondition E p ''HealthCheckFailed'' m"
    by (subst applyHealth_upsert) (simp_all add: healthCondition_def strOrEmpty_def)
  moreover have "spec (updateDegradedCondition E p ''HealthCheckFailed'' m)
     (\<lambda>es p'. es = [] \<and> dp_Phase p' = (if dp_Phase p = ''Error'' then ''Error'' else ''Degraded'') \<and>
        length (filter isDegraded (dp_Conditions p')) = max 1 (length (filter isDegraded (dp_Conditions p))) \<and>
        (\<exists>c. find isDegraded (dp_Conditions p') = Some c \<and> c_Status c = ''True'' \<and> c_Reason c = ''HealthCheckFailed''))"
  proof (rule spec_mono [OF spec_updateDegraded], elim conjE exE, intro conjI)
    fix es p' now
    let ?new = "\<lparr>c_Type = ''Degraded'', c_Status = ''True'', c_ObservedGeneration = 0, c_LastTransitionTime = now,
        c_Reason = ''HealthCheckFailed'', c_Message = m\<rparr>"
    assume c: "dp_Conditions p' = degradedLoop ?new (dp_Conditions p)"
    show "length (filter isDegraded (dp_Conditions p')) = max 1 (length (filter isDegraded (dp_Conditions p)))"
      unfolding c by (rule degradedLoop_count) (simp add: isDegraded_def)
    show "\<exists>c. find isDegraded (dp_Conditions p') = Some c \<and> c_Status c = ''True'' \<and> c_Reason c = ''HealthCheckFailed''"
      unfolding c using degradedLoop_first [of ?new] by (simp add: isDegraded_def)
  qed
  ultimately show ?thesis by simp
qed

lemma spec_applyHealth_healthy:
  assumes "find isDegraded (dp_Conditions p) = Some c" "c_Reason c = ''HealthCheckFailed''"
    "length (filter isDegraded (dp_Conditions p)) \<le> 1" "dp_Phase p = ''Degraded''"
  shows "spec (applyHealth E (upsertFirst isHealthCondition (GMap (healthCondition t True m)) cs) p)
     (\<lambda>es p'. es = [] \<and> \<not> degraded p' \<and> dp_Phase p' = ''Ready'')"
proof -
  have eq: "applyHealth E (upsertFirst isHealthCondition (GMap (healthCondition t True m)) cs) p =
      do { p \<leftarrow> clearDegradedCondition E p ''HealthCheckFailed''; clearDegradedCondition E p ''AllHealthChecksPassed'' }"
    by (subst applyHealth_upsert) (simp_all add: healthCondition_def strOrEmpty_def)
  show ?thesis
    unfolding eq
  proof (rule spec_bindI [OF spec_clearDegraded], elim conjE exE)
    fix es :: "event list" and p1 now
    assume es: "es = []" and c1: "dp_Conditions p1 = clearCond ''HealthCheckFailed'' now (dp_Conditions p)"
      and ph: "dp_Phase p1 = (if dp_Phase p = ''Degraded'' \<and> \<not> degraded p1 then ''Ready'' else dp_Phase p)"
    have all: "\<forall>d \<in> set (dp_Conditions p1). isDegraded d \<longrightarrow> c_Status d = ''False''"
      unfolding c1 using clearCond_clears [OF assms(1,2,3)] by blast
    then have ph1: "dp_Phase p1 = ''Ready''" using ph assms(4) by (auto simp: degraded_def)
    show "spec (clearDegradedCondition E p1 ''AllHealthChecksPassed'')
        (\<lambda>es' p'. es @ es' = [] \<and> \<not> degraded p' \<and> dp_Phase p' = ''Ready'')"
      by (rule spec_mono [OF spec_clearDegraded]) (use es ph1 clearCond_False [OF all] in \<open>fastforce simp: degraded_def\<close>)
  qed
qed

section \<open>Lemmas on the checks and the events\<close>

lemma dropFirst_iterate:
  "(dropFirstTSAKey ^^ length (filter (\<lambda>k. tufKeyName k = Some badTUFKey) keys)) keys =
   filter (\<lambda>k. tufKeyName k \<noteq> Some badTUFKey) keys"
proof (induction keys rule: length_induct)
  case (1 keys)
  have step: "(dropFirstTSAKey ^^ n) (k # ks) = k # (dropFirstTSAKey ^^ n) ks" if "tufKeyName k \<noteq> Some badTUFKey" for n k ks
    using that by (induction n) auto
  show ?case
  proof (cases keys)
    case (Cons k ks)
    with 1 have "(dropFirstTSAKey ^^ length (filter (\<lambda>k. tufKeyName k = Some badTUFKey) ks)) ks =
        filter (\<lambda>k. tufKeyName k \<noteq> Some badTUFKey) ks" by simp
    with Cons step show ?thesis by (auto simp: funpow_swap1 simp del: funpow.simps) (simp add: funpow_Suc_right del: funpow.simps)
  qed simp
qed

lemma spec_trigger:
  "spec (triggerPlatformReconcile E) (\<lambda>es q. \<exists>r. es = [(RList KPlatform allObjects, r)] \<and>
     q = (case decodeAll thePlatform r of Inl _ \<Rightarrow> [] | Inr items \<Rightarrow> map (\<lambda>p. (m_Namespace (dp_ObjectMeta p), m_Name (dp_ObjectMeta p))) items))"
  unfolding triggerPlatformReconcile_def by (intro spec_intros; simp)

lemma keycloakReady_read:
  "nestedSlice E (u_Object kc) [''status'', ''conditions''] = (cs, f, e) \<Longrightarrow> readyAssert cs = Inr True \<Longrightarrow>
   keycloakReady E ((RGet (KUnstr keycloakObjGVK) nn, Inr [OUnstr kc]) # es)"
  unfolding keycloakReady_def by (rule exI [of _ nn], rule exI [of _ kc]) simp

lemma spec_connectivityLoop:
  "spec (connectivityLoop E pod ss) (\<lambda>es _. length (podDeletes es) \<le> length (filter (\<lambda>s. cs_RestartCount s > 3) ss) \<and>
     set (podDeletes es) \<subseteq> {(m_Namespace (pod_Meta pod), m_Name (pod_Meta pod))} \<and> (podDeletes es = [] \<or> keycloakReady E es))"
proof (induction ss)
  case (Cons s ss)
  show ?case
    by (simp, intro conjI impI spec_intros; (rule spec_mono [OF Cons.IH])?)
       (auto simp: keycloakReady_Cons keycloakReady_read)
qed simp

section \<open>Properties\<close>


text \<open>C24. Degradation follows the health check: a failed check that the health check controller wrote to the
  \<^verbatim>\<open>Securesign\<close> resource makes the platform degraded, and a passed check makes it ready again. The
  platform has at most one \<^verbatim>\<open>Degraded\<close> condition before, which the controller keeps, and is not in phase \<^verbatim>\<open>Error\<close>.\<close>

theorem degraded_follows_health:
  assumes "length (filter isDegraded (dp_Conditions p)) \<le> 1" "dp_Phase p \<noteq> ''Error''"
  shows "spec (do {
       p1 \<leftarrow> applyHealth E (upsertFirst isHealthCondition (GMap (healthCondition t1 False m1)) cs1) p;
       p2 \<leftarrow> applyHealth E (upsertFirst isHealthCondition (GMap (healthCondition t2 True m2)) cs2) p1;
       return (p1, p2) })
     (\<lambda>es (p1, p2). es = [] \<and> degraded p1 \<and> dp_Phase p1 = ''Degraded'' \<and> length (filter isDegraded (dp_Conditions p1)) = 1 \<and>
        \<not> degraded p2 \<and> dp_Phase p2 = ''Ready'')"
proof (rule spec_bindI [OF spec_applyHealth_unhealthy], elim conjE exE)
  fix es :: "event list" and p1 c
  assume h: "es = []" "dp_Phase p1 = (if dp_Phase p = ''Error'' then ''Error'' else ''Degraded'')"
    "length (filter isDegraded (dp_Conditions p1)) = max 1 (length (filter isDegraded (dp_Conditions p)))"
    and c: "find isDegraded (dp_Conditions p1) = Some c" "c_Status c = ''True''" "c_Reason c = ''HealthCheckFailed''"
  have "degraded p1" using c unfolding degraded_def by (metis find_Some_iff nth_mem)
  then show "spec (do {
       p2 \<leftarrow> applyHealth E (upsertFirst isHealthCondition (GMap (healthCondition t2 True m2)) cs2) p1; return (p1, p2) })
     (\<lambda>es' (p1, p2). es @ es' = [] \<and> degraded p1 \<and> dp_Phase p1 = ''Degraded'' \<and> length (filter isDegraded (dp_Conditions p1)) = 1 \<and>
        \<not> degraded p2 \<and> dp_Phase p2 = ''Ready'')"
    using h assms by (intro spec_bindI [OF spec_applyHealth_healthy [OF c(1,3)]]) auto
qed

theorem degraded_follows_health_witness:
  "let p = samplePlatform None [];
       r = run_state (do {
         p1 \<leftarrow> applyHealth scripted (upsertFirst isHealthCondition (GMap (healthCondition scriptedTime False ''down'')) []) p;
         p2 \<leftarrow> applyHealth scripted (upsertFirst isHealthCondition (GMap (healthCondition scriptedTime True ''up'')) []) p1;
         return (p1, p2) }) (start [])
   in degraded (fst (fst r)) \<and> \<not> degraded (snd (fst r)) \<and> dp_Phase (snd (fst r)) = ''Ready''"
  using spec_run [OF degraded_follows_health [of "samplePlatform None []" scripted scriptedTime "''down''" "[]" scriptedTime "''up''" "[]"], of "start []"]
  by (simp add: sample_defs start_def Let_def split_beta)

text \<open>The two repairs of the TUF keys agree: run as often as there are bad keys, the platform controller's check, which
  drops one bad key at a time, leaves the keys that the health check controller keeps, and those that are not maps.\<close>

theorem tuf_repairs_agree:
  "filter (\<lambda>k. tufKeyName k \<noteq> None)
     ((dropFirstTSAKey ^^ length (filter (\<lambda>k. tufKeyName k = Some badTUFKey) keys)) keys) = keptTUFKeys keys"
  unfolding dropFirst_iterate keptTUFKeys_def by (induction keys) (auto split: option.splits)

text \<open>A pod is deleted at most once per container that restarted more than three times, and only with Keycloak read as
  ready; but with two such containers it is deleted twice.\<close>

theorem fulcio_deletes_bounded:
  "spec (connectivityLoop E pod ss) (\<lambda>es _. length (podDeletes es) \<le> length (filter (\<lambda>s. cs_RestartCount s > 3) ss) \<and>
     set (podDeletes es) \<subseteq> {(m_Namespace (pod_Meta pod), m_Name (pod_Meta pod))} \<and> (podDeletes es = [] \<or> keycloakReady E es)) \<and>
   length (podDeletes (trace (snd (run_state (connectivityLoop scripted
       \<lparr>pod_Meta = emptyMeta, pod_Containers = [], pod_Phase = ''Running'', pod_ContainerStatuses = [], pod_Claims = []\<rparr>
       [\<lparr>cs_RestartCount = 4, cs_Waiting = None\<rparr>, \<lparr>cs_RestartCount = 4, cs_Waiting = None\<rparr>])
     (let kc = Inr [OUnstr \<lparr>u_GVK = keycloakObjGVK, u_Meta = emptyMeta, u_Object = GMap [''status'' \<mapsto> GMap [''conditions'' \<mapsto>
          GList [GMap [''type'' \<mapsto> GStr ''Ready'', ''status'' \<mapsto> GStr ''True'']]]]\<rparr>]
      in start [kc, Inr [], kc, Inr []]))))) = 2"
  using spec_connectivityLoop by (simp add: scripted_simps Let_def scr_nestedSlice_def)

text \<open>An event that repeats the state of an object wakes nobody: neither the update of a pipeline or a node nor that of a
  task run sends a request or queues a platform. The completion of a pipeline queues every platform that the server lists.\<close>

theorem events_wake_on_change:
  "spec (collectionPipeline_Update E x x) (\<lambda>es q. es = [] \<and> q = []) \<and> spec (node_Update E x x) (\<lambda>es q. es = [] \<and> q = []) \<and>
   spec (handleTaskRun E x x) (\<lambda>es _. es = []) \<and>
   spec (collectionPipeline_Update E (OPipeline old) (OPipeline new)) (\<lambda>es q.
     if collectionVersionComplete (cpst_Phase (cp_Status new)) \<and> cpst_Phase (cp_Status old) \<noteq> cpst_Phase (cp_Status new)
     then \<exists>r. es = [(RList KPlatform allObjects, r)] \<and> q = (case decodeAll thePlatform r of Inl _ \<Rightarrow> []
        | Inr items \<Rightarrow> map (\<lambda>p. (m_Namespace (dp_ObjectMeta p), m_Name (dp_ObjectMeta p))) items)
     else es = [] \<and> q = [])"
proof (intro conjI)
  show "spec (collectionPipeline_Update E (OPipeline old) (OPipeline new)) (\<lambda>es q.
     if collectionVersionComplete (cpst_Phase (cp_Status new)) \<and> cpst_Phase (cp_Status old) \<noteq> cpst_Phase (cp_Status new)
     then \<exists>r. es = [(RList KPlatform allObjects, r)] \<and> q = (case decodeAll thePlatform r of Inl _ \<Rightarrow> []
        | Inr items \<Rightarrow> map (\<lambda>p. (m_Namespace (dp_ObjectMeta p), m_Name (dp_ObjectMeta p))) items)
     else es = [] \<and> q = [])"
    using spec_trigger by (auto simp: collectionPipeline_Update_def collectionVersionComplete_def)
qed (auto simp: collectionPipeline_Update_def node_Update_def handleTaskRun_def split: option.split)

end
