(* ===== verification/Objects.thy ===== *)
theory Objects
  imports Helpers
begin

text \<open>
  Small operations on objects that several controllers share: the data of a \<^verbatim>\<open>ConfigMap\<close>, unstructured objects and the
  fields of their content, the deletion of a resource of the operator's namespace.
\<close>

definition cmGet :: "configMap \<Rightarrow> string \<Rightarrow> string" where
  "cmGet cm k = (case cm_Data cm of None \<Rightarrow> [] | Some m \<Rightarrow> mapGet m k)"

text \<open>A new \<^verbatim>\<open>unstructured.Unstructured\<close> with kind, namespace and name.\<close>

definition newUnstr :: "gvk \<Rightarrow> string \<Rightarrow> string \<Rightarrow> unstr" where
  "newUnstr g ns name = \<lparr>u_GVK = g, u_Meta = emptyMeta\<lparr>m_Name := name, m_Namespace := ns\<rparr>, u_Object = GMap Map.empty\<rparr>"

text \<open>A call of \<^verbatim>\<open>SetNestedField\<close> or \<^verbatim>\<open>SetNestedSlice\<close> whose error is ignored: then the object is as it was.\<close>

definition setField :: "('w, 'x) env_scheme \<Rightarrow> goval \<Rightarrow> string list \<Rightarrow> goval \<Rightarrow> goval" where
  "setField E v fs obj = (case setNestedField E obj v fs of Inl _ \<Rightarrow> obj | Inr obj' \<Rightarrow> obj')"

definition onObject :: "(goval \<Rightarrow> goval) \<Rightarrow> unstr \<Rightarrow> unstr" where
  "onObject f u = u\<lparr>u_Object := f (u_Object u)\<rparr>"

abbreviation u_Name :: "unstr \<Rightarrow> string" where "u_Name u \<equiv> m_Name (u_Meta u)"
abbreviation u_Namespace :: "unstr \<Rightarrow> string" where "u_Namespace u \<equiv> m_Namespace (u_Meta u)"

definition deleteResource :: "('w, 'x) env_scheme \<Rightarrow> gvk \<Rightarrow> string \<Rightarrow> ('w, goerr option) go" where
  "deleteResource E g name = do {
     obj \<leftarrow> Get E (KUnstr g) theUnstr (architectNamespace, name);
     case obj of
       Inl err \<Rightarrow> if isNotFound err then return None else return (Some err)
     | Inr obj \<Rightarrow> do {
         d \<leftarrow> Delete E (KUnstr g) (u_Namespace obj, u_Name obj);
         return (errOf d) } }"

lemma onObject_simps [simp]:
  "u_Meta (onObject f u) = u_Meta u" "u_GVK (onObject f u) = u_GVK u" "u_Object (onObject f u) = f (u_Object u)"
  by (simp_all add: onObject_def)

lemma newUnstr_simps [simp]:
  "u_GVK (newUnstr g ns n) = g" "u_Name (newUnstr g ns n) = n" "u_Namespace (newUnstr g ns n) = ns"
  by (simp_all add: newUnstr_def)

text \<open>A resource is deleted only after it was read, and a missing one is no error.\<close>

lemma spec_deleteResource:
  "spec (deleteResource E g name) (\<lambda>es x. \<exists>r. (es = [(RGet (KUnstr g) (architectNamespace, name), r)] \<and>
       x = (case decode1 theUnstr r of Inl e \<Rightarrow> if isNotFound e then None else Some e | Inr _ \<Rightarrow> None) \<and> errOf (decode1 theUnstr r) \<noteq> None) \<or>
     (\<exists>u r'. r = Inr [OUnstr u] \<and> es = [(RGet (KUnstr g) (architectNamespace, name), r), (RDelete (KUnstr g) (u_Namespace u, u_Name u), r')] \<and>
       x = errOf (decode0 r')))"
  unfolding deleteResource_def by (intro spec_intros; auto)

end
