(* ===== verification/Subscriptions.thy ===== *)
theory Subscriptions
  imports Objects Scripted
begin

text \<open>
  The operators that the platform controller installs through OLM, from
  \<^verbatim>\<open>internal/controller/disconnectedplatform_controller.go\<close>: the two lists of operators, the namespaces, operator
  groups and subscriptions that are created for them, the status of their cluster service versions, and the CA bundle and
  proxy that are passed on to them.
\<close>

section \<open>Constants\<close>

definition clusterCAMountPath :: string where "clusterCAMountPath = ''/etc/pki/ca-trust/custom''"
definition clusterCAFilePath :: string where "clusterCAFilePath = clusterCAMountPath @ ''/'' @ clusterCABundleKey"
definition clusterCAVolumeName :: string where "clusterCAVolumeName = ''cluster-ca-bundle''"
definition serviceCAConfigMap :: string where "serviceCAConfigMap = ''config-service-cabundle''"
definition serviceCAKey :: string where "serviceCAKey = ''service-ca.crt''"
definition combinedCABundleName :: string where "combinedCABundleName = ''combined-ca-bundle''"

definition subscriptionGVK :: gvk where
  "subscriptionGVK = \<lparr>g_Group = ''operators.coreos.com'', g_Version = ''v1alpha1'', g_Kind = ''Subscription''\<rparr>"
definition operatorGroupGVK :: gvk where
  "operatorGroupGVK = \<lparr>g_Group = ''operators.coreos.com'', g_Version = ''v1'', g_Kind = ''OperatorGroup''\<rparr>"
definition csvGVK :: gvk where
  "csvGVK = \<lparr>g_Group = ''operators.coreos.com'', g_Version = ''v1alpha1'', g_Kind = ''ClusterServiceVersion''\<rparr>"

record operatorDef =
  od_name :: string
  od_pkg :: string
  od_channel :: string
  od_catalog :: string
  od_catalogNS :: string
  od_ns :: string

text \<open>A default operator comes from the catalog of Red Hat; an airgapped one has its catalog discovered.\<close>

abbreviation redHatOperator :: "string \<Rightarrow> string \<Rightarrow> string \<Rightarrow> string \<Rightarrow> operatorDef" where
  "redHatOperator name pkg channel ns \<equiv> \<lparr>od_name = name, od_pkg = pkg, od_channel = channel,
     od_catalog = ''redhat-operators'', od_catalogNS = ''openshift-marketplace'', od_ns = ns\<rparr>"

definition defaultOperators :: "operatorDef list" where
  "defaultOperators =
     [redHatOperator ''openshift-pipelines'' ''openshift-pipelines-operator-rh'' ''latest'' ''openshift-operators'',
      redHatOperator ''rhbk-operator'' ''rhbk-operator'' ''stable-v24'' architectNamespace,
      redHatOperator ''trusted-artifact-signer'' ''rhtas-operator'' ''stable'' ''openshift-operators'',
      redHatOperator ''trusted-profile-analyzer'' ''rhtpa-operator'' ''stable-v1.1'' architectNamespace,
      redHatOperator ''quay-operator'' ''quay-operator'' ''stable-3.13'' ''openshift-operators'',
      redHatOperator ''cincinnati-operator'' ''cincinnati-operator'' ''v1'' ''openshift-update-service'']"

abbreviation discoveredOperator :: "string \<Rightarrow> string \<Rightarrow> string \<Rightarrow> operatorDef" where
  "discoveredOperator name pkg ns \<equiv>
     \<lparr>od_name = name, od_pkg = pkg, od_channel = [], od_catalog = [], od_catalogNS = [], od_ns = ns\<rparr>"

definition airgappedOperators :: "operatorDef list" where
  "airgappedOperators =
     [discoveredOperator ''quay-operator'' ''quay-operator'' ''openshift-operators'',
      discoveredOperator ''cincinnati-operator'' ''cincinnati-operator'' ''openshift-update-service'',
      discoveredOperator ''openshift-pipelines'' ''openshift-pipelines-operator-rh'' ''openshift-operators'']"

definition getOperatorOverrides :: "disconnectedPlatform \<Rightarrow> string \<Rightarrow> olmSubscriptionConfig option" where
  "getOperatorOverrides platform =
     (case dps_Connected (dp_Spec platform) \<bind> con_Operators of
        None \<Rightarrow> Map.empty
      | Some op \<Rightarrow>
          Map.empty(''openshift-pipelines'' := ops_OpenShiftPipelines op, ''rhbk-operator'' := ops_Keycloak op,
            ''trusted-artifact-signer'' := ops_RHTAS op, ''trusted-profile-analyzer'' := ops_RHTPA op,
            ''quay-operator'' := ops_QuayOperator op, ''cincinnati-operator'' := ops_OSUS op))"

section \<open>CA bundles\<close>

definition ensureClusterCABundleInNamespace :: "('w, 'x) env_scheme \<Rightarrow> string \<Rightarrow> ('w, goerr option) go" where
  "ensureClusterCABundleInNamespace E namespace = do {
     let label = ''config.openshift.io/inject-trusted-cabundle'';
     existing \<leftarrow> Get E KConfigMap theConfigMap (namespace, clusterCABundleName);
     case existing of
       Inr existing \<Rightarrow>
         if mapGet (m_Labels (cm_Meta existing)) label = ''true'' then return None
         else do {
           u \<leftarrow> Update E OConfigMap theConfigMap
                 (existing\<lparr>cm_Meta := (cm_Meta existing)\<lparr>m_Labels := (m_Labels (cm_Meta existing))(label \<mapsto> ''true'')\<rparr>\<rparr>);
           return (errOf u) }
     | Inl err \<Rightarrow>
         if \<not> isNotFound err then return (Some err)
         else do {
           c \<leftarrow> Create E OConfigMap theConfigMap
                 \<lparr>cm_Meta = emptyMeta\<lparr>m_Name := clusterCABundleName, m_Namespace := namespace, m_Labels := [label \<mapsto> ''true'']\<rparr>,
                  cm_Data = None\<rparr>;
           return (errOf c) } }"

definition ensureClusterCABundle :: "('w, 'x) env_scheme \<Rightarrow> ('w, goerr option) go" where
  "ensureClusterCABundle E = ensureClusterCABundleInNamespace E architectNamespace"

definition getClusterCABundleData :: "('w, 'x) env_scheme \<Rightarrow> ('w, string res) go" where
  "getClusterCABundleData E = do {
     cm \<leftarrow> Get E KConfigMap theConfigMap (architectNamespace, clusterCABundleName);
     case cm of
       Inl err \<Rightarrow> return (Inl err)
     | Inr cm \<Rightarrow>
         if cmGet cm clusterCABundleKey = []
         then return (Inl (errorf (''cluster CA bundle ConfigMap has no '' @ clusterCABundleKey @ '' key'')))
         else return (Inr (cmGet cm clusterCABundleKey)) }"

text \<open>The callers ignore the error, and then the data is nil.\<close>

fun dataOrNil :: "string res \<Rightarrow> string" where
  "dataOrNil (Inl _) = []"
| "dataOrNil (Inr d) = d"

definition ensureServiceCAConfigMap :: "('w, 'x) env_scheme \<Rightarrow> ('w, goerr option) go" where
  "ensureServiceCAConfigMap E = do {
     let key = ''service.beta.openshift.io/inject-cabundle'';
     existing \<leftarrow> Get E KConfigMap theConfigMap (architectNamespace, serviceCAConfigMap);
     case existing of
       Inr existing \<Rightarrow>
         if mapGet (m_Annotations (cm_Meta existing)) key = ''true'' then return None
         else do {
           u \<leftarrow> Update E OConfigMap theConfigMap
                 (existing\<lparr>cm_Meta := (cm_Meta existing)\<lparr>m_Annotations := (m_Annotations (cm_Meta existing))(key \<mapsto> ''true'')\<rparr>\<rparr>);
           return (errOf u) }
     | Inl err \<Rightarrow>
         if \<not> isNotFound err then return (Some err)
         else do {
           c \<leftarrow> Create E OConfigMap theConfigMap
                 \<lparr>cm_Meta = emptyMeta\<lparr>m_Name := serviceCAConfigMap, m_Namespace := architectNamespace, m_Annotations := [key \<mapsto> ''true'']\<rparr>,
                  cm_Data = None\<rparr>;
           return (errOf c) } }"

definition combineCA :: "string \<Rightarrow> string \<Rightarrow> string" where
  "combineCA clusterCA serviceCA =
     (if serviceCA \<noteq> [] then (if clusterCA \<noteq> [] then clusterCA @ [CHR 0x0A] else clusterCA) @ serviceCA else clusterCA)"

definition ensureCombinedCABundle :: "('w, 'x) env_scheme \<Rightarrow> ('w, goerr option) go" where
  "ensureCombinedCABundle E = do {
     _ \<leftarrow> ensureServiceCAConfigMap E;
     clusterCA \<leftarrow> getClusterCABundleData E;
     serviceCACM \<leftarrow> Get E KConfigMap theConfigMap (architectNamespace, serviceCAConfigMap);
     let serviceCA = (case serviceCACM of Inr cm \<Rightarrow> cmGet cm serviceCAKey | Inl _ \<Rightarrow> []);
     let combined = combineCA (dataOrNil clusterCA) serviceCA;
     if combined = [] then return None
     else do {
       existing \<leftarrow> Get E KConfigMap theConfigMap (architectNamespace, combinedCABundleName);
       case existing of
         Inr existing \<Rightarrow>
           if cmGet existing clusterCABundleKey = combined then return None
           else (case cm_Data existing of
             None \<Rightarrow> return (Some (panic ''assignment to entry in nil map''))
           | Some m \<Rightarrow> do {
               u \<leftarrow> Update E OConfigMap theConfigMap (existing\<lparr>cm_Data := Some (m(clusterCABundleKey \<mapsto> combined))\<rparr>);
               return (errOf u) })
       | Inl err \<Rightarrow>
           if \<not> isNotFound err then return (Some err)
           else do {
             c \<leftarrow> Create E OConfigMap theConfigMap
                   \<lparr>cm_Meta = emptyMeta\<lparr>m_Name := combinedCABundleName, m_Namespace := architectNamespace\<rparr>,
                    cm_Data = Some [clusterCABundleKey \<mapsto> combined]\<rparr>;
             return (errOf c) } } }"

section \<open>Subscriptions\<close>

definition caEnvVar :: goval where
  "caEnvVar = GMap [''name'' \<mapsto> GStr ''SSL_CERT_FILE'', ''value'' \<mapsto> GStr clusterCAFilePath]"
definition caVolume :: goval where
  "caVolume = GMap [''name'' \<mapsto> GStr clusterCAVolumeName, ''configMap'' \<mapsto> GMap [''name'' \<mapsto> GStr clusterCABundleName]]"
definition caVolumeMount :: goval where
  "caVolumeMount = GMap [''name'' \<mapsto> GStr clusterCAVolumeName, ''mountPath'' \<mapsto> GStr clusterCAMountPath, ''readOnly'' \<mapsto> GBool True]"

definition namedEntry :: "string \<Rightarrow> goval \<Rightarrow> bool" where
  "namedEntry n v \<longleftrightarrow> (case asMap (Some v) of Some m \<Rightarrow> m ''name'' = Some (GStr n) | None \<Rightarrow> False)"

abbreviation configPath :: "string \<Rightarrow> string list" where "configPath f \<equiv> [''spec'', ''config'', f]"

text \<open>The subscription is changed in place and by the update: it is returned.\<close>

definition withCABundle :: "('w, 'x) env_scheme \<Rightarrow> goval \<Rightarrow> goval" where
  "withCABundle E obj =
     (let (volumes, _, _) = nestedSlice E obj (configPath ''volumes'');
          (envs, _, _) = nestedSlice E obj (configPath ''env'');
          obj = setField E (GList (envs @ [caEnvVar])) (configPath ''env'') obj;
          obj = setField E (GList (volumes @ [caVolume])) (configPath ''volumes'') obj;
          (mounts, _, _) = nestedSlice E obj (configPath ''volumeMounts'')
      in setField E (GList (mounts @ [caVolumeMount])) (configPath ''volumeMounts'') obj)"

definition ensureSubscriptionCABundle :: "('w, 'x) env_scheme \<Rightarrow> unstr \<Rightarrow> ('w, unstr res) go" where
  "ensureSubscriptionCABundle E sub = do {
     caData \<leftarrow> getClusterCABundleData E;
     if dataOrNil caData = [] then return (Inr sub)
     else if \<exists>v \<in> set (fst (nestedSlice E (u_Object sub) (configPath ''volumes''))). namedEntry clusterCAVolumeName v
     then return (Inr sub)
     else do {
       e \<leftarrow> ensureClusterCABundleInNamespace E (u_Namespace sub);
       case e of
         Some err \<Rightarrow> return (Inl (wrap (''ensuring cluster CA bundle in '' @ u_Namespace sub) err))
       | None \<Rightarrow> Update E OUnstr theUnstr (onObject (withCABundle E) sub) } }"

text \<open>A setting of the user where there is one.\<close>

definition orDefault :: "olmSubscriptionConfig option \<Rightarrow> (olmSubscriptionConfig \<Rightarrow> string) \<Rightarrow> string \<Rightarrow> string" where
  "orDefault cfg field d = (case cfg of Some c \<Rightarrow> if field c \<noteq> [] then field c else d | None \<Rightarrow> d)"

definition subscriptionSpec :: "('w, 'x) env_scheme \<Rightarrow> operatorDef \<Rightarrow> olmSubscriptionConfig option \<Rightarrow> goval \<Rightarrow> goval" where
  "subscriptionSpec E op cfg obj =
     (let obj = setField E (GStr (od_pkg op)) [''spec'', ''name''] obj;
          obj = setField E (GStr (orDefault cfg olm_Channel (od_channel op))) [''spec'', ''channel''] obj;
          obj = setField E (GStr (orDefault cfg olm_CatalogSource (od_catalog op))) [''spec'', ''source''] obj;
          obj = setField E (GStr (orDefault cfg olm_CatalogSourceNS (od_catalogNS op))) [''spec'', ''sourceNamespace''] obj;
          obj = setField E (GStr (orDefault cfg olm_ApprovalStrategy ''Automatic'')) [''spec'', ''installPlanApproval''] obj
      in if orDefault cfg olm_StartingCSV [] \<noteq> []
         then setField E (GStr (orDefault cfg olm_StartingCSV [])) [''spec'', ''startingCSV''] obj else obj)"

definition ensureSubscription :: "('w, 'x) env_scheme \<Rightarrow> operatorDef \<Rightarrow> olmSubscriptionConfig option \<Rightarrow> ('w, goerr option) go" where
  "ensureSubscription E op cfg = do {
     sub \<leftarrow> Get E (KUnstr subscriptionGVK) theUnstr (od_ns op, ''mirror-operator-'' @ od_name op);
     case sub of
       Inr sub \<Rightarrow> do {
         u \<leftarrow> ensureSubscriptionCABundle E sub;
         return (errOf u) }
     | Inl err \<Rightarrow>
         if \<not> isNotFound err then return (Some err)
         else do {
           let sub = onObject (subscriptionSpec E op cfg) (newUnstr subscriptionGVK (od_ns op) (''mirror-operator-'' @ od_name op));
           (httpProxy, httpsProxy, noProxy) \<leftarrow> getClusterProxy E;
           let envSlice = map GMap (proxyEnvForSubscription httpProxy httpsProxy noProxy);
           caData \<leftarrow> getClusterCABundleData E;
           x \<leftarrow> (if dataOrNil caData \<noteq> [] then do {
                    e \<leftarrow> ensureClusterCABundleInNamespace E (od_ns op);
                    case e of
                      Some err \<Rightarrow> return (Inl (wrap (''ensuring cluster CA bundle in '' @ od_ns op) err))
                    | None \<Rightarrow> return (Inr (envSlice @ [caEnvVar],
                        onObject (setField E (GList [caVolumeMount]) (configPath ''volumeMounts'') \<circ>
                                  setField E (GList [caVolume]) (configPath ''volumes'')) sub)) }
                  else return (Inr (envSlice, sub)));
           case x of
             Inl err \<Rightarrow> return (Some err)
           | Inr (envSlice, sub) \<Rightarrow> do {
               let sub = (if envSlice \<noteq> [] then onObject (setField E (GList envSlice) (configPath ''env'')) sub else sub);
               c \<leftarrow> Create E OUnstr theUnstr sub;
               return (errOf c) } } }"

fun ownSubscriptionLoop :: "('w, 'x) env_scheme \<Rightarrow> unstr list \<Rightarrow> ('w, goerr option) go" where
  "ownSubscriptionLoop E [] = return None"
| "ownSubscriptionLoop E (sub # subs) =
     (if fst (nestedString E (u_Object sub) [''spec'', ''name'']) \<noteq> ''mirror-operator'' then ownSubscriptionLoop E subs
      else do {
        e \<leftarrow> ensureSubscriptionCABundle E sub;
        case e of
          Inl err \<Rightarrow> return (Some (wrap ''ensuring CA bundle on own subscription'' err))
        | Inr sub \<Rightarrow> do {
            (httpProxy, httpsProxy, noProxy) \<leftarrow> getClusterProxy E;
            let proxyEnvs = proxyEnvForSubscription httpProxy httpsProxy noProxy;
            let envs = fst (nestedSlice E (u_Object sub) (configPath ''env''));
            if proxyEnvs = [] then return None
            else if \<exists>e \<in> set envs. namedEntry ''HTTP_PROXY'' e then return None
            else do {
              u \<leftarrow> Update E OUnstr theUnstr (onObject (setField E (GList (envs @ map GMap proxyEnvs)) (configPath ''env'')) sub);
              return (errOf u) } } })"

definition ensureOwnSubscriptionConfig :: "('w, 'x) env_scheme \<Rightarrow> ('w, goerr option) go" where
  "ensureOwnSubscriptionConfig E = do {
     subList \<leftarrow> ListObjs E (KUnstr (subscriptionGVK\<lparr>g_Kind := g_Kind subscriptionGVK @ ''List''\<rparr>)) theUnstr (inNamespace architectNamespace);
     case subList of
       Inl err \<Rightarrow> return (Some (wrap ''listing subscriptions'' err))
     | Inr items \<Rightarrow> ownSubscriptionLoop E items }"

section \<open>Operators\<close>

text \<open>\<^verbatim>\<open>%q\<close> of a package name, which has no character to escape.\<close>

definition quoted :: "string \<Rightarrow> string" where "quoted s = [CHR 0x22] @ s @ [CHR 0x22]"

definition ensureNamespace :: "('w, 'x) env_scheme \<Rightarrow> string \<Rightarrow> ('w, goerr option) go" where
  "ensureNamespace E ns =
     (if ns = ''openshift-operators'' then return None
      else do {
        n \<leftarrow> Get E KNamespace theNamespace ([], ns);
        case n of
          Inr _ \<Rightarrow> return None
        | Inl err \<Rightarrow>
            if \<not> isNotFound err then return (Some err)
            else do {
              c \<leftarrow> Create E ONamespace theNamespace (emptyMeta\<lparr>m_Name := ns\<rparr>);
              return (errOf c) } })"

definition ensureOperatorGroup :: "('w, 'x) env_scheme \<Rightarrow> operatorDef \<Rightarrow> ('w, goerr option) go" where
  "ensureOperatorGroup E op =
     (if od_ns op = ''openshift-operators'' then return None
      else do {
        l \<leftarrow> ListObjs E (KUnstr operatorGroupGVK) theUnstr (inNamespace (od_ns op));
        if (case l of Inr (_ # _) \<Rightarrow> True | _ \<Rightarrow> False) then return None
        else do {
          c \<leftarrow> Create E OUnstr theUnstr
                (onObject (setField E (GList [GStr (od_ns op)]) [''spec'', ''targetNamespaces''])
                   (newUnstr operatorGroupGVK (od_ns op) (''mirror-operator-'' @ od_name op)));
          return (errOf c) } })"

definition csvStatus :: "('w, 'x) env_scheme \<Rightarrow> operatorDef \<Rightarrow> ('w, string) go" where
  "csvStatus E op = do {
     sub \<leftarrow> Get E (KUnstr subscriptionGVK) theUnstr (od_ns op, ''mirror-operator-'' @ od_name op);
     case sub of
       Inl _ \<Rightarrow> return []
     | Inr sub \<Rightarrow> do {
         let csvName = fst (nestedString E (u_Object sub) [''status'', ''currentCSV'']);
         if csvName = [] then return []
         else do {
           csv \<leftarrow> Get E (KUnstr csvGVK) theUnstr (od_ns op, csvName);
           case csv of
             Inl _ \<Rightarrow> return []
           | Inr csv \<Rightarrow> return (fst (nestedString E (u_Object csv) [''status'', ''phase''])) } } }"

definition enableConsolePluginInOperator :: "('w, 'x) env_scheme \<Rightarrow> string \<Rightarrow> ('w, goerr option) go" where
  "enableConsolePluginInOperator E pluginName = do {
     console \<leftarrow> Get E (KUnstr \<lparr>g_Group = ''operator.openshift.io'', g_Version = ''v1'', g_Kind = ''Console''\<rparr>) theUnstr ([], ''cluster'');
     case console of
       Inl err \<Rightarrow> return (Some (wrap ''failed to get console operator'' err))
     | Inr console \<Rightarrow> do {
         let (plugins, found, err) = nestedStringSlice E (u_Object console) [''spec'', ''plugins''];
         case err of
           Some err \<Rightarrow> return (Some (wrap ''failed to get plugins list'' err))
         | None \<Rightarrow> do {
             let plugins = (if \<not> found then [] else plugins);
             if pluginName \<in> set plugins then return None
             else (case setNestedField E (u_Object console) (GList (map GStr (plugins @ [pluginName]))) [''spec'', ''plugins''] of
                     Inl err \<Rightarrow> return (Some (wrap ''failed to set plugins list'' err))
                   | Inr obj \<Rightarrow> do {
                       u \<leftarrow> Update E OUnstr theUnstr (console\<lparr>u_Object := obj\<rparr>);
                       return (errOf u) }) } } }"

definition operatorComponent :: "operatorDef \<Rightarrow> string \<Rightarrow> componentStatus" where
  "operatorComponent op status = \<lparr>cst_Name = od_name op, cst_Status = status, cst_Kind = ''Subscription'',
     cst_APIGroup = ''operators.coreos.com'', cst_Namespace = od_ns op, cst_URL = [], cst_LastCheck = None\<rparr>"

text \<open>Namespace, operator group and subscription of an operator, the same in both modes.\<close>

definition installOperator :: "('w, 'x) env_scheme \<Rightarrow> operatorDef \<Rightarrow> olmSubscriptionConfig option \<Rightarrow> ('w, goerr option) go" where
  "installOperator E op cfg = do {
     e \<leftarrow> ensureNamespace E (od_ns op);
     case e of
       Some err \<Rightarrow> return (Some (wrap (''namespace for '' @ od_name op) err))
     | None \<Rightarrow> do {
         e \<leftarrow> ensureOperatorGroup E op;
         case e of
           Some err \<Rightarrow> return (Some (wrap (''operatorgroup for '' @ od_name op) err))
         | None \<Rightarrow> do {
             e \<leftarrow> ensureSubscription E op cfg;
             case e of
               Some err \<Rightarrow> return (Some (wrap (''subscription for '' @ od_name op) err))
             | None \<Rightarrow> return None } } }"

definition installedStatus :: "('w, 'x) env_scheme \<Rightarrow> operatorDef \<Rightarrow> ('w, string) go" where
  "installedStatus E op = do {
     compStatus \<leftarrow> csvStatus E op;
     return (if compStatus = [] then ''Installing'' else compStatus) }"

definition enablePlugins :: "('w, 'x) env_scheme \<Rightarrow> operatorDef \<Rightarrow> string \<Rightarrow> ('w, unit) go" where
  "enablePlugins E op compStatus =
     (if compStatus = ''Succeeded'' \<and> od_name op = ''openshift-pipelines'' then do {
        _ \<leftarrow> enableConsolePluginInOperator E ''pipelines-console-plugin'';
        return () }
      else return ())"

fun subscriptionsLoop ::
  "('w, 'x) env_scheme \<Rightarrow> (string \<Rightarrow> olmSubscriptionConfig option) \<Rightarrow> operatorDef list \<Rightarrow> componentStatus list \<Rightarrow>
     ('w, componentStatus list \<times> goerr option) go" where
  "subscriptionsLoop E overrides [] components = return (components, None)"
| "subscriptionsLoop E overrides (op # ops) components =
     (if (case overrides (od_name op) of Some cfg \<Rightarrow> olm_Disabled cfg | None \<Rightarrow> False)
      then subscriptionsLoop E overrides ops (components @ [operatorComponent op ''Disabled''])
      else do {
        e \<leftarrow> installOperator E op (overrides (od_name op));
        case e of
          Some err \<Rightarrow> return (components @ [operatorComponent op ''Error''], Some err)
        | None \<Rightarrow> do {
            compStatus \<leftarrow> installedStatus E op;
            enablePlugins E op compStatus;
            subscriptionsLoop E overrides ops (components @ [operatorComponent op compStatus]) } })"

definition reconcileSubscriptions ::
  "('w, 'x) env_scheme \<Rightarrow> disconnectedPlatform \<Rightarrow> ('w, disconnectedPlatform \<times> goerr option) go" where
  "reconcileSubscriptions E platform = do {
     (components, err) \<leftarrow> subscriptionsLoop E (getOperatorOverrides platform) defaultOperators [];
     return (platform\<lparr>dp_Status := (dp_Status platform)\<lparr>dpst_Components := components\<rparr>\<rparr>, err) }"

definition discoverPackageInfo :: "('w, 'x) env_scheme \<Rightarrow> string \<Rightarrow> ('w, (string \<times> string \<times> string) res) go" where
  "discoverPackageInfo E pkg = do {
     pm \<leftarrow> Get E (KUnstr \<lparr>g_Group = ''packages.operators.coreos.com'', g_Version = ''v1'', g_Kind = ''PackageManifest''\<rparr>) theUnstr
             (''openshift-marketplace'', pkg);
     case pm of
       Inl err \<Rightarrow> return (Inl (wrap (''PackageManifest '' @ quoted pkg @ '' not found'') err))
     | Inr pm \<Rightarrow> do {
         let catalog = fst (nestedString E (u_Object pm) [''status'', ''catalogSource'']);
         let catalogNS = fst (nestedString E (u_Object pm) [''status'', ''catalogSourceNamespace'']);
         let channel = fst (nestedString E (u_Object pm) [''status'', ''defaultChannel'']);
         if catalog = [] then return (Inl (errorf (''PackageManifest '' @ quoted pkg @ '' has no catalogSource in status'')))
         else return (Inr (catalog, catalogNS, channel)) } }"

fun airgappedLoop ::
  "('w, 'x) env_scheme \<Rightarrow> operatorDef list \<Rightarrow> bool \<Rightarrow> componentStatus list \<Rightarrow> ('w, componentStatus list \<times> bool \<times> goerr option) go" where
  "airgappedLoop E [] needsRequeue components = return (components, needsRequeue, None)"
| "airgappedLoop E (op # ops) needsRequeue components = do {
     d \<leftarrow> discoverPackageInfo E (od_pkg op);
     case d of
       Inl _ \<Rightarrow> airgappedLoop E ops True components
     | Inr (catalog, catalogNS, channel) \<Rightarrow> do {
         let op = op\<lparr>od_catalog := catalog, od_catalogNS := catalogNS, od_channel := channel\<rparr>;
         e \<leftarrow> installOperator E op None;
         case e of
           Some err \<Rightarrow> return (components, True, Some err)
         | None \<Rightarrow> do {
             compStatus \<leftarrow> installedStatus E op;
             enablePlugins E op compStatus;
             airgappedLoop E ops (needsRequeue \<or> compStatus \<noteq> ''Succeeded'') (components @ [operatorComponent op compStatus]) } } }"

definition reconcileAirgappedSubscriptions ::
  "('w, 'x) env_scheme \<Rightarrow> disconnectedPlatform \<Rightarrow> ('w, disconnectedPlatform \<times> bool \<times> goerr option) go" where
  "reconcileAirgappedSubscriptions E platform = do {
     (components, needsRequeue, err) \<leftarrow> airgappedLoop E airgappedOperators False (dpst_Components (dp_Status platform));
     return (platform\<lparr>dp_Status := (dp_Status platform)\<lparr>dpst_Components := components\<rparr>\<rparr>, needsRequeue, err) }"

section \<open>Lemmas\<close>

text \<open>The subscriptions that a request may create: those of the given names.\<close>

fun subscribesTo :: "string set \<Rightarrow> request \<Rightarrow> bool" where
  "subscribesTo N (RCreate (OUnstr u)) \<longleftrightarrow> (if u_GVK u = subscriptionGVK then u_Name u \<in> N else True)"
| "subscribesTo N q \<longleftrightarrow> True"

definition subscriptionName :: "operatorDef \<Rightarrow> string" where
  "subscriptionName op = ''mirror-operator-'' @ od_name op"

lemma subscribesTo_simps [simp]:
  "subscribesTo N (RGet k nn)" "subscribesTo N (RList k lo)" "subscribesTo N (RUpdate x)" "subscribesTo N (RStatusUpdate x)"
  "subscribesTo N (RDelete k nn)" "subscribesTo N (RCreate (OConfigMap c))" "subscribesTo N (RCreate (ONamespace m))"
  by simp_all

lemma subscribesTo_mono: "subscribesTo N q \<Longrightarrow> N \<subseteq> M \<Longrightarrow> subscribesTo M q"
  by (cases "(M, q)" rule: subscribesTo.cases) (auto split: if_splits)

lemma only_bundle [only_intros]:
  "only (subscribesTo N) (ensureClusterCABundleInNamespace E ns)" "only (subscribesTo N) (getClusterCABundleData E)"
  "only (subscribesTo N) (ensureSubscriptionCABundle E sub)" "only (subscribesTo N) (getClusterProxy E)"
  unfolding ensureSubscriptionCABundle_def ensureClusterCABundleInNamespace_def getClusterCABundleData_def getClusterProxy_def
  by (intro only_intros; simp)+

lemma operatorGroup_subscription: "operatorGroupGVK \<noteq> subscriptionGVK"
  by (simp add: operatorGroupGVK_def subscriptionGVK_def)

lemma only_ensureSubscription: "only (subscribesTo {subscriptionName op}) (ensureSubscription E op cfg)"
  unfolding only_def ensureSubscription_def ensureSubscriptionCABundle_def ensureClusterCABundleInNamespace_def
    getClusterCABundleData_def getClusterProxy_def subscriptionName_def
  by (intro spec_intros; simp)

lemma only_install: "only (subscribesTo {subscriptionName op}) (installOperator E op cfg)"
  unfolding installOperator_def ensureNamespace_def ensureOperatorGroup_def
  by (intro only_intros only_ensureSubscription; simp add: operatorGroup_subscription)

lemma only_status [only_intros]:
  "only (subscribesTo N) (installedStatus E op)" "only (subscribesTo N) (enablePlugins E op st)"
  "only (subscribesTo N) (discoverPackageInfo E pkg)"
  unfolding installedStatus_def csvStatus_def enablePlugins_def enableConsolePluginInOperator_def discoverPackageInfo_def
  by (intro only_intros; simp)+

definition disabledIn :: "(string \<Rightarrow> olmSubscriptionConfig option) \<Rightarrow> operatorDef \<Rightarrow> bool" where
  "disabledIn overrides op \<longleftrightarrow> (case overrides (od_name op) of Some cfg \<Rightarrow> olm_Disabled cfg | None \<Rightarrow> False)"

lemma only_subscriptionsLoop:
  "only (subscribesTo (subscriptionName ` {op \<in> set ops. \<not> disabledIn ov op})) (subscriptionsLoop E ov ops cs)"
proof (induction ops arbitrary: cs)
  case (Cons op ops)
  let ?N = "subscriptionName ` {x \<in> set (op # ops). \<not> disabledIn ov x}"
  have rest: "only (subscribesTo ?N) (subscriptionsLoop E ov ops cs)" for cs
    by (rule only_mono [OF Cons.IH]) (erule subscribesTo_mono, auto)
  have own: "only (subscribesTo ?N) (installOperator E op cfg)" if "\<not> disabledIn ov op" for cfg
    by (rule only_mono [OF only_install]) (erule subscribesTo_mono, use that in auto)
  show ?case
    unfolding subscriptionsLoop.simps by (intro only_intros rest own; simp add: disabledIn_def)
qed (simp add: only_return)

text \<open>What the list of components says of the operators that were gone through.\<close>

definition accounted :: "componentStatus list \<Rightarrow> operatorDef list \<Rightarrow> componentStatus list \<Rightarrow> goerr option \<Rightarrow> bool" where
  "accounted before ops cs err \<longleftrightarrow>
     (case err of
        None \<Rightarrow> map cst_Name cs = map cst_Name before @ map od_name ops
      | Some _ \<Rightarrow> \<exists>n < length ops. map cst_Name cs = map cst_Name before @ map od_name (take (Suc n) ops) \<and> cst_Status (last cs) = ''Error'')"

lemma accounted_Cons:
  "cst_Name c = od_name op \<Longrightarrow> accounted (before @ [c]) ops cs err \<Longrightarrow> accounted before (op # ops) cs err"
  by (auto simp: accounted_def split: option.splits)

lemma only_True: "only P m \<Longrightarrow> only (\<lambda>_. True) m"
  by (erule only_mono) simp

lemma spec_subscriptionsLoop:
  "spec (subscriptionsLoop E ov ops before) (\<lambda>_ (cs, err). accounted before ops cs err)"
proof (induction ops arbitrary: before)
  case Nil
  show ?case by (simp add: accounted_def)
next
  case (Cons op ops)
  have step: "spec (subscriptionsLoop E ov ops (before @ [operatorComponent op st]))
      (\<lambda>_ (cs, err). accounted before (op # ops) cs err)" for st
    by (rule spec_mono [OF Cons.IH]) (auto intro: accounted_Cons [where c = "operatorComponent op st"] simp: operatorComponent_def)
  show ?case
    unfolding subscriptionsLoop.simps
    by (intro spec_if spec_case_option step spec_returnI
        spec_bind_value [OF only_install [THEN only_True]] spec_bind_value [OF only_status(1) [THEN only_True]]
        spec_bind_value [OF only_status(2) [THEN only_True]])
       (auto simp: accounted_def operatorComponent_def)
qed

lemma spec_airgappedLoop:
  "spec (airgappedLoop E ops rq before) (\<lambda>_ (cs, rq', err). rq' \<or>
     (\<not> rq \<and> err = None \<and> (\<exists>cs'. cs = before @ cs' \<and> map cst_Name cs' = map od_name ops \<and> list_all (\<lambda>c. cst_Status c = ''Succeeded'') cs')))"
proof (induction ops arbitrary: rq before)
  case (Cons op ops)
  have skip: "spec (airgappedLoop E ops True before) (\<lambda>_ (cs, rq', err). rq' \<or>
     (\<not> rq \<and> err = None \<and> (\<exists>cs'. cs = before @ cs' \<and> map cst_Name cs' = map od_name (op # ops) \<and> list_all (\<lambda>c. cst_Status c = ''Succeeded'') cs')))"
    by (rule spec_mono [OF Cons.IH]) auto
  have step: "spec (airgappedLoop E ops (rq \<or> st \<noteq> ''Succeeded'') (before @ [operatorComponent (op\<lparr>od_catalog := a, od_catalogNS := b, od_channel := c\<rparr>) st])) (\<lambda>_ (cs, rq', err). rq' \<or>
     (\<not> rq \<and> err = None \<and> (\<exists>cs'. cs = before @ cs' \<and> map cst_Name cs' = map od_name (op # ops) \<and> list_all (\<lambda>c. cst_Status c = ''Succeeded'') cs')))" for st a b c
    by (rule spec_mono [OF Cons.IH]) (auto simp: operatorComponent_def)
  show ?case
    unfolding airgappedLoop.simps Let_def
    by (intro skip step spec_case_sum spec_case_prod spec_case_option spec_returnI
        spec_bind_value [OF only_status(3) [THEN only_True]] spec_bind_value [OF only_install [THEN only_True]]
        spec_bind_value [OF only_status(1) [THEN only_True]] spec_bind_value [OF only_status(2) [THEN only_True]]) simp
qed simp

lemma setField_cases: "setField E v fs obj = obj \<or> setNestedField E obj v fs = Inr (setField E v fs obj)"
  by (auto simp: setField_def split: sum.split)

section \<open>Properties\<close>

text \<open>C25. Every operator is accounted for: without an error there is one component per default operator, in their order; with an
  error the components end with the operator that failed. A subscription is created only for an operator that the user
  did not disable.\<close>

theorem operators_accounted:
  "spec (reconcileSubscriptions E p) (\<lambda>es (p', err).
     accounted [] defaultOperators (dpst_Components (dp_Status p')) err \<and> dp_Spec p' = dp_Spec p \<and>
     list_all (\<lambda>e. subscribesTo (subscriptionName ` {op \<in> set defaultOperators. \<not> disabledIn (getOperatorOverrides p) op}) (fst e)) es)"
proof -
  let ?N = "subscriptionName ` {op \<in> set defaultOperators. \<not> disabledIn (getOperatorOverrides p) op}"
  have "spec (subscriptionsLoop E (getOperatorOverrides p) defaultOperators []) (\<lambda>es (cs, err).
      accounted [] defaultOperators cs err \<and> list_all (\<lambda>e. subscribesTo ?N (fst e)) es)"
    by (rule spec_conj [OF spec_subscriptionsLoop only_subscriptionsLoop [unfolded only_def]]) auto
  then show ?thesis
    unfolding reconcileSubscriptions_def by (rule spec_bindI) (auto intro!: spec_returnI)
qed

text \<open>The airgapped installation is requeued until it is done: unless it asks for a requeue, every operator has a component
  and has succeeded.\<close>

theorem airgapped_requeued_until_done:
  "spec (reconcileAirgappedSubscriptions E p) (\<lambda>_ (p', rq, err). rq \<or> err = None \<and>
     (\<exists>cs. dpst_Components (dp_Status p') = dpst_Components (dp_Status p) @ cs \<and> map cst_Name cs = map od_name airgappedOperators \<and>
        list_all (\<lambda>c. cst_Status c = ''Succeeded'') cs))"
  unfolding reconcileAirgappedSubscriptions_def
  by (rule spec_bindI [OF spec_airgappedLoop]) (auto intro!: spec_returnI)

text \<open>Adding the CA bundle to a subscription converges: where nested content is read as it was written, the variables and
  volumes of the user stay in front of the new ones, and the subscription that was written is not written again.\<close>

theorem ca_bundle_converges:
  assumes read: "\<And>v l fs v'. setNestedField E v (GList l) fs = Inr v' \<Longrightarrow> nestedSlice E v' fs = (l, True, None)"
    and beside: "\<And>v x f g v'. setNestedField E v x (configPath f) = Inr v' \<Longrightarrow> f \<noteq> g \<Longrightarrow>
      nestedSlice E v' (configPath g) = nestedSlice E v (configPath g)"
    and writable: "\<And>x f v. v = u_Object sub \<or> (\<exists>w y h. setNestedField E w y (configPath h) = Inr v) \<Longrightarrow>
      \<exists>v'. setNestedField E v x (configPath f) = Inr v'"
  shows "fst (nestedSlice E (withCABundle E (u_Object sub)) (configPath ''volumes'')) =
           fst (nestedSlice E (u_Object sub) (configPath ''volumes'')) @ [caVolume] \<and>
         fst (nestedSlice E (withCABundle E (u_Object sub)) (configPath ''env'')) =
           fst (nestedSlice E (u_Object sub) (configPath ''env'')) @ [caEnvVar] \<and>
         spec (ensureSubscriptionCABundle E (onObject (withCABundle E) sub)) (\<lambda>es x. writes es = [] \<and> x = Inr (onObject (withCABundle E) sub))"
proof -
  obtain volumes b c where vs: "nestedSlice E (u_Object sub) (configPath ''volumes'') = (volumes, b, c)" by (cases "nestedSlice E (u_Object sub) (configPath ''volumes'')")
  obtain envs b' c' where en: "nestedSlice E (u_Object sub) (configPath ''env'') = (envs, b', c')" by (cases "nestedSlice E (u_Object sub) (configPath ''env'')")
  obtain o1 where o1: "setNestedField E (u_Object sub) (GList (envs @ [caEnvVar])) (configPath ''env'') = Inr o1"
    using writable [of "u_Object sub"] by blast
  obtain o2 where o2: "setNestedField E o1 (GList (volumes @ [caVolume])) (configPath ''volumes'') = Inr o2"
    using writable [of o1] o1 by blast
  obtain mounts b'' c'' where ms: "nestedSlice E o2 (configPath ''volumeMounts'') = (mounts, b'', c'')" by (cases "nestedSlice E o2 (configPath ''volumeMounts'')")
  obtain o3 where o3: "setNestedField E o2 (GList (mounts @ [caVolumeMount])) (configPath ''volumeMounts'') = Inr o3"
    using writable [of o2] o2 by blast
  have w: "withCABundle E (u_Object sub) = o3"
    by (simp add: withCABundle_def vs en setField_def o1 o2 ms o3)
  have v: "nestedSlice E o3 (configPath ''volumes'') = (volumes @ [caVolume], True, None)"
    using beside [OF o3, of "''volumes''"] read [OF o2] by simp
  have e: "nestedSlice E o3 (configPath ''env'') = (envs @ [caEnvVar], True, None)"
    using beside [OF o3, of "''env''"] beside [OF o2, of "''env''"] read [OF o1] by simp
  have "spec (ensureSubscriptionCABundle E (onObject (withCABundle E) sub)) (\<lambda>es x. writes es = [] \<and> x = Inr (onObject (withCABundle E) sub))"
    unfolding ensureSubscriptionCABundle_def getClusterCABundleData_def
    by (intro spec_intros; simp add: w v namedEntry_def caVolume_def)
  then show ?thesis by (simp add: w v e vs en)
qed

lemma scr_writable:
  "v = GMap Map.empty \<or> (\<exists>w y h. scr_setNestedField w y (configPath h) = Inr v) \<Longrightarrow> \<exists>v'. scr_setNestedField v x (configPath f) = Inr v'"
  by (elim disjE exE) (auto split: option.splits sum.splits)

theorem ca_bundle_converges_witness:
  "let sub = newUnstr subscriptionGVK ''ns'' ''sub''
   in fst (nestedSlice scripted (withCABundle scripted (u_Object sub)) (configPath ''volumes'')) = [caVolume] \<and>
      spec (ensureSubscriptionCABundle scripted (onObject (withCABundle scripted) sub))
        (\<lambda>es x. writes es = [] \<and> x = Inr (onObject (withCABundle scripted) sub))"
proof -
  let ?sub = "newUnstr subscriptionGVK ''ns'' ''sub''"
  have "fst (scr_nestedSlice (u_Object ?sub) (configPath ''volumes'')) = []"
    by (simp add: newUnstr_def scr_nestedSlice_def)
  then show ?thesis
    using ca_bundle_converges [of scripted ?sub] scr_read_after_write
      scr_read_beside [of _ _ "[''spec'', ''config'']", simplified] scr_writable
    by (simp add: scripted_simps Let_def newUnstr_def)
qed

text \<open>The own subscription with a proxy for HTTPS only gets its variables once more in every reconciliation: the test looks for
  \<^verbatim>\<open>HTTP_PROXY\<close>, which is never among them.\<close>

theorem own_proxy_repeated:
  "let proxied = GMap [''name'' \<mapsto> GStr ''HTTPS_PROXY'', ''value'' \<mapsto> GStr ''proxy''];
       sub = onObject (\<lambda>_. GMap [''spec'' \<mapsto> GMap [''name'' \<mapsto> GStr ''mirror-operator'', ''config'' \<mapsto> GMap [''env'' \<mapsto> GList [proxied]]]])
         (newUnstr subscriptionGVK architectNamespace ''own'');
       proxy = onObject (\<lambda>_. GMap [''status'' \<mapsto> GMap [''httpsProxy'' \<mapsto> GStr ''proxy'']]) (newUnstr (configGVK ''Proxy'') [] ''cluster'');
       es = trace (snd (run_state (ownSubscriptionLoop scripted [sub]) (start [Inl (errorf ''timeout''), Inr [OUnstr proxy], Inr [OUnstr sub]])))
   in \<exists>u. writes es = [RUpdate (OUnstr u)] \<and> fst (scr_nestedSlice (u_Object u) (configPath ''env'')) = [proxied, proxied]"
  by (simp add: Let_def scripted_simps ensureSubscriptionCABundle_def getClusterCABundleData_def getClusterProxy_def newUnstr_def onObject_def
      scr_nestedString_def scr_nestedSlice_def proxyEnvForSubscription_def envEntry_def namedEntry_def setField_def)

end
