(* ===== verification/Ignition.thy ===== *)
theory Ignition
  imports Prelude
begin

text \<open>
  The files and systemd units of the node-level mirror registry, from
  \<^verbatim>\<open>internal/controller/mirrorregistry/ignition.go\<close>. The templates are the text of the source, line by line, with the
  formatted arguments in place.
\<close>

section \<open>Configuration\<close>

record config =
  rc_DataPath :: string
  rc_Port :: int
  rc_QuayImage :: string
  rc_RedisImage :: string
  rc_PauseImage :: string
  rc_PullSecretJSON :: string
  rc_CACertPEM :: string
  rc_CAKeyPEM :: string

section \<open>Templates\<close>

definition buildQuayConfig :: "config \<Rightarrow> string" where
  \<open>buildQuayConfig cfg =
     unlines
     [''AUTHENTICATION_TYPE: Database'',
      ''BUILDLOGS_REDIS:'',
      ''  host: localhost'',
      ''  password: mirror-registry-redis-pass'',
      ''  port: 6379'',
      ''DATABASE_SECRET_KEY: bWlycm9yLXJlZ2lzdHJ5LWRiLXNlY3JldC1rZXk='',
      ''DB_URI: sqlite:////sqlite/quay_sqlite.db'',
      ''DEFAULT_TAG_EXPIRATION: 2w'',
      ''DISTRIBUTED_STORAGE_DEFAULT_LOCATIONS: []'',
      ''DISTRIBUTED_STORAGE_PREFERENCE:'',
      ''  - default'',
      ''DISTRIBUTED_STORAGE_CONFIG:'',
      ''  default:'',
      ''    - LocalStorage'',
      ''    - storage_path: /datastorage'',
      ''FEATURE_ANONYMOUS_ACCESS: true'',
      ''FEATURE_BUILD_SUPPORT: false'',
      ''FEATURE_DIRECT_LOGIN: true'',
      ''FEATURE_MAILING: false'',
      ''FEATURE_SECURITY_SCANNER: false'',
      ''FEATURE_USER_CREATION: true'',
      ''FEATURE_USER_INITIALIZE: true'',
      ''CREATE_NAMESPACE_ON_PUSH: true'',
      ''PREFERRED_URL_SCHEME: https'',
      ''REGISTRY_TITLE: Mirror Registry'',
      ''SECRET_KEY: bWlycm9yLXJlZ2lzdHJ5LXNlY3JldC1rZXk='',
      ''SERVER_HOSTNAME: localhost:'' @ itoa (rc_Port cfg),
      ''SETUP_COMPLETE: true'',
      ''SUPER_USERS:'',
      ''  - admin'',
      ''USER_EVENTS_REDIS:'',
      ''  host: localhost'',
      ''  password: mirror-registry-redis-pass'',
      ''  port: 6379'',
      ''USE_CDN: false'',
      ''WORKER_COUNT_UNSUPPORTED_MINIMUM: 1'',
      ''WORKER_COUNT: 1'']\<close>

definition buildInitScript :: "config \<Rightarrow> string" where
  \<open>buildInitScript cfg =
     unlines
     [''#!/bin/bash'',
      ''set -euo pipefail'',
      [],
      ''QUAY_CONFIG_DIR="'' @ rc_DataPath cfg @ ''/quay-config"'',
      ''CA_DIR="'' @ rc_DataPath cfg @ ''/ca"'',
      ''mkdir -p "${QUAY_CONFIG_DIR}"'',
      [],
      ''# Generate server TLS cert signed by shared CA if not present'',
      ''if [ ! -f "${QUAY_CONFIG_DIR}/ssl.cert" ]; then'',
      ''    echo "Generating CA-signed TLS certificate..."'',
      ''    NODE_HOSTNAME=$(hostname)'',
      ''    NODE_IP=$(ip -4 addr show scope global | grep -oP '' @ [CHR 0x27] @ ''(?<=inet'' @ [CHR 0x5C] @ ''s)'' @ [CHR 0x5C] @ ''d+('' @ [CHR 0x5C] @ ''.'' @ [CHR 0x5C] @ ''d+){3}'' @ [CHR 0x27] @ '' | head -1)'',
      [],
      ''    cat > "${QUAY_CONFIG_DIR}/openssl.cnf" <<EOF'',
      ''[req]'',
      ''default_bits = 4096'',
      ''default_md = sha256'',
      ''distinguished_name = req_distinguished_name'',
      ''req_extensions = v3_req'',
      ''prompt = no'',
      ''[req_distinguished_name]'',
      ''CN = ${NODE_HOSTNAME}'',
      ''[v3_req]'',
      ''keyUsage = nonRepudiation, digitalSignature, keyEncipherment'',
      ''extendedKeyUsage = serverAuth'',
      ''subjectAltName = @alt_names'',
      ''[alt_names]'',
      ''DNS.1 = ${NODE_HOSTNAME}'',
      ''DNS.2 = localhost'',
      ''IP.1 = ${NODE_IP}'',
      ''IP.2 = 127.0.0.1'',
      ''EOF'',
      [],
      ''    openssl genrsa -out "${QUAY_CONFIG_DIR}/ssl.key" 4096'',
      [],
      ''    openssl req -new -key "${QUAY_CONFIG_DIR}/ssl.key" '' @ [CHR 0x5C],
      ''        -out "${QUAY_CONFIG_DIR}/ssl.csr" '' @ [CHR 0x5C],
      ''        -config "${QUAY_CONFIG_DIR}/openssl.cnf"'',
      [],
      ''    openssl x509 -req -days 3650 '' @ [CHR 0x5C],
      ''        -in "${QUAY_CONFIG_DIR}/ssl.csr" '' @ [CHR 0x5C],
      ''        -CA "${CA_DIR}/ca.crt" '' @ [CHR 0x5C],
      ''        -CAkey "${CA_DIR}/ca.key" '' @ [CHR 0x5C],
      ''        -CAcreateserial '' @ [CHR 0x5C],
      ''        -out "${QUAY_CONFIG_DIR}/ssl.cert" '' @ [CHR 0x5C],
      ''        -extensions v3_req '' @ [CHR 0x5C],
      ''        -extfile "${QUAY_CONFIG_DIR}/openssl.cnf"'',
      [],
      ''    chmod 644 "${QUAY_CONFIG_DIR}/ssl.cert" "${QUAY_CONFIG_DIR}/ssl.key"'',
      [],
      ''    cp "${CA_DIR}/ca.crt" /etc/pki/ca-trust/source/anchors/mirror-registry-ca.crt'',
      ''    update-ca-trust'',
      [],
      ''    rm -f "${QUAY_CONFIG_DIR}/ssl.csr"'',
      ''    echo "TLS certificate generated for ${NODE_HOSTNAME} / ${NODE_IP} (signed by shared CA)"'',
      ''fi'',
      [],
      ''# Create podman volumes if they don'' @ [CHR 0x27] @ ''t exist'',
      ''podman volume exists sqlite-storage 2>/dev/null || podman volume create sqlite-storage'',
      ''podman volume exists quay-storage 2>/dev/null || podman volume create quay-storage'',
      [],
      ''# Create redis password secret if it doesn'' @ [CHR 0x27] @ ''t exist'',
      ''if ! podman secret inspect redis_pass &>/dev/null; then'',
      ''    echo -n "mirror-registry-redis-pass" | podman secret create redis_pass -'',
      ''fi'',
      [],
      ''echo "Mirror registry init complete"'']\<close>

definition buildInitUnit :: "string \<Rightarrow> string" where
  \<open>buildInitUnit dataPath =
     unlines
     [''[Unit]'',
      ''Description=Initialize Mirror Registry (TLS, volumes, secrets)'',
      ''After=network-online.target'',
      ''Wants=network-online.target'',
      ''Before=mirror-registry-pod.service'',
      ''ConditionPathExists=!'' @ dataPath @ ''/quay-config/ssl.cert'',
      [],
      ''[Service]'',
      ''Type=oneshot'',
      ''RemainAfterExit=yes'',
      ''ExecStart=/usr/local/bin/mirror-registry-init.sh'',
      [],
      ''[Install]'',
      ''WantedBy=multi-user.target'']\<close>

definition buildPodUnit :: "config \<Rightarrow> string \<Rightarrow> string" where
  \<open>buildPodUnit cfg authfileArg =
     unlines
     [''[Unit]'',
      ''Description=Mirror Registry Pod'',
      ''After=network-online.target mirror-registry-init.service'',
      ''Wants=network-online.target'',
      ''Requires=mirror-registry-init.service'',
      ''Before=kubelet.service crio.service'',
      [],
      ''[Service]'',
      ''Type=simple'',
      ''RemainAfterExit=yes'',
      ''TimeoutStartSec=5m'',
      ''ExecStartPre=-/usr/bin/podman pod stop quay-pod'',
      ''ExecStartPre=-/usr/bin/podman pod rm -f quay-pod'',
      ''ExecStartPre=/usr/bin/podman pull --tls-verify=false'' @ authfileArg @ '' '' @ rc_PauseImage cfg,
      ''ExecStart=/usr/bin/podman pod create '' @ [CHR 0x5C],
      ''    --name quay-pod '' @ [CHR 0x5C],
      ''    --infra-image '' @ rc_PauseImage cfg @ '' '' @ [CHR 0x5C],
      ''    --publish '' @ itoa (rc_Port cfg) @ '':'' @ itoa (rc_Port cfg) @ '' '' @ [CHR 0x5C],
      ''    --replace'',
      ''ExecStop=-/usr/bin/podman pod stop quay-pod -t 10'',
      ''ExecStopPost=-/usr/bin/podman pod rm -f quay-pod'',
      ''Restart=always'',
      ''RestartSec=30'',
      [],
      ''[Install]'',
      ''WantedBy=multi-user.target'']\<close>

definition buildRedisUnit :: "config \<Rightarrow> string \<Rightarrow> string" where
  \<open>buildRedisUnit cfg authfileArg =
     unlines
     [''[Unit]'',
      ''Description=Mirror Registry Redis'',
      ''After=network-online.target mirror-registry-pod.service'',
      ''Wants=network-online.target'',
      ''Requires=mirror-registry-pod.service'',
      ''Before=mirror-registry-app.service kubelet.service crio.service'',
      [],
      ''[Service]'',
      ''Type=simple'',
      ''TimeoutStartSec=5m'',
      ''ExecStartPre=-/usr/bin/podman stop quay-redis'',
      ''ExecStartPre=-/usr/bin/podman rm -f quay-redis'',
      ''ExecStartPre=/usr/bin/podman pull --tls-verify=false'' @ authfileArg @ '' '' @ rc_RedisImage cfg,
      ''ExecStart=/usr/bin/podman run '' @ [CHR 0x5C],
      ''    --name quay-redis '' @ [CHR 0x5C],
      ''    --pod=quay-pod '' @ [CHR 0x5C],
      ''    --secret=redis_pass,type=env,target=REDIS_PASSWORD '' @ [CHR 0x5C],
      ''    --replace '' @ [CHR 0x5C],
      ''    '' @ rc_RedisImage cfg,
      ''ExecStop=-/usr/bin/podman stop quay-redis -t 10'',
      ''ExecStopPost=-/usr/bin/podman rm -f quay-redis'',
      ''Restart=always'',
      ''RestartSec=30'',
      [],
      ''[Install]'',
      ''WantedBy=multi-user.target'']\<close>

definition buildAppUnit :: "config \<Rightarrow> string \<Rightarrow> string" where
  \<open>buildAppUnit cfg authfileArg =
     unlines
     [''[Unit]'',
      ''Description=Mirror Registry Quay'',
      ''After=network-online.target mirror-registry-redis.service'',
      ''Wants=network-online.target'',
      ''Requires=mirror-registry-pod.service mirror-registry-redis.service'',
      ''Before=kubelet.service crio.service'',
      [],
      ''[Service]'',
      ''Type=simple'',
      ''TimeoutStartSec=5m'',
      ''ExecStartPre=-/usr/bin/podman stop quay-app'',
      ''ExecStartPre=-/usr/bin/podman rm -f quay-app'',
      ''ExecStartPre=/usr/bin/podman pull --tls-verify=false'' @ authfileArg @ '' '' @ rc_QuayImage cfg,
      ''ExecStart=/usr/bin/podman run '' @ [CHR 0x5C],
      ''    --name quay-app '' @ [CHR 0x5C],
      ''    -v '' @ rc_DataPath cfg @ ''/quay-config:/quay-registry/conf/stack:Z '' @ [CHR 0x5C],
      ''    -v sqlite-storage:/sqlite:Z,U '' @ [CHR 0x5C],
      ''    -v quay-storage:/datastorage:Z '' @ [CHR 0x5C],
      ''    --pod=quay-pod '' @ [CHR 0x5C],
      ''    --replace '' @ [CHR 0x5C],
      ''    -e WORKER_COUNT_UNSUPPORTED_MINIMUM=1 '' @ [CHR 0x5C],
      ''    -e WORKER_COUNT=1 '' @ [CHR 0x5C],
      ''    -e PYTHONUSERBASE_SITE_PACKAGE=/opt/app-root/lib/python3.12/site-packages '' @ [CHR 0x5C],
      ''    '' @ rc_QuayImage cfg @ '' registry'',
      ''ExecStop=-/usr/bin/podman stop quay-app -t 10'',
      ''ExecStopPost=-/usr/bin/podman rm -f quay-app'',
      ''Restart=always'',
      ''RestartSec=30'',
      [],
      ''[Install]'',
      ''WantedBy=multi-user.target'']\<close>

definition buildAdminInitScript :: "config \<Rightarrow> string" where
  \<open>buildAdminInitScript cfg =
     unlines
     [''#!/bin/bash'',
      ''set -euo pipefail'',
      [],
      ''MAX_WAIT=300'',
      ''ELAPSED=0'',
      [],
      ''echo "Waiting for local Quay registry to be healthy..."'',
      ''while ! curl -sk --max-time 5 "https://localhost:'' @ itoa (rc_Port cfg) @ ''/api/v1/discovery" > /dev/null 2>&1; do'',
      ''    sleep 5'',
      ''    ELAPSED=$((ELAPSED + 5))'',
      ''    if [ $ELAPSED -ge $MAX_WAIT ]; then'',
      ''        echo "ERROR: Quay did not become healthy in ${MAX_WAIT}s"'',
      ''        exit 1'',
      ''    fi'',
      ''done'',
      [],
      ''echo "Quay is healthy, initializing admin user..."'',
      ''RESPONSE=$(curl -sk -o /dev/null -w "%{http_code}" '' @ [CHR 0x5C],
      ''    -X POST "https://localhost:'' @ itoa (rc_Port cfg) @ ''/api/v1/user/initialize" '' @ [CHR 0x5C],
      ''    -H '' @ [CHR 0x27] @ ''Content-Type: application/json'' @ [CHR 0x27] @ '' '' @ [CHR 0x5C],
      ''    -d '' @ [CHR 0x27] @ ''{"username": "admin", "password": "mirror-registry-admin", "email": "admin@localhost", "access_token": true}'' @ [CHR 0x27] @ '')'',
      [],
      ''if [ "$RESPONSE" = "200" ]; then'',
      ''    echo "Admin user initialized successfully"'',
      ''else'',
      ''    echo "Admin user already initialized (HTTP ${RESPONSE})"'',
      ''fi'']\<close>

definition buildAdminInitUnit :: "string" where
  \<open>buildAdminInitUnit =
     unlines
     [''[Unit]'',
      ''Description=Initialize Mirror Registry Admin User'',
      ''After=mirror-registry-app.service'',
      ''Requires=mirror-registry-app.service'',
      [],
      ''[Service]'',
      ''Type=oneshot'',
      ''RemainAfterExit=yes'',
      ''ExecStart=/usr/local/bin/mirror-registry-admin-init.sh'',
      [],
      ''[Install]'',
      ''WantedBy=multi-user.target'']\<close>

section \<open>Files and units\<close>

definition ignitionFile :: "string \<Rightarrow> int \<Rightarrow> string \<Rightarrow> goval" where
  "ignitionFile path mode content =
     GMap [''path'' \<mapsto> GStr path, ''mode'' \<mapsto> GInt mode, ''overwrite'' \<mapsto> GBool True,
           ''contents'' \<mapsto> GMap [''source'' \<mapsto> GStr (''data:text/plain;base64,'' @ stdEncodeToString content)]]"

text \<open>The modes are octal in the source: 0644, 0755, 0600.\<close>

definition buildIgnitionFiles :: "config \<Rightarrow> goval list" where
  "buildIgnitionFiles cfg =
     [ignitionFile (rc_DataPath cfg @ ''/quay-config/config.yaml'') 420 (buildQuayConfig cfg),
      ignitionFile ''/usr/local/bin/mirror-registry-init.sh'' 493 (buildInitScript cfg),
      ignitionFile ''/usr/local/bin/mirror-registry-admin-init.sh'' 493 (buildAdminInitScript cfg)] @
     (if rc_CACertPEM cfg \<noteq> []
      then [ignitionFile (rc_DataPath cfg @ ''/ca/ca.crt'') 420 (rc_CACertPEM cfg),
            ignitionFile (rc_DataPath cfg @ ''/ca/ca.key'') 384 (rc_CAKeyPEM cfg)] else []) @
     (if rc_PullSecretJSON cfg \<noteq> []
      then [ignitionFile (rc_DataPath cfg @ ''/auth.json'') 384 (rc_PullSecretJSON cfg)] else [])"

definition systemdUnit :: "string \<Rightarrow> bool \<Rightarrow> string \<Rightarrow> goval" where
  "systemdUnit name enabled contents =
     GMap [''name'' \<mapsto> GStr name, ''enabled'' \<mapsto> GBool enabled, ''contents'' \<mapsto> GStr contents]"

definition buildSystemdUnits :: "config \<Rightarrow> goval list" where
  "buildSystemdUnits cfg =
     (let authfileArg = (if rc_PullSecretJSON cfg \<noteq> [] then '' --authfile '' @ rc_DataPath cfg @ ''/auth.json'' else [])
      in [systemdUnit ''mirror-registry-init.service'' True (buildInitUnit (rc_DataPath cfg)),
          systemdUnit ''mirror-registry-pod.service'' True (buildPodUnit cfg authfileArg),
          systemdUnit ''mirror-registry-redis.service'' True (buildRedisUnit cfg authfileArg),
          systemdUnit ''mirror-registry-app.service'' True (buildAppUnit cfg authfileArg),
          systemdUnit ''mirror-registry-admin-init.service'' True buildAdminInitUnit])"

section \<open>Reading the files back\<close>

text \<open>The path, mode and content a node takes from a file entry: the data URL is decoded.\<close>

definition dataURLContent :: "string \<Rightarrow> string option" where
  "dataURLContent url =
     (if hasPrefix url ''data:text/plain;base64,''
      then rawDecode False (filter (\<lambda>c. c \<noteq> CHR ''='') (drop 23 url)) else None)"

definition fileOf :: "goval \<Rightarrow> (string \<times> int \<times> string) option" where
  "fileOf f =
     (case asMap (Some f) of
        None \<Rightarrow> None
      | Some m \<Rightarrow>
          (case (asStr (m ''path''), m ''mode'', asMap (m ''contents'')) of
             (Some p, Some (GInt mode), Some c) \<Rightarrow>
               map_option (\<lambda>content. (p, mode, content)) (Option.bind (asStr (c ''source'')) dataURLContent)
           | _ \<Rightarrow> None))"

lemma dataURL_roundtrip: "dataURLContent (''data:text/plain;base64,'' @ stdEncodeToString content) = Some content"
proof -
  have "CHR ''='' \<notin> set (rawEncode False content)"
    using rawEncode_set [of False content] b64Alphabet_facts(6) by blast
  then have "filter (\<lambda>c. c \<noteq> CHR ''='') (stdEncodeToString content) = rawEncode False content"
    by (auto simp: stdEncodeToString_def Let_def filter_id_conv)
  then show ?thesis
    by (simp add: dataURLContent_def hasPrefix_def rawDecode_roundtrip)
qed

lemma fileOf_ignitionFile [simp]: "fileOf (ignitionFile p mode content) = Some (p, mode, content)"
  by (simp add: fileOf_def ignitionFile_def dataURL_roundtrip del: append_Cons)

section \<open>Properties\<close>


end
