(* ===== verification/Registry.thy ===== *)
theory Registry
  imports Ignition Helpers Scripted
begin

text \<open>
  The manager of the node-level mirror registry, from \<^verbatim>\<open>internal/controller/mirrorregistry/manager.go\<close>: the effective
  configuration, the CA pair, the \<^verbatim>\<open>MachineConfig\<close>, the trust \<^verbatim>\<open>ConfigMap\<close> and the \<^verbatim>\<open>ImageDigestMirrorSet\<close> over the ready
  master nodes. Key generation, certificates and PEM are functions of the Go standard library that draw on randomness:
  they are fields of \<open>cryptoEnv\<close>, which extends the environment.
\<close>

section \<open>Environment\<close>

text \<open>A time plus a duration is kept as the pair.\<close>

record certificate =
  crt_SerialNumber :: int
  crt_CommonName :: string
  crt_Organization :: "string list"
  crt_NotBefore :: "gotime \<times> duration"
  crt_NotAfter :: "gotime \<times> duration"
  crt_KeyUsage :: "string list"
  crt_BasicConstraintsValid :: bool
  crt_IsCA :: bool
  crt_MaxPathLen :: int
  crt_MaxPathLenZero :: bool

type_synonym privateKey = string

record 'w cryptoEnv = "'w env" +
  generateKeyP256 :: "'w \<Rightarrow> privateKey res \<times> 'w"
  randInt :: "int \<Rightarrow> 'w \<Rightarrow> int res \<times> 'w"
  createCertificate :: "certificate \<Rightarrow> certificate \<Rightarrow> privateKey \<Rightarrow> 'w \<Rightarrow> string res \<times> 'w"
  marshalECPrivateKey :: "privateKey \<Rightarrow> string res"
  pemEncode :: "string \<Rightarrow> string \<Rightarrow> string"

section \<open>Constants\<close>

definition MachineConfigName :: string where "MachineConfigName = ''99-master-mirror-registry''"
definition IDMSName :: string where "IDMSName = ''mirror-registry''"
definition CASecretName :: string where "CASecretName = ''mirror-registry-ca''"
definition TrustConfigMapName :: string where "TrustConfigMapName = ''mirror-registry-ca-bundle''"
definition masterPoolLabel :: string where "masterPoolLabel = ''node-role.kubernetes.io/master''"
definition operatorNamespace :: string where "operatorNamespace = ''mirror-operator-system''"
definition defaultQuayImage :: string where "defaultQuayImage = ''quay.io/mathianasj/mirror-registry/quay-rhel8:latest''"
definition defaultRedisImage :: string where "defaultRedisImage = ''quay.io/mathianasj/mirror-registry/redis-6:latest''"
definition defaultPauseImage :: string where "defaultPauseImage = ''registry.access.redhat.com/ubi9/pause:latest''"
definition defaultDataPath :: string where "defaultDataPath = ''/opt/quay''"
definition defaultPort :: int where "defaultPort = 8443"

section \<open>Configuration\<close>

definition resolvePullSecret ::
  "('w, 'x) env_scheme \<Rightarrow> disconnectedPlatform \<Rightarrow> mirrorRegistryConfig \<Rightarrow> ('w, string) go" where
  "resolvePullSecret E platform rspec = do {
     explicit \<leftarrow>
       (case mrc_ImagePullSecret rspec of
          None \<Rightarrow> return None
        | Some ref \<Rightarrow> do {
            secret \<leftarrow> Get E KSecret theSecret (m_Namespace (dp_ObjectMeta platform), lor_Name ref);
            case secret of
              Inl _ \<Rightarrow> return None
            | Inr secret \<Rightarrow>
                (case secLookup secret ''.dockerconfigjson'' of
                   Some data \<Rightarrow> return (Some data)
                 | None \<Rightarrow> return (secLookup secret ''auth.json'')) });
     case explicit of
       Some data \<Rightarrow> return data
     | None \<Rightarrow> do {
         clusterSecret \<leftarrow> Get E KSecret theSecret (''openshift-config'', ''pull-secret'');
         case clusterSecret of
           Inl _ \<Rightarrow> return []
         | Inr s \<Rightarrow> return (secGet s ''.dockerconfigjson'') } }"

definition emptyRegistryConfig :: mirrorRegistryConfig where
  "emptyRegistryConfig = \<lparr>mrc_DataPath = [], mrc_Port = 0, mrc_QuayImage = [], mrc_RedisImage = [], mrc_PauseImage = [],
     mrc_ImagePullSecret = None\<rparr>"

definition resolveConfig :: "('w, 'x) env_scheme \<Rightarrow> disconnectedPlatform \<Rightarrow> ('w, config res) go" where
  "resolveConfig E platform =
     (case dps_Airgapped (dp_Spec platform) of
        None \<Rightarrow> return (Inl (panic ''nil pointer dereference: platform.Spec.Airgapped''))
      | Some airgapped \<Rightarrow> do {
          let rspec = (case ag_MirrorRegistryConfig airgapped of None \<Rightarrow> emptyRegistryConfig | Some s \<Rightarrow> s);
          pullSecret \<leftarrow> resolvePullSecret E platform rspec;
          return (Inr
            \<lparr>rc_DataPath = (if mrc_DataPath rspec \<noteq> [] then mrc_DataPath rspec else defaultDataPath),
             rc_Port = (if mrc_Port rspec \<noteq> 0 then mrc_Port rspec else defaultPort),
             rc_QuayImage = (if mrc_QuayImage rspec \<noteq> [] then mrc_QuayImage rspec else defaultQuayImage),
             rc_RedisImage = (if mrc_RedisImage rspec \<noteq> [] then mrc_RedisImage rspec else defaultRedisImage),
             rc_PauseImage = (if mrc_PauseImage rspec \<noteq> [] then mrc_PauseImage rspec else defaultPauseImage),
             rc_PullSecretJSON = pullSecret, rc_CACertPEM = [], rc_CAKeyPEM = []\<rparr>) })"

definition getMasterNodes :: "('w, 'x) env_scheme \<Rightarrow> ('w, node list res) go" where
  "getMasterNodes E = ListObjs E KNode theNode (matchingLabels [masterPoolLabel \<mapsto> []])"

fun firstAddress :: "string \<Rightarrow> nodeAddress list \<Rightarrow> string option" where
  "firstAddress ty [] = None"
| "firstAddress ty (a # as) = (if na_Type a = ty then Some (na_Address a) else firstAddress ty as)"

definition getNodeInternalAddress :: "node \<Rightarrow> string" where
  "getNodeInternalAddress node =
     (case firstAddress ''InternalIP'' (node_Addresses node) of
        Some a \<Rightarrow> a
      | None \<Rightarrow> (case firstAddress ''InternalDNS'' (node_Addresses node) of Some a \<Rightarrow> a | None \<Rightarrow> []))"

fun readyCondition :: "nodeCondition list \<Rightarrow> bool" where
  "readyCondition [] = False"
| "readyCondition (c # cs) = (if nc_Type c = ''Ready'' then nc_Status c = ''True'' else readyCondition cs)"

definition isNodeReady :: "node \<Rightarrow> bool" where
  "isNodeReady node = readyCondition (node_Conditions node)"

section \<open>The certificate authority\<close>

definition caTemplate :: "int \<Rightarrow> gotime \<Rightarrow> gotime \<Rightarrow> certificate" where
  "caTemplate serialNumber now1 now2 =
     \<lparr>crt_SerialNumber = serialNumber, crt_CommonName = ''Mirror Registry CA'', crt_Organization = [''mirror-operator''],
      crt_NotBefore = (now1, - hour), crt_NotAfter = (now2, 10 * 365 * 24 * hour),
      crt_KeyUsage = [''CertSign'', ''CRLSign''], crt_BasicConstraintsValid = True, crt_IsCA = True,
      crt_MaxPathLen = 0, crt_MaxPathLenZero = True\<rparr>"

definition generateCA :: "('w, 'x) cryptoEnv_scheme \<Rightarrow> ('w, (string \<times> string) res) go" where
  "generateCA E = do {
     key \<leftarrow> effect (generateKeyP256 E);
     case key of
       Inl err \<Rightarrow> return (Inl err)
     | Inr key \<Rightarrow> do {
         serialNumber \<leftarrow> effect (randInt E (2 ^ 128));
         case serialNumber of
           Inl err \<Rightarrow> return (Inl err)
         | Inr serialNumber \<Rightarrow> do {
             now1 \<leftarrow> effect (clock E);
             now2 \<leftarrow> effect (clock E);
             let template = caTemplate serialNumber now1 now2;
             certDER \<leftarrow> effect (createCertificate E template template key);
             case certDER of
               Inl err \<Rightarrow> return (Inl err)
             | Inr certDER \<Rightarrow>
                 (case marshalECPrivateKey E key of
                    Inl err \<Rightarrow> return (Inl err)
                  | Inr keyDER \<Rightarrow>
                      return (Inr (pemEncode E ''CERTIFICATE'' certDER, pemEncode E ''EC PRIVATE KEY'' keyDER))) } } }"

text \<open>\<^verbatim>\<open>ensureCA\<close> fills the CA pair into the configuration it is given.\<close>

definition ensureCA :: "('w, 'x) cryptoEnv_scheme \<Rightarrow> config \<Rightarrow> ('w, config res) go" where
  "ensureCA E cfg = do {
     secret \<leftarrow> Get E KSecret theSecret (operatorNamespace, CASecretName);
     case secret of
       Inr secret \<Rightarrow> return (Inr (cfg\<lparr>rc_CACertPEM := secGet secret ''ca.crt'', rc_CAKeyPEM := secGet secret ''ca.key''\<rparr>))
     | Inl err \<Rightarrow>
         if \<not> isNotFound err then return (Inl err)
         else do {
           ca \<leftarrow> generateCA E;
           case ca of
             Inl err \<Rightarrow> return (Inl (wrap ''generating CA'' err))
           | Inr (certPEM, keyPEM) \<Rightarrow> do {
               c \<leftarrow> Create E OSecret theSecret
                     \<lparr>sec_Meta = emptyMeta\<lparr>m_Name := CASecretName, m_Namespace := operatorNamespace\<rparr>,
                      sec_Type = [], sec_Data = Some [''ca.crt'' \<mapsto> certPEM, ''ca.key'' \<mapsto> keyPEM], sec_StringData = None\<rparr>;
               case c of
                 Inl err \<Rightarrow> return (Inl err)
               | Inr _ \<Rightarrow> return (Inr (cfg\<lparr>rc_CACertPEM := certPEM, rc_CAKeyPEM := keyPEM\<rparr>)) } } }"

section \<open>Trust\<close>

definition trustKey :: "config \<Rightarrow> string \<Rightarrow> string" where
  "trustKey cfg addr = replaceByte (CHR '':'') ''..'' (addr @ ''..'' @ itoa (rc_Port cfg))"

definition trustData :: "config \<Rightarrow> node list \<Rightarrow> strmap" where
  "trustData cfg masterNodes =
     fold (\<lambda>node data. let addr = getNodeInternalAddress node in
             if addr = [] then data else data(trustKey cfg addr \<mapsto> rc_CACertPEM cfg)) masterNodes Map.empty"

definition ensureTrustConfigMap :: "('w, 'x) env_scheme \<Rightarrow> node list \<Rightarrow> config \<Rightarrow> ('w, goerr option) go" where
  "ensureTrustConfigMap E masterNodes cfg = do {
     let data = trustData cfg masterNodes;
     cm \<leftarrow> Get E KConfigMap theConfigMap (''openshift-config'', TrustConfigMapName);
     case cm of
       Inl err \<Rightarrow>
         if isNotFound err then do {
           c \<leftarrow> Create E OConfigMap theConfigMap
                 \<lparr>cm_Meta = emptyMeta\<lparr>m_Name := TrustConfigMapName, m_Namespace := ''openshift-config''\<rparr>, cm_Data = Some data\<rparr>;
           return (errOf c) }
         else return (Some err)
     | Inr cm \<Rightarrow> do {
         u \<leftarrow> Update E OConfigMap theConfigMap (cm\<lparr>cm_Data := Some data\<rparr>);
         return (errOf u) } }"

definition ensureImageConfig :: "('w, 'x) env_scheme \<Rightarrow> ('w, goerr option) go" where
  "ensureImageConfig E = do {
     imageConfig \<leftarrow> Get E (KUnstr (configGVK ''Image'')) theUnstr ([], ''cluster'');
     case imageConfig of
       Inl err \<Rightarrow> return (Some (wrap ''getting image.config.openshift.io/cluster'' err))
     | Inr imageConfig \<Rightarrow> do {
         let (existing, _, _) = nestedString E (u_Object imageConfig) [''spec'', ''additionalTrustedCA'', ''name''];
         if existing = TrustConfigMapName then return None
         else (case setNestedField E (u_Object imageConfig) (GStr TrustConfigMapName) [''spec'', ''additionalTrustedCA'', ''name''] of
                 Inl err \<Rightarrow> return (Some err)
               | Inr obj \<Rightarrow> do {
                   u \<leftarrow> Update E OUnstr theUnstr (imageConfig\<lparr>u_Object := obj\<rparr>);
                   return (errOf u) }) } }"

section \<open>Machine configuration and mirrors\<close>

text \<open>The error of these calls of \<^verbatim>\<open>SetNestedField\<close> is ignored, and then the object is as it was.\<close>

definition setSpec :: "('w, 'x) env_scheme \<Rightarrow> goval \<Rightarrow> goval \<Rightarrow> goval" where
  "setSpec E obj v = (case setNestedField E obj v [''spec''] of Inl _ \<Rightarrow> obj | Inr obj' \<Rightarrow> obj')"

definition machineConfigGVK :: gvk where
  "machineConfigGVK = \<lparr>g_Group = ''machineconfiguration.openshift.io'', g_Version = ''v1'', g_Kind = ''MachineConfig''\<rparr>"

definition machineConfigSpec :: "config \<Rightarrow> goval" where
  "machineConfigSpec cfg =
     GMap [''config'' \<mapsto> GMap [
       ''ignition'' \<mapsto> GMap [''version'' \<mapsto> GStr ''3.2.0''],
       ''storage'' \<mapsto> GMap [''files'' \<mapsto> GList (buildIgnitionFiles cfg)],
       ''systemd'' \<mapsto> GMap [''units'' \<mapsto> GList (buildSystemdUnits cfg)]]]"

definition ensureMachineConfig :: "('w, 'x) env_scheme \<Rightarrow> config \<Rightarrow> ('w, goerr option) go" where
  "ensureMachineConfig E cfg = do {
     let labels = [''machineconfiguration.openshift.io/role'' \<mapsto> ''master''];
     existing \<leftarrow> Get E (KUnstr machineConfigGVK) theUnstr ([], MachineConfigName);
     case existing of
       Inl err \<Rightarrow>
         if isNotFound err then do {
           c \<leftarrow> Create E OUnstr theUnstr
                 \<lparr>u_GVK = machineConfigGVK, u_Meta = emptyMeta\<lparr>m_Name := MachineConfigName, m_Labels := labels\<rparr>,
                  u_Object = setSpec E (GMap Map.empty) (machineConfigSpec cfg)\<rparr>;
           return (errOf c) }
         else return (Some err)
     | Inr existing \<Rightarrow> do {
         u \<leftarrow> Update E OUnstr theUnstr
               (existing\<lparr>u_Meta := (u_Meta existing)\<lparr>m_Labels := labels\<rparr>,
                  u_Object := setSpec E (u_Object existing) (machineConfigSpec cfg)\<rparr>);
         return (errOf u) } }"

definition readyMirrors :: "config \<Rightarrow> node list \<Rightarrow> string list" where
  "readyMirrors cfg masterNodes =
     map (\<lambda>n. getNodeInternalAddress n @ '':'' @ itoa (rc_Port cfg))
       (filter (\<lambda>n. getNodeInternalAddress n \<noteq> [] \<and> isNodeReady n) masterNodes)"

definition idmsSpec :: "string \<Rightarrow> string list \<Rightarrow> goval" where
  "idmsSpec sourceRegistry mirrors =
     GMap [''imageDigestMirrors'' \<mapsto> GList [GMap [''source'' \<mapsto> GStr sourceRegistry, ''mirrors'' \<mapsto> GList (map GStr mirrors)]]]"

definition ensureIDMS :: "('w, 'x) env_scheme \<Rightarrow> node list \<Rightarrow> config \<Rightarrow> ('w, goerr option) go" where
  "ensureIDMS E masterNodes cfg =
     (case masterNodes of
        [] \<Rightarrow> return (Some (panic ''index out of range''))
      | first # _ \<Rightarrow> do {
          let firstAddr = getNodeInternalAddress first;
          if firstAddr = [] then return (Some (errorf ''no master nodes with internal addresses found''))
          else do {
            let rspec = idmsSpec (firstAddr @ '':'' @ itoa (rc_Port cfg)) (readyMirrors cfg masterNodes);
            existing \<leftarrow> Get E (KUnstr (configGVK ''ImageDigestMirrorSet'')) theUnstr ([], IDMSName);
            case existing of
              Inl err \<Rightarrow>
                if isNotFound err then do {
                  c \<leftarrow> Create E OUnstr theUnstr
                        \<lparr>u_GVK = configGVK ''ImageDigestMirrorSet'', u_Meta = emptyMeta\<lparr>m_Name := IDMSName\<rparr>,
                         u_Object = setSpec E (GMap Map.empty) rspec\<rparr>;
                  return (errOf c) }
                else return (Some err)
            | Inr existing \<Rightarrow> do {
                u \<leftarrow> Update E OUnstr theUnstr (existing\<lparr>u_Object := setSpec E (u_Object existing) rspec\<rparr>);
                return (errOf u) } } })"

section \<open>The manager\<close>

definition GetRegistryAddress :: "('w, 'x) env_scheme \<Rightarrow> disconnectedPlatform \<Rightarrow> ('w, string res) go" where
  "GetRegistryAddress E platform = do {
     cfg \<leftarrow> resolveConfig E platform;
     case cfg of
       Inl err \<Rightarrow> return (Inl (if isPanic err then err else wrap ''resolving mirror registry config'' err))
     | Inr cfg \<Rightarrow> do {
         masterNodes \<leftarrow> getMasterNodes E;
         case masterNodes of
           Inl err \<Rightarrow> return (Inl (wrap ''listing master nodes'' err))
         | Inr [] \<Rightarrow> return (Inl (errorf ''no master nodes found''))
         | Inr (first # _) \<Rightarrow>
             if getNodeInternalAddress first = [] then return (Inl (errorf ''no internal address on first master node''))
             else return (Inr (getNodeInternalAddress first @ '':'' @ itoa (rc_Port cfg))) } }"

text \<open>One step of \<^verbatim>\<open>Reconcile\<close>: its error wrapped, or the rest.\<close>

definition step :: "string \<Rightarrow> ('w, goerr option) go \<Rightarrow> ('w, goerr option) go \<Rightarrow> ('w, goerr option) go" where
  "step what m rest = do {
     e \<leftarrow> m;
     case e of Some err \<Rightarrow> return (Some (if isPanic err then err else wrap what err)) | None \<Rightarrow> rest }"

definition Manager_Reconcile :: "('w, 'x) cryptoEnv_scheme \<Rightarrow> disconnectedPlatform \<Rightarrow> ('w, goerr option) go" where
  "Manager_Reconcile E platform = do {
     cfg \<leftarrow> resolveConfig E platform;
     case cfg of
       Inl err \<Rightarrow> return (Some (if isPanic err then err else wrap ''resolving mirror registry config'' err))
     | Inr cfg \<Rightarrow> do {
         cfg \<leftarrow> ensureCA E cfg;
         case cfg of
           Inl err \<Rightarrow> return (Some (wrap ''ensuring CA secret'' err))
         | Inr cfg \<Rightarrow> do {
             masterNodes \<leftarrow> getMasterNodes E;
             case masterNodes of
               Inl err \<Rightarrow> return (Some (wrap ''listing master nodes'' err))
             | Inr masterNodes \<Rightarrow>
                 if masterNodes = [] then return (Some (errorf ''no master nodes found''))
                 else step ''ensuring MachineConfig'' (ensureMachineConfig E cfg)
                     (step ''ensuring trust ConfigMap'' (ensureTrustConfigMap E masterNodes cfg)
                     (step ''ensuring image config trust'' (ensureImageConfig E)
                     (step ''ensuring ImageDigestMirrorSet'' (ensureIDMS E masterNodes cfg)
                     (return None)))) } } }"

section \<open>Lemmas\<close>

lemma trustData_step:
  "fold (\<lambda>node data. let addr = getNodeInternalAddress node in
       if addr = [] then data else data(trustKey cfg addr \<mapsto> rc_CACertPEM cfg)) nodes data0 k =
   (if k \<in> trustKey cfg ` {a. \<exists>n \<in> set nodes. a = getNodeInternalAddress n \<and> a \<noteq> []} then Some (rc_CACertPEM cfg) else data0 k)"
  by (induction nodes arbitrary: data0) (auto simp: Let_def)

lemma trustData_lookup:
  "trustData cfg nodes k =
   (if k \<in> trustKey cfg ` {a. \<exists>n \<in> set nodes. a = getNodeInternalAddress n \<and> a \<noteq> []} then Some (rc_CACertPEM cfg) else None)"
  unfolding trustData_def by (subst trustData_step) simp

lemma trustKey_no_colon: "CHR '':'' \<notin> set (trustKey cfg a)"
  unfolding trustKey_def by (rule replaceByte_no_byte) simp

lemma spec_generateCA: "spec (generateCA E) (\<lambda>es _. es = [])"
  unfolding generateCA_def by (intro spec_intros; simp)

text \<open>The mirror set a request writes: the object read, or a new one, with the specification set.\<close>

definition writesMirrors :: "('w, 'x) env_scheme \<Rightarrow> config \<Rightarrow> node list \<Rightarrow> request \<Rightarrow> bool" where
  "writesMirrors E cfg nodes q \<longleftrightarrow>
     (\<exists>u old mirrors. (q = RCreate (OUnstr u) \<or> q = RUpdate (OUnstr u)) \<and>
        u_Object u = setSpec E old (idmsSpec (getNodeInternalAddress (hd nodes) @ '':'' @ itoa (rc_Port cfg)) mirrors) \<and>
        set mirrors = {getNodeInternalAddress n @ '':'' @ itoa (rc_Port cfg) | n.
                         n \<in> set nodes \<and> isNodeReady n \<and> getNodeInternalAddress n \<noteq> []})"

lemma set_readyMirrors:
  "set (readyMirrors cfg nodes) = {getNodeInternalAddress n @ '':'' @ itoa (rc_Port cfg) | n.
     n \<in> set nodes \<and> isNodeReady n \<and> getNodeInternalAddress n \<noteq> []}"
  by (auto simp: readyMirrors_def)

lemma writesMirrors_intro:
  assumes "u_Object u = setSpec E old (idmsSpec (getNodeInternalAddress n @ '':'' @ itoa (rc_Port cfg)) (readyMirrors cfg (n # ns)))"
  shows "writesMirrors E cfg (n # ns) (RCreate (OUnstr u))" "writesMirrors E cfg (n # ns) (RUpdate (OUnstr u))"
  unfolding writesMirrors_def set_readyMirrors [symmetric] using assms by auto

section \<open>Properties\<close>

text \<open>The trust map has one entry for every master node with an internal address and no other, every entry is the CA
  certificate, and no key has a colon.\<close>

theorem trust_covers_nodes:
  "dom (trustData cfg nodes) = trustKey cfg ` {a. \<exists>n \<in> set nodes. a = getNodeInternalAddress n \<and> a \<noteq> []} \<and>
   ran (trustData cfg nodes) \<subseteq> {rc_CACertPEM cfg} \<and> CHR '':'' \<notin> \<Union> (set ` dom (trustData cfg nodes))"
  by (auto simp: trustData_lookup dom_def ran_def trustKey_no_colon split: if_splits)

text \<open>The mirror set is written exactly when the first master node has an internal address and the set could be read or is
  missing; it then lists the ready nodes with an address and no other.\<close>

theorem idms_lists_ready_nodes:
  "spec (ensureIDMS E (n # ns) cfg) (\<lambda>es x.
     if getNodeInternalAddress n = [] then es = [] \<and> x \<noteq> None
     else \<exists>r rest. es = (RGet (KUnstr (configGVK ''ImageDigestMirrorSet'')) ([], IDMSName), r) # rest \<and>
       (case decode1 theUnstr r of
          Inl e \<Rightarrow> if isNotFound e then \<exists>q r'. rest = [(q, r')] \<and> writesMirrors E cfg (n # ns) q else rest = [] \<and> x = Some e
        | Inr u \<Rightarrow> \<exists>q r'. rest = [(q, r')] \<and> writesMirrors E cfg (n # ns) q))"
  unfolding ensureIDMS_def Let_def list.case
  by (intro spec_intros; simp; (rule writesMirrors_intro, simp)?)

text \<open>The CA is generated only where the server says that there is no CA secret, and then the configuration carries the pair
  that was stored; where there is one, nothing is written.\<close>

theorem ca_generated_once:
  "spec (ensureCA E cfg) (\<lambda>es x. \<exists>r rest. es = (RGet KSecret (operatorNamespace, CASecretName), r) # rest \<and>
     (rest = [] \<or>
      (\<exists>e s r'. decode1 theSecret r = Inl e \<and> isNotFound e \<and> rest = [(RCreate (OSecret s), r')] \<and>
         (case x of
            Inl _ \<Rightarrow> True
          | Inr cfg' \<Rightarrow> rc_CACertPEM cfg' = secGet s ''ca.crt'' \<and> rc_CAKeyPEM cfg' = secGet s ''ca.key''))))"
  unfolding ensureCA_def
  by (rule spec_bind_Get, rule spec_case_sum, rule spec_if, simp, rule spec_bindI [OF spec_generateCA])
     (intro spec_intros; simp add: secGet_def secLookup_def)+

end
