(* ===== verification/PlatformEnv.thy ===== *)
theory PlatformEnv
  imports Registry Objects
begin

text \<open>
  What the controller of the \<^verbatim>\<open>DisconnectedPlatform\<close> calls beyond the environment of the other controllers (JSON encoding,
  hashing, owner references, commands in pods, the iteration order of Go maps), and the fields of its reconciler.
\<close>

section \<open>Environment\<close>

text \<open>A command in a container of a pod (\<^verbatim>\<open>corev1.PodExecOptions\<close>). Running it with a text on the standard input gives an
  error or none and what it wrote to the two outputs.\<close>

record podExecOptions =
  peo_Namespace :: string
  peo_Pod :: string
  peo_Container :: string
  peo_Command :: "string list"
  peo_Stdin :: bool
  peo_Stdout :: bool
  peo_Stderr :: bool

record 'w platformEnv = "'w cryptoEnv" +
  jsonMarshal :: "gomap \<Rightarrow> string res"
  jsonMarshalValue :: "goval \<Rightarrow> string res" \<comment> \<open>of any value\<close>
  nestedInt64 :: "goval \<Rightarrow> string list \<Rightarrow> int \<times> bool \<times> goerr option"
  nestedBool :: "goval \<Rightarrow> string list \<Rightarrow> bool \<times> bool \<times> goerr option"
  typeMeta :: "disconnectedPlatform \<Rightarrow> string \<times> string" \<comment> \<open>\<^verbatim>\<open>APIVersion\<close> and \<^verbatim>\<open>Kind\<close>, as the client leaves them in a platform it read\<close>
  sha256Hex :: "string \<Rightarrow> string"
  setControllerReference :: "objectMeta \<Rightarrow> objectMeta \<Rightarrow> objectMeta res" \<comment> \<open>owner, object\<close>
  rangeOrder :: "gomap \<Rightarrow> string list" \<comment> \<open>the order in which \<^verbatim>\<open>range\<close> visits the keys of a map\<close>
  sprintV :: "goval \<Rightarrow> string" \<comment> \<open>\<^verbatim>\<open>fmt.Sprintf("%v", x)\<close>\<close>
  parseQuantity :: "string \<Rightarrow> quantity option" \<comment> \<open>\<^verbatim>\<open>resource.MustParse\<close>, \<open>None\<close> where it panics\<close>
  quantityAdd :: "quantity \<Rightarrow> quantity \<Rightarrow> quantity"
  inClusterConfig :: "goerr option"
  newForConfig :: "goerr option"
  newSPDYExecutor :: "podExecOptions \<Rightarrow> goerr option"
  streamExec :: "podExecOptions \<Rightarrow> string \<Rightarrow> 'w \<Rightarrow> (goerr option \<times> string \<times> string) \<times> 'w"

text \<open>The fields of \<^verbatim>\<open>DisconnectedPlatformReconciler\<close>; the clients are the environment, and the flag says whether the clients for
  commands in pods (\<^verbatim>\<open>ClientSet\<close>, \<^verbatim>\<open>RESTConfig\<close>) are both set.\<close>

record platformReconciler =
  dpr_MirrorImage :: string
  dpr_ArchitectFrontendImage :: string
  dpr_ArchitectBackendImage :: string
  dpr_ArchitectConsolePluginImage :: string
  dpr_SkopeoImage :: string
  dpr_UBI9Image :: string
  dpr_UBI9MinimalImage :: string
  dpr_ExecClients :: bool
  dpr_TektonAvailable :: bool

section \<open>Standard library\<close>

text \<open>\<^verbatim>\<open>strings.TrimSpace\<close>: the white space of Unicode, as the byte sequences of UTF-8.\<close>

definition whiteSpaces :: "string list" where
  "whiteSpaces = [[CHR 0x09], [CHR 0x0A], [CHR 0x0B], [CHR 0x0C], [CHR 0x0D], [CHR 0x20], [CHR 0xC2, CHR 0x85], [CHR 0xC2, CHR 0xA0],
     [CHR 0xE1, CHR 0x9A, CHR 0x80]] @ map (\<lambda>n. [CHR 0xE2, CHR 0x80, char_of n]) ([128..<139] @ [168, 169, 175 :: nat]) @
     [[CHR 0xE2, CHR 0x81, CHR 0x9F], [CHR 0xE3, CHR 0x80, CHR 0x80]]"

lemma whiteSpaces_nonempty: "w \<in> set whiteSpaces \<Longrightarrow> 0 < length w"
  by (auto simp: whiteSpaces_def)

function trimLeft :: "string \<Rightarrow> string" where
  "trimLeft s = (if s = [] then [] else case find (hasPrefix s) whiteSpaces of None \<Rightarrow> s | Some w \<Rightarrow> trimLeft (drop (length w) s))"
  by auto
termination by (relation "measure length") (auto simp: find_Some_iff dest!: whiteSpaces_nonempty [OF nth_mem])

function trimRight :: "string \<Rightarrow> string" where
  "trimRight s = (if s = [] then [] else
     case find (hasSuffix s) whiteSpaces of None \<Rightarrow> s | Some w \<Rightarrow> trimRight (take (length s - length w) s))"
  by auto
termination by (relation "measure length") (auto simp: find_Some_iff dest!: whiteSpaces_nonempty [OF nth_mem])

declare trimLeft.simps [simp del] trimRight.simps [simp del]

definition trimSpace :: "string \<Rightarrow> string" where
  "trimSpace s = trimLeft (trimRight s)"

section \<open>A concrete environment\<close>

text \<open>The scripted environment of theory \<open>Scripted\<close>, extended: JSON of one fixed document, commands that print a token, owner
  references that are added. An instance of the parameters to evaluate examples on.\<close>

definition scriptedPlatform :: "(gomap \<Rightarrow> string res) \<Rightarrow> (string \<Rightarrow> gomap option res) \<Rightarrow> (gomap \<Rightarrow> string list) \<Rightarrow> response list platformEnv" where
  "scriptedPlatform enc dec ord =
     cryptoEnv.extend
       (env.extend (scripted\<lparr>jsonUnmarshal := dec\<rparr>)
          (cryptoEnv.fields (\<lambda>w. (Inr ''key'', w)) (\<lambda>n w. (Inr 1, w)) (\<lambda>a b k w. (Inr ''cert'', w)) Inr (\<lambda>t d. t @ d)))
       (platformEnv.fields enc (\<lambda>v. Inr []) (\<lambda>v fs. (0, False, None))
          (\<lambda>v fs. case walk v fs of Some (GBool b) \<Rightarrow> (b, True, None) | None \<Rightarrow> (False, False, None) | _ \<Rightarrow> (False, False, Some (errorf ''not a bool'')))
          (\<lambda>p. (''mirror/v1'', ''DisconnectedPlatform'')) (\<lambda>s. s) (\<lambda>owner m. Inr m) ord (\<lambda>v. case v of GStr s \<Rightarrow> s | _ \<Rightarrow> [])
          Some (\<lambda>a b. itoa ((case atoi a of Some i \<Rightarrow> i | None \<Rightarrow> 0) + (case atoi b of Some i \<Rightarrow> i | None \<Rightarrow> 0))) None None (\<lambda>_. None) (\<lambda>_ _ w. ((None, ''token'', []), w)))"

lemma call_scriptedPlatform [scripted_simps]:
  "run_state (call (scriptedPlatform enc dec ord) q) \<lparr>world = r # rs, trace = t\<rparr> = (r, \<lparr>world = rs, trace = t @ [(q, r)]\<rparr>)"
  by (simp add: call_def scriptedPlatform_def cryptoEnv.defs env.defs platformEnv.defs scripted_def)

definition sampleReconciler :: platformReconciler where
  "sampleReconciler = \<lparr>dpr_MirrorImage = ''mirror'', dpr_ArchitectFrontendImage = [], dpr_ArchitectBackendImage = [],
     dpr_ArchitectConsolePluginImage = [], dpr_SkopeoImage = [], dpr_UBI9Image = [], dpr_UBI9MinimalImage = [],
     dpr_ExecClients = True, dpr_TektonAvailable = True\<rparr>"

end
