(* ===== verification/PipelineTasks.thy ===== *)
theory PipelineTasks
  imports PipelineScripts PlatformEnv
begin

text \<open>
  The Tekton tasks of the collection and import pipelines, one definition per task of \<^verbatim>\<open>buildPipelineTasks\<close>,
  \<^verbatim>\<open>buildPipelineFinallyTasks\<close>, \<^verbatim>\<open>buildImportPipelineTasks\<close> and \<^verbatim>\<open>pipelines/rhcos.go\<close>, and the tables of parameters,
  workspaces and results of the two templates.
\<close>

definition DownloadRHCOSTask :: "string \<Rightarrow> gomap" where
  \<open>DownloadRHCOSTask ubi9Image =
      [''name'' \<mapsto> GStr ''download-rhcos-images'',
       ''taskSpec'' \<mapsto> GMap [''steps'' \<mapsto> GMaps [[''name'' \<mapsto> GStr ''download-rhcos'',
           ''image'' \<mapsto> GStr ubi9Image,
           ''command'' \<mapsto> GStrs [''/bin/bash'', ''-c''],
           ''args'' \<mapsto> GStrs [downloadRHCOSScript]]]],
       ''workspaces'' \<mapsto> GMaps [[''name'' \<mapsto> GStr ''output''], [''name'' \<mapsto> GStr ''pull-secret'']]]\<close>

definition BuildRHCOSServerTask :: "gomap" where
  \<open>BuildRHCOSServerTask =
      [''name'' \<mapsto> GStr ''build-rhcos-server'',
       ''runAfter'' \<mapsto> GStrs [''download-rhcos-images''],
       ''taskSpec'' \<mapsto> GMap [''steps'' \<mapsto> GMaps [[''name'' \<mapsto> GStr ''build-and-push'',
           ''image'' \<mapsto> GStr ''quay.io/buildah/stable:latest'',
           ''command'' \<mapsto> GStrs [''/bin/bash'', ''-c''],
           ''env'' \<mapsto> GMaps [[''name'' \<mapsto> GStr ''BUILDAH_ISOLATION'', ''value'' \<mapsto> GStr ''chroot''], [''name'' \<mapsto> GStr ''STORAGE_DRIVER'', ''value'' \<mapsto> GStr ''vfs'']],
           ''securityContext'' \<mapsto> GMap [''capabilities'' \<mapsto> GMap [''add'' \<mapsto> GStrs [''SETFCAP'']]],
           ''args'' \<mapsto> GStrs [buildRHCOSServerScript]]]],
       ''workspaces'' \<mapsto> GMaps [[''name'' \<mapsto> GStr ''output''], [''name'' \<mapsto> GStr ''pull-secret'']]]\<close>

definition dryRunTask :: "platformReconciler \<Rightarrow> gomap" where
  \<open>dryRunTask r =
      [''name'' \<mapsto> GStr ''dry-run'',
       ''retries'' \<mapsto> GInt 2,
       ''runAfter'' \<mapsto> GStrs [''build-rhcos-server''],
       ''when'' \<mapsto> GMaps [[''input'' \<mapsto> GStr ''$(params.intermediate-registry)'',
         ''operator'' \<mapsto> GStr ''notin'',
         ''values'' \<mapsto> GStrs [[]]]],
       ''taskSpec'' \<mapsto> GMap [''steps'' \<mapsto> GMaps [[''name'' \<mapsto> GStr ''dry-run'',
           ''image'' \<mapsto> GStr ''$(params.mirror-image)'',
           ''command'' \<mapsto> GStrs [''/bin/sh'', ''-c''],
           ''args'' \<mapsto> GStrs [dryRunScript]]]],
       ''workspaces'' \<mapsto> GMaps [[''name'' \<mapsto> GStr ''config''], [''name'' \<mapsto> GStr ''pull-secret''], [''name'' \<mapsto> GStr ''output'']]]\<close>

definition mirrorToIntermediateTask :: "platformReconciler \<Rightarrow> gomap" where
  \<open>mirrorToIntermediateTask r =
      [''name'' \<mapsto> GStr ''mirror-to-intermediate'',
       ''retries'' \<mapsto> GInt 2,
       ''runAfter'' \<mapsto> GStrs [''dry-run''],
       ''when'' \<mapsto> GMaps [[''input'' \<mapsto> GStr ''$(params.intermediate-registry)'',
         ''operator'' \<mapsto> GStr ''notin'',
         ''values'' \<mapsto> GStrs [[]]]],
       ''taskSpec'' \<mapsto> GMap [''steps'' \<mapsto> GMaps [[''name'' \<mapsto> GStr ''mirror-to-intermediate'',
           ''image'' \<mapsto> GStr ''$(params.mirror-image)'',
           ''command'' \<mapsto> GStrs [''/bin/sh'', ''-c''],
           ''args'' \<mapsto> GStrs [mirrorToIntermediateScript]]]],
       ''workspaces'' \<mapsto> GMaps [[''name'' \<mapsto> GStr ''config''], [''name'' \<mapsto> GStr ''pull-secret''], [''name'' \<mapsto> GStr ''output'']]]\<close>

definition syftSbomTask :: "platformReconciler \<Rightarrow> gomap" where
  \<open>syftSbomTask r =
      [''name'' \<mapsto> GStr ''syft-sbom'',
       ''runAfter'' \<mapsto> GStrs [''mirror-to-intermediate'', ''oc-mirror''],
       ''when'' \<mapsto> GMaps [[''input'' \<mapsto> GStr ''$(params.has-tpa)'',
         ''operator'' \<mapsto> GStr ''in'',
         ''values'' \<mapsto> GStrs [''true'']]],
       ''taskSpec'' \<mapsto> GMap [''steps'' \<mapsto> GMaps [[''name'' \<mapsto> GStr ''generate-sbom'',
           ''image'' \<mapsto> GStr ''$(params.mirror-image)'',
           ''command'' \<mapsto> GStrs [''/bin/sh'', ''-c''],
           ''args'' \<mapsto> GStrs [syftSbomScript],
           ''env'' \<mapsto> GMaps [[''name'' \<mapsto> GStr ''INTERMEDIATE_REGISTRY'', ''value'' \<mapsto> GStr ''$(params.intermediate-registry)''], [''name'' \<mapsto> GStr ''SYFT_CACHE_DIR'', ''value'' \<mapsto> GStr ''/workspace/output/syft-cache'']]]]],
       ''workspaces'' \<mapsto> GMaps [[''name'' \<mapsto> GStr ''output''], [''name'' \<mapsto> GStr ''pull-secret''], [''name'' \<mapsto> GStr ''tpa-oidc-secret'']]]\<close>

definition signImagesTask :: "platformReconciler \<Rightarrow> gomap" where
  \<open>signImagesTask r =
      [''name'' \<mapsto> GStr ''sign-images'',
       ''retries'' \<mapsto> GInt 2,
       ''runAfter'' \<mapsto> GStrs [''syft-sbom''],
       ''when'' \<mapsto> GMaps [[''input'' \<mapsto> GStr ''$(params.has-keyless-signing)'',
         ''operator'' \<mapsto> GStr ''in'',
         ''values'' \<mapsto> GStrs [''true'']], [''input'' \<mapsto> GStr ''$(params.intermediate-registry)'',
         ''operator'' \<mapsto> GStr ''notin'',
         ''values'' \<mapsto> GStrs [[]]]],
       ''taskSpec'' \<mapsto> GMap [''steps'' \<mapsto> GMaps [[''name'' \<mapsto> GStr ''sign-images'',
           ''image'' \<mapsto> GStr ''$(params.mirror-image)'',
           ''command'' \<mapsto> GStrs [''/bin/sh'', ''-c''],
           ''args'' \<mapsto> GStrs [signImagesScript],
           ''env'' \<mapsto> GMaps [[''name'' \<mapsto> GStr ''COSIGN_EXPERIMENTAL'', ''value'' \<mapsto> GStr ''1'']]]]],
       ''workspaces'' \<mapsto> GMaps [[''name'' \<mapsto> GStr ''output''], [''name'' \<mapsto> GStr ''oidc-secret''], [''name'' \<mapsto> GStr ''pull-secret'']]]\<close>

definition ocMirrorTask :: "platformReconciler \<Rightarrow> gomap" where
  \<open>ocMirrorTask r =
      [''name'' \<mapsto> GStr ''oc-mirror'',
       ''retries'' \<mapsto> GInt 2,
       ''when'' \<mapsto> GMaps [[''input'' \<mapsto> GStr ''$(params.intermediate-registry)'',
         ''operator'' \<mapsto> GStr ''in'',
         ''values'' \<mapsto> GStrs [[]]]],
       ''taskSpec'' \<mapsto> GMap [''steps'' \<mapsto> GMaps [[''name'' \<mapsto> GStr ''oc-mirror'',
           ''image'' \<mapsto> GStr ''$(params.mirror-image)'',
           ''command'' \<mapsto> GStrs [''/bin/sh'', ''-c''],
           ''args'' \<mapsto> GStrs [ocMirrorScript]]]],
       ''workspaces'' \<mapsto> GMaps [[''name'' \<mapsto> GStr ''config''], [''name'' \<mapsto> GStr ''pull-secret''], [''name'' \<mapsto> GStr ''output'']]]\<close>

definition mirrorFromIntermediateTask :: "platformReconciler \<Rightarrow> gomap" where
  \<open>mirrorFromIntermediateTask r =
      [''name'' \<mapsto> GStr ''mirror-from-intermediate'',
       ''retries'' \<mapsto> GInt 2,
       ''runAfter'' \<mapsto> GStrs [''sign-images''],
       ''when'' \<mapsto> GMaps [[''input'' \<mapsto> GStr ''$(params.intermediate-registry)'',
         ''operator'' \<mapsto> GStr ''notin'',
         ''values'' \<mapsto> GStrs [[]]]],
       ''taskSpec'' \<mapsto> GMap [''steps'' \<mapsto> GMaps [[''name'' \<mapsto> GStr ''mirror-from-intermediate'',
           ''image'' \<mapsto> GStr ''$(params.mirror-image)'',
           ''command'' \<mapsto> GStrs [''/bin/sh'', ''-c''],
           ''env'' \<mapsto> GMaps [[''name'' \<mapsto> GStr ''TMPDIR'', ''value'' \<mapsto> GStr ''/workspace/output/tmp''], [''name'' \<mapsto> GStr ''HOME'', ''value'' \<mapsto> GStr ''/workspace/output''], [''name'' \<mapsto> GStr ''CONTAINERS_STORAGE_CONF'',
             ''value'' \<mapsto> GStr ''/workspace/output/storage.conf'']],
           ''args'' \<mapsto> GStrs [mirrorFromIntermediateScript]]]],
       ''workspaces'' \<mapsto> GMaps [[''name'' \<mapsto> GStr ''config''], [''name'' \<mapsto> GStr ''output''], [''name'' \<mapsto> GStr ''pull-secret'']]]\<close>

definition signBundlesTask :: "platformReconciler \<Rightarrow> gomap" where
  \<open>signBundlesTask r =
      [''name'' \<mapsto> GStr ''sign-bundles'',
       ''runAfter'' \<mapsto> GStrs [''repackage-bundle''],
       ''when'' \<mapsto> GMaps [[''input'' \<mapsto> GStr ''$(params.has-keyless-signing)'',
         ''operator'' \<mapsto> GStr ''in'',
         ''values'' \<mapsto> GStrs [''true'']]],
       ''taskSpec'' \<mapsto> GMap [''steps'' \<mapsto> GMaps [[''name'' \<mapsto> GStr ''sign-bundles'',
           ''image'' \<mapsto> GStr ''$(params.mirror-image)'',
           ''command'' \<mapsto> GStrs [''/bin/sh'', ''-c''],
           ''args'' \<mapsto> GStrs [signBundlesScript]]]],
       ''workspaces'' \<mapsto> GMaps [[''name'' \<mapsto> GStr ''output''], [''name'' \<mapsto> GStr ''oidc-secret'']]]\<close>

definition createBundleSbomTask :: "platformReconciler \<Rightarrow> gomap" where
  \<open>createBundleSbomTask r =
      [''name'' \<mapsto> GStr ''create-bundle-sbom'',
       ''retries'' \<mapsto> GInt 2,
       ''runAfter'' \<mapsto> GStrs [''sign-bundles''],
       ''when'' \<mapsto> GMaps [[''input'' \<mapsto> GStr ''$(params.has-tpa)'',
         ''operator'' \<mapsto> GStr ''in'',
         ''values'' \<mapsto> GStrs [''true'']]],
       ''taskSpec'' \<mapsto> GMap [''steps'' \<mapsto> GMaps [[''name'' \<mapsto> GStr ''create-bundle-sbom'',
           ''image'' \<mapsto> GStr ''$(params.mirror-image)'',
           ''command'' \<mapsto> GStrs [''/bin/sh'', ''-c''],
           ''args'' \<mapsto> GStrs [createBundleSbomScript]]]],
       ''workspaces'' \<mapsto> GMaps [[''name'' \<mapsto> GStr ''output''], [''name'' \<mapsto> GStr ''tpa-oidc-secret'']]]\<close>

definition uploadSbomTask :: "platformReconciler \<Rightarrow> gomap" where
  \<open>uploadSbomTask r =
      [''name'' \<mapsto> GStr ''upload-sbom'',
       ''retries'' \<mapsto> GInt 2,
       ''runAfter'' \<mapsto> GStrs [''create-bundle-sbom''],
       ''when'' \<mapsto> GMaps [[''input'' \<mapsto> GStr ''$(params.has-tpa)'',
         ''operator'' \<mapsto> GStr ''in'',
         ''values'' \<mapsto> GStrs [''true'']]],
       ''taskSpec'' \<mapsto> GMap [''results'' \<mapsto> GMaps [[''name'' \<mapsto> GStr ''sbom-url'', ''description'' \<mapsto> GStr ''URL to view uploaded SBOMs in TPA'']],
         ''steps'' \<mapsto> GMaps [[''name'' \<mapsto> GStr ''upload-sbom'',
           ''image'' \<mapsto> GStr ''$(params.mirror-image)'',
           ''command'' \<mapsto> GStrs [''/bin/sh'', ''-c''],
           ''args'' \<mapsto> GStrs [uploadSbomScript]]]],
       ''workspaces'' \<mapsto> GMaps [[''name'' \<mapsto> GStr ''output''], [''name'' \<mapsto> GStr ''tpa-oidc-secret'']]]\<close>

definition exportArchitectImagesTask :: "platformReconciler \<Rightarrow> gomap" where
  \<open>exportArchitectImagesTask r =
      [''name'' \<mapsto> GStr ''export-architect-images'',
       ''retries'' \<mapsto> GInt 2,
       ''runAfter'' \<mapsto> GStrs [''sign-images''],
       ''when'' \<mapsto> GMaps [[''input'' \<mapsto> GStr ''$(params.architect-export-enabled)'',
         ''operator'' \<mapsto> GStr ''in'',
         ''values'' \<mapsto> GStrs [''true'']]],
       ''taskSpec'' \<mapsto> GMap [''steps'' \<mapsto> GMaps [[''name'' \<mapsto> GStr ''save-images'',
           ''image'' \<mapsto> GStr (dpr_SkopeoImage r),
           ''command'' \<mapsto> GStrs [''/bin/sh'', ''-c''],
           ''args'' \<mapsto> GStrs [exportArchitectImagesScript]]]],
       ''workspaces'' \<mapsto> GMaps [[''name'' \<mapsto> GStr ''output''], [''name'' \<mapsto> GStr ''pull-secret'']]]\<close>

definition downloadCliToolsTask :: "platformReconciler \<Rightarrow> gomap" where
  \<open>downloadCliToolsTask r =
      [''name'' \<mapsto> GStr ''download-cli-tools'',
       ''retries'' \<mapsto> GInt 2,
       ''runAfter'' \<mapsto> GStrs [''export-architect-images''],
       ''when'' \<mapsto> GMaps [[''input'' \<mapsto> GStr ''$(params.cli-tools-enabled)'',
         ''operator'' \<mapsto> GStr ''in'',
         ''values'' \<mapsto> GStrs [''true'']]],
       ''taskSpec'' \<mapsto> GMap [''steps'' \<mapsto> GMaps [[''name'' \<mapsto> GStr ''download-tools'',
           ''image'' \<mapsto> GStr (dpr_UBI9Image r),
           ''command'' \<mapsto> GStrs [''/bin/bash'', ''-c''],
           ''args'' \<mapsto> GStrs [downloadCliToolsScript]]]],
       ''workspaces'' \<mapsto> GMaps [[''name'' \<mapsto> GStr ''output'']]]\<close>

definition copyImportScriptTask :: "platformReconciler \<Rightarrow> gomap" where
  \<open>copyImportScriptTask r =
      [''name'' \<mapsto> GStr ''copy-import-script'',
       ''runAfter'' \<mapsto> GStrs [''download-cli-tools''],
       ''taskSpec'' \<mapsto> GMap [''steps'' \<mapsto> GMaps [[''name'' \<mapsto> GStr ''copy-script'',
           ''image'' \<mapsto> GStr (dpr_UBI9MinimalImage r),
           ''command'' \<mapsto> GStrs [''/bin/sh'', ''-c''],
           ''args'' \<mapsto> GStrs [copyImportScriptScript]]]],
       ''workspaces'' \<mapsto> GMaps [[''name'' \<mapsto> GStr ''output''], [''name'' \<mapsto> GStr ''architect-script'']]]\<close>

definition repackageBundleTask :: "platformReconciler \<Rightarrow> gomap" where
  \<open>repackageBundleTask r =
      [''name'' \<mapsto> GStr ''repackage-bundle'',
       ''runAfter'' \<mapsto> GStrs [''copy-import-script'', ''mirror-from-intermediate'', ''oc-mirror'', ''download-cli-tools''],
       ''taskSpec'' \<mapsto> GMap [''steps'' \<mapsto> GMaps [[''name'' \<mapsto> GStr ''repackage'',
           ''image'' \<mapsto> GStr (dpr_UBI9Image r),
           ''command'' \<mapsto> GStrs [''/bin/sh'', ''-c''],
           ''args'' \<mapsto> GStrs [repackageBundleScript]]]],
       ''workspaces'' \<mapsto> GMaps [[''name'' \<mapsto> GStr ''output''], [''name'' \<mapsto> GStr ''config'']]]\<close>

definition uploadToS3Task :: "platformReconciler \<Rightarrow> gomap" where
  \<open>uploadToS3Task r =
      [''name'' \<mapsto> GStr ''upload-to-s3'',
       ''retries'' \<mapsto> GInt 2,
       ''runAfter'' \<mapsto> GStrs [''upload-sbom''],
       ''taskSpec'' \<mapsto> GMap [''results'' \<mapsto> GMaps [[''name'' \<mapsto> GStr ''bundle-url'', ''description'' \<mapsto> GStr ''S3 URL to the uploaded bundle''], [''name'' \<mapsto> GStr ''signature-url'', ''description'' \<mapsto> GStr ''S3 URL to the bundle signature'']],
         ''steps'' \<mapsto> GMaps [[''name'' \<mapsto> GStr ''upload-artifacts'',
           ''image'' \<mapsto> GStr ''amazon/aws-cli:latest'',
           ''command'' \<mapsto> GStrs [''/bin/sh'', ''-c''],
           ''args'' \<mapsto> GStrs [uploadToS3Script],
           ''env'' \<mapsto> GMaps [[''name'' \<mapsto> GStr ''AWS_ACCESS_KEY_ID'',
             ''valueFrom'' \<mapsto> GMap [''secretKeyRef'' \<mapsto> GMap [''name'' \<mapsto> GStr ''$(params.s3-secret-name)'', ''key'' \<mapsto> GStr ''AWS_ACCESS_KEY_ID'']]], [''name'' \<mapsto> GStr ''AWS_SECRET_ACCESS_KEY'',
             ''valueFrom'' \<mapsto> GMap [''secretKeyRef'' \<mapsto> GMap [''name'' \<mapsto> GStr ''$(params.s3-secret-name)'', ''key'' \<mapsto> GStr ''AWS_SECRET_ACCESS_KEY'']]]]]]],
       ''workspaces'' \<mapsto> GMaps [[''name'' \<mapsto> GStr ''output'']]]\<close>

definition pipelineTaskList :: "platformReconciler \<Rightarrow> gomap list" where
  "pipelineTaskList r =
     [dryRunTask r,
      mirrorToIntermediateTask r,
      syftSbomTask r,
      signImagesTask r,
      ocMirrorTask r,
      mirrorFromIntermediateTask r,
      signBundlesTask r,
      createBundleSbomTask r,
      uploadSbomTask r,
      exportArchitectImagesTask r,
      downloadCliToolsTask r,
      DownloadRHCOSTask (dpr_UBI9Image r),
      BuildRHCOSServerTask,
      copyImportScriptTask r,
      repackageBundleTask r,
      uploadToS3Task r]"

definition finallyCleanupWorkspaceTask :: "platformReconciler \<Rightarrow> gomap" where
  \<open>finallyCleanupWorkspaceTask r =
      [''name'' \<mapsto> GStr ''cleanup-workspace'',
       ''taskSpec'' \<mapsto> GMap [''steps'' \<mapsto> GMaps [[''name'' \<mapsto> GStr ''cleanup'',
           ''image'' \<mapsto> GStr (dpr_UBI9MinimalImage r),
           ''command'' \<mapsto> GStrs [''/bin/sh'', ''-c''],
           ''args'' \<mapsto> GStrs [finallyCleanupWorkspaceScript]]]],
       ''workspaces'' \<mapsto> GMaps [[''name'' \<mapsto> GStr ''output'']]]\<close>

definition buildPipelineFinallyTasks :: "platformReconciler \<Rightarrow> gomap list" where
  "buildPipelineFinallyTasks r = [finallyCleanupWorkspaceTask r]"

definition templateParams :: "platformReconciler \<Rightarrow> gomap list" where
  \<open>templateParams r =
     [[''name'' \<mapsto> GStr ''config-map-name'',''type'' \<mapsto> GStr ''string'',''description'' \<mapsto> GStr ''ConfigMap containing ImageSetConfiguration''],
      [''name'' \<mapsto> GStr ''mirror-image'',''type'' \<mapsto> GStr ''string'',''default'' \<mapsto> GStr (dpr_MirrorImage r)],
      [''name'' \<mapsto> GStr ''working-pvc-name'',''type'' \<mapsto> GStr ''string'',''description'' \<mapsto> GStr ''PVC for working directory/cache''],
      [''name'' \<mapsto> GStr ''collection-name'',''type'' \<mapsto> GStr ''string'',''description'' \<mapsto> GStr ''Name of the CollectionPipeline resource''],
      [''name'' \<mapsto> GStr ''parent-pipeline'',''type'' \<mapsto> GStr ''string'',''default'' \<mapsto> GStr [],''description'' \<mapsto> GStr ''Parent pipeline name (non-empty for update/child collections)''],
      [''name'' \<mapsto> GStr ''intermediate-registry'',''type'' \<mapsto> GStr ''string'',''default'' \<mapsto> GStr [],''description'' \<mapsto> GStr ''Intermediate registry for m2m workflow (empty = local cache)''],
      [''name'' \<mapsto> GStr ''has-keyless-signing'',''type'' \<mapsto> GStr ''string'',''default'' \<mapsto> GStr ''false'',''description'' \<mapsto> GStr ''Enable keyless signing''],
      [''name'' \<mapsto> GStr ''fulcio-url'', ''type'' \<mapsto> GStr ''string'', ''default'' \<mapsto> GStr []],
      [''name'' \<mapsto> GStr ''rekor-url'', ''type'' \<mapsto> GStr ''string'', ''default'' \<mapsto> GStr []],
      [''name'' \<mapsto> GStr ''tuf-url'', ''type'' \<mapsto> GStr ''string'', ''default'' \<mapsto> GStr []],
      [''name'' \<mapsto> GStr ''oidc-issuer'', ''type'' \<mapsto> GStr ''string'', ''default'' \<mapsto> GStr []],
      [''name'' \<mapsto> GStr ''oidc-client-id'', ''type'' \<mapsto> GStr ''string'', ''default'' \<mapsto> GStr []],
      [''name'' \<mapsto> GStr ''has-tpa'', ''type'' \<mapsto> GStr ''string'', ''default'' \<mapsto> GStr ''false''],
      [''name'' \<mapsto> GStr ''tpa-host'', ''type'' \<mapsto> GStr ''string'', ''default'' \<mapsto> GStr []],
      [''name'' \<mapsto> GStr ''tpa-oidc-issuer'', ''type'' \<mapsto> GStr ''string'', ''default'' \<mapsto> GStr []],
      [''name'' \<mapsto> GStr ''tpa-oidc-client-id'', ''type'' \<mapsto> GStr ''string'', ''default'' \<mapsto> GStr []],
      [''name'' \<mapsto> GStr ''has-s3'',''type'' \<mapsto> GStr ''string'',''default'' \<mapsto> GStr ''false'',''description'' \<mapsto> GStr ''Enable S3 storage output''],
      [''name'' \<mapsto> GStr ''s3-bucket'', ''type'' \<mapsto> GStr ''string'', ''default'' \<mapsto> GStr []],
      [''name'' \<mapsto> GStr ''s3-endpoint'', ''type'' \<mapsto> GStr ''string'', ''default'' \<mapsto> GStr []],
      [''name'' \<mapsto> GStr ''s3-region'', ''type'' \<mapsto> GStr ''string'', ''default'' \<mapsto> GStr []],
      [''name'' \<mapsto> GStr ''s3-secret-name'', ''type'' \<mapsto> GStr ''string'', ''default'' \<mapsto> GStr []],
      [''name'' \<mapsto> GStr ''architect-frontend-image'',''type'' \<mapsto> GStr ''string'',''description'' \<mapsto> GStr ''Airgap Architect frontend container image''],
      [''name'' \<mapsto> GStr ''architect-backend-image'',''type'' \<mapsto> GStr ''string'',''description'' \<mapsto> GStr ''Airgap Architect backend container image''],
      [''name'' \<mapsto> GStr ''architect-export-enabled'',''type'' \<mapsto> GStr ''string'',''default'' \<mapsto> GStr ''true'',''description'' \<mapsto> GStr ''Export standalone Airgap Architect images into the bundle''],
      [''name'' \<mapsto> GStr ''oc-version'',''type'' \<mapsto> GStr ''string'',''default'' \<mapsto> GStr ''latest'',''description'' \<mapsto> GStr ''OpenShift CLI version to download''],
      [''name'' \<mapsto> GStr ''mirror-registry-version'',''type'' \<mapsto> GStr ''string'',''default'' \<mapsto> GStr ''latest'',''description'' \<mapsto> GStr ''mirror-registry installer version''],
      [''name'' \<mapsto> GStr ''cli-tools-enabled'',''type'' \<mapsto> GStr ''string'',''default'' \<mapsto> GStr ''true'',''description'' \<mapsto> GStr ''Include CLI tools in bundle''],
      [''name'' \<mapsto> GStr ''sbom-parallel-jobs'',''type'' \<mapsto> GStr ''string'',''default'' \<mapsto> GStr ''8'',''description'' \<mapsto> GStr ''Number of parallel syft SBOM scans''],
      [''name'' \<mapsto> GStr ''rhcos-download-enabled'',''type'' \<mapsto> GStr ''string'',''default'' \<mapsto> GStr ''true'',''description'' \<mapsto> GStr ''Download RHCOS boot images for ACM host inventory''],
      [''name'' \<mapsto> GStr ''rhcos-server-base-image'',''type'' \<mapsto> GStr ''string'',''default'' \<mapsto> GStr ''registry.access.redhat.com/ubi9/nginx-122:latest'',''description'' \<mapsto> GStr ''Base image for RHCOS server container''],
      [''name'' \<mapsto> GStr ''osus-enabled'',''type'' \<mapsto> GStr ''string'',''default'' \<mapsto> GStr ''true'',''description'' \<mapsto> GStr ''Use the operator-managed OpenShift Update Service''],
      [''name'' \<mapsto> GStr ''http-proxy'',''type'' \<mapsto> GStr ''string'',''default'' \<mapsto> GStr [],''description'' \<mapsto> GStr ''HTTP proxy URL from cluster config''],
      [''name'' \<mapsto> GStr ''https-proxy'',''type'' \<mapsto> GStr ''string'',''default'' \<mapsto> GStr [],''description'' \<mapsto> GStr ''HTTPS proxy URL from cluster config''],
      [''name'' \<mapsto> GStr ''no-proxy'',''type'' \<mapsto> GStr ''string'',''default'' \<mapsto> GStr [],''description'' \<mapsto> GStr ''No-proxy hosts from cluster config'']]\<close>

definition templateWorkspaces :: "gomap list" where
  \<open>templateWorkspaces =
     [[''name'' \<mapsto> GStr ''config'', ''description'' \<mapsto> GStr ''ImageSetConfiguration ConfigMap''],
      [''name'' \<mapsto> GStr ''pull-secret'', ''description'' \<mapsto> GStr ''Registry pull secret''],
      [''name'' \<mapsto> GStr ''output'', ''description'' \<mapsto> GStr ''Working PVC for cache and temp files''],
      [''name'' \<mapsto> GStr ''oidc-secret'',''description'' \<mapsto> GStr ''OIDC client secret for keyless signing'',''optional'' \<mapsto> GBool True],
      [''name'' \<mapsto> GStr ''tpa-oidc-secret'',''description'' \<mapsto> GStr ''TPA OIDC secret for SBOM upload'',''optional'' \<mapsto> GBool True],
      [''name'' \<mapsto> GStr ''cosign-key'',''description'' \<mapsto> GStr ''Cosign private key'',''optional'' \<mapsto> GBool True],
      [''name'' \<mapsto> GStr ''architect-script'',''description'' \<mapsto> GStr ''Airgap Architect import script ConfigMap'',''optional'' \<mapsto> GBool True],
      [''name'' \<mapsto> GStr ''cluster-ca-bundle'',''description'' \<mapsto> GStr ''Cluster CA bundle for trusting internal CAs'',''optional'' \<mapsto> GBool True]]\<close>

definition templateResults :: "gomap list" where
  \<open>templateResults =
     [[''name'' \<mapsto> GStr ''bundle-url'',''description'' \<mapsto> GStr ''URL to the uploaded bundle in S3'',''value'' \<mapsto> GStr ''$(tasks.upload-to-s3.results.bundle-url)''],
      [''name'' \<mapsto> GStr ''signature-url'',''description'' \<mapsto> GStr ''URL to the bundle signature in S3'',''value'' \<mapsto> GStr ''$(tasks.upload-to-s3.results.signature-url)''],
      [''name'' \<mapsto> GStr ''sbom-url'',''description'' \<mapsto> GStr ''URL to view SBOMs in TPA'',''value'' \<mapsto> GStr ''$(tasks.upload-sbom.results.sbom-url)'']]\<close>

definition importVerifyBundleTask :: "platformReconciler \<Rightarrow> gomap" where
  \<open>importVerifyBundleTask r =
      [''name'' \<mapsto> GStr ''verify-bundle'',
       ''when'' \<mapsto> GMaps [[''input'' \<mapsto> GStr ''$(params.verify-enabled)'',
         ''operator'' \<mapsto> GStr ''in'',
         ''values'' \<mapsto> GStrs [''true'']]],
       ''taskSpec'' \<mapsto> GMap [''steps'' \<mapsto> GMaps [[''name'' \<mapsto> GStr ''verify'',
           ''image'' \<mapsto> GStr ''$(params.mirror-image)'',
           ''command'' \<mapsto> GStrs [''/bin/bash'', ''-c''],
           ''args'' \<mapsto> GStrs [importVerifyBundleScript]]]],
       ''workspaces'' \<mapsto> GMaps [[''name'' \<mapsto> GStr ''bundle-data''], [''name'' \<mapsto> GStr ''cosign-pub'']]]\<close>

definition importExtractBundleTask :: "platformReconciler \<Rightarrow> gomap" where
  \<open>importExtractBundleTask r =
      [''name'' \<mapsto> GStr ''extract-bundle'',
       ''runAfter'' \<mapsto> GStrs [''verify-bundle''],
       ''taskSpec'' \<mapsto> GMap [''steps'' \<mapsto> GMaps [[''name'' \<mapsto> GStr ''extract'',
           ''image'' \<mapsto> GStr (dpr_UBI9Image r),
           ''command'' \<mapsto> GStrs [''/bin/sh'', ''-c''],
           ''args'' \<mapsto> GStrs [importExtractBundleScript]]]],
       ''workspaces'' \<mapsto> GMaps [[''name'' \<mapsto> GStr ''bundle-data'']]]\<close>

definition importMirrorContentTask :: "platformReconciler \<Rightarrow> gomap" where
  \<open>importMirrorContentTask r =
      [''name'' \<mapsto> GStr ''mirror-content'',
       ''runAfter'' \<mapsto> GStrs [''extract-bundle''],
       ''taskSpec'' \<mapsto> GMap [''steps'' \<mapsto> GMaps [[''name'' \<mapsto> GStr ''oc-mirror'',
           ''image'' \<mapsto> GStr ''$(params.mirror-image)'',
           ''command'' \<mapsto> GStrs [''/bin/bash'', ''-c''],
           ''args'' \<mapsto> GStrs [importMirrorContentScript]]]],
       ''workspaces'' \<mapsto> GMaps [[''name'' \<mapsto> GStr ''config''], [''name'' \<mapsto> GStr ''bundle-data''], [''name'' \<mapsto> GStr ''pull-secret'']]]\<close>

definition importMirrorToNodesTask :: "platformReconciler \<Rightarrow> gomap" where
  \<open>importMirrorToNodesTask r =
      [''name'' \<mapsto> GStr ''mirror-to-nodes'',
       ''runAfter'' \<mapsto> GStrs [''mirror-content''],
       ''when'' \<mapsto> GMaps [[''input'' \<mapsto> GStr ''$(params.node-registries)'',
         ''operator'' \<mapsto> GStr ''notin'',
         ''values'' \<mapsto> GStrs [[]]]],
       ''taskSpec'' \<mapsto> GMap [''steps'' \<mapsto> GMaps [[''name'' \<mapsto> GStr ''oc-mirror-nodes'',
           ''image'' \<mapsto> GStr ''$(params.mirror-image)'',
           ''command'' \<mapsto> GStrs [''/bin/bash'', ''-c''],
           ''args'' \<mapsto> GStrs [importMirrorToNodesScript]]]],
       ''workspaces'' \<mapsto> GMaps [[''name'' \<mapsto> GStr ''config''], [''name'' \<mapsto> GStr ''bundle-data''], [''name'' \<mapsto> GStr ''pull-secret'']]]\<close>

definition importApplyManifestsTask :: "platformReconciler \<Rightarrow> gomap" where
  \<open>importApplyManifestsTask r =
      [''name'' \<mapsto> GStr ''apply-manifests'',
       ''runAfter'' \<mapsto> GStrs [''mirror-to-nodes''],
       ''taskSpec'' \<mapsto> GMap [''steps'' \<mapsto> GMaps [[''name'' \<mapsto> GStr ''apply'',
           ''image'' \<mapsto> GStr ''$(params.mirror-image)'',
           ''command'' \<mapsto> GStrs [''/bin/bash'', ''-c''],
           ''args'' \<mapsto> GStrs [importApplyManifestsScript]]]],
       ''workspaces'' \<mapsto> GMaps [[''name'' \<mapsto> GStr ''bundle-data'']]]\<close>

definition importCleanupWorkspaceTask :: "platformReconciler \<Rightarrow> gomap" where
  \<open>importCleanupWorkspaceTask r =
      [''name'' \<mapsto> GStr ''cleanup-workspace'',
       ''runAfter'' \<mapsto> GStrs [''apply-manifests''],
       ''taskSpec'' \<mapsto> GMap [''steps'' \<mapsto> GMaps [[''name'' \<mapsto> GStr ''cleanup'',
           ''image'' \<mapsto> GStr (dpr_UBI9MinimalImage r),
           ''command'' \<mapsto> GStrs [''/bin/sh'', ''-c''],
           ''args'' \<mapsto> GStrs [importCleanupWorkspaceScript]]]],
       ''workspaces'' \<mapsto> GMaps [[''name'' \<mapsto> GStr ''bundle-data'']]]\<close>

definition buildImportPipelineTasks :: "platformReconciler \<Rightarrow> gomap list" where
  "buildImportPipelineTasks r =
     [importVerifyBundleTask r,
      importExtractBundleTask r,
      importMirrorContentTask r,
      importMirrorToNodesTask r,
      importApplyManifestsTask r,
      importCleanupWorkspaceTask r]"

definition importTemplateParams :: "platformReconciler \<Rightarrow> gomap list" where
  \<open>importTemplateParams r =
     [[''name'' \<mapsto> GStr ''bundle-filename'',''type'' \<mapsto> GStr ''string'',''description'' \<mapsto> GStr ''Tar filename on the bundle PVC''],
      [''name'' \<mapsto> GStr ''target-registry'',''type'' \<mapsto> GStr ''string'',''description'' \<mapsto> GStr ''Destination mirror registry URL''],
      [''name'' \<mapsto> GStr ''mirror-image'',''type'' \<mapsto> GStr ''string'',''default'' \<mapsto> GStr (dpr_MirrorImage r),''description'' \<mapsto> GStr ''oc-mirror container image''],
      [''name'' \<mapsto> GStr ''verify-enabled'',''type'' \<mapsto> GStr ''string'',''default'' \<mapsto> GStr ''false'',''description'' \<mapsto> GStr ''Enable cosign signature verification''],
      [''name'' \<mapsto> GStr ''cosign-pub-secret'',''type'' \<mapsto> GStr ''string'',''default'' \<mapsto> GStr [],''description'' \<mapsto> GStr ''Secret name containing cosign public key''],
      [''name'' \<mapsto> GStr ''node-registries'',''type'' \<mapsto> GStr ''string'',''default'' \<mapsto> GStr [],''description'' \<mapsto> GStr ''Space-separated list of node registry host:port targets for MachineConfig registries'']]\<close>

definition importTemplateWorkspaces :: "gomap list" where
  \<open>importTemplateWorkspaces =
     [[''name'' \<mapsto> GStr ''bundle-data'', ''description'' \<mapsto> GStr ''PVC containing the bundle tar file''],
      [''name'' \<mapsto> GStr ''config'', ''description'' \<mapsto> GStr ''ConfigMap with imageset-config.yaml''],
      [''name'' \<mapsto> GStr ''pull-secret'',''description'' \<mapsto> GStr ''Registry pull secret for authentication''],
      [''name'' \<mapsto> GStr ''cosign-pub'',''description'' \<mapsto> GStr ''Cosign public key secret for verification'',''optional'' \<mapsto> GBool True],
      [''name'' \<mapsto> GStr ''cluster-ca-bundle'',''description'' \<mapsto> GStr ''Cluster CA bundle for trusting internal CAs'',''optional'' \<mapsto> GBool True]]\<close>

end
