(* ===== verification/PipelineRefs.thy ===== *)
theory PipelineRefs
  imports PipelineScripts
begin

text \<open>
  The references in the scripts of theory \<open>PipelineScripts\<close>: the parameters a script names as \<^verbatim>\<open>$(params.name)\<close> and the
  workspaces it names as \<^verbatim>\<open>/workspace/name\<close>, found by scanning the text, and for every script the parameters and workspaces it
  is confined to. The scan goes line by line, since no reference runs over the end of a line.
\<close>

fun startsWith :: "string \<Rightarrow> string \<Rightarrow> bool" where
  "startsWith s [] = True"
| "startsWith [] (d # p) = False"
| "startsWith (c # s) (d # p) = (if c = d then startsWith s p else False)"

text \<open>\<open>refs p ends s\<close>: what follows an occurrence of \<open>p\<close>, up to the first character of \<open>ends\<close>.\<close>

fun refs :: "string \<Rightarrow> string \<Rightarrow> string \<Rightarrow> string list" where
  "refs p ends [] = []"
| "refs p ends (c # s) =
     (if startsWith (c # s) p then takeWhile (\<lambda>d. d \<notin> set ends) (drop (length p) (c # s)) # refs p ends s else refs p ends s)"

definition paramRefs :: "string \<Rightarrow> string list" where
  "paramRefs s = refs ''$(params.'' [CHR '')'', CHR 0x0A] s"

definition workspaceRefs :: "string \<Rightarrow> string list" where
  \<open>workspaceRefs s = refs ''/workspace/'' [CHR ''/'', CHR '' '', CHR 0x22, CHR '';'', CHR 0x0A] s\<close>

lemma startsWith_iff: "startsWith s p \<longleftrightarrow> hasPrefix s p"
  by (induction s p rule: startsWith.induct) (auto simp: hasPrefix_def)

lemma startsWith_line: "CHR 0x0A \<notin> set p \<Longrightarrow> startsWith (l @ CHR 0x0A # s) p \<longleftrightarrow> startsWith l p"
  by (induction l p rule: startsWith.induct) auto

lemma startsWith_length: "startsWith s p \<Longrightarrow> length p \<le> length s"
  by (induction s p rule: startsWith.induct) (auto split: if_splits)

lemma refs_line:
  assumes p: "CHR 0x0A \<notin> set p" "p \<noteq> []" and e: "CHR 0x0A \<in> set ends"
  shows "refs p ends (l @ CHR 0x0A # s) = refs p ends l @ refs p ends s"
proof (induction l)
  case Nil
  with p show ?case by (cases p) auto
next
  case (Cons c l)
  have "takeWhile (\<lambda>d. d \<notin> set ends) (drop (length p) ((c # l) @ CHR 0x0A # s)) = takeWhile (\<lambda>d. d \<notin> set ends) (drop (length p) (c # l))"
    if "startsWith (c # l) p"
  proof -
    have "takeWhile (\<lambda>d. d \<notin> set ends) (xs @ CHR 0x0A # s) = takeWhile (\<lambda>d. d \<notin> set ends) xs" for xs
      using e by (induction xs) auto
    moreover have "drop (length p) ((c # l) @ CHR 0x0A # s) = drop (length p) (c # l) @ CHR 0x0A # s"
      using startsWith_length [OF that] by (simp only: drop_append) simp
    ultimately show ?thesis by (simp only:)
  qed
  with Cons startsWith_line [OF p(1), of "c # l" s] show ?case by simp
qed

lemma refs_unlines:
  assumes "CHR 0x0A \<notin> set p" "p \<noteq> []" "CHR 0x0A \<in> set ends"
  shows "refs p ends (unlines ls @ s) = concat (map (refs p ends) ls) @ refs p ends s"
    and "refs p ends (unlines ls) = concat (map (refs p ends) ls)"
proof -
  show A: "refs p ends (unlines ls @ s) = concat (map (refs p ends) ls) @ refs p ends s" for s
    by (induction ls) (simp_all add: unlines_def refs_line [OF assms])
  from A [of "[]"] show "refs p ends (unlines ls) = concat (map (refs p ends) ls)" by simp
qed

text \<open>A script is confined to parameters \<open>ps\<close> and workspaces \<open>ws\<close>.\<close>

definition confined :: "string list \<Rightarrow> string list \<Rightarrow> string \<Rightarrow> bool" where
  "confined ps ws s \<longleftrightarrow> set (paramRefs s) \<subseteq> set ps \<and> set (workspaceRefs s) \<subseteq> set ws"

lemma confined_unlines:
  "confined ps ws (unlines ls @ s) \<longleftrightarrow> list_all (confined ps ws) ls \<and> confined ps ws s"
  "confined ps ws (unlines ls) \<longleftrightarrow> list_all (confined ps ws) ls"
  by (auto simp: confined_def paramRefs_def workspaceRefs_def refs_unlines list_all_iff)

lemma confined_mono: "confined ps ws s \<Longrightarrow> set ps \<subseteq> set ps' \<Longrightarrow> set ws \<subseteq> set ws' \<Longrightarrow> confined ps' ws' s"
  by (auto simp: confined_def)

lemma script_refs_1:
  "confined [] [''pull-secret''] registryExistsCheckSnippet \<and>
   confined [''intermediate-registry'', ''oc-version'', ''rhcos-download-enabled''] [] downloadRHCOSScript_a \<and>
   confined [] [''output''] downloadRHCOSScript_b \<and>
   confined [''intermediate-registry'', ''oc-version'', ''rhcos-download-enabled'', ''rhcos-server-base-image''] [''output''] buildRHCOSServerScript_a \<and>
   confined [] [''pull-secret'', ''trusted-ca''] buildRHCOSServerScript_b"
  unfolding registryExistsCheckSnippet_def downloadRHCOSScript_a_def downloadRHCOSScript_b_def buildRHCOSServerScript_a_def buildRHCOSServerScript_b_def confined_unlines
  by code_simp

lemma script_refs_2:
  "confined [''intermediate-registry''] [''config'', ''output'', ''pull-secret''] dryRunScript \<and>
   confined [''intermediate-registry''] [''config'', ''output'', ''pull-secret''] mirrorToIntermediateScript \<and>
   confined [''tpa-host'', ''tpa-oidc-client-id'', ''tpa-oidc-issuer''] [''pull-secret'', ''tpa-oidc-secret''] syftSbomScript_1"
  unfolding dryRunScript_def mirrorToIntermediateScript_def syftSbomScript_1_def confined_unlines
  by code_simp

lemma script_refs_3:
  "confined [''intermediate-registry'', ''sbom-parallel-jobs'', ''tpa-host''] [''output''] syftSbomScript_2 \<and>
   confined [] [''output''] syftSbomScript_3 \<and>
   confined [''fulcio-url'', ''intermediate-registry'', ''oidc-client-id'', ''oidc-issuer'', ''rekor-url'', ''tuf-url''] [''oidc-secret'', ''output'', ''pull-secret''] signImagesScript"
  unfolding syftSbomScript_2_def syftSbomScript_3_def signImagesScript_def confined_unlines
  by code_simp

lemma script_refs_4:
  "confined [''parent-pipeline''] [''config'', ''output'', ''pull-secret''] ocMirrorScript \<and>
   confined [''intermediate-registry'', ''parent-pipeline''] [''output''] mirrorFromIntermediateScript_1 \<and>
   confined [''intermediate-registry'', ''osus-enabled''] [''output'', ''pull-secret''] mirrorFromIntermediateScript_2"
  unfolding ocMirrorScript_def mirrorFromIntermediateScript_1_def mirrorFromIntermediateScript_2_def confined_unlines
  by code_simp

lemma script_refs_5:
  "confined [''intermediate-registry''] [''config'', ''output'', ''pull-secret''] mirrorFromIntermediateScript_3 \<and>
   confined [''fulcio-url'', ''oidc-client-id'', ''oidc-issuer'', ''rekor-url'', ''tuf-url''] [''oidc-secret'', ''output''] signBundlesScript \<and>
   confined [''architect-backend-image'', ''architect-frontend-image'', ''cli-tools-enabled'', ''collection-name'', ''tpa-host'', ''tpa-oidc-client-id'', ''tpa-oidc-issuer''] [''output'', ''tpa-oidc-secret''] createBundleSbomScript_1 \<and>
   confined [''mirror-registry-version'', ''oc-version'', ''s3-bucket''] [''output''] createBundleSbomScript_2"
  unfolding mirrorFromIntermediateScript_3_def signBundlesScript_def createBundleSbomScript_1_def createBundleSbomScript_2_def confined_unlines
  by code_simp

lemma script_refs_6:
  "confined [] [] createBundleSbomScript_3 \<and>
   confined [''collection-name'', ''tpa-host'', ''tpa-oidc-client-id'', ''tpa-oidc-issuer''] [''output'', ''tpa-oidc-secret''] uploadSbomScript \<and>
   confined [''architect-backend-image'', ''architect-frontend-image'', ''intermediate-registry''] [''output'', ''pull-secret''] exportArchitectImagesScript \<and>
   confined [''mirror-registry-version'', ''oc-version''] [''output''] downloadCliToolsScript"
  unfolding createBundleSbomScript_3_def uploadSbomScript_def exportArchitectImagesScript_def downloadCliToolsScript_def confined_unlines
  by code_simp

lemma script_refs_7:
  "confined [] [''architect-script'', ''output''] copyImportScriptScript \<and>
   confined [''cli-tools-enabled'', ''collection-name'', ''parent-pipeline''] [''config'', ''output''] repackageBundleScript_1 \<and>
   confined [] [''output''] repackageBundleScript_2 \<and>
   confined [''collection-name'', ''parent-pipeline'', ''s3-bucket'', ''s3-endpoint'', ''s3-region''] [''output''] uploadToS3Script"
  unfolding copyImportScriptScript_def repackageBundleScript_1_def repackageBundleScript_2_def uploadToS3Script_def confined_unlines
  by code_simp

lemma script_refs_8:
  "confined [] [''output''] finallyCleanupWorkspaceScript \<and>
   confined [''bundle-filename''] [''bundle-data'', ''cosign-pub''] importVerifyBundleScript \<and>
   confined [''bundle-filename''] [''bundle-data''] importExtractBundleScript \<and>
   confined [''target-registry''] [''bundle-data'', ''config'', ''pull-secret''] importMirrorContentScript \<and>
   confined [''node-registries''] [''bundle-data'', ''config'', ''pull-secret''] importMirrorToNodesScript \<and>
   confined [] [''bundle-data''] importApplyManifestsScript \<and>
   confined [] [''bundle-data''] importCleanupWorkspaceScript"
  unfolding finallyCleanupWorkspaceScript_def importVerifyBundleScript_def importExtractBundleScript_def importMirrorContentScript_def importMirrorToNodesScript_def importApplyManifestsScript_def importCleanupWorkspaceScript_def confined_unlines
  by code_simp

text \<open>Scripts that are put together from parts.\<close>

definition endsLine :: "string \<Rightarrow> bool" where
  "endsLine s \<longleftrightarrow> (\<exists>ls. s = unlines ls)"

lemma endsLine_unlines: "endsLine (unlines ls)"
  by (auto simp: endsLine_def)

lemma confined_append: "endsLine a \<Longrightarrow> confined ps ws (a @ b) \<longleftrightarrow> confined ps ws a \<and> confined ps ws b"
  by (auto simp: endsLine_def confined_unlines)

lemma parts_endLine:
  "endsLine registryExistsCheckSnippet"
  "endsLine downloadRHCOSScript_a"
  "endsLine downloadRHCOSScript_b"
  "endsLine buildRHCOSServerScript_a"
  "endsLine buildRHCOSServerScript_b"
  "endsLine syftSbomScript_1"
  "endsLine syftSbomScript_2"
  "endsLine syftSbomScript_3"
  "endsLine mirrorFromIntermediateScript_1"
  "endsLine mirrorFromIntermediateScript_2"
  "endsLine mirrorFromIntermediateScript_3"
  "endsLine createBundleSbomScript_1"
  "endsLine createBundleSbomScript_2"
  "endsLine createBundleSbomScript_3"
  "endsLine repackageBundleScript_1"
  "endsLine repackageBundleScript_2"
  unfolding registryExistsCheckSnippet_def downloadRHCOSScript_a_def downloadRHCOSScript_b_def buildRHCOSServerScript_a_def buildRHCOSServerScript_b_def syftSbomScript_1_def syftSbomScript_2_def syftSbomScript_3_def mirrorFromIntermediateScript_1_def mirrorFromIntermediateScript_2_def mirrorFromIntermediateScript_3_def createBundleSbomScript_1_def createBundleSbomScript_2_def createBundleSbomScript_3_def repackageBundleScript_1_def repackageBundleScript_2_def
  by (rule endsLine_unlines)+

text \<open>What each script refers to.\<close>

lemma registryExistsCheckSnippet_refs: "confined [] [''pull-secret''] registryExistsCheckSnippet"
  using script_refs_1 by (elim conjE)

lemma downloadRHCOSScript_a_refs: "confined [''intermediate-registry'', ''oc-version'', ''rhcos-download-enabled''] [] downloadRHCOSScript_a"
  using script_refs_1 by (elim conjE)

lemma downloadRHCOSScript_b_refs: "confined [] [''output''] downloadRHCOSScript_b"
  using script_refs_1 by (elim conjE)

lemma buildRHCOSServerScript_a_refs: "confined [''intermediate-registry'', ''oc-version'', ''rhcos-download-enabled'', ''rhcos-server-base-image''] [''output''] buildRHCOSServerScript_a"
  using script_refs_1 by (elim conjE)

lemma buildRHCOSServerScript_b_refs: "confined [] [''pull-secret'', ''trusted-ca''] buildRHCOSServerScript_b"
  using script_refs_1 by (elim conjE)

lemma dryRunScript_refs: "confined [''intermediate-registry''] [''config'', ''output'', ''pull-secret''] dryRunScript"
  using script_refs_2 by (elim conjE)

lemma mirrorToIntermediateScript_refs: "confined [''intermediate-registry''] [''config'', ''output'', ''pull-secret''] mirrorToIntermediateScript"
  using script_refs_2 by (elim conjE)

lemma syftSbomScript_1_refs: "confined [''tpa-host'', ''tpa-oidc-client-id'', ''tpa-oidc-issuer''] [''pull-secret'', ''tpa-oidc-secret''] syftSbomScript_1"
  using script_refs_2 by (elim conjE)

lemma syftSbomScript_2_refs: "confined [''intermediate-registry'', ''sbom-parallel-jobs'', ''tpa-host''] [''output''] syftSbomScript_2"
  using script_refs_3 by (elim conjE)

lemma syftSbomScript_3_refs: "confined [] [''output''] syftSbomScript_3"
  using script_refs_3 by (elim conjE)

lemma signImagesScript_refs: "confined [''fulcio-url'', ''intermediate-registry'', ''oidc-client-id'', ''oidc-issuer'', ''rekor-url'', ''tuf-url''] [''oidc-secret'', ''output'', ''pull-secret''] signImagesScript"
  using script_refs_3 by (elim conjE)

lemma ocMirrorScript_refs: "confined [''parent-pipeline''] [''config'', ''output'', ''pull-secret''] ocMirrorScript"
  using script_refs_4 by (elim conjE)

lemma mirrorFromIntermediateScript_1_refs: "confined [''intermediate-registry'', ''parent-pipeline''] [''output''] mirrorFromIntermediateScript_1"
  using script_refs_4 by (elim conjE)

lemma mirrorFromIntermediateScript_2_refs: "confined [''intermediate-registry'', ''osus-enabled''] [''output'', ''pull-secret''] mirrorFromIntermediateScript_2"
  using script_refs_4 by (elim conjE)

lemma mirrorFromIntermediateScript_3_refs: "confined [''intermediate-registry''] [''config'', ''output'', ''pull-secret''] mirrorFromIntermediateScript_3"
  using script_refs_5 by (elim conjE)

lemma signBundlesScript_refs: "confined [''fulcio-url'', ''oidc-client-id'', ''oidc-issuer'', ''rekor-url'', ''tuf-url''] [''oidc-secret'', ''output''] signBundlesScript"
  using script_refs_5 by (elim conjE)

lemma createBundleSbomScript_1_refs: "confined [''architect-backend-image'', ''architect-frontend-image'', ''cli-tools-enabled'', ''collection-name'', ''tpa-host'', ''tpa-oidc-client-id'', ''tpa-oidc-issuer''] [''output'', ''tpa-oidc-secret''] createBundleSbomScript_1"
  using script_refs_5 by (elim conjE)

lemma createBundleSbomScript_2_refs: "confined [''mirror-registry-version'', ''oc-version'', ''s3-bucket''] [''output''] createBundleSbomScript_2"
  using script_refs_5 by (elim conjE)

lemma createBundleSbomScript_3_refs: "confined [] [] createBundleSbomScript_3"
  using script_refs_6 by (elim conjE)

lemma uploadSbomScript_refs: "confined [''collection-name'', ''tpa-host'', ''tpa-oidc-client-id'', ''tpa-oidc-issuer''] [''output'', ''tpa-oidc-secret''] uploadSbomScript"
  using script_refs_6 by (elim conjE)

lemma exportArchitectImagesScript_refs: "confined [''architect-backend-image'', ''architect-frontend-image'', ''intermediate-registry''] [''output'', ''pull-secret''] exportArchitectImagesScript"
  using script_refs_6 by (elim conjE)

lemma downloadCliToolsScript_refs: "confined [''mirror-registry-version'', ''oc-version''] [''output''] downloadCliToolsScript"
  using script_refs_6 by (elim conjE)

lemma copyImportScriptScript_refs: "confined [] [''architect-script'', ''output''] copyImportScriptScript"
  using script_refs_7 by (elim conjE)

lemma repackageBundleScript_1_refs: "confined [''cli-tools-enabled'', ''collection-name'', ''parent-pipeline''] [''config'', ''output''] repackageBundleScript_1"
  using script_refs_7 by (elim conjE)

lemma repackageBundleScript_2_refs: "confined [] [''output''] repackageBundleScript_2"
  using script_refs_7 by (elim conjE)

lemma uploadToS3Script_refs: "confined [''collection-name'', ''parent-pipeline'', ''s3-bucket'', ''s3-endpoint'', ''s3-region''] [''output''] uploadToS3Script"
  using script_refs_7 by (elim conjE)

lemma finallyCleanupWorkspaceScript_refs: "confined [] [''output''] finallyCleanupWorkspaceScript"
  using script_refs_8 by (elim conjE)

lemma importVerifyBundleScript_refs: "confined [''bundle-filename''] [''bundle-data'', ''cosign-pub''] importVerifyBundleScript"
  using script_refs_8 by (elim conjE)

lemma importExtractBundleScript_refs: "confined [''bundle-filename''] [''bundle-data''] importExtractBundleScript"
  using script_refs_8 by (elim conjE)

lemma importMirrorContentScript_refs: "confined [''target-registry''] [''bundle-data'', ''config'', ''pull-secret''] importMirrorContentScript"
  using script_refs_8 by (elim conjE)

lemma importMirrorToNodesScript_refs: "confined [''node-registries''] [''bundle-data'', ''config'', ''pull-secret''] importMirrorToNodesScript"
  using script_refs_8 by (elim conjE)

lemma importApplyManifestsScript_refs: "confined [] [''bundle-data''] importApplyManifestsScript"
  using script_refs_8 by (elim conjE)

lemma importCleanupWorkspaceScript_refs: "confined [] [''bundle-data''] importCleanupWorkspaceScript"
  using script_refs_8 by (elim conjE)

lemma downloadRHCOSScript_refs: "confined [''intermediate-registry'', ''oc-version'', ''rhcos-download-enabled''] [''output'', ''pull-secret''] downloadRHCOSScript"
  unfolding downloadRHCOSScript_def by (simp only: confined_append parts_endLine) (intro conjI downloadRHCOSScript_a_refs [THEN confined_mono] registryExistsCheckSnippet_refs [THEN confined_mono] downloadRHCOSScript_b_refs [THEN confined_mono]; simp)

lemma buildRHCOSServerScript_refs: "confined [''intermediate-registry'', ''oc-version'', ''rhcos-download-enabled'', ''rhcos-server-base-image''] [''output'', ''pull-secret'', ''trusted-ca''] buildRHCOSServerScript"
  unfolding buildRHCOSServerScript_def by (simp only: confined_append parts_endLine) (intro conjI buildRHCOSServerScript_a_refs [THEN confined_mono] registryExistsCheckSnippet_refs [THEN confined_mono] buildRHCOSServerScript_b_refs [THEN confined_mono]; simp)

lemma syftSbomScript_refs: "confined [''intermediate-registry'', ''sbom-parallel-jobs'', ''tpa-host'', ''tpa-oidc-client-id'', ''tpa-oidc-issuer''] [''output'', ''pull-secret'', ''tpa-oidc-secret''] syftSbomScript"
  unfolding syftSbomScript_def by (simp only: confined_append parts_endLine) (intro conjI syftSbomScript_1_refs [THEN confined_mono] syftSbomScript_2_refs [THEN confined_mono] syftSbomScript_3_refs [THEN confined_mono]; simp)

lemma mirrorFromIntermediateScript_refs: "confined [''intermediate-registry'', ''osus-enabled'', ''parent-pipeline''] [''config'', ''output'', ''pull-secret''] mirrorFromIntermediateScript"
  unfolding mirrorFromIntermediateScript_def by (simp only: confined_append parts_endLine) (intro conjI mirrorFromIntermediateScript_1_refs [THEN confined_mono] mirrorFromIntermediateScript_2_refs [THEN confined_mono] mirrorFromIntermediateScript_3_refs [THEN confined_mono]; simp)

lemma createBundleSbomScript_refs: "confined [''architect-backend-image'', ''architect-frontend-image'', ''cli-tools-enabled'', ''collection-name'', ''mirror-registry-version'', ''oc-version'', ''s3-bucket'', ''tpa-host'', ''tpa-oidc-client-id'', ''tpa-oidc-issuer''] [''output'', ''tpa-oidc-secret''] createBundleSbomScript"
  unfolding createBundleSbomScript_def by (simp only: confined_append parts_endLine) (intro conjI createBundleSbomScript_1_refs [THEN confined_mono] createBundleSbomScript_2_refs [THEN confined_mono] createBundleSbomScript_3_refs [THEN confined_mono]; simp)

lemma repackageBundleScript_refs: "confined [''cli-tools-enabled'', ''collection-name'', ''parent-pipeline''] [''config'', ''output''] repackageBundleScript"
  unfolding repackageBundleScript_def by (simp only: confined_append parts_endLine) (intro conjI repackageBundleScript_1_refs [THEN confined_mono] repackageBundleScript_2_refs [THEN confined_mono]; simp)

lemmas confined_scripts =
  downloadRHCOSScript_refs
  buildRHCOSServerScript_refs
  dryRunScript_refs
  mirrorToIntermediateScript_refs
  syftSbomScript_refs
  signImagesScript_refs
  ocMirrorScript_refs
  mirrorFromIntermediateScript_refs
  signBundlesScript_refs
  createBundleSbomScript_refs
  uploadSbomScript_refs
  exportArchitectImagesScript_refs
  downloadCliToolsScript_refs
  copyImportScriptScript_refs
  repackageBundleScript_refs
  uploadToS3Script_refs
  finallyCleanupWorkspaceScript_refs
  importVerifyBundleScript_refs
  importExtractBundleScript_refs
  importMirrorContentScript_refs
  importMirrorToNodesScript_refs
  importApplyManifestsScript_refs
  importCleanupWorkspaceScript_refs

end
