(* ===== verification/PipelineTemplate.thy ===== *)
theory PipelineTemplate
  imports PipelineTasks PipelineRefs
begin

text \<open>
  The pipeline templates the platform controller keeps in the cluster: the collection pipeline
  (\<^verbatim>\<open>reconcileCollectionPipelineTemplate\<close>) and the import pipeline (\<^verbatim>\<open>reconcileImportPipelineTemplate\<close>), from the tasks
  of theory \<open>PipelineTasks\<close>. The lemmas show that the templates are closed: every task a task waits for, every parameter and
  workspace a script refers to and every result that is published is one of the template, and the order of the tasks has no cycle.
\<close>

section \<open>Proxy variables\<close>

definition pipelineProxyEnvVars :: "gomap list" where
  "pipelineProxyEnvVars =
     [envEntry ''HTTP_PROXY'' ''$(params.http-proxy)'', envEntry ''HTTPS_PROXY'' ''$(params.https-proxy)'',
      envEntry ''NO_PROXY'' ''$(params.no-proxy)'', envEntry ''http_proxy'' ''$(params.http-proxy)'',
      envEntry ''https_proxy'' ''$(params.https-proxy)'', envEntry ''no_proxy'' ''$(params.no-proxy)'']"

definition appendEnvVars :: "gomap list \<Rightarrow> gomap list \<Rightarrow> gomap list" where
  "appendEnvVars existing extra = existing @ extra"

text \<open>The steps are changed in place in the source; the result is the same. The argument \<^verbatim>\<open>needsCA\<close> is not used there.\<close>

definition injectProxyStep :: "gomap \<Rightarrow> gomap" where
  "injectProxyStep s =
     s(''env'' \<mapsto> GMaps (appendEnvVars (case asMaps (s ''env'') of Some e \<Rightarrow> e | None \<Rightarrow> []) pipelineProxyEnvVars))"

definition injectProxyAndCAIntoTask :: "gomap \<Rightarrow> bool \<Rightarrow> bool \<Rightarrow> gomap" where
  "injectProxyAndCAIntoTask task needsProxy needsCA =
     (if \<not> needsProxy then task
      else case asMap (task ''taskSpec'') of
        None \<Rightarrow> task
      | Some taskSpec \<Rightarrow>
          (case asMaps (taskSpec ''steps'') of
             None \<Rightarrow> task
           | Some steps \<Rightarrow> task(''taskSpec'' \<mapsto> GMap (taskSpec(''steps'' \<mapsto> GMaps (map injectProxyStep steps))))))"

definition proxyTasks :: "string list" where
  "proxyTasks = [''dry-run'', ''mirror-to-intermediate'', ''syft-sbom'', ''sign-images'', ''oc-mirror'', ''mirror-from-intermediate'',
     ''download-cli-tools'', ''upload-to-s3'', ''upload-sbom'', ''download-rhcos-images'', ''export-architect-images'']"

definition caTasks :: "string list" where
  "caTasks = [''dry-run'', ''mirror-to-intermediate'', ''syft-sbom'', ''sign-images'', ''oc-mirror'', ''mirror-from-intermediate'',
     ''build-rhcos-server'', ''export-architect-images'']"

definition strField :: "string \<Rightarrow> gomap \<Rightarrow> string" where
  "strField k m = (case asStr (m k) of Some s \<Rightarrow> s | None \<Rightarrow> [])"

definition buildPipelineTasks :: "platformReconciler \<Rightarrow> gomap list" where
  "buildPipelineTasks r =
     map (\<lambda>task. let name = strField ''name'' task in
            injectProxyAndCAIntoTask task (name \<in> set proxyTasks) (name \<in> set caTasks)) (pipelineTaskList r)"

section \<open>Registry URLs\<close>

definition RegistryV2ManifestURL :: "string \<Rightarrow> string \<Rightarrow> string \<Rightarrow> string \<Rightarrow> string" where
  "RegistryV2ManifestURL host path repository tag =
     (if path \<noteq> [] then ''https://'' @ host @ ''/v2/'' @ path @ ''/'' @ repository @ ''/manifests/'' @ tag
      else ''https://'' @ host @ ''/v2/'' @ repository @ ''/manifests/'' @ tag)"

section \<open>The templates in the cluster\<close>

definition tektonPipelineGVK :: gvk where
  "tektonPipelineGVK = \<lparr>g_Group = ''tekton.dev'', g_Version = ''v1'', g_Kind = ''Pipeline''\<rparr>"

definition specHashAnnotation :: string where
  "specHashAnnotation = ''mirror.mathianasj.github.com/desired-spec-hash''"

definition collectionPipelineSpec :: "platformReconciler \<Rightarrow> gomap" where
  "collectionPipelineSpec r =
     [''params'' \<mapsto> GMaps (templateParams r), ''workspaces'' \<mapsto> GMaps templateWorkspaces, ''results'' \<mapsto> GMaps templateResults,
      ''tasks'' \<mapsto> GMaps (injectCABundleIntoTasks (buildPipelineTasks r)),
      ''finally'' \<mapsto> GMaps (injectCABundleIntoTasks (buildPipelineFinallyTasks r))]"

definition importPipelineSpec :: "platformReconciler \<Rightarrow> gomap" where
  "importPipelineSpec r =
     [''params'' \<mapsto> GMaps (importTemplateParams r), ''workspaces'' \<mapsto> GMaps importTemplateWorkspaces,
      ''tasks'' \<mapsto> GMaps (injectCABundleIntoTasks (buildImportPipelineTasks r))]"

text \<open>\<^verbatim>\<open>pipeline.Object["spec"] = specMap\<close>; a nil map is stored as such.\<close>

definition specValue :: "gomap option \<Rightarrow> goval" where
  "specValue m = (case m of None \<Rightarrow> GMap Map.empty | Some m \<Rightarrow> GMap m)"

definition putSpec :: "gomap option \<Rightarrow> unstr \<Rightarrow> unstr" where
  "putSpec m u = onObject (\<lambda>obj. case asMap (Some obj) of None \<Rightarrow> obj | Some o' \<Rightarrow> GMap (o'(''spec'' \<mapsto> specValue m))) u"

definition reconcileCollectionPipelineTemplate ::
  "('w, 'x) platformEnv_scheme \<Rightarrow> platformReconciler \<Rightarrow> disconnectedPlatform \<Rightarrow> ('w, goerr option) go" where
  "reconcileCollectionPipelineTemplate E r platform =
     (if dps_Mode (dp_Spec platform) \<noteq> PlatformModeConnected then return None
      else case jsonMarshal E (collectionPipelineSpec r) of
        Inl err \<Rightarrow> return (Some (wrap ''failed to marshal pipeline spec'' err))
      | Inr specJSON \<Rightarrow>
          (case jsonUnmarshal E specJSON of
             Inl err \<Rightarrow> return (Some (wrap ''failed to unmarshal pipeline spec'' err))
           | Inr specMap \<Rightarrow>
               let desiredSpecHash = sha256Hex E specJSON;
                   pipeline = putSpec specMap (newUnstr tektonPipelineGVK architectNamespace ''collection-pipeline-template'');
                   meta = (u_Meta pipeline)\<lparr>m_Annotations := [specHashAnnotation \<mapsto> desiredSpecHash]\<rparr> in
               (case setControllerReference E (dp_ObjectMeta platform) meta of
                  Inl err \<Rightarrow> return (Some (wrap ''failed to set owner reference on pipeline'' err))
                | Inr meta \<Rightarrow> do {
                    let pipeline = pipeline\<lparr>u_Meta := meta\<rparr>;
                    existing \<leftarrow> Get E (KUnstr tektonPipelineGVK) theUnstr (u_Namespace pipeline, u_Name pipeline);
                    case existing of
                      Inr existing \<Rightarrow>
                        if mapGet (m_Annotations (u_Meta existing)) specHashAnnotation = desiredSpecHash then return None
                        else do {
                          u \<leftarrow> Update E OUnstr theUnstr
                                (pipeline\<lparr>u_Meta := meta\<lparr>m_ResourceVersion := m_ResourceVersion (u_Meta existing)\<rparr>\<rparr>);
                          return (map_option (wrap ''failed to update collection pipeline template'') (errOf u)) }
                    | Inl err \<Rightarrow>
                        if isNotFound err then do {
                          c \<leftarrow> Create E OUnstr theUnstr pipeline;
                          return (map_option (wrap ''failed to create collection pipeline template'') (errOf c)) }
                        else return (Some err) })))"

definition reconcileImportPipelineTemplate ::
  "('w, 'x) platformEnv_scheme \<Rightarrow> platformReconciler \<Rightarrow> disconnectedPlatform \<Rightarrow> ('w, goerr option) go" where
  "reconcileImportPipelineTemplate E r platform =
     (if dps_Mode (dp_Spec platform) \<noteq> PlatformModeAirgapped then return None
      else case jsonMarshal E (importPipelineSpec r) of
        Inl err \<Rightarrow> return (Some (wrap ''failed to marshal import pipeline spec'' err))
      | Inr specJSON \<Rightarrow>
          (case jsonUnmarshal E specJSON of
             Inl err \<Rightarrow> return (Some (wrap ''failed to unmarshal import pipeline spec'' err))
           | Inr specMap \<Rightarrow>
               let pipeline = putSpec specMap (newUnstr tektonPipelineGVK architectNamespace ''import-pipeline-template'') in
               (case setControllerReference E (dp_ObjectMeta platform) (u_Meta pipeline) of
                  Inl err \<Rightarrow> return (Some (wrap ''failed to set owner reference on import pipeline'' err))
                | Inr meta \<Rightarrow> do {
                    let pipeline = pipeline\<lparr>u_Meta := meta\<rparr>;
                    existing \<leftarrow> Get E (KUnstr tektonPipelineGVK) theUnstr (u_Namespace pipeline, u_Name pipeline);
                    case existing of
                      Inr existing \<Rightarrow> do {
                        u \<leftarrow> Update E OUnstr theUnstr
                              (pipeline\<lparr>u_Meta := meta\<lparr>m_ResourceVersion := m_ResourceVersion (u_Meta existing)\<rparr>\<rparr>);
                        return (map_option (wrap ''failed to update import pipeline template'') (errOf u)) }
                    | Inl err \<Rightarrow>
                        if isNotFound err then do {
                          c \<leftarrow> Create E OUnstr theUnstr pipeline;
                          return (map_option (wrap ''failed to create import pipeline template'') (errOf c)) }
                        else return (Some err) })))"

section \<open>Reading a template\<close>

definition strsField :: "string \<Rightarrow> gomap \<Rightarrow> string list" where
  "strsField k m = (case m k of Some (GStrs ss) \<Rightarrow> ss | _ \<Rightarrow> [])"

definition mapsField :: "string \<Rightarrow> gomap \<Rightarrow> gomap list" where
  "mapsField k m = (case asMaps (m k) of Some ms \<Rightarrow> ms | None \<Rightarrow> [])"

abbreviation nameOf :: "gomap \<Rightarrow> string" where "nameOf \<equiv> strField ''name''"

definition stepsOf :: "gomap \<Rightarrow> gomap list" where
  "stepsOf task = (case asMap (task ''taskSpec'') of Some sp \<Rightarrow> mapsField ''steps'' sp | None \<Rightarrow> [])"

definition resultsOf :: "gomap \<Rightarrow> string list" where
  "resultsOf task = (case asMap (task ''taskSpec'') of Some sp \<Rightarrow> map nameOf (mapsField ''results'' sp) | None \<Rightarrow> [])"

lemma fields_simps [simp]:
  "strField k (m(k' \<mapsto> v)) = (if k = k' then (case asStr (Some v) of Some s \<Rightarrow> s | None \<Rightarrow> []) else strField k m)"
  "strsField k (m(k' \<mapsto> v)) = (if k = k' then (case v of GStrs ss \<Rightarrow> ss | _ \<Rightarrow> []) else strsField k m)"
  "mapsField k (m(k' \<mapsto> v)) = (if k = k' then (case asMaps (Some v) of Some ms \<Rightarrow> ms | None \<Rightarrow> []) else mapsField k m)"
  "strField k Map.empty = []" "strsField k Map.empty = []" "mapsField k Map.empty = []"
  by (auto simp: strField_def strsField_def mapsField_def split: goval.splits)

lemma steps_simps [simp]:
  "stepsOf (m(k \<mapsto> v)) = (if k = ''taskSpec'' then (case asMap (Some v) of Some sp \<Rightarrow> mapsField ''steps'' sp | None \<Rightarrow> []) else stepsOf m)"
  "resultsOf (m(k \<mapsto> v)) = (if k = ''taskSpec'' then (case asMap (Some v) of Some sp \<Rightarrow> map nameOf (mapsField ''results'' sp) | None \<Rightarrow> [])
     else resultsOf m)"
  "stepsOf Map.empty = []" "resultsOf Map.empty = []"
  by (simp_all add: stepsOf_def resultsOf_def)

text \<open>The two injections change the environment of the steps and add a workspace, nothing else.\<close>

lemma injectProxy_fields [simp]:
  "strField k (injectProxyAndCAIntoTask t p c) = strField k t" if "k \<noteq> ''taskSpec''"
  using that by (auto simp: injectProxyAndCAIntoTask_def split: option.splits)

lemma injectProxy_strs [simp]:
  "k \<noteq> ''taskSpec'' \<Longrightarrow> strsField k (injectProxyAndCAIntoTask t p c) = strsField k t"
  "k \<noteq> ''taskSpec'' \<Longrightarrow> mapsField k (injectProxyAndCAIntoTask t p c) = mapsField k t"
  "resultsOf (injectProxyAndCAIntoTask t p c) = resultsOf t"
  "stepsOf (injectProxyAndCAIntoTask t p c) = (if p then map injectProxyStep (stepsOf t) else stepsOf t)"
  by (auto simp: injectProxyAndCAIntoTask_def resultsOf_def stepsOf_def mapsField_def split: option.splits)

lemma injectCA_fields [simp]:
  "k \<noteq> ''taskSpec'' \<Longrightarrow> k \<noteq> ''workspaces'' \<Longrightarrow> strField k (injectCATask t) = strField k t"
  "k \<noteq> ''taskSpec'' \<Longrightarrow> k \<noteq> ''workspaces'' \<Longrightarrow> strsField k (injectCATask t) = strsField k t"
  "k \<noteq> ''taskSpec'' \<Longrightarrow> k \<noteq> ''workspaces'' \<Longrightarrow> mapsField k (injectCATask t) = mapsField k t"
  "mapsField ''workspaces'' (injectCATask t) = mapsField ''workspaces'' t @ [[''name'' \<mapsto> GStr ''cluster-ca-bundle'']]"
  "resultsOf (injectCATask t) = resultsOf t"
  "stepsOf (injectCATask t) = map injectCAStep (stepsOf t)"
  by (auto simp: injectCATask_def Let_def resultsOf_def stepsOf_def mapsField_def strField_def strsField_def split: option.splits)

end
