(* ===== verification/PipelineProps.thy ===== *)
theory PipelineProps
  imports PipelineTemplate
begin

text \<open>
  The pipeline templates are closed and their order of tasks has no cycle: what Tekton needs to admit and run them.
\<close>

section \<open>References of a task\<close>

text \<open>The texts of a task in which Tekton replaces references: the inputs of its conditions, and of every step the image, the
  arguments and the environment.\<close>

definition secretNameOf :: "gomap \<Rightarrow> string" where
  "secretNameOf e =
     (case asMap (e ''valueFrom'') of None \<Rightarrow> []
      | Some v \<Rightarrow> (case asMap (v ''secretKeyRef'') of None \<Rightarrow> [] | Some k \<Rightarrow> strField ''name'' k))"

definition stepTexts :: "gomap \<Rightarrow> string list" where
  "stepTexts s = strField ''image'' s # strsField ''args'' s @
     concat (map (\<lambda>e. [strField ''value'' e, secretNameOf e]) (mapsField ''env'' s))"

definition taskTexts :: "gomap \<Rightarrow> string list" where
  "taskTexts t = map (strField ''input'') (mapsField ''when'' t) @ concat (map stepTexts (stepsOf t))"

definition workspacesOf :: "gomap \<Rightarrow> string list" where
  "workspacesOf t = map nameOf (mapsField ''workspaces'' t)"

text \<open>A task is closed: its references are to the parameters \<open>ps\<close> and to its own workspaces or those in \<open>probed\<close>.\<close>

definition closedTask :: "string list \<Rightarrow> string list \<Rightarrow> gomap \<Rightarrow> bool" where
  "closedTask ps probed t \<longleftrightarrow> list_all (confined ps (probed @ workspacesOf t)) (taskTexts t)"

lemma secretNameOf_simps [simp]:
  "secretNameOf (m(k \<mapsto> v)) = (if k = ''valueFrom''
     then (case asMap (Some v) of None \<Rightarrow> [] | Some v' \<Rightarrow> (case asMap (v' ''secretKeyRef'') of None \<Rightarrow> [] | Some k' \<Rightarrow> strField ''name'' k'))
     else secretNameOf m)"
  "secretNameOf Map.empty = []"
  by (simp_all add: secretNameOf_def)

text \<open>Conditions and the environment that the two injections add.\<close>

lemma confined_Nil [simp]: "confined ps ws []"
  by (simp add: confined_def paramRefs_def workspaceRefs_def)

lemma confined_literals:
  "confined [''mirror-image''] [] ''$(params.mirror-image)''"
  "confined [''intermediate-registry''] [] ''$(params.intermediate-registry)''"
  "confined [''has-tpa''] [] ''$(params.has-tpa)''"
  "confined [''has-keyless-signing''] [] ''$(params.has-keyless-signing)''"
  "confined [''architect-export-enabled''] [] ''$(params.architect-export-enabled)''"
  "confined [''cli-tools-enabled''] [] ''$(params.cli-tools-enabled)''"
  "confined [''s3-secret-name''] [] ''$(params.s3-secret-name)''"
  "confined [''http-proxy''] [] ''$(params.http-proxy)''"
  "confined [''https-proxy''] [] ''$(params.https-proxy)''"
  "confined [''no-proxy''] [] ''$(params.no-proxy)''"
  "confined [''verify-enabled''] [] ''$(params.verify-enabled)''"
  "confined [''node-registries''] [] ''$(params.node-registries)''"
  "confined [] [''cluster-ca-bundle''] ''/workspace/cluster-ca-bundle/ca-bundle.crt''"
  "confined [] [] ''quay.io/buildah/stable:latest''"
  "confined [] [] ''amazon/aws-cli:latest''"
  "confined [] [] ''chroot''" "confined [] [] ''vfs''"
  "confined [] [''output''] ''/workspace/output/syft-cache''"
  "confined [] [''output''] ''/workspace/output''" "confined [] [''output''] ''/workspace/output/storage.conf''"
  "confined [] [''output''] ''/workspace/output/tmp''" "confined [] [] ''1''"
  by code_simp+

lemma stepTexts_proxy:
  "set (stepTexts (injectProxyStep s)) \<subseteq> set (stepTexts s) \<union>
     {[], ''$(params.http-proxy)'', ''$(params.https-proxy)'', ''$(params.no-proxy)''}"
  by (auto simp: stepTexts_def injectProxyStep_def appendEnvVars_def pipelineProxyEnvVars_def envEntry_def mapsField_def
      split: option.splits)

lemma stepTexts_CA:
  "set (stepTexts (injectCAStep s)) \<subseteq> set (stepTexts s) \<union> {[], ''/workspace/cluster-ca-bundle/'' @ clusterCABundleKey}"
  by (auto simp: stepTexts_def injectCAStep_def envEntry_def mapsField_def Let_def split: option.splits)

lemma taskTexts_inject:
  "set (taskTexts (injectCATask (injectProxyAndCAIntoTask t p c))) \<subseteq> set (taskTexts t) \<union>
     {[], ''$(params.http-proxy)'', ''$(params.https-proxy)'', ''$(params.no-proxy)'', ''/workspace/cluster-ca-bundle/'' @ clusterCABundleKey}"
  using stepTexts_CA stepTexts_proxy unfolding taskTexts_def by (cases p) (fastforce+)

section \<open>The tasks are closed\<close>

text \<open>The configured images are plain references, without a parameter or a workspace in them.\<close>

definition plainImages :: "platformReconciler \<Rightarrow> bool" where
  "plainImages r \<longleftrightarrow> confined [] [] (dpr_SkopeoImage r) \<and> confined [] [] (dpr_UBI9Image r) \<and> confined [] [] (dpr_UBI9MinimalImage r)"

definition paramNames :: "gomap list \<Rightarrow> string list" where
  "paramNames ps = map nameOf ps"

lemma templateParams_names:
  "paramNames (templateParams r) =
     [''config-map-name'', ''mirror-image'', ''working-pvc-name'', ''collection-name'', ''parent-pipeline'', ''intermediate-registry'',
      ''has-keyless-signing'', ''fulcio-url'', ''rekor-url'', ''tuf-url'', ''oidc-issuer'', ''oidc-client-id'', ''has-tpa'', ''tpa-host'',
      ''tpa-oidc-issuer'', ''tpa-oidc-client-id'', ''has-s3'', ''s3-bucket'', ''s3-endpoint'', ''s3-region'', ''s3-secret-name'',
      ''architect-frontend-image'', ''architect-backend-image'', ''architect-export-enabled'', ''oc-version'', ''mirror-registry-version'',
      ''cli-tools-enabled'', ''sbom-parallel-jobs'', ''rhcos-download-enabled'', ''rhcos-server-base-image'', ''osus-enabled'',
      ''http-proxy'', ''https-proxy'', ''no-proxy'']"
  by (simp add: paramNames_def templateParams_def)

lemmas task_defs =
  dryRunTask_def mirrorToIntermediateTask_def syftSbomTask_def signImagesTask_def ocMirrorTask_def mirrorFromIntermediateTask_def
  signBundlesTask_def createBundleSbomTask_def uploadSbomTask_def exportArchitectImagesTask_def downloadCliToolsTask_def
  DownloadRHCOSTask_def BuildRHCOSServerTask_def copyImportScriptTask_def repackageBundleTask_def uploadToS3Task_def
  finallyCleanupWorkspaceTask_def importVerifyBundleTask_def importExtractBundleTask_def importMirrorContentTask_def
  importMirrorToNodesTask_def importApplyManifestsTask_def importCleanupWorkspaceTask_def

lemma task_texts:
  "taskTexts (DownloadRHCOSTask ubi9Image) = [ubi9Image, downloadRHCOSScript]"
  "taskTexts BuildRHCOSServerTask = [''quay.io/buildah/stable:latest'', buildRHCOSServerScript, ''chroot'', [], ''vfs'', []]"
  "taskTexts (dryRunTask r) = [''$(params.intermediate-registry)'', ''$(params.mirror-image)'', dryRunScript]"
  "taskTexts (mirrorToIntermediateTask r) = [''$(params.intermediate-registry)'', ''$(params.mirror-image)'', mirrorToIntermediateScript]"
  "taskTexts (syftSbomTask r) = [''$(params.has-tpa)'', ''$(params.mirror-image)'', syftSbomScript, ''$(params.intermediate-registry)'', [], ''/workspace/output/syft-cache'', []]"
  "taskTexts (signImagesTask r) = [''$(params.has-keyless-signing)'', ''$(params.intermediate-registry)'', ''$(params.mirror-image)'', signImagesScript, ''1'', []]"
  "taskTexts (ocMirrorTask r) = [''$(params.intermediate-registry)'', ''$(params.mirror-image)'', ocMirrorScript]"
  "taskTexts (mirrorFromIntermediateTask r) = [''$(params.intermediate-registry)'', ''$(params.mirror-image)'', mirrorFromIntermediateScript, ''/workspace/output/tmp'', [], ''/workspace/output'', [], ''/workspace/output/storage.conf'', []]"
  "taskTexts (signBundlesTask r) = [''$(params.has-keyless-signing)'', ''$(params.mirror-image)'', signBundlesScript]"
  "taskTexts (createBundleSbomTask r) = [''$(params.has-tpa)'', ''$(params.mirror-image)'', createBundleSbomScript]"
  "taskTexts (uploadSbomTask r) = [''$(params.has-tpa)'', ''$(params.mirror-image)'', uploadSbomScript]"
  "taskTexts (exportArchitectImagesTask r) = [''$(params.architect-export-enabled)'', dpr_SkopeoImage r, exportArchitectImagesScript]"
  "taskTexts (downloadCliToolsTask r) = [''$(params.cli-tools-enabled)'', dpr_UBI9Image r, downloadCliToolsScript]"
  "taskTexts (copyImportScriptTask r) = [dpr_UBI9MinimalImage r, copyImportScriptScript]"
  "taskTexts (repackageBundleTask r) = [dpr_UBI9Image r, repackageBundleScript]"
  "taskTexts (uploadToS3Task r) = [''amazon/aws-cli:latest'', uploadToS3Script, [], ''$(params.s3-secret-name)'', [], ''$(params.s3-secret-name)'']"
  "taskTexts (finallyCleanupWorkspaceTask r) = [dpr_UBI9MinimalImage r, finallyCleanupWorkspaceScript]"
  "taskTexts (importVerifyBundleTask r) = [''$(params.verify-enabled)'', ''$(params.mirror-image)'', importVerifyBundleScript]"
  "taskTexts (importExtractBundleTask r) = [dpr_UBI9Image r, importExtractBundleScript]"
  "taskTexts (importMirrorContentTask r) = [''$(params.mirror-image)'', importMirrorContentScript]"
  "taskTexts (importMirrorToNodesTask r) = [''$(params.node-registries)'', ''$(params.mirror-image)'', importMirrorToNodesScript]"
  "taskTexts (importApplyManifestsTask r) = [''$(params.mirror-image)'', importApplyManifestsScript]"
  "taskTexts (importCleanupWorkspaceTask r) = [dpr_UBI9MinimalImage r, importCleanupWorkspaceScript]"
  by (simp_all add: taskTexts_def stepTexts_def task_defs)

lemma list_allI: "list_all P []" "P x \<Longrightarrow> list_all P xs \<Longrightarrow> list_all P (x # xs)"
  by simp_all

lemma plainImagesD:
  assumes "plainImages r"
  shows "confined [] [] (dpr_SkopeoImage r)" "confined [] [] (dpr_UBI9Image r)" "confined [] [] (dpr_UBI9MinimalImage r)"
  using assms by (simp_all add: plainImages_def)

lemmas text_confined = confined_scripts [THEN confined_mono] confined_literals [THEN confined_mono] plainImagesD [THEN confined_mono]

lemma collection_tasks_closed:
  assumes "plainImages r"
  shows "list_all (closedTask (paramNames (templateParams r)) [''trusted-ca'']) (pipelineTaskList r)"
    and "list_all (closedTask (paramNames (templateParams r)) []) (buildPipelineFinallyTasks r)"
  unfolding pipelineTaskList_def buildPipelineFinallyTasks_def templateParams_names
  by (intro list_allI; unfold closedTask_def task_texts; intro list_allI confined_Nil; (rule text_confined, (rule assms)?; simp add: workspacesOf_def task_defs))+

lemma import_tasks_closed:
  assumes "plainImages r"
  shows "list_all (closedTask (paramNames (importTemplateParams r)) []) (buildImportPipelineTasks r)"
  unfolding buildImportPipelineTasks_def
  by (intro list_allI; unfold closedTask_def task_texts; intro list_allI confined_Nil; (rule text_confined, (rule assms)?; simp add: workspacesOf_def task_defs paramNames_def importTemplateParams_def))

text \<open>Closed tasks stay closed when the proxy variables and the CA bundle are injected.\<close>

lemma closedTask_inject:
  assumes "closedTask ps probed t" "{''http-proxy'', ''https-proxy'', ''no-proxy''} \<subseteq> set ps \<or> \<not> p"
  shows "closedTask ps probed (injectCATask (injectProxyAndCAIntoTask t p c))"
proof -
  have w: "set (workspacesOf (injectCATask (injectProxyAndCAIntoTask t p c))) = insert ''cluster-ca-bundle'' (set (workspacesOf t))"
    by (auto simp: workspacesOf_def)
  have old: "confined ps (probed @ workspacesOf (injectCATask (injectProxyAndCAIntoTask t p c))) x" if "x \<in> set (taskTexts t)" for x
    using assms(1) that w by (auto simp: closedTask_def list_all_iff intro: confined_mono)
  have ca: "confined ps (probed @ workspacesOf (injectCATask (injectProxyAndCAIntoTask t p c))) (''/workspace/cluster-ca-bundle/'' @ clusterCABundleKey)"
    by (simp only: clusterCABundleKey_def append.simps, rule confined_literals [THEN confined_mono]) (simp_all add: w)
  have proxy: "confined ps ws ''$(params.http-proxy)''" "confined ps ws ''$(params.https-proxy)''" "confined ps ws ''$(params.no-proxy)''"
    if p for ws
    using assms(2) that by (auto intro!: confined_literals [THEN confined_mono])
  show ?thesis
  proof (cases p)
    case True
    with taskTexts_inject [of t p c] old ca proxy show ?thesis
      unfolding closedTask_def list_all_iff by (fastforce simp del: injectCA_fields)
  next
    case False
    then have "set (taskTexts (injectCATask t)) \<subseteq> set (taskTexts t) \<union> {[], ''/workspace/cluster-ca-bundle/'' @ clusterCABundleKey}"
      using stepTexts_CA by (auto simp: taskTexts_def)
    with False old ca show ?thesis
      unfolding closedTask_def list_all_iff by (auto simp: injectProxyAndCAIntoTask_def)
  qed
qed

section \<open>Closed templates\<close>

definition runAfterOf :: "gomap \<Rightarrow> string list" where
  "runAfterOf t = strsField ''runAfter'' t"

definition publishes :: "gomap list \<Rightarrow> string \<Rightarrow> bool" where
  "publishes ts v \<longleftrightarrow> (\<exists>t \<in> set ts. \<exists>x \<in> set (resultsOf t). v = ''$(tasks.'' @ nameOf t @ ''.results.'' @ x @ '')'')"

definition closedTemplate :: "string list \<Rightarrow> gomap \<Rightarrow> bool" where
  "closedTemplate probed sp \<longleftrightarrow>
     (let tasks = mapsField ''tasks'' sp; final = mapsField ''finally'' sp in
      distinct (map nameOf (tasks @ final)) \<and>
      list_all (\<lambda>t. closedTask (paramNames (mapsField ''params'' sp)) probed t \<and>
                    set (workspacesOf t) \<subseteq> set (map nameOf (mapsField ''workspaces'' sp)) \<and>
                    set (runAfterOf t) \<subseteq> set (map nameOf tasks)) (tasks @ final) \<and>
      list_all (\<lambda>v. publishes tasks (strField ''value'' v)) (mapsField ''results'' sp))"

lemma inject_names [simp]:
  "map nameOf (injectCABundleIntoTasks ts) = map nameOf ts" "map nameOf (buildPipelineTasks r) = map nameOf (pipelineTaskList r)"
  "map runAfterOf (injectCABundleIntoTasks ts) = map runAfterOf ts" "map runAfterOf (buildPipelineTasks r) = map runAfterOf (pipelineTaskList r)"
  by (auto simp: injectCABundleIntoTasks_def buildPipelineTasks_def runAfterOf_def Let_def)

lemma collection_task_table:
  "map (\<lambda>t. (nameOf t, runAfterOf t)) (pipelineTaskList r) =
     [(''dry-run'', [''build-rhcos-server'']), (''mirror-to-intermediate'', [''dry-run'']),
      (''syft-sbom'', [''mirror-to-intermediate'', ''oc-mirror'']), (''sign-images'', [''syft-sbom'']), (''oc-mirror'', []),
      (''mirror-from-intermediate'', [''sign-images'']), (''sign-bundles'', [''repackage-bundle'']),
      (''create-bundle-sbom'', [''sign-bundles'']), (''upload-sbom'', [''create-bundle-sbom'']),
      (''export-architect-images'', [''sign-images'']), (''download-cli-tools'', [''export-architect-images'']),
      (''download-rhcos-images'', []), (''build-rhcos-server'', [''download-rhcos-images'']),
      (''copy-import-script'', [''download-cli-tools'']),
      (''repackage-bundle'', [''copy-import-script'', ''mirror-from-intermediate'', ''oc-mirror'', ''download-cli-tools'']),
      (''upload-to-s3'', [''upload-sbom''])]"
  by (simp add: pipelineTaskList_def task_defs runAfterOf_def)

lemma import_task_table:
  "map (\<lambda>t. (nameOf t, runAfterOf t)) (buildImportPipelineTasks r) =
     [(''verify-bundle'', []), (''extract-bundle'', [''verify-bundle'']), (''mirror-content'', [''extract-bundle'']),
      (''mirror-to-nodes'', [''mirror-content'']), (''apply-manifests'', [''mirror-to-nodes'']),
      (''cleanup-workspace'', [''apply-manifests''])]"
  by (simp add: buildImportPipelineTasks_def task_defs runAfterOf_def)

lemma task_columns:
  "map nameOf ts = map fst (map (\<lambda>t. (nameOf t, runAfterOf t)) ts)"
  "map runAfterOf ts = map snd (map (\<lambda>t. (nameOf t, runAfterOf t)) ts)"
  by simp_all

lemma names_table:
  "map nameOf (pipelineTaskList r) =
     [''dry-run'', ''mirror-to-intermediate'', ''syft-sbom'', ''sign-images'', ''oc-mirror'', ''mirror-from-intermediate'', ''sign-bundles'',
      ''create-bundle-sbom'', ''upload-sbom'', ''export-architect-images'', ''download-cli-tools'', ''download-rhcos-images'',
      ''build-rhcos-server'', ''copy-import-script'', ''repackage-bundle'', ''upload-to-s3'']"
  "map nameOf (buildPipelineFinallyTasks r) = [''cleanup-workspace'']"
  "map nameOf (buildImportPipelineTasks r) =
     [''verify-bundle'', ''extract-bundle'', ''mirror-content'', ''mirror-to-nodes'', ''apply-manifests'', ''cleanup-workspace'']"
  unfolding task_columns(1) [of "pipelineTaskList r"] task_columns(1) [of "buildImportPipelineTasks r"] collection_task_table import_task_table
  by (simp_all add: buildPipelineFinallyTasks_def finallyCleanupWorkspaceTask_def)

lemma workspaces_declared:
  "t \<in> set (pipelineTaskList r) \<union> set (buildPipelineFinallyTasks r) \<Longrightarrow> set (workspacesOf t) \<subseteq> set (map nameOf templateWorkspaces)"
  "t \<in> set (buildImportPipelineTasks r) \<Longrightarrow> set (workspacesOf t) \<subseteq> set (map nameOf importTemplateWorkspaces)"
  by (auto simp: pipelineTaskList_def buildPipelineFinallyTasks_def buildImportPipelineTasks_def workspacesOf_def task_defs
      templateWorkspaces_def importTemplateWorkspaces_def)

lemma templates_declare_ca:
  "''cluster-ca-bundle'' \<in> set (map nameOf templateWorkspaces)" "''cluster-ca-bundle'' \<in> set (map nameOf importTemplateWorkspaces)"
  by (simp_all add: templateWorkspaces_def importTemplateWorkspaces_def)

lemma runAfter_declared:
  "t \<in> set (pipelineTaskList r) \<Longrightarrow> set (runAfterOf t) \<subseteq> set (map nameOf (pipelineTaskList r))"
  "t \<in> set (buildPipelineFinallyTasks r) \<Longrightarrow> runAfterOf t = []"
  "t \<in> set (buildImportPipelineTasks r) \<Longrightarrow> set (runAfterOf t) \<subseteq> set (map nameOf (buildImportPipelineTasks r))"
proof -
  show "t \<in> set (pipelineTaskList r) \<Longrightarrow> set (runAfterOf t) \<subseteq> set (map nameOf (pipelineTaskList r))"
    unfolding names_table by (auto simp: pipelineTaskList_def runAfterOf_def task_defs)
  show "t \<in> set (buildPipelineFinallyTasks r) \<Longrightarrow> runAfterOf t = []"
    by (simp add: buildPipelineFinallyTasks_def runAfterOf_def task_defs)
  show "t \<in> set (buildImportPipelineTasks r) \<Longrightarrow> set (runAfterOf t) \<subseteq> set (map nameOf (buildImportPipelineTasks r))"
    unfolding names_table by (auto simp: buildImportPipelineTasks_def runAfterOf_def task_defs)
qed

lemma injected_task [simp]:
  "workspacesOf (injectCATask t) = workspacesOf t @ [''cluster-ca-bundle'']" "workspacesOf (injectProxyAndCAIntoTask t p c) = workspacesOf t"
  "runAfterOf (injectCATask t) = runAfterOf t" "runAfterOf (injectProxyAndCAIntoTask t p c) = runAfterOf t"
  by (simp_all add: workspacesOf_def runAfterOf_def)

lemma closedTask_CA: "closedTask ps probed t \<Longrightarrow> closedTask ps probed (injectCATask t)"
  using closedTask_inject [where p = False] by (simp add: injectProxyAndCAIntoTask_def)

lemma closedTask_probed: "closedTask ps [] t \<Longrightarrow> closedTask ps probed t"
  by (auto simp: closedTask_def list_all_iff intro: confined_mono)

lemma spec_fields:
  "mapsField ''tasks'' (collectionPipelineSpec r) = injectCABundleIntoTasks (buildPipelineTasks r)"
  "mapsField ''finally'' (collectionPipelineSpec r) = injectCABundleIntoTasks (buildPipelineFinallyTasks r)"
  "mapsField ''params'' (collectionPipelineSpec r) = templateParams r"
  "mapsField ''workspaces'' (collectionPipelineSpec r) = templateWorkspaces"
  "mapsField ''results'' (collectionPipelineSpec r) = templateResults"
  "mapsField ''tasks'' (importPipelineSpec r) = injectCABundleIntoTasks (buildImportPipelineTasks r)"
  "mapsField ''finally'' (importPipelineSpec r) = []"
  "mapsField ''params'' (importPipelineSpec r) = importTemplateParams r"
  "mapsField ''workspaces'' (importPipelineSpec r) = importTemplateWorkspaces"
  "mapsField ''results'' (importPipelineSpec r) = []"
  by (simp_all add: collectionPipelineSpec_def importPipelineSpec_def)

lemma collection_task_declared:
  assumes r: "plainImages r" and t: "t \<in> set (injectCABundleIntoTasks (buildPipelineTasks r) @ injectCABundleIntoTasks (buildPipelineFinallyTasks r))"
  shows "closedTask (paramNames (templateParams r)) [''trusted-ca''] t \<and> set (workspacesOf t) \<subseteq> set (map nameOf templateWorkspaces) \<and>
    set (runAfterOf t) \<subseteq> set (map nameOf (pipelineTaskList r))"
proof -
  have p: "{''http-proxy'', ''https-proxy'', ''no-proxy''} \<subseteq> set (paramNames (templateParams r))"
    by (simp add: templateParams_names)
  from t consider u p c where "u \<in> set (pipelineTaskList r)" "t = injectCATask (injectProxyAndCAIntoTask u p c)"
    | u where "u \<in> set (buildPipelineFinallyTasks r)" "t = injectCATask u"
    by (auto simp: injectCABundleIntoTasks_def buildPipelineTasks_def Let_def)
  then show ?thesis
  proof cases
    case 1
    with collection_tasks_closed(1) [OF r] have "closedTask (paramNames (templateParams r)) [''trusted-ca''] u" by (auto simp: list_all_iff)
    from closedTask_inject [OF this disjI1 [OF p]] 1 workspaces_declared(1) [of u r] runAfter_declared(1) [of u r] templates_declare_ca(1)
    show ?thesis by simp
  next
    case 2
    with collection_tasks_closed(2) [OF r] have "closedTask (paramNames (templateParams r)) [] u" by (auto simp: list_all_iff)
    from closedTask_probed [OF closedTask_CA [OF this]] 2 workspaces_declared(1) [of u r] runAfter_declared(2) [of u r] templates_declare_ca(1)
    show ?thesis by simp
  qed
qed

lemma import_task_declared:
  assumes "plainImages r" "t \<in> set (injectCABundleIntoTasks (buildImportPipelineTasks r))"
  shows "closedTask (paramNames (importTemplateParams r)) [] t \<and> set (workspacesOf t) \<subseteq> set (map nameOf importTemplateWorkspaces) \<and>
    set (runAfterOf t) \<subseteq> set (map nameOf (buildImportPipelineTasks r))"
  using import_tasks_closed [OF assms(1)] assms(2) workspaces_declared(2) runAfter_declared(3) templates_declare_ca(2)
  by (auto simp: injectCABundleIntoTasks_def list_all_iff closedTask_CA) blast+

lemma results_published: "list_all (\<lambda>v. publishes (injectCABundleIntoTasks (buildPipelineTasks r)) (strField ''value'' v)) templateResults"
proof -
  have "resultsOf (injectCATask (injectProxyAndCAIntoTask t p c)) = resultsOf t" for t p c by simp
  moreover have "uploadToS3Task r \<in> set (pipelineTaskList r)" "uploadSbomTask r \<in> set (pipelineTaskList r)"
    by (simp_all add: pipelineTaskList_def)
  ultimately have "publishes (injectCABundleIntoTasks (buildPipelineTasks r)) (''$(tasks.'' @ nameOf t @ ''.results.'' @ x @ '')'')"
    if "t \<in> {uploadToS3Task r, uploadSbomTask r}" "x \<in> set (resultsOf t)" for t x
    using that by (force simp: publishes_def injectCABundleIntoTasks_def buildPipelineTasks_def Let_def simp del: steps_simps)
  from this [of "uploadToS3Task r" "''bundle-url''"] this [of "uploadToS3Task r" "''signature-url''"] this [of "uploadSbomTask r" "''sbom-url''"]
  show ?thesis by (simp add: templateResults_def uploadToS3Task_def uploadSbomTask_def)
qed



section \<open>The order of the tasks\<close>

definition waitsFor :: "gomap list \<Rightarrow> (string \<times> string) set" where
  "waitsFor ts = {(a, b). \<exists>t \<in> set ts. nameOf t = b \<and> a \<in> set (runAfterOf t)}"

text \<open>The position of a name in a list, and a list that has every task after those it waits for.\<close>

definition position :: "string list \<Rightarrow> string \<Rightarrow> nat" where
  "position order n = length (takeWhile (\<lambda>m. m \<noteq> n) order)"

lemma waitsFor_wf:
  assumes "list_all (\<lambda>(b, as). list_all (\<lambda>a. position order a < position order b) as) (map (\<lambda>t. (nameOf t, runAfterOf t)) ts)"
  shows "wf (waitsFor ts)"
proof (rule wf_subset)
  show "wf (measure (position order))" by simp
  show "waitsFor ts \<subseteq> measure (position order)"
    using assms by (fastforce simp: waitsFor_def list_all_iff)
qed

lemma waitsFor_table: "waitsFor ts = {(a, b). \<exists>(c, as) \<in> set (map (\<lambda>t. (nameOf t, runAfterOf t)) ts). c = b \<and> a \<in> set as}"
  by (auto simp: waitsFor_def)

lemma injected_table:
  "map (\<lambda>t. (nameOf t, runAfterOf t)) (injectCABundleIntoTasks ts) = map (\<lambda>t. (nameOf t, runAfterOf t)) ts"
  "map (\<lambda>t. (nameOf t, runAfterOf t)) (buildPipelineTasks r) = map (\<lambda>t. (nameOf t, runAfterOf t)) (pipelineTaskList r)"
  by (simp_all add: injectCABundleIntoTasks_def buildPipelineTasks_def Let_def)

definition collectionOrder :: "string list" where
  "collectionOrder = [''download-rhcos-images'', ''build-rhcos-server'', ''dry-run'', ''mirror-to-intermediate'', ''oc-mirror'',
     ''syft-sbom'', ''sign-images'', ''mirror-from-intermediate'', ''export-architect-images'', ''download-cli-tools'',
     ''copy-import-script'', ''repackage-bundle'', ''sign-bundles'', ''create-bundle-sbom'', ''upload-sbom'', ''upload-to-s3'']"

text \<open>Paths of waiting, followed backwards through the table with fuel: what a task waits for directly or through others.\<close>

fun before :: "nat \<Rightarrow> (string \<times> string list) list \<Rightarrow> string \<Rightarrow> string list" where
  "before 0 tab n = []"
| "before (Suc k) tab n =
     (case map_of tab n of None \<Rightarrow> [] | Some as \<Rightarrow> as @ concat (map (before k tab) as))"

lemma before_waits:
  "a \<in> set (before k (map (\<lambda>t. (nameOf t, runAfterOf t)) ts) n) \<Longrightarrow> (a, n) \<in> (waitsFor ts)\<^sup>+"
proof (induction k arbitrary: a n)
  case (Suc k)
  then obtain as where as: "map_of (map (\<lambda>t. (nameOf t, runAfterOf t)) ts) n = Some as"
    "a \<in> set as \<or> (\<exists>b \<in> set as. a \<in> set (before k (map (\<lambda>t. (nameOf t, runAfterOf t)) ts) b))"
    by (cases "map_of (map (\<lambda>t. (nameOf t, runAfterOf t)) ts) n") auto
  from map_of_SomeD [OF as(1)] have w: "b \<in> set as \<Longrightarrow> (b, n) \<in> waitsFor ts" for b
    by (auto simp: waitsFor_def)
  from as(2) show ?case
  proof
    assume "\<exists>b \<in> set as. a \<in> set (before k (map (\<lambda>t. (nameOf t, runAfterOf t)) ts) b)"
    then obtain b where "b \<in> set as" "(a, b) \<in> (waitsFor ts)\<^sup>+" using Suc.IH by blast
    with w show ?thesis by (meson trancl.trancl_into_trancl)
  qed (use w in blast)
qed simp

text \<open>C15. Both pipelines finish: the relation in which tasks wait for each other is well-founded, so no tasks block each other. In the
  collection pipeline the upload waits, directly or through others, for every other task, so the bundle is complete when it is
  uploaded; in the import pipeline the content is mirrored only after the verification, and the manifests are applied only after the content is mirrored.\<close>

theorem pipelines_ordered:
  "wf (waitsFor (mapsField ''tasks'' (collectionPipelineSpec r))) \<and> wf (waitsFor (mapsField ''tasks'' (importPipelineSpec r))) \<and>
   set (map nameOf (mapsField ''tasks'' (collectionPipelineSpec r))) \<subseteq>
     insert ''upload-to-s3'' {n. (n, ''upload-to-s3'') \<in> (waitsFor (mapsField ''tasks'' (collectionPipelineSpec r)))\<^sup>+} \<and>
   (''verify-bundle'', ''mirror-content'') \<in> (waitsFor (mapsField ''tasks'' (importPipelineSpec r)))\<^sup>+ \<and>
   (''mirror-content'', ''apply-manifests'') \<in> (waitsFor (mapsField ''tasks'' (importPipelineSpec r)))\<^sup>+"
proof (intro conjI)
  show "wf (waitsFor (mapsField ''tasks'' (collectionPipelineSpec r)))"
    by (rule waitsFor_wf [where order = collectionOrder], unfold spec_fields injected_table collection_task_table) code_simp
  show "wf (waitsFor (mapsField ''tasks'' (importPipelineSpec r)))"
    by (rule waitsFor_wf [where order = "map nameOf (buildImportPipelineTasks r)"], unfold spec_fields injected_table import_task_table names_table) code_simp
next
  have "set (map nameOf (mapsField ''tasks'' (collectionPipelineSpec r))) \<subseteq> insert ''upload-to-s3''
      (set (before 12 (map (\<lambda>t. (nameOf t, runAfterOf t)) (mapsField ''tasks'' (collectionPipelineSpec r))) ''upload-to-s3''))"
    unfolding spec_fields injected_table inject_names collection_task_table names_table by code_simp
  then show "set (map nameOf (mapsField ''tasks'' (collectionPipelineSpec r))) \<subseteq>
      insert ''upload-to-s3'' {n. (n, ''upload-to-s3'') \<in> (waitsFor (mapsField ''tasks'' (collectionPipelineSpec r)))\<^sup>+}"
    using before_waits by blast
next
  show "(''verify-bundle'', ''mirror-content'') \<in> (waitsFor (mapsField ''tasks'' (importPipelineSpec r)))\<^sup>+"
    "(''mirror-content'', ''apply-manifests'') \<in> (waitsFor (mapsField ''tasks'' (importPipelineSpec r)))\<^sup>+"
    by (rule before_waits [where k = 3], unfold spec_fields injected_table import_task_table, code_simp)+
qed

end
