(* ===== verification/ImageSet.thy ===== *)
theory ImageSet
  imports History Scripted
begin

text \<open>
  The \<^verbatim>\<open>ImageSetConfiguration\<close> part of \<^verbatim>\<open>internal/controller/collectionpipeline_controller.go\<close>: image
  references (normalizing, rewriting to the intermediate registry), the OCP version of a
  configuration, and the functions that enrich a configuration before it is stored: the
  mirror-operator catalog, the Architect images, the RHCOS server image, the default
  architecture. Each of these parses the YAML, changes the document and prints it; the change of
  the document is a definition of its own, and the locale \<open>config_injector\<close> is what the stored
  configuration relies on of all of them.
\<close>

section \<open>Image references\<close>

definition normalizeImageRef :: "string \<Rightarrow> string" where
  "normalizeImageRef ref =
     (case cutByte (CHR ''/'') ref of
        Some (pfx, _) \<Rightarrow>
          if pfx \<noteq> [] \<and> (strContains pfx ''.'' \<or> strContains pfx '':'' \<or> pfx = ''localhost'')
          then ref else ''docker.io/'' @ ref
      | None \<Rightarrow> ''docker.io/'' @ ref)"

definition rewriteImageReference :: "string \<Rightarrow> string \<Rightarrow> string" where
  "rewriteImageReference originalRef intermediateRegistry =
     (let ref = trimPrefix originalRef ''docker://'';
          ref = normalizeImageRef ref
      in case splitN (CHR ''/'') ref 2 of
           [_, repositoryPath] \<Rightarrow>
             (let pathComponents = splitByte (CHR ''/'') repositoryPath;
                  imageName = pathComponents ! (length pathComponents - 1)
              in if hasSuffix originalRef ''/*'' then intermediateRegistry @ ''/'' @ repositoryPath
                 else intermediateRegistry @ ''/'' @ imageName)
         | _ \<Rightarrow> intermediateRegistry @ ''/'' @ ref)"

section \<open>Versions\<close>

text \<open>The first channel of \<^verbatim>\<open>mirror.platform.channels\<close> of a parsed document, where every step of the
  path has the expected type.\<close>

definition firstChannel :: "gomap \<Rightarrow> gomap option" where
  "firstChannel imageSetConfig =
     (case asMap (imageSetConfig ''mirror'') of
        None \<Rightarrow> None
      | Some mirror \<Rightarrow>
          (case asMap (mirror ''platform'') of
             None \<Rightarrow> None
           | Some platformConfig \<Rightarrow>
               (case asList (platformConfig ''channels'') of
                  Some (c # _) \<Rightarrow> asMap (Some c)
                | _ \<Rightarrow> None)))"

definition extractOCPVersion :: "('w, 'x) env_scheme \<Rightarrow> string \<Rightarrow> string" where
  "extractOCPVersion E configYAML =
     (case yamlToMap E configYAML of
        Inl _ \<Rightarrow> ''latest''
      | Inr imageSetConfig \<Rightarrow>
          (case firstChannel imageSetConfig of
             None \<Rightarrow> ''latest''
           | Some channel \<Rightarrow>
               if strOrEmpty (channel ''minVersion'') \<noteq> []
               then (let minVersion = strOrEmpty (channel ''minVersion'');
                         parts = splitN (CHR ''.'') minVersion 3
                     in if length parts \<ge> 2 then parts ! 0 @ ''.'' @ parts ! 1 else minVersion)
               else (case asStr (channel ''name'') of
                       Some name \<Rightarrow> (case afterLastByte (CHR ''-'') name of Some v \<Rightarrow> v | None \<Rightarrow> name)
                     | None \<Rightarrow> ''latest'')))"

text \<open>The detection of the CLI tool version inside \<^verbatim>\<open>buildPipelineRun\<close>.\<close>

definition detectOCVersion :: "('w, 'x) env_scheme \<Rightarrow> string \<Rightarrow> string" where
  "detectOCVersion E configYAML =
     (case yamlToMap E configYAML of
        Inl _ \<Rightarrow> ''latest''
      | Inr imageSetConfig \<Rightarrow>
          (case firstChannel imageSetConfig of
             None \<Rightarrow> ''latest''
           | Some channel \<Rightarrow>
               if strOrEmpty (channel ''minVersion'') \<noteq> [] then strOrEmpty (channel ''minVersion'')
               else (case asStr (channel ''name'') of Some name \<Rightarrow> name | None \<Rightarrow> ''latest'')))"

section \<open>Enriching a configuration\<close>

abbreviation isc_images :: "imageSetConfiguration \<Rightarrow> imageConfig list" where
  "isc_images c \<equiv> ism_AdditionalImages (isc_Mirror c)"
abbreviation isc_operators :: "imageSetConfiguration \<Rightarrow> isOperatorConfig list" where
  "isc_operators c \<equiv> ism_Operators (isc_Mirror c)"
abbreviation isc_setImages :: "imageSetConfiguration \<Rightarrow> imageConfig list \<Rightarrow> imageSetConfiguration" where
  "isc_setImages c l \<equiv> c\<lparr>isc_Mirror := (isc_Mirror c)\<lparr>ism_AdditionalImages := l\<rparr>\<rparr>"
abbreviation isc_setOperators :: "imageSetConfiguration \<Rightarrow> isOperatorConfig list \<Rightarrow> imageSetConfiguration" where
  "isc_setOperators c l \<equiv> c\<lparr>isc_Mirror := (isc_Mirror c)\<lparr>ism_Operators := l\<rparr>\<rparr>"

definition communityOperatorCatalog :: string where
  "communityOperatorCatalog = ''registry.redhat.io/redhat/community-operator-index''"
definition mirrorOperatorPackage :: string where "mirrorOperatorPackage = ''mirror-operator''"

definition namedPackage :: "string \<Rightarrow> packageConfig" where
  "namedPackage n = \<lparr>pk_Name = n, pk_DefaultChannel = [], pk_Channels = []\<rparr>"

text \<open>The loop of \<^verbatim>\<open>injectMirrorOperator\<close> over the operators: \<open>None\<close> where no catalog matches, \<open>Some None\<close>
  where the first match has the package, else the operators with the package appended to that match.\<close>

fun injectPackageLoop :: "(isOperatorConfig \<Rightarrow> bool) \<Rightarrow> isOperatorConfig list \<Rightarrow> isOperatorConfig list option option" where
  "injectPackageLoop matches [] = None"
| "injectPackageLoop matches (op # ops) =
     (if \<not> matches op then map_option (map_option ((#) op)) (injectPackageLoop matches ops)
      else if \<exists>pkg \<in> set (op_Packages op). pk_Name pkg = mirrorOperatorPackage then Some None
      else Some (Some (op\<lparr>op_Packages := op_Packages op @ [namedPackage mirrorOperatorPackage]\<rparr> # ops)))"

definition catalogMatches :: "string \<Rightarrow> string \<Rightarrow> isOperatorConfig \<Rightarrow> bool" where
  "catalogMatches catalogOverride catalogRef op \<longleftrightarrow>
     op_Catalog op = catalogRef \<or> (catalogOverride = [] \<and> hasPrefix (op_Catalog op) communityOperatorCatalog)"

text \<open>The document after the loop; \<open>None\<close> where it is left as it is.\<close>

definition addMirrorOperator :: "string \<Rightarrow> string \<Rightarrow> imageSetConfiguration \<Rightarrow> imageSetConfiguration option" where
  "addMirrorOperator catalogOverride catalogRef config =
     (case injectPackageLoop (catalogMatches catalogOverride catalogRef) (isc_operators config) of
        Some None \<Rightarrow> None
      | Some (Some ops) \<Rightarrow> Some (isc_setOperators config ops)
      | None \<Rightarrow> Some (isc_setOperators config (isc_operators config @
                 [\<lparr>op_Catalog = catalogRef, op_Packages = [namedPackage mirrorOperatorPackage]\<rparr>])))"

definition mirrorCatalogRef :: "('w, 'x) env_scheme \<Rightarrow> string \<Rightarrow> string \<Rightarrow> string option" where
  "mirrorCatalogRef E configYAML catalogOverride =
     (if catalogOverride \<noteq> [] then Some catalogOverride
      else (let ocVersion = extractOCPVersion E configYAML in
            case splitN (CHR ''.'') ocVersion 2 of
              [_, p] \<Rightarrow> (case atoi p of
                          None \<Rightarrow> None
                        | Some minor \<Rightarrow> if minor < 18 then None
                                       else Some (communityOperatorCatalog @ '':v'' @ ocVersion))
            | _ \<Rightarrow> None))"

definition injectMirrorOperator :: "('w, 'x) env_scheme \<Rightarrow> string \<Rightarrow> string \<Rightarrow> string" where
  "injectMirrorOperator E configYAML catalogOverride =
     (case yamlToConfig E configYAML of
        Inl _ \<Rightarrow> configYAML
      | Inr config \<Rightarrow>
          (case mirrorCatalogRef E configYAML catalogOverride of
             None \<Rightarrow> configYAML
           | Some catalogRef \<Rightarrow>
               (case addMirrorOperator catalogOverride catalogRef config of
                  None \<Rightarrow> configYAML
                | Some config \<Rightarrow> (case yamlOfConfig E config of Inl _ \<Rightarrow> configYAML | Inr y \<Rightarrow> y))))"

text \<open>The images the export task consumes, and the document with those added that it does not list.\<close>

definition architectFrontendDefault :: "('w, 'x) env_scheme \<Rightarrow> string" where
  "architectFrontendDefault E = envOrDefault E ''RELATED_IMAGE_ARCHITECT_FRONTEND''
     ''quay.io/mathianasj/openshift-airgap-architect-frontend:latest''"
definition architectBackendDefault :: "('w, 'x) env_scheme \<Rightarrow> string" where
  "architectBackendDefault E = envOrDefault E ''RELATED_IMAGE_ARCHITECT_BACKEND''
     ''quay.io/mathianasj/openshift-airgap-architect-backend:latest''"

definition architectImages :: "('w, 'x) env_scheme \<Rightarrow> airgapArchitectConfig \<Rightarrow> string list" where
  "architectImages E arch =
     [if arch_FrontendImage arch \<noteq> [] then arch_FrontendImage arch else architectFrontendDefault E,
      if arch_BackendImage arch \<noteq> [] then arch_BackendImage arch else architectBackendDefault E]"

definition addImages :: "string list \<Rightarrow> imageSetConfiguration \<Rightarrow> imageSetConfiguration" where
  "addImages images config =
     (let existing = im_Name ` set (isc_images config)
      in isc_setImages config (isc_images config @
           map (\<lambda>n. \<lparr>im_Name = n\<rparr>) (filter (\<lambda>image. image \<noteq> [] \<and> image \<notin> existing) images)))"

definition consolePluginOnly :: "airgapArchitectConfig \<Rightarrow> bool" where
  "consolePluginOnly arch \<longleftrightarrow>
     (case arch_ConsolePlugin arch of None \<Rightarrow> False | Some p \<Rightarrow> cpl_Enabled p) \<and> arch_FrontendImage arch = []"

definition injectArchitectImages :: "('w, 'x) env_scheme \<Rightarrow> string \<Rightarrow> ('w, string) go" where
  "injectArchitectImages E configYAML = do {
     platform \<leftarrow> CollectionPipeline_findPlatform E;
     case platform of
       Inl _ \<Rightarrow> return configYAML
     | Inr None \<Rightarrow> return configYAML
     | Inr (Some platform) \<Rightarrow>
         (case dps_Architect (dp_Spec platform) of
            None \<Rightarrow> return configYAML
          | Some arch \<Rightarrow>
              if \<not> arch_Enabled arch then return configYAML
              else if consolePluginOnly arch then return configYAML
              else (case yamlToConfig E configYAML of
                      Inl _ \<Rightarrow> return configYAML
                    | Inr config \<Rightarrow>
                        (case yamlOfConfig E (addImages (architectImages E arch) config) of
                           Inl _ \<Rightarrow> return configYAML
                         | Inr out \<Rightarrow> return out))) }"

definition addRHCOSImage :: "string \<Rightarrow> string \<Rightarrow> imageSetConfiguration \<Rightarrow> imageSetConfiguration" where
  "addRHCOSImage intermediateRegistry ocVersion config =
     (if \<exists>img \<in> set (isc_images config). hasPrefix (im_Name img) (intermediateRegistry @ ''/rhcos-server:'')
      then config
      else isc_setImages config (isc_images config @ [\<lparr>im_Name = intermediateRegistry @ ''/rhcos-server:'' @ ocVersion\<rparr>]))"

definition injectRHCOSServerImage :: "('w, 'x) env_scheme \<Rightarrow> string \<Rightarrow> string \<Rightarrow> ('w, string \<times> goerr option) go" where
  "injectRHCOSServerImage E configYAML intermediateRegistry = do {
     platform \<leftarrow> CollectionPipeline_findPlatform E;
     case platform of
       Inl _ \<Rightarrow> return (configYAML, None)
     | Inr None \<Rightarrow> return (configYAML, None)
     | Inr (Some platform) \<Rightarrow>
         (case dps_Connected (dp_Spec platform) of
            None \<Rightarrow> return (configYAML, None)
          | Some connected \<Rightarrow>
              if (case con_RHCOSCollection connected of None \<Rightarrow> False | Some rhc \<Rightarrow> \<not> rhc_Enabled rhc)
              then return (configYAML, None)
              else if intermediateRegistry = [] then return (configYAML, None)
              else (case yamlToConfig E configYAML of
                      Inl err \<Rightarrow> return ([], Some (wrap ''failed to parse ImageSetConfiguration'' err))
                    | Inr config \<Rightarrow>
                        (case yamlOfConfig E (addRHCOSImage intermediateRegistry (extractOCPVersion E configYAML) config) of
                           Inl err \<Rightarrow> return ([], Some (wrap ''failed to marshal config'' err))
                         | Inr y \<Rightarrow> return (y, None)))) }"

definition injectDefaultArchitecture :: "('w, 'x) env_scheme \<Rightarrow> string \<Rightarrow> string" where
  "injectDefaultArchitecture E configYAML =
     (case yamlToMap E configYAML of
        Inl _ \<Rightarrow> configYAML
      | Inr imageSetConfig \<Rightarrow>
          (case asMap (imageSetConfig ''mirror'') of
             None \<Rightarrow> configYAML
           | Some mirror \<Rightarrow>
               (case asMap (mirror ''platform'') of
                  None \<Rightarrow> configYAML
                | Some platform \<Rightarrow>
                    if platform ''architectures'' \<noteq> None then configYAML
                    else (case yamlOfMap E (imageSetConfig(''mirror'' \<mapsto>
                                 GMap (mirror(''platform'' \<mapsto> GMap (platform(''architectures'' \<mapsto> GStrs [''amd64''])))))) of
                            Inl _ \<Rightarrow> configYAML
                          | Inr out \<Rightarrow> out))))"

section \<open>The intermediate configuration\<close>

definition intermediateConfig :: "string \<Rightarrow> imageSetConfiguration \<Rightarrow> imageSetConfiguration" where
  "intermediateConfig intermediateRegistry originalConfig =
     (let m = isc_Mirror originalConfig
      in \<lparr>isc_Kind = isc_Kind originalConfig, isc_APIVersion = isc_APIVersion originalConfig,
          isc_Mirror = \<lparr>ism_Platform = ism_Platform m,
            ism_Operators = map (\<lambda>op. \<lparr>op_Catalog = rewriteImageReference (op_Catalog op) intermediateRegistry,
                                       op_Packages = op_Packages op\<rparr>) (ism_Operators m),
            ism_AdditionalImages = map (\<lambda>img. \<lparr>im_Name = rewriteImageReference (im_Name img) intermediateRegistry\<rparr>)
                                     (ism_AdditionalImages m),
            ism_Helm = ism_Helm m\<rparr>\<rparr>)"

definition generateIntermediateImageSetConfig ::
  "('w, 'x) env_scheme \<Rightarrow> collectionPipeline \<Rightarrow> string \<Rightarrow> string res" where
  "generateIntermediateImageSetConfig E pipeline intermediateRegistry =
     (case yamlToConfig E (cps_ImageSetConfig (cp_Spec pipeline)) of
        Inl err \<Rightarrow> Inl (wrap ''failed to parse ImageSetConfiguration'' err)
      | Inr originalConfig \<Rightarrow>
          (case yamlOfConfig E (intermediateConfig intermediateRegistry originalConfig) of
             Inl err \<Rightarrow> Inl (wrap ''failed to marshal intermediate config'' err)
           | Inr y \<Rightarrow> Inr y))"

section \<open>Lemmas\<close>

text \<open>A reference is qualified when the part before its first slash names a registry host.\<close>

definition qualifiedRef :: "string \<Rightarrow> bool" where
  "qualifiedRef ref \<longleftrightarrow>
     (\<exists>host path. ref = host @ ''/'' @ path \<and> CHR ''/'' \<notin> set host \<and> host \<noteq> [] \<and>
        (CHR ''.'' \<in> set host \<or> CHR '':'' \<in> set host \<or> host = ''localhost''))"

lemma normalizeImageRef_cases:
  "normalizeImageRef ref = (if qualifiedRef ref then ref else ''docker.io/'' @ ref)"
proof (cases "cutByte (CHR ''/'') ref")
  case None
  moreover from None have "\<not> qualifiedRef ref"
    by (auto simp: qualifiedRef_def)
  ultimately show ?thesis by (simp only: normalizeImageRef_def option.case if_False)
next
  case (Some ab)
  obtain a b where ab: "ab = (a, b)" by (cases ab)
  have cut: "ref = a @ CHR ''/'' # b" "CHR ''/'' \<notin> set a"
    using Some by (simp_all add: ab cutByte_Some)
  have "qualifiedRef ref \<longleftrightarrow> a \<noteq> [] \<and> (CHR ''.'' \<in> set a \<or> CHR '':'' \<in> set a \<or> a = ''localhost'')"
  proof
    assume "qualifiedRef ref"
    then obtain host path where h: "ref = host @ ''/'' @ path" "CHR ''/'' \<notin> set host" "host \<noteq> []"
      "CHR ''.'' \<in> set host \<or> CHR '':'' \<in> set host \<or> host = ''localhost''"
      unfolding qualifiedRef_def by blast
    have "cutByte (CHR ''/'') ref = Some (host, path)"
      using h by (simp add: cutByte_Some)
    with Some ab h show "a \<noteq> [] \<and> (CHR ''.'' \<in> set a \<or> CHR '':'' \<in> set a \<or> a = ''localhost'')"
      by simp
  qed (use cut in \<open>auto simp: qualifiedRef_def\<close>)
  with Some ab show ?thesis by (simp add: normalizeImageRef_def)
qed

lemma qualifiedRef_docker: "qualifiedRef (''docker.io/'' @ ref)"
  unfolding qualifiedRef_def by (intro exI [of _ "''docker.io''"] exI [of _ ref]) simp

lemma qualifiedRef_normalize: "qualifiedRef (normalizeImageRef ref)"
  using qualifiedRef_docker by (simp only: normalizeImageRef_cases split: if_split) blast

text \<open>What the rewriting does to a reference, by the parts of the normalized reference.\<close>

lemma rewrite_parts:
  assumes "normalizeImageRef (trimPrefix r ''docker://'') = host @ ''/'' @ path" "CHR ''/'' \<notin> set host"
  shows "rewriteImageReference r reg =
    reg @ ''/'' @ (if hasSuffix r ''/*'' then path else last (splitByte (CHR ''/'') path))"
  using assms
  by (simp add: rewriteImageReference_def Let_def numeral_2_eq_2 cutByte_Some [THEN iffD2, of _ host _ path]
      last_conv_nth)

lemma rewrite_obtain:
  obtains host path where "normalizeImageRef (trimPrefix r ''docker://'') = host @ ''/'' @ path" "CHR ''/'' \<notin> set host"
  using qualifiedRef_normalize [of "trimPrefix r ''docker://''"] unfolding qualifiedRef_def by blast

lemma last_component_no_slash: "CHR ''/'' \<notin> set (last (splitByte (CHR ''/'') p))"
  by (rule splitByte_no_sep [OF last_in_set]) simp

lemma last_component: "p = last (splitByte c p) \<or> hasSuffix p (c # last (splitByte c p))"
proof (cases "c \<in> set p")
  case True
  then obtain a b where "p = a @ c # b" "c \<notin> set b"
    using split_list_last by metis
  then show ?thesis by (auto simp: last_splitByte hasSuffix_iff)
qed (simp add: splitByte_id)

lemma hasSuffix_trans_append: "hasSuffix b p \<Longrightarrow> hasSuffix (a @ b) p"
  by (auto simp: hasSuffix_iff)

lemma rewrite_shape:
  "\<exists>name. rewriteImageReference r reg = reg @ ''/'' @ name \<and>
     (hasSuffix r ''/*'' \<or> CHR ''/'' \<notin> set name) \<and>
     hasSuffix (normalizeImageRef (trimPrefix r ''docker://'')) (''/'' @ name)"
proof -
  let ?n = "normalizeImageRef (trimPrefix r ''docker://'')"
  obtain host path where p: "?n = host @ ''/'' @ path" "CHR ''/'' \<notin> set host"
    by (rule rewrite_obtain)
  let ?l = "last (splitByte (CHR ''/'') path)"
  have "hasSuffix ?n (''/'' @ path)"
    unfolding p(1) hasSuffix_iff by simp
  moreover have "hasSuffix ?n (''/'' @ ?l)"
    using last_component [of path "CHR ''/''"]
  proof
    assume "path = ?l"
    then show ?thesis unfolding p(1) hasSuffix_iff by auto
  next
    assume "hasSuffix path (CHR ''/'' # ?l)"
    then show ?thesis unfolding p(1) by (metis append_Cons append_Nil hasSuffix_trans_append)
  qed
  ultimately show ?thesis
    using rewrite_parts [OF p, of reg] last_component_no_slash [of path] by auto
qed

lemma trimPrefix_rewritten:
  assumes "\<not> hasPrefix (reg @ ''/'') ''docker://''" "CHR ''/'' \<notin> set name"
  shows "trimPrefix (reg @ ''/'' @ name) ''docker://'' = reg @ ''/'' @ name"
proof -
  have "\<not> hasPrefix (reg @ ''/'' @ name) ''docker://''"
  proof
    assume "hasPrefix (reg @ ''/'' @ name) ''docker://''"
    then obtain x where "(reg @ ''/'') @ name = ''docker://'' @ x"
      unfolding hasPrefix_iff by auto
    then obtain us where "reg @ ''/'' = ''docker://'' @ us \<or> ''docker://'' = (reg @ ''/'') @ us \<and> name = us @ x"
      using append_eq_append_conv2 [of "reg @ ''/''" name "''docker://''" x] by metis
    then show False
    proof
      assume "reg @ ''/'' = ''docker://'' @ us"
      with assms(1) show False by (metis hasPrefix_append)
    next
      assume us: "''docker://'' = (reg @ ''/'') @ us \<and> name = us @ x"
      then have "us \<noteq> []"
        using assms(1) by (auto simp: hasPrefix_def)
      moreover have "last ''docker://'' = CHR ''/''" by simp
      ultimately have "CHR ''/'' \<in> set us"
        using us by (metis last_appendR last_in_set)
      with us assms(2) show False by simp
    qed
  qed
  then show ?thesis by (simp only: trimPrefix_def if_False)
qed

lemma rewrite_own:
  assumes "qualifiedRef (reg @ ''/'')" "\<not> hasPrefix (reg @ ''/'') ''docker://''" "CHR ''/'' \<notin> set name" "name \<noteq> ''*''"
  shows "rewriteImageReference (reg @ ''/'' @ name) reg = reg @ ''/'' @ name"
proof -
  obtain host path where h: "reg @ ''/'' = host @ ''/'' @ path" "CHR ''/'' \<notin> set host" "host \<noteq> []"
    "CHR ''.'' \<in> set host \<or> CHR '':'' \<in> set host \<or> host = ''localhost''"
    using assms(1) unfolding qualifiedRef_def by blast
  have eq: "reg @ ''/'' @ name = host @ ''/'' @ (path @ name)"
    using arg_cong [OF h(1), of "\<lambda>x. x @ name"] by simp
  have "qualifiedRef (reg @ ''/'' @ name)"
    unfolding qualifiedRef_def using eq h by blast
  then have "normalizeImageRef (trimPrefix (reg @ ''/'' @ name) ''docker://'') = reg @ ''/'' @ name"
    by (simp only: trimPrefix_rewritten [OF assms(2,3)] normalizeImageRef_cases if_True)
  also note eq
  finally have n: "normalizeImageRef (trimPrefix (reg @ ''/'' @ name) ''docker://'') = host @ ''/'' @ (path @ name)" .
  have "last (splitByte (CHR ''/'') (path @ name)) = name"
  proof (cases path rule: rev_cases)
    case Nil
    with assms(3) show ?thesis by (simp add: splitByte_id)
  next
    case (snoc p0 c)
    with h(1) have "c = CHR ''/''" by auto
    with snoc assms(3) show ?thesis by (simp add: last_splitByte)
  qed
  moreover have "\<not> hasSuffix (reg @ ''/'' @ name) ''/*''"
  proof
    assume "hasSuffix (reg @ ''/'' @ name) ''/*''"
    then obtain x where "(reg @ [CHR ''/'']) @ name = x @ [CHR ''/'', CHR ''*'']"
      unfolding hasSuffix_iff by auto
    then show False
      using assms(3,4) by (cases name rule: rev_cases; cases "butlast name" rule: rev_cases) auto
  qed
  ultimately show ?thesis
    using rewrite_parts [OF n h(2), of reg] by simp
qed

lemma star_normalized:
  assumes "hasSuffix (normalizeImageRef (trimPrefix r ''docker://'')) ''/*''" "r \<noteq> ''*''"
  shows "hasSuffix r ''/*''"
proof -
  define t where "t = trimPrefix r ''docker://''"
  obtain pre where r: "r = pre @ t" "pre = [] \<or> pre = ''docker://''"
    by (cases "hasPrefix r ''docker://''") (auto simp: t_def trimPrefix_def hasPrefix_iff)
  have "hasSuffix t ''/*'' \<or> t = ''*''"
  proof (cases "qualifiedRef t")
    case True
    with assms(1) show ?thesis by (simp add: normalizeImageRef_cases flip: t_def)
  next
    case False
    with assms(1) have "hasSuffix (''docker.io/'' @ t) ''/*''"
      by (simp only: normalizeImageRef_cases if_False flip: t_def)
    then obtain x where "''docker.io/'' @ t = x @ [CHR ''/'', CHR ''*'']"
      unfolding hasSuffix_iff by auto
    then show ?thesis
      by (cases t rule: rev_cases; cases "butlast t" rule: rev_cases) (auto simp: hasSuffix_iff)
  qed
  with r assms(2) show ?thesis by (auto simp: hasSuffix_iff)
qed

section \<open>Documents that extend others\<close>

definition ops_extend :: "isOperatorConfig list \<Rightarrow> isOperatorConfig list \<Rightarrow> bool" where
  "ops_extend xs ys \<longleftrightarrow> length xs \<le> length ys \<and>
     (\<forall>i < length xs. op_Catalog (ys ! i) = op_Catalog (xs ! i) \<and> prefix (op_Packages (xs ! i)) (op_Packages (ys ! i)))"

definition extends :: "imageSetConfiguration \<Rightarrow> imageSetConfiguration \<Rightarrow> bool" where
  "extends c c' \<longleftrightarrow> isc_Kind c' = isc_Kind c \<and> isc_APIVersion c' = isc_APIVersion c \<and>
     ism_Platform (isc_Mirror c') = ism_Platform (isc_Mirror c) \<and> ism_Helm (isc_Mirror c') = ism_Helm (isc_Mirror c) \<and>
     prefix (isc_images c) (isc_images c') \<and> ops_extend (isc_operators c) (isc_operators c')"

lemma ops_extend_refl [simp]: "ops_extend xs xs"
  by (simp add: ops_extend_def)

lemma ops_extend_append [simp]: "ops_extend xs (xs @ ys)"
  by (simp add: ops_extend_def nth_append)

lemma ops_extend_Cons [simp]:
  "ops_extend (x # xs) (y # ys) \<longleftrightarrow> op_Catalog y = op_Catalog x \<and> prefix (op_Packages x) (op_Packages y) \<and> ops_extend xs ys"
  by (auto simp: ops_extend_def nth_Cons less_Suc_eq_0_disj split: nat.split)

lemma ops_extend_trans: "ops_extend xs ys \<Longrightarrow> ops_extend ys zs \<Longrightarrow> ops_extend xs zs"
  by (auto simp: ops_extend_def intro: prefix_order.trans)

lemma extends_refl [simp]: "extends c c"
  by (simp add: extends_def)

lemma extends_images [simp]: "extends c (isc_setImages c (isc_images c @ xs))"
  by (simp add: extends_def)

lemma extends_trans [trans]: "extends a b \<Longrightarrow> extends b c \<Longrightarrow> extends a c"
  unfolding extends_def by (auto intro: ops_extend_trans prefix_order.trans)

text \<open>What a stored configuration relies on of a function that enriches it: nothing the user asked for
  is dropped or changed, and enriching twice is enriching once.\<close>

locale config_injector =
  fixes inj :: "imageSetConfiguration \<Rightarrow> imageSetConfiguration"
  assumes inj_extends: "extends c (inj c)"
    and inj_idem: "inj (inj c) = inj c"
begin

lemma image_kept: "img \<in> set (isc_images c) \<Longrightarrow> img \<in> set (isc_images (inj c))"
  using inj_extends [of c] by (auto simp: extends_def dest: set_mono_prefix)

lemma package_kept:
  assumes "op \<in> set (isc_operators c)" "pkg \<in> set (op_Packages op)"
  shows "\<exists>op' \<in> set (isc_operators (inj c)). op_Catalog op' = op_Catalog op \<and> pkg \<in> set (op_Packages op')"
proof -
  obtain i where i: "i < length (isc_operators c)" "op = isc_operators c ! i"
    using assms(1) by (metis in_set_conv_nth)
  with inj_extends [of c] have "i < length (isc_operators (inj c))"
    "op_Catalog (isc_operators (inj c) ! i) = op_Catalog op"
    "prefix (op_Packages op) (op_Packages (isc_operators (inj c) ! i))"
    by (auto simp: extends_def ops_extend_def)
  with assms(2) show ?thesis by (meson nth_mem set_mono_prefix subsetD)
qed

lemma inj_after_extension: "extends b c \<Longrightarrow> extends b (inj c)"
  by (rule extends_trans [OF _ inj_extends])

end

definition injectOperator :: "string \<Rightarrow> string \<Rightarrow> imageSetConfiguration \<Rightarrow> imageSetConfiguration" where
  "injectOperator ov ref c = (case addMirrorOperator ov ref c of None \<Rightarrow> c | Some c' \<Rightarrow> c')"

lemma injectPackageLoop_extends:
  "injectPackageLoop m ops = Some (Some ops') \<Longrightarrow> ops_extend ops ops'"
  by (induction ops arbitrary: ops') (auto split: if_splits)

lemma injectPackageLoop_done:
  assumes "\<And>x p. m (x\<lparr>op_Packages := p\<rparr>) = m x"
  shows "injectPackageLoop m ops = Some (Some ops') \<Longrightarrow> injectPackageLoop m ops' = Some None"
  by (induction ops arbitrary: ops') (auto simp: assms namedPackage_def split: if_splits)

lemma injectPackageLoop_None: "injectPackageLoop m ops = None \<longleftrightarrow> (\<forall>op \<in> set ops. \<not> m op)"
  by (induction ops) auto

lemma injectPackageLoop_append:
  "injectPackageLoop m ops = None \<Longrightarrow> m op \<Longrightarrow> \<exists>pkg \<in> set (op_Packages op). pk_Name pkg = mirrorOperatorPackage \<Longrightarrow>
   injectPackageLoop m (ops @ [op]) = Some None"
  by (induction ops) auto

lemma injectPackageLoop_present:
  "injectPackageLoop m ops = Some None \<Longrightarrow>
   \<exists>op \<in> set ops. m op \<and> (\<exists>pkg \<in> set (op_Packages op). pk_Name pkg = mirrorOperatorPackage)"
  by (induction ops) (auto split: if_splits)

lemma catalogMatches_packages [simp]: "catalogMatches ov ref (x\<lparr>op_Packages := p\<rparr>) = catalogMatches ov ref x"
  by (simp add: catalogMatches_def)

text \<open>After the injection the loop finds the package.\<close>

lemma injectOperator_done:
  "injectPackageLoop (catalogMatches ov ref) (isc_operators (injectOperator ov ref c)) = Some None"
proof (cases "injectPackageLoop (catalogMatches ov ref) (isc_operators c)")
  case None
  then show ?thesis
    by (simp add: injectOperator_def addMirrorOperator_def injectPackageLoop_append catalogMatches_def namedPackage_def)
next
  case (Some r)
  then show ?thesis
    by (cases r) (simp_all add: injectOperator_def addMirrorOperator_def
        injectPackageLoop_done [of "catalogMatches ov ref", OF catalogMatches_packages])
qed

lemma injectOperator_extends: "extends c (injectOperator ov ref c)"
  by (auto simp: injectOperator_def addMirrorOperator_def extends_def injectPackageLoop_extends split: option.split)

interpretation mirror_operator: config_injector "injectOperator ov ref"
proof
  show "extends c (injectOperator ov ref c)" for c
    by (rule injectOperator_extends)
  show "injectOperator ov ref (injectOperator ov ref c) = injectOperator ov ref c" for c
    using injectOperator_done [of ov ref c] by (simp add: injectOperator_def addMirrorOperator_def split: option.split)
qed

lemma addImages_names:
  "im_Name ` set (isc_images (addImages images c)) = im_Name ` set (isc_images c) \<union> (set images - {[]})"
  by (auto simp: addImages_def Let_def image_Un image_image)

lemma addImages_id: "set images - {[]} \<subseteq> im_Name ` set (isc_images c) \<Longrightarrow> addImages images c = c"
proof -
  assume "set images - {[]} \<subseteq> im_Name ` set (isc_images c)"
  then have "filter (\<lambda>image. image \<noteq> [] \<and> image \<notin> im_Name ` set (isc_images c)) images = []"
    unfolding filter_empty_conv by blast
  then show ?thesis by (simp only: addImages_def Let_def) simp
qed

interpretation architect_images: config_injector "addImages images"
proof
  show "extends c (addImages images c)" for c
    by (simp add: addImages_def Let_def)
  show "addImages images (addImages images c) = addImages images c" for c
    by (rule addImages_id) (simp add: addImages_names)
qed

interpretation rhcos_image: config_injector "addRHCOSImage reg v"
  by unfold_locales (auto simp: addRHCOSImage_def hasPrefix_iff)

section \<open>Properties\<close>

text \<open>Normalizing an image reference gives a reference with a registry host in front, and does
  nothing to one that has it.\<close>

theorem normalize_qualifies:
  "qualifiedRef (normalizeImageRef ref) \<and> normalizeImageRef (normalizeImageRef ref) = normalizeImageRef ref"
  using qualifiedRef_normalize [of ref] normalizeImageRef_cases [of "normalizeImageRef ref"] by (simp only: if_True)

text \<open>Rewriting a reference that was rewritten to the registry leaves it as it is, for a registry
  with a host part and a reference without a wildcard.\<close>

theorem rewrite_stable:
  assumes "qualifiedRef (reg @ ''/'')" "\<not> hasPrefix (reg @ ''/'') ''docker://''" "\<not> hasSuffix r ''/*''" "r \<noteq> ''*''"
  shows "rewriteImageReference (rewriteImageReference r reg) reg = rewriteImageReference r reg"
proof -
  obtain name where n: "rewriteImageReference r reg = reg @ ''/'' @ name" "CHR ''/'' \<notin> set name"
    "hasSuffix (normalizeImageRef (trimPrefix r ''docker://'')) (''/'' @ name)"
    using rewrite_shape [of r reg] assms(3) by auto
  with star_normalized [of r] assms(3,4) have "name \<noteq> ''*''" by auto
  with n rewrite_own [OF assms(1,2)] show ?thesis by simp
qed

theorem rewrite_stable_witness:
  "rewriteImageReference (rewriteImageReference ''docker://registry.redhat.io/redhat/ubi9:latest'' ''quay.example.com/mirror'')
     ''quay.example.com/mirror'' = ''quay.example.com/mirror/ubi9:latest''"
proof -
  have "qualifiedRef (''quay.example.com/mirror'' @ ''/'')"
    unfolding qualifiedRef_def by (intro exI [of _ "''quay.example.com''"] exI [of _ "''mirror/''"]) simp
  then show ?thesis
    using rewrite_stable [of "''quay.example.com/mirror''" "''docker://registry.redhat.io/redhat/ubi9:latest''"]
    by (simp add: hasPrefix_def hasSuffix_def)
       (simp add: rewriteImageReference_def Let_def trimPrefix_def hasPrefix_def hasSuffix_def
          normalizeImageRef_def numeral_2_eq_2)
qed

text \<open>Every catalog and image of the intermediate configuration is pulled from the intermediate registry;
  there are as many as in the original, with the same packages, and platform and charts are kept.\<close>

theorem intermediate_pulls_from_registry:
  "let c' = intermediateConfig reg c in
     list_all (\<lambda>op. hasPrefix (op_Catalog op) (reg @ ''/'')) (isc_operators c') \<and>
     list_all (\<lambda>img. hasPrefix (im_Name img) (reg @ ''/'')) (isc_images c') \<and>
     map op_Packages (isc_operators c') = map op_Packages (isc_operators c) \<and>
     length (isc_images c') = length (isc_images c) \<and>
     ism_Platform (isc_Mirror c') = ism_Platform (isc_Mirror c) \<and> ism_Helm (isc_Mirror c') = ism_Helm (isc_Mirror c)"
proof -
  have "hasPrefix (rewriteImageReference r reg) (reg @ ''/'')" for r
    using rewrite_shape [of r reg] by (auto simp: hasPrefix_iff)
  then show ?thesis by (simp add: intermediateConfig_def Let_def list_all_iff)
qed


definition sampleConfig :: imageSetConfiguration where
  "sampleConfig = \<lparr>isc_Kind = ''ImageSetConfiguration'', isc_APIVersion = ''mirror.openshift.io/v2alpha1'',
     isc_Mirror = \<lparr>ism_Platform = None, ism_Operators = [], ism_AdditionalImages = [], ism_Helm = None\<rparr>\<rparr>"


text \<open>The Architect images added to a document are there afterwards, the images of the document stay in
  place, and adding them again changes nothing.\<close>

theorem architect_images_added:
  "im_Name ` set (isc_images (addImages (architectImages E arch) c)) =
     im_Name ` set (isc_images c) \<union> (set (architectImages E arch) - {[]}) \<and>
   extends c (addImages (architectImages E arch) c) \<and>
   addImages (architectImages E arch) (addImages (architectImages E arch) c) = addImages (architectImages E arch) c"
  using addImages_names architect_images.inj_extends architect_images.inj_idem by blast

end
