(* ===== verification/Collection.thy ===== *)
theory Collection
  imports ImageSet Objects
begin

text \<open>
  The \<^verbatim>\<open>CollectionPipeline\<close> controller of \<^verbatim>\<open>internal/controller/collectionpipeline_controller.go\<close>: the
  reconciler with its gates, the working \<^verbatim>\<open>PersistentVolumeClaim\<close>, the collection
  \<^verbatim>\<open>PipelineRun\<close> it builds, creates and tracks, and the cleanup of a deleted pipeline. The one Go
  function \<^verbatim>\<open>Reconcile\<close> is split at its comments; a part that may return early gives
  \<open>Inl\<close> of the outcome or \<open>Inr\<close> of what the next part needs.
\<close>

section \<open>Accessors\<close>

definition pipelineFinalizer :: string where
  "pipelineFinalizer = ''mirror.mathianasj.github.com/pipeline-finalizer''"
definition triggerAnnotation :: string where
  "triggerAnnotation = ''mirror.mathianasj.github.com/trigger''"

abbreviation cp_Name :: "collectionPipeline \<Rightarrow> string" where "cp_Name p \<equiv> m_Name (cp_ObjectMeta p)"
abbreviation cp_Namespace :: "collectionPipeline \<Rightarrow> string" where "cp_Namespace p \<equiv> m_Namespace (cp_ObjectMeta p)"
abbreviation cp_Finalizers :: "collectionPipeline \<Rightarrow> string list" where "cp_Finalizers p \<equiv> m_Finalizers (cp_ObjectMeta p)"
abbreviation cp_Phase :: "collectionPipeline \<Rightarrow> string" where "cp_Phase p \<equiv> cpst_Phase (cp_Status p)"
abbreviation cp_RunRef :: "collectionPipeline \<Rightarrow> string" where "cp_RunRef p \<equiv> cpst_PipelineRunRef (cp_Status p)"
abbreviation cp_Parent :: "collectionPipeline \<Rightarrow> string" where "cp_Parent p \<equiv> cps_ParentPipeline (cp_Spec p)"
abbreviation cp_WorkingPVC :: "collectionPipeline \<Rightarrow> string" where "cp_WorkingPVC p \<equiv> cpst_WorkingPVCName (cp_Status p)"
abbreviation cp_BaseVersion :: "collectionPipeline \<Rightarrow> string" where "cp_BaseVersion p \<equiv> cps_BaseVersion (cp_Spec p)"
abbreviation cp_setFinalizers :: "collectionPipeline \<Rightarrow> string list \<Rightarrow> collectionPipeline" where
  "cp_setFinalizers p fs \<equiv> p\<lparr>cp_ObjectMeta := (cp_ObjectMeta p)\<lparr>m_Finalizers := fs\<rparr>\<rparr>"
abbreviation cp_keyless :: "collectionPipeline \<Rightarrow> keylessSigningConfig option" where
  "cp_keyless p \<equiv> Option.bind (cps_Signing (cp_Spec p)) csc_Keyless"

text \<open>\<^verbatim>\<open>Requests[corev1.ResourceStorage]\<close>: the zero quantity for a missing entry; the write to a nil map
  panics.\<close>

definition storageRequest :: "persistentVolumeClaim \<Rightarrow> quantity" where
  "storageRequest pvc =
     (case pvc_Requests pvc of None \<Rightarrow> ''0'' | Some m \<Rightarrow> (case m ''storage'' of Some q \<Rightarrow> q | None \<Rightarrow> ''0''))"

definition setStorageRequest :: "persistentVolumeClaim \<Rightarrow> quantity \<Rightarrow> persistentVolumeClaim res" where
  "setStorageRequest pvc q =
     (case pvc_Requests pvc of
        None \<Rightarrow> Inl (panic ''assignment to entry in nil map'')
      | Some m \<Rightarrow> Inr (pvc\<lparr>pvc_Requests := Some (m(''storage'' \<mapsto> q))\<rparr>))"

definition connectedOf :: "disconnectedPlatform option \<Rightarrow> connectedConfig option" where
  "connectedOf platform = Option.bind platform (\<lambda>p. dps_Connected (dp_Spec p))"

definition managedQuay :: "disconnectedPlatform option \<Rightarrow> managedQuayConfig option" where
  "managedQuay platform =
     (case Option.bind (connectedOf platform) (\<lambda>c. Option.bind (con_Quay c) quay_Managed) of
        Some m \<Rightarrow> (if mq_Enabled m then Some m else None)
      | None \<Rightarrow> None)"

definition managedSigning :: "disconnectedPlatform \<Rightarrow> bool" where
  "managedSigning platform \<longleftrightarrow>
     Option.bind (connectedOf (Some platform)) (\<lambda>c. Option.bind (con_RHTAS c)
       (\<lambda>t. Option.bind (tas_OIDC t) tasoidc_Managed)) \<noteq> None"

section \<open>Runs and storage\<close>

definition collectionPipelineRunPhase :: "pipelineRun \<Rightarrow> string" where
  "collectionPipelineRunPhase pr =
     (if pr_CompletionTime pr \<noteq> None
      then (if \<exists>c \<in> set (pr_Conditions pr). rc_Type c = ''Succeeded'' \<and> rc_Status c = ''True''
            then ''Complete'' else ''Failed'')
      else if pr_StartTime pr \<noteq> None then ''Collecting''
      else ''Pending'')"

definition getStorageSize :: "collectionPipeline \<Rightarrow> quantity" where
  "getStorageSize pipeline = (case cps_StorageSize (cp_Spec pipeline) of Some q \<Rightarrow> q | None \<Rightarrow> ''100Gi'')"

definition getMirrorImage :: "('w, 'x) env_scheme \<Rightarrow> string \<Rightarrow> string" where
  "getMirrorImage E MirrorImage = (if MirrorImage \<noteq> [] then MirrorImage else defaultMirrorImage E)"

definition getClusterDomain :: "('w, 'x) env_scheme \<Rightarrow> ('w, string) go" where
  "getClusterDomain E = do {
     ingress \<leftarrow> Get E (KUnstr (configGVK ''Ingress'')) theUnstr ([], ''cluster'');
     case ingress of
       Inl err \<Rightarrow> return ''cluster.example.com''
     | Inr ingress \<Rightarrow> do {
         let (domain, found, err) = nestedString E (u_Object ingress) [''spec'', ''domain''];
         if err \<noteq> None \<or> \<not> found then return ''cluster.example.com'' else return domain } }"

definition registryHost :: "collectionPipeline \<Rightarrow> string \<Rightarrow> managedQuayConfig \<Rightarrow> string" where
  "registryHost pipeline domain m =
     ''mirror-operator-quay-quay-'' @ cp_Namespace pipeline @ ''.'' @ domain @ ''/'' @ mq_OrganizationName m"

definition getIntermediateRegistry :: "('w, 'x) env_scheme \<Rightarrow> collectionPipeline \<Rightarrow> ('w, string) go" where
  "getIntermediateRegistry E pipeline = do {
     platform \<leftarrow> CollectionPipeline_findPlatform E;
     case platform of
       Inl _ \<Rightarrow> return []
     | Inr platform \<Rightarrow>
         (case managedQuay platform of
            None \<Rightarrow> return []
          | Some m \<Rightarrow> do {
              domain \<leftarrow> getClusterDomain E;
              return (registryHost pipeline domain m) }) }"

text \<open>The host of the first rule of an ingress owned by the analyzer with the given UID.\<close>

definition ingressHost :: "('w, 'x) env_scheme \<Rightarrow> string \<Rightarrow> unstr \<Rightarrow> string" where
  "ingressHost E uid ingress =
     (if \<exists>owner \<in> set (m_OwnerReferences (u_Meta ingress)). or_UID owner = uid
      then (let (rules, found, _) = nestedSlice E (u_Object ingress) [''spec'', ''rules'']
            in case rules of
                 rule # _ \<Rightarrow>
                   (if found then (case asMap (Some rule) of Some m \<Rightarrow> strOrEmpty (m ''host'') | None \<Rightarrow> []) else [])
               | [] \<Rightarrow> [])
      else [])"

fun firstHost :: "('w, 'x) env_scheme \<Rightarrow> string \<Rightarrow> unstr list \<Rightarrow> string" where
  "firstHost E uid [] = []"
| "firstHost E uid (i # is) = (if ingressHost E uid i \<noteq> [] then ingressHost E uid i else firstHost E uid is)"

definition getTPAAndKeycloakHosts :: "('w, 'x) env_scheme \<Rightarrow> ('w, string \<times> string \<times> string) go" where
  "getTPAAndKeycloakHosts E = do {
     tpaList \<leftarrow> ListObjs E (KUnstr \<lparr>g_Group = ''rhtpa.io'', g_Version = ''v1'', g_Kind = ''TrustedProfileAnalyzerList''\<rparr>)
                 theUnstr allObjects;
     case tpaList of
       Inl err \<Rightarrow> return ([], [], [])
     | Inr [] \<Rightarrow> return ([], [], [])
     | Inr (tpa # _) \<Rightarrow> do {
         ingressList \<leftarrow> ListObjs E (KUnstr \<lparr>g_Group = ''networking.k8s.io'', g_Version = ''v1'', g_Kind = ''IngressList''\<rparr>)
                         theUnstr (inNamespace (m_Namespace (u_Meta tpa)));
         case ingressList of
           Inl err \<Rightarrow> return ([], [], [])
         | Inr items \<Rightarrow> do {
             let tpaHostname = firstHost E (m_UID (u_Meta tpa)) items;
             if tpaHostname = [] then return ([], [], [])
             else do {
               let (oidcIssuer, found, err) = nestedString E (u_Object tpa) [''spec'', ''oidc'', ''issuerUrl''];
               if err \<noteq> None \<or> \<not> found \<or> oidcIssuer = [] then return (tpaHostname, [], [])
               else return (tpaHostname, oidcIssuer, ''cli'') } } } }"

section \<open>The stored configuration\<close>

definition ensureConfigMap :: "('w, 'x) env_scheme \<Rightarrow> collectionPipeline \<Rightarrow> string \<Rightarrow> ('w, configMap res) go" where
  "ensureConfigMap E pipeline name = do {
     platform \<leftarrow> CollectionPipeline_findPlatform E;
     let catalogOverride =
       (case platform of
          Inr p \<Rightarrow> (case connectedOf p of Some c \<Rightarrow> con_MirrorOperatorCatalog c | None \<Rightarrow> [])
        | Inl _ \<Rightarrow> []);
     let enrichedConfig = injectMirrorOperator E (cps_ImageSetConfig (cp_Spec pipeline)) catalogOverride;
     enrichedConfig \<leftarrow> injectArchitectImages E enrichedConfig;
     intReg \<leftarrow> getIntermediateRegistry E pipeline;
     (enrichedConfig, _) \<leftarrow> injectRHCOSServerImage E enrichedConfig intReg;
     let enrichedConfig = injectDefaultArchitecture E enrichedConfig;
     existing \<leftarrow> Get E KConfigMap theConfigMap (cp_Namespace pipeline, name);
     case existing of
       Inr existing \<Rightarrow>
         if cmGet existing configMapKey \<noteq> enrichedConfig then
           (case cm_Data existing of
              None \<Rightarrow> return (Inl (panic ''assignment to entry in nil map''))
            | Some m \<Rightarrow> Update E OConfigMap theConfigMap (existing\<lparr>cm_Data := Some (m(configMapKey \<mapsto> enrichedConfig))\<rparr>))
         else return (Inr existing)
     | Inl err \<Rightarrow>
         if \<not> isNotFound err then return (Inl err)
         else Create E OConfigMap theConfigMap
                \<lparr>cm_Meta = emptyMeta\<lparr>m_Name := name, m_Namespace := cp_Namespace pipeline,
                    m_OwnerReferences := [newControllerRef E (cp_ObjectMeta pipeline) (mirrorGVK ''CollectionPipeline'')]\<rparr>,
                 cm_Data = Some [configMapKey \<mapsto> enrichedConfig]\<rparr> }"

section \<open>The working volume\<close>

text \<open>The name both \<^verbatim>\<open>ensurePVC\<close> and \<^verbatim>\<open>buildPipelineRun\<close> compute; the parent is read where there is one.\<close>

definition workingPVCNameOf :: "('w, 'x) env_scheme \<Rightarrow> collectionPipeline \<Rightarrow> ('w, string res) go" where
  "workingPVCNameOf E pipeline =
     (if cp_Parent pipeline \<noteq> [] then do {
        parentPipeline \<leftarrow> Get E KPipeline thePipeline (cp_Namespace pipeline, cp_Parent pipeline);
        case parentPipeline of
          Inl err \<Rightarrow> return (Inl (wrap ''failed to get parent pipeline for PVC lookup'' err))
        | Inr parentPipeline \<Rightarrow>
            if cp_WorkingPVC parentPipeline \<noteq> [] then return (Inr (cp_WorkingPVC parentPipeline))
            else return (Inr (''collection-storage-'' @ cp_Parent pipeline)) }
      else if cps_Incremental (cp_Spec pipeline) \<and> cp_BaseVersion pipeline \<noteq> []
      then return (Inr (''collection-storage-'' @ cp_BaseVersion pipeline))
      else return (Inr (''collection-storage-'' @ cp_Name pipeline)))"

definition newWorkingPVC :: "('w, 'x) env_scheme \<Rightarrow> collectionPipeline \<Rightarrow> string \<Rightarrow> persistentVolumeClaim" where
  "newWorkingPVC E pipeline workingPVCName =
     \<lparr>pvc_Meta = emptyMeta\<lparr>m_Name := workingPVCName, m_Namespace := cp_Namespace pipeline,
         m_Labels := [''app.kubernetes.io/managed-by'' \<mapsto> ''mirror-operator'',
                      ''app.kubernetes.io/component'' \<mapsto> ''collection-storage'',
                      ''mirror.mathianasj.github.com/collection'' \<mapsto> cp_Name pipeline],
         m_OwnerReferences := [newControllerRef E (cp_ObjectMeta pipeline) (mirrorGVK ''CollectionPipeline'')]\<rparr>,
      pvc_AccessModes = [''ReadWriteOnce''],
      pvc_Requests = Some [''storage'' \<mapsto> getStorageSize pipeline],
      pvc_Capacity = Map.empty, pvc_Phase = []\<rparr>"

text \<open>\<^verbatim>\<open>ensurePVC\<close> changes the pipeline it is given (the recorded volume, and the server's version of the
  object): it returns it.\<close>

definition ensurePVC :: "('w, 'x) env_scheme \<Rightarrow> collectionPipeline \<Rightarrow> ('w, collectionPipeline res) go" where
  "ensurePVC E pipeline = do {
     name \<leftarrow> workingPVCNameOf E pipeline;
     case name of
       Inl err \<Rightarrow> return (Inl err)
     | Inr workingPVCName \<Rightarrow> do {
         tracked \<leftarrow> (if cp_WorkingPVC pipeline \<noteq> workingPVCName
           then StatusUpdate E OPipeline thePipeline
                  (pipeline\<lparr>cp_Status := (cp_Status pipeline)\<lparr>cpst_WorkingPVCName := workingPVCName\<rparr>\<rparr>)
           else return (Inr pipeline));
         case tracked of
           Inl err \<Rightarrow> return (Inl err)
         | Inr pipeline \<Rightarrow> do {
             existingWorking \<leftarrow> Get E KPVC thePVC (cp_Namespace pipeline, workingPVCName);
             case existingWorking of
               Inl err \<Rightarrow>
                 if \<not> isNotFound err then return (Inl err)
                 else if cps_Incremental (cp_Spec pipeline)
                 then return (Inl (errorf (''incremental collection requires base working PVC '' @ workingPVCName @ '' to exist'')))
                 else if cp_Parent pipeline \<noteq> []
                 then return (Inl (errorf (''parent pipeline collection requires parent working PVC '' @ workingPVCName @ '' to exist'')))
                 else do {
                   c \<leftarrow> Create E OPVC thePVC (newWorkingPVC E pipeline workingPVCName);
                   case c of Inl err \<Rightarrow> return (Inl err) | Inr _ \<Rightarrow> return (Inr pipeline) }
             | Inr existingWorking \<Rightarrow>
                 if quantityCmp E (getStorageSize pipeline) (storageRequest existingWorking) > 0 then
                   (case setStorageRequest existingWorking (getStorageSize pipeline) of
                      Inl p \<Rightarrow> return (Inl p)
                    | Inr pvc \<Rightarrow> do {
                        u \<leftarrow> Update E OPVC thePVC pvc;
                        case u of
                          Inl err \<Rightarrow> return (Inl (wrap (''failed to expand PVC '' @ workingPVCName) err))
                        | Inr _ \<Rightarrow> return (Inr pipeline) })
                 else return (Inr pipeline) } } }"

text \<open>The expansion at the top of \<^verbatim>\<open>Reconcile\<close>, with its own computation of the name.\<close>

definition expansionPVCName :: "collectionPipeline \<Rightarrow> string" where
  "expansionPVCName pipeline =
     (if cp_WorkingPVC pipeline \<noteq> [] then cp_WorkingPVC pipeline
      else if cp_Parent pipeline \<noteq> [] then ''collection-storage-'' @ cp_Parent pipeline
      else if cps_Incremental (cp_Spec pipeline) \<and> cp_BaseVersion pipeline \<noteq> []
      then ''collection-storage-'' @ cp_BaseVersion pipeline
      else ''collection-storage-'' @ cp_Name pipeline)"

definition expandStorage :: "('w, 'x) env_scheme \<Rightarrow> collectionPipeline \<Rightarrow> ('w, goerr option) go" where
  "expandStorage E pipeline =
     (case cps_StorageSize (cp_Spec pipeline) of
        None \<Rightarrow> return None
      | Some desiredSize \<Rightarrow> do {
          let pvcName = expansionPVCName pipeline;
          if pvcName \<noteq> [] then do {
            existingPVC \<leftarrow> Get E KPVC thePVC (cp_Namespace pipeline, pvcName);
            case existingPVC of
              Inl _ \<Rightarrow> return None
            | Inr existingPVC \<Rightarrow>
                if quantityCmp E desiredSize (storageRequest existingPVC) > 0 then
                  (case setStorageRequest existingPVC desiredSize of
                     Inl p \<Rightarrow> return (Some p)
                   | Inr pvc \<Rightarrow> do {
                       u \<leftarrow> Update E OPVC thePVC pvc;
                       case u of Inl err \<Rightarrow> return (Some err) | Inr _ \<Rightarrow> return None })
                else return None }
          else return None })"

section \<open>The collection run\<close>

definition keylessParams :: "collectionPipeline \<Rightarrow> param list" where
  "keylessParams pipeline =
     (case cp_keyless pipeline of
        Some k \<Rightarrow> [stringParam ''has-keyless-signing'' ''true'', stringParam ''fulcio-url'' (ksc_FulcioURL k),
                   stringParam ''rekor-url'' (ksc_RekorURL k), stringParam ''tuf-url'' (ksc_TUFURL k),
                   stringParam ''oidc-issuer'' (ksc_OIDCIssuer k), stringParam ''oidc-client-id'' (ksc_OIDCClientID k)]
      | None \<Rightarrow> [stringParam ''has-keyless-signing'' ''false'', stringParam ''fulcio-url'' [],
                 stringParam ''rekor-url'' [], stringParam ''tuf-url'' [], stringParam ''oidc-issuer'' [],
                 stringParam ''oidc-client-id'' []])"

definition withScheme :: "string \<Rightarrow> string" where
  "withScheme endpoint =
     (if hasPrefix endpoint ''http://'' \<or> hasPrefix endpoint ''https://'' then endpoint else ''http://'' @ endpoint)"

text \<open>The S3 parameters, from the bucket claim's \<^verbatim>\<open>ConfigMap\<close> where it could be read.\<close>

definition s3Params :: "configMap res \<Rightarrow> param list" where
  "s3Params obcConfigMap =
     (let (s3Bucket, s3Endpoint, s3Region, s3SecretName) =
        (case obcConfigMap of
           Inl _ \<Rightarrow> ([], [], [], [])
         | Inr cm \<Rightarrow>
             (cmGet cm ''BUCKET_NAME'',
              (if cmGet cm ''BUCKET_HOST'' \<noteq> [] then withScheme (cmGet cm ''BUCKET_HOST'') else []),
              (if cmGet cm ''BUCKET_REGION'' = [] then ''us-east-1'' else cmGet cm ''BUCKET_REGION''),
              ''collection-artifacts''))
      in [stringParam ''has-s3'' (if s3Bucket \<noteq> [] then ''true'' else ''false''),
          stringParam ''s3-bucket'' s3Bucket, stringParam ''s3-endpoint'' s3Endpoint,
          stringParam ''s3-region'' s3Region, stringParam ''s3-secret-name'' s3SecretName])"

definition architectParams :: "('w, 'x) env_scheme \<Rightarrow> disconnectedPlatform option res \<Rightarrow> param list" where
  "architectParams E platform =
     (case (case platform of Inr (Some p) \<Rightarrow> dps_Architect (dp_Spec p) | _ \<Rightarrow> None) of
        None \<Rightarrow> [stringParam ''architect-frontend-image'' (architectFrontendDefault E),
                 stringParam ''architect-backend-image'' (architectBackendDefault E),
                 stringParam ''architect-export-enabled'' ''true'']
      | Some arch \<Rightarrow>
          [stringParam ''architect-frontend-image''
             (if arch_FrontendImage arch \<noteq> [] then arch_FrontendImage arch else architectFrontendDefault E),
           stringParam ''architect-backend-image''
             (if arch_BackendImage arch \<noteq> [] then arch_BackendImage arch else architectBackendDefault E),
           stringParam ''architect-export-enabled'' (if consolePluginOnly arch then ''false'' else ''true'')])"

definition rhcosParams :: "disconnectedPlatform option \<Rightarrow> param list" where
  "rhcosParams platform =
     (case Option.bind (connectedOf platform) con_RHCOSCollection of
        None \<Rightarrow> [stringParam ''rhcos-download-enabled'' ''true'',
                 stringParam ''rhcos-server-base-image'' ''registry.access.redhat.com/ubi9/nginx-122:latest'']
      | Some rhc \<Rightarrow>
          [stringParam ''rhcos-download-enabled'' (if \<not> rhc_Enabled rhc then ''false'' else ''true''),
           stringParam ''rhcos-server-base-image''
             (if rhc_ServerBaseImage rhc \<noteq> [] then rhc_ServerBaseImage rhc
              else ''registry.access.redhat.com/ubi9/nginx-122:latest'')])"

definition osusParam :: "disconnectedPlatform option \<Rightarrow> param" where
  "osusParam platform =
     stringParam ''osus-enabled''
       (case Option.bind (connectedOf platform) (\<lambda>c. Option.bind (con_Operators c) ops_OSUS) of
          Some olm \<Rightarrow> (if olm_Disabled olm then ''false'' else ''true'')
        | None \<Rightarrow> ''true'')"

definition collectionWorkspaces :: "collectionPipeline \<Rightarrow> string \<Rightarrow> string \<Rightarrow> bool \<Rightarrow> workspaceBinding list" where
  "collectionWorkspaces pipeline cmName workingPVCName hasTPA =
     [\<lparr>wb_Name = ''config'', wb_Source = WsConfigMap cmName None\<rparr>,
      \<lparr>wb_Name = ''pull-secret'', wb_Source = WsSecret ''pull-secret''\<rparr>,
      \<lparr>wb_Name = ''output'', wb_Source = WsPVC workingPVCName\<rparr>] @
     (case Option.bind (cp_keyless pipeline) ksc_OIDCClientSecret of
        Some s \<Rightarrow> [\<lparr>wb_Name = ''oidc-secret'', wb_Source = WsSecret (lor_Name s)\<rparr>] | None \<Rightarrow> []) @
     (if hasTPA then [\<lparr>wb_Name = ''tpa-oidc-secret'', wb_Source = WsSecret ''rhtpa-oidc-cli-secret''\<rparr>] else []) @
     (case Option.bind (cps_Signing (cp_Spec pipeline)) csc_KeySecretRef of
        Some s \<Rightarrow> [\<lparr>wb_Name = ''cosign-key'', wb_Source = WsSecret (lor_Name s)\<rparr>] | None \<Rightarrow> []) @
     [\<lparr>wb_Name = ''architect-script'', wb_Source = WsConfigMap ''airgap-architect-import-script'' None\<rparr>,
      \<lparr>wb_Name = ''cluster-ca-bundle'', wb_Source = WsConfigMap clusterCABundleName (boolPtr True)\<rparr>]"

definition collectionRun ::
  "('w, 'x) env_scheme \<Rightarrow> collectionPipeline \<Rightarrow> param list \<Rightarrow> workspaceBinding list \<Rightarrow> pipelineRun" where
  "collectionRun E pipeline params workspaces =
     (let timeout = (case cps_Timeout (cp_Spec pipeline) of Some d \<Rightarrow> d | None \<Rightarrow> 12 * hour)
      in \<lparr>pr_Meta = emptyMeta\<lparr>m_GenerateName := ''collection-pipeline-'' @ cp_Name pipeline @ ''-'',
             m_Namespace := cp_Namespace pipeline,
             m_Annotations := [''results.tekton.dev/log'' \<mapsto> ''false'', ''results.tekton.dev/result'' \<mapsto> ''false''],
             m_OwnerReferences := [newControllerRef E (cp_ObjectMeta pipeline) (mirrorGVK ''CollectionPipeline'')]\<rparr>,
          pr_PipelineRef = ''collection-pipeline-template'', pr_PipelineSpec = None,
          pr_Params = params, pr_Workspaces = workspaces,
          pr_TimeoutPipeline = timeout, pr_TimeoutTasks = timeout,
          pr_StartTime = None, pr_CompletionTime = None, pr_Conditions = [], pr_Results = []\<rparr>)"

definition buildPipelineRun ::
  "('w, 'x) env_scheme \<Rightarrow> string \<Rightarrow> collectionPipeline \<Rightarrow> configMap \<Rightarrow> ('w, pipelineRun res) go" where
  "buildPipelineRun E MirrorImage pipeline cm = do {
     name \<leftarrow> (if cp_WorkingPVC pipeline \<noteq> [] then return (Inr (cp_WorkingPVC pipeline)) else workingPVCNameOf E pipeline);
     case name of
       Inl err \<Rightarrow> return (Inl err)
     | Inr workingPVCName \<Rightarrow> do {
         p \<leftarrow> CollectionPipeline_findPlatform E;
         case p of
           Inl err \<Rightarrow> return (Inl (wrap ''failed to find platform'' err))
         | Inr platform \<Rightarrow> do {
             intermediateRegistry \<leftarrow>
               (case managedQuay platform of
                  None \<Rightarrow> return []
                | Some m \<Rightarrow> do { domain \<leftarrow> getClusterDomain E; return (registryHost pipeline domain m) });
             (tpaHost, tpaOidcIssuer, tpaOidcClientID) \<leftarrow>
               (case Option.bind (connectedOf platform) con_RHTPA of
                  None \<Rightarrow> return ([], [], [])
                | Some _ \<Rightarrow> getTPAAndKeycloakHosts E);
             let hasTPA = (tpaHost \<noteq> []);
             obcConfigMap \<leftarrow> Get E KConfigMap theConfigMap (cp_Namespace pipeline, ''collection-artifacts'');
             platform2 \<leftarrow> CollectionPipeline_findPlatform E;
             (httpProxy, httpsProxy, noProxy) \<leftarrow> getClusterProxyFromClient E;
             let params =
               [stringParam ''config-map-name'' (m_Name (cm_Meta cm)),
                stringParam ''mirror-image'' (getMirrorImage E MirrorImage),
                stringParam ''working-pvc-name'' workingPVCName,
                stringParam ''collection-name'' (cp_Name pipeline),
                stringParam ''parent-pipeline'' (cp_Parent pipeline),
                stringParam ''intermediate-registry'' intermediateRegistry] @
               keylessParams pipeline @
               [stringParam ''has-tpa'' (if hasTPA then ''true'' else ''false''), stringParam ''tpa-host'' tpaHost,
                stringParam ''tpa-oidc-issuer'' tpaOidcIssuer, stringParam ''tpa-oidc-client-id'' tpaOidcClientID] @
               s3Params obcConfigMap @
               architectParams E platform2 @
               [stringParam ''oc-version'' (detectOCVersion E (cps_ImageSetConfig (cp_Spec pipeline))),
                stringParam ''mirror-registry-version'' ''latest'', stringParam ''cli-tools-enabled'' ''true'',
                stringParam ''http-proxy'' httpProxy, stringParam ''https-proxy'' httpsProxy,
                stringParam ''no-proxy'' noProxy] @
               rhcosParams platform @
               [osusParam platform];
             return (Inr (collectionRun E pipeline params
                       (collectionWorkspaces pipeline (m_Name (cm_Meta cm)) workingPVCName hasTPA))) } } }"

section \<open>Tracking\<close>

definition updatePlatformCollectionHistory :: "('w, 'x) env_scheme \<Rightarrow> collectionPipeline \<Rightarrow> ('w, unit) go" where
  "updatePlatformCollectionHistory E pipeline = do {
     platform \<leftarrow> CollectionPipeline_findPlatform E;
     case platform of
       Inl _ \<Rightarrow> return ()
     | Inr None \<Rightarrow> return ()
     | Inr (Some platform) \<Rightarrow> do {
         now \<leftarrow> effect (clock E);
         let info = \<lparr>ci_Version = cpst_Version (cp_Status pipeline), ci_Timestamp = now, ci_Size = [], ci_Status = ''Complete''\<rparr>;
         _ \<leftarrow> StatusUpdate E OPlatform thePlatform
               (platform\<lparr>dp_Status := (dp_Status platform)\<lparr>dpst_LastCollection := Some info,
                  dpst_CollectionHistory := dpst_CollectionHistory (dp_Status platform) @ [info]\<rparr>\<rparr>);
         return () } }"

text \<open>The last result of a run with a name, empty where there is none.\<close>

definition resultValue :: "string \<Rightarrow> param list \<Rightarrow> string" where
  "resultValue n results = fold (\<lambda>r acc. if p_Name r = n then p_Value r else acc) results []"

definition withResults :: "pipelineRun \<Rightarrow> collectionPipelineStatus \<Rightarrow> collectionPipelineStatus" where
  "withResults pr st =
     (let bundleURL = resultValue ''bundle-url'' (pr_Results pr);
          signatureURL = resultValue ''signature-url'' (pr_Results pr);
          sbomUrl = resultValue ''sbom-url'' (pr_Results pr);
          st = (if bundleURL \<noteq> [] then st\<lparr>cpst_BundleURL := bundleURL\<rparr> else st);
          st = (if signatureURL \<noteq> [] then st\<lparr>cpst_SignatureURL := signatureURL\<rparr> else st)
      in if sbomUrl \<noteq> [] then st\<lparr>cpst_SbomUrl := sbomUrl\<rparr> else st)"

text \<open>The fallback of \<^verbatim>\<open>trackPipelineRun\<close> when no URL is known: from the bucket claim and the S3 route.\<close>

definition fallbackBundleURL :: "('w, 'x) env_scheme \<Rightarrow> collectionPipeline \<Rightarrow> ('w, collectionPipeline) go" where
  "fallbackBundleURL E pipeline =
     (if cpst_BundleURL (cp_Status pipeline) \<noteq> [] then return pipeline
      else do {
        obcConfigMap \<leftarrow> Get E KConfigMap theConfigMap (cp_Namespace pipeline, ''collection-artifacts'');
        case obcConfigMap of
          Inl _ \<Rightarrow> return pipeline
        | Inr cm \<Rightarrow> do {
            let bucketName = cmGet cm ''BUCKET_NAME'';
            bucketHost \<leftarrow>
              (if cmGet cm ''BUCKET_HOST'' = ''s3.openshift-storage.svc'' then do {
                 s3Route \<leftarrow> Get E (KUnstr \<lparr>g_Group = ''route.openshift.io'', g_Version = ''v1'', g_Kind = ''Route''\<rparr>)
                             theUnstr (''openshift-storage'', ''s3'');
                 case s3Route of
                   Inl _ \<Rightarrow> return (cmGet cm ''BUCKET_HOST'')
                 | Inr s3Route \<Rightarrow> do {
                     let (host, found, _) = nestedString E (u_Object s3Route) [''spec'', ''host''];
                     return (if found \<and> host \<noteq> [] then host else cmGet cm ''BUCKET_HOST'') } }
               else return (cmGet cm ''BUCKET_HOST''));
            if bucketName \<noteq> [] \<and> bucketHost \<noteq> [] then do {
              let url = ''https://'' @ bucketHost @ ''/'' @ bucketName @ ''/'' @ cp_Name pipeline @ ''/'' @ cp_Name pipeline @ ''.tar.gz'';
              return (pipeline\<lparr>cp_Status := (cp_Status pipeline)\<lparr>cpst_BundleURL := url, cpst_SignatureURL := url @ ''.sig''\<rparr>\<rparr>) }
            else return pipeline } })"

definition trackPipelineRun :: "('w, 'x) env_scheme \<Rightarrow> collectionPipeline \<Rightarrow> nsname \<Rightarrow> ('w, outcome) go" where
  "trackPipelineRun E pipeline req = do {
     pr \<leftarrow> Get E KPipelineRun thePipelineRun (fst req, cp_RunRef pipeline);
     case pr of
       Inl err \<Rightarrow>
         if isNotFound err then do {
           u \<leftarrow> StatusUpdate E OPipeline thePipeline
                 (pipeline\<lparr>cp_Status := (cp_Status pipeline)\<lparr>cpst_PipelineRunRef := [], cpst_Phase := ''Stale''\<rparr>\<rparr>);
           return (finish u) }
         else return (noRequeue, Some err)
     | Inr pr \<Rightarrow> do {
         let phase = collectionPipelineRunPhase pr;
         let st = (cp_Status pipeline)\<lparr>cpst_Phase := phase\<rparr>;
         let st = (if pr_CompletionTime pr \<noteq> None then st\<lparr>cpst_CompletionTime := pr_CompletionTime pr\<rparr> else st);
         let st = (if pr_StartTime pr \<noteq> None then st\<lparr>cpst_StartTime := pr_StartTime pr\<rparr> else st);
         pipeline \<leftarrow>
           (if phase = ''Complete'' \<or> phase = ''Succeeded''
            then fallbackBundleURL E (pipeline\<lparr>cp_Status := withResults pr st\<rparr>)
            else return (pipeline\<lparr>cp_Status := st\<rparr>));
         u \<leftarrow> StatusUpdate E OPipeline thePipeline pipeline;
         case u of
           Inl err \<Rightarrow> return (noRequeue, Some err)
         | Inr pipeline \<Rightarrow> do {
             (if phase = ''Complete'' then updatePlatformCollectionHistory E pipeline else return ());
             if \<not> isDone E pr then return (requeueAfter (30 * second), None)
             else return (noRequeue, None) } } }"

section \<open>Cleanup\<close>

definition hasChildPipelines :: "('w, 'x) env_scheme \<Rightarrow> collectionPipeline \<Rightarrow> ('w, bool \<times> goerr option) go" where
  "hasChildPipelines E pipeline = do {
     r \<leftarrow> ListObjs E KPipeline thePipeline (inNamespace (cp_Namespace pipeline));
     case r of
       Inl err \<Rightarrow> return (False, Some (wrap ''failed to list CollectionPipelines'' err))
     | Inr items \<Rightarrow>
         return (\<exists>cp \<in> set items. cp_Parent cp = cp_Name pipeline \<and> cp_Name cp \<noteq> cp_Name pipeline, None) }"

definition deleteWorkingPVC :: "('w, 'x) env_scheme \<Rightarrow> collectionPipeline \<Rightarrow> ('w, unit) go" where
  "deleteWorkingPVC E pipeline = do {
     let pvcName = (if cp_WorkingPVC pipeline = [] then ''collection-storage-'' @ cp_Name pipeline else cp_WorkingPVC pipeline);
     pvc \<leftarrow> Get E KPVC thePVC (cp_Namespace pipeline, pvcName);
     case pvc of
       Inl _ \<Rightarrow> return ()
     | Inr pvc \<Rightarrow> do {
         _ \<leftarrow> Delete E KPVC (m_Namespace (pvc_Meta pvc), m_Name (pvc_Meta pvc));
         return () } }"

definition cleanupJob :: "collectionPipeline \<Rightarrow> string \<Rightarrow> string \<Rightarrow> envVar list \<Rightarrow> job" where
  "cleanupJob pipeline bucket endpoint proxyVars =
     \<lparr>job_Meta = emptyMeta\<lparr>m_Name := take 63 (''s3-cleanup-'' @ cp_Name pipeline), m_Namespace := cp_Namespace pipeline\<rparr>,
      job_TTLSecondsAfterFinished = 120, job_BackoffLimit = 2, job_RestartPolicy = ''Never'',
      job_Containers =
        [\<lparr>ctr_Name = ''s3-cleanup'', ctr_Image = ''amazon/aws-cli:latest'', ctr_Command = [''/bin/sh'', ''-c''],
          ctr_Args = [''aws --endpoint-url '' @ endpoint @ '' s3 rm s3://'' @ bucket @ ''/'' @ cp_Name pipeline @
                      ''/ --recursive && echo '' @ [CHR 0x22] @ ''S3 cleanup complete for '' @ cp_Name pipeline @ [CHR 0x22]],
          ctr_Env =
            [\<lparr>ev_Name = ''AWS_ACCESS_KEY_ID'', ev_Value = [],
              ev_SecretKeyRef = Some \<lparr>sks_Name = ''collection-artifacts'', sks_Key = ''AWS_ACCESS_KEY_ID''\<rparr>\<rparr>,
             \<lparr>ev_Name = ''AWS_SECRET_ACCESS_KEY'', ev_Value = [],
              ev_SecretKeyRef = Some \<lparr>sks_Name = ''collection-artifacts'', sks_Key = ''AWS_SECRET_ACCESS_KEY''\<rparr>\<rparr>] @
            proxyVars\<rparr>]\<rparr>"

definition deleteS3Objects :: "('w, 'x) env_scheme \<Rightarrow> collectionPipeline \<Rightarrow> ('w, unit) go" where
  "deleteS3Objects E pipeline = do {
     obcConfigMap \<leftarrow> Get E KConfigMap theConfigMap (cp_Namespace pipeline, ''collection-artifacts'');
     case obcConfigMap of
       Inl _ \<Rightarrow> return ()
     | Inr cm \<Rightarrow> do {
         let bucket = cmGet cm ''BUCKET_NAME'';
         let endpoint = cmGet cm ''BUCKET_HOST'';
         if bucket = [] \<or> endpoint = [] then return ()
         else do {
           (httpProxy, httpsProxy, noProxy) \<leftarrow> getClusterProxyFromClient E;
           let j = cleanupJob pipeline bucket (withScheme endpoint) (proxyEnvVarsTyped httpProxy httpsProxy noProxy);
           existing \<leftarrow> Get E KJob theJob (m_Namespace (job_Meta j), m_Name (job_Meta j));
           case existing of
             Inr _ \<Rightarrow> return ()
           | Inl _ \<Rightarrow> do {
               _ \<leftarrow> Create E OJob theJob j;
               return () } } } }"

definition CollectionPipeline_cleanup :: "('w, 'x) env_scheme \<Rightarrow> collectionPipeline \<Rightarrow> ('w, outcome) go" where
  "CollectionPipeline_cleanup E pipeline = do {
     (hasChildren, _) \<leftarrow> hasChildPipelines E pipeline;
     (if cp_Parent pipeline = [] \<and> \<not> hasChildren then deleteWorkingPVC E pipeline else return ());
     deleteS3Objects E pipeline;
     if containsString (cp_Finalizers pipeline) pipelineFinalizer then do {
       u \<leftarrow> Update E OPipeline thePipeline (cp_setFinalizers pipeline (removeString (cp_Finalizers pipeline) pipelineFinalizer));
       return (finish u) }
     else return (noRequeue, None) }"

text \<open>The platform that owns a pipeline: the first owner reference of that kind decides.\<close>

fun ownerPlatform :: "ownerReference list \<Rightarrow> string option" where
  "ownerPlatform [] = None"
| "ownerPlatform (r # rs) = (if or_Kind r = ''DisconnectedPlatform'' then Some (or_Name r) else ownerPlatform rs)"

definition getParentDisconnectedPlatform ::
  "('w, 'x) env_scheme \<Rightarrow> collectionPipeline \<Rightarrow> ('w, disconnectedPlatform option res) go" where
  "getParentDisconnectedPlatform E pipeline =
     (case ownerPlatform (m_OwnerReferences (cp_ObjectMeta pipeline)) of
        None \<Rightarrow> return (Inr None)
      | Some name \<Rightarrow> do {
          p \<leftarrow> Get E KPlatform thePlatform (cp_Namespace pipeline, name);
          case p of Inl err \<Rightarrow> return (Inl err) | Inr p \<Rightarrow> return (Inr (Some p)) })"

section \<open>The reconciler\<close>

text \<open>Whether a run that has not started was built without the keyless signing the pipeline now asks for.\<close>

definition signingConfigChanged :: "collectionPipeline \<Rightarrow> pipelineRun \<Rightarrow> bool" where
  "signingConfigChanged pipeline pr \<longleftrightarrow>
     pr_StartTime pr = None \<and> cp_keyless pipeline \<noteq> None \<and>
     (case pr_PipelineSpec pr of
        None \<Rightarrow> False
      | Some tasks \<Rightarrow>
          (case find (\<lambda>t. pt_Name t = ''cosign-sign'') tasks of
             None \<Rightarrow> False
           | Some signTask \<Rightarrow>
               \<not> (case pt_StepEnvs signTask of
                    Some (envs # _) \<Rightarrow> ''FULCIO_URL'' \<in> set envs
                  | _ \<Rightarrow> False)))"

definition reconcileRun :: "('w, 'x) env_scheme \<Rightarrow> collectionPipeline \<Rightarrow> nsname \<Rightarrow> ('w, outcome) go" where
  "reconcileRun E pipeline req = do {
     pr \<leftarrow> Get E KPipelineRun thePipelineRun (cp_Namespace pipeline, cp_RunRef pipeline);
     case pr of
       Inl _ \<Rightarrow> trackPipelineRun E pipeline req
     | Inr pr \<Rightarrow>
         if signingConfigChanged pipeline pr then do {
           d \<leftarrow> Delete E KPipelineRun (m_Namespace (pr_Meta pr), m_Name (pr_Meta pr));
           case d of
             Inl err \<Rightarrow> return (noRequeue, Some err)
           | Inr _ \<Rightarrow> do {
               u \<leftarrow> StatusUpdate E OPipeline thePipeline
                     (pipeline\<lparr>cp_Status := (cp_Status pipeline)\<lparr>cpst_PipelineRunRef := [], cpst_Phase := []\<rparr>\<rparr>);
               return (finish u) } }
         else trackPipelineRun E pipeline req }"

definition validateParent :: "('w, 'x) env_scheme \<Rightarrow> collectionPipeline \<Rightarrow> ('w, outcome + collectionPipeline) go" where
  "validateParent E pipeline =
     (if cp_Parent pipeline = [] then return (Inr pipeline)
      else do {
        parentPipeline \<leftarrow> Get E KPipeline thePipeline (cp_Namespace pipeline, cp_Parent pipeline);
        case parentPipeline of
          Inl err \<Rightarrow>
            if isNotFound err then do {
              now \<leftarrow> effect (clock E);
              u \<leftarrow> StatusUpdate E OPipeline thePipeline
                    (pipeline\<lparr>cp_Status := (cp_Status pipeline)\<lparr>cpst_Phase := ''Failed'', cpst_CompletionTime := Some now,
                       cpst_Conditions :=
                         [\<lparr>c_Type = ''ParentPipelineValid'', c_Status = ''False'', c_ObservedGeneration = 0,
                           c_LastTransitionTime = now, c_Reason = ''ParentNotFound'',
                           c_Message = ''parent pipeline '' @ cp_Parent pipeline @ '' not found''\<rparr>]\<rparr>\<rparr>);
              return (Inl (finish u)) }
            else return (Inl (noRequeue, Some err))
        | Inr parentPipeline \<Rightarrow>
            if cp_Phase parentPipeline \<noteq> CollectionPhaseComplete
            then return (Inl (requeueAfter (30 * second), None))
            else if cpst_ParentPipelineVersion (cp_Status pipeline) = [] then do {
              u \<leftarrow> StatusUpdate E OPipeline thePipeline
                    (pipeline\<lparr>cp_Status := (cp_Status pipeline)
                       \<lparr>cpst_ParentPipelineVersion := cpst_Version (cp_Status parentPipeline)\<rparr>\<rparr>);
              case u of Inl err \<Rightarrow> return (Inl (noRequeue, Some err)) | Inr pipeline \<Rightarrow> return (Inr pipeline) }
            else return (Inr pipeline) })"

definition checkBaseVersion :: "('w, 'x) env_scheme \<Rightarrow> collectionPipeline \<Rightarrow> ('w, outcome option) go" where
  "checkBaseVersion E pipeline =
     (if cps_Incremental (cp_Spec pipeline) \<and> cp_BaseVersion pipeline \<noteq> [] then do {
        platform \<leftarrow> CollectionPipeline_findPlatform E;
        case platform of
          Inl err \<Rightarrow> return (Some (noRequeue, Some err))
        | Inr None \<Rightarrow> return None
        | Inr (Some platform) \<Rightarrow>
            if \<not> versionExists (dpst_ImportHistory (dp_Status platform)) (cp_BaseVersion pipeline) then do {
              now \<leftarrow> effect (clock E);
              u \<leftarrow> StatusUpdate E OPipeline thePipeline
                    (pipeline\<lparr>cp_Status := (cp_Status pipeline)\<lparr>cpst_Phase := ''Failed'', cpst_CompletionTime := Some now,
                       cpst_Conditions := cpst_Conditions (cp_Status pipeline) @
                         [\<lparr>c_Type = ''DependencyCheck'', c_Status = ''False'', c_ObservedGeneration = 0,
                           c_LastTransitionTime = zeroTime, c_Reason = ''BaseVersionNotImported'',
                           c_Message = ''baseVersion '' @ cp_BaseVersion pipeline @
                             '' has not been imported; import it before running incremental collection''\<rparr>]\<rparr>\<rparr>);
              return (Some (finish u)) }
            else return None }
      else return None)"

definition ensureVersion :: "('w, 'x) env_scheme \<Rightarrow> collectionPipeline \<Rightarrow> ('w, collectionPipeline res) go" where
  "ensureVersion E pipeline =
     (if cpst_Version (cp_Status pipeline) = [] then do {
        now \<leftarrow> effect (clock E);
        StatusUpdate E OPipeline thePipeline
          (pipeline\<lparr>cp_Status := (cp_Status pipeline)
             \<lparr>cpst_Version := generateVersion now (cps_TriggerType (cp_Spec pipeline))\<rparr>\<rparr>) }
      else return (Inr pipeline))"

definition waitForSigning :: "collectionPipeline \<Rightarrow> disconnectedPlatform option res \<Rightarrow> bool" where
  "waitForSigning pipeline platform \<longleftrightarrow>
     (case platform of
        Inr (Some p) \<Rightarrow> managedSigning p \<and> cp_keyless pipeline = None
      | _ \<Rightarrow> False)"

definition launchRun :: "('w, 'x) env_scheme \<Rightarrow> string \<Rightarrow> collectionPipeline \<Rightarrow> configMap \<Rightarrow> ('w, outcome) go" where
  "launchRun E MirrorImage pipeline cm = do {
     pr \<leftarrow> buildPipelineRun E MirrorImage pipeline cm;
     case pr of
       Inl err \<Rightarrow> return (noRequeue, Some err)
     | Inr pr \<Rightarrow> do {
         created \<leftarrow> Create E OPipelineRun thePipelineRun pr;
         case created of
           Inl err \<Rightarrow>
             if isAlreadyExists err \<or> isConflict err then return (requeueNow, None)
             else return (noRequeue, Some err)
         | Inr pr \<Rightarrow> do {
             latest \<leftarrow> Get E KPipeline thePipeline (cp_Namespace pipeline, cp_Name pipeline);
             case latest of
               Inl err \<Rightarrow> return (noRequeue, Some err)
             | Inr latest \<Rightarrow>
                 if cp_RunRef latest \<noteq> [] \<and> cp_RunRef latest \<noteq> m_Name (pr_Meta pr) then do {
                   _ \<leftarrow> Delete E KPipelineRun (m_Namespace (pr_Meta pr), m_Name (pr_Meta pr));
                   return (requeueNow, None) }
                 else do {
                   now \<leftarrow> effect (clock E);
                   u \<leftarrow> StatusUpdate E OPipeline thePipeline
                         (latest\<lparr>cp_Status := (cp_Status latest)\<lparr>cpst_PipelineRunRef := m_Name (pr_Meta pr),
                            cpst_Phase := ''Pending'', cpst_StartTime := Some now\<rparr>\<rparr>);
                   return (finish u) } } } }"

definition startCollection :: "('w, 'x) env_scheme \<Rightarrow> string \<Rightarrow> collectionPipeline \<Rightarrow> configMap \<Rightarrow> ('w, outcome) go" where
  "startCollection E MirrorImage pipeline cm = do {
     v \<leftarrow> validateParent E pipeline;
     case v of
       Inl out \<Rightarrow> return out
     | Inr pipeline \<Rightarrow> do {
         b \<leftarrow> checkBaseVersion E pipeline;
         case b of
           Some out \<Rightarrow> return out
         | None \<Rightarrow> do {
             w \<leftarrow> ensureVersion E pipeline;
             case w of
               Inl err \<Rightarrow> return (noRequeue, Some err)
             | Inr pipeline \<Rightarrow> do {
                 e \<leftarrow> ensurePVC E pipeline;
                 case e of
                   Inl err \<Rightarrow> return (noRequeue, Some err)
                 | Inr pipeline \<Rightarrow> do {
                     platform \<leftarrow> CollectionPipeline_findPlatform E;
                     if waitForSigning pipeline platform then return (requeueAfter (2 * second), None)
                     else launchRun E MirrorImage pipeline cm } } } } }"

text \<open>A trigger annotation restarts a finished collection.\<close>

definition triggered :: "collectionPipeline \<Rightarrow> bool" where
  "triggered pipeline \<longleftrightarrow> m_Annotations (cp_ObjectMeta pipeline) triggerAnnotation \<noteq> None \<and> cp_RunRef pipeline \<noteq> [] \<and>
     (cp_Phase pipeline = ''Succeeded'' \<or> cp_Phase pipeline = ''Complete'' \<or> cp_Phase pipeline = ''Failed'' \<or>
      cp_Phase pipeline = ''Stale'')"

definition resetForTrigger :: "('w, 'x) env_scheme \<Rightarrow> collectionPipeline \<Rightarrow> ('w, outcome) go" where
  "resetForTrigger E pipeline = do {
     u \<leftarrow> Update E OPipeline thePipeline
           (pipeline\<lparr>cp_ObjectMeta := (cp_ObjectMeta pipeline)
              \<lparr>m_Annotations := (m_Annotations (cp_ObjectMeta pipeline))(triggerAnnotation := None)\<rparr>\<rparr>);
     case u of
       Inl err \<Rightarrow> return (noRequeue, Some err)
     | Inr pipeline \<Rightarrow> do {
         u \<leftarrow> StatusUpdate E OPipeline thePipeline
               (pipeline\<lparr>cp_Status := (cp_Status pipeline)\<lparr>cpst_PipelineRunRef := [], cpst_Version := [], cpst_Phase := [],
                  cpst_StartTime := None, cpst_CompletionTime := None\<rparr>\<rparr>);
         return (finish u) } }"

definition CollectionPipeline_Reconcile ::
  "('w, 'x) env_scheme \<Rightarrow> string \<Rightarrow> nsname \<Rightarrow> ('w, outcome) go" where
  "CollectionPipeline_Reconcile E MirrorImage req = do {
     r \<leftarrow> Get E KPipeline thePipeline req;
     case r of
       Inl err \<Rightarrow> if isNotFound err then return (noRequeue, None) else return (noRequeue, Some err)
     | Inr pipeline \<Rightarrow>
         if \<not> isZeroTime (m_DeletionTimestamp (cp_ObjectMeta pipeline)) then CollectionPipeline_cleanup E pipeline
         else if \<not> containsString (cp_Finalizers pipeline) pipelineFinalizer then do {
           u \<leftarrow> Update E OPipeline thePipeline (cp_setFinalizers pipeline (cp_Finalizers pipeline @ [pipelineFinalizer]));
           return (finish u) }
         else do {
           let configName = ''mirror-config-'' @ cp_Name pipeline;
           c \<leftarrow> ensureConfigMap E pipeline configName;
           case c of
             Inl err \<Rightarrow> return (noRequeue, Some err)
           | Inr cm \<Rightarrow> do {
               u \<leftarrow> (if cpst_ConfigMapRef (cp_Status pipeline) \<noteq> configName
                     then StatusUpdate E OPipeline thePipeline
                            (pipeline\<lparr>cp_Status := (cp_Status pipeline)\<lparr>cpst_ConfigMapRef := configName\<rparr>\<rparr>)
                     else return (Inr pipeline));
               case u of
                 Inl err \<Rightarrow> return (noRequeue, Some err)
               | Inr pipeline \<Rightarrow>
                   if triggered pipeline then resetForTrigger E pipeline
                   else do {
                     x \<leftarrow> expandStorage E pipeline;
                     case x of
                       Some err \<Rightarrow> return (noRequeue, Some err)
                     | None \<Rightarrow>
                         if cp_RunRef pipeline \<noteq> [] then reconcileRun E pipeline req
                         else startCollection E MirrorImage pipeline cm } } } }"

interpretation pipeline_fin: finalizer_ops
  "\<lambda>fs. containsString fs pipelineFinalizer" "\<lambda>fs. fs @ [pipelineFinalizer]"
  "\<lambda>fs. removeString fs pipelineFinalizer" pipelineFinalizer
  by (rule finalizer_ops_string)

end
