(* ===== verification/CollectionProps.thy ===== *)
theory CollectionProps
  imports Collection Scripted
begin

text \<open>
  The correctness of the collection controller: the frame conditions of its parts (which requests each of
  them can make), the gates a pipeline passes before a run is launched, the launch protocol against
  duplicate runs, the growth of volume claims (an instance of the locale \<open>trace_closed\<close>), cleanup and
  tracking.
\<close>

section \<open>Lemmas\<close>

lemma only_reads:
  "only isRead (getClusterDomain E)"
  "only isRead (injectArchitectImages E y)"
  "only isRead (injectRHCOSServerImage E y reg)"
  "only isRead (getTPAAndKeycloakHosts E)"
  "only isRead (workingPVCNameOf E p)"
  "only isRead (getClusterProxyFromClient E)"
  "only isRead (hasChildPipelines E p)"
  "only isRead (fallbackBundleURL E p)"
  unfolding getClusterDomain_def injectArchitectImages_def injectRHCOSServerImage_def
    getTPAAndKeycloakHosts_def workingPVCNameOf_def getClusterProxyFromClient_def hasChildPipelines_def fallbackBundleURL_def
  by (intro only_intros; simp)+

lemmas only_reads_mono [only_intros] = only_reads [THEN only_mono]

lemma only_getIntermediateRegistry: "only isRead (getIntermediateRegistry E p)"
  unfolding getIntermediateRegistry_def by (intro only_intros; simp)

lemma only_buildPipelineRun: "only isRead (buildPipelineRun E img p cm)"
  unfolding buildPipelineRun_def by (intro only_intros; simp)

lemmas only_reads_mono2 [only_intros] = only_getIntermediateRegistry [THEN only_mono] only_buildPipelineRun [THEN only_mono]

text \<open>The requests the parts of the reconciler make beside reads. \<open>pipelineWork\<close> is what may happen before a
  run is launched.\<close>

definition writesTo :: "kind set \<Rightarrow> request \<Rightarrow> bool" where
  "writesTo ks q \<longleftrightarrow>
     (case q of
        RCreate x \<Rightarrow> (KConfigMap \<in> ks \<and> theConfigMap x \<noteq> None) \<or> (KPVC \<in> ks \<and> thePVC x \<noteq> None) \<or> (KJob \<in> ks \<and> theJob x \<noteq> None)
      | RUpdate x \<Rightarrow> (KConfigMap \<in> ks \<and> theConfigMap x \<noteq> None) \<or> (KPVC \<in> ks \<and> thePVC x \<noteq> None)
      | RStatusUpdate x \<Rightarrow> (KPipeline \<in> ks \<and> thePipeline x \<noteq> None) \<or> (KPlatform \<in> ks \<and> thePlatform x \<noteq> None)
      | RDelete k nn \<Rightarrow> False
      | _ \<Rightarrow> True)"

lemma writesTo_simps [simp]:
  "writesTo ks (RGet k nn)" "writesTo ks (RList k lo)"
  "writesTo ks (RCreate (OConfigMap c)) \<longleftrightarrow> KConfigMap \<in> ks" "writesTo ks (RUpdate (OConfigMap c)) \<longleftrightarrow> KConfigMap \<in> ks"
  "writesTo ks (RCreate (OPVC v)) \<longleftrightarrow> KPVC \<in> ks" "writesTo ks (RUpdate (OPVC v)) \<longleftrightarrow> KPVC \<in> ks"
  "writesTo ks (RCreate (OJob j)) \<longleftrightarrow> KJob \<in> ks" "\<not> writesTo ks (RDelete k nn)"
  "writesTo ks (RStatusUpdate (OPipeline p)) \<longleftrightarrow> KPipeline \<in> ks"
  "writesTo ks (RStatusUpdate (OPlatform f)) \<longleftrightarrow> KPlatform \<in> ks"
  "\<not> writesTo ks (RCreate (OPipelineRun pr))"
  by (simp_all add: writesTo_def)

lemma only_parts:
  "only (writesTo {KConfigMap}) (ensureConfigMap E p n)"
  "only (writesTo {KPVC}) (expandStorage E p)"
  "only (writesTo {KPipeline}) (validateParent E p)"
  "only (writesTo {KPipeline}) (checkBaseVersion E p)"
  "only (writesTo {KPipeline}) (ensureVersion E p)"
  "only (writesTo {KPipeline, KPVC}) (ensurePVC E p)"
  "only (writesTo {KPlatform}) (updatePlatformCollectionHistory E p)"
  "only (writesTo {KJob}) (deleteS3Objects E p)"
  unfolding ensureConfigMap_def expandStorage_def validateParent_def checkBaseVersion_def ensureVersion_def ensurePVC_def
    updatePlatformCollectionHistory_def deleteS3Objects_def
  by (intro only_intros; auto simp: isRead_iff)+

lemmas only_parts_mono [only_intros] = only_parts [THEN only_mono]

lemma writesTo_no_run [simp]: "writesTo ks q \<Longrightarrow> \<not> creates thePipelineRun q"
  by (cases q) (auto simp: writesTo_def)

lemma writesTo_mono: "writesTo A q \<Longrightarrow> A \<subseteq> B \<Longrightarrow> writesTo B q"
  by (cases q) (auto simp: writesTo_def)

lemma only_tracking: "only (writesTo {KPipeline, KPlatform}) (trackPipelineRun E p req)"
  unfolding trackPipelineRun_def
  by (intro only_intros; auto simp: isRead_iff elim: writesTo_mono)

lemma only_reconcileRun [only_intros]: "only (\<lambda>q. \<not> creates thePipelineRun q) (reconcileRun E p req)"
  unfolding reconcileRun_def
  by (intro only_intros only_tracking [THEN only_mono]; simp)

lemma only_cleanup [only_intros]: "only (\<lambda>q. \<not> creates thePipelineRun q) (CollectionPipeline_cleanup E p)"
  unfolding CollectionPipeline_cleanup_def deleteWorkingPVC_def
  by (intro only_intros; auto simp: isRead_iff)

lemma only_resetForTrigger [only_intros]: "only (\<lambda>q. \<not> creates thePipelineRun q) (resetForTrigger E p)"
  unfolding resetForTrigger_def by (intro only_intros; auto)

section \<open>The gates before a launch\<close>

text \<open>The API server stores what a status update sends and leaves the specification alone: the traces in
  which its answers say so.\<close>

definition same_pipeline :: "collectionPipeline \<Rightarrow> collectionPipeline \<Rightarrow> bool" where
  "same_pipeline p p' \<longleftrightarrow> cp_Spec p' = cp_Spec p \<and> cp_Name p' = cp_Name p \<and> cp_Namespace p' = cp_Namespace p"

lemma same_pipeline_trans: "same_pipeline p q \<Longrightarrow> same_pipeline q r \<Longrightarrow> same_pipeline p r"
  by (simp add: same_pipeline_def)

lemma same_pipeline_status [simp]: "same_pipeline p p" "same_pipeline (p\<lparr>cp_Status := s\<rparr>) q = same_pipeline p q"
  by (simp_all add: same_pipeline_def)

definition spec_kept :: "event \<Rightarrow> bool" where
  "spec_kept e =
     (case statusWrite thePipeline e of
        None \<Rightarrow> True
      | Some p \<Rightarrow> (case decode1 thePipeline (snd e) of Inl _ \<Rightarrow> True | Inr p' \<Rightarrow> same_pipeline p p'))"

lemma spec_kept_simps [simp]:
  "spec_kept (RGet k nn, r)" "spec_kept (RList k lo, r)" "spec_kept (RCreate x, r)" "spec_kept (RUpdate x, r)"
  "spec_kept (RDelete k nn, r)"
  "spec_kept (RStatusUpdate (OPipeline p), Inr [OPipeline p']) \<longleftrightarrow> same_pipeline p p'"
  by (simp_all add: spec_kept_def)

abbreviation noRun :: "event list \<Rightarrow> bool" where
  "noRun \<equiv> list_all (\<lambda>e. \<not> creates thePipelineRun (fst e))"

definition gate_parent :: "collectionPipeline \<Rightarrow> event list \<Rightarrow> bool" where
  "gate_parent p es \<longleftrightarrow> cp_Parent p = [] \<or>
     (\<exists>pp. (RGet KPipeline (cp_Namespace p, cp_Parent p), Inr [OPipeline pp]) \<in> set es \<and> cp_Phase pp = ''Complete'')"

definition gate_base :: "collectionPipelineSpec \<Rightarrow> event list \<Rightarrow> bool" where
  "gate_base s es \<longleftrightarrow> \<not> cps_Incremental s \<or> cps_BaseVersion s = [] \<or>
     (\<exists>r. (RList KPlatform allObjects, r) \<in> set es \<and>
        (firstItem (decodeAll thePlatform r) = Inr None \<or>
         (\<exists>f. firstItem (decodeAll thePlatform r) = Inr (Some f) \<and>
            versionExists (dpst_ImportHistory (dp_Status f)) (cps_BaseVersion s))))"

definition gate_signing :: "collectionPipelineSpec \<Rightarrow> event list \<Rightarrow> bool" where
  "gate_signing s es \<longleftrightarrow> Option.bind (cps_Signing s) csc_Keyless \<noteq> None \<or>
     (\<exists>r. (RList KPlatform allObjects, r) \<in> set es \<and>
        (\<forall>f. firstItem (decodeAll thePlatform r) = Inr (Some f) \<longrightarrow> \<not> managedSigning f))"

lemma gate_mono:
  "gate_parent p es \<Longrightarrow> set es \<subseteq> set es' \<Longrightarrow> gate_parent p es'"
  "gate_base s es \<Longrightarrow> set es \<subseteq> set es' \<Longrightarrow> gate_base s es'"
  "gate_signing s es \<Longrightarrow> set es \<subseteq> set es' \<Longrightarrow> gate_signing s es'"
  unfolding gate_parent_def gate_base_def gate_signing_def by blast+

lemma spec_validateParent:
  "spec (validateParent E p) (\<lambda>es v. noRun es \<and>
     (case v of Inl _ \<Rightarrow> True | Inr p' \<Rightarrow> gate_parent p es \<and> (list_all spec_kept es \<longrightarrow> same_pipeline p p')))"
  unfolding validateParent_def
  by (intro spec_intros; auto simp: gate_parent_def CollectionPhaseComplete_def)

lemma spec_checkBaseVersion:
  "spec (checkBaseVersion E p) (\<lambda>es v. noRun es \<and> (v = None \<longrightarrow> gate_base (cp_Spec p) es))"
  unfolding checkBaseVersion_def
  by (intro spec_intros; auto simp: gate_base_def)

lemma spec_ensureVersion:
  "spec (ensureVersion E p) (\<lambda>es v. noRun es \<and> (\<forall>p'. v = Inr p' \<longrightarrow> list_all spec_kept es \<longrightarrow> same_pipeline p p'))"
  unfolding ensureVersion_def by (intro spec_intros; auto)

lemma spec_ensurePVC:
  "spec (ensurePVC E p) (\<lambda>es v. noRun es \<and> (\<forall>p'. v = Inr p' \<longrightarrow> list_all spec_kept es \<longrightarrow> same_pipeline p p'))"
  unfolding ensurePVC_def
  by (rule spec_bindI [OF only_reads(5) [unfolded only_def]])
     (intro spec_intros; auto simp: isRead_iff list_all_iff)

definition gates :: "collectionPipeline \<Rightarrow> event list \<Rightarrow> bool" where
  "gates p es \<longleftrightarrow> gate_parent p es \<and> gate_base (cp_Spec p) es \<and> gate_signing (cp_Spec p) es"

lemma only_launchRun: "only (\<lambda>_. True) (launchRun E img p cm)"
  unfolding launchRun_def by (intro only_intros; simp)

lemma gates_same: "same_pipeline p p' \<Longrightarrow> gates p' es \<Longrightarrow> gates p es"
  by (simp add: gates_def gate_parent_def same_pipeline_def)

lemma gates_mono: "gates p es \<Longrightarrow> set es \<subseteq> set es' \<Longrightarrow> gates p es'"
  unfolding gates_def by (meson gate_mono)

lemma spec_startCollection:
  "spec (startCollection E img p cm) (\<lambda>es out. noRun es \<or> (list_all spec_kept es \<longrightarrow> gates p es))"
  unfolding startCollection_def
proof (rule spec_bindI [OF spec_validateParent], rule spec_case_sum, simp,
    rule spec_bindI [OF spec_checkBaseVersion], rule spec_case_option [rotated], simp,
    rule spec_bindI [OF spec_ensureVersion], rule spec_case_sum, simp,
    rule spec_bindI [OF spec_ensurePVC], rule spec_case_sum, simp,
    rule spec_bind_findPlatform, rule spec_if, simp, rule only_spec [OF only_launchRun])
qed (auto simp: gates_def waitForSigning_def gate_signing_def same_pipeline_def split: sum.splits option.splits elim!: gate_mono)

lemma spec_expandStorage: "spec (expandStorage E p) (\<lambda>es x. noRun es)"
  by (rule only_spec [OF only_parts(2)]) (auto simp: list_all_iff)

lemma spec_ensureConfigMap: "spec (ensureConfigMap E p n) (\<lambda>es x. noRun es)"
  by (rule only_spec [OF only_parts(1)]) (auto simp: list_all_iff)

lemma spec_noRun: "only (\<lambda>q. \<not> creates thePipelineRun q) m \<Longrightarrow> (\<And>es x. noRun es \<Longrightarrow> R es x) \<Longrightarrow> spec m R"
  by (rule only_spec)

lemma spec_statusOrSkip:
  "spec (if b then StatusUpdate E OPipeline thePipeline (p\<lparr>cp_Status := s\<rparr>) else return (Inr p))
     (\<lambda>es x. noRun es \<and> (\<forall>p'. x = Inr p' \<longrightarrow> list_all spec_kept es \<longrightarrow> same_pipeline p p'))"
  by (intro spec_intros; auto)

definition admitted :: "nsname \<Rightarrow> event list \<Rightarrow> bool" where
  "admitted req es \<longleftrightarrow>
     (\<exists>p es'. es = (RGet KPipeline req, Inr [OPipeline p]) # es' \<and> isZeroTime (m_DeletionTimestamp (cp_ObjectMeta p)) \<and>
        pipelineFinalizer \<in> set (cp_Finalizers p) \<and> gates p es)"

section \<open>The launch protocol\<close>

definition collection_settled :: "pipelineRun \<Rightarrow> event list \<Rightarrow> outcome \<Rightarrow> bool" where
  "collection_settled pr rest out \<longleftrightarrow>
     (let name = m_Name (pr_Meta pr) in
      (\<exists>nn e. rest = [(RGet KPipeline nn, e)] \<and> snd out \<noteq> None) \<or>
      (\<exists>nn l r. rest = [(RGet KPipeline nn, Inr [OPipeline l]), (RDelete KPipelineRun (m_Namespace (pr_Meta pr), name), r)] \<and>
         cp_RunRef l \<notin> {[], name} \<and> out = (requeueNow, None)) \<or>
      (\<exists>nn l w r. rest = [(RGet KPipeline nn, Inr [OPipeline l]), (RStatusUpdate (OPipeline w), r)] \<and>
         cp_RunRef l \<in> {[], name} \<and> cp_RunRef w = name \<and> cp_Phase w = ''Pending'' \<and> cp_Spec w = cp_Spec l \<and>
         out = (noRequeue, errOf (decode1 thePipeline r))))"

definition run_protocol :: "event list \<Rightarrow> outcome \<Rightarrow> bool" where
  "run_protocol es out \<longleftrightarrow> length (creations thePipelineRun es) \<le> 1 \<and>
     (case afterCreation thePipelineRun es of None \<Rightarrow> True | Some (pr, rest) \<Rightarrow> collection_settled pr rest out)"

lemma run_protocol_noRun [simp]:
  "noRun es \<Longrightarrow> run_protocol es out" "noRun es \<Longrightarrow> run_protocol (es @ es') out = run_protocol es' out"
  by (simp_all add: run_protocol_def)

text \<open>Operations that launch no run can be skipped over, and a program made only of them conforms.\<close>

lemma spec_skip_noRun:
  "only (\<lambda>q. \<not> creates thePipelineRun q) m \<Longrightarrow> (\<And>x. spec (f x) run_protocol) \<Longrightarrow> spec (State_Monad.bind m f) run_protocol"
  unfolding only_def by (erule spec_bind_seq, assumption) simp

lemma spec_noRun_protocol: "only (\<lambda>q. \<not> creates thePipelineRun q) m \<Longrightarrow> spec m run_protocol"
  by (erule only_spec) simp

lemma spec_launchRun: "spec (launchRun E img p cm) run_protocol"
  unfolding launchRun_def
  by (rule spec_skip_noRun, rule only_buildPipelineRun [THEN only_mono], auto simp: isRead_iff)
     (intro spec_intros; simp add: run_protocol_def collection_settled_def Let_def finish_def)

lemmas no_run_parts = only_parts [THEN only_mono, OF writesTo_no_run]

section \<open>Growth of volumes\<close>

definition grows :: "('w, 'x) env_scheme \<Rightarrow> persistentVolumeClaim \<Rightarrow> persistentVolumeClaim \<Rightarrow> bool" where
  "grows E u v \<longleftrightarrow> (\<exists>m q. pvc_Requests u = Some m \<and> v = u\<lparr>pvc_Requests := Some (m(''storage'' \<mapsto> q))\<rparr> \<and>
     quantityCmp E q (storageRequest u) > 0)"

definition pvcUpdate :: "request \<Rightarrow> persistentVolumeClaim option" where
  "pvcUpdate q = (case q of RUpdate x \<Rightarrow> thePVC x | _ \<Rightarrow> None)"

lemma pvcUpdate_simps [simp]:
  "pvcUpdate (RUpdate x) = thePVC x" "pvcUpdate (RGet k nn) = None" "pvcUpdate (RList k lo) = None"
  "pvcUpdate (RCreate x) = None" "pvcUpdate (RStatusUpdate x) = None" "pvcUpdate (RDelete k nn) = None"
  by (simp_all add: pvcUpdate_def)

fun volumes_grow :: "('w, 'x) env_scheme \<Rightarrow> persistentVolumeClaim option \<Rightarrow> event list \<Rightarrow> bool" where
  "volumes_grow E cur [] \<longleftrightarrow> True"
| "volumes_grow E cur (e # es) \<longleftrightarrow>
     (case pvcUpdate (fst e) of
        Some v \<Rightarrow> (case cur of None \<Rightarrow> False | Some u \<Rightarrow> grows E u v) \<and> volumes_grow E cur es
      | None \<Rightarrow> volumes_grow E (case readObj KPVC thePVC e of Some u \<Rightarrow> Some u | None \<Rightarrow> cur) es)"

lemma volumes_grow_None: "volumes_grow E None es \<Longrightarrow> volumes_grow E cur es"
proof (induction es arbitrary: cur)
  case (Cons e es)
  then show ?case by (auto split: option.splits)
qed simp

lemma volumes_grow_append: "volumes_grow E cur es \<Longrightarrow> volumes_grow E None es' \<Longrightarrow> volumes_grow E cur (es @ es')"
  by (induction es arbitrary: cur) (auto simp: volumes_grow_None split: option.splits)

lemma no_update_grows: "list_all (\<lambda>e. pvcUpdate (fst e) = None) es \<Longrightarrow> volumes_grow E cur es"
  by (induction es arbitrary: cur) auto

lemma setStorageRequest_grows:
  "setStorageRequest u q = Inr v \<Longrightarrow> quantityCmp E q (storageRequest u) > 0 \<Longrightarrow> grows E u v"
  by (auto simp: setStorageRequest_def grows_def split: option.splits)

interpretation volumes: trace_closed "volumes_grow E None"
  by unfold_locales (auto intro: volumes_grow_append)

lemma grow_expandStorage: "spec (expandStorage E p) (\<lambda>es _. volumes_grow E None es)"
  unfolding expandStorage_def by (intro spec_intros; simp add: setStorageRequest_grows)

lemma writesTo_no_volume: "writesTo ks q \<Longrightarrow> KPVC \<notin> ks \<Longrightarrow> volumes_grow E None [(q, r)]"
  by (cases q) (auto simp: writesTo_def split: option.splits)

lemma isRead_no_volume: "isRead q \<Longrightarrow> volumes_grow E None [(q, r)]"
  by (cases q) auto

lemma grow_ensurePVC: "spec (ensurePVC E p) (\<lambda>es _. volumes_grow E None es)"
  unfolding ensurePVC_def
  by (rule volumes.bind [OF volumes.from_only [OF only_reads(5) isRead_no_volume]], assumption)
     (intro spec_intros; simp add: setStorageRequest_grows)

lemma only_no_volume:
  "only (\<lambda>q. pvcUpdate q = None) (reconcileRun E p req)"
  "only (\<lambda>q. pvcUpdate q = None) (CollectionPipeline_cleanup E p)"
  "only (\<lambda>q. pvcUpdate q = None) (resetForTrigger E p)"
  "only (\<lambda>q. pvcUpdate q = None) (launchRun E img p cm)"
  "only (\<lambda>q. pvcUpdate q = None) (checkBaseVersion E p)"
  "only (\<lambda>q. pvcUpdate q = None) (validateParent E p)"
  "only (\<lambda>q. pvcUpdate q = None) (ensureVersion E p)"
  "only (\<lambda>q. pvcUpdate q = None) (ensureConfigMap E p n)"
  unfolding reconcileRun_def CollectionPipeline_cleanup_def resetForTrigger_def launchRun_def deleteWorkingPVC_def
    checkBaseVersion_def validateParent_def ensureVersion_def ensureConfigMap_def trackPipelineRun_def
  by (intro only_intros; auto simp: isRead_iff writesTo_def split: request.splits)+

lemma no_update_single: "pvcUpdate q = None \<Longrightarrow> volumes_grow E None [(q, r)]"
  by (rule no_update_grows) simp

lemma spec_reconcile_gates:
  "spec (CollectionPipeline_Reconcile E img req) (\<lambda>es out. noRun es \<or> (list_all spec_kept es \<longrightarrow> admitted req es))"
  unfolding CollectionPipeline_Reconcile_def
proof (rule spec_bind_Get, rule spec_case_sum, (intro spec_intros; simp),
    rule spec_if, rule spec_noRun [OF only_cleanup], simp,
    rule spec_if, (intro spec_intros; simp),
    rule spec_Let, rule spec_bindI [OF spec_ensureConfigMap], rule spec_case_sum, simp,
    rule spec_bindI [OF spec_statusOrSkip], rule spec_case_sum, simp,
    rule spec_if, rule spec_noRun [OF only_resetForTrigger], simp,
    rule spec_bindI [OF spec_expandStorage], rule spec_case_option [rotated], simp,
    rule spec_if, rule spec_noRun [OF only_reconcileRun], simp,
    rule spec_mono [OF spec_startCollection])
qed (auto simp: admitted_def elim!: gates_same intro: gates_mono)

interpretation collection_phases: run_phases collectionPipelineRunPhase "''Collecting''"
  by unfold_locales (auto simp: collectionPipelineRunPhase_def succeeded_def)

section \<open>Cleanup\<close>

fun deletesPVC :: "request \<Rightarrow> bool" where
  "deletesPVC (RDelete k nn) = (k = KPVC)"
| "deletesPVC _ = False"

abbreviation deletesVolume :: "event list \<Rightarrow> bool" where
  "deletesVolume \<equiv> list_ex (\<lambda>e. deletesPVC (fst e))"

definition childOf :: "collectionPipeline \<Rightarrow> collectionPipeline \<Rightarrow> bool" where
  "childOf p c \<longleftrightarrow> cp_Parent c = cp_Name p \<and> cp_Name c \<noteq> cp_Name p"

definition releaseFinalizer :: "collectionPipeline \<Rightarrow> request" where
  "releaseFinalizer p = RUpdate (OPipeline (cp_setFinalizers p (removeString (cp_Finalizers p) pipelineFinalizer)))"

lemma writesTo_no_delete: "writesTo ks q \<Longrightarrow> \<not> deletesPVC q"
  by (cases q) (auto simp: writesTo_def)

lemma no_deletes: "list_all (\<lambda>e. writesTo ks (fst e)) es \<Longrightarrow> \<not> deletesVolume es"
  by (auto simp: list_all_iff list_ex_iff dest: writesTo_no_delete)

text \<open>What follows the decision about the volume: the bucket, then the finalizer.\<close>

lemma spec_cleanup_tail:
  "spec (do { deleteS3Objects E p;
              if containsString (cp_Finalizers p) pipelineFinalizer then do {
                u \<leftarrow> Update E OPipeline thePipeline (cp_setFinalizers p (removeString (cp_Finalizers p) pipelineFinalizer));
                return (finish u) }
              else return (noRequeue, None) })
     (\<lambda>es out. \<not> deletesVolume es \<and>
        (\<exists>pre. list_all (\<lambda>e. writesTo {KJob} (fst e)) pre \<and>
           (if pipelineFinalizer \<in> set (cp_Finalizers p)
            then \<exists>r. es = pre @ [(releaseFinalizer p, r)] \<and> out = (noRequeue, errOf (decode1 thePipeline r))
            else es = pre \<and> out = (noRequeue, None))))"
proof (rule spec_bindI [OF only_parts(8) [unfolded only_def]], intro spec_intros)
qed (auto simp: releaseFinalizer_def finish_def dest: no_deletes)

definition volumeName :: "collectionPipeline \<Rightarrow> string" where
  "volumeName p = (if cp_WorkingPVC p = [] then ''collection-storage-'' @ cp_Name p else cp_WorkingPVC p)"

section \<open>Tracking\<close>

definition tracked :: "('w, 'x) env_scheme \<Rightarrow> collectionPipeline \<Rightarrow> pipelineRun \<Rightarrow> event list \<Rightarrow> outcome \<Rightarrow> bool" where
  "tracked E p pr rest out \<longleftrightarrow>
     (\<exists>reads w r post. rest = reads @ (RStatusUpdate (OPipeline w), r) # post \<and> list_all (\<lambda>e. isRead (fst e)) reads \<and>
        cp_Phase w = collectionPipelineRunPhase pr \<and> cp_RunRef w = cp_RunRef p \<and> cp_Spec w = cp_Spec p \<and>
        list_all (\<lambda>e. writesTo {KPlatform} (fst e)) post \<and>
        (case decode1 thePipeline r of
           Inl e \<Rightarrow> post = [] \<and> out = (noRequeue, Some e)
         | Inr _ \<Rightarrow> (post \<noteq> [] \<longrightarrow> collectionPipelineRunPhase pr = ''Complete'') \<and>
             out = (if isDone E pr then noRequeue else requeueAfter (30 * second), None)))"

lemma withResults_frame [simp]:
  "cpst_Phase (withResults pr st) = cpst_Phase st" "cpst_PipelineRunRef (withResults pr st) = cpst_PipelineRunRef st"
  by (simp_all add: withResults_def Let_def)

lemma spec_resultsOrSkip:
  "cpst_Phase st = ph \<Longrightarrow> cpst_PipelineRunRef st = cp_RunRef p \<Longrightarrow>
   spec (if b then fallbackBundleURL E (p\<lparr>cp_Status := withResults pr st\<rparr>) else return (p\<lparr>cp_Status := st\<rparr>))
     (\<lambda>es p'. list_all (\<lambda>e. isRead (fst e)) es \<and> cp_Phase p' = ph \<and> cp_RunRef p' = cp_RunRef p \<and> cp_Spec p' = cp_Spec p)"
  unfolding fallbackBundleURL_def by (intro spec_intros; simp)

lemma spec_historyOrSkip:
  "spec (if b then updatePlatformCollectionHistory E p else return ())
     (\<lambda>es _. list_all (\<lambda>e. writesTo {KPlatform} (fst e)) es \<and> (es \<noteq> [] \<longrightarrow> b))"
  by (intro spec_if only_spec [OF only_parts(7)]; simp)

section \<open>The volume of a run\<close>

definition status_kept :: "event \<Rightarrow> bool" where
  "status_kept e =
     (case statusWrite thePipeline e of
        None \<Rightarrow> True
      | Some p \<Rightarrow> (case decode1 thePipeline (snd e) of Inl _ \<Rightarrow> True | Inr p' \<Rightarrow> cp_Status p' = cp_Status p))"

lemma status_kept_simps [simp]:
  "status_kept (RGet k nn, r)" "status_kept (RList k lo, r)" "status_kept (RCreate x, r)" "status_kept (RUpdate x, r)"
  "status_kept (RDelete k nn, r)"
  "status_kept (RStatusUpdate (OPipeline p), Inr [OPipeline p']) \<longleftrightarrow> cp_Status p' = cp_Status p"
  by (simp_all add: status_kept_def)

definition bound_to :: "string \<Rightarrow> pipelineRun \<Rightarrow> bool" where
  "bound_to n pr \<longleftrightarrow> \<lparr>wb_Name = ''output'', wb_Source = WsPVC n\<rparr> \<in> set (pr_Workspaces pr) \<and>
     stringParam ''working-pvc-name'' n \<in> set (pr_Params pr)"

lemma spec_build_bound:
  "cp_WorkingPVC p \<noteq> [] \<Longrightarrow>
   spec (buildPipelineRun E img p cm) (\<lambda>_ x. case x of Inl _ \<Rightarrow> True | Inr pr \<Rightarrow> bound_to (cp_WorkingPVC p) pr)"
  unfolding buildPipelineRun_def
  by (simp, intro spec_bind_value spec_case_sum spec_case_option spec_case_prod spec_Let spec_returnI only_intros)
     (simp_all add: bound_to_def collectionRun_def collectionWorkspaces_def Let_def)

lemma spec_workingPVCNameOf: "spec (workingPVCNameOf E p) (\<lambda>es x. x \<noteq> Inr [])"
  unfolding workingPVCNameOf_def by (intro spec_intros; simp)

lemma spec_ensurePVC_volume:
  "spec (ensurePVC E p) (\<lambda>es v. \<forall>p'. v = Inr p' \<longrightarrow> list_all status_kept es \<longrightarrow>
     cp_WorkingPVC p' \<noteq> [] \<and> (\<exists>ns. RGet KPVC (ns, cp_WorkingPVC p') \<in> fst ` set es))"
  unfolding ensurePVC_def
  by (rule spec_bindI [OF spec_workingPVCNameOf]) (intro spec_intros; auto)

section \<open>A scripted launch\<close>

text \<open>The answers of a server that has the pipeline, its configuration and its volume, and no platform.\<close>

definition launchScript :: "collectionPipeline \<Rightarrow> response list" where
  "launchScript p =
     (let none = Inr [];
          run = collectionRun scripted p [] [] \<lparr>pr_Meta := emptyMeta\<lparr>m_Name := ''run-1'', m_Namespace := ''ns''\<rparr>\<rparr>
      in [Inr [OPipeline p], none, none, none, none,
          Inr [OConfigMap \<lparr>cm_Meta = emptyMeta\<lparr>m_Name := ''mirror-config-base''\<rparr>, cm_Data = Some [configMapKey \<mapsto> ''user config'']\<rparr>],
          Inr [OPVC sampleClaim], none, none, Inl (errorf ''timeout''), none, Inl (errorf ''timeout''),
          Inr [OPipelineRun run], Inr [OPipeline p], Inr [OPipeline p]])"

lemmas launch_simps =
  CollectionPipeline_Reconcile_def ensureConfigMap_def findPlatform_firstItem injectMirrorOperator_def
  injectArchitectImages_def getIntermediateRegistry_def injectRHCOSServerImage_def injectDefaultArchitecture_def
  managedQuay_def connectedOf_def triggered_def expandStorage_def startCollection_def validateParent_def
  checkBaseVersion_def ensureVersion_def ensurePVC_def workingPVCNameOf_def getStorageSize_def storageRequest_def
  waitForSigning_def launchRun_def buildPipelineRun_def getClusterProxyFromClient_def cmGet_def mapGet_def
  isZeroTime_def scr_quantityCmp_def atoi_def Let_def launchScript_def scripted_simps sample_defs
  spec_kept_def same_pipeline_def

section \<open>Properties\<close>




text \<open>C2. Whatever the server answers, every update of a volume claim in a reconciliation is to the claim last read, changes
  nothing but the storage request, and makes it greater.\<close>

theorem volumes_never_shrink:
  "spec (CollectionPipeline_Reconcile E img req) (\<lambda>es _. volumes_grow E None es)"
  unfolding CollectionPipeline_Reconcile_def startCollection_def
  by (intro volumes.control grow_expandStorage grow_ensurePVC only_no_volume [THEN volumes.from_only]
      only_calls [where P = "\<lambda>q. pvcUpdate q = None", THEN volumes.from_only] 
      only_findPlatform [where P = "\<lambda>q. pvcUpdate q = None", THEN volumes.from_only]; simp add: no_update_single)

text \<open>The run is built on the volume that was ensured: its output workspace and its \<^verbatim>\<open>working-pvc-name\<close> parameter name a claim
  that was looked up before. The server is taken to answer a status update with the status it was sent.\<close>

theorem run_uses_ensured_volume:
  "spec (do { e \<leftarrow> ensurePVC E p; case e of Inl err \<Rightarrow> return (Inl err) | Inr p' \<Rightarrow> buildPipelineRun E img p' cm })
     (\<lambda>es x. case x of Inl _ \<Rightarrow> True | Inr pr \<Rightarrow>
        (if list_all status_kept es then \<exists>n ns. bound_to n pr \<and> RGet KPVC (ns, n) \<in> fst ` set es else True))"
proof (rule spec_bindI [OF spec_ensurePVC_volume], rule spec_case_sum, simp)
  fix es x p'
  assume kept: "\<forall>p'. x = Inr p' \<longrightarrow> list_all status_kept es \<longrightarrow>
      cp_WorkingPVC p' \<noteq> [] \<and> (\<exists>ns. RGet KPVC (ns, cp_WorkingPVC p') \<in> fst ` set es)" and x: "x = Inr p'"
  show "spec (buildPipelineRun E img p' cm) (\<lambda>es' x. case x of Inl _ \<Rightarrow> True | Inr pr \<Rightarrow>
      (if list_all status_kept (es @ es') then \<exists>n ns. bound_to n pr \<and> RGet KPVC (ns, n) \<in> fst ` set (es @ es') else True))"
  proof (cases "list_all status_kept es")
    case True
    with kept x obtain ns where ns: "cp_WorkingPVC p' \<noteq> []" "RGet KPVC (ns, cp_WorkingPVC p') \<in> fst ` set es"
      by blast
    show ?thesis
      by (rule spec_mono [OF spec_build_bound [OF ns(1)]]) (use ns(2) in \<open>auto split: sum.splits\<close>)
  next
    case False
    then show ?thesis
      by (intro only_spec [OF only_buildPipelineRun]) (simp split: sum.split)
  qed
qed

text \<open>C9. Tracking a run writes the phase that the run is in and keeps the record of the run; a run that is gone makes the
  pipeline \<^verbatim>\<open>Stale\<close> with no run recorded; the platform is written only for a complete run; the tracking is
  requeued exactly while the run is not done.\<close>

theorem tracking_follows_run:
  "spec (trackPipelineRun E p req) (\<lambda>es out. \<exists>r rest. es = (RGet KPipelineRun (fst req, cp_RunRef p), r) # rest \<and>
     (case decode1 thePipelineRun r of
        Inr pr \<Rightarrow> tracked E p pr rest out
      | Inl e \<Rightarrow>
          if isNotFound e
          then \<exists>w r'. rest = [(RStatusUpdate (OPipeline w), r')] \<and> cp_Phase w = ''Stale'' \<and> cp_RunRef w = [] \<and>
                 out = (noRequeue, errOf (decode1 thePipeline r'))
          else rest = [] \<and> out = (noRequeue, Some e)))"
  unfolding trackPipelineRun_def Let_def
  apply (rule spec_bind_Get, rule spec_case_sum)
  subgoal by (intro spec_intros; simp add: finish_def)
  subgoal for r pr
    apply (rule spec_bindI [OF spec_resultsOrSkip [where ph = "collectionPipelineRunPhase pr" and p = p]], simp, simp)
    apply (rule spec_bind_StatusUpdate, rule spec_case_sum)
    subgoal by (fastforce simp: tracked_def)
    apply (rule spec_bindI [OF spec_historyOrSkip])
    apply (intro spec_intros; fastforce simp: tracked_def)
    done
  done

text \<open>C10. Deleting a pipeline deletes a working volume only when the pipeline has no parent and, where the pipelines could
  be listed, none of them has it as its parent.\<close>

theorem cleanup_keeps_shared_volume:
  "spec (CollectionPipeline_cleanup E p) (\<lambda>es out. \<exists>r rest.
     es = (RList KPipeline (inNamespace (cp_Namespace p)), r) # rest \<and>
     (if deletesVolume es then cp_Parent p = [] \<and>
        (case decodeAll thePipeline r of Inl _ \<Rightarrow> True | Inr items \<Rightarrow> \<not> list_ex (childOf p) items)
      else True))"
  unfolding CollectionPipeline_cleanup_def hasChildPipelines_def deleteWorkingPVC_def childOf_def [abs_def]
  by (intro spec_bind_bind spec_bind_ListObjs spec_bind_case_sum spec_bind_return spec_case_prod spec_bind_if spec_bind_Let
        spec_bind_Get spec_bind_Delete; rule spec_mono [OF spec_cleanup_tail]; auto simp: list_ex_iff)

text \<open>Deleting a pipeline releases the finalizer as its last request; before that it only reads, creates the bucket cleanup
  job and deletes a volume.\<close>

theorem cleanup_releases_last:
  "spec (CollectionPipeline_cleanup E p) (\<lambda>es out. 
     if pipelineFinalizer \<in> set (cp_Finalizers p)
     then \<exists>pre r. es = pre @ [(releaseFinalizer p, r)] \<and> out = (noRequeue, errOf (decode1 thePipeline r)) \<and>
            list_all (\<lambda>e. writesTo {KJob} (fst e) \<or> deletesPVC (fst e)) pre
     else list_all (\<lambda>e. writesTo {KJob} (fst e) \<or> deletesPVC (fst e)) es \<and> out = (noRequeue, None))"
  unfolding CollectionPipeline_cleanup_def hasChildPipelines_def deleteWorkingPVC_def
  by (intro spec_bind_bind spec_bind_ListObjs spec_bind_case_sum spec_bind_return spec_case_prod spec_bind_if spec_bind_Let
        spec_bind_Get spec_bind_Delete; rule spec_mono [OF spec_cleanup_tail]; fastforce simp: list_all_iff split: if_splits)

text \<open>A trigger annotation fires once: it is removed, in an update that keeps specification and status, before the status
  is reset, and a pipeline without it is not triggered.\<close>

theorem trigger_fires_once:
  "spec (resetForTrigger E p) (\<lambda>es out. \<exists>w r rest. es = (RUpdate (OPipeline w), r) # rest \<and> 
     \<not> triggered w \<and> cp_Status w = cp_Status p \<and> cp_Spec w = cp_Spec p \<and>
     (case decode1 thePipeline r of
        Inl e \<Rightarrow> rest = [] \<and> out = (noRequeue, Some e)
      | Inr p' \<Rightarrow> \<exists>s r'. rest = [(RStatusUpdate (OPipeline s), r')] \<and> cp_Spec s = cp_Spec p' \<and>
          cp_RunRef s = [] \<and> cp_Phase s = [] \<and> cpst_Version (cp_Status s) = [] \<and>
          out = (noRequeue, errOf (decode1 thePipeline r'))))"
  unfolding resetForTrigger_def by (intro spec_intros; simp add: triggered_def finish_def)

text \<open>Where the pipelines cannot be listed, the cleanup of a pipeline without parent deletes its volume all the same.\<close>

theorem cleanup_fails_open:
  "deletesVolume (trace (snd (run_state (CollectionPipeline_cleanup scripted (samplePipeline [pipelineFinalizer] [] ''Complete''))
     (start [Inl (errorf ''timeout''), Inr [OPVC sampleClaim], Inl (errorf ''timeout''), Inl (errorf ''timeout''), Inl (errorf ''timeout'')]))))"
  by (simp add: CollectionPipeline_cleanup_def hasChildPipelines_def deleteWorkingPVC_def deleteS3Objects_def
      scripted_simps sample_defs)

text \<open>An error of the RHCOS injection does not leave the configuration as it was: the empty configuration is stored.\<close>

theorem rhcos_error_drops_config:
  "cm_Data (hd (creations theConfigMap (trace (snd (run_state (ensureConfigMap scripted (samplePipeline [] [] []) ''cfg'')
     (start [Inl (errorf ''timeout''), Inl (errorf ''timeout''), Inr [OPlatform (samplePlatform (Some sampleConnected) [])],
        Inl (errorf ''timeout''), Inr [OPlatform (samplePlatform (Some sampleConnected) [])],
        Inl (GoErr NotFound ''no config map''), Inl (errorf ''timeout'')])))))) = Some [configMapKey \<mapsto> []]"
  by (simp add: ensureConfigMap_def findPlatform_firstItem injectMirrorOperator_def injectArchitectImages_def getIntermediateRegistry_def
      getClusterDomain_def injectRHCOSServerImage_def injectDefaultArchitecture_def managedQuay_def connectedOf_def registryHost_def
      isNotFound_def Let_def scripted_simps sample_defs)

text \<open>The phase read from a run that has completed is final: every later state of the run has the same phase.\<close>

theorem run_phase_final:
  assumes "collectionPipelineRunPhase pr \<in> {''Complete'', ''Failed''}" "later_run pr pr'"
  shows "collectionPipelineRunPhase pr' = collectionPipelineRunPhase pr"
  using assms by (rule collection_phases.terminal_stable)

theorem run_phase_final_witness:
  "let pr = collectionRun scripted (samplePipeline [] [] []) [] [] \<lparr>pr_CompletionTime := Some scriptedTime\<rparr>;
       pr' = pr\<lparr>pr_StartTime := Some scriptedTime\<rparr>
   in collectionPipelineRunPhase pr' = ''Failed'' \<and> collectionPipelineRunPhase pr' = collectionPipelineRunPhase pr"
proof -
  define pr where "pr = collectionRun scripted (samplePipeline [] [] []) [] [] \<lparr>pr_CompletionTime := Some scriptedTime\<rparr>"
  have f: "collectionPipelineRunPhase pr = ''Failed''"
    by (simp add: pr_def collectionPipelineRunPhase_def collectionRun_def Let_def)
  have "collectionPipelineRunPhase (pr\<lparr>pr_StartTime := Some scriptedTime\<rparr>) = collectionPipelineRunPhase pr"
    by (rule run_phase_final) (use f in \<open>simp_all add: later_run_def pr_def\<close>)
  with f show ?thesis unfolding pr_def by (simp add: Let_def)
qed

end
