(* ===== verification/Import.thy ===== *)
theory Import
  imports History Scripted
begin

text \<open>
  The \<^verbatim>\<open>MirrorImport\<close> controller of \<^verbatim>\<open>internal/controller/mirrorimport_controller.go\<close>: the
  reconciler with its phases (empty, \<^verbatim>\<open>Importing\<close>, \<^verbatim>\<open>Publishing\<close>, \<^verbatim>\<open>Complete\<close>, \<^verbatim>\<open>Failed\<close>), the
  import \<^verbatim>\<open>PipelineRun\<close> it creates and tracks, and the import history of the platform.
  \<open>import_write\<close> is the state machine the reconciler implements.
\<close>

section \<open>Definitions\<close>

definition importFinalizer :: string where
  "importFinalizer = ''mirror.mathianasj.github.com/import-finalizer''"

abbreviation mi_Name :: "mirrorImport \<Rightarrow> string" where "mi_Name i \<equiv> m_Name (mi_ObjectMeta i)"
abbreviation mi_Namespace :: "mirrorImport \<Rightarrow> string" where "mi_Namespace i \<equiv> m_Namespace (mi_ObjectMeta i)"
abbreviation mi_Finalizers :: "mirrorImport \<Rightarrow> string list" where "mi_Finalizers i \<equiv> m_Finalizers (mi_ObjectMeta i)"
abbreviation mi_Phase :: "mirrorImport \<Rightarrow> string" where "mi_Phase i \<equiv> mist_Phase (mi_Status i)"
abbreviation mi_PipelineRunRef :: "mirrorImport \<Rightarrow> string" where "mi_PipelineRunRef i \<equiv> mist_PipelineRunRef (mi_Status i)"
abbreviation mi_setFinalizers :: "mirrorImport \<Rightarrow> string list \<Rightarrow> mirrorImport" where
  "mi_setFinalizers i fs \<equiv> i\<lparr>mi_ObjectMeta := (mi_ObjectMeta i)\<lparr>m_Finalizers := fs\<rparr>\<rparr>"
abbreviation mi_setPhase :: "mirrorImport \<Rightarrow> string \<Rightarrow> mirrorImport" where
  "mi_setPhase i p \<equiv> i\<lparr>mi_Status := (mi_Status i)\<lparr>mist_Phase := p\<rparr>\<rparr>"
abbreviation mi_setRunRef :: "mirrorImport \<Rightarrow> string \<Rightarrow> mirrorImport" where
  "mi_setRunRef i n \<equiv> i\<lparr>mi_Status := (mi_Status i)\<lparr>mist_PipelineRunRef := n\<rparr>\<rparr>"

definition importPipelineRunPhase :: "pipelineRun \<Rightarrow> string" where
  "importPipelineRunPhase pr =
     (if pr_CompletionTime pr \<noteq> None
      then (if \<exists>c \<in> set (pr_Conditions pr). rc_Type c = ''Succeeded'' \<and> rc_Status c = ''True''
            then ''Complete'' else ''Failed'')
      else if pr_StartTime pr \<noteq> None then ''Running''
      else ''Pending'')"

definition ensureImportConfigMap :: "('w, 'x) env_scheme \<Rightarrow> mirrorImport \<Rightarrow> string \<Rightarrow> ('w, configMap res) go" where
  "ensureImportConfigMap E importCR name = do {
     existing \<leftarrow> Get E KConfigMap theConfigMap (mi_Namespace importCR, name);
     case existing of
       Inr existing \<Rightarrow> return (Inr existing)
     | Inl err \<Rightarrow>
         if \<not> isNotFound err then return (Inl err)
         else Create E OConfigMap theConfigMap
                \<lparr>cm_Meta = emptyMeta\<lparr>m_Name := name, m_Namespace := mi_Namespace importCR,
                    m_OwnerReferences := [newControllerRef E (mi_ObjectMeta importCR) (mirrorGVK ''MirrorImport'')]\<rparr>,
                 cm_Data = Some [configMapKey \<mapsto> mis_ImageSetConfig (mi_Spec importCR)]\<rparr> }"

text \<open>The address of a node the inner loop of \<^verbatim>\<open>resolveNodeRegistries\<close> takes: the first internal
  IP.\<close>

fun firstInternalIP :: "nodeAddress list \<Rightarrow> string option" where
  "firstInternalIP [] = None"
| "firstInternalIP (a # as) = (if na_Type a = ''InternalIP'' then Some (na_Address a) else firstInternalIP as)"

definition nodeTargets :: "int \<Rightarrow> node list \<Rightarrow> string list" where
  "nodeTargets port nodes =
     List.map_filter (\<lambda>n. map_option (\<lambda>a. a @ '':'' @ itoa port) (firstInternalIP (node_Addresses n))) nodes"

text \<open>\<^verbatim>\<open>platform.Spec.Airgapped\<close> is a pointer that the function dereferences without a check.\<close>

definition resolveNodeRegistries :: "('w, 'x) env_scheme \<Rightarrow> ('w, string res) go" where
  "resolveNodeRegistries E = do {
     platform \<leftarrow> MirrorImport_findPlatform E;
     case platform of
       Inl err \<Rightarrow> return (Inr [])
     | Inr None \<Rightarrow> return (Inr [])
     | Inr (Some platform) \<Rightarrow>
         (case dps_Airgapped (dp_Spec platform) of
            None \<Rightarrow> return (Inl (panic ''nil pointer dereference: platform.Spec.Airgapped''))
          | Some airgapped \<Rightarrow>
              (case ag_MirrorRegistryConfig airgapped of
                 None \<Rightarrow> return (Inr [])
               | Some cfg \<Rightarrow> do {
                   let port = (if mrc_Port cfg \<noteq> 0 then mrc_Port cfg else 8443);
                   nodeList \<leftarrow> ListObjs E KNode theNode
                                 (matchingLabels [''node-role.kubernetes.io/master'' \<mapsto> []]);
                   case nodeList of
                     Inl err \<Rightarrow> return (Inr [])
                   | Inr items \<Rightarrow> return (Inr (joinWith '' '' (nodeTargets port items))) })) }"

definition buildImportPipelineRun ::
  "('w, 'x) env_scheme \<Rightarrow> string \<Rightarrow> mirrorImport \<Rightarrow> string \<Rightarrow> ('w, pipelineRun res) go" where
  "buildImportPipelineRun E MirrorImage importCR configName = do {
     let mirrorImage = (if MirrorImage = [] then defaultMirrorImage E else MirrorImage);
     let key = (case mis_Verify (mi_Spec importCR) of None \<Rightarrow> None | Some v \<Rightarrow> cvc_PublicKeySecretRef v);
     let verifyEnabled = (if key \<noteq> None then ''true'' else ''false'');
     let cosignPubSecret = (case key of Some k \<Rightarrow> lor_Name k | None \<Rightarrow> []);
     nodeRegistries \<leftarrow> resolveNodeRegistries E;
     case nodeRegistries of
       Inl p \<Rightarrow> return (Inl p)
     | Inr nodeRegistries \<Rightarrow> do {
         let params =
           [stringParam ''bundle-filename'' (bs_Filename (mis_Bundle (mi_Spec importCR))),
            stringParam ''target-registry'' (reg_URL (mis_TargetRegistry (mi_Spec importCR))),
            stringParam ''mirror-image'' mirrorImage,
            stringParam ''verify-enabled'' verifyEnabled,
            stringParam ''cosign-pub-secret'' cosignPubSecret,
            stringParam ''node-registries'' nodeRegistries];
         let workspaces =
           [\<lparr>wb_Name = ''bundle-data'', wb_Source = WsPVC (bs_PVC (mis_Bundle (mi_Spec importCR)))\<rparr>,
            \<lparr>wb_Name = ''config'', wb_Source = WsConfigMap configName None\<rparr>,
            \<lparr>wb_Name = ''pull-secret'', wb_Source = WsSecret ''pull-secret''\<rparr>] @
           (if verifyEnabled = ''true''
            then [\<lparr>wb_Name = ''cosign-pub'', wb_Source = WsSecret cosignPubSecret\<rparr>]
            else [\<lparr>wb_Name = ''cosign-pub'', wb_Source = WsEmptyDir\<rparr>]) @
           [\<lparr>wb_Name = ''cluster-ca-bundle'', wb_Source = WsConfigMap clusterCABundleName (boolPtr True)\<rparr>];
         return (Inr
           \<lparr>pr_Meta = emptyMeta\<lparr>m_GenerateName := ''import-'' @ mi_Name importCR @ ''-'',
                m_Namespace := mi_Namespace importCR,
                m_Annotations := [''results.tekton.dev/log'' \<mapsto> ''false'', ''results.tekton.dev/result'' \<mapsto> ''false''],
                m_OwnerReferences := [newControllerRef E (mi_ObjectMeta importCR) (mirrorGVK ''MirrorImport'')]\<rparr>,
            pr_PipelineRef = ''import-pipeline-template'',
            pr_PipelineSpec = None,
            pr_Params = params,
            pr_Workspaces = workspaces,
            pr_TimeoutPipeline = 6 * hour,
            pr_TimeoutTasks = 4 * hour,
            pr_StartTime = None, pr_CompletionTime = None, pr_Conditions = [], pr_Results = []\<rparr>) } }"

definition startImport :: "('w, 'x) env_scheme \<Rightarrow> mirrorImport \<Rightarrow> ('w, outcome) go" where
  "startImport E importCR =
     (let version = mis_CollectionVersion (mi_Spec importCR);
          importing = do {
            u \<leftarrow> StatusUpdate E OImport theImport (mi_setPhase importCR ''Importing'');
            return (finish u) }
      in if version \<noteq> [] then do {
           platform \<leftarrow> MirrorImport_findPlatform E;
           case platform of
             Inl err \<Rightarrow> return (noRequeue, Some err)
           | Inr None \<Rightarrow> importing
           | Inr (Some platform) \<Rightarrow>
               if versionExists (dpst_ImportHistory (dp_Status platform)) version then do {
                 now \<leftarrow> effect (clock E);
                 u \<leftarrow> StatusUpdate E OImport theImport
                       (importCR\<lparr>mi_Status := (mi_Status importCR)\<lparr>mist_Phase := ''Failed'',
                          mist_Conditions := mist_Conditions (mi_Status importCR) @
                            [\<lparr>c_Type = ''DependencyCheck'', c_Status = ''False'', c_ObservedGeneration = 0,
                              c_LastTransitionTime = now, c_Reason = ''VersionAlreadyImported'',
                              c_Message = ''version '' @ version @ '' has already been imported''\<rparr>]\<rparr>\<rparr>);
                 return (finish u) }
               else importing }
         else importing)"

definition trackImportPipelineRun ::
  "('w, 'x) env_scheme \<Rightarrow> string \<Rightarrow> mirrorImport \<Rightarrow> nsname \<Rightarrow> ('w, outcome) go" where
  "trackImportPipelineRun E MirrorImage importCR req = do {
     let configName = ''mirror-import-config-'' @ mi_Name importCR;
     cm \<leftarrow> ensureImportConfigMap E importCR configName;
     case cm of
       Inl err \<Rightarrow> return (noRequeue, Some err)
     | Inr _ \<Rightarrow>
         if mi_PipelineRunRef importCR \<noteq> [] then do {
           pr \<leftarrow> Get E KPipelineRun thePipelineRun (fst req, mi_PipelineRunRef importCR);
           case pr of
             Inl err \<Rightarrow>
               if isNotFound err then do {
                 u \<leftarrow> StatusUpdate E OImport theImport (mi_setRunRef importCR []);
                 return (finish u) }
               else return (noRequeue, Some err)
           | Inr pr \<Rightarrow>
               if importPipelineRunPhase pr = ''Complete'' then do {
                 u \<leftarrow> StatusUpdate E OImport theImport (mi_setPhase importCR ''Publishing'');
                 return (finish u) }
               else if importPipelineRunPhase pr = ''Failed'' then do {
                 u \<leftarrow> StatusUpdate E OImport theImport (mi_setPhase importCR ''Failed'');
                 return (finish u) }
               else return (noRequeue, None) }
         else do {
           pr \<leftarrow> buildImportPipelineRun E MirrorImage importCR configName;
           case pr of
             Inl err \<Rightarrow> return (noRequeue, Some err)
           | Inr pr \<Rightarrow> do {
               created \<leftarrow> Create E OPipelineRun thePipelineRun pr;
               case created of
                 Inl err \<Rightarrow>
                   if isAlreadyExists err \<or> isConflict err then return (requeueNow, None)
                   else return (noRequeue, Some err)
               | Inr pr \<Rightarrow> do {
                   latest \<leftarrow> Get E KImport theImport (mi_Namespace importCR, mi_Name importCR);
                   case latest of
                     Inl err \<Rightarrow> return (noRequeue, Some err)
                   | Inr latest \<Rightarrow>
                       if mi_PipelineRunRef latest \<noteq> [] \<and> mi_PipelineRunRef latest \<noteq> m_Name (pr_Meta pr) then do {
                         _ \<leftarrow> Delete E KPipelineRun (m_Namespace (pr_Meta pr), m_Name (pr_Meta pr));
                         return (requeueNow, None) }
                       else do {
                         u \<leftarrow> StatusUpdate E OImport theImport (mi_setRunRef latest (m_Name (pr_Meta pr)));
                         return (finish u) } } } } }"

definition updatePlatformImportHistory :: "('w, 'x) env_scheme \<Rightarrow> mirrorImport \<Rightarrow> ('w, unit) go" where
  "updatePlatformImportHistory E importCR = do {
     platform \<leftarrow> MirrorImport_findPlatform E;
     case platform of
       Inl err \<Rightarrow> return ()
     | Inr None \<Rightarrow> return ()
     | Inr (Some platform) \<Rightarrow> do {
         let version = mis_CollectionVersion (mi_Spec importCR);
         let created = m_CreationTimestamp (mi_ObjectMeta importCR);
         let version = (if version = [] then ''import-'' @ mi_Name importCR @ ''-'' @ pad 4 (t_year created) @
                          pad 2 (t_month created) @ pad 2 (t_day created) else version);
         now \<leftarrow> effect (clock E);
         let info = \<lparr>ii_Version = version, ii_Timestamp = now, ii_Status = ''Complete''\<rparr>;
         _ \<leftarrow> StatusUpdate E OPlatform thePlatform
               (platform\<lparr>dp_Status := (dp_Status platform)\<lparr>dpst_LastImport := Some info,
                  dpst_ImportHistory := dpst_ImportHistory (dp_Status platform) @ [info]\<rparr>\<rparr>);
         return () } }"

definition finalizeImport :: "('w, 'x) env_scheme \<Rightarrow> mirrorImport \<Rightarrow> ('w, outcome) go" where
  "finalizeImport E importCR = do {
     u \<leftarrow> StatusUpdate E OImport theImport (mi_setPhase importCR ''Complete'');
     case u of
       Inl err \<Rightarrow> return (noRequeue, Some err)
     | Inr importCR \<Rightarrow> do {
         updatePlatformImportHistory E importCR;
         return (noRequeue, None) } }"

definition MirrorImport_Reconcile :: "('w, 'x) env_scheme \<Rightarrow> string \<Rightarrow> nsname \<Rightarrow> ('w, outcome) go" where
  "MirrorImport_Reconcile E MirrorImage req = do {
     r \<leftarrow> Get E KImport theImport req;
     case r of
       Inl err \<Rightarrow> if isNotFound err then return (noRequeue, None) else return (noRequeue, Some err)
     | Inr importCR \<Rightarrow>
         if isZeroTime (m_DeletionTimestamp (mi_ObjectMeta importCR)) then
           if \<not> containsString (mi_Finalizers importCR) importFinalizer then do {
             u \<leftarrow> Update E OImport theImport (mi_setFinalizers importCR (mi_Finalizers importCR @ [importFinalizer]));
             return (finish u) }
           else if mi_Phase importCR = [] then startImport E importCR
           else if mi_Phase importCR = ''Importing'' then trackImportPipelineRun E MirrorImage importCR req
           else if mi_Phase importCR = ''Publishing'' then finalizeImport E importCR
           else return (noRequeue, None)
         else if containsString (mi_Finalizers importCR) importFinalizer then do {
           u \<leftarrow> Update E OImport theImport (mi_setFinalizers importCR (removeString (mi_Finalizers importCR) importFinalizer));
           return (finish u) }
         else return (noRequeue, None) }"

interpretation import_fin: finalizer_ops
  "\<lambda>fs. containsString fs importFinalizer" "\<lambda>fs. fs @ [importFinalizer]"
  "\<lambda>fs. removeString fs importFinalizer" importFinalizer
  by (rule finalizer_ops_string)

interpretation import_phases: run_phases importPipelineRunPhase "''Running''"
  by unfold_locales (auto simp: importPipelineRunPhase_def succeeded_def)

section \<open>The phases as a state machine\<close>

text \<open>\<open>import_step i w\<close>: the reconciler, having read the resource as \<open>i\<close>, may write \<open>w\<close> to its status.\<close>

inductive import_step :: "mirrorImport \<Rightarrow> mirrorImport \<Rightarrow> bool" where
  start: "mi_Phase i = [] \<Longrightarrow> import_step i (mi_setPhase i ''Importing'')"
| refuse: "mi_Phase i = [] \<Longrightarrow> mis_CollectionVersion (mi_Spec i) \<noteq> [] \<Longrightarrow>
    w = i\<lparr>mi_Status := (mi_Status i)\<lparr>mist_Phase := ''Failed'', mist_Conditions := mist_Conditions (mi_Status i) @ [c]\<rparr>\<rparr> \<Longrightarrow>
    c_Reason c = ''VersionAlreadyImported'' \<Longrightarrow> import_step i w"
| lost_run: "mi_Phase i = ''Importing'' \<Longrightarrow> mi_PipelineRunRef i \<noteq> [] \<Longrightarrow> import_step i (mi_setRunRef i [])"
| run_done: "mi_Phase i = ''Importing'' \<Longrightarrow> mi_PipelineRunRef i \<noteq> [] \<Longrightarrow> import_step i (mi_setPhase i ''Publishing'')"
| run_failed: "mi_Phase i = ''Importing'' \<Longrightarrow> mi_PipelineRunRef i \<noteq> [] \<Longrightarrow> import_step i (mi_setPhase i ''Failed'')"
| record_run: "mi_PipelineRunRef i = [] \<or> mi_PipelineRunRef i = n \<Longrightarrow> import_step i (mi_setRunRef i n)"
| publish: "mi_Phase i = ''Publishing'' \<Longrightarrow> import_step i (mi_setPhase i ''Complete'')"

inductive_cases import_stepE: "import_step i w"

text \<open>A resource over its life: created without a status, stepped by the reconciler, and changed by
  others in any field but the status.\<close>

inductive import_life :: "mirrorImport \<Rightarrow> bool" where
  created: "mi_Phase i = [] \<Longrightarrow> mi_PipelineRunRef i = [] \<Longrightarrow> import_life i"
| stepped: "import_life i \<Longrightarrow> import_step i w \<Longrightarrow> import_life w"
| edited: "import_life i \<Longrightarrow> mi_Status w = mi_Status i \<Longrightarrow> import_life w"

definition import_inv :: "mirrorImport \<Rightarrow> bool" where
  "import_inv i \<longleftrightarrow> mi_Phase i \<in> {[], ''Importing'', ''Publishing'', ''Complete'', ''Failed''} \<and>
     (mi_Phase i \<in> {''Publishing'', ''Complete''} \<longrightarrow> mi_PipelineRunRef i \<noteq> [])"

fun phase_rank :: "string \<Rightarrow> nat" where
  "phase_rank p = (if p = [] then 0 else if p = ''Importing'' then 1 else if p = ''Publishing'' then 2 else 3)"

section \<open>Lemmas\<close>

lemma spec_resolveNodeRegistries:
  "spec (resolveNodeRegistries E) (\<lambda>es x. listsOnly es)"
  unfolding resolveNodeRegistries_def by (intro spec_intros; simp)

lemma spec_bind_buildImportPipelineRun [spec_intros]:
  assumes "\<And>es x. listsOnly es \<Longrightarrow> spec (f x) (\<lambda>es'. R (es @ es'))"
  shows "spec (State_Monad.bind (buildImportPipelineRun E img i n) f) R"
  unfolding buildImportPipelineRun_def State_Monad.bind_assoc Let_def
  by (rule spec_bindI [OF spec_resolveNodeRegistries]) (auto intro!: assms split: sum.split)

lemma spec_bind_ensureImportConfigMap [spec_intros]:
  assumes "\<And>r c. spec (f (Inr c)) (\<lambda>es. R ((RGet KConfigMap (mi_Namespace i, n), r) # es))"
    "\<And>r e. spec (f (Inl e)) (\<lambda>es. R ((RGet KConfigMap (mi_Namespace i, n), r) # es))"
    "\<And>r e r' c x. spec (f x)
       (\<lambda>es. R ((RGet KConfigMap (mi_Namespace i, n), r) # (RCreate (OConfigMap c), r') # es))"
  shows "spec (State_Monad.bind (ensureImportConfigMap E i n) f) R"
  unfolding ensureImportConfigMap_def
  by (intro spec_intros; rule assms)

lemma spec_updatePlatformImportHistory [spec_intros]:
  assumes "\<And>r. spec (f ()) (\<lambda>es. R ((RList KPlatform allObjects, r) # es))"
    "\<And>r p r'. spec (f ()) (\<lambda>es. R ((RList KPlatform allObjects, r) # (RStatusUpdate (OPlatform p), r') # es))"
  shows "spec (State_Monad.bind (updatePlatformImportHistory E i) f) R"
  unfolding updatePlatformImportHistory_def
  by (intro spec_intros; rule assms)

lemmas import_ops = MirrorImport_Reconcile_def startImport_def trackImportPipelineRun_def finalizeImport_def

text \<open>The traces in which a created run is settled: the resource is read again, and then the run is
  recorded in it, or deleted because another run is recorded there.\<close>

definition run_settled :: "pipelineRun \<Rightarrow> event list \<Rightarrow> outcome \<Rightarrow> bool" where
  "run_settled pr rest out \<longleftrightarrow>
     (let name = m_Name (pr_Meta pr) in
      (\<exists>nn e. rest = [(RGet KImport nn, e)] \<and> snd out \<noteq> None) \<or>
      (\<exists>nn l r. rest = [(RGet KImport nn, Inr [OImport l]), (RDelete KPipelineRun (m_Namespace (pr_Meta pr), name), r)] \<and>
         mi_PipelineRunRef l \<notin> {[], name} \<and> out = (requeueNow, None)) \<or>
      (\<exists>nn l r. rest = [(RGet KImport nn, Inr [OImport l]), (RStatusUpdate (OImport (mi_setRunRef l name)), r)] \<and>
         mi_PipelineRunRef l \<in> {[], name} \<and> out = (noRequeue, errOf (decode1 theImport r))))"

definition already_imported :: "mirrorImport \<Rightarrow> event list \<Rightarrow> bool" where
  "already_imported i es \<longleftrightarrow>
     (case es of
        (RList k lo, r) # _ \<Rightarrow>
          (case firstItem (decodeAll thePlatform r) of
             Inr (Some p) \<Rightarrow> versionExists (dpst_ImportHistory (dp_Status p)) (mis_CollectionVersion (mi_Spec i))
           | _ \<Rightarrow> False)
      | _ \<Rightarrow> False)"

definition sampleImport :: "string \<Rightarrow> string \<Rightarrow> mirrorImport" where
  "sampleImport phase ref =
     \<lparr>mi_ObjectMeta = emptyMeta\<lparr>m_Name := ''imp'', m_Namespace := ''ns'', m_Finalizers := [importFinalizer]\<rparr>,
      mi_Spec = \<lparr>mis_ImageSetConfig = [], mis_Bundle = \<lparr>bs_PVC = ''pvc'', bs_Filename = ''b.tar''\<rparr>,
         mis_TargetRegistry = \<lparr>reg_URL = ''reg'', reg_CAConfigMap = []\<rparr>,
         mis_Publish = \<lparr>pub_CatalogSource = True, pub_ImageContentSourcePolicy = True\<rparr>,
         mis_CollectionVersion = ''v1'', mis_Verify = None\<rparr>,
      mi_Status = \<lparr>mist_Conditions = [], mist_Phase = phase, mist_PipelineRunRef = ref\<rparr>\<rparr>"

section \<open>Properties\<close>

text \<open>C7. Whatever the API server answers, every status write of one reconciliation of an import is a
  step of the state machine from the resource as it was last read.\<close>

theorem reconcile_conforms:
  "spec (MirrorImport_Reconcile E img req) (\<lambda>es out. conforms KImport theImport import_step None es)"
  unfolding import_ops by (intro spec_intros; simp add: import_step.intros)



text \<open>C11. One reconciliation creates at most one import run, and only for an import in phase
  \<^verbatim>\<open>Importing\<close> that is not being deleted, holds the finalizer and records no run.\<close>

theorem import_run_created_once:
  "spec (MirrorImport_Reconcile E img req) (\<lambda>es out. creations thePipelineRun es = [] \<or>
     (length (creations thePipelineRun es) = 1 \<and>
        (\<exists>i es'. es = (RGet KImport req, Inr [OImport i]) # es' \<and> mi_Phase i = ''Importing'' \<and>
           mi_PipelineRunRef i = [] \<and> importFinalizer \<in> set (mi_Finalizers i) \<and>
           isZeroTime (m_DeletionTimestamp (mi_ObjectMeta i)))))"
  unfolding import_ops by (intro spec_intros; simp)

text \<open>A run that was created is settled before the reconciliation ends: unless the second read of
  the import fails, the run is recorded in it or, where another run is recorded, deleted.\<close>

theorem import_run_settled:
  "spec (MirrorImport_Reconcile E img req) (\<lambda>es out.
     case afterCreation thePipelineRun es of None \<Rightarrow> True | Some (pr, rest) \<Rightarrow> run_settled pr rest out)"
  unfolding import_ops by (intro spec_intros; simp add: run_settled_def finish_def Let_def)

text \<open>A new import is refused exactly when it names a version that the platform's import history
  has, and started otherwise.\<close>

theorem start_refuses_imported:
  "spec (startImport E i) (\<lambda>es out.
     (\<exists>r. es = [(RList KPlatform allObjects, r)] \<and> snd out \<noteq> None) \<or>
     (\<exists>pre w r. es = pre @ [(RStatusUpdate (OImport w), r)] \<and> out = (noRequeue, errOf (decode1 theImport r)) \<and>
        mi_Phase w = (if mis_CollectionVersion (mi_Spec i) \<noteq> [] \<and> already_imported i pre then ''Failed'' else ''Importing'')))"
  unfolding startImport_def
  by (intro spec_intros; force simp: finish_def already_imported_def)

text \<open>Building a run panics exactly on a platform without the \<^verbatim>\<open>airgapped\<close> block.\<close>

theorem resolveNodeRegistries_panics_iff:
  "spec (resolveNodeRegistries E) (\<lambda>es x.
     (\<exists>m. x = Inl (panic m)) =
     (\<exists>r p es'. es = (RList KPlatform allObjects, r) # es' \<and> firstItem (decodeAll thePlatform r) = Inr (Some p) \<and>
        dps_Airgapped (dp_Spec p) = None))"
  unfolding resolveNodeRegistries_def by (intro spec_intros; auto)

text \<open>Verification is on exactly when a public key is given, and then the \<^verbatim>\<open>cosign-pub\<close> workspace is the
  secret of that key; parameters and workspaces of the run have distinct names.\<close>

theorem import_run_verification:
  "spec (buildImportPipelineRun E img i cfg) (\<lambda>es x. case x of Inl _ \<Rightarrow> True | Inr pr \<Rightarrow>
     distinct (map p_Name (pr_Params pr)) \<and> distinct (map wb_Name (pr_Workspaces pr)) \<and>
     (case mis_Verify (mi_Spec i) \<bind> cvc_PublicKeySecretRef of
        Some k \<Rightarrow> stringParam ''verify-enabled'' ''true'' \<in> set (pr_Params pr) \<and>
          \<lparr>wb_Name = ''cosign-pub'', wb_Source = WsSecret (lor_Name k)\<rparr> \<in> set (pr_Workspaces pr)
      | None \<Rightarrow> stringParam ''verify-enabled'' ''false'' \<in> set (pr_Params pr) \<and>
          \<lparr>wb_Name = ''cosign-pub'', wb_Source = WsEmptyDir\<rparr> \<in> set (pr_Workspaces pr)))"
  unfolding buildImportPipelineRun_def Let_def
  by (rule spec_bindI [OF spec_resolveNodeRegistries])
     (auto intro!: spec_intros simp: stringParam_def split: option.split sum.split)

text \<open>Publishing an import appends to the platform's import history: every status write made for it is
  to the platform that was read, keeps the recorded imports in order and adds one entry, which is
  also the last import, under the version a later import would be checked against.\<close>

theorem publish_extends_history:
  "spec (updatePlatformImportHistory E i) (\<lambda>es u. writes es = [] \<or>
     (\<exists>r p p' info r'. es = [(RList KPlatform allObjects, r), (RStatusUpdate (OPlatform p'), r')] \<and>
        firstItem (decodeAll thePlatform r) = Inr (Some p) \<and>
        dpst_ImportHistory (dp_Status p') = dpst_ImportHistory (dp_Status p) @ [info] \<and>
        dpst_LastImport (dp_Status p') = Some info \<and> dp_Spec p' = dp_Spec p \<and>
        (mis_CollectionVersion (mi_Spec i) = [] \<or>
         versionExists (dpst_ImportHistory (dp_Status p')) (mis_CollectionVersion (mi_Spec i)))))"
  unfolding updatePlatformImportHistory_def Let_def by (intro spec_intros; simp)

end
