(* ===== verification/PipelineFit.thy ===== *)
theory PipelineFit
  imports PipelineProps CollectionProps Import
begin

text \<open>
  The runs that the collection and the import controllers create, against the templates that the platform controller keeps: a run
  gives the parameters and the workspaces its template asks for, and the conditions of the tasks read on those parameters select
  one way of mirroring.
\<close>

section \<open>Runs against a template\<close>

definition requiredParams :: "gomap \<Rightarrow> string list" where
  "requiredParams sp = paramNames (filter (\<lambda>p. p ''default'' = None) (mapsField ''params'' sp))"

definition requiredWorkspaces :: "gomap \<Rightarrow> string list" where
  "requiredWorkspaces sp = map nameOf (filter (\<lambda>w. w ''optional'' = None) (mapsField ''workspaces'' sp))"

definition fits :: "gomap \<Rightarrow> pipelineRun \<Rightarrow> bool" where
  "fits sp run \<longleftrightarrow>
     distinct (map p_Name (pr_Params run)) \<and> distinct (map wb_Name (pr_Workspaces run)) \<and>
     set (requiredParams sp) \<subseteq> set (map p_Name (pr_Params run)) \<and>
     set (map p_Name (pr_Params run)) \<subseteq> set (paramNames (mapsField ''params'' sp)) \<and>
     set (requiredWorkspaces sp) \<subseteq> set (map wb_Name (pr_Workspaces run)) \<and>
     set (map wb_Name (pr_Workspaces run)) \<subseteq> set (map nameOf (mapsField ''workspaces'' sp))"

text \<open>The conditions of a task as Tekton reads them: the input, a reference to a parameter, is replaced by the value the run gives
  (or the default) and compared with the listed values. A task whose conditions do not hold is skipped.\<close>

definition valueIn :: "gomap \<Rightarrow> pipelineRun \<Rightarrow> string \<Rightarrow> string" where
  "valueIn sp run n =
     (case map_of (map (\<lambda>p. (p_Name p, p_Value p)) (pr_Params run)) n of
        Some v \<Rightarrow> v
      | None \<Rightarrow> (case map_of (map (\<lambda>p. (nameOf p, strField ''default'' p)) (mapsField ''params'' sp)) n of Some v \<Rightarrow> v | None \<Rightarrow> []))"

definition whenHolds :: "(string \<Rightarrow> string) \<Rightarrow> gomap \<Rightarrow> bool" where
  "whenHolds val w =
     (let v = (case paramRefs (strField ''input'' w) of [n] \<Rightarrow> val n | _ \<Rightarrow> strField ''input'' w) in
      if strField ''operator'' w = ''in'' then v \<in> set (strsField ''values'' w) else v \<notin> set (strsField ''values'' w))"

definition runsTask :: "(string \<Rightarrow> string) \<Rightarrow> gomap \<Rightarrow> bool" where
  "runsTask val t \<longleftrightarrow> list_all (whenHolds val) (mapsField ''when'' t)"

lemma inputs_read:
  "paramRefs ''$(params.intermediate-registry)'' = [''intermediate-registry'']" "paramRefs ''$(params.has-tpa)'' = [''has-tpa'']"
  "paramRefs ''$(params.has-keyless-signing)'' = [''has-keyless-signing'']"
  "paramRefs ''$(params.architect-export-enabled)'' = [''architect-export-enabled'']"
  "paramRefs ''$(params.cli-tools-enabled)'' = [''cli-tools-enabled'']"
  "paramRefs ''$(params.verify-enabled)'' = [''verify-enabled'']" "paramRefs ''$(params.node-registries)'' = [''node-registries'']"
  by code_simp+

text \<open>The tasks of the collection pipeline and their conditions.\<close>

lemma collection_conditions:
  "map (\<lambda>t. ((nameOf t, workspacesOf t), runsTask val t)) (pipelineTaskList r) =
     [((''dry-run'', [''config'', ''pull-secret'', ''output'']), val ''intermediate-registry'' \<noteq> []),
      ((''mirror-to-intermediate'', [''config'', ''pull-secret'', ''output'']), val ''intermediate-registry'' \<noteq> []),
      ((''syft-sbom'', [''output'', ''pull-secret'', ''tpa-oidc-secret'']), val ''has-tpa'' = ''true''),
      ((''sign-images'', [''output'', ''oidc-secret'', ''pull-secret'']), val ''has-keyless-signing'' = ''true'' \<and> val ''intermediate-registry'' \<noteq> []),
      ((''oc-mirror'', [''config'', ''pull-secret'', ''output'']), val ''intermediate-registry'' = []),
      ((''mirror-from-intermediate'', [''config'', ''output'', ''pull-secret'']), val ''intermediate-registry'' \<noteq> []),
      ((''sign-bundles'', [''output'', ''oidc-secret'']), val ''has-keyless-signing'' = ''true''),
      ((''create-bundle-sbom'', [''output'', ''tpa-oidc-secret'']), val ''has-tpa'' = ''true''),
      ((''upload-sbom'', [''output'', ''tpa-oidc-secret'']), val ''has-tpa'' = ''true''),
      ((''export-architect-images'', [''output'', ''pull-secret'']), val ''architect-export-enabled'' = ''true''),
      ((''download-cli-tools'', [''output'']), val ''cli-tools-enabled'' = ''true''),
      ((''download-rhcos-images'', [''output'', ''pull-secret'']), True),
      ((''build-rhcos-server'', [''output'', ''pull-secret'']), True),
      ((''copy-import-script'', [''output'', ''architect-script'']), True),
      ((''repackage-bundle'', [''output'', ''config'']), True),
      ((''upload-to-s3'', [''output'']), True)]"
  by (simp add: pipelineTaskList_def task_defs runsTask_def whenHolds_def inputs_read workspacesOf_def)

text \<open>The tasks that run, by name, and the workspaces they use beside the CA bundle.\<close>

definition runningTasks :: "gomap \<Rightarrow> pipelineRun \<Rightarrow> gomap list" where
  "runningTasks sp run = filter (runsTask (valueIn sp run)) (mapsField ''tasks'' sp)"

lemma filter_table: "map f (filter P xs) = map fst (filter snd (map (\<lambda>x. (f x, P x)) xs))"
  by (induction xs) auto

lemma runsTask_inject [simp]: "runsTask val (injectCATask (injectProxyAndCAIntoTask t p c)) = runsTask val t"
  by (simp add: runsTask_def)

lemma running_collection:
  "map (\<lambda>t. (nameOf t, workspacesOf t)) (runningTasks (collectionPipelineSpec r) run) =
     map (\<lambda>(n, ws). (n, ws @ [''cluster-ca-bundle'']))
       (map (\<lambda>t. (nameOf t, workspacesOf t)) (filter (runsTask (valueIn (collectionPipelineSpec r) run)) (pipelineTaskList r)))"
  by (simp add: runningTasks_def spec_fields injectCABundleIntoTasks_def buildPipelineTasks_def Let_def filter_map comp_def)

lemma requirements:
  "requiredParams (collectionPipelineSpec r) =
     [''config-map-name'', ''working-pvc-name'', ''collection-name'', ''architect-frontend-image'', ''architect-backend-image'']"
  "requiredWorkspaces (collectionPipelineSpec r) = [''config'', ''pull-secret'', ''output'']"
  "map nameOf templateWorkspaces = [''config'', ''pull-secret'', ''output'', ''oidc-secret'', ''tpa-oidc-secret'', ''cosign-key'',
     ''architect-script'', ''cluster-ca-bundle'']"
  "requiredParams (importPipelineSpec r) = [''bundle-filename'', ''target-registry'']"
  "requiredWorkspaces (importPipelineSpec r) = [''bundle-data'', ''config'', ''pull-secret'']"
  by (simp_all add: requiredParams_def requiredWorkspaces_def spec_fields templateParams_def templateWorkspaces_def
      importTemplateParams_def importTemplateWorkspaces_def paramNames_def)

section \<open>The collection run\<close>

text \<open>What \<^verbatim>\<open>buildPipelineRun\<close> puts into a run: the values vary, the names are these.\<close>

definition collectionParams :: "('w, 'x) env_scheme \<Rightarrow> collectionPipeline \<Rightarrow> param list \<Rightarrow> bool \<Rightarrow> bool" where
  "collectionParams E p ps hasTPA \<longleftrightarrow> (\<exists>cmName img vol reg tpa iss cid obc platform platform2 oc hp hsp np.
     ps = [stringParam ''config-map-name'' cmName, stringParam ''mirror-image'' img, stringParam ''working-pvc-name'' vol,
           stringParam ''collection-name'' (cp_Name p), stringParam ''parent-pipeline'' (cp_Parent p),
           stringParam ''intermediate-registry'' reg] @ keylessParams p @
          [stringParam ''has-tpa'' (if hasTPA then ''true'' else ''false''), stringParam ''tpa-host'' tpa,
           stringParam ''tpa-oidc-issuer'' iss, stringParam ''tpa-oidc-client-id'' cid] @ s3Params obc @ architectParams E platform2 @
          [stringParam ''oc-version'' oc, stringParam ''mirror-registry-version'' ''latest'', stringParam ''cli-tools-enabled'' ''true'',
           stringParam ''http-proxy'' hp, stringParam ''https-proxy'' hsp, stringParam ''no-proxy'' np] @ rhcosParams platform @ [osusParam platform])"

lemma collectionParamsI:
  "collectionParams E p
     ([stringParam ''config-map-name'' cmName, stringParam ''mirror-image'' img, stringParam ''working-pvc-name'' vol,
       stringParam ''collection-name'' (cp_Name p), stringParam ''parent-pipeline'' (cp_Parent p),
       stringParam ''intermediate-registry'' reg] @ keylessParams p @
      [stringParam ''has-tpa'' (if hasTPA then ''true'' else ''false''), stringParam ''tpa-host'' tpa,
       stringParam ''tpa-oidc-issuer'' iss, stringParam ''tpa-oidc-client-id'' cid] @ s3Params obc @ architectParams E platform2 @
      [stringParam ''oc-version'' oc, stringParam ''mirror-registry-version'' ''latest'', stringParam ''cli-tools-enabled'' ''true'',
       stringParam ''http-proxy'' hp, stringParam ''https-proxy'' hsp, stringParam ''no-proxy'' np] @ rhcosParams platform @ [osusParam platform]) hasTPA"
  unfolding collectionParams_def by blast

lemma build_shape:
  "spec (buildPipelineRun E img p cm) (\<lambda>_ x. case x of Inl _ \<Rightarrow> True | Inr run \<Rightarrow>
     (\<exists>ps hasTPA cmName vol. run = collectionRun E p ps (collectionWorkspaces p cmName vol hasTPA) \<and> collectionParams E p ps hasTPA))"
  unfolding buildPipelineRun_def
  by (intro spec_bind_value spec_case_sum spec_case_option spec_case_prod spec_Let spec_returnI only_intros)
     (unfold sum.case, (rule TrueI | intro exI conjI, rule refl, rule collectionParamsI)+)

lemma params_named:
  "map p_Name (keylessParams p) = [''has-keyless-signing'', ''fulcio-url'', ''rekor-url'', ''tuf-url'', ''oidc-issuer'', ''oidc-client-id'']"
  "map p_Name (s3Params obc) = [''has-s3'', ''s3-bucket'', ''s3-endpoint'', ''s3-region'', ''s3-secret-name'']"
  "map p_Name (architectParams E pl) = [''architect-frontend-image'', ''architect-backend-image'', ''architect-export-enabled'']"
  "map p_Name (rhcosParams pl') = [''rhcos-download-enabled'', ''rhcos-server-base-image'']" "p_Name (osusParam pl') = ''osus-enabled''"
  by (auto simp: keylessParams_def s3Params_def architectParams_def rhcosParams_def osusParam_def stringParam_def Let_def
      split: option.split sum.split)

lemma collectionParams_names:
  "collectionParams E p ps h \<Longrightarrow> map p_Name ps =
     [''config-map-name'', ''mirror-image'', ''working-pvc-name'', ''collection-name'', ''parent-pipeline'', ''intermediate-registry'',
      ''has-keyless-signing'', ''fulcio-url'', ''rekor-url'', ''tuf-url'', ''oidc-issuer'', ''oidc-client-id'', ''has-tpa'', ''tpa-host'',
      ''tpa-oidc-issuer'', ''tpa-oidc-client-id'', ''has-s3'', ''s3-bucket'', ''s3-endpoint'', ''s3-region'', ''s3-secret-name'',
      ''architect-frontend-image'', ''architect-backend-image'', ''architect-export-enabled'', ''oc-version'', ''mirror-registry-version'',
      ''cli-tools-enabled'', ''http-proxy'', ''https-proxy'', ''no-proxy'', ''rhcos-download-enabled'', ''rhcos-server-base-image'', ''osus-enabled'']"
  unfolding collectionParams_def by (auto simp: params_named) (simp_all add: stringParam_def)

lemma collectionParams_flags:
  assumes "collectionParams E p ps h"
  shows "map_of (map (\<lambda>p. (p_Name p, p_Value p)) ps) ''has-tpa'' = Some (if h then ''true'' else ''false'')"
    and "map_of (map (\<lambda>p. (p_Name p, p_Value p)) ps) ''has-keyless-signing'' = Some (if cp_keyless p = None then ''false'' else ''true'')"
  using assms unfolding collectionParams_def by (auto simp: keylessParams_def stringParam_def split: option.split)

lemma collectionWorkspaces_names:
  "map wb_Name (collectionWorkspaces p cmName vol h) = [''config'', ''pull-secret'', ''output''] @
     (if Option.bind (cp_keyless p) ksc_OIDCClientSecret = None then [] else [''oidc-secret'']) @ (if h then [''tpa-oidc-secret''] else []) @
     (if Option.bind (cps_Signing (cp_Spec p)) csc_KeySecretRef = None then [] else [''cosign-key'']) @ [''architect-script'', ''cluster-ca-bundle'']"
  by (simp add: collectionWorkspaces_def split: option.split)

lemma collectionRun_parts [simp]:
  "pr_Params (collectionRun E p ps ws) = ps" "pr_Workspaces (collectionRun E p ps ws) = ws"
  "pr_PipelineRef (collectionRun E p ps ws) = ''collection-pipeline-template''"
  by (simp_all add: collectionRun_def Let_def)

lemma collection_fits:
  assumes "collectionParams E p ps h"
  shows "fits (collectionPipelineSpec r) (collectionRun E p ps (collectionWorkspaces p cmName vol h))"
  unfolding fits_def requirements spec_fields templateParams_names collectionRun_parts collectionParams_names [OF assms] collectionWorkspaces_names
  by simp

text \<open>C13. The runs fit the templates. Every run that the collection controller builds names the collection template and gives it
  each parameter without default and each workspace that is not optional, under distinct names that the template
  declares; the same holds of the runs of the import controller and the import template.\<close>

theorem runs_fit_templates:
  "spec (buildPipelineRun E img p cm) (\<lambda>_ x. case x of Inl _ \<Rightarrow> True | Inr run \<Rightarrow>
     pr_PipelineRef run = ''collection-pipeline-template'' \<and> fits (collectionPipelineSpec r) run) \<and>
   spec (buildImportPipelineRun E' img' i cfg) (\<lambda>_ x. case x of Inl _ \<Rightarrow> True | Inr run \<Rightarrow>
     pr_PipelineRef run = ''import-pipeline-template'' \<and> fits (importPipelineSpec r) run)"
proof
  show "spec (buildPipelineRun E img p cm) (\<lambda>_ x. case x of Inl _ \<Rightarrow> True | Inr run \<Rightarrow>
     pr_PipelineRef run = ''collection-pipeline-template'' \<and> fits (collectionPipelineSpec r) run)"
    by (rule spec_mono [OF build_shape]) (auto simp: collection_fits split: sum.splits)
  have names: "paramNames (importTemplateParams r) = [''bundle-filename'', ''target-registry'', ''mirror-image'', ''verify-enabled'',
      ''cosign-pub-secret'', ''node-registries'']"
    "map nameOf importTemplateWorkspaces = [''bundle-data'', ''config'', ''pull-secret'', ''cosign-pub'', ''cluster-ca-bundle'']"
    by (simp_all add: paramNames_def importTemplateParams_def importTemplateWorkspaces_def)
  show "spec (buildImportPipelineRun E' img' i cfg) (\<lambda>_ x. case x of Inl _ \<Rightarrow> True | Inr run \<Rightarrow>
     pr_PipelineRef run = ''import-pipeline-template'' \<and> fits (importPipelineSpec r) run)"
    unfolding buildImportPipelineRun_def Let_def fits_def requirements spec_fields names
    by (rule spec_bindI [OF spec_resolveNodeRegistries]) (auto intro!: spec_intros simp: stringParam_def split: sum.split)
qed

text \<open>The table decides which tasks run, and that what they use is bound, row by row.\<close>

lemma runs_iff_row:
  "n \<in> set (map nameOf (runningTasks (collectionPipelineSpec r) run)) \<longleftrightarrow>
     list_ex (\<lambda>((m, _), b). m = n \<and> b) (map (\<lambda>t. ((nameOf t, workspacesOf t), runsTask (valueIn (collectionPipelineSpec r) run) t)) (pipelineTaskList r))"
  using arg_cong [OF running_collection [of r run], of "map fst"] by (auto simp: list_ex_iff comp_def case_prod_unfold)

lemma uses_bound_row:
  "set (concat (map workspacesOf (runningTasks (collectionPipelineSpec r) run))) \<subseteq> W \<longleftrightarrow>
     list_all (\<lambda>((_, ws), b). b \<longrightarrow> set (ws @ [''cluster-ca-bundle'']) \<subseteq> W)
       (map (\<lambda>t. ((nameOf t, workspacesOf t), runsTask (valueIn (collectionPipelineSpec r) run) t)) (pipelineTaskList r))"
proof -
  have "map workspacesOf (runningTasks (collectionPipelineSpec r) run) =
      map (\<lambda>t. workspacesOf t @ [''cluster-ca-bundle'']) (filter (runsTask (valueIn (collectionPipelineSpec r) run)) (pipelineTaskList r))"
    using arg_cong [OF running_collection [of r run], of "map snd"] by (simp add: comp_def case_prod_unfold)
  then show ?thesis by (auto simp: list_all_iff)
qed

lemma mirror_way:
  assumes ps: "collectionParams E p ps h" and run: "run = collectionRun E p ps (collectionWorkspaces p cmName vol h)"
  shows "set (map nameOf (runningTasks (collectionPipelineSpec r) run)) \<inter>
       {''oc-mirror'', ''dry-run'', ''mirror-to-intermediate'', ''mirror-from-intermediate''} =
       (if valueIn (collectionPipelineSpec r) run ''intermediate-registry'' = [] then {''oc-mirror''}
        else {''dry-run'', ''mirror-to-intermediate'', ''mirror-from-intermediate''}) \<and>
     set (concat (map workspacesOf (runningTasks (collectionPipelineSpec r) run))) \<subseteq> set (map wb_Name (pr_Workspaces run)) \<union>
       (if cp_keyless p \<noteq> None \<and> Option.bind (cp_keyless p) ksc_OIDCClientSecret = None then {''oidc-secret''} else {})"
proof -
  let ?val = "valueIn (collectionPipelineSpec r) run"
  have flags: "?val ''has-tpa'' = (if h then ''true'' else ''false'')"
    "?val ''has-keyless-signing'' = (if cp_keyless p = None then ''false'' else ''true'')"
    using collectionParams_flags [OF ps] by (simp_all add: valueIn_def run)
  have bound: "set (map wb_Name (pr_Workspaces run)) = {''config'', ''pull-secret'', ''output'', ''architect-script'', ''cluster-ca-bundle''} \<union>
     (if Option.bind (cp_keyless p) ksc_OIDCClientSecret = None then {} else {''oidc-secret''}) \<union> (if h then {''tpa-oidc-secret''} else {}) \<union>
     (if Option.bind (cps_Signing (cp_Spec p)) csc_KeySecretRef = None then {} else {''cosign-key''})"
    unfolding run collectionRun_parts collectionWorkspaces_names by auto
  have "''oc-mirror'' \<in> set (map nameOf (runningTasks (collectionPipelineSpec r) run)) \<longleftrightarrow> ?val ''intermediate-registry'' = []"
    "''dry-run'' \<in> set (map nameOf (runningTasks (collectionPipelineSpec r) run)) \<longleftrightarrow> ?val ''intermediate-registry'' \<noteq> []"
    "''mirror-to-intermediate'' \<in> set (map nameOf (runningTasks (collectionPipelineSpec r) run)) \<longleftrightarrow> ?val ''intermediate-registry'' \<noteq> []"
    "''mirror-from-intermediate'' \<in> set (map nameOf (runningTasks (collectionPipelineSpec r) run)) \<longleftrightarrow> ?val ''intermediate-registry'' \<noteq> []"
    unfolding runs_iff_row collection_conditions by simp_all
  moreover have "set (concat (map workspacesOf (runningTasks (collectionPipelineSpec r) run))) \<subseteq> set (map wb_Name (pr_Workspaces run)) \<union>
       (if cp_keyless p \<noteq> None \<and> Option.bind (cp_keyless p) ksc_OIDCClientSecret = None then {''oidc-secret''} else {})"
    unfolding uses_bound_row collection_conditions bound flags by (cases h; cases "cp_keyless p") simp_all
  ultimately show ?thesis by (simp del: set_map set_concat)
qed

text \<open>C14. A collection mirrors in exactly one way. Of the tasks whose conditions hold on the parameters of a run, either
  \<^verbatim>\<open>oc-mirror\<close> alone mirrors (no intermediate registry) or the three tasks through the intermediate registry do; and every
  workspace that a running task uses is bound, apart from \<^verbatim>\<open>oidc-secret\<close> when keyless signing is configured without a client secret.\<close>

theorem collection_mirrors_one_way:
  "spec (buildPipelineRun E img p cm) (\<lambda>_ x. case x of Inl _ \<Rightarrow> True | Inr run \<Rightarrow>
     set (map nameOf (runningTasks (collectionPipelineSpec r) run)) \<inter>
       {''oc-mirror'', ''dry-run'', ''mirror-to-intermediate'', ''mirror-from-intermediate''} =
       (if valueIn (collectionPipelineSpec r) run ''intermediate-registry'' = [] then {''oc-mirror''}
        else {''dry-run'', ''mirror-to-intermediate'', ''mirror-from-intermediate''}) \<and>
     set (concat (map workspacesOf (runningTasks (collectionPipelineSpec r) run))) \<subseteq> set (map wb_Name (pr_Workspaces run)) \<union>
       (if cp_keyless p \<noteq> None \<and> Option.bind (cp_keyless p) ksc_OIDCClientSecret = None then {''oidc-secret''} else {}))"
proof (rule spec_mono [OF build_shape])
  fix es x
  assume A: "case x of Inl _ \<Rightarrow> True | Inr run \<Rightarrow>
     \<exists>ps hasTPA cmName vol. run = collectionRun E p ps (collectionWorkspaces p cmName vol hasTPA) \<and> collectionParams E p ps hasTPA"
  show "case x of Inl _ \<Rightarrow> True | Inr run \<Rightarrow>
     set (map nameOf (runningTasks (collectionPipelineSpec r) run)) \<inter>
       {''oc-mirror'', ''dry-run'', ''mirror-to-intermediate'', ''mirror-from-intermediate''} =
       (if valueIn (collectionPipelineSpec r) run ''intermediate-registry'' = [] then {''oc-mirror''}
        else {''dry-run'', ''mirror-to-intermediate'', ''mirror-from-intermediate''}) \<and>
     set (concat (map workspacesOf (runningTasks (collectionPipelineSpec r) run))) \<subseteq> set (map wb_Name (pr_Workspaces run)) \<union>
       (if cp_keyless p \<noteq> None \<and> Option.bind (cp_keyless p) ksc_OIDCClientSecret = None then {''oidc-secret''} else {})"
  proof (cases x)
    case (Inr run)
    with A obtain ps h cmName vol where "collectionParams E p ps h" "run = collectionRun E p ps (collectionWorkspaces p cmName vol h)"
      by auto
    from mirror_way [OF this] show ?thesis unfolding Inr sum.case .
  qed simp
qed

end
