(* ===== verification/QuayRobot.thy ===== *)
theory QuayRobot
  imports PlatformEnv
begin

text \<open>
  The robot account of the managed Quay registry, from \<^verbatim>\<open>disconnectedplatform_controller.go\<close> and
  \<^verbatim>\<open>disconnectedplatform_airgapped.go\<close>: the host of the registry, the Python scripts and the commands in the pod that
  create the account and read its token, and the secret in which the credentials are kept.
\<close>

section \<open>The registry\<close>

definition quayRegistryGVK :: gvk where
  "quayRegistryGVK = \<lparr>g_Group = ''quay.redhat.com'', g_Version = ''v1'', g_Kind = ''QuayRegistry''\<rparr>"

definition openshiftRouteGVK :: gvk where
  "openshiftRouteGVK = \<lparr>g_Group = ''route.openshift.io'', g_Version = ''v1'', g_Kind = ''Route''\<rparr>"

definition withoutProtocol :: "string \<Rightarrow> string" where
  "withoutProtocol hostname = trimPrefix (trimPrefix hostname ''https://'') ''http://''"

definition getQuayHostname :: "('w, 'x) env_scheme \<Rightarrow> unstr \<Rightarrow> ('w, string res) go" where
  "getQuayHostname E quayRegistry =
     (let (hostname, found, err) = nestedString E (u_Object quayRegistry) [''status'', ''registryEndpoint''] in
      case err of
        Some err \<Rightarrow> return (Inl err)
      | None \<Rightarrow>
          if \<not> found \<or> hostname = [] then do {
            route \<leftarrow> Get E (KUnstr openshiftRouteGVK) theUnstr (u_Namespace quayRegistry, u_Name quayRegistry @ ''-quay'');
            case route of
              Inl err \<Rightarrow> if isNotFound err then return (Inr []) else return (Inl err)
            | Inr route \<Rightarrow> return (Inr (withoutProtocol (fst (nestedString E (u_Object route) [''spec'', ''host''])))) }
          else return (Inr (withoutProtocol hostname)))"

definition getQuayRegistry :: "('w, 'x) env_scheme \<Rightarrow> ('w, unstr res) go" where
  "getQuayRegistry E = Get E (KUnstr quayRegistryGVK) theUnstr (architectNamespace, ''mirror-operator-quay'')"

section \<open>Commands in a pod\<close>

text \<open>The outputs are always given (a buffer, or \<^verbatim>\<open>io.Discard\<close>), the input for the first command only.\<close>

definition execCommandInPod ::
  "('w, 'x) platformEnv_scheme \<Rightarrow> platformReconciler \<Rightarrow> string \<Rightarrow> string \<Rightarrow> string \<Rightarrow> string list \<Rightarrow> string option \<Rightarrow>
     ('w, goerr option \<times> string \<times> string) go" where
  "execCommandInPod E r namespace podName containerName command stdin =
     (if \<not> dpr_ExecClients r then return (Some (errorf ''ClientSet or RESTConfig not initialized''), [], [])
      else let opts = \<lparr>peo_Namespace = namespace, peo_Pod = podName, peo_Container = containerName, peo_Command = command,
                       peo_Stdin = (stdin \<noteq> None), peo_Stdout = True, peo_Stderr = True\<rparr> in
        case newSPDYExecutor E opts of
          Some err \<Rightarrow> return (Some (wrap ''failed to create executor'' err), [], [])
        | None \<Rightarrow> do {
            (err, stdout, stderr) \<leftarrow> effect (streamExec E opts (case stdin of Some s \<Rightarrow> s | None \<Rightarrow> []));
            return (map_option (wrap ''failed to execute command'') err, stdout, stderr) })"

text \<open>The first container that is listed; an empty name counts as none.\<close>

definition firstContainer :: "pod \<Rightarrow> string" where
  "firstContainer p = (case pod_Containers p of [] \<Rightarrow> [] | c # _ \<Rightarrow> c)"

definition lastLine :: "string \<Rightarrow> string" where
  "lastLine s = trimSpace (last (splitByte (CHR 0x0A) (trimSpace s)))"

definition execInQuayPod :: "('w, 'x) platformEnv_scheme \<Rightarrow> platformReconciler \<Rightarrow> string \<Rightarrow> string \<Rightarrow> ('w, string res) go" where
  "execInQuayPod E r namespace pythonScript = do {
     podList \<leftarrow> ListObjs E KPod thePod \<lparr>lo_Namespace = Some namespace, lo_Labels = [''quay-component'' \<mapsto> ''quay-app'']\<rparr>;
     case podList of
       Inl err \<Rightarrow> return (Inl (wrap ''failed to list Quay pods'' err))
     | Inr [] \<Rightarrow> return (Inl (errorf ''no Quay pods found''))
     | Inr (pod # _) \<Rightarrow>
         let podName = m_Name (pod_Meta pod); containerName = firstContainer pod in
         if containerName = [] then return (Inl (errorf (''no containers found in pod '' @ podName)))
         else do {
           (err, _, _) \<leftarrow> execCommandInPod E r namespace podName containerName [''sh'', ''-c'', ''cat > /tmp/bootstrap.py''] (Some pythonScript);
           case err of
             Some err \<Rightarrow> return (Inl (wrap ''failed to copy script to pod'' err))
           | None \<Rightarrow> do {
               (err, stdout, stderr) \<leftarrow> execCommandInPod E r namespace podName containerName [''python'', ''/tmp/bootstrap.py''] None;
               case err of
                 Some err \<Rightarrow> return (Inl (GoErr (err_reason err)
                     (''failed to execute script: '' @ err_text err @ '' (stderr: '' @ stderr @ '')'')))
               | None \<Rightarrow> return (Inr (lastLine stdout)) } } }"

section \<open>The robot account\<close>

definition queryScriptHead :: string where
  \<open>queryScriptHead =
     (unlines
     [[],
      ''import sys'',
      ''from app import app'',
      ''from data import model'',
      ''from data.database import configure'',
      [],
      ''# Initialize database'',
      ''configure(app.config)'',
      []]) @ ''org_name = "''\<close>

definition queryScriptBody :: string where
  \<open>queryScriptBody =
     unlines
     [''"'',
      ''robot_full_name = org_name + "+" + robot_short_name'',
      [],
      ''try:'',
      ''    # Look up the robot account'',
      ''    robot = model.user.lookup_robot(robot_full_name)'',
      ''    if not robot:'',
      ''        print(f"Robot {robot_full_name} not found", file=sys.stderr)'',
      ''        sys.exit(1)'',
      [],
      ''    # Retrieve the robot'' @ [CHR 0x27] @ ''s token'',
      ''    robot_token = model.user.retrieve_robot_token(robot)'',
      ''    if not robot_token:'',
      ''        print(f"Robot {robot_full_name} has no token", file=sys.stderr)'',
      ''        sys.exit(1)'',
      [],
      ''    print(robot_token)'',
      [],
      ''except Exception as e:'',
      ''    print(f"Error querying robot token: {e}", file=sys.stderr)'',
      ''    import traceback'',
      ''    traceback.print_exc(file=sys.stderr)'',
      ''    sys.exit(1)'']\<close>

definition queryScript :: "string \<Rightarrow> string \<Rightarrow> string" where
  \<open>queryScript orgName robotShortName = queryScriptHead @ orgName @ ''"'' @ [CHR 0x0A] @ ''robot_short_name = "'' @ robotShortName @ queryScriptBody\<close>

definition robotScriptHead :: string where
  \<open>robotScriptHead =
     (unlines
     [[],
      ''import os'',
      ''import sys'',
      ''from app import app'',
      ''from data import model'',
      ''from data.database import configure'',
      [],
      ''# Initialize database'',
      ''configure(app.config)'',
      []]) @ ''org_name = "''\<close>

definition robotScriptBody :: string where
  \<open>robotScriptBody =
     unlines
     [''"'',
      ''robot_full_name = org_name + "+" + robot_short_name'',
      [],
      ''try:'',
      ''    # Ensure initialization user exists'',
      ''    init_username = "mirroroperator-init"'',
      ''    init_email = "mirroroperator@example.com"'',
      ''    try:'',
      ''        init_user = model.user.get_user(init_username)'',
      ''        print(f"Init user {init_username} already exists", file=sys.stderr)'',
      ''    except:'',
      ''        print(f"Creating init user {init_username}", file=sys.stderr)'',
      ''        # Create initialization user (will be the org owner)'',
      ''        init_user = model.user.create_user(init_username, init_email, "", auto_verify=True)'',
      ''        init_user.verified = True'',
      ''        init_user.save()'',
      ''        print(f"Init user {init_username} created and verified", file=sys.stderr)'',
      [],
      ''    # Get or create organization'',
      ''    try:'',
      ''        org = model.organization.get_organization(org_name)'',
      ''        print(f"Organization {org_name} already exists", file=sys.stderr)'',
      ''    except:'',
      ''        print(f"Organization {org_name} not found, creating it", file=sys.stderr)'',
      ''        # Create organization directly in database to avoid team member constraint issues'',
      ''        from data.database import User'',
      ''        org = User.create(username=org_name, email=init_email, verified=True, organization=True)'',
      ''        print(f"Organization {org_name} created", file=sys.stderr)'',
      [],
      ''        # Create owners team for the organization'',
      ''        try:'',
      ''            owners_team = model.team.create_team("owners", org, "admin", "Owners of the organization")'',
      ''            print(f"Created owners team for organization", file=sys.stderr)'',
      ''        except Exception as e:'',
      ''            print(f"Warning: Could not create owners team: {e}", file=sys.stderr)'',
      [],
      ''    # Check if robot already exists'',
      ''    try:'',
      ''        existing_robot = model.user.lookup_robot(robot_full_name)'',
      ''        print(f"Robot {robot_full_name} already exists", file=sys.stderr)'',
      ''        # Get the robot'' @ [CHR 0x27] @ ''s token'',
      ''        robot_token = model.user.retrieve_robot_token(existing_robot)'',
      [],
      ''        # Ensure robot is in owners team (may have been missed on initial creation)'',
      ''        try:'',
      ''            owners_team = model.team.get_organization_team(org_name, "owners")'',
      ''            from data.database import TeamMember'',
      ''            TeamMember.get_or_create(user=existing_robot, team=owners_team)'',
      ''            print(f"Ensured robot is in owners team", file=sys.stderr)'',
      ''        except Exception as e:'',
      ''            print(f"Warning: Could not verify robot owners team membership: {e}", file=sys.stderr)'',
      [],
      ''        print(robot_token)'',
      ''    except:'',
      ''        print(f"Creating robot {robot_full_name}", file=sys.stderr)'',
      ''        # Create robot account - returns (robot, token) tuple'',
      ''        robot_result = model.user.create_robot(robot_short_name, org, "Mirror operator robot account")'',
      ''        # Extract robot and token from tuple'',
      ''        if isinstance(robot_result, tuple):'',
      ''            robot, robot_token = robot_result'',
      ''        else:'',
      ''            robot = robot_result'',
      ''            robot_token = model.user.retrieve_robot_token(robot)'',
      [],
      ''        # Grant robot admin access to organization - two step process'',
      ''        try:'',
      ''            owners_team = model.team.get_organization_team(org_name, "owners")'',
      [],
      ''            # Step 1: Create team member entry'',
      ''            from data.database import TeamMember'',
      ''            team_member = TeamMember.create(user=robot, team=owners_team)'',
      ''            print(f"Created team member entry for robot", file=sys.stderr)'',
      [],
      ''            # Step 2: Set role to admin'',
      ''            from data.database import TeamRole'',
      ''            team_member.role = TeamRole.admin'',
      ''            team_member.save()'',
      ''            print(f"Set robot role to admin in owners team", file=sys.stderr)'',
      ''        except Exception as e:'',
      ''            print(f"Warning: Could not add robot to owners team: {e}", file=sys.stderr)'',
      [],
      ''        print(robot_token)'',
      [],
      ''except Exception as e:'',
      ''    print(f"Error: {e}", file=sys.stderr)'',
      ''    import traceback'',
      ''    traceback.print_exc(file=sys.stderr)'',
      ''    sys.exit(1)'']\<close>

definition robotScript :: "string \<Rightarrow> string \<Rightarrow> string" where
  \<open>robotScript orgName robotShortName = robotScriptHead @ orgName @ ''"'' @ [CHR 0x0A] @ ''robot_short_name = "'' @ robotShortName @ robotScriptBody\<close>

definition queryQuayRobotToken :: "('w, 'x) platformEnv_scheme \<Rightarrow> platformReconciler \<Rightarrow> string \<Rightarrow> string \<Rightarrow> ('w, string res) go" where
  "queryQuayRobotToken E r orgName robotShortName = do {
     output \<leftarrow> execInQuayPod E r architectNamespace (queryScript orgName robotShortName);
     case output of
       Inl err \<Rightarrow> return (Inl (wrap ''failed to execute token query script'' err))
     | Inr output \<Rightarrow>
         let token = trimSpace output in
         if token = [] then return (Inl (errorf ''token query script returned empty token'')) else return (Inr token) }"

definition ensureQuayRobotViaPython :: "('w, 'x) platformEnv_scheme \<Rightarrow> platformReconciler \<Rightarrow> string \<Rightarrow> string \<Rightarrow> ('w, string res) go" where
  "ensureQuayRobotViaPython E r orgName robotShortName = do {
     output \<leftarrow> execInQuayPod E r architectNamespace (robotScript orgName robotShortName);
     case output of
       Inl err \<Rightarrow> return (Inl (wrap ''failed to execute robot creation script'' err))
     | Inr output \<Rightarrow>
         let token = trimSpace output in
         if token = [] then return (Inl (errorf ''robot creation script returned empty token'')) else return (Inr token) }"

definition robotSecretName :: string where
  "robotSecretName = ''quay-robot-credentials''"

definition robotSecret :: "string \<Rightarrow> string \<Rightarrow> secret" where
  "robotSecret robotName robotToken =
     \<lparr>sec_Meta = emptyMeta\<lparr>m_Name := robotSecretName, m_Namespace := architectNamespace\<rparr>, sec_Type = [],
      sec_Data = Some [''username'' \<mapsto> robotName, ''token'' \<mapsto> robotToken], sec_StringData = None\<rparr>"

definition saveQuayRobotCredentials :: "('w, 'x) env_scheme \<Rightarrow> string \<Rightarrow> string \<Rightarrow> ('w, goerr option) go" where
  "saveQuayRobotCredentials E robotName robotToken = do {
     let secret = robotSecret robotName robotToken;
     existing \<leftarrow> Get E KSecret theSecret (architectNamespace, robotSecretName);
     case existing of
       Inr existing \<Rightarrow> do {
         u \<leftarrow> Update E OSecret theSecret
               (secret\<lparr>sec_Meta := (sec_Meta secret)\<lparr>m_ResourceVersion := m_ResourceVersion (sec_Meta existing)\<rparr>\<rparr>);
         return (errOf u) }
     | Inl err \<Rightarrow>
         if isNotFound err then do { c \<leftarrow> Create E OSecret theSecret secret; return (errOf c) }
         else return (Some err) }"

definition getQuayRobotCredentials :: "('w, 'x) platformEnv_scheme \<Rightarrow> platformReconciler \<Rightarrow> ('w, (string \<times> string) res) go" where
  "getQuayRobotCredentials E r = do {
     let robot = ''mirror+mirroroperator'';
     robotSecret \<leftarrow> Get E KSecret theSecret (architectNamespace, robotSecretName);
     let cached = (case robotSecret of Inl _ \<Rightarrow> [] | Inr s \<Rightarrow> secGet s ''token'');
     if cached \<noteq> [] then return (Inr (robot, cached))
     else do {
       token \<leftarrow> queryQuayRobotToken E r ''mirror'' ''mirroroperator'';
       case token of
         Inl err \<Rightarrow> return (Inl (wrap ''failed to query robot token from Quay'' err))
       | Inr token \<Rightarrow> do {
           _ \<leftarrow> saveQuayRobotCredentials E robot token;
           return (Inr (robot, token)) } } }"

definition ensureQuayCredentials :: "('w, 'x) platformEnv_scheme \<Rightarrow> platformReconciler \<Rightarrow> ('w, goerr option) go" where
  "ensureQuayCredentials E r = do {
     quayRegistry \<leftarrow> getQuayRegistry E;
     case quayRegistry of
       Inl err \<Rightarrow> return (Some (wrap ''failed to get QuayRegistry'' err))
     | Inr quayRegistry \<Rightarrow> do {
         hostname \<leftarrow> getQuayHostname E quayRegistry;
         case hostname of
           Inl _ \<Rightarrow> return None
         | Inr hostname \<Rightarrow>
             if hostname = [] then return None
             else do {
               let robotFullName = ''mirror+mirroroperator'';
               cachedCredentials \<leftarrow> Get E KSecret theSecret (architectNamespace, robotSecretName);
               let create = do {
                     robotToken \<leftarrow> ensureQuayRobotViaPython E r ''mirror'' ''mirroroperator'';
                     case robotToken of
                       Inl err \<Rightarrow> return (Some (wrap ''failed to ensure Quay robot account'' err))
                     | Inr robotToken \<Rightarrow> do {
                         _ \<leftarrow> saveQuayRobotCredentials E robotFullName robotToken;
                         return None } };
               case cachedCredentials of
                 Inr cached \<Rightarrow>
                   if secGet cached ''username'' = robotFullName \<and> secGet cached ''token'' \<noteq> [] then return None else create
               | Inl err \<Rightarrow>
                   if \<not> isNotFound err then return (Some (wrap ''failed to get cached Quay robot credentials'' err)) else create } } }"

definition ensureAirgappedRegistryCredentials ::
  "('w, 'x) platformEnv_scheme \<Rightarrow> platformReconciler \<Rightarrow> disconnectedPlatform \<Rightarrow> ('w, goerr option) go" where
  "ensureAirgappedRegistryCredentials E r platform =
     (case dps_Airgapped (dp_Spec platform) of
        None \<Rightarrow> return (Some (panic ''nil pointer dereference: platform.Spec.Airgapped''))
      | Some airgapped \<Rightarrow>
          if ag_RegistryCredentials airgapped \<noteq> None then return None
          else (case ag_Quay airgapped of
             None \<Rightarrow> return None
           | Some quay \<Rightarrow>
               if \<not> aq_Enabled quay then return None
               else do {
                 quayRegistry \<leftarrow> getQuayRegistry E;
                 case quayRegistry of
                   Inl err \<Rightarrow> if isNotFound err then return None else return (Some err)
                 | Inr quayRegistry \<Rightarrow> do {
                     hostname \<leftarrow> getQuayHostname E quayRegistry;
                     case hostname of
                       Inl _ \<Rightarrow> return None
                     | Inr hostname \<Rightarrow>
                         if hostname = [] then return None
                         else do {
                           let orgName = (if aq_OrganizationName quay \<noteq> [] then aq_OrganizationName quay else ''mirror'');
                           robotToken \<leftarrow> ensureQuayRobotViaPython E r orgName ''mirroroperator'';
                           case robotToken of
                             Inl err \<Rightarrow> return (Some (wrap ''failed to ensure Quay robot account'' err))
                           | Inr robotToken \<Rightarrow> do {
                               _ \<leftarrow> saveQuayRobotCredentials E (orgName @ ''+'' @ ''mirroroperator'') robotToken;
                               return None } } } }))"

section \<open>The API token\<close>

definition bootstrapQuayAPIToken :: "('w, string res) go" where
  "bootstrapQuayAPIToken = return (Inr ''unused'')"

definition ensureQuayAPIToken :: "('w, 'x) env_scheme \<Rightarrow> ('w, string res) go" where
  "ensureQuayAPIToken E = do {
     tokenSecret \<leftarrow> Get E KSecret theSecret (architectNamespace, ''quay-api-token'');
     let saved = (case tokenSecret of Inl _ \<Rightarrow> [] | Inr s \<Rightarrow> secGet s ''token'');
     let tokenSecret = (case tokenSecret of
           Inl _ \<Rightarrow> \<lparr>sec_Meta = emptyMeta\<lparr>m_Name := ''quay-api-token'', m_Namespace := architectNamespace\<rparr>,
                     sec_Type = [], sec_Data = None, sec_StringData = None\<rparr>
         | Inr s \<Rightarrow> s);
     if saved \<noteq> [] then return (Inr saved)
     else do {
       token \<leftarrow> bootstrapQuayAPIToken;
       case token of
         Inl err \<Rightarrow> return (Inl (wrap ''failed to bootstrap Quay API token'' err))
       | Inr token \<Rightarrow> do {
           c \<leftarrow> Create E OSecret theSecret (tokenSecret\<lparr>sec_Data := Some [''token'' \<mapsto> token]\<rparr>);
           case c of
             Inl err \<Rightarrow> if \<not> isAlreadyExists err then return (Inl (wrap ''failed to save API token'' err)) else return (Inr token)
           | Inr _ \<Rightarrow> return (Inr token) } } }"

section \<open>Credentials read back\<close>

lemma robotSecret_get [simp]:
  "sec_Data s = sec_Data (robotSecret n t) \<Longrightarrow> secGet s ''token'' = t"
  "sec_Data s = sec_Data (robotSecret n t) \<Longrightarrow> secGet s ''username'' = n"
  by (simp_all add: secGet_def secLookup_def robotSecret_def)

lemma spec_save:
  "spec (saveQuayRobotCredentials E n t) (\<lambda>es e. e = None \<longrightarrow> (\<exists>r w q r'. sec_Data w = sec_Data (robotSecret n t) \<and>
     q \<in> {RCreate (OSecret w), RUpdate (OSecret w)} \<and> es = [(RGet KSecret (architectNamespace, robotSecretName), r), (q, r')]))"
  unfolding saveQuayRobotCredentials_def Let_def by (intro spec_intros; fastforce)

lemma only_exec [only_intros]:
  "P (RList KPod \<lparr>lo_Namespace = Some ns, lo_Labels = [''quay-component'' \<mapsto> ''quay-app'']\<rparr>) \<Longrightarrow> only P (execInQuayPod E r ns script)"
  unfolding execInQuayPod_def execCommandInPod_def Let_def by (intro only_intros)

lemma only_robot [only_intros]:
  assumes "P (RList KPod \<lparr>lo_Namespace = Some architectNamespace, lo_Labels = [''quay-component'' \<mapsto> ''quay-app'']\<rparr>)"
  shows "only P (queryQuayRobotToken E r org robot)" "only P (ensureQuayRobotViaPython E r org robot)"
  unfolding queryQuayRobotToken_def ensureQuayRobotViaPython_def Let_def using assms by (auto intro!: only_intros)

lemma only_hostname [only_intros]:
  "P (RGet (KUnstr openshiftRouteGVK) (u_Namespace q, u_Name q @ ''-quay'')) \<Longrightarrow> only P (getQuayHostname E q)"
  "P (RGet (KUnstr quayRegistryGVK) (architectNamespace, ''mirror-operator-quay'')) \<Longrightarrow> only P (getQuayRegistry E)"
  unfolding getQuayHostname_def getQuayRegistry_def Let_def by (intro only_intros; assumption)+

lemma spec_get_cached:
  "spec (getQuayRobotCredentials E r) (\<lambda>es c. \<exists>a rest. es = (RGet KSecret (architectNamespace, robotSecretName), a) # rest \<and>
     (\<forall>s. a = Inr [OSecret s] \<longrightarrow> secGet s ''token'' \<noteq> [] \<longrightarrow> rest = [] \<and> c = Inr (''mirror+mirroroperator'', secGet s ''token'')))"
  unfolding getQuayRobotCredentials_def Let_def
proof (rule spec_bind_Get, rule spec_if)
  fix a
  show "spec (return (Inr (''mirror+mirroroperator'', case decode1 theSecret a of Inl _ \<Rightarrow> [] | Inr s \<Rightarrow> secGet s ''token'')))
     (\<lambda>es c. \<exists>a' rest. (RGet KSecret (architectNamespace, robotSecretName), a) # es = (RGet KSecret (architectNamespace, robotSecretName), a') # rest \<and>
        (\<forall>s. a' = Inr [OSecret s] \<longrightarrow> secGet s ''token'' \<noteq> [] \<longrightarrow> rest = [] \<and> c = Inr (''mirror+mirroroperator'', secGet s ''token'')))"
    by auto
next
  fix a
  assume "\<not> (case decode1 theSecret a of Inl _ \<Rightarrow> [] | Inr s \<Rightarrow> secGet s ''token'') \<noteq> []"
  then have "\<And>s. a = Inr [OSecret s] \<Longrightarrow> secGet s ''token'' = []" by auto
  then show "spec (do {
       token \<leftarrow> queryQuayRobotToken E r ''mirror'' ''mirroroperator'';
       case token of
         Inl err \<Rightarrow> return (Inl (wrap ''failed to query robot token from Quay'' err))
       | Inr token \<Rightarrow> do {
           _ \<leftarrow> saveQuayRobotCredentials E ''mirror+mirroroperator'' token;
           return (Inr (''mirror+mirroroperator'', token)) } })
     (\<lambda>es c. \<exists>a' rest. (RGet KSecret (architectNamespace, robotSecretName), a) # es = (RGet KSecret (architectNamespace, robotSecretName), a') # rest \<and>
        (\<forall>s. a' = Inr [OSecret s] \<longrightarrow> secGet s ''token'' \<noteq> [] \<longrightarrow> rest = [] \<and> c = Inr (''mirror+mirroroperator'', secGet s ''token'')))"
    by (intro only_spec [where P = "\<lambda>_. True"]) (auto simp: saveQuayRobotCredentials_def Let_def intro!: only_intros)
qed

text \<open>The token that was saved is read back without a command in the Quay pod, but not the user: whichever name was saved with it (the
  airgapped mode saves \<^verbatim>\<open>org+mirroroperator\<close> of the configured organization), the credentials name \<^verbatim>\<open>mirror+mirroroperator\<close>.\<close>

theorem robot_credentials_read_back:
  "spec (do { e \<leftarrow> saveQuayRobotCredentials E name token; c \<leftarrow> getQuayRobotCredentials E r; return (e, c) }) (\<lambda>es (e, c).
     e = None \<longrightarrow> (\<exists>w read rest. map fst (take 2 es) \<in> {[RGet KSecret (architectNamespace, robotSecretName), RCreate (OSecret w)],
         [RGet KSecret (architectNamespace, robotSecretName), RUpdate (OSecret w)]} \<and>
       drop 2 es = (RGet KSecret (architectNamespace, robotSecretName), read) # rest \<and>
       (read = Inr [OSecret w] \<longrightarrow> token \<noteq> [] \<longrightarrow> rest = [] \<and> c = Inr (''mirror+mirroroperator'', token))))"
  by (rule spec_bindI [OF spec_save], rule spec_bindI [OF spec_get_cached]) fastforce

theorem robot_credentials_read_back_witness:
  "let E = scriptedPlatform (\<lambda>_. Inl (errorf ''no json'')) (\<lambda>_. Inl (errorf ''no json'')) (\<lambda>_. []);
       s = robotSecret ''org+mirroroperator'' ''token''
   in fst (run_state (do { e \<leftarrow> saveQuayRobotCredentials E ''org+mirroroperator'' ''token''; c \<leftarrow> getQuayRobotCredentials E sampleReconciler; return (e, c) })
        (start [Inl (GoErr NotFound ''no secret''), Inr [OSecret s], Inr [OSecret s]])) = (None, Inr (''mirror+mirroroperator'', ''token''))"
  using spec_run [OF robot_credentials_read_back
      [of "scriptedPlatform (\<lambda>_. Inl (errorf ''no json'')) (\<lambda>_. Inl (errorf ''no json'')) (\<lambda>_. [])" "''org+mirroroperator''" "''token''" sampleReconciler],
    of "start [Inl (GoErr NotFound ''no secret''), Inr [OSecret (robotSecret ''org+mirroroperator'' ''token'')],
          Inr [OSecret (robotSecret ''org+mirroroperator'' ''token'')]]"]
  by (simp add: saveQuayRobotCredentials_def getQuayRobotCredentials_def scripted_simps isNotFound_def Let_def)

end
