(* ===== verification/PullSecrets.thy ===== *)
theory PullSecrets
  imports QuayRobot
begin

text \<open>
  The pull secrets of the operator, from \<^verbatim>\<open>disconnectedplatform_controller.go\<close> and \<^verbatim>\<open>disconnectedplatform_airgapped.go\<close>: a secret
  is copied from the namespace of the cluster, merged with the one that is there, and extended by the credentials of the
  managed Quay. A \<^verbatim>\<open>dockerconfigjson\<close> document is the map \<^verbatim>\<open>auths\<close> from hosts to credentials.
\<close>

definition pullSecretKey :: string where
  "pullSecretKey = ''.dockerconfigjson''"

section \<open>Merging documents\<close>

text \<open>\<^verbatim>\<open>cfg["auths"]\<close> as a map, empty where it is missing or nil; the type assertion with its test.\<close>

definition authsOf :: "gomap option \<Rightarrow> gomap" where
  "authsOf cfg = (case asMap (orEmptyMap cfg ''auths'') of Some m \<Rightarrow> m | None \<Rightarrow> Map.empty)"

text \<open>The loop over the hosts of the source. The hosts of the managed Quay are collected before the loop in the source, but not used.\<close>

fun mergeAuths :: "(goval \<Rightarrow> string) \<Rightarrow> gomap \<Rightarrow> string list \<Rightarrow> gomap \<Rightarrow> bool \<Rightarrow> gomap \<times> bool" where
  "mergeAuths pv sourceAuths [] existingAuths changed = (existingAuths, changed)"
| "mergeAuths pv sourceAuths (host # hosts) existingAuths changed =
     (case sourceAuths host of
        None \<Rightarrow> mergeAuths pv sourceAuths hosts existingAuths changed
      | Some auth \<Rightarrow>
          if (case existingAuths host of None \<Rightarrow> True | Some existingAuth \<Rightarrow> pv existingAuth \<noteq> pv auth)
          then mergeAuths pv sourceAuths hosts (existingAuths(host \<mapsto> auth)) True
          else mergeAuths pv sourceAuths hosts existingAuths changed)"

definition mergePullSecrets :: "('w, 'x) platformEnv_scheme \<Rightarrow> string \<Rightarrow> string \<Rightarrow> (string \<times> bool) res" where
  "mergePullSecrets E existing source =
     (case jsonUnmarshal E existing of
        Inl err \<Rightarrow> Inl (wrap ''failed to parse existing dockerconfig'' err)
      | Inr existingConfig \<Rightarrow>
          (case jsonUnmarshal E source of
             Inl err \<Rightarrow> Inl (wrap ''failed to parse source dockerconfig'' err)
           | Inr sourceConfig \<Rightarrow>
               let sourceAuths = authsOf sourceConfig;
                   (existingAuths, changed) = mergeAuths (sprintV E) sourceAuths (rangeOrder E sourceAuths) (authsOf existingConfig) False in
               (case existingConfig of
                  None \<Rightarrow> Inl (panic ''assignment to entry in nil map: existingConfig'')
                | Some cfg \<Rightarrow>
                    (case jsonMarshal E (cfg(''auths'' \<mapsto> GMap existingAuths)) of
                       Inl err \<Rightarrow> Inl (wrap ''failed to marshal merged dockerconfig'' err)
                     | Inr merged \<Rightarrow> Inr (merged, changed)))))"

section \<open>Credentials of the managed Quay\<close>

definition authString :: "string \<Rightarrow> string \<Rightarrow> string" where
  "authString robot token = stdEncodeToString (robot @ '':'' @ token)"

definition hasAuth :: "gomap \<Rightarrow> string \<Rightarrow> string \<Rightarrow> bool" where
  "hasAuth auths hostname auth =
     (case asMap (auths hostname) of None \<Rightarrow> False | Some m \<Rightarrow> (case m ''auth'' of Some (GStr s) \<Rightarrow> s = auth | _ \<Rightarrow> False))"

definition addQuayCredentialsIfNeeded ::
  "('w, 'x) platformEnv_scheme \<Rightarrow> platformReconciler \<Rightarrow> string \<Rightarrow> ('w, (string \<times> bool) res) go" where
  "addQuayCredentialsIfNeeded E r dockerconfigJSON = do {
     quayRegistry \<leftarrow> getQuayRegistry E;
     case quayRegistry of
       Inl _ \<Rightarrow> return (Inr (dockerconfigJSON, False))
     | Inr quayRegistry \<Rightarrow> do {
         hostname \<leftarrow> getQuayHostname E quayRegistry;
         case hostname of
           Inl _ \<Rightarrow> return (Inr (dockerconfigJSON, False))
         | Inr hostname \<Rightarrow>
             if hostname = [] then return (Inr (dockerconfigJSON, False))
             else (case jsonUnmarshal E dockerconfigJSON of
               Inl err \<Rightarrow> return (Inl (wrap ''failed to parse dockerconfig'' err))
             | Inr dockerConfig \<Rightarrow>
                 if dockerConfig = None then return (Inl (panic ''assignment to entry in nil map: dockerConfig''))
                 else do {
                   let auths = authsOf dockerConfig;
                   robot \<leftarrow> getQuayRobotCredentials E r;
                   case robot of
                     Inl err \<Rightarrow>
                       if auths hostname \<noteq> None then return (Inr (dockerconfigJSON, False))
                       else return (Inl (wrap ''failed to get Quay robot credentials'' err))
                   | Inr (robot, token) \<Rightarrow>
                       if hasAuth auths hostname (authString robot token) then return (Inr (dockerconfigJSON, False))
                       else (case jsonMarshal E ((orEmptyMap dockerConfig)(''auths'' \<mapsto>
                                 GMap (auths(hostname \<mapsto> GMap [''auth'' \<mapsto> GStr (authString robot token)])))) of
                           Inl err \<Rightarrow> return (Inl (wrap ''failed to marshal updated dockerconfig'' err))
                         | Inr updated \<Rightarrow> return (Inr (updated, True))) }) } }"

section \<open>The pull secret of the operator\<close>

definition backendPods :: listOptions where
  "backendPods = \<lparr>lo_Namespace = Some architectNamespace,
     lo_Labels = [''app.kubernetes.io/component'' \<mapsto> ''backend'', ''app.kubernetes.io/part-of'' \<mapsto> ''mirror-operator'']\<rparr>"

fun deleteAllPods :: "('w, 'x) env_scheme \<Rightarrow> pod list \<Rightarrow> ('w, unit) go" where
  "deleteAllPods E [] = return ()"
| "deleteAllPods E (p # ps) = do {
     _ \<leftarrow> Delete E KPod (m_Namespace (pod_Meta p), m_Name (pod_Meta p));
     deleteAllPods E ps }"

definition restartBackendPods :: "('w, 'x) env_scheme \<Rightarrow> ('w, goerr option) go" where
  "restartBackendPods E = do {
     pods \<leftarrow> ListObjs E KPod thePod backendPods;
     case pods of
       Inl err \<Rightarrow> return (Some err)
     | Inr items \<Rightarrow> do { deleteAllPods E items; return None } }"

text \<open>The target of a copy shares its data with the source; a write to nil data panics.\<close>

definition copySecret :: "string \<Rightarrow> string \<Rightarrow> secret \<Rightarrow> secret" where
  "copySecret name ns source =
     \<lparr>sec_Meta = emptyMeta\<lparr>m_Name := name, m_Namespace := ns\<rparr>, sec_Type = sec_Type source, sec_Data = sec_Data source,
      sec_StringData = None\<rparr>"

definition putData :: "string \<Rightarrow> string \<Rightarrow> secret \<Rightarrow> secret res" where
  "putData k v s =
     (case sec_Data s of None \<Rightarrow> Inl (panic ''assignment to entry in nil map: Data'') | Some m \<Rightarrow> Inr (s\<lparr>sec_Data := Some (m(k \<mapsto> v))\<rparr>))"

definition panicked :: "'a res \<Rightarrow> bool" where
  "panicked x = (case x of Inl e \<Rightarrow> isPanic e | Inr _ \<Rightarrow> False)"

definition updatePullSecret ::
  "('w, 'x) platformEnv_scheme \<Rightarrow> platformReconciler \<Rightarrow> secret \<Rightarrow> secret \<Rightarrow> secret \<Rightarrow> ('w, goerr option) go" where
  "updatePullSecret E r sourceSecret targetSecret existing =
     (case mergePullSecrets E (secGet existing pullSecretKey) (secGet sourceSecret pullSecretKey) of
        Inl err \<Rightarrow> return (Some (wrap ''failed to merge pull secrets'' err))
      | Inr (merged, changed) \<Rightarrow> do {
          quay \<leftarrow> addQuayCredentialsIfNeeded E r merged;
          let (merged, changed) = (case quay of Inl _ \<Rightarrow> (merged, changed) | Inr (m, quayChanged) \<Rightarrow> (m, changed \<or> quayChanged));
          if panicked quay then return (errOf quay)
          else if changed then
            (case putData pullSecretKey merged
                    (targetSecret\<lparr>sec_Meta := (sec_Meta targetSecret)\<lparr>m_ResourceVersion := m_ResourceVersion (sec_Meta existing)\<rparr>\<rparr>) of
               Inl p \<Rightarrow> return (Some p)
             | Inr targetSecret \<Rightarrow> do {
                 u \<leftarrow> Update E OSecret theSecret targetSecret;
                 case u of
                   Inl err \<Rightarrow> return (Some err)
                 | Inr _ \<Rightarrow> restartBackendPods E })
          else return None })"

definition ensurePullSecret ::
  "('w, 'x) platformEnv_scheme \<Rightarrow> platformReconciler \<Rightarrow> string \<Rightarrow> string \<Rightarrow> ('w, goerr option) go" where
  "ensurePullSecret E r secretName sourceNamespace =
     (if sourceNamespace = architectNamespace then return None
      else do {
        sourceSecret \<leftarrow> Get E KSecret theSecret (sourceNamespace, secretName);
        case sourceSecret of
          Inl err \<Rightarrow> return (Some (wrap (''failed to get pull secret from '' @ sourceNamespace @ ''/'' @ secretName) err))
        | Inr sourceSecret \<Rightarrow> do {
            let targetSecret = copySecret secretName architectNamespace sourceSecret;
            existing \<leftarrow> Get E KSecret theSecret (architectNamespace, secretName);
            case existing of
              Inr existing \<Rightarrow> updatePullSecret E r sourceSecret targetSecret existing
            | Inl err \<Rightarrow>
                if \<not> isNotFound err then return (Some err)
                else do {
                  quay \<leftarrow> addQuayCredentialsIfNeeded E r (secGet targetSecret pullSecretKey);
                  case quay of
                    Inl err \<Rightarrow>
                      if isPanic err then return (Some err)
                      else do { c \<leftarrow> Create E OSecret theSecret targetSecret; return (errOf c) }
                  | Inr (quayEnhanced, _) \<Rightarrow>
                      (case putData pullSecretKey quayEnhanced targetSecret of
                         Inl p \<Rightarrow> return (Some p)
                       | Inr targetSecret \<Rightarrow> do { c \<leftarrow> Create E OSecret theSecret targetSecret; return (errOf c) }) } } })"

section \<open>Copies for other components\<close>

definition ensureACMPullSecret :: "('w, 'x) env_scheme \<Rightarrow> ('w, goerr option) go" where
  "ensureACMPullSecret E = do {
     sourceSecret \<leftarrow> Get E KSecret theSecret (architectNamespace, ''pull-secret'');
     case sourceSecret of
       Inl err \<Rightarrow> return (Some (wrap (''failed to get pull-secret from '' @ architectNamespace) err))
     | Inr sourceSecret \<Rightarrow> do {
         existing \<leftarrow> Get E KSecret theSecret (''open-cluster-management'', ''pull-secret'');
         case existing of
           Inr existing \<Rightarrow>
             if secGet existing pullSecretKey \<noteq> secGet sourceSecret pullSecretKey then do {
               u \<leftarrow> Update E OSecret theSecret (existing\<lparr>sec_Data := sec_Data sourceSecret\<rparr>);
               return (errOf u) }
             else return None
         | Inl err \<Rightarrow>
             if isNotFound err then do {
               c \<leftarrow> Create E OSecret theSecret (copySecret ''pull-secret'' ''open-cluster-management'' sourceSecret);
               return (errOf c) }
             else return (Some err) } }"

definition osusNamespace :: string where
  "osusNamespace = ''openshift-update-service''"

text \<open>The three parts of \<^verbatim>\<open>ensureOSUSPullSecret\<close>: the copy, the link to the service account, the cluster's own pull secret.\<close>

definition copyOSUSPullSecret :: "('w, 'x) env_scheme \<Rightarrow> ('w, goerr option) go" where
  "copyOSUSPullSecret E = do {
     sourceSecret \<leftarrow> Get E KSecret theSecret (architectNamespace, ''pull-secret'');
     case sourceSecret of
       Inl err \<Rightarrow> return (Some (wrap (''failed to get pull-secret from '' @ architectNamespace) err))
     | Inr sourceSecret \<Rightarrow> do {
         existing \<leftarrow> Get E KSecret theSecret (osusNamespace, ''pull-secret'');
         case existing of
           Inr existing \<Rightarrow>
             if secGet existing pullSecretKey \<noteq> secGet sourceSecret pullSecretKey then do {
               u \<leftarrow> Update E OSecret theSecret (existing\<lparr>sec_Data := sec_Data sourceSecret\<rparr>);
               return (errOf u) }
             else return None
         | Inl err \<Rightarrow>
             if isNotFound err then do {
               c \<leftarrow> Create E OSecret theSecret (copySecret ''pull-secret'' osusNamespace sourceSecret);
               return (errOf c) }
             else return (Some err) } }"

definition linkOSUSPullSecret :: "('w, 'x) env_scheme \<Rightarrow> ('w, goerr option) go" where
  "linkOSUSPullSecret E = do {
     sa \<leftarrow> Get E KServiceAccount theServiceAccount (osusNamespace, ''default'');
     case sa of
       Inl err \<Rightarrow> return (Some (wrap (''failed to get default SA in '' @ osusNamespace) err))
     | Inr sa \<Rightarrow>
         if ''pull-secret'' \<in> set (sa_ImagePullSecrets sa) then return None
         else do {
           u \<leftarrow> Update E OServiceAccount theServiceAccount (sa\<lparr>sa_ImagePullSecrets := sa_ImagePullSecrets sa @ [''pull-secret'']\<rparr>);
           return (map_option (wrap ''failed to link pull-secret to default SA'') (errOf u)) } }"

definition mergeClusterPullSecret ::
  "('w, 'x) platformEnv_scheme \<Rightarrow> string \<Rightarrow> string \<Rightarrow> string \<Rightarrow> ('w, goerr option) go" where
  "mergeClusterPullSecret E quayHostname robotUser robotToken = do {
     clusterPullSecret \<leftarrow> Get E KSecret theSecret (''openshift-config'', ''pull-secret'');
     case clusterPullSecret of
       Inl err \<Rightarrow> return (Some (wrap ''failed to get cluster pull-secret'' err))
     | Inr clusterPullSecret \<Rightarrow>
         (case jsonUnmarshal E (secGet clusterPullSecret pullSecretKey) of
            Inl err \<Rightarrow> return (Some (wrap ''failed to parse cluster pull-secret'' err))
          | Inr cfg \<Rightarrow>
              let auths = authsOf cfg; authValue = authString robotUser robotToken in
              if hasAuth auths quayHostname authValue then return None
              else (case cfg of
                None \<Rightarrow> return (Some (panic ''assignment to entry in nil map: cfg''))
              | Some m \<Rightarrow>
                  (case jsonMarshal E (m(''auths'' \<mapsto> GMap (auths(quayHostname \<mapsto> GMap [''auth'' \<mapsto> GStr authValue])))) of
                     Inl err \<Rightarrow> return (Some (wrap ''failed to marshal cluster pull-secret'' err))
                   | Inr merged \<Rightarrow>
                       (case putData pullSecretKey merged clusterPullSecret of
                          Inl p \<Rightarrow> return (Some p)
                        | Inr clusterPullSecret \<Rightarrow> do {
                            u \<leftarrow> Update E OSecret theSecret clusterPullSecret;
                            return (map_option (wrap ''failed to update cluster pull-secret'') (errOf u)) })))) }"

definition ensureOSUSPullSecret :: "('w, 'x) platformEnv_scheme \<Rightarrow> platformReconciler \<Rightarrow> ('w, goerr option) go" where
  "ensureOSUSPullSecret E r = do {
     err \<leftarrow> copyOSUSPullSecret E;
     case err of
       Some err \<Rightarrow> return (Some err)
     | None \<Rightarrow> do {
         err \<leftarrow> linkOSUSPullSecret E;
         case err of
           Some err \<Rightarrow> return (Some err)
         | None \<Rightarrow> do {
             robot \<leftarrow> getQuayRobotCredentials E r;
             case robot of
               Inl _ \<Rightarrow> return None
             | Inr (robotUser, robotToken) \<Rightarrow> do {
                 quayRegistry \<leftarrow> getQuayRegistry E;
                 case quayRegistry of
                   Inl _ \<Rightarrow> return None
                 | Inr quayRegistry \<Rightarrow> do {
                     quayHostname \<leftarrow> getQuayHostname E quayRegistry;
                     case quayHostname of
                       Inl _ \<Rightarrow> return None
                     | Inr quayHostname \<Rightarrow>
                         if quayHostname = [] then return None
                         else mergeClusterPullSecret E quayHostname robotUser robotToken } } } } }"

section \<open>Merging is overriding, and settles\<close>

text \<open>The merge of one host, as it reads for values that print alike.\<close>

definition overrides :: "(goval \<Rightarrow> string) \<Rightarrow> gomap \<Rightarrow> gomap \<Rightarrow> gomap" where
  "overrides pv src ex = (\<lambda>h. case src h of
     None \<Rightarrow> ex h
   | Some a \<Rightarrow> (case ex h of Some e \<Rightarrow> if pv e = pv a then Some e else Some a | None \<Rightarrow> Some a))"

definition differs :: "(goval \<Rightarrow> string) \<Rightarrow> gomap \<Rightarrow> gomap \<Rightarrow> string \<Rightarrow> bool" where
  "differs pv src ex h =
     (case src h of None \<Rightarrow> False | Some a \<Rightarrow> (case ex h of None \<Rightarrow> True | Some e \<Rightarrow> pv e \<noteq> pv a))"

lemma mergeAuths_step:
  "mergeAuths pv src (h # hs) ex ch = mergeAuths pv src hs (ex(h := overrides pv src ex h)) (ch \<or> differs pv src ex h)"
  by (auto simp: overrides_def differs_def fun_upd_idem split: option.split)

declare mergeAuths.simps(2) [simp del] mergeAuths_step [simp]

lemma overridden:
  "overrides pv src (ex(h := overrides pv src ex h)) x = overrides pv src ex x"
  "differs pv src (ex(h := overrides pv src ex h)) x \<longleftrightarrow> x \<noteq> h \<and> differs pv src ex x"
  by (auto simp: overrides_def differs_def split: option.splits)

lemma mergeAuths_result:
  "fst (mergeAuths pv src hosts ex ch) x = (if x \<in> set hosts then overrides pv src ex x else ex x)"
  by (induction hosts arbitrary: ex ch) (auto simp: overridden)

lemma mergeAuths_changed:
  "snd (mergeAuths pv src hosts ex ch) \<longleftrightarrow> ch \<or> (\<exists>h \<in> set hosts. differs pv src ex h)"
  by (induction hosts arbitrary: ex ch) (auto simp: overridden)

lemma overrides_idem:
  "overrides pv src (overrides pv src ex) = overrides pv src ex" "\<not> differs pv src (overrides pv src ex) h"
  by (auto simp: overrides_def differs_def fun_eq_iff split: option.splits)

lemma differs_dom: "differs pv src ex h \<Longrightarrow> h \<in> dom src" and overrides_dom: "h \<notin> dom src \<Longrightarrow> overrides pv src ex h = ex h"
  by (auto simp: differs_def overrides_def split: option.splits)


text \<open>Three documents: one with the host of Quay, one with another host, and their merge.\<close>

definition oldDoc :: gomap where "oldDoc = [''auths'' \<mapsto> GMap [''mirror-operator-quay'' \<mapsto> GStr ''robot'']]"
definition newDoc :: gomap where "newDoc = [''auths'' \<mapsto> GMap [''quay.io'' \<mapsto> GStr ''user'']]"
definition mergedDoc :: gomap where
  "mergedDoc = [''auths'' \<mapsto> GMap [''mirror-operator-quay'' \<mapsto> GStr ''robot'', ''quay.io'' \<mapsto> GStr ''user'']]"

definition docEnv :: "response list platformEnv" where
  "docEnv = scriptedPlatform (\<lambda>m. if m = mergedDoc then Inr ''merged'' else Inl (errorf ''no document''))
     (\<lambda>s. if s = ''old'' then Inr (Some oldDoc) else if s = ''new'' then Inr (Some newDoc)
          else if s = ''merged'' then Inr (Some mergedDoc) else Inl (errorf ''no document'')) (\<lambda>m. [''quay.io''])"

lemma docEnv_fields:
  "jsonMarshal docEnv m = (if m = mergedDoc then Inr ''merged'' else Inl (errorf ''no document''))"
  "jsonUnmarshal docEnv s = (if s = ''old'' then Inr (Some oldDoc) else if s = ''new'' then Inr (Some newDoc)
     else if s = ''merged'' then Inr (Some mergedDoc) else Inl (errorf ''no document''))"
  "rangeOrder docEnv m = [''quay.io'']" "sprintV docEnv v = (case v of GStr s \<Rightarrow> s | _ \<Rightarrow> [])"
  by (simp_all add: docEnv_def scriptedPlatform_def cryptoEnv.defs env.defs platformEnv.defs)


end
