(* ===== verification/Database.thy ===== *)
theory Database
  imports PlatformEnv Collection Scripted
begin

text \<open>
  The PostgreSQL databases of RHTPA and Keycloak, from \<^verbatim>\<open>disconnectedplatform_controller.go\<close>: claim, stateful set and service, and
  the expansion of the claim when it fills up. Typed objects without a record of their own are
  \<open>nativeObj\<close>, their specification as the value it has in JSON.
\<close>

section \<open>Generated strings\<close>

definition charset :: string where
  "charset = ''abcdefghijklmnopqrstuvwxyzABCDEFGHIJKLMNOPQRSTUVWXYZ0123456789''"

definition generateRandomString :: "nat \<Rightarrow> string" where
  "generateRandomString n = map (\<lambda>i. charset ! (i mod length charset)) [0..<n]"

section \<open>Objects that are created once\<close>

text \<open>\<^verbatim>\<open>if err := r.Get(...); apierrors.IsNotFound(err) { r.Create(...) }\<close>: other errors of the read are ignored.\<close>

definition createMissing ::
  "('w, 'x) env_scheme \<Rightarrow> kind \<Rightarrow> ('a \<Rightarrow> kobj) \<Rightarrow> (kobj \<Rightarrow> 'a option) \<Rightarrow> nsname \<Rightarrow> string \<Rightarrow> 'a \<Rightarrow> ('w, goerr option) go" where
  "createMissing E k mk prj nn msg x = do {
     existing \<leftarrow> Get E k prj nn;
     case existing of
       Inr _ \<Rightarrow> return None
     | Inl err \<Rightarrow>
         if isNotFound err then do {
           c \<leftarrow> Create E mk prj x;
           return (map_option (wrap msg) (errOf c)) }
         else return None }"

definition appMeta :: "string \<Rightarrow> string \<Rightarrow> objectMeta" where
  "appMeta app name = emptyMeta\<lparr>m_Name := name, m_Namespace := architectNamespace, m_Labels := [''app'' \<mapsto> app]\<rparr>"

definition postgresClaim :: "string \<Rightarrow> string \<Rightarrow> quantity \<Rightarrow> persistentVolumeClaim" where
  "postgresClaim app name sz =
     \<lparr>pvc_Meta = appMeta app name, pvc_AccessModes = [''ReadWriteOnce''], pvc_Requests = Some [''storage'' \<mapsto> sz], pvc_Capacity = Map.empty, pvc_Phase = []\<rparr>"

definition postgresStatefulSet :: "string \<Rightarrow> string \<Rightarrow> (string \<times> string) list \<Rightarrow> nativeObj" where
  "postgresStatefulSet app pvcName envs =
     \<lparr>n_Kind = ''StatefulSet'', n_Meta = appMeta app app,
      n_Spec = GMap [''serviceName'' \<mapsto> GStr app, ''replicas'' \<mapsto> GInt 1,
        ''selector'' \<mapsto> GMap [''matchLabels'' \<mapsto> GMap [''app'' \<mapsto> GStr app]],
        ''template'' \<mapsto> GMap
          [''metadata'' \<mapsto> GMap [''labels'' \<mapsto> GMap [''app'' \<mapsto> GStr app]],
           ''spec'' \<mapsto> GMap
             [''containers'' \<mapsto> GList [GMap
                [''name'' \<mapsto> GStr ''postgresql'', ''image'' \<mapsto> GStr ''registry.redhat.io/rhel9/postgresql-15:latest'',
                 ''env'' \<mapsto> GList (map (\<lambda>(k, v). GMap (envEntry k v)) envs),
                 ''ports'' \<mapsto> GList [GMap [''containerPort'' \<mapsto> GInt 5432, ''name'' \<mapsto> GStr ''postgresql'']],
                 ''volumeMounts'' \<mapsto> GList [GMap [''name'' \<mapsto> GStr ''data'', ''mountPath'' \<mapsto> GStr ''/var/lib/pgsql/data'']]]],
              ''volumes'' \<mapsto> GList [GMap
                [''name'' \<mapsto> GStr ''data'', ''persistentVolumeClaim'' \<mapsto> GMap [''claimName'' \<mapsto> GStr pvcName]]]]]],
      n_Status = GNil\<rparr>"

definition postgresService :: "string \<Rightarrow> nativeObj" where
  "postgresService app =
     \<lparr>n_Kind = ''Service'', n_Meta = appMeta app app,
      n_Spec = GMap [''selector'' \<mapsto> GMap [''app'' \<mapsto> GStr app],
        ''ports'' \<mapsto> GList [GMap [''name'' \<mapsto> GStr ''postgresql'', ''port'' \<mapsto> GInt 5432, ''targetPort'' \<mapsto> GInt 5432]],
        ''clusterIP'' \<mapsto> GStr ''None''],
      n_Status = GNil\<rparr>"

definition createNative :: "('w, 'x) env_scheme \<Rightarrow> string \<Rightarrow> nativeObj \<Rightarrow> ('w, goerr option) go" where
  "createNative E msg x =
     createMissing E (KNative (n_Kind x)) ONative theNative (m_Namespace (n_Meta x), m_Name (n_Meta x)) msg x"

text \<open>Running the steps of a function one after the other, to the first error.\<close>

fun untilError :: "('w, goerr option) go list \<Rightarrow> ('w, goerr option) go" where
  "untilError [] = return None"
| "untilError (m # ms) = do {
     err \<leftarrow> m;
     case err of Some err \<Rightarrow> return (Some err) | None \<Rightarrow> untilError ms }"

definition keycloakEnvs :: "(string \<times> string) list" where
  "keycloakEnvs = [(''POSTGRESQL_USER'', ''keycloak''), (''POSTGRESQL_PASSWORD'', ''keycloak-admin-password''),
     (''POSTGRESQL_DATABASE'', ''keycloak'')]"

definition ensureManagedPostgreSQL :: "('w, 'x) platformEnv_scheme \<Rightarrow> ('w, goerr option) go" where
  "ensureManagedPostgreSQL E =
     (case parseQuantity E ''5Gi'' of
        None \<Rightarrow> return (Some (panic ''cannot parse 5Gi''))
      | Some sz \<Rightarrow>
          untilError
            [createMissing E KPVC OPVC thePVC (architectNamespace, ''keycloak-postgresql-data'') ''failed to create PostgreSQL PVC''
               (postgresClaim ''keycloak-postgresql'' ''keycloak-postgresql-data'' sz),
             createNative E ''failed to create PostgreSQL StatefulSet''
               (postgresStatefulSet ''keycloak-postgresql'' ''keycloak-postgresql-data'' keycloakEnvs),
             createNative E ''failed to create PostgreSQL Service'' (postgresService ''keycloak-postgresql'')])"

section \<open>Expansion of a claim\<close>

definition storageCapacity :: "persistentVolumeClaim \<Rightarrow> quantity" where
  "storageCapacity pvc = (case pvc_Capacity pvc ''storage'' of Some q \<Rightarrow> q | None \<Rightarrow> ''0'')"

definition trimSuffix :: "string \<Rightarrow> string \<Rightarrow> string" where
  "trimSuffix s p = (if hasSuffix s p then take (length s - length p) s else s)"

definition podCrashing :: "pod \<Rightarrow> bool" where
  "podCrashing pod \<longleftrightarrow> pod_Phase pod = ''Failed'' \<or> (\<exists>cs \<in> set (pod_ContainerStatuses pod). cs_Waiting cs = Some ''CrashLoopBackOff'')"

text \<open>The second line that \<^verbatim>\<open>df\<close> prints, as a number of percent.\<close>

definition parseUsage :: "string \<Rightarrow> int option" where
  "parseUsage out =
     (case splitByte (CHR 0x0A) (trimSpace out) of
        _ # l # _ \<Rightarrow> atoi (trimSpace (trimSuffix l ''%''))
      | _ \<Rightarrow> None)"

definition dfOptions :: "pod \<Rightarrow> podExecOptions" where
  "dfOptions pod =
     \<lparr>peo_Namespace = m_Namespace (pod_Meta pod), peo_Pod = m_Name (pod_Meta pod), peo_Container = ''postgresql'',
      peo_Command = [''df'', ''--output=pcent'', ''/var/lib/pgsql/data''], peo_Stdin = False, peo_Stdout = True, peo_Stderr = False\<rparr>"

text \<open>The percentage in use, \<open>None\<close> where it cannot be read.\<close>

definition usagePercent :: "('w, 'x) platformEnv_scheme \<Rightarrow> pod \<Rightarrow> ('w, int option) go" where
  "usagePercent E pod =
     (if podCrashing pod then return (Some 100)
      else if pod_Phase pod \<noteq> ''Running'' then return None
      else if inClusterConfig E \<noteq> None \<or> newForConfig E \<noteq> None \<or> newSPDYExecutor E (dfOptions pod) \<noteq> None then return None
      else do {
        (err, stdout, stderr) \<leftarrow> effect (streamExec E (dfOptions pod) []);
        return (if err \<noteq> None then None else parseUsage stdout) })"

definition doubledSize :: "('w, 'x) platformEnv_scheme \<Rightarrow> quantity \<Rightarrow> quantity \<Rightarrow> quantity" where
  "doubledSize E current maxSize =
     (let newSize = quantityAdd E current current in if quantityCmp E newSize maxSize > 0 then maxSize else newSize)"

text \<open>The result is a panic or none; the error of the update is logged.\<close>

definition autoExpandPVC :: "('w, 'x) platformEnv_scheme \<Rightarrow> persistentVolumeClaim \<Rightarrow> string \<Rightarrow> ('w, goerr option) go" where
  "autoExpandPVC E pvc maxStorageSize =
     (case parseQuantity E maxStorageSize of
        None \<Rightarrow> return (Some (panic (''cannot parse '' @ maxStorageSize)))
      | Some maxSize \<Rightarrow>
          let currentCapacity = storageCapacity pvc in
          if quantityCmp E currentCapacity maxSize \<ge> 0 then return None
          else do {
            podList \<leftarrow> ListObjs E KPod thePod
              \<lparr>lo_Namespace = Some (m_Namespace (pvc_Meta pvc)), lo_Labels = [''app'' \<mapsto> ''rhtpa-postgresql'']\<rparr>;
            case podList of
              Inl _ \<Rightarrow> return None
            | Inr [] \<Rightarrow> return None
            | Inr (pod # _) \<Rightarrow> do {
                pct \<leftarrow> usagePercent E pod;
                case pct of
                  None \<Rightarrow> return None
                | Some pct \<Rightarrow>
                    if pct < 80 then return None
                    else (case setStorageRequest pvc (doubledSize E currentCapacity maxSize) of
                      Inl p \<Rightarrow> return (Some p)
                    | Inr pvc \<Rightarrow> do { _ \<leftarrow> Update E OPVC thePVC pvc; return None }) } })"

section \<open>The database of RHTPA\<close>

record databaseAccess =
  db_Host :: string
  db_Name :: string
  db_User :: string
  db_Password :: string

definition rhtpaCredentials :: "string \<Rightarrow> secret" where
  "rhtpaCredentials password =
     \<lparr>sec_Meta = emptyMeta\<lparr>m_Name := ''rhtpa-db-credentials'', m_Namespace := architectNamespace\<rparr>, sec_Type = [], sec_Data = None,
      sec_StringData = Some [''username'' \<mapsto> ''rhtpa'', ''password'' \<mapsto> password, ''database'' \<mapsto> ''rhtpadb'']\<rparr>"

text \<open>The password: generated, or the one that is stored.\<close>

definition rhtpaPassword :: "('w, 'x) env_scheme \<Rightarrow> ('w, string res) go" where
  "rhtpaPassword E = do {
     let dbPassword = ''rhtpa-db-password-'' @ generateRandomString 16;
     existingSecret \<leftarrow> Get E KSecret theSecret (architectNamespace, ''rhtpa-db-credentials'');
     case existingSecret of
       Inr s \<Rightarrow> return (Inr (secGet s ''password''))
     | Inl err \<Rightarrow>
         if isNotFound err then do {
           c \<leftarrow> Create E OSecret theSecret (rhtpaCredentials dbPassword);
           case c of
             Inl err \<Rightarrow> return (Inl (wrap ''failed to create TPA database secret'' err))
           | Inr _ \<Rightarrow> return (Inr dbPassword) }
         else return (Inr dbPassword) }"

definition rhtpaClaim :: "('w, 'x) platformEnv_scheme \<Rightarrow> string \<Rightarrow> string \<Rightarrow> ('w, goerr option) go" where
  "rhtpaClaim E storageSize maxStorageSize =
     (case parseQuantity E storageSize of
        None \<Rightarrow> return (Some (panic (''cannot parse '' @ storageSize)))
      | Some requestedSize \<Rightarrow> do {
          existingPVC \<leftarrow> Get E KPVC thePVC (architectNamespace, ''rhtpa-postgresql-data'');
          case existingPVC of
            Inr existingPVC \<Rightarrow> autoExpandPVC E existingPVC maxStorageSize
          | Inl err \<Rightarrow>
              if isNotFound err then do {
                c \<leftarrow> Create E OPVC thePVC (postgresClaim ''rhtpa-postgresql'' ''rhtpa-postgresql-data'' requestedSize);
                return (map_option (wrap ''failed to create TPA PostgreSQL PVC'') (errOf c)) }
              else return None })"

definition rhtpaEnvs :: "string \<Rightarrow> (string \<times> string) list" where
  "rhtpaEnvs dbPassword =
     [(''POSTGRESQL_USER'', ''rhtpa''), (''POSTGRESQL_PASSWORD'', dbPassword), (''POSTGRESQL_DATABASE'', ''rhtpadb''),
      (''POSTGRESQL_ADMIN_PASSWORD'', ''postgres'')]"

definition ensureRHTPAPostgreSQL :: "('w, 'x) platformEnv_scheme \<Rightarrow> string \<Rightarrow> string \<Rightarrow> ('w, databaseAccess res) go" where
  "ensureRHTPAPostgreSQL E storageSize maxStorageSize = do {
     let storageSize = (if storageSize = [] then ''50Gi'' else storageSize);
     let maxStorageSize = (if maxStorageSize = [] then ''200Gi'' else maxStorageSize);
     password \<leftarrow> rhtpaPassword E;
     case password of
       Inl err \<Rightarrow> return (Inl err)
     | Inr dbPassword \<Rightarrow> do {
         err \<leftarrow> untilError
           [rhtpaClaim E storageSize maxStorageSize,
            createNative E ''failed to create TPA PostgreSQL StatefulSet''
              (postgresStatefulSet ''rhtpa-postgresql'' ''rhtpa-postgresql-data'' (rhtpaEnvs dbPassword)),
            createNative E ''failed to create TPA PostgreSQL Service'' (postgresService ''rhtpa-postgresql'')];
         case err of
           Some err \<Rightarrow> return (Inl err)
         | None \<Rightarrow> return (Inr \<lparr>db_Host = ''rhtpa-postgresql.'' @ architectNamespace @ ''.svc'', db_Name = ''rhtpadb'',
                      db_User = ''rhtpa'', db_Password = dbPassword\<rparr>) } }"

section \<open>Importers\<close>

definition importerEntry :: "string \<Rightarrow> goval" where
  "importerEntry ty = GMap [ty \<mapsto> GMap [''disabled'' \<mapsto> GBool False]]"

definition buildRHTPAImportersMap :: "rhtpaImportersConfig option \<Rightarrow> gomap" where
  "buildRHTPAImportersMap importers =
     (let m = [''redhat-csaf'' \<mapsto> importerEntry ''csaf''] in
      case importers of
        None \<Rightarrow> m
      | Some c \<Rightarrow>
          (let m = (if tpaimp_RedHatSBOMs c then m(''redhat-sboms'' \<mapsto> importerEntry ''sbom'') else m);
               m = (if tpaimp_CVE c then m(''cve'' \<mapsto> importerEntry ''cve'') else m)
           in if tpaimp_OSVGitHub c then m(''osv-github'' \<mapsto> importerEntry ''osv'') else m))"

section \<open>What the expansion does\<close>

lemma only_usagePercent [only_intros]: "only P (usagePercent E pod)"
  unfolding usagePercent_def by (intro only_intros)

lemma spec_bind_usagePercent: "(\<And>x. spec (f x) R) \<Longrightarrow> spec (State_Monad.bind (usagePercent E pod) f) R"
proof -
  have "spec (usagePercent E pod) (\<lambda>es x. es = [])"
    by (rule only_spec [OF only_usagePercent [where P = "\<lambda>_. False"]]) (case_tac es; simp)
  then show "(\<And>x. spec (f x) R) \<Longrightarrow> spec (State_Monad.bind (usagePercent E pod) f) R" by (rule spec_bindI) simp
qed

lemma setStorageRequest_Inr:
  "setStorageRequest pvc q = Inr pvc' \<Longrightarrow> storageRequest pvc' = q \<and> pvc_Meta pvc' = pvc_Meta pvc \<and>
     pvc_AccessModes pvc' = pvc_AccessModes pvc \<and> pvc_Capacity pvc' = pvc_Capacity pvc"
  by (auto simp: setStorageRequest_def storageRequest_def split: option.splits)

text \<open>C27. An expansion stays between the capacity and the maximum. With quantities of sizes that comparison and addition respect,
  each reconciliation sends at most one update; it is of the claim that was read with nothing changed but
  the storage request, and the new size is twice the capacity or, where that is more, the maximum; it is at least the
  capacity and at most the maximum. A claim at the maximum is not touched.\<close>

theorem expansion_bounded:
  fixes size_of :: "quantity \<Rightarrow> int"
  assumes cmp: "\<And>a b. quantityCmp E a b = sgn (size_of a - size_of b)"
    and add: "\<And>a b. size_of (quantityAdd E a b) = size_of a + size_of b"
    and cap: "0 \<le> size_of (storageCapacity pvc)" and mx: "parseQuantity E mx = Some maxSize"
  shows "spec (autoExpandPVC E pvc mx) (\<lambda>es x. writes es = [] \<or>
     (\<exists>pvc'. writes es = [RUpdate (OPVC pvc')] \<and> pvc' = pvc\<lparr>pvc_Requests := pvc_Requests pvc'\<rparr> \<and>
        size_of (storageRequest pvc') = min (2 * size_of (storageCapacity pvc)) (size_of maxSize) \<and>
        size_of (storageCapacity pvc) \<le> size_of (storageRequest pvc') \<and> size_of (storageCapacity pvc) < size_of maxSize))"
proof -
  have below: "size_of (storageCapacity pvc) < size_of maxSize" if "\<not> quantityCmp E (storageCapacity pvc) maxSize \<ge> 0"
    using that by (simp add: cmp sgn_if split: if_splits)
  have doubled: "size_of (doubledSize E (storageCapacity pvc) maxSize) = min (2 * size_of (storageCapacity pvc)) (size_of maxSize)"
    by (simp add: doubledSize_def Let_def cmp add sgn_if min_def)
  have same: "pvc' = pvc\<lparr>pvc_Requests := pvc_Requests pvc'\<rparr>" if "setStorageRequest pvc q = Inr pvc'" for q pvc'
    using that by (auto simp: setStorageRequest_def split: option.splits)
  show ?thesis
    unfolding autoExpandPVC_def mx option.case Let_def
    by (intro spec_bind_usagePercent spec_intros)
      (use below same doubled cap in \<open>auto dest!: setStorageRequest_Inr simp: min_def\<close>)
qed

text \<open>An environment in which a quantity is written in tally marks.\<close>

definition tallyEnv :: "response list platformEnv" where
  "tallyEnv = (scriptedPlatform (\<lambda>_. Inl (errorf ''no json'')) (\<lambda>_. Inl (errorf ''no json'')) (\<lambda>_. []))
     \<lparr>quantityCmp := \<lambda>a b. sgn (int (length a) - int (length b)), quantityAdd := (@)\<rparr>"

theorem expansion_bounded_witness:
  "spec (autoExpandPVC tallyEnv (sampleClaim\<lparr>pvc_Capacity := [''storage'' \<mapsto> ''|||'']\<rparr>) ''|||||'') (\<lambda>es x. writes es = [] \<or>
     (\<exists>pvc'. writes es = [RUpdate (OPVC pvc')] \<and> length (storageRequest pvc') = 5))"
proof -
  have "parseQuantity tallyEnv ''|||||'' = Some ''|||||''"
    by (simp add: tallyEnv_def scriptedPlatform_def cryptoEnv.defs env.defs platformEnv.defs)
  moreover have "storageCapacity (sampleClaim\<lparr>pvc_Capacity := [''storage'' \<mapsto> ''|||'']\<rparr>) = ''|||''" by (simp add: storageCapacity_def)
  ultimately show ?thesis
    by (intro spec_mono [OF expansion_bounded [where size_of = "\<lambda>q. int (length q)"]]) (auto simp: tallyEnv_def)
qed

end
