(* ===== verification/ArchitectObjects.thy ===== *)
theory ArchitectObjects
  imports PullSecrets Subscriptions
begin

text \<open>
  The manifests of the Airgap Architect, from \<^verbatim>\<open>disconnectedplatform_controller.go\<close>: the names and labels of its resources, the
  three containers, the deployment around a container, its services, routes, roles and the plugin of the console. A
  container is built by a function from name, image and labels, as in the source.
\<close>

section \<open>Names and labels\<close>

definition architectPort :: int where "architectPort = 4000"
definition frontendPort :: int where "frontendPort = 5173"

definition deploymentGVK :: gvk where
  "deploymentGVK = \<lparr>g_Group = ''apps'', g_Version = ''v1'', g_Kind = ''Deployment''\<rparr>"

definition serviceGVK :: gvk where
  "serviceGVK = \<lparr>g_Group = [], g_Version = ''v1'', g_Kind = ''Service''\<rparr>"

definition routeGVK :: gvk where
  "routeGVK = \<lparr>g_Group = ''route.openshift.io'', g_Version = ''v1'', g_Kind = ''Route''\<rparr>"

definition pullSecretVolumeName :: string where "pullSecretVolumeName = ''pull-secret''"
definition pullSecretMountPath :: string where "pullSecretMountPath = ''/opt/app-root/src/.openshift''"

definition architectResourceName :: "('w, 'x) platformEnv_scheme \<Rightarrow> disconnectedPlatform \<Rightarrow> string \<Rightarrow> string" where
  "architectResourceName E platform component =
     (let prefix = ''mo''; baseName = prefix @ ''-'' @ m_Name (dp_ObjectMeta platform) @ ''-'' @ component
      in if length baseName \<le> 63 then baseName
         else prefix @ ''-'' @ take 8 (sha256Hex E (m_Name (dp_ObjectMeta platform))) @ ''-'' @ component)"

definition architectComponentLabels :: "string \<Rightarrow> strmap" where
  "architectComponentLabels component =
     [''app.kubernetes.io/name'' \<mapsto> ''airgap-architect-'' @ component,
      ''app.kubernetes.io/component'' \<mapsto> component,
      ''app.kubernetes.io/part-of'' \<mapsto> ''mirror-operator'',
      ''app.kubernetes.io/managed-by'' \<mapsto> ''mirror-operator'']"

definition setOwnerReference :: "('w, 'x) platformEnv_scheme \<Rightarrow> disconnectedPlatform \<Rightarrow> unstr \<Rightarrow> unstr" where
  "setOwnerReference E owner obj =
     obj\<lparr>u_Meta := (u_Meta obj)\<lparr>m_OwnerReferences :=
       [\<lparr>or_APIVersion = fst (typeMeta E owner), or_Kind = snd (typeMeta E owner), or_Name = m_Name (dp_ObjectMeta owner),
         or_UID = m_UID (dp_ObjectMeta owner), or_Controller = True\<rparr>]\<rparr>\<rparr>"

definition withLabels :: "strmap \<Rightarrow> unstr \<Rightarrow> unstr" where
  "withLabels labels u = u\<lparr>u_Meta := (u_Meta u)\<lparr>m_Labels := labels\<rparr>\<rparr>"

definition withVersionOf :: "unstr \<Rightarrow> unstr \<Rightarrow> unstr" where
  "withVersionOf existing u = u\<lparr>u_Meta := (u_Meta u)\<lparr>m_ResourceVersion := m_ResourceVersion (u_Meta existing)\<rparr>\<rparr>"

text \<open>\<^verbatim>\<open>obj.Object["spec"] = m\<close>.\<close>

definition withSpec :: "gomap \<Rightarrow> unstr \<Rightarrow> unstr" where
  "withSpec m u = onObject (\<lambda>obj. case asMap (Some obj) of None \<Rightarrow> obj | Some o' \<Rightarrow> GMap (o'(''spec'' \<mapsto> GMap m))) u"

section \<open>Containers\<close>

type_synonym containerBuilder = "string \<Rightarrow> string \<Rightarrow> strmap \<Rightarrow> gomap"

definition volumeMount :: "string \<Rightarrow> string \<Rightarrow> bool \<Rightarrow> goval" where
  "volumeMount name path readOnly =
     GMap (if readOnly then [''name'' \<mapsto> GStr name, ''mountPath'' \<mapsto> GStr path, ''readOnly'' \<mapsto> GBool True]
           else [''name'' \<mapsto> GStr name, ''mountPath'' \<mapsto> GStr path])"

text \<open>A probe: what it does, the initial delay and the period in seconds.\<close>

definition probe :: "string \<Rightarrow> gomap \<Rightarrow> int \<Rightarrow> int \<Rightarrow> goval" where
  "probe action m delay period =
     GMap [action \<mapsto> GMap m, ''initialDelaySeconds'' \<mapsto> GInt delay, ''periodSeconds'' \<mapsto> GInt period,
           ''failureThreshold'' \<mapsto> GInt 3, ''successThreshold'' \<mapsto> GInt 1, ''timeoutSeconds'' \<mapsto> GInt 1]"

definition backendEnv :: "string \<Rightarrow> string \<Rightarrow> gomap list \<Rightarrow> goval list" where
  "backendEnv githubTokenSecretName deploymentSide proxyEnvs =
     map (\<lambda>(k, v). GMap (envEntry k v))
       [(''DATA_DIR'', ''/data''), (''NODE_ENV'', ''production''), (''PULL_SECRET_FILE'', pullSecretMountPath @ ''/'' @ pullSecretKey),
        (''OPENSHIFT_OPERATOR_MANAGED'', ''true''), (''DEPLOYMENT_SIDE'', deploymentSide), (''S3_SECRET_NAME'', ''collection-artifacts''),
        (''LOG_LEVEL'', ''debug''), (''NODE_EXTRA_CA_CERTS'', clusterCAFilePath), (''SSL_CERT_FILE'', clusterCAFilePath),
        (''TLS_CERT_PATH'', ''/var/serving-cert/tls.crt''), (''TLS_KEY_PATH'', ''/var/serving-cert/tls.key'')] @
     (if githubTokenSecretName \<noteq> [] then
        [GMap [''name'' \<mapsto> GStr ''GITHUB_TOKEN'', ''valueFrom'' \<mapsto> GMap [''secretKeyRef'' \<mapsto>
           GMap [''name'' \<mapsto> GStr githubTokenSecretName, ''key'' \<mapsto> GStr ''token'']]]]
      else []) @
     map GMap proxyEnvs"

definition makeBackendContainerBuilder :: "string \<Rightarrow> string \<Rightarrow> gomap list \<Rightarrow> containerBuilder" where
  "makeBackendContainerBuilder githubTokenSecretName deploymentSide proxyEnvs = (\<lambda>name img labels.
     [''name'' \<mapsto> GStr ''airgap-architect-backend'', ''image'' \<mapsto> GStr img, ''imagePullPolicy'' \<mapsto> GStr ''Always'',
      ''ports'' \<mapsto> GList [GMap [''containerPort'' \<mapsto> GInt architectPort, ''protocol'' \<mapsto> GStr ''TCP'']],
      ''env'' \<mapsto> GList (backendEnv githubTokenSecretName deploymentSide proxyEnvs),
      ''volumeMounts'' \<mapsto> GList
        [volumeMount ''data'' ''/data'' False, volumeMount pullSecretVolumeName pullSecretMountPath True,
         volumeMount ''tls-cert'' ''/var/serving-cert'' True, volumeMount clusterCAVolumeName clusterCAMountPath True],
      ''readinessProbe'' \<mapsto> probe ''tcpSocket'' [''port'' \<mapsto> GInt architectPort] 5 10,
      ''livenessProbe'' \<mapsto> probe ''tcpSocket'' [''port'' \<mapsto> GInt architectPort] 15 20])"

definition frontendContainer :: "string \<Rightarrow> string \<Rightarrow> containerBuilder" where
  "frontendContainer backendRouteHostname frontendRouteHostname = (\<lambda>name img labels.
     let apiBase = (if backendRouteHostname \<noteq> [] then ''https://'' @ backendRouteHostname else []) in
     [''name'' \<mapsto> GStr ''airgap-architect-frontend'', ''image'' \<mapsto> GStr img,
      ''ports'' \<mapsto> GList [GMap [''containerPort'' \<mapsto> GInt frontendPort, ''protocol'' \<mapsto> GStr ''TCP'']],
      ''env'' \<mapsto> GList (map (\<lambda>(k, v). GMap (envEntry k v))
        ([(''NODE_ENV'', ''production''), (''OPENSHIFT_OPERATOR_MANAGED'', ''true'')] @
         (if apiBase \<noteq> [] then [(''VITE_API_BASE'', apiBase)] else []) @
         (if frontendRouteHostname \<noteq> [] then [(''VITE_ALLOWED_HOSTS'', frontendRouteHostname)] else []) @
         [(''NODE_EXTRA_CA_CERTS'', clusterCAFilePath)])),
      ''volumeMounts'' \<mapsto> GList
        [volumeMount ''data'' ''/app/node_modules/.vite'' False, volumeMount clusterCAVolumeName clusterCAMountPath True],
      ''readinessProbe'' \<mapsto> probe ''tcpSocket'' [''port'' \<mapsto> GInt frontendPort] 5 10,
      ''livenessProbe'' \<mapsto> probe ''tcpSocket'' [''port'' \<mapsto> GInt frontendPort] 15 20])"

definition consolePluginContainer :: containerBuilder where
  "consolePluginContainer = (\<lambda>name img labels.
     let manifest = [''path'' \<mapsto> GStr ''/plugin-manifest.json'', ''port'' \<mapsto> GInt 9001, ''scheme'' \<mapsto> GStr ''HTTPS''] in
     [''name'' \<mapsto> GStr ''plugin'', ''image'' \<mapsto> GStr img, ''imagePullPolicy'' \<mapsto> GStr ''Always'',
      ''ports'' \<mapsto> GList [GMap [''containerPort'' \<mapsto> GInt 9001, ''name'' \<mapsto> GStr ''https'', ''protocol'' \<mapsto> GStr ''TCP'']],
      ''volumeMounts'' \<mapsto> GList [volumeMount ''serving-cert'' ''/var/serving-cert'' True],
      ''resources'' \<mapsto> GMap
        [''requests'' \<mapsto> GMap [''cpu'' \<mapsto> GStr ''100m'', ''memory'' \<mapsto> GStr ''128Mi''],
         ''limits'' \<mapsto> GMap [''cpu'' \<mapsto> GStr ''500m'', ''memory'' \<mapsto> GStr ''256Mi'']],
      ''livenessProbe'' \<mapsto> probe ''httpGet'' manifest 5 10,
      ''readinessProbe'' \<mapsto> probe ''httpGet'' manifest 5 10])"

section \<open>Deployments\<close>

definition labelValues :: "strmap \<Rightarrow> gomap" where
  "labelValues labels = map_option GStr \<circ> labels"

definition secretVolume :: "string \<Rightarrow> string \<Rightarrow> goval" where
  "secretVolume name secretName = GMap [''name'' \<mapsto> GStr name, ''secret'' \<mapsto> GMap [''secretName'' \<mapsto> GStr secretName]]"

definition architectVolumes :: "string \<Rightarrow> string \<Rightarrow> string \<Rightarrow> goval list" where
  "architectVolumes name component pullSecretName =
     [GMap [''name'' \<mapsto> GStr ''data'', ''emptyDir'' \<mapsto> GMap Map.empty]] @
     (if component = ''backend'' \<and> pullSecretName \<noteq> [] then [secretVolume pullSecretVolumeName pullSecretName] else []) @
     (if component = ''backend'' then [secretVolume ''tls-cert'' (name @ ''-cert'')] else []) @
     (if component = ''console-plugin'' then [secretVolume ''serving-cert'' ''airgap-architect-plugin-cert''] else []) @
     (if component = ''backend'' \<or> component = ''frontend'' then
        [GMap [''name'' \<mapsto> GStr clusterCAVolumeName,
               ''configMap'' \<mapsto> GMap [''name'' \<mapsto> GStr clusterCABundleName, ''optional'' \<mapsto> GBool True]]]
      else [])"

definition architectDeploymentSpec :: "string \<Rightarrow> string \<Rightarrow> int \<Rightarrow> strmap \<Rightarrow> string \<Rightarrow> containerBuilder \<Rightarrow> gomap" where
  "architectDeploymentSpec name img replicas labels pullSecretName buildContainer =
     (let component = mapGet labels ''app.kubernetes.io/component'';
          podSpec = [''containers'' \<mapsto> GList [GMap (buildContainer name img labels)],
                     ''volumes'' \<mapsto> GList (architectVolumes name component pullSecretName)];
          podSpec = (if component = ''backend'' then podSpec(''serviceAccountName'' \<mapsto> GStr ''airgap-architect-backend'') else podSpec)
      in [''replicas'' \<mapsto> GInt replicas,
          ''selector'' \<mapsto> GMap [''matchLabels'' \<mapsto> GMap
            [''app.kubernetes.io/name'' \<mapsto> GStr (''airgap-architect-'' @ component), ''app.kubernetes.io/component'' \<mapsto> GStr component]],
          ''template'' \<mapsto> GMap [''metadata'' \<mapsto> GMap [''labels'' \<mapsto> GMap (labelValues labels)], ''spec'' \<mapsto> GMap podSpec]])"

text \<open>\<^verbatim>\<open>architectBackendDeployment\<close>, \<^verbatim>\<open>architectFrontendDeployment\<close> and \<^verbatim>\<open>consolePluginDeployment\<close> differ in the builder only; the
  frontend has no pull secret. The namespace of the pull secret is passed along in the source, but not used.\<close>

definition architectDeployment :: "string \<Rightarrow> string \<Rightarrow> int \<Rightarrow> strmap \<Rightarrow> string \<Rightarrow> containerBuilder \<Rightarrow> unstr" where
  "architectDeployment name img replicas labels pullSecretName buildContainer =
     withSpec (architectDeploymentSpec name img replicas labels pullSecretName buildContainer)
       (withLabels labels (newUnstr deploymentGVK architectNamespace name))"

text \<open>\<^verbatim>\<open>deploymentsEqual\<close>, without the reason, which is only logged. The image that is wanted is a string, so the comparison of the
  images does not panic.\<close>

definition entry :: "gomap \<Rightarrow> string \<Rightarrow> goval" where
  "entry m k = (case m k of None \<Rightarrow> GNil | Some v \<Rightarrow> v)"

definition marshalOrEmpty :: "('w, 'x) platformEnv_scheme \<Rightarrow> goval \<Rightarrow> string" where
  "marshalOrEmpty E v = (case jsonMarshalValue E v of Inl _ \<Rightarrow> [] | Inr s \<Rightarrow> s)"

definition containersEqual :: "('w, 'x) platformEnv_scheme \<Rightarrow> gomap \<Rightarrow> gomap \<Rightarrow> bool" where
  "containersEqual E existingContainer desiredContainer \<longleftrightarrow>
     entry existingContainer ''image'' = entry desiredContainer ''image'' \<and>
     list_all (\<lambda>k. marshalOrEmpty E (entry existingContainer k) = marshalOrEmpty E (entry desiredContainer k))
       [''env'', ''volumeMounts'', ''readinessProbe'', ''livenessProbe'']"

definition deploymentsEqual :: "('w, 'x) platformEnv_scheme \<Rightarrow> gomap \<Rightarrow> gomap \<Rightarrow> bool" where
  "deploymentsEqual E existing desired =
     (let (existingReplicas, _, _) = nestedInt64 E (GMap existing) [''replicas''];
          (desiredReplicas, _, _) = nestedInt64 E (GMap desired) [''replicas''];
          (existingContainers, _, _) = nestedSlice E (GMap existing) [''template'', ''spec'', ''containers''];
          (desiredContainers, _, _) = nestedSlice E (GMap desired) [''template'', ''spec'', ''containers'']
      in existingReplicas = desiredReplicas \<and> length existingContainers = length desiredContainers \<and>
         (case (existingContainers, desiredContainers) of
            (existingContainer # _, desiredContainer # _) \<Rightarrow>
              containersEqual E (orEmptyMap (asMap (Some existingContainer))) (orEmptyMap (asMap (Some desiredContainer)))
          | _ \<Rightarrow> True))"

section \<open>Services and routes\<close>

definition architectService :: "('w, 'x) env_scheme \<Rightarrow> string \<Rightarrow> int \<Rightarrow> strmap \<Rightarrow> bool \<Rightarrow> unstr" where
  "architectService E name port labels enableTLS =
     (let svc = withLabels labels (newUnstr serviceGVK architectNamespace name);
          svc = (if enableTLS then
                   svc\<lparr>u_Meta := (u_Meta svc)\<lparr>m_Annotations := [''service.beta.openshift.io/serving-cert-secret-name'' \<mapsto> name @ ''-cert'']\<rparr>\<rparr>
                 else svc);
          portName = (if enableTLS then ''https'' else ''http'')
      in onObject (setField E (GMap (labelValues labels)) [''spec'', ''selector''])
          (onObject (setField E (GList [GMap [''name'' \<mapsto> GStr portName, ''port'' \<mapsto> GInt port, ''protocol'' \<mapsto> GStr ''TCP'',
               ''targetPort'' \<mapsto> GInt port]]) [''spec'', ''ports''])
            (onObject (setField E (GStr ''ClusterIP'') [''spec'', ''type'']) svc)))"

definition architectRoute :: "('w, 'x) env_scheme \<Rightarrow> string \<Rightarrow> routeConfig option \<Rightarrow> string \<Rightarrow> unstr" where
  "architectRoute E routeName routeCfg serviceName =
     (let route = withLabels [''app.kubernetes.io/name'' \<mapsto> ''airgap-architect'', ''app.kubernetes.io/part-of'' \<mapsto> ''mirror-operator'',
                     ''app.kubernetes.io/managed-by'' \<mapsto> ''mirror-operator''] (newUnstr routeGVK architectNamespace routeName);
          route = onObject (setField E (GStr ''Service'') [''spec'', ''to'', ''kind'']) route;
          route = onObject (setField E (GStr serviceName) [''spec'', ''to'', ''name'']) route;
          route = onObject (setField E (GStr ''http'') [''spec'', ''port'', ''targetPort'']) route;
          host = (case routeCfg of None \<Rightarrow> [] | Some c \<Rightarrow> rt_Host c);
          route = (if host \<noteq> [] then onObject (setField E (GStr host) [''spec'', ''host'']) route else route);
          custom = (case routeCfg of None \<Rightarrow> [] | Some c \<Rightarrow> (case rt_TLS c of None \<Rightarrow> [] | Some t \<Rightarrow> tls_Termination t));
          termination = (if custom \<noteq> [] then custom else ''edge'');
          route = onObject (setField E (GStr termination) [''spec'', ''tls'', ''termination'']) route
      in onObject (setField E (GStr ''Redirect'') [''spec'', ''tls'', ''insecureEdgeTerminationPolicy'']) route)"

definition getRouteHostname :: "('w, 'x) env_scheme \<Rightarrow> unstr \<Rightarrow> string" where
  "getRouteHostname E route =
     (let (host, found, _) = nestedString E (u_Object route) [''spec'', ''host''] in
      if found \<and> host \<noteq> [] then host
      else let (ingress, found, _) = nestedSlice E (u_Object route) [''status'', ''ingress''] in
        if \<not> found then []
        else (case ingress of
            [] \<Rightarrow> []
          | i # _ \<Rightarrow> (case asMap (Some i) of
                None \<Rightarrow> []
              | Some ingressMap \<Rightarrow> let (host, found, _) = nestedString E (GMap ingressMap) [''host''] in
                  if found \<and> host \<noteq> [] then host else [])))"

section \<open>Roles and the console plugin\<close>

definition rule :: "string \<Rightarrow> string list \<Rightarrow> string list \<Rightarrow> goval" where
  "rule apiGroup resources verbs =
     GMap [''apiGroups'' \<mapsto> GList [GStr apiGroup], ''resources'' \<mapsto> GList (map GStr resources), ''verbs'' \<mapsto> GList (map GStr verbs)]"

definition backendRules :: goval where
  "backendRules = GList
     [rule ''mirror.mirror.mathianasj.github.com'' [''collectionpipelines'', ''mirrorimports'', ''disconnectedplatforms'']
        [''get'', ''list'', ''watch'', ''create'', ''update'', ''patch'', ''delete''],
      rule ''mirror.mirror.mathianasj.github.com''
        [''collectionpipelines/status'', ''mirrorimports/status'', ''disconnectedplatforms/status''] [''get'', ''list'', ''watch''],
      rule [] [''configmaps'', ''secrets''] [''get'', ''list'', ''watch''],
      rule [] [''persistentvolumeclaims''] [''get'', ''list'', ''create'', ''delete''],
      rule [] [''pods''] [''get'', ''list'', ''create'', ''delete''],
      rule [] [''services''] [''get'', ''create'', ''delete'']]"

definition consolePluginGVK :: gvk where
  "consolePluginGVK = \<lparr>g_Group = ''console.openshift.io'', g_Version = ''v1'', g_Kind = ''ConsolePlugin''\<rparr>"

text \<open>The specification of the plugin, with the certificate of the service where there is one.\<close>

definition consolePluginSpec :: "string \<Rightarrow> string \<Rightarrow> string \<Rightarrow> gomap" where
  "consolePluginSpec pluginName backendServiceName caCert =
     (let service = [''name'' \<mapsto> GStr pluginName, ''namespace'' \<mapsto> GStr architectNamespace, ''port'' \<mapsto> GInt 9001, ''basePath'' \<mapsto> GStr ''/'']
      in [''displayName'' \<mapsto> GStr ''Airgap Architect'',
          ''backend'' \<mapsto> GMap [''type'' \<mapsto> GStr ''Service'',
            ''service'' \<mapsto> GMap (if caCert \<noteq> [] then service(''caCertificate'' \<mapsto> GStr caCert) else service)],
          ''proxy'' \<mapsto> GList [GMap [''alias'' \<mapsto> GStr ''backend'', ''authorization'' \<mapsto> GStr ''None'',
            ''endpoint'' \<mapsto> GMap [''type'' \<mapsto> GStr ''Service'',
              ''service'' \<mapsto> GMap [''name'' \<mapsto> GStr backendServiceName, ''namespace'' \<mapsto> GStr architectNamespace, ''port'' \<mapsto> GInt 4000]]]]])"

definition getPullSecretReference :: "airgapArchitectConfig option \<Rightarrow> string \<times> string" where
  "getPullSecretReference cfg =
     (case cfg \<bind> arch_PullSecret of
        Some ps \<Rightarrow> if lor_Name ps \<noteq> [] then (lor_Name ps, architectNamespace) else (defaultPullSecretName, defaultPullSecretNS)
      | None \<Rightarrow> (defaultPullSecretName, defaultPullSecretNS))"

section \<open>The manifests fit together\<close>

text \<open>A path of keys through nested maps, and the names of the entries of a list.\<close>

definition at :: "gomap \<Rightarrow> string list \<Rightarrow> goval option" where
  "at m fs = walk (GMap m) fs"

definition namesOf :: "string \<Rightarrow> goval option \<Rightarrow> string list" where
  "namesOf k v = (case asList v of None \<Rightarrow> [] | Some l \<Rightarrow> map (\<lambda>e. strOrEmpty (orEmptyMap (asMap (Some e)) k)) l)"

definition submap :: "goval option \<Rightarrow> goval option \<Rightarrow> bool" where
  "submap v w \<longleftrightarrow> (case (asMap v, asMap w) of (Some m, Some n) \<Rightarrow> (\<forall>k. m k = None \<or> m k = n k) | _ \<Rightarrow> False)"

text \<open>What the API server and the kubelet ask of a deployment: the selector selects the pods of the template, the names of volumes are
  distinct, and every mount of the container names a volume.\<close>

definition deploymentClosed :: "gomap \<Rightarrow> bool" where
  "deploymentClosed dep \<longleftrightarrow>
     submap (at dep [''selector'', ''matchLabels'']) (at dep [''template'', ''metadata'', ''labels'']) \<and>
     distinct (namesOf ''name'' (at dep [''template'', ''spec'', ''volumes''])) \<and>
     (case at dep [''template'', ''spec'', ''containers''] of
        Some (GList [GMap c]) \<Rightarrow>
          set (namesOf ''name'' (c ''volumeMounts'')) \<subseteq> set (namesOf ''name'' (at dep [''template'', ''spec'', ''volumes'']))
      | _ \<Rightarrow> False)"

lemma pullSecret_named: "fst (getPullSecretReference cfg) \<noteq> []"
  by (auto simp: getPullSecretReference_def defaultPullSecretName_def split: option.splits)

lemmas manifest_defs = deploymentClosed_def at_def namesOf_def submap_def architectDeploymentSpec_def architectVolumes_def
  secretVolume_def volumeMount_def architectComponentLabels_def labelValues_def mapGet_def strOrEmpty_def
  pullSecretVolumeName_def clusterCAVolumeName_def

text \<open>C28. The deployments of the Architect are well formed, whatever images, hosts, proxy settings and pull secret they are built from: the
  selector selects the pods of the template, the volumes have distinct names, and each mount of the container names one.\<close>

theorem deployments_closed:
  "deploymentClosed (architectDeploymentSpec name img replicas (architectComponentLabels ''backend'')
     (fst (getPullSecretReference cfg)) (makeBackendContainerBuilder githubSecret side proxyEnvs)) \<and>
   deploymentClosed (architectDeploymentSpec name img replicas (architectComponentLabels ''frontend'') []
     (frontendContainer backendHost frontendHost)) \<and>
   deploymentClosed (architectDeploymentSpec name img replicas (architectComponentLabels ''console-plugin'')
     (fst (getPullSecretReference cfg)) consolePluginContainer)"
  using pullSecret_named [of cfg]
  by (simp add: manifest_defs makeBackendContainerBuilder_def frontendContainer_def consolePluginContainer_def Let_def)

text \<open>The names of the Architect's resources fit the limit of 63 bytes for every name of a platform, and keep the
  components apart.\<close>

theorem architect_names_fit:
  "length (architectResourceName E p ''airgap-architect-backend'') \<le> 63 \<and>
   length (architectResourceName E p ''airgap-architect-frontend'') \<le> 63 \<and>
   architectResourceName E p ''airgap-architect-backend'' \<noteq> architectResourceName E q ''airgap-architect-frontend''"
proof -
  have suffix: "rev (architectResourceName E p (c @ d)) ! i = rev d ! i" if "i < length d" for E p c d i
    using that by (simp add: architectResourceName_def Let_def nth_append)
  show ?thesis
    using suffix [of 3 "''backend''" E p "''airgap-architect-''"] suffix [of 3 "''frontend''" E q "''airgap-architect-''"]
    by (auto simp: architectResourceName_def Let_def)
qed

end
