(* ===== verification/Architect.thy ===== *)
theory Architect
  imports ArchitectObjects Database
begin

text \<open>
  The installation of the Airgap Architect, from \<^verbatim>\<open>disconnectedplatform_controller.go\<close>: service account and role, deployments
  that are updated when they differ, services, routes, the plugin of the console, and what is removed again. The status
  components that the reconciliation appends are part of its result.
\<close>

section \<open>Service account and roles\<close>

definition rbacGVK :: "string \<Rightarrow> gvk" where
  "rbacGVK k = \<lparr>g_Group = ''rbac.authorization.k8s.io'', g_Version = ''v1'', g_Kind = k\<rparr>"

definition backendAccount :: string where
  "backendAccount = ''airgap-architect-backend''"

definition backendAccountLabels :: strmap where
  "backendAccountLabels =
     [''app.kubernetes.io/name'' \<mapsto> ''airgap-architect'', ''app.kubernetes.io/component'' \<mapsto> ''backend'',
      ''app.kubernetes.io/part-of'' \<mapsto> ''mirror-operator'', ''app.kubernetes.io/managed-by'' \<mapsto> ''mirror-operator'']"

definition backendRole :: "('w, 'x) env_scheme \<Rightarrow> unstr" where
  "backendRole E = onObject (setField E backendRules [''rules''])
     (withLabels backendAccountLabels (newUnstr (rbacGVK ''Role'') architectNamespace backendAccount))"

definition backendRoleBinding :: "('w, 'x) env_scheme \<Rightarrow> unstr" where
  "backendRoleBinding E =
     onObject (setField E (GMap [''kind'' \<mapsto> GStr ''Role'', ''name'' \<mapsto> GStr backendAccount,
         ''apiGroup'' \<mapsto> GStr ''rbac.authorization.k8s.io'']) [''roleRef''])
       (onObject (setField E (GList [GMap [''kind'' \<mapsto> GStr ''ServiceAccount'', ''name'' \<mapsto> GStr backendAccount,
           ''namespace'' \<mapsto> GStr architectNamespace]]) [''subjects''])
         (withLabels backendAccountLabels (newUnstr (rbacGVK ''RoleBinding'') architectNamespace backendAccount)))"

definition ensureArchitectServiceAccount :: "('w, 'x) env_scheme \<Rightarrow> ('w, goerr option) go" where
  "ensureArchitectServiceAccount E =
     untilError
       [createMissing E KServiceAccount OServiceAccount theServiceAccount (architectNamespace, backendAccount)
          ''failed to create ServiceAccount''
          \<lparr>sa_Meta = emptyMeta\<lparr>m_Name := backendAccount, m_Namespace := architectNamespace, m_Labels := backendAccountLabels\<rparr>,
           sa_ImagePullSecrets = []\<rparr>,
        do {
          existingRole \<leftarrow> Get E (KUnstr (rbacGVK ''Role'')) theUnstr (architectNamespace, backendAccount);
          case existingRole of
            Inl err \<Rightarrow>
              if isNotFound err then do {
                c \<leftarrow> Create E OUnstr theUnstr (backendRole E);
                return (map_option (wrap ''failed to create Role'') (errOf c)) }
              else return None
          | Inr existingRole \<Rightarrow> do {
              u \<leftarrow> Update E OUnstr theUnstr (withVersionOf existingRole (backendRole E));
              return (map_option (wrap ''failed to update Role'') (errOf u)) } },
        createMissing E (KUnstr (rbacGVK ''RoleBinding'')) OUnstr theUnstr (architectNamespace, backendAccount)
          ''failed to create RoleBinding'' (backendRoleBinding E)]"

section \<open>Deployments\<close>

text \<open>The function reads the deployment again, and writes a new object with the version of the one it read.\<close>

definition updateArchitectDeployment ::
  "('w, 'x) platformEnv_scheme \<Rightarrow> disconnectedPlatform \<Rightarrow> string \<Rightarrow> string \<Rightarrow> int \<Rightarrow> strmap \<Rightarrow> string \<Rightarrow> containerBuilder \<Rightarrow>
     ('w, goerr option) go" where
  "updateArchitectDeployment E platform name img replicas labels pullSecretName buildContainer = do {
     existing \<leftarrow> Get E (KUnstr deploymentGVK) theUnstr (architectNamespace, name);
     case existing of
       Inl err \<Rightarrow> return (Some err)
     | Inr existing \<Rightarrow>
         let desiredSpec = architectDeploymentSpec name img replicas labels pullSecretName buildContainer;
             (existingSpec, found, err) = nestedMap E (u_Object existing) [''spec''] in
         (case err of
            Some err \<Rightarrow> return (Some (wrap ''failed to get existing spec'' err))
          | None \<Rightarrow>
              if found \<and> deploymentsEqual E existingSpec desiredSpec then return None
              else do {
                u \<leftarrow> Update E OUnstr theUnstr (withSpec desiredSpec (setOwnerReference E platform (withVersionOf existing
                       (withLabels labels (newUnstr deploymentGVK architectNamespace name)))));
                return (errOf u) }) }"

text \<open>What \<^verbatim>\<open>ensureArchitectBackend\<close>, \<^verbatim>\<open>ensureArchitectFrontend\<close> and \<^verbatim>\<open>ensureConsolePlugin\<close> do with their container.\<close>

definition ensureDeployment ::
  "('w, 'x) platformEnv_scheme \<Rightarrow> disconnectedPlatform \<Rightarrow> string \<Rightarrow> string \<Rightarrow> int \<Rightarrow> strmap \<Rightarrow> string \<Rightarrow> containerBuilder \<Rightarrow>
     ('w, goerr option) go" where
  "ensureDeployment E platform name img replicas labels pullSecretName buildContainer = do {
     dep \<leftarrow> Get E (KUnstr deploymentGVK) theUnstr (architectNamespace, name);
     case dep of
       Inr _ \<Rightarrow> updateArchitectDeployment E platform name img replicas labels pullSecretName buildContainer
     | Inl err \<Rightarrow>
         if \<not> isNotFound err then return (Some err)
         else do {
           c \<leftarrow> Create E OUnstr theUnstr
                 (setOwnerReference E platform (architectDeployment name img replicas labels pullSecretName buildContainer));
           return (errOf c) } }"

definition ensureArchitectBackend ::
  "('w, 'x) platformEnv_scheme \<Rightarrow> disconnectedPlatform \<Rightarrow> string \<Rightarrow> string \<Rightarrow> int \<Rightarrow> strmap \<Rightarrow> string \<Rightarrow> ('w, goerr option) go" where
  "ensureArchitectBackend E platform name img replicas labels pullSecretName = do {
     let githubTokenSecretName =
       (case dps_Architect (dp_Spec platform) \<bind> arch_GitHubTokenSecret of None \<Rightarrow> [] | Some s \<Rightarrow> lor_Name s);
     let deploymentSide = (if dps_Mode (dp_Spec platform) = ''airgapped'' then ''disconnected'' else ''connected'');
     (httpProxy, httpsProxy, noProxy) \<leftarrow> getClusterProxy E;
     ensureDeployment E platform name img replicas labels pullSecretName
       (makeBackendContainerBuilder githubTokenSecretName deploymentSide (proxyEnvVarsUnstructured httpProxy httpsProxy noProxy)) }"

definition ensureArchitectFrontend ::
  "('w, 'x) platformEnv_scheme \<Rightarrow> disconnectedPlatform \<Rightarrow> string \<Rightarrow> string \<Rightarrow> int \<Rightarrow> strmap \<Rightarrow> string \<Rightarrow> string \<Rightarrow> ('w, goerr option) go" where
  "ensureArchitectFrontend E platform name img replicas labels backendRouteHostname frontendRouteHostname =
     ensureDeployment E platform name img replicas labels [] (frontendContainer backendRouteHostname frontendRouteHostname)"

definition ensureConsolePlugin ::
  "('w, 'x) platformEnv_scheme \<Rightarrow> disconnectedPlatform \<Rightarrow> string \<Rightarrow> string \<Rightarrow> int \<Rightarrow> strmap \<Rightarrow> string \<Rightarrow> ('w, goerr option) go" where
  "ensureConsolePlugin E platform name img replicas labels pullSecretName =
     ensureDeployment E platform name img replicas labels pullSecretName consolePluginContainer"

section \<open>Services and routes\<close>

definition servesTLS :: "string \<Rightarrow> bool" where
  "servesTLS name \<longleftrightarrow> name = ''airgap-architect-plugin'' \<or> strContains name ''airgap-architect-backend''"

definition ensureArchitectService ::
  "('w, 'x) platformEnv_scheme \<Rightarrow> disconnectedPlatform \<Rightarrow> string \<Rightarrow> int \<Rightarrow> strmap \<Rightarrow> ('w, goerr option) go" where
  "ensureArchitectService E platform name port labels = do {
     existing \<leftarrow> Get E (KUnstr serviceGVK) theUnstr (architectNamespace, name);
     let svc = architectService E name port labels (servesTLS name);
     case existing of
       Inr existing \<Rightarrow> do {
         u \<leftarrow> Update E OUnstr theUnstr (setOwnerReference E platform (withVersionOf existing svc));
         return (errOf u) }
     | Inl err \<Rightarrow>
         if \<not> isNotFound err then return (Some err)
         else do {
           c \<leftarrow> Create E OUnstr theUnstr (setOwnerReference E platform svc);
           return (errOf c) } }"

definition updateArchitectRoute ::
  "('w, 'x) platformEnv_scheme \<Rightarrow> disconnectedPlatform \<Rightarrow> string \<Rightarrow> routeConfig option \<Rightarrow> string \<Rightarrow> ('w, goerr option) go" where
  "updateArchitectRoute E platform routeName routeCfg serviceName = do {
     existing \<leftarrow> Get E (KUnstr routeGVK) theUnstr (architectNamespace, routeName);
     case existing of
       Inl err \<Rightarrow> return (Some err)
     | Inr existing \<Rightarrow> do {
         u \<leftarrow> Update E OUnstr theUnstr
               (setOwnerReference E platform (withVersionOf existing (architectRoute E routeName routeCfg serviceName)));
         return (errOf u) } }"

definition ensureArchitectRoute ::
  "('w, 'x) platformEnv_scheme \<Rightarrow> disconnectedPlatform \<Rightarrow> string \<Rightarrow> routeConfig option \<Rightarrow> string \<Rightarrow> ('w, goerr option) go" where
  "ensureArchitectRoute E platform routeName routeCfg serviceName = do {
     route \<leftarrow> Get E (KUnstr routeGVK) theUnstr (architectNamespace, routeName);
     case route of
       Inr _ \<Rightarrow> updateArchitectRoute E platform routeName routeCfg serviceName
     | Inl err \<Rightarrow>
         if \<not> isNotFound err then return (Some err)
         else do {
           c \<leftarrow> Create E OUnstr theUnstr (setOwnerReference E platform (architectRoute E routeName routeCfg serviceName));
           return (errOf c) } }"

text \<open>The host name under which a route is reached, empty where it cannot be read: the configured one, with a prefix for the
  interface, or the one the router assigned.\<close>

definition routeHostname ::
  "('w, 'x) platformEnv_scheme \<Rightarrow> string \<Rightarrow> routeConfig option \<Rightarrow> string \<Rightarrow> ('w, string) go" where
  "routeHostname E routeName routeCfg pre = do {
     route \<leftarrow> Get E (KUnstr routeGVK) theUnstr (architectNamespace, routeName);
     case route of
       Inl _ \<Rightarrow> return []
     | Inr route \<Rightarrow>
         let host = (case routeCfg of None \<Rightarrow> [] | Some c \<Rightarrow> rt_Host c) in
         return (if host \<noteq> [] then pre @ host else getRouteHostname E route) }"

section \<open>The plugin of the console\<close>

definition getServiceCACert :: "('w, 'x) env_scheme \<Rightarrow> ('w, string res) go" where
  "getServiceCACert E = do {
     configMap \<leftarrow> Get E KConfigMap theConfigMap (''openshift-service-ca'', ''signing-cabundle'');
     case configMap of
       Inl err \<Rightarrow> return (Inl (wrap ''failed to get signing-cabundle ConfigMap'' err))
     | Inr configMap \<Rightarrow>
         (case cm_Data configMap \<bind> (\<lambda>m. m ''ca-bundle.crt'') of
            None \<Rightarrow> return (Inl (errorf ''ca-bundle.crt not found in ConfigMap''))
          | Some caCert \<Rightarrow> return (Inr caCert)) }"

definition updateConsolePluginCR ::
  "('w, 'x) platformEnv_scheme \<Rightarrow> disconnectedPlatform \<Rightarrow> unstr \<Rightarrow> string \<Rightarrow> ('w, goerr option) go" where
  "updateConsolePluginCR E platform consolePlugin pluginName = do {
     cert \<leftarrow> getServiceCACert E;
     let caCertContent = (case cert of Inl _ \<Rightarrow> [] | Inr c \<Rightarrow> c);
     let desiredSpec = consolePluginSpec pluginName (architectResourceName E platform ''airgap-architect-backend'') caCertContent;
     let (currentSpec, _, _) = nestedMap E (u_Object consolePlugin) [''spec''];
     let (currentCert, _, _) = nestedString E (u_Object consolePlugin) [''spec'', ''backend'', ''service'', ''caCertificate''];
     if currentCert = caCertContent \<and> sprintV E (GMap currentSpec) = sprintV E (GMap desiredSpec) then return None
     else do {
       u \<leftarrow> Update E OUnstr theUnstr (withSpec desiredSpec consolePlugin);
       return (errOf u) } }"

definition ensureConsolePluginCR :: "('w, 'x) platformEnv_scheme \<Rightarrow> disconnectedPlatform \<Rightarrow> string \<Rightarrow> ('w, goerr option) go" where
  "ensureConsolePluginCR E platform pluginName = do {
     consolePlugin \<leftarrow> Get E (KUnstr consolePluginGVK) theUnstr ([], pluginName);
     case consolePlugin of
       Inr consolePlugin \<Rightarrow> updateConsolePluginCR E platform consolePlugin pluginName
     | Inl err \<Rightarrow>
         if \<not> isNotFound err then return (Some err)
         else do {
           c \<leftarrow> Create E OUnstr theUnstr
                 (withSpec (consolePluginSpec pluginName (architectResourceName E platform ''airgap-architect-backend'') [])
                   (newUnstr consolePluginGVK [] pluginName));
           return (errOf c) } }"

section \<open>Removal\<close>

text \<open>Deletions whose errors are logged.\<close>

fun deleteAll :: "('w, 'x) env_scheme \<Rightarrow> (gvk \<times> nsname) list \<Rightarrow> ('w, unit) go" where
  "deleteAll E [] = return ()"
| "deleteAll E ((g, nn) # os) = do { _ \<leftarrow> Delete E (KUnstr g) nn; deleteAll E os }"

definition consolePluginResources :: "(gvk \<times> nsname) list" where
  "consolePluginResources =
     [(consolePluginGVK, ([], ''airgap-architect-plugin'')), (serviceGVK, (architectNamespace, ''airgap-architect-plugin'')),
      (deploymentGVK, (architectNamespace, ''airgap-architect-plugin''))]"

definition deleteConsolePluginResources :: "('w, 'x) env_scheme \<Rightarrow> ('w, unit) go" where
  "deleteConsolePluginResources E = deleteAll E consolePluginResources"

definition frontendResources :: "('w, 'x) platformEnv_scheme \<Rightarrow> disconnectedPlatform \<Rightarrow> (gvk \<times> nsname) list" where
  "frontendResources E platform =
     (let frontendName = architectResourceName E platform ''airgap-architect-frontend'' in
      [(serviceGVK, (architectNamespace, frontendName)), (deploymentGVK, (architectNamespace, frontendName)),
       (routeGVK, (architectNamespace, ''airgap-architect''))])"

definition deleteArchitectFrontendResources :: "('w, 'x) platformEnv_scheme \<Rightarrow> disconnectedPlatform \<Rightarrow> ('w, unit) go" where
  "deleteArchitectFrontendResources E platform = deleteAll E (frontendResources E platform)"

fun deleteResources :: "('w, 'x) env_scheme \<Rightarrow> (gvk \<times> string) list \<Rightarrow> ('w, unit) go" where
  "deleteResources E [] = return ()"
| "deleteResources E ((g, name) # os) = do { _ \<leftarrow> deleteResource E g name; deleteResources E os }"

definition architectResources :: "('w, 'x) platformEnv_scheme \<Rightarrow> disconnectedPlatform \<Rightarrow> (gvk \<times> string) list" where
  "architectResources E platform =
     (let backendName = architectResourceName E platform ''airgap-architect-backend'';
          frontendName = architectResourceName E platform ''airgap-architect-frontend'' in
      [(deploymentGVK, backendName), (deploymentGVK, frontendName), (serviceGVK, backendName), (serviceGVK, frontendName),
       (routeGVK, ''airgap-architect''), (routeGVK, ''airgap-architect-api'')])"

definition deleteArchitectResources :: "('w, 'x) platformEnv_scheme \<Rightarrow> disconnectedPlatform \<Rightarrow> ('w, goerr option) go" where
  "deleteArchitectResources E platform = do { deleteResources E (architectResources E platform); return None }"

section \<open>The reconciliation\<close>

definition architectComponent :: "string \<Rightarrow> componentStatus" where
  "architectComponent name = \<lparr>cst_Name = name, cst_Status = ''Running'', cst_Kind = ''Deployment'', cst_APIGroup = ''apps'',
     cst_Namespace = architectNamespace, cst_URL = [], cst_LastCheck = None\<rparr>"

definition orElse :: "string \<Rightarrow> string \<Rightarrow> string" where
  "orElse s t = (if s = [] then t else s)"

definition consolePluginEnabled :: "airgapArchitectConfig \<Rightarrow> bool" where
  "consolePluginEnabled cfg \<longleftrightarrow> (case arch_ConsolePlugin cfg of None \<Rightarrow> True | Some p \<Rightarrow> cpl_Enabled p)"

definition deployFrontend :: "platformReconciler \<Rightarrow> airgapArchitectConfig \<Rightarrow> bool" where
  "deployFrontend r cfg \<longleftrightarrow> orElse (arch_FrontendImage cfg) (dpr_ArchitectFrontendImage r) \<noteq> [] \<and>
     (\<not> consolePluginEnabled cfg \<or> arch_FrontendImage cfg \<noteq> [])"

definition consolePluginImage :: "('w, 'x) platformEnv_scheme \<Rightarrow> platformReconciler \<Rightarrow> airgapArchitectConfig \<Rightarrow> string" where
  "consolePluginImage E r cfg =
     orElse (orElse (case arch_ConsolePlugin cfg of None \<Rightarrow> [] | Some p \<Rightarrow> cpl_Image p) (dpr_ArchitectConsolePluginImage r))
       (envOrDefault E ''RELATED_IMAGE_ARCHITECT_CONSOLE_PLUGIN''
          ''quay.io/mathianasj/openshift-airgap-architect-console-plugin:latest'')"

text \<open>The steps of \<^verbatim>\<open>reconcileArchitect\<close>: backend, routes, frontend, plugin. Each gives an error that ends the reconciliation.\<close>

definition reconcileBackend ::
  "('w, 'x) platformEnv_scheme \<Rightarrow> platformReconciler \<Rightarrow> disconnectedPlatform \<Rightarrow> airgapArchitectConfig \<Rightarrow> int \<Rightarrow> ('w, goerr option) go" where
  "reconcileBackend E r platform cfg replicas =
     (let (pullSecretName, pullSecretNamespace) = getPullSecretReference (Some cfg);
          name = architectResourceName E platform ''airgap-architect-backend'';
          labels = architectComponentLabels ''backend'' in
      untilError
        [ensurePullSecret E r pullSecretName pullSecretNamespace,
         do { _ \<leftarrow> ensureClusterCABundle E; return None },
         ensureArchitectServiceAccount E,
         ensureArchitectBackend E platform name (orElse (arch_BackendImage cfg) (dpr_ArchitectBackendImage r)) replicas labels pullSecretName,
         ensureArchitectService E platform name architectPort labels])"

definition reconcileRoute ::
  "('w, 'x) platformEnv_scheme \<Rightarrow> disconnectedPlatform \<Rightarrow> airgapArchitectConfig \<Rightarrow> string \<Rightarrow> string \<Rightarrow> string \<Rightarrow> ('w, string res) go" where
  "reconcileRoute E platform cfg routeName component pre = do {
     err \<leftarrow> ensureArchitectRoute E platform routeName (arch_Route cfg) (architectResourceName E platform component);
     case err of
       Some err \<Rightarrow> return (Inl err)
     | None \<Rightarrow> do { host \<leftarrow> routeHostname E routeName (arch_Route cfg) pre; return (Inr host) } }"

definition reconcileFrontend ::
  "('w, 'x) platformEnv_scheme \<Rightarrow> platformReconciler \<Rightarrow> disconnectedPlatform \<Rightarrow> airgapArchitectConfig \<Rightarrow> int \<Rightarrow> string \<Rightarrow> string \<Rightarrow>
     ('w, componentStatus list res) go" where
  "reconcileFrontend E r platform cfg replicas backendHost frontendHost =
     (if deployFrontend r cfg then do {
        let name = architectResourceName E platform ''airgap-architect-frontend'';
        let labels = architectComponentLabels ''frontend'';
        err \<leftarrow> untilError
          [ensureArchitectFrontend E platform name (orElse (arch_FrontendImage cfg) (dpr_ArchitectFrontendImage r)) replicas labels
             backendHost frontendHost,
           ensureArchitectService E platform name frontendPort labels];
        return (case err of Some err \<Rightarrow> Inl err | None \<Rightarrow> Inr [architectComponent ''airgap-architect-frontend'']) }
      else if consolePluginEnabled cfg \<and> arch_FrontendImage cfg = [] then do {
        _ \<leftarrow> deleteArchitectFrontendResources E platform;
        return (Inr []) }
      else return (Inr []))"

definition reconcilePlugin ::
  "('w, 'x) platformEnv_scheme \<Rightarrow> platformReconciler \<Rightarrow> disconnectedPlatform \<Rightarrow> airgapArchitectConfig \<Rightarrow> int \<Rightarrow>
     ('w, componentStatus list res) go" where
  "reconcilePlugin E r platform cfg replicas =
     (if consolePluginEnabled cfg then do {
        let name = ''airgap-architect-plugin'';
        let labels = architectComponentLabels ''console-plugin'';
        err \<leftarrow> untilError
          [ensureConsolePlugin E platform name (consolePluginImage E r cfg) replicas labels (fst (getPullSecretReference (Some cfg))),
           ensureArchitectService E platform name 9001 labels,
           ensureConsolePluginCR E platform name,
           do { _ \<leftarrow> enableConsolePluginInOperator E name; return None }];
        return (case err of Some err \<Rightarrow> Inl err | None \<Rightarrow> Inr [architectComponent ''airgap-architect-console-plugin'']) }
      else do {
        _ \<leftarrow> deleteConsolePluginResources E;
        return (Inr []) })"

definition appendComponents :: "componentStatus list \<Rightarrow> disconnectedPlatform \<Rightarrow> disconnectedPlatform" where
  "appendComponents cs platform =
     platform\<lparr>dp_Status := (dp_Status platform)\<lparr>dpst_Components := dpst_Components (dp_Status platform) @ cs\<rparr>\<rparr>"

definition reconcileArchitect ::
  "('w, 'x) platformEnv_scheme \<Rightarrow> platformReconciler \<Rightarrow> disconnectedPlatform \<Rightarrow> ('w, disconnectedPlatform \<times> goerr option) go" where
  "reconcileArchitect E r platform =
     (case dps_Architect (dp_Spec platform) of
        None \<Rightarrow> do { err \<leftarrow> deleteArchitectResources E platform; return (platform, err) }
      | Some cfg \<Rightarrow>
          if \<not> arch_Enabled cfg then do { err \<leftarrow> deleteArchitectResources E platform; return (platform, err) }
          else do {
            let replicas = (if arch_Replicas cfg > 0 then arch_Replicas cfg else 1);
            err \<leftarrow> reconcileBackend E r platform cfg replicas;
            case err of
              Some err \<Rightarrow> return (platform, Some err)
            | None \<Rightarrow> do {
                frontendHost \<leftarrow> reconcileRoute E platform cfg ''airgap-architect'' ''airgap-architect-frontend'' [];
                case frontendHost of
                  Inl err \<Rightarrow> return (platform, Some err)
                | Inr frontendHost \<Rightarrow> do {
                    backendHost \<leftarrow> reconcileRoute E platform cfg ''airgap-architect-api'' ''airgap-architect-backend'' ''api-'';
                    case backendHost of
                      Inl err \<Rightarrow> return (platform, Some err)
                    | Inr backendHost \<Rightarrow> do {
                        frontend \<leftarrow> reconcileFrontend E r platform cfg replicas backendHost frontendHost;
                        case frontend of
                          Inl err \<Rightarrow> return (platform, Some err)
                        | Inr frontend \<Rightarrow> do {
                            let platform = appendComponents frontend platform;
                            plugin \<leftarrow> reconcilePlugin E r platform cfg replicas;
                            case plugin of
                              Inl err \<Rightarrow> return (platform, Some err)
                            | Inr plugin \<Rightarrow>
                                return (appendComponents (plugin @ [architectComponent ''airgap-architect-backend'']) platform, None) } } } } })"

section \<open>What the steps do\<close>

text \<open>Every step only makes requests: its trace grows.\<close>

lemma only_any_helpers [only_intros]:
  "only (\<lambda>_. True) (getClusterProxy E')" "only (\<lambda>_. True) (ensureClusterCABundle E')"
  "only (\<lambda>_. True) (enableConsolePluginInOperator E' name)" "only (\<lambda>_. True) (deleteResource E' g name)"
  "only (\<lambda>_. True) (createMissing E' k mk prj nn msg x)"
  unfolding getClusterProxy_def ensureClusterCABundle_def ensureClusterCABundleInNamespace_def enableConsolePluginInOperator_def
    deleteResource_def createMissing_def
  by (intro only_intros TrueI)+

lemma only_any_untilError [only_intros]: "list_all (only (\<lambda>_. True)) ms \<Longrightarrow> only (\<lambda>_. True) (untilError ms)"
  by (induction ms) (auto intro!: only_intros)

lemma only_any_deletions [only_intros]:
  "only (\<lambda>_. True) (deleteAll E' os)" "only (\<lambda>_. True) (deleteResources E' names)" "only (\<lambda>_. True) (deleteAllPods E' pods)"
  subgoal by (induction os rule: deleteAll.induct) (auto intro!: only_intros)
  subgoal by (induction names rule: deleteResources.induct) (auto intro!: only_intros)
  subgoal by (induction pods) (auto intro!: only_intros)
  done

lemma only_any_secrets [only_intros]:
  "only (\<lambda>_. True) (saveQuayRobotCredentials E' name token)"
  "only (\<lambda>_. True) (getQuayRobotCredentials E r)" "only (\<lambda>_. True) (addQuayCredentialsIfNeeded E r doc)"
  "only (\<lambda>_. True) (ensurePullSecret E r name ns)"
  unfolding saveQuayRobotCredentials_def getQuayRobotCredentials_def addQuayCredentialsIfNeeded_def ensurePullSecret_def
    updatePullSecret_def restartBackendPods_def Let_def
  by (intro only_intros TrueI)+

lemma only_any_steps [only_intros]:
  "only (\<lambda>_. True) (ensureArchitectServiceAccount E')"
  "only (\<lambda>_. True) (ensureDeployment E platform name img replicas labels ps builder)"
  "only (\<lambda>_. True) (ensureArchitectService E platform name port labels)"
  "only (\<lambda>_. True) (ensureArchitectRoute E platform name routeCfg service)"
  "only (\<lambda>_. True) (ensureConsolePluginCR E platform name)"
  unfolding ensureArchitectServiceAccount_def ensureDeployment_def updateArchitectDeployment_def ensureArchitectService_def
    ensureArchitectRoute_def updateArchitectRoute_def ensureConsolePluginCR_def updateConsolePluginCR_def getServiceCACert_def Let_def
  by (auto intro!: only_intros)

lemma only_any_parts [only_intros]:
  "only (\<lambda>_. True) (reconcileBackend E r platform cfg replicas)"
  "only (\<lambda>_. True) (reconcileRoute E platform cfg routeName component pre)"
  "only (\<lambda>_. True) (reconcileFrontend E r platform cfg replicas backendHost frontendHost)"
  "only (\<lambda>_. True) (reconcilePlugin E r platform cfg replicas)"
  unfolding reconcileBackend_def reconcileRoute_def reconcileFrontend_def reconcilePlugin_def Let_def ensureArchitectBackend_def
    ensureArchitectFrontend_def ensureConsolePlugin_def routeHostname_def deleteArchitectFrontendResources_def
    deleteConsolePluginResources_def
  by (auto intro!: only_intros split: prod.splits)

lemma spec_reconcileFrontend:
  "spec (reconcileFrontend E r platform cfg replicas backendHost frontendHost) (\<lambda>es x. \<forall>cs. x = Inr cs \<longrightarrow>
     cs = (if deployFrontend r cfg then [architectComponent ''airgap-architect-frontend''] else []))"
  unfolding reconcileFrontend_def Let_def ensureArchitectFrontend_def deleteArchitectFrontendResources_def
  by (intro spec_if spec_bind_value spec_returnI only_intros)
    (auto intro!: only_intros split: option.splits)

lemma spec_reconcilePlugin:
  "spec (reconcilePlugin E r platform cfg replicas) (\<lambda>es x. \<forall>cs. x = Inr cs \<longrightarrow>
     cs = (if consolePluginEnabled cfg then [architectComponent ''airgap-architect-console-plugin''] else []))"
  unfolding reconcilePlugin_def Let_def ensureConsolePlugin_def deleteConsolePluginResources_def
  by (intro spec_if spec_bind_value spec_returnI only_intros) (auto intro!: only_intros split: option.splits)

text \<open>Who a written object is, and what the steps write.\<close>

definition identity :: "unstr \<Rightarrow> gvk \<times> nsname" where
  "identity u = (u_GVK u, u_Namespace u, u_Name u)"

lemma identity_simps [simp]:
  "identity (withLabels labels u) = identity u" "identity (withVersionOf e u) = identity u" "identity (withSpec m u) = identity u"
  "identity (setOwnerReference E p u) = identity u" "identity (onObject f u) = identity u"
  "identity (newUnstr g ns name) = (g, ns, name)"
  by (simp_all add: identity_def withLabels_def withVersionOf_def withSpec_def setOwnerReference_def)

lemma identity_architectRoute [simp]: "identity (architectRoute E name cfg service) = (routeGVK, architectNamespace, name)"
  by (simp add: architectRoute_def Let_def)

fun puts :: "gvk \<Rightarrow> nsname \<Rightarrow> request \<Rightarrow> bool" where
  "puts g nn (RCreate (OUnstr u)) = (identity u = (g, nn))"
| "puts g nn (RUpdate (OUnstr u)) = (identity u = (g, nn))"
| "puts g nn _ = False"

lemma spec_reconcileRoute:
  "spec (reconcileRoute E platform cfg routeName component pre) (\<lambda>es x. \<forall>host. x = Inr host \<longrightarrow>
     (\<exists>q. writes es = [q] \<and> puts routeGVK (architectNamespace, routeName) q))"
  unfolding reconcileRoute_def ensureArchitectRoute_def updateArchitectRoute_def routeHostname_def Let_def
  by (intro spec_intros) auto

lemma spec_deleteAll: "spec (deleteAll E os) (\<lambda>es _. writes es = map (\<lambda>(g, nn). RDelete (KUnstr g) nn) os)"
proof (induction os rule: deleteAll.induct)
  case (2 E g nn os)
  show ?case unfolding deleteAll.simps by (intro spec_bind_Delete) (auto intro: spec_mono [OF 2])
qed simp

lemma only_deletions:
  "only (\<lambda>q. isRead q \<or> (\<exists>k nn. q = RDelete k nn)) (deleteArchitectResources E platform)"
proof -
  have "only (\<lambda>q. isRead q \<or> (\<exists>k nn. q = RDelete k nn)) (deleteResources E names)" for names
    by (induction names rule: deleteResources.induct) (auto simp: deleteResource_def intro!: only_intros)
  then show ?thesis unfolding deleteArchitectResources_def by (auto intro: only_intros)
qed

section \<open>Properties\<close>

definition frontendComponents :: "platformReconciler \<Rightarrow> airgapArchitectConfig \<Rightarrow> componentStatus list" where
  "frontendComponents r cfg = (if deployFrontend r cfg then [architectComponent ''airgap-architect-frontend''] else [])"

definition pluginComponents :: "airgapArchitectConfig \<Rightarrow> componentStatus list" where
  "pluginComponents cfg = (if consolePluginEnabled cfg then [architectComponent ''airgap-architect-console-plugin''] else [])"

text \<open>A reconciliation of the Architect changes the platform in its status components only. Without an error and with the Architect
  enabled it appends the frontend where it is deployed, the console plugin where it is enabled, and the backend, in this
  order; with an error at most the frontend; with the Architect disabled it appends nothing and only reads and deletes.\<close>

theorem architect_reconciled:
  "spec (reconcileArchitect E r platform) (\<lambda>es (p, err).
     case dps_Architect (dp_Spec platform) of
       None \<Rightarrow> p = platform \<and> err = None \<and> list_all (\<lambda>q. \<exists>k nn. q = RDelete k nn) (writes es)
     | Some cfg \<Rightarrow>
         if \<not> arch_Enabled cfg then p = platform \<and> err = None \<and> list_all (\<lambda>q. \<exists>k nn. q = RDelete k nn) (writes es)
         else (case err of
             None \<Rightarrow> p = appendComponents
               (frontendComponents r cfg @ pluginComponents cfg @ [architectComponent ''airgap-architect-backend'']) platform
           | Some _ \<Rightarrow> p \<in> {platform, appendComponents (frontendComponents r cfg) platform}))"
proof -
  have append_simps: "appendComponents [] p = p" "appendComponents xs (appendComponents ys p) = appendComponents (ys @ xs) p" for xs ys p
    by (simp_all add: appendComponents_def)
  have deletes: "list_all (\<lambda>q. \<exists>k nn. q = RDelete k nn) (writes es)"
    if "list_all (\<lambda>e. isRead (fst e) \<or> (\<exists>k nn. fst e = RDelete k nn)) es" for es
    using that by (induction es) (auto simp: isRead_iff writes_def)
  have "spec (deleteArchitectResources E platform) (\<lambda>_ err. err = None)"
    unfolding deleteArchitectResources_def by (intro spec_bind_value spec_returnI only_intros refl)
  from spec_conj [OF this only_spec [OF only_deletions deletes]]
  have off: "spec (do { err \<leftarrow> deleteArchitectResources E platform; return (platform, err) })
      (\<lambda>es (p, err). p = platform \<and> err = None \<and> list_all (\<lambda>q. \<exists>k nn. q = RDelete k nn) (writes es))"
    by (rule spec_bindI [where P = "\<lambda>es err. err = None \<and> list_all (\<lambda>q. \<exists>k nn. q = RDelete k nn) (writes es)"]) simp_all
  show ?thesis
  proof (cases "\<exists>cfg. dps_Architect (dp_Spec platform) = Some cfg \<and> arch_Enabled cfg")
    case False
    then show ?thesis
      unfolding reconcileArchitect_def
      by (intro spec_case_option spec_if) (auto intro: spec_mono [OF off])
  next
    case True
    then obtain cfg where cfg: "dps_Architect (dp_Spec platform) = Some cfg" "arch_Enabled cfg" by blast
    then have on: "(if \<not> arch_Enabled cfg then x else y) = y" for x y :: 'c by simp
    show ?thesis
      unfolding reconcileArchitect_def Let_def cfg option.case on
      by (intro spec_if spec_case_option spec_case_sum spec_returnI
          spec_bind_value [OF only_any_parts(1)] spec_bind_value [OF only_any_parts(2)]
          spec_bindI [OF spec_reconcileFrontend] spec_bindI [OF spec_reconcilePlugin])
        (auto simp: append_simps frontendComponents_def pluginComponents_def)
  qed
qed

text \<open>Where the console plugin replaces the frontend, the route of the frontend is created (or updated) and deleted in every
  reconciliation that succeeds.\<close>

theorem frontend_route_churns:
  assumes cfg: "dps_Architect (dp_Spec platform) = Some cfg" "arch_Enabled cfg"
    and plugin: "consolePluginEnabled cfg" "arch_FrontendImage cfg = []"
  shows "spec (reconcileArchitect E r platform) (\<lambda>es (p, err). err = None \<longrightarrow> (\<exists>a q b c.
     writes es = a @ q # b @ RDelete (KUnstr routeGVK) (architectNamespace, ''airgap-architect'') # c \<and>
     puts routeGVK (architectNamespace, ''airgap-architect'') q))"
proof -
  have frontend: "spec (reconcileFrontend E r platform cfg replicas backendHost frontendHost)
     (\<lambda>es _. \<exists>b. writes es = b @ [RDelete (KUnstr routeGVK) (architectNamespace, ''airgap-architect'')])" for replicas backendHost frontendHost
    using plugin unfolding reconcileFrontend_def deleteArchitectFrontendResources_def
    by (auto simp: deployFrontend_def frontendResources_def Let_def intro!: spec_bind_Delete)
  have on: "(if \<not> arch_Enabled cfg then x else y) = y" for x y :: 'c using cfg by simp
  have shape: "\<exists>a q'. (\<exists>b' c. xs @ q # y # b @ d # ws = a @ q' # b' @ d # c) \<and> puts g nn q'"
    if "puts g nn q" for xs ws y b d g nn q
    using that by (intro exI [of _ xs] exI [of _ q]) (auto intro: exI [of _ "y # b"])
  show ?thesis
    unfolding reconcileArchitect_def Let_def cfg option.case on
    by (intro spec_if spec_case_option spec_case_sum spec_returnI
        spec_bindI [OF only_any_parts(1) [unfolded only_def]] spec_bindI [OF spec_reconcileRoute] spec_bindI [OF frontend]
        spec_bindI [OF only_any_parts(4) [unfolded only_def]])
      (auto intro: shape)
qed

text \<open>A platform with the Architect and its console plugin, and a server that answers what the reconciliation asks.\<close>

definition samplePlatformEnv :: "response list platformEnv" where
  "samplePlatformEnv = scriptedPlatform (\<lambda>_. Inl (errorf ''no json'')) (\<lambda>_. Inl (errorf ''no json'')) (\<lambda>_. [])"

definition sampleArchitect :: airgapArchitectConfig where
  "sampleArchitect = \<lparr>arch_Enabled = True, arch_FrontendImage = [], arch_BackendImage = [], arch_ConsolePlugin = None, arch_Replicas = 0,
     arch_Route = None, arch_PullSecret = Some \<lparr>lor_Name = ''pull''\<rparr>, arch_GitHubTokenSecret = None\<rparr>"

definition architectPlatform :: disconnectedPlatform where
  "architectPlatform = (samplePlatform None [])\<lparr>dp_Spec := (dp_Spec (samplePlatform None []))\<lparr>dps_Architect := Some sampleArchitect\<rparr>\<rparr>"

definition architectReplies :: "response list" where
  "architectReplies =
     (let down = Inl (GoErr OtherReason ''down''); missing = Inl (GoErr NotFound ''missing'');
          ok = Inr [OUnstr (newUnstr routeGVK [] ''object'')]
      in [down, down, down, down, down, missing, ok, missing, ok, missing, ok, down, missing, ok, down,
          down, down, down, missing, ok, missing, ok, missing, ok, down])"

theorem frontend_route_churns_witness:
  "let s = run_state (reconcileArchitect samplePlatformEnv sampleReconciler architectPlatform) (start architectReplies)
   in snd (fst s) = None \<and> (\<exists>a q b c.
     writes (trace (snd s)) = a @ q # b @ RDelete (KUnstr routeGVK) (architectNamespace, ''airgap-architect'') # c \<and>
     puts routeGVK (architectNamespace, ''airgap-architect'') q)"
proof -
  let ?m = "reconcileArchitect samplePlatformEnv sampleReconciler architectPlatform"
  have cfg: "dps_Architect (dp_Spec architectPlatform) = Some sampleArchitect" "arch_Enabled sampleArchitect"
      "consolePluginEnabled sampleArchitect" "arch_FrontendImage sampleArchitect = []"
    and ref: "getPullSecretReference (Some sampleArchitect) = (''pull'', architectNamespace)" "arch_Route sampleArchitect = None"
    and front: "\<not> deployFrontend sampleReconciler sampleArchitect"
    by (simp_all add: architectPlatform_def sampleArchitect_def consolePluginEnabled_def getPullSecretReference_def deployFrontend_def)
  have "snd (fst (run_state ?m (start architectReplies))) = None"
    by (simp add: reconcileArchitect_def cfg ref front reconcileBackend_def reconcileRoute_def reconcileFrontend_def reconcilePlugin_def
        ensurePullSecret_def ensureClusterCABundle_def ensureClusterCABundleInNamespace_def ensureArchitectServiceAccount_def
        createMissing_def ensureArchitectBackend_def getClusterProxy_def ensureDeployment_def ensureArchitectService_def
        ensureArchitectRoute_def routeHostname_def deleteArchitectFrontendResources_def frontendResources_def
        ensureConsolePlugin_def ensureConsolePluginCR_def enableConsolePluginInOperator_def
        architectReplies_def isNotFound_def samplePlatformEnv_def scripted_simps Let_def split_beta)
  with spec_run [OF frontend_route_churns [OF cfg, of samplePlatformEnv sampleReconciler], of "start architectReplies"]
  show ?thesis by (auto simp: start_def Let_def split_beta)
qed

text \<open>An existing deployment of the backend is written again exactly when its image changed, and then with the wanted
  specification; a change of the pull secret alone (here from \<open>ps\<close> to \<open>ps'\<close>) is not noticed. Slices and integers are read as documented.\<close>

theorem deployment_update_by_image:
  assumes slice: "\<And>v fs. nestedSlice E v fs = scr_nestedSlice v fs"
    and int: "\<And>v w fs. walk v fs = walk w fs \<Longrightarrow> nestedInt64 E v fs = nestedInt64 E w fs"
    and stored: "nestedMap E (u_Object u) [''spec''] =
      (architectDeploymentSpec name img n (architectComponentLabels ''backend'') ps (makeBackendContainerBuilder gh side pe), True, None)"
  shows "spec (updateArchitectDeployment E p name img' n (architectComponentLabels ''backend'') ps' (makeBackendContainerBuilder gh side pe))
    (\<lambda>es x. \<exists>r rest. es = (RGet (KUnstr deploymentGVK) (architectNamespace, name), r) # rest \<and> (r = Inr [OUnstr u] \<longrightarrow>
       (if img' = img then rest = [] \<and> x = None
        else \<exists>w. writes rest = [RUpdate (OUnstr w)] \<and> identity w = (deploymentGVK, architectNamespace, name) \<and>
          walk (u_Object w) [''spec''] = Some (GMap (architectDeploymentSpec name img' n (architectComponentLabels ''backend'') ps'
            (makeBackendContainerBuilder gh side pe))))))"
proof -
  let ?spec = "\<lambda>img ps. architectDeploymentSpec name img n (architectComponentLabels ''backend'') ps (makeBackendContainerBuilder gh side pe)"
  have containers: "scr_nestedSlice (GMap (?spec img ps)) [''template'', ''spec'', ''containers''] =
      ([GMap (makeBackendContainerBuilder gh side pe name img (architectComponentLabels ''backend''))], True, None)" for img ps
    by (simp add: scr_nestedSlice_def architectDeploymentSpec_def Let_def)
  have replicas: "nestedInt64 E (GMap (?spec img ps)) [''replicas''] = nestedInt64 E (GMap (?spec img' ps')) [''replicas'']"
    for img img'
    by (rule int) (simp add: architectDeploymentSpec_def Let_def)
  have equal: "deploymentsEqual E (?spec img ps) (?spec img' ps') \<longleftrightarrow> img' = img" for img img'
    unfolding deploymentsEqual_def slice containers replicas [of img img']
    by (auto simp: containersEqual_def makeBackendContainerBuilder_def entry_def)
  have written: "walk (u_Object (withSpec m (setOwnerReference E p (withVersionOf u (withLabels l (newUnstr g ns nm)))))) [''spec''] = Some (GMap m)"
    for m l g ns nm
    by (simp add: withSpec_def setOwnerReference_def withVersionOf_def withLabels_def newUnstr_def)
  show ?thesis
    unfolding updateArchitectDeployment_def Let_def
    by (intro spec_intros) (auto simp: stored equal written simp del: walk.simps)
qed

text \<open>A route of the Architect leads to its service by name, but to the port \<^verbatim>\<open>http\<close>, which the service has exactly where it does not
  serve TLS. The service of the backend always serves TLS, so the route of the interface names a port that is missing.
  Nested fields are written as documented.\<close>

theorem api_route_misses_port:
  assumes set: "\<And>v x fs. setNestedField E v x fs = scr_setNestedField v x fs"
  shows "let route = architectRoute E routeName routeCfg name; svc = architectService E name port labels (servesTLS name) in
     walk (u_Object route) [''spec'', ''to'', ''name''] = Some (GStr name) \<and> u_Name svc = name \<and>
     (strOrEmpty (walk (u_Object route) [''spec'', ''port'', ''targetPort'']) \<in> set (namesOf ''name'' (walk (u_Object svc) [''spec'', ''ports''])) \<longleftrightarrow>
        \<not> servesTLS name) \<and>
     servesTLS (architectResourceName E' p ''airgap-architect-backend'')"
proof -
  have contains: "strContains (a @ p) p" for a p
    by (induction a) (cases p; auto simp: hasPrefix_iff)+
  have "servesTLS (architectResourceName E' p ''airgap-architect-backend'')"
    using contains [of "''mo-'' @ m_Name (dp_ObjectMeta p) @ ''-''" "''airgap-architect-backend''"]
      contains [of "''mo-'' @ take 8 (sha256Hex E' (m_Name (dp_ObjectMeta p))) @ ''-''" "''airgap-architect-backend''"]
    by (simp add: servesTLS_def architectResourceName_def Let_def)
  moreover have "walk (u_Object (architectRoute E routeName routeCfg name)) [''spec'', ''to'', ''name''] = Some (GStr name)"
      "walk (u_Object (architectRoute E routeName routeCfg name)) [''spec'', ''port'', ''targetPort''] = Some (GStr ''http'')"
    by (simp_all add: architectRoute_def setField_def set Let_def newUnstr_def withLabels_def onObject_def)
  moreover have "walk (u_Object (architectService E name port labels tls)) [''spec'', ''ports''] = Some (GList [GMap
      [''name'' \<mapsto> GStr (if tls then ''https'' else ''http''), ''port'' \<mapsto> GInt port, ''protocol'' \<mapsto> GStr ''TCP'', ''targetPort'' \<mapsto> GInt port]])"
      "u_Name (architectService E name port labels tls) = name" for tls
    by (simp_all add: architectService_def setField_def set Let_def newUnstr_def withLabels_def onObject_def)
  ultimately show ?thesis
    by (simp add: Let_def namesOf_def strOrEmpty_def)
qed

lemma sample_fields:
  "nestedSlice samplePlatformEnv = scr_nestedSlice" "nestedMap samplePlatformEnv = scr_nestedMap"
  "setNestedField samplePlatformEnv = scr_setNestedField" "nestedInt64 samplePlatformEnv v fs = (0, False, None)"
  by (simp_all add: samplePlatformEnv_def scriptedPlatform_def scripted_def cryptoEnv.defs env.defs platformEnv.defs)

lemma call_scriptedPlatform_Nil [scripted_simps]:
  "run_state (call (scriptedPlatform enc dec ord) q) \<lparr>world = [], trace = t\<rparr> =
     (Inl (GoErr NotFound ''not found''), \<lparr>world = [], trace = t @ [(q, Inl (GoErr NotFound ''not found''))]\<rparr>)"
  by (simp add: call_def scriptedPlatform_def cryptoEnv.defs env.defs platformEnv.defs scripted_def)

theorem api_route_misses_port_witness:
  "strOrEmpty (walk (u_Object (architectRoute samplePlatformEnv ''airgap-architect-api'' None ''mo-p-airgap-architect-backend''))
       [''spec'', ''port'', ''targetPort'']) \<notin>
     set (namesOf ''name'' (walk (u_Object (architectService samplePlatformEnv ''mo-p-airgap-architect-backend'' 4000 Map.empty
       (servesTLS ''mo-p-airgap-architect-backend''))) [''spec'', ''ports'']))"
proof -
  have "servesTLS ''mo-p-airgap-architect-backend''" by code_simp
  moreover have "setNestedField samplePlatformEnv v x fs = scr_setNestedField v x fs" for v x fs by (simp add: sample_fields)
  ultimately show ?thesis
    using api_route_misses_port [where E = samplePlatformEnv and routeName = "''airgap-architect-api''" and routeCfg = None
        and name = "''mo-p-airgap-architect-backend''" and port = 4000 and labels = Map.empty]
    by (simp only: Let_def simp_thms) blast
qed

theorem deployment_update_by_image_witness:
  "let B = makeBackendContainerBuilder [] ''connected'' []; labels = architectComponentLabels ''backend'';
       u = withSpec (architectDeploymentSpec ''b'' ''image'' 1 labels ''old'' B) (newUnstr deploymentGVK architectNamespace ''b'')
   in writes (trace (snd (run_state (updateArchitectDeployment samplePlatformEnv architectPlatform ''b'' ''image'' 1 labels ''new'' B)
        (start [Inr [OUnstr u]])))) = []"
proof -
  let ?B = "makeBackendContainerBuilder [] ''connected'' []" and ?l = "architectComponentLabels ''backend''"
  let ?u = "withSpec (architectDeploymentSpec ''b'' ''image'' 1 ?l ''old'' ?B) (newUnstr deploymentGVK architectNamespace ''b'')"
  let ?run = "run_state (updateArchitectDeployment samplePlatformEnv architectPlatform ''b'' ''image'' 1 ?l ''new'' ?B) (start [Inr [OUnstr ?u]])"
  have stored: "nestedMap samplePlatformEnv (u_Object ?u) [''spec''] = (architectDeploymentSpec ''b'' ''image'' 1 ?l ''old'' ?B, True, None)"
    by (simp add: sample_fields scr_nestedMap_def withSpec_def newUnstr_def)
  have "\<exists>rest. trace (snd ?run) = (RGet (KUnstr deploymentGVK) (architectNamespace, ''b''), Inr [OUnstr ?u]) # rest"
    unfolding updateArchitectDeployment_def
    by (simp add: samplePlatformEnv_def scripted_simps stored [unfolded samplePlatformEnv_def] split_beta Let_def)
  then show ?thesis
    using spec_run [OF deployment_update_by_image [OF _ _ stored, where p = architectPlatform and img' = "''image''" and ps' = "''new''"],
        of "start [Inr [OUnstr ?u]]"]
    by (auto simp: sample_fields start_def Let_def)
qed

end
