(* ===== verification/Quay.thy ===== *)
theory Quay
  imports Architect "HOL-Library.Sublist"
begin

text \<open>
  The managed Quay registry, from \<^verbatim>\<open>disconnectedplatform_controller.go\<close> and \<^verbatim>\<open>disconnectedplatform_airgapped.go\<close>: where its storage comes
  from, the configuration bundle, the configuration of Clair, the repair of the components of an existing registry, the
  certificate and the route, and the two reconciliations (connected and airgapped).
\<close>

section \<open>Errors that are logged\<close>

text \<open>An error that is logged and forgotten; a panic is not an error and goes on.\<close>

definition logged :: "goerr option \<Rightarrow> goerr option" where
  "logged e = (case e of None \<Rightarrow> None | Some e \<Rightarrow> if isPanic e then Some e else None)"

definition logError :: "('w, goerr option) go \<Rightarrow> ('w, goerr option) go" where
  "logError m = do { e \<leftarrow> m; return (logged e) }"

section \<open>Storage\<close>

record resolvedS3Credentials =
  s3_Hostname :: string
  s3_Port :: int
  s3_IsSecure :: bool
  s3_Bucket :: string
  s3_AccessKey :: string
  s3_SecretKey :: string

text \<open>Port 443 and TLS, unless the text is another number.\<close>

definition portOf :: "string \<Rightarrow> int \<times> bool" where
  "portOf s = (case atoi s of None \<Rightarrow> (443, True) | Some p \<Rightarrow> (p, p = 443))"

definition splitEndpoint :: "string \<Rightarrow> string \<times> int \<times> bool" where
  "splitEndpoint endpoint =
     (case splitByte (CHR '':'') endpoint of
        [h] \<Rightarrow> (endpoint, 443, True)
      | [h, p] \<Rightarrow> (h, portOf p)
      | h # _ \<Rightarrow> (h, 443, True)
      | [] \<Rightarrow> (endpoint, 443, True))"

definition explicitCredentials :: "quayStorageConfig \<Rightarrow> resolvedS3Credentials" where
  "explicitCredentials storage =
     (let (hostname, port, isSecure) = splitEndpoint (qst_S3Endpoint storage) in
      \<lparr>s3_Hostname = hostname, s3_Port = port, s3_IsSecure = isSecure, s3_Bucket = qst_S3Bucket storage,
       s3_AccessKey = qst_S3AccessKey storage, s3_SecretKey = qst_S3SecretKey storage\<rparr>)"

definition objectBucketGVK :: gvk where
  "objectBucketGVK = \<lparr>g_Group = ''objectbucket.io'', g_Version = ''v1alpha1'', g_Kind = ''ObjectBucketClaim''\<rparr>"

definition bucketClaim :: "string \<Rightarrow> unstr" where
  "bucketClaim name = withSpec [''generateBucketName'' \<mapsto> GStr name, ''storageClassName'' \<mapsto> GStr ''openshift-storage.noobaa.io'']
     (newUnstr objectBucketGVK architectNamespace name)"

text \<open>Creating a bucket claim that the platform owns.\<close>

definition createBucketClaim ::
  "('w, 'x) platformEnv_scheme \<Rightarrow> disconnectedPlatform \<Rightarrow> string \<Rightarrow> string \<Rightarrow> string \<Rightarrow> ('w, goerr option) go" where
  "createBucketClaim E platform name ownMsg createMsg =
     (case setControllerReference E (dp_ObjectMeta platform) (u_Meta (bucketClaim name)) of
        Inl err \<Rightarrow> return (Some (wrap ownMsg err))
      | Inr m \<Rightarrow> do {
          c \<leftarrow> Create E OUnstr theUnstr ((bucketClaim name)\<lparr>u_Meta := m\<rparr>);
          return (map_option (wrap createMsg) (errOf c)) })"

definition bucketCredentials :: "configMap \<Rightarrow> secret \<Rightarrow> resolvedS3Credentials" where
  "bucketCredentials cm s =
     (let hostname = cmGet cm ''BUCKET_HOST'';
          (port, isSecure) = portOf (cmGet cm ''BUCKET_PORT'');
          hostname = (if hostname = ''s3.openshift-storage.svc'' then ''s3.openshift-storage.svc.cluster.local'' else hostname)
      in \<lparr>s3_Hostname = hostname, s3_Port = port, s3_IsSecure = isSecure, s3_Bucket = cmGet cm ''BUCKET_NAME'',
          s3_AccessKey = secGet s ''AWS_ACCESS_KEY_ID'', s3_SecretKey = secGet s ''AWS_SECRET_ACCESS_KEY''\<rparr>)"

definition reconcileQuayOBC ::
  "('w, 'x) platformEnv_scheme \<Rightarrow> disconnectedPlatform \<Rightarrow> ('w, resolvedS3Credentials option res) go" where
  "reconcileQuayOBC E platform = do {
     existing \<leftarrow> Get E (KUnstr objectBucketGVK) theUnstr (architectNamespace, ''quay-storage'');
     case existing of
       Inl err \<Rightarrow>
         if isNotFound err then do {
           err \<leftarrow> createBucketClaim E platform ''quay-storage'' ''failed to set owner reference on Quay OBC''
             ''failed to create Quay storage OBC'';
           return (case err of Some err \<Rightarrow> Inl err | None \<Rightarrow> Inr None) }
         else return (Inl (wrap ''failed to get Quay storage OBC'' err))
     | Inr _ \<Rightarrow> do {
         cm \<leftarrow> Get E KConfigMap theConfigMap (architectNamespace, ''quay-storage'');
         case cm of
           Inl _ \<Rightarrow> return (Inr None)
         | Inr cm \<Rightarrow> do {
             s \<leftarrow> Get E KSecret theSecret (architectNamespace, ''quay-storage'');
             return (case s of Inl _ \<Rightarrow> Inr None | Inr s \<Rightarrow> Inr (Some (bucketCredentials cm s))) } } }"

definition resolveQuayS3Credentials ::
  "('w, 'x) platformEnv_scheme \<Rightarrow> disconnectedPlatform \<Rightarrow> quayStorageConfig \<Rightarrow> ('w, resolvedS3Credentials option res) go" where
  "resolveQuayS3Credentials E platform storage =
     (if qst_S3AccessKey storage \<noteq> [] \<or> qst_S3SecretKey storage \<noteq> [] \<or> qst_S3Bucket storage \<noteq> [] \<or> qst_S3Endpoint storage \<noteq> []
      then return (Inr (Some (explicitCredentials storage)))
      else reconcileQuayOBC E platform)"

definition reconcileArtifactsBucket :: "('w, 'x) platformEnv_scheme \<Rightarrow> disconnectedPlatform \<Rightarrow> ('w, goerr option) go" where
  "reconcileArtifactsBucket E platform = do {
     existing \<leftarrow> Get E (KUnstr objectBucketGVK) theUnstr (architectNamespace, ''collection-artifacts'');
     case existing of
       Inr _ \<Rightarrow> return None
     | Inl err \<Rightarrow>
         if \<not> isNotFound err then return (Some (wrap ''failed to get ObjectBucketClaim'' err))
         else createBucketClaim E platform ''collection-artifacts'' ''failed to set owner reference on OBC''
           ''failed to create ObjectBucketClaim'' }"

text \<open>A key that \<^verbatim>\<open>syncS3ConfigToSecret\<close> adds where its value differs, with the flag \<^verbatim>\<open>needsUpdate\<close>.\<close>

fun syncKey :: "string \<Rightarrow> string \<Rightarrow> strmap \<times> bool \<Rightarrow> strmap \<times> bool" where
  "syncKey k v (m, needsUpdate) = (if v \<noteq> [] \<and> mapGet m k \<noteq> v then (m(k \<mapsto> v), True) else (m, needsUpdate))"

definition externalEndpoint :: "('w, 'x) env_scheme \<Rightarrow> configMap \<Rightarrow> ('w, string) go" where
  "externalEndpoint E cm =
     (if cmGet cm ''BUCKET_HOST'' = ''s3.openshift-storage.svc'' then do {
        route \<leftarrow> Get E (KUnstr openshiftRouteGVK) theUnstr (''openshift-storage'', ''s3'');
        return (case route of
            Inl _ \<Rightarrow> []
          | Inr route \<Rightarrow>
              let (host, found, _) = nestedString E (u_Object route) [''spec'', ''host''] in
              if found \<and> host \<noteq> [] then ''https://'' @ host else []) }
      else return [])"

definition syncS3ConfigToSecret :: "('w, 'x) env_scheme \<Rightarrow> ('w, goerr option) go" where
  "syncS3ConfigToSecret E = do {
     cm \<leftarrow> Get E KConfigMap theConfigMap (architectNamespace, ''collection-artifacts'');
     case cm of
       Inl err \<Rightarrow> return (if isNotFound err then None else Some (wrap ''failed to get collection-artifacts ConfigMap'' err))
     | Inr cm \<Rightarrow> do {
         secret \<leftarrow> Get E KSecret theSecret (architectNamespace, ''collection-artifacts'');
         case secret of
           Inl err \<Rightarrow> return (if isNotFound err then None else Some (wrap ''failed to get collection-artifacts Secret'' err))
         | Inr secret \<Rightarrow> do {
             let old = (case sec_Data secret of None \<Rightarrow> Map.empty | Some m \<Rightarrow> m);
             s3Endpoint \<leftarrow> externalEndpoint E cm;
             let region = orElse (cmGet cm ''BUCKET_REGION'') ''us-east-1'';
             let (new, needsUpdate) = syncKey ''AWS_REGION'' region
               (syncKey ''S3_ENDPOINT'' s3Endpoint (syncKey ''S3_BUCKET'' (cmGet cm ''BUCKET_NAME'') (old, False)));
             if needsUpdate then do {
               u \<leftarrow> Update E OSecret theSecret (secret\<lparr>sec_Data := Some new\<rparr>);
               return (map_option (wrap ''failed to update collection-artifacts Secret'') (errOf u)) }
             else return None } } }"

section \<open>The configuration bundle\<close>

definition opaqueType :: string where "opaqueType = ''Opaque''"

definition apiVersionOf :: "gvk \<Rightarrow> string" where
  "apiVersionOf g = (if g_Group g = [] then g_Version g else g_Group g @ ''/'' @ g_Version g)"

text \<open>The registry as the owner of a secret, where the server gave it an identity.\<close>

definition ownedByRegistry :: "unstr \<Rightarrow> secret \<Rightarrow> secret" where
  "ownedByRegistry q s =
     (if m_UID (u_Meta q) \<noteq> [] then s\<lparr>sec_Meta := (sec_Meta s)\<lparr>m_OwnerReferences :=
        [\<lparr>or_APIVersion = apiVersionOf (u_GVK q), or_Kind = g_Kind (u_GVK q), or_Name = u_Name q, or_UID = m_UID (u_Meta q),
          or_Controller = True\<rparr>]\<rparr>\<rparr> else s)"

definition bundleName :: "unstr \<Rightarrow> string" where
  "bundleName q = u_Name q @ ''-config-bundle''"

definition dataSecret :: "string \<Rightarrow> string \<Rightarrow> strmap \<Rightarrow> secret" where
  "dataSecret ns name m = \<lparr>sec_Meta = emptyMeta\<lparr>m_Name := name, m_Namespace := ns\<rparr>, sec_Type = opaqueType, sec_Data = Some m,
     sec_StringData = None\<rparr>"

definition caBundleKey :: string where "caBundleKey = ''extra_ca_cert_cluster-ca.crt''"

definition ensureQuayCAInConfigBundle :: "('w, 'x) env_scheme \<Rightarrow> unstr \<Rightarrow> ('w, goerr option) go" where
  "ensureQuayCAInConfigBundle E q = do {
     caData \<leftarrow> getClusterCABundleData E;
     case caData of
       Inl _ \<Rightarrow> return None
     | Inr caData \<Rightarrow>
         if caData = [] then return None
         else do {
           existing \<leftarrow> Get E KSecret theSecret (u_Namespace q, bundleName q);
           case existing of
             Inr existing \<Rightarrow>
               if secGet existing caBundleKey = caData then return None
               else do {
                 let m = (case sec_Data existing of None \<Rightarrow> Map.empty | Some m \<Rightarrow> m);
                 u \<leftarrow> Update E OSecret theSecret (existing\<lparr>sec_Data := Some (m(caBundleKey \<mapsto> caData))\<rparr>);
                 return (errOf u) }
           | Inl err \<Rightarrow>
               if \<not> isNotFound err then return (Some err)
               else do {
                 c \<leftarrow> Create E OSecret theSecret
                       (ownedByRegistry q (dataSecret (u_Namespace q) (bundleName q) [caBundleKey \<mapsto> caData]));
                 return (errOf c) } } }"

definition getQuayTLSCertData :: "('w, 'x) env_scheme \<Rightarrow> ('w, (string \<times> string) res) go" where
  "getQuayTLSCertData E = do {
     tlsSecret \<leftarrow> Get E KSecret theSecret (architectNamespace, ''mirror-operator-quay-tls'');
     return (case tlsSecret of
         Inl err \<Rightarrow> Inl err
       | Inr s \<Rightarrow>
           if secGet s ''tls.crt'' = [] \<or> secGet s ''tls.key'' = []
           then Inl (errorf ''TLS secret mirror-operator-quay-tls missing tls.crt or tls.key'')
           else Inr (secGet s ''tls.crt'', secGet s ''tls.key'')) }"

definition quayStorageMap :: "resolvedS3Credentials \<Rightarrow> string \<Rightarrow> gomap" where
  "quayStorageMap creds serverHostname =
     (let m = [''DISTRIBUTED_STORAGE_CONFIG'' \<mapsto> GMap [''default'' \<mapsto> GList [GStr ''RadosGWStorage'', GMap
                 [''hostname'' \<mapsto> GStr (s3_Hostname creds), ''is_secure'' \<mapsto> GBool (s3_IsSecure creds), ''port'' \<mapsto> GInt (s3_Port creds),
                  ''bucket_name'' \<mapsto> GStr (s3_Bucket creds), ''access_key'' \<mapsto> GStr (s3_AccessKey creds),
                  ''secret_key'' \<mapsto> GStr (s3_SecretKey creds), ''storage_path'' \<mapsto> GStr ''/datastorage/registry'',
                  ''server_side_assembly'' \<mapsto> GBool False, ''maximum_chunk_size_mb'' \<mapsto> GInt 100]]],
              ''DISTRIBUTED_STORAGE_DEFAULT_LOCATIONS'' \<mapsto> GList [], ''DISTRIBUTED_STORAGE_PREFERENCE'' \<mapsto> GList [GStr ''default'']];
          m = (if serverHostname \<noteq> [] then m(''SERVER_HOSTNAME'' \<mapsto> GStr serverHostname, ''PREFERRED_URL_SCHEME'' \<mapsto> GStr ''https'') else m)
      in m(''FEATURE_PROXY_STORAGE'' \<mapsto> GBool True))"

definition createOrUpdateQuayS3ConfigSecret ::
  "('w, 'x) env_scheme \<Rightarrow> unstr \<Rightarrow> resolvedS3Credentials \<Rightarrow> string \<Rightarrow> ('w, goerr option) go" where
  "createOrUpdateQuayS3ConfigSecret E q creds serverHostname =
     (case yamlOfMap E (quayStorageMap creds serverHostname) of
        Inl err \<Rightarrow> return (Some (wrap ''failed to marshal Quay config'' err))
      | Inr configYAML \<Rightarrow> do {
          let m = [''config.yaml'' \<mapsto> configYAML];
          tls \<leftarrow> getQuayTLSCertData E;
          let m = (case tls of Inl _ \<Rightarrow> m | Inr (certPEM, keyPEM) \<Rightarrow> m(''ssl.cert'' \<mapsto> certPEM, ''ssl.key'' \<mapsto> keyPEM));
          ca \<leftarrow> getClusterCABundleData E;
          let m = (case ca of Inl _ \<Rightarrow> m | Inr caData \<Rightarrow> if caData \<noteq> [] then m(caBundleKey \<mapsto> caData) else m);
          existing \<leftarrow> Get E KSecret theSecret (u_Namespace q, bundleName q);
          case existing of
            Inr existing \<Rightarrow> do {
              u \<leftarrow> Update E OSecret theSecret (existing\<lparr>sec_Data := Some m\<rparr>);
              return (map_option (wrap ''failed to update Quay config bundle secret'') (errOf u)) }
          | Inl err \<Rightarrow>
              if \<not> isNotFound err then return (Some err)
              else do {
                c \<leftarrow> Create E OSecret theSecret (ownedByRegistry q (dataSecret (u_Namespace q) (bundleName q) m));
                return (errOf c) } })"

definition localStorageMap :: gomap where
  "localStorageMap =
     [''DISTRIBUTED_STORAGE_CONFIG'' \<mapsto> GMap [''default'' \<mapsto>
        GList [GStr ''LocalStorage'', GMap [''storage_path'' \<mapsto> GStr ''/datastorage/registry'']]],
      ''DISTRIBUTED_STORAGE_DEFAULT_LOCATIONS'' \<mapsto> GList [], ''DISTRIBUTED_STORAGE_PREFERENCE'' \<mapsto> GList [GStr ''default''],
      ''FEATURE_STORAGE_REPLICATION'' \<mapsto> GBool False, ''MAXIMUM_LAYER_SIZE'' \<mapsto> GStr ''20G'']"

text \<open>A failure to set the owner is logged; the secret is created without one.\<close>

definition createAirgappedQuayConfigSecret :: "('w, 'x) platformEnv_scheme \<Rightarrow> disconnectedPlatform \<Rightarrow> ('w, goerr option) go" where
  "createAirgappedQuayConfigSecret E platform = do {
     let name = ''mirror-operator-quay-config-bundle'';
     existing \<leftarrow> Get E KSecret theSecret (architectNamespace, name);
     case existing of
       Inr _ \<Rightarrow> return None
     | Inl err \<Rightarrow>
         if \<not> isNotFound err then return (Some err)
         else (case yamlOfMap E localStorageMap of
             Inl err \<Rightarrow> return (Some (wrap ''failed to marshal Quay config'' err))
           | Inr configYAML \<Rightarrow> do {
               let secret = dataSecret architectNamespace name [''config.yaml'' \<mapsto> configYAML];
               let secret = (case setControllerReference E (dp_ObjectMeta platform) (sec_Meta secret) of
                   Inl _ \<Rightarrow> secret | Inr m \<Rightarrow> secret\<lparr>sec_Meta := m\<rparr>);
               c \<leftarrow> Create E OSecret theSecret secret;
               return (errOf c) }) }"

section \<open>The configuration of Clair\<close>

text \<open>\<^verbatim>\<open>strings.Cut\<close> for a separator that is not empty, and the second element of \<^verbatim>\<open>strings.Split\<close>.\<close>

fun cutStr :: "string \<Rightarrow> string \<Rightarrow> (string \<times> string) option" where
  "cutStr sep [] = None"
| "cutStr sep (c # s) =
     (if hasPrefix (c # s) sep then Some ([], drop (length sep) (c # s))
      else map_option (\<lambda>(a, b). (c # a, b)) (cutStr sep s))"

definition secondPart :: "string \<Rightarrow> string \<Rightarrow> string option" where
  "secondPart sep s =
     map_option (\<lambda>(_, rest). case cutStr sep rest of None \<Rightarrow> rest | Some (a, _) \<Rightarrow> a) (cutStr sep s)"

definition extractValue :: "string \<Rightarrow> string \<Rightarrow> string" where
  "extractValue cfg key =
     (case find (\<lambda>line. strContains line (key @ '':'') \<and> secondPart (key @ '':'') line \<noteq> None) (splitByte (CHR 0x0A) cfg) of
        None \<Rightarrow> []
      | Some line \<Rightarrow> (case secondPart (key @ '':'') line of None \<Rightarrow> [] | Some v \<Rightarrow> trimSpace v))"

definition extractPSKKey :: "string \<Rightarrow> string" where
  "extractPSKKey cfg =
     (case find (\<lambda>line. strContains line ''key:'') (splitByte (CHR 0x0A) cfg) of
        None \<Rightarrow> []
      | Some line \<Rightarrow> (case secondPart ''key:'' line of None \<Rightarrow> [] | Some v \<Rightarrow> trimSpace v))"

definition vexLines :: "string \<Rightarrow> string \<Rightarrow> string \<Rightarrow> string list" where
  "vexLines pskKey connString webhookTarget =
     [''auth:'', ''    psk:'', ''        iss:'', ''            - quay'', ''            - clairctl'', ''        key: '' @ pskKey,
      ''http_listen_addr: :8080'', ''indexer:'', ''    connstring: '' @ connString, ''    layer_scan_concurrency: 5'',
      ''    migrations: true'', ''    scanlock_retry: 10'', ''log_level: info'', ''matcher:'', ''    connstring: '' @ connString,
      ''    migrations: true'', ''metrics:'', ''    name: prometheus'', ''notifier:'', ''    connstring: '' @ connString,
      ''    delivery_interval: 1m0s'', ''    migrations: true'', ''    poll_interval: 5m0s'', ''    webhook:'',
      ''        callback: http://mirror-operator-quay-clair-app/notifier/api/v1/notifications'', ''        target: '' @ webhookTarget,
      ''updaters:'', ''    sets:'', ''        - rhcc'', ''    config:'', ''        rhcc:'',
      ''            url: https://access.redhat.com/security/data/csaf/v2/vex/'', ''            vex: true'']"

definition vexConfig :: "string \<Rightarrow> string" where
  "vexConfig clairConfig = unlines (vexLines (extractPSKKey clairConfig) (extractValue clairConfig ''connstring'') (extractValue clairConfig ''target''))"

text \<open>The secret of the volume \<^verbatim>\<open>config\<close> of a deployment: the first such volume that is a secret is read, the first such
  volume is written, which panics where it is no secret.\<close>

definition volumesOf :: "nativeObj \<Rightarrow> goval list" where
  "volumesOf dep = (case walk (n_Spec dep) [''template'', ''spec'', ''volumes''] of Some (GList l) \<Rightarrow> l | _ \<Rightarrow> [])"

definition secretOfVolume :: "goval \<Rightarrow> gomap option" where
  "secretOfVolume vol = asMap (orEmptyMap (asMap (Some vol)) ''secret'')"

definition volumeNamed :: "string \<Rightarrow> goval \<Rightarrow> bool" where
  "volumeNamed name vol \<longleftrightarrow> strOrEmpty (orEmptyMap (asMap (Some vol)) ''name'') = name"

definition configSecretOf :: "nativeObj \<Rightarrow> string" where
  "configSecretOf dep =
     (case find (\<lambda>vol. volumeNamed ''config'' vol \<and> secretOfVolume vol \<noteq> None) (volumesOf dep) of
        None \<Rightarrow> []
      | Some vol \<Rightarrow> strOrEmpty (orEmptyMap (secretOfVolume vol) ''secretName''))"

fun useSecret :: "string \<Rightarrow> goval list \<Rightarrow> goval list res" where
  "useSecret name [] = Inr []"
| "useSecret name (vol # vols) =
     (if volumeNamed ''config'' vol then
        (case (asMap (Some vol), secretOfVolume vol) of
           (Some v, Some s) \<Rightarrow> Inr (GMap (v(''secret'' \<mapsto> GMap (s(''secretName'' \<mapsto> GStr name)))) # vols)
         | _ \<Rightarrow> Inl (panic ''nil pointer dereference: Secret''))
      else (case useSecret name vols of Inl p \<Rightarrow> Inl p | Inr vols' \<Rightarrow> Inr (vol # vols')))"

definition onKey :: "string \<Rightarrow> (goval \<Rightarrow> goval) \<Rightarrow> goval \<Rightarrow> goval" where
  "onKey k f v = (case asMap (Some v) of
     None \<Rightarrow> v | Some m \<Rightarrow> GMap (m(k \<mapsto> f (case m k of None \<Rightarrow> GMap Map.empty | Some x \<Rightarrow> x))))"

definition setVolumes :: "goval list \<Rightarrow> nativeObj \<Rightarrow> nativeObj" where
  "setVolumes vols dep =
     dep\<lparr>n_Spec := onKey ''template'' (onKey ''spec'' (onKey ''volumes'' (\<lambda>_. GList vols))) (n_Spec dep)\<rparr>"

definition clairSecret :: "unstr \<Rightarrow> string \<Rightarrow> secret" where
  "clairSecret q cfg = ownedByRegistry q
     \<lparr>sec_Meta = emptyMeta\<lparr>m_Name := u_Name q @ ''-clair-vex-config'', m_Namespace := u_Namespace q\<rparr>, sec_Type = [], sec_Data = None,
      sec_StringData = Some [''config.yaml'' \<mapsto> cfg]\<rparr>"

definition writeClairSecret :: "('w, 'x) env_scheme \<Rightarrow> secret \<Rightarrow> ('w, goerr option) go" where
  "writeClairSecret E customSecret = do {
     c \<leftarrow> Create E OSecret theSecret customSecret;
     case c of
       Inr _ \<Rightarrow> return None
     | Inl err \<Rightarrow>
         if \<not> isAlreadyExists err then return (Some err)
         else do {
           existing \<leftarrow> Get E KSecret theSecret (m_Namespace (sec_Meta customSecret), m_Name (sec_Meta customSecret));
           case existing of
             Inl err \<Rightarrow> return (Some err)
           | Inr existing \<Rightarrow> do {
               u \<leftarrow> Update E OSecret theSecret (existing\<lparr>sec_StringData := sec_StringData customSecret\<rparr>);
               return (errOf u) } } }"

definition configureClairVEX :: "('w, 'x) env_scheme \<Rightarrow> unstr \<Rightarrow> ('w, goerr option) go" where
  "configureClairVEX E q = do {
     deployment \<leftarrow> Get E (KNative ''Deployment'') theNative (u_Namespace q, u_Name q @ ''-clair-app'');
     case deployment of
       Inl err \<Rightarrow> return (if isNotFound err then None else Some (wrap ''failed to get Clair deployment'' err))
     | Inr deployment \<Rightarrow>
         let currentConfigSecret = configSecretOf deployment; customName = u_Name q @ ''-clair-vex-config'' in
         if currentConfigSecret = [] then return (Some (errorf ''could not find config volume in Clair deployment''))
         else do {
           currentSecret \<leftarrow> Get E KSecret theSecret (u_Namespace q, currentConfigSecret);
           case currentSecret of
             Inl err \<Rightarrow> return (Some (wrap ''failed to get current Clair config secret'' err))
           | Inr currentSecret \<Rightarrow> do {
               err \<leftarrow> writeClairSecret E (clairSecret q (vexConfig (secGet currentSecret ''config.yaml'')));
               case err of
                 Some err \<Rightarrow> return (Some err)
               | None \<Rightarrow>
                   if currentConfigSecret = customName then return None
                   else (case useSecret customName (volumesOf deployment) of
                       Inl p \<Rightarrow> return (Some p)
                     | Inr vols \<Rightarrow> do {
                         u \<leftarrow> Update E ONative theNative (setVolumes vols deployment);
                         return (map_option (wrap ''failed to update Clair deployment with VEX config'') (errOf u)) }) } } }"

section \<open>The components of an existing registry\<close>

definition desiredEnvVars :: "gomap list" where
  "desiredEnvVars = [envEntry ''GUNICORN_CMD_ARGS'' ''--timeout 300'', envEntry ''WORKER_COUNT_REGISTRY'' ''2'']"

definition componentKind :: "('w, 'x) env_scheme \<Rightarrow> gomap \<Rightarrow> string" where
  "componentKind E c = fst (nestedString E (GMap c) [''kind''])"

definition missingEnvVars :: "goval list \<Rightarrow> gomap list" where
  "missingEnvVars envList =
     filter (\<lambda>d. \<not> list_ex (\<lambda>e. asStr (orEmptyMap (asMap (Some e)) ''name'') = asStr (d ''name'')) envList) desiredEnvVars"

text \<open>The loop over the components up to the first of kind \<^verbatim>\<open>quay\<close>: the changed components, \<open>None\<close> where nothing is missing. An
  override that is no map panics.\<close>

fun gunicornLoop :: "('w, 'x) env_scheme \<Rightarrow> goval list \<Rightarrow> goval list option res" where
  "gunicornLoop E [] = Inr None"
| "gunicornLoop E (item # comps) =
     (case asMap (Some item) of
        Some c \<Rightarrow>
          if componentKind E c \<noteq> ''quay'' then
            (case gunicornLoop E comps of Inl p \<Rightarrow> Inl p | Inr cs \<Rightarrow> Inr (map_option ((#) item) cs))
          else
            let (envList, _, _) = nestedSlice E (GMap c) [''overrides'', ''env'']; missing = missingEnvVars envList;
                put = (\<lambda>o'. Inr (Some (GMap (c(''overrides'' \<mapsto> GMap (o'(''env'' \<mapsto> GList (envList @ map GMap missing))))) # comps)))
            in if missing = [] then Inr None
               else (case c ''overrides'' of
                   None \<Rightarrow> put Map.empty
                 | Some GNil \<Rightarrow> put Map.empty
                 | Some (GMap o') \<Rightarrow> put o'
                 | Some _ \<Rightarrow> Inl (panic ''interface conversion: overrides''))
      | None \<Rightarrow> (case gunicornLoop E comps of Inl p \<Rightarrow> Inl p | Inr cs \<Rightarrow> Inr (map_option ((#) item) cs)))"

text \<open>Writing the components: the object is changed also where the update fails.\<close>

definition putComponents :: "('w, 'x) env_scheme \<Rightarrow> unstr \<Rightarrow> goval list \<Rightarrow> ('w, unstr \<times> goerr option) go" where
  "putComponents E q comps =
     (case setNestedField E (u_Object q) (GList comps) [''spec'', ''components''] of
        Inl err \<Rightarrow> return (q, Some err)
      | Inr obj \<Rightarrow> do {
          u \<leftarrow> Update E OUnstr theUnstr (q\<lparr>u_Object := obj\<rparr>);
          return (case u of Inl err \<Rightarrow> (q\<lparr>u_Object := obj\<rparr>, Some err) | Inr q' \<Rightarrow> (q', None)) })"

definition ensureQuayGunicornTimeout :: "('w, 'x) env_scheme \<Rightarrow> unstr \<Rightarrow> ('w, unstr \<times> goerr option) go" where
  "ensureQuayGunicornTimeout E q =
     (let (components, found, err) = nestedSlice E (u_Object q) [''spec'', ''components''] in
      if err \<noteq> None \<or> \<not> found then return (q, err)
      else (case gunicornLoop E components of
          Inl p \<Rightarrow> return (q, Some p)
        | Inr None \<Rightarrow> return (q, None)
        | Inr (Some comps) \<Rightarrow> putComponents E q comps))"

definition managedTLS :: "('w, 'x) platformEnv_scheme \<Rightarrow> goval \<Rightarrow> bool" where
  "managedTLS E item \<longleftrightarrow>
     (case asMap (Some item) of
        None \<Rightarrow> False
      | Some c \<Rightarrow> componentKind E c \<in> {''route'', ''tls''} \<and> fst (nestedBool E (GMap c) [''managed'']))"

definition unmanage :: "('w, 'x) platformEnv_scheme \<Rightarrow> goval \<Rightarrow> goval" where
  "unmanage E item =
     (if managedTLS E item then GMap ((orEmptyMap (asMap (Some item)))(''managed'' \<mapsto> GBool False)) else item)"

definition ensureQuayComponentsUnmanaged :: "('w, 'x) platformEnv_scheme \<Rightarrow> unstr \<Rightarrow> ('w, unstr \<times> goerr option) go" where
  "ensureQuayComponentsUnmanaged E q =
     (let (components, found, err) = nestedSlice E (u_Object q) [''spec'', ''components''] in
      if err \<noteq> None \<or> \<not> found then return (q, err)
      else if \<not> list_ex (managedTLS E) components then return (q, None)
      else putComponents E q (map (unmanage E) components))"

section \<open>Certificate, route and load balancer\<close>

definition certificateGVK :: gvk where
  "certificateGVK = \<lparr>g_Group = ''cert-manager.io'', g_Version = ''v1'', g_Kind = ''Certificate''\<rparr>"

definition certificateSpec :: "string \<Rightarrow> string \<Rightarrow> string \<Rightarrow> string \<Rightarrow> gomap" where
  "certificateSpec secretName issuerName issuerKind hostname =
     [''secretName'' \<mapsto> GStr secretName, ''issuerRef'' \<mapsto> GMap [''name'' \<mapsto> GStr issuerName, ''kind'' \<mapsto> GStr issuerKind],
      ''dnsNames'' \<mapsto> GList [GStr hostname], ''duration'' \<mapsto> GStr ''8760h'', ''renewBefore'' \<mapsto> GStr ''720h'']"

definition ensureQuayTLSCertificate ::
  "('w, 'x) env_scheme \<Rightarrow> disconnectedPlatform \<Rightarrow> string \<Rightarrow> ('w, goerr option) go" where
  "ensureQuayTLSCertificate E platform hostname =
     (case dps_Connected (dp_Spec platform) \<bind> con_CertIssuer of
        None \<Rightarrow> return (Some (errorf ''spec.connected.certIssuer must be specified for Quay TLS passthrough''))
      | Some issuer \<Rightarrow>
          createMissing E (KUnstr certificateGVK) OUnstr theUnstr (architectNamespace, ''quay-certificate'')
            ''failed to create Quay TLS certificate''
            (withSpec (certificateSpec ''mirror-operator-quay-tls'' (cir_Name issuer) (orElse (cir_Kind issuer) ''ClusterIssuer'') hostname)
              (newUnstr certificateGVK architectNamespace ''quay-certificate'')))"

definition getClusterIngressDomain :: "('w, 'x) env_scheme \<Rightarrow> ('w, string res) go" where
  "getClusterIngressDomain E = do {
     ingress \<leftarrow> Get E (KUnstr (configGVK ''Ingress'')) theUnstr ([], ''cluster'');
     return (case ingress of
         Inl err \<Rightarrow> Inl (wrap ''failed to get cluster ingress config'' err)
       | Inr ingress \<Rightarrow>
           let (domain, found, err) = nestedString E (u_Object ingress) [''spec'', ''domain''] in
           if err \<noteq> None \<or> \<not> found \<or> domain = [] then Inl (errorf ''cluster ingress domain not found'') else Inr domain) }"

definition passthroughRoute :: "('w, 'x) env_scheme \<Rightarrow> unstr \<Rightarrow> string \<Rightarrow> unstr" where
  "passthroughRoute E q hostname =
     foldl (\<lambda>route (v, fs). onObject (setField E v fs) route)
       (withLabels [''app.kubernetes.io/name'' \<mapsto> ''quay-registry'', ''app.kubernetes.io/part-of'' \<mapsto> ''mirror-operator'',
          ''app.kubernetes.io/managed-by'' \<mapsto> ''mirror-operator''] (newUnstr routeGVK (u_Namespace q) (u_Name q @ ''-quay'')))
       [(GStr hostname, [''spec'', ''host'']), (GStr ''Service'', [''spec'', ''to'', ''kind'']),
        (GStr (u_Name q @ ''-quay-app''), [''spec'', ''to'', ''name'']), (GInt 100, [''spec'', ''to'', ''weight'']),
        (GStr ''https'', [''spec'', ''port'', ''targetPort'']), (GStr ''passthrough'', [''spec'', ''tls'', ''termination''])]"

definition createPassthroughRoute ::
  "('w, 'x) platformEnv_scheme \<Rightarrow> disconnectedPlatform \<Rightarrow> unstr \<Rightarrow> ('w, goerr option) go" where
  "createPassthroughRoute E platform q = do {
     domain \<leftarrow> getClusterIngressDomain E;
     case domain of
       Inl err \<Rightarrow> return (Some err)
     | Inr domain \<Rightarrow> do {
         c \<leftarrow> Create E OUnstr theUnstr
               (setOwnerReference E platform (passthroughRoute E q (u_Name q @ ''-quay'' @ ''-'' @ u_Namespace q @ ''.'' @ domain)));
         return (map_option (wrap ''failed to create Quay passthrough route'') (errOf c)) } }"

definition ensureQuayPassthroughRoute ::
  "('w, 'x) platformEnv_scheme \<Rightarrow> disconnectedPlatform \<Rightarrow> unstr \<Rightarrow> ('w, goerr option) go" where
  "ensureQuayPassthroughRoute E platform q = do {
     route \<leftarrow> Get E (KUnstr routeGVK) theUnstr (u_Namespace q, u_Name q @ ''-quay'');
     case route of
       Inr route \<Rightarrow>
         if fst (nestedString E (u_Object route) [''spec'', ''tls'', ''termination'']) = ''passthrough'' then return None
         else do {
           d \<leftarrow> Delete E (KUnstr routeGVK) (u_Namespace route, u_Name route);
           case d of
             Inl err \<Rightarrow> return (Some (wrap ''failed to delete existing Quay route'' err))
           | Inr _ \<Rightarrow> createPassthroughRoute E platform q }
     | Inl err \<Rightarrow> if \<not> isNotFound err then return (Some err) else createPassthroughRoute E platform q }"

definition ingressControllerGVK :: gvk where
  "ingressControllerGVK = \<lparr>g_Group = ''operator.openshift.io'', g_Version = ''v1'', g_Kind = ''IngressController''\<rparr>"

definition loadBalancerPath :: "string list" where
  "loadBalancerPath = [''spec'', ''endpointPublishingStrategy'', ''loadBalancer'']"

definition idleTimeoutPath :: "string list" where
  "idleTimeoutPath = loadBalancerPath @ [''providerParameters'', ''aws'', ''classicLoadBalancer'', ''connectionIdleTimeout'']"

text \<open>The fields that validation asks for are written back as they were, or with their default.\<close>

definition ensureAWSLoadBalancerTimeout :: "('w, 'x) env_scheme \<Rightarrow> ('w, goerr option) go" where
  "ensureAWSLoadBalancerTimeout E = do {
     infra \<leftarrow> Get E (KUnstr (configGVK ''Infrastructure'')) theUnstr ([], ''cluster'');
     case infra of
       Inl err \<Rightarrow> return (Some (wrap ''failed to get Infrastructure'' err))
     | Inr infra \<Rightarrow>
         if fst (nestedString E (u_Object infra) [''status'', ''platformStatus'', ''type'']) \<noteq> ''AWS'' then return None
         else do {
           ic \<leftarrow> Get E (KUnstr ingressControllerGVK) theUnstr (''openshift-ingress-operator'', ''default'');
           case ic of
             Inl err \<Rightarrow> return (Some (wrap ''failed to get IngressController'' err))
           | Inr ic \<Rightarrow>
               let read = (\<lambda>fs. fst (nestedString E (u_Object ic) fs));
                   typeOf = [''spec'', ''endpointPublishingStrategy'', ''type''];
                   params = loadBalancerPath @ [''providerParameters''];
                   scope = orElse (read (loadBalancerPath @ [''scope''])) ''External'';
                   awsType = orElse (read (params @ [''aws'', ''type''])) ''Classic'';
                   epsType = orElse (read typeOf) ''LoadBalancerService''
               in if read idleTimeoutPath = ''5m0s'' then return None
                  else do {
                    u \<leftarrow> Update E OUnstr theUnstr (foldl (\<lambda>ic (v, fs). onObject (setField E (GStr v) fs) ic) ic
                      [(epsType, typeOf), (scope, loadBalancerPath @ [''scope'']), (''AWS'', params @ [''type'']),
                       (awsType, params @ [''aws'', ''type'']), (''5m0s'', idleTimeoutPath)]);
                    return (errOf u) } } }"

section \<open>The connected registry\<close>

definition setMirrorRegistry :: "string \<Rightarrow> disconnectedPlatform \<Rightarrow> disconnectedPlatform" where
  "setMirrorRegistry url platform =
     platform\<lparr>dp_Spec := (dp_Spec platform)\<lparr>dps_Connected :=
       map_option (\<lambda>c. c\<lparr>con_MirrorRegistry := url\<rparr>) (dps_Connected (dp_Spec platform))\<rparr>\<rparr>"

text \<open>The address of the registry is written to the platform as it is read again, which panics where it has no connected block
  any more.\<close>

definition recordMirrorRegistry ::
  "('w, 'x) env_scheme \<Rightarrow> disconnectedPlatform \<Rightarrow> string \<Rightarrow> ('w, goerr option) go" where
  "recordMirrorRegistry E platform newRegistry = do {
     latest \<leftarrow> Get E KPlatform thePlatform (m_Namespace (dp_ObjectMeta platform), m_Name (dp_ObjectMeta platform));
     case latest of
       Inl err \<Rightarrow> return (Some (wrap ''failed to refetch platform for mirrorRegistry update'' err))
     | Inr latest \<Rightarrow>
         if dps_Connected (dp_Spec latest) = None then return (Some (panic ''nil pointer dereference: Connected''))
         else do {
           u \<leftarrow> Update E OPlatform thePlatform (setMirrorRegistry newRegistry latest);
           return (map_option (wrap ''failed to update mirrorRegistry'') (errOf u)) } }"

definition useS3 :: "managedQuayConfig \<Rightarrow> quayStorageConfig option" where
  "useS3 managed = (case mq_Storage managed of None \<Rightarrow> None | Some s \<Rightarrow> if qst_Type s = ''s3'' then Some s else None)"

definition vexOnly :: "clairConfig option \<Rightarrow> bool" where
  "vexOnly clair \<longleftrightarrow> (case clair of None \<Rightarrow> False | Some c \<Rightarrow> clair_UseRedHatVEXOnly c)"

definition derivedHostname :: "unstr \<Rightarrow> string \<Rightarrow> string" where
  "derivedHostname q domain = u_Name q @ ''-quay-'' @ u_Namespace q @ ''.'' @ domain"

text \<open>The steps on a registry that exists: the bundle, then, after the address was recorded, certificate, route, components and
  Clair. Only the errors of the storage and of Clair end the reconciliation.\<close>

definition ensureBundle ::
  "('w, 'x) platformEnv_scheme \<Rightarrow> disconnectedPlatform \<Rightarrow> managedQuayConfig \<Rightarrow> unstr \<Rightarrow> string \<Rightarrow> ('w, goerr option) go" where
  "ensureBundle E platform managed q hostname =
     (case useS3 managed of
        Some storage \<Rightarrow> do {
          creds \<leftarrow> resolveQuayS3Credentials E platform storage;
          case creds of
            Inl err \<Rightarrow> return (Some (wrap ''failed to resolve Quay S3 credentials'' err))
          | Inr None \<Rightarrow> return None
          | Inr (Some creds) \<Rightarrow> logError (createOrUpdateQuayS3ConfigSecret E q creds hostname) }
      | None \<Rightarrow> logError (ensureQuayCAInConfigBundle E q))"

definition ensurePassthrough ::
  "('w, 'x) platformEnv_scheme \<Rightarrow> disconnectedPlatform \<Rightarrow> managedQuayConfig \<Rightarrow> unstr \<Rightarrow> string \<Rightarrow> ('w, goerr option) go" where
  "ensurePassthrough E platform managed q hostname = do {
     domain \<leftarrow> (if hostname = [] then getClusterIngressDomain E else return (Inl (errorf ''not asked'')));
     let passthroughHostname = (if hostname \<noteq> [] then hostname else (case domain of Inl _ \<Rightarrow> [] | Inr d \<Rightarrow> derivedHostname q d));
     _ \<leftarrow> (if passthroughHostname \<noteq> [] then ensureQuayTLSCertificate E platform passthroughHostname else return None);
     _ \<leftarrow> ensureQuayPassthroughRoute E platform q;
     (q, _) \<leftarrow> ensureQuayComponentsUnmanaged E q;
     (q, err) \<leftarrow> ensureQuayGunicornTimeout E q;
     case logged err of
       Some p \<Rightarrow> return (Some p)
     | None \<Rightarrow> if vexOnly (mq_Clair managed) then configureClairVEX E q else return None }"

definition updateManagedQuay ::
  "('w, 'x) platformEnv_scheme \<Rightarrow> disconnectedPlatform \<Rightarrow> connectedConfig \<Rightarrow> managedQuayConfig \<Rightarrow> unstr \<Rightarrow>
     ('w, disconnectedPlatform \<times> goerr option) go" where
  "updateManagedQuay E platform con managed q = do {
     hostname \<leftarrow> getQuayHostname E q;
     case hostname of
       Inl err \<Rightarrow> return (platform, Some err)
     | Inr hostname \<Rightarrow> do {
         err \<leftarrow> ensureBundle E platform managed q hostname;
         case err of
           Some err \<Rightarrow> return (platform, Some err)
         | None \<Rightarrow>
             let newRegistry = hostname @ ''/mirror''; stale = (hostname \<noteq> [] \<and> con_MirrorRegistry con \<noteq> newRegistry) in do {
             err \<leftarrow> (if stale then recordMirrorRegistry E platform newRegistry else return None);
             case err of
               Some err \<Rightarrow> return (platform, Some err)
             | None \<Rightarrow> do {
                 let platform = (if stale then setMirrorRegistry newRegistry platform else platform);
                 err \<leftarrow> ensurePassthrough E platform managed q hostname;
                 return (platform, err) } } } }"

definition newManagedQuay :: "('w, 'x) env_scheme \<Rightarrow> goval list \<Rightarrow> string \<Rightarrow> unstr res" where
  "newManagedQuay E components bundle =
     (let q = newUnstr quayRegistryGVK architectNamespace ''mirror-operator-quay'' in
      case setNestedField E (u_Object q) (GList components) [''spec'', ''components''] of
        Inl err \<Rightarrow> Inl (wrap ''failed to set QuayRegistry components'' err)
      | Inr obj \<Rightarrow>
          (case setNestedField E obj (GStr bundle) [''spec'', ''configBundleSecret''] of
             Inl err \<Rightarrow> Inl (wrap ''failed to set configBundleSecret'' err)
           | Inr obj \<Rightarrow> Inr (q\<lparr>u_Object := obj\<rparr>)))"

definition finishManagedQuay ::
  "('w, 'x) platformEnv_scheme \<Rightarrow> disconnectedPlatform \<Rightarrow> managedQuayConfig \<Rightarrow> resolvedS3Credentials option \<Rightarrow> unstr \<Rightarrow>
     ('w, goerr option) go" where
  "finishManagedQuay E platform managed creds q = do {
     domain \<leftarrow> getClusterIngressDomain E;
     let hostname = (case domain of Inl _ \<Rightarrow> [] | Inr d \<Rightarrow> derivedHostname q d);
     _ \<leftarrow> (case domain of Inl _ \<Rightarrow> return None | Inr _ \<Rightarrow> ensureQuayTLSCertificate E platform hostname);
     c \<leftarrow> Create E OUnstr theUnstr q;
     case c of
       Inl err \<Rightarrow> return (Some (wrap ''failed to create QuayRegistry'' err))
     | Inr q \<Rightarrow>
         untilError
           [logError (case creds of Some creds \<Rightarrow> createOrUpdateQuayS3ConfigSecret E q creds hostname | None \<Rightarrow> ensureQuayCAInConfigBundle E q),
            logError (ensureQuayPassthroughRoute E platform q),
            logError (if vexOnly (mq_Clair managed) then configureClairVEX E q else return None)] }"

definition createManagedQuay ::
  "('w, 'x) platformEnv_scheme \<Rightarrow> disconnectedPlatform \<Rightarrow> managedQuayConfig \<Rightarrow> ('w, goerr option) go" where
  "createManagedQuay E platform managed = do {
     creds \<leftarrow> (case useS3 managed of Some storage \<Rightarrow> resolveQuayS3Credentials E platform storage | None \<Rightarrow> return (Inr None));
     case creds of
       Inl err \<Rightarrow> return (Some (wrap ''failed to resolve Quay S3 credentials'' err))
     | Inr creds \<Rightarrow>
         if useS3 managed \<noteq> None \<and> creds = None then return None
         else do {
           replicaOverride \<leftarrow> resolveQuayReplicaOverride E (mq_Replicas managed);
           case newManagedQuay E (buildQuayComponents replicaOverride (useS3 managed = None) False False) ''mirror-operator-quay-config-bundle'' of
             Inl err \<Rightarrow> return (Some err)
           | Inr q \<Rightarrow> finishManagedQuay E platform managed creds q } }"

definition reconcileQuayConfig ::
  "('w, 'x) platformEnv_scheme \<Rightarrow> disconnectedPlatform \<Rightarrow> ('w, disconnectedPlatform \<times> goerr option) go" where
  "reconcileQuayConfig E platform =
     (case dps_Connected (dp_Spec platform) of
        None \<Rightarrow> return (platform, None)
      | Some con \<Rightarrow>
          (case con_Quay con of
             None \<Rightarrow> return (platform, None)
           | Some quayConfig \<Rightarrow>
               if quay_ExternalURL quayConfig \<noteq> [] then return (setMirrorRegistry (quay_ExternalURL quayConfig) platform, None)
               else (case quay_Managed quayConfig of
                   None \<Rightarrow> return (platform, None)
                 | Some managed \<Rightarrow>
                     if \<not> mq_Enabled managed then return (platform, None)
                     else do {
                       q \<leftarrow> getQuayRegistry E;
                       case q of
                         Inr q \<Rightarrow> updateManagedQuay E platform con managed q
                       | Inl err \<Rightarrow>
                           if \<not> isNotFound err then return (platform, Some err)
                           else do { err \<leftarrow> createManagedQuay E platform managed; return (platform, err) } })))"

section \<open>The airgapped registry\<close>

definition setAirgappedRegistry :: "string \<Rightarrow> disconnectedPlatform \<Rightarrow> disconnectedPlatform" where
  "setAirgappedRegistry url platform =
     platform\<lparr>dp_Spec := (dp_Spec platform)\<lparr>dps_Airgapped :=
       map_option (\<lambda>a. a\<lparr>ag_MirrorRegistry := url\<rparr>) (dps_Airgapped (dp_Spec platform))\<rparr>\<rparr>"

definition recordAirgappedRegistry ::
  "('w, 'x) env_scheme \<Rightarrow> disconnectedPlatform \<Rightarrow> string \<Rightarrow> ('w, goerr option) go" where
  "recordAirgappedRegistry E platform newRegistry = do {
     latest \<leftarrow> Get E KPlatform thePlatform (m_Namespace (dp_ObjectMeta platform), m_Name (dp_ObjectMeta platform));
     case latest of
       Inl err \<Rightarrow> return (Some (wrap ''failed to refetch platform for mirrorRegistry update'' err))
     | Inr latest \<Rightarrow>
         if dps_Airgapped (dp_Spec latest) = None then return (Some (panic ''nil pointer dereference: Airgapped''))
         else do {
           u \<leftarrow> Update E OPlatform thePlatform (setAirgappedRegistry newRegistry latest);
           return (map_option (wrap ''failed to update mirrorRegistry'') (errOf u)) } }"

definition quayComponent :: componentStatus where
  "quayComponent = \<lparr>cst_Name = ''quay-registry'', cst_Status = ''Running'', cst_Kind = ''QuayRegistry'', cst_APIGroup = ''quay.redhat.com'',
     cst_Namespace = architectNamespace, cst_URL = [], cst_LastCheck = None\<rparr>"

definition updateAirgappedQuay ::
  "('w, 'x) platformEnv_scheme \<Rightarrow> disconnectedPlatform \<Rightarrow> airgappedConfig \<Rightarrow> airgappedQuayConfig \<Rightarrow> unstr \<Rightarrow>
     ('w, disconnectedPlatform \<times> goerr option) go" where
  "updateAirgappedQuay E platform ag quayConfig q = do {
     hostname \<leftarrow> getQuayHostname E q;
     case hostname of
       Inl err \<Rightarrow> return (platform, Some err)
     | Inr hostname \<Rightarrow>
         let newRegistry = hostname @ ''/'' @ orElse (aq_OrganizationName quayConfig) ''mirror'';
             stale = (hostname \<noteq> [] \<and> ag_MirrorRegistry ag \<noteq> newRegistry) in do {
         err \<leftarrow> (if stale then recordAirgappedRegistry E platform newRegistry else return None);
         case err of
           Some err \<Rightarrow> return (platform, Some err)
         | None \<Rightarrow> do {
             let platform = (if stale then setAirgappedRegistry newRegistry platform else platform);
             err \<leftarrow> logError (if vexOnly (aq_Clair quayConfig) then configureClairVEX E q else return None);
             case err of
               Some p \<Rightarrow> return (platform, Some p)
             | None \<Rightarrow> do {
                 (q, err) \<leftarrow> ensureQuayGunicornTimeout E q;
                 case logged err of
                   Some p \<Rightarrow> return (platform, Some p)
                 | None \<Rightarrow> return (appendComponents [quayComponent] platform, None) } } } }"

definition reconcileAirgappedQuay ::
  "('w, 'x) platformEnv_scheme \<Rightarrow> disconnectedPlatform \<Rightarrow> airgappedConfig \<Rightarrow> ('w, disconnectedPlatform \<times> goerr option) go" where
  "reconcileAirgappedQuay E platform ag =
     (case ag_Quay ag of
        None \<Rightarrow> return (platform, None)
      | Some quayConfig \<Rightarrow>
          if \<not> aq_Enabled quayConfig then return (platform, None)
          else do {
            q \<leftarrow> getQuayRegistry E;
            case q of
              Inr q \<Rightarrow> updateAirgappedQuay E platform ag quayConfig q
            | Inl err \<Rightarrow>
                if \<not> isNotFound err then return (platform, Some err)
                else do {
                  err \<leftarrow> createAirgappedQuayConfigSecret E platform;
                  case err of
                    Some err \<Rightarrow> return (platform, Some (wrap ''failed to create airgapped Quay config secret'' err))
                  | None \<Rightarrow> do {
                      replicaOverride \<leftarrow> resolveQuayReplicaOverride E (aq_Replicas quayConfig);
                      case newManagedQuay E (buildQuayComponents replicaOverride False True True) ''mirror-operator-quay-config-bundle'' of
                        Inl err \<Rightarrow> return (platform, Some err)
                      | Inr q \<Rightarrow> do {
                          c \<leftarrow> Create E OUnstr theUnstr q;
                          return (platform, map_option (wrap ''failed to create airgapped QuayRegistry'') (errOf c)) } } } })"

end
