(* ===== verification/QuayProps.thy ===== *)
theory QuayProps
  imports Quay
begin

text \<open>
  What holds of the managed Quay registry: the configuration of Clair is a fixpoint of its own extraction, the repairs of the
  components settle, the platform is written only to record the address of the registry.
\<close>

section \<open>Texts\<close>

lemma strContains_sublist: "strContains s p \<longleftrightarrow> sublist p s"
  by (induction s) (auto simp: sublist_Cons_right hasPrefix_iff prefix_def)

lemma sublist_across: "x \<notin> set p \<Longrightarrow> p \<noteq> [] \<Longrightarrow> sublist p (a @ x # s) \<longleftrightarrow> sublist p a \<or> sublist p s"
proof (induction a)
  case Nil
  then show ?case by (auto simp: sublist_Cons_right prefix_Cons)
next
  case (Cons y a)
  have "prefix p ((y # a) @ x # s) \<longleftrightarrow> prefix p (y # a)" if "x \<notin> set p"
    using that by (auto simp: prefix_append simp del: append_Cons) (auto simp: prefix_Cons)
  with Cons show ?case by (auto simp: sublist_Cons_right)
qed

lemma cutStr_None: "sep \<noteq> [] \<Longrightarrow> cutStr sep s = None \<longleftrightarrow> \<not> sublist sep s"
  by (induction s) (auto simp: sublist_Cons_right hasPrefix_iff prefix_def)

lemma cutStr_Some: "sep \<noteq> [] \<Longrightarrow> cutStr sep s = Some (a, b) \<Longrightarrow> s = a @ sep @ b \<and> \<not> sublist sep a"
proof (induction s arbitrary: a)
  case (Cons c s)
  show ?case
  proof (cases "hasPrefix (c # s) sep")
    case True
    with Cons.prems show ?thesis by (auto simp: hasPrefix_iff)
  next
    case False
    with Cons.prems obtain a' where a: "a = c # a'" "cutStr sep s = Some (a', b)" by auto
    with Cons.IH [OF Cons.prems(1) a(2)] have s: "s = a' @ sep @ b" "\<not> sublist sep a'" by simp_all
    have "\<not> prefix sep (c # a')"
    proof
      assume "prefix sep (c # a')"
      then obtain zs where "c # a' = sep @ zs" by (auto simp: prefix_def)
      then have "c # s = sep @ zs @ sep @ b" unfolding s by (metis append_Cons append_assoc)
      with False show False by (auto simp: hasPrefix_iff)
    qed
    with s a(1) show ?thesis by (simp add: sublist_Cons_right)
  qed
qed simp

lemma secondPart_Some:
  assumes "sep \<noteq> []" "secondPart sep s = Some v"
  shows "\<not> sublist sep v" "set v \<subseteq> set s"
proof -
  from assms(2) obtain a rest where s: "cutStr sep s = Some (a, rest)" and v: "v = (case cutStr sep rest of None \<Rightarrow> rest | Some (a, _) \<Rightarrow> a)"
    by (auto simp: secondPart_def)
  from cutStr_Some [OF assms(1) s] have "set rest \<subseteq> set s" by auto
  moreover have "\<not> sublist sep v \<and> set v \<subseteq> set rest"
    using cutStr_None [OF assms(1), of rest] cutStr_Some [OF assms(1), of rest]
    by (cases "cutStr sep rest") (auto simp: v)
  ultimately show "\<not> sublist sep v" "set v \<subseteq> set s" by auto
qed

lemma secondPart_None: "sep \<noteq> [] \<Longrightarrow> secondPart sep s = None \<longleftrightarrow> \<not> strContains s sep"
  by (auto simp: secondPart_def strContains_sublist cutStr_None)

lemma splitByte_unlines:
  "list_all (\<lambda>l. CHR 0x0A \<notin> set l) ls \<Longrightarrow> splitByte (CHR 0x0A) (unlines ls) = ls @ [[]]"
proof (induction ls)
  case (Cons l ls)
  then have "splitByte (CHR 0x0A) (l @ CHR 0x0A # unlines ls) = l # splitByte (CHR 0x0A) (unlines ls)"
    by (simp add: splitByte_append splitByte_id)
  with Cons show ?case by (simp add: unlines_def)
qed (simp add: unlines_def)

section \<open>Trimmed texts\<close>

definition trimmed :: "string \<Rightarrow> bool" where
  "trimmed s \<longleftrightarrow> (\<forall>w \<in> set whiteSpaces. \<not> prefix w s \<and> \<not> suffix w s)"

lemma whiteSpace_Nil [simp]: "[] \<notin> set whiteSpaces"
  by (auto dest: whiteSpaces_nonempty)

lemma hasPrefix_prefix: "hasPrefix s p \<longleftrightarrow> prefix p s" and hasSuffix_suffix: "hasSuffix s p \<longleftrightarrow> suffix p s"
  by (auto simp: hasPrefix_iff prefix_def hasSuffix_iff suffix_def)

lemma trimRight_props: "prefix (trimRight s) s \<and> (\<forall>w \<in> set whiteSpaces. \<not> suffix w (trimRight s))"
proof (induction s rule: trimRight.induct)
  case (1 s)
  have step: "trimRight s = (if s = [] then [] else case find (hasSuffix s) whiteSpaces of None \<Rightarrow> s
     | Some w \<Rightarrow> trimRight (take (length s - length w) s))" by (rule trimRight.simps)
  show ?case
  proof (cases "find (hasSuffix s) whiteSpaces")
    case None
    then have "\<forall>w \<in> set whiteSpaces. \<not> suffix w s" by (auto simp: find_None_iff hasSuffix_suffix)
    with None show ?thesis unfolding step by (auto simp: prefix_def)
  next
    case (Some w)
    show ?thesis
    proof (cases "s = []")
      case True
      then show ?thesis unfolding step by auto
    next
      case False
      with 1 [OF False Some] Some show ?thesis unfolding step by (auto intro: prefix_order.trans take_is_prefix)
    qed
  qed
qed

lemma trimLeft_props: "suffix (trimLeft s) s \<and> (\<forall>w \<in> set whiteSpaces. \<not> prefix w (trimLeft s))"
proof (induction s rule: trimLeft.induct)
  case (1 s)
  have step: "trimLeft s = (if s = [] then [] else case find (hasPrefix s) whiteSpaces of None \<Rightarrow> s
     | Some w \<Rightarrow> trimLeft (drop (length w) s))" by (rule trimLeft.simps)
  show ?case
  proof (cases "find (hasPrefix s) whiteSpaces")
    case None
    then have "\<forall>w \<in> set whiteSpaces. \<not> prefix w s" by (auto simp: find_None_iff hasPrefix_prefix)
    with None show ?thesis unfolding step by (auto simp: suffix_def)
  next
    case (Some w)
    show ?thesis
    proof (cases "s = []")
      case True
      then show ?thesis unfolding step by auto
    next
      case False
      with 1 [OF False Some] Some show ?thesis unfolding step by (auto intro: suffix_order.trans suffix_drop)
    qed
  qed
qed

lemma trimmed_trimSpace: "trimmed (trimSpace s)" and trimSpace_sublist: "sublist (trimSpace s) s"
proof -
  have "suffix (trimSpace s) (trimRight s)" "prefix (trimRight s) s"
    using trimLeft_props trimRight_props by (auto simp: trimSpace_def)
  then show "sublist (trimSpace s) s" by (auto simp: suffix_def prefix_def sublist_def) (metis append_assoc)
  show "trimmed (trimSpace s)"
    using trimLeft_props [of "trimRight s"] trimRight_props [of s]
    by (auto simp: trimmed_def trimSpace_def dest: suffix_order.trans)
qed

lemma trimSpace_blank: "trimmed s \<Longrightarrow> trimSpace (CHR '' '' # s) = s"
proof (cases "s = []")
  case True
  have "trimSpace '' '' = []" by code_simp
  with True show ?thesis by simp
next
  case False
  assume s: "trimmed s"
  have blank: "w = [CHR '' '']" if "w \<in> set whiteSpaces" "prefix w (CHR '' '' # r) \<or> w = CHR '' '' # r" for w r
    using that by (auto simp: whiteSpaces_def)
  have "find (hasSuffix (CHR '' '' # s)) whiteSpaces = None"
    using s False blank by (auto simp: find_None_iff hasSuffix_suffix trimmed_def suffix_Cons)
  then have right: "trimRight (CHR '' '' # s) = CHR '' '' # s" by (subst trimRight.simps) simp
  have "find (hasPrefix s) whiteSpaces = None"
    using s by (auto simp: trimmed_def hasPrefix_prefix find_None_iff)
  then have "trimLeft s = s" by (subst trimLeft.simps) simp
  moreover have "find (hasPrefix (CHR '' '' # s)) whiteSpaces = Some '' ''"
    by (simp add: whiteSpaces_def hasPrefix_def)
  then have "trimLeft (CHR '' '' # s) = trimLeft s" by (subst trimLeft.simps) simp
  ultimately show ?thesis by (simp add: trimSpace_def right)
qed

section \<open>The configuration of Clair\<close>

lemma extractValue_find:
  "extractValue cfg key = (case find (\<lambda>line. strContains line (key @ '':'')) (splitByte (CHR 0x0A) cfg) of
     None \<Rightarrow> [] | Some line \<Rightarrow> (case secondPart (key @ '':'') line of None \<Rightarrow> [] | Some v \<Rightarrow> trimSpace v))"
proof -
  have "(\<lambda>line. strContains line (key @ '':'') \<and> secondPart (key @ '':'') line \<noteq> None) = (\<lambda>line. strContains line (key @ '':''))"
    by (auto simp: strContains_sublist secondPart_def cutStr_None fun_eq_iff simp del: not_None_eq)
  then show ?thesis by (simp only: extractValue_def)
qed

lemma extractPSKKey_value: "extractPSKKey cfg = extractValue cfg ''key''"
proof -
  have "''key'' @ '':'' = ''key:''" by simp
  then show ?thesis by (simp only: extractValue_find extractPSKKey_def)
qed

lemma extracted: "\<not> strContains (extractValue cfg key) (key @ '':'') \<and> CHR 0x0A \<notin> set (extractValue cfg key) \<and> trimmed (extractValue cfg key)"
proof (cases "find (\<lambda>line. strContains line (key @ '':'')) (splitByte (CHR 0x0A) cfg)")
  case None
  have "trimmed []" by (auto simp: trimmed_def)
  with None show ?thesis by (simp add: extractValue_find)
next
  case (Some line)
  then have line: "line \<in> set (splitByte (CHR 0x0A) cfg)" and "strContains line (key @ '':'')" by (auto simp: find_Some_iff)
  then obtain v where v: "secondPart (key @ '':'') line = Some v"
    using secondPart_None [of "key @ '':''" line] by auto
  have val: "extractValue cfg key = trimSpace v" unfolding extractValue_find by (simp only: Some v option.case)
  have "sublist (trimSpace v) v" by (rule trimSpace_sublist)
  moreover note secondPart_Some [OF _ v] splitByte_no_sep [OF line] trimmed_trimSpace [of v]
  ultimately show ?thesis
    unfolding val strContains_sublist by (auto dest: sublist_order.order.trans set_mono_sublist)
qed

text \<open>A line of the template that ends with a value is found through the value only where the value itself has the marker.\<close>

lemma value_line: "CHR '' '' \<notin> set p \<Longrightarrow> p \<noteq> [] \<Longrightarrow> strContains (a @ CHR '' '' # v) p \<longleftrightarrow> strContains a p \<or> strContains v p"
  unfolding strContains_sublist by (rule sublist_across)

lemma extract_line:
  assumes found: "find (\<lambda>line. strContains line (key @ '':'')) (splitByte (CHR 0x0A) cfg) = Some line"
    and cut: "cutStr (key @ '':'') line = Some (a, CHR '' '' # v)"
    and v: "trimmed v" "\<not> strContains v (key @ '':'')" and key: "CHR '' '' \<notin> set key"
  shows "extractValue cfg key = v"
proof -
  have "cutStr (key @ '':'') (CHR '' '' # v) = None"
    using v(2) key sublist_across [of "CHR '' ''" "key @ '':''" "[]" v] cutStr_None [of "key @ '':''" "CHR '' '' # v"]
    by (simp add: strContains_sublist del: cutStr.simps)
  then show ?thesis
    unfolding extractValue_find by (simp only: found secondPart_def cut option.case option.map prod.case trimSpace_blank [OF v(1)])
qed

text \<open>The values that the template takes from a configuration do not have its later markers.\<close>

definition plainValues :: "string \<Rightarrow> bool" where
  "plainValues cfg \<longleftrightarrow> \<not> strContains (extractPSKKey cfg) ''connstring:'' \<and> \<not> strContains (extractPSKKey cfg) ''target:'' \<and>
     \<not> strContains (extractValue cfg ''connstring'') ''target:''"


definition sampleClairConfig :: string where
  "sampleClairConfig = unlines [''key: abc'', ''connstring: db'', ''target: url'']"


section \<open>The components of the registry\<close>

text \<open>The flags and the variables of one list of components: repairing them once is enough, where nested fields are read as
  documented.\<close>

lemma missing_none: "missingEnvVars (envs @ map GMap (missingEnvVars envs)) = []"
proof -
  have "\<exists>e \<in> set (envs @ map GMap (missingEnvVars envs)). asStr (orEmptyMap (asMap (Some e)) ''name'') = asStr (d ''name'')"
    if "d \<in> set desiredEnvVars" for d
    using that by (cases "d \<in> set (missingEnvVars envs)") (auto simp: missingEnvVars_def list_ex_iff intro: bexI [of _ "GMap d"])
  then show ?thesis by (auto simp: missingEnvVars_def [of "envs @ _"] filter_empty_conv list_ex_iff)
qed

lemma unmanage_kind: "orEmptyMap (asMap (Some (unmanage E c))) ''kind'' = orEmptyMap (asMap (Some c)) ''kind''"
  by (simp add: unmanage_def)

lemma gunicorn_settles:
  assumes doc: "nestedString E = scr_nestedString" "nestedSlice E = scr_nestedSlice"
  shows "gunicornLoop E cs = Inr (Some cs') \<Longrightarrow> gunicornLoop E cs' = Inr None"
proof (induction cs arbitrary: cs')
  case (Cons item cs)
  show ?case
  proof (cases "\<exists>c. asMap (Some item) = Some c \<and> componentKind E c = ''quay''")
    case False
    with Cons.prems obtain cs1 where "cs' = item # cs1" "gunicornLoop E cs = Inr (Some cs1)"
      by (auto split: option.splits sum.splits if_splits)
    with Cons.IH False show ?thesis by (auto split: option.splits)
  next
    case True
    then obtain c where c: "asMap (Some item) = Some c" "componentKind E c = ''quay''" by blast
    obtain envs f e where envs: "nestedSlice E (GMap c) [''overrides'', ''env''] = (envs, f, e)" by (metis surj_pair)
    from Cons.prems c envs obtain o' where
      cs': "cs' = GMap (c(''overrides'' \<mapsto> GMap (o'(''env'' \<mapsto> GList (envs @ map GMap (missingEnvVars envs)))))) # cs"
      by (auto simp: Let_def split: if_splits option.splits goval.splits)
    have "componentKind E (c(''overrides'' \<mapsto> x)) = ''quay''" for x
      using c(2) by (simp add: componentKind_def doc scr_nestedString_def)
    then show ?thesis
      unfolding cs' by (simp add: doc scr_nestedSlice_def missing_none)
  qed
qed simp

definition settled :: "('w, 'x) platformEnv_scheme \<Rightarrow> unstr \<Rightarrow> bool" where
  "settled E q \<longleftrightarrow>
     (let (components, found, err) = nestedSlice E (u_Object q) [''spec'', ''components''] in
      err = None \<and> (found \<longrightarrow> \<not> list_ex (managedTLS E) components \<and> gunicornLoop E components = Inr None))"

lemma settled_quiet:
  "settled E q \<Longrightarrow> run_state (ensureQuayComponentsUnmanaged E q) s = ((q, None), s) \<and> run_state (ensureQuayGunicornTimeout E q) s = ((q, None), s)"
  by (auto simp: settled_def ensureQuayComponentsUnmanaged_def ensureQuayGunicornTimeout_def split: prod.splits)

text \<open>The server keeps the components that it is given.\<close>

definition keepsComponents :: "('w, 'x) env_scheme \<Rightarrow> event list \<Rightarrow> bool" where
  "keepsComponents E es \<longleftrightarrow> (\<forall>u u'. (RUpdate (OUnstr u), Inr [OUnstr u']) \<in> set es \<longrightarrow>
     nestedSlice E (u_Object u') [''spec'', ''components''] = nestedSlice E (u_Object u) [''spec'', ''components''])"

lemma keepsComponents_append [simp]: "keepsComponents E (es @ es') \<longleftrightarrow> keepsComponents E es \<and> keepsComponents E es'"
  by (auto simp: keepsComponents_def)

definition holdsOf :: "('w, 'x) env_scheme \<Rightarrow> (goval list \<Rightarrow> bool) \<Rightarrow> unstr \<Rightarrow> bool" where
  "holdsOf E P q \<longleftrightarrow> (let (cs, found, err) = nestedSlice E (u_Object q) [''spec'', ''components''] in err = None \<and> (found \<longrightarrow> P cs))"

lemma settled_holdsOf: "settled E q \<longleftrightarrow> holdsOf E (\<lambda>cs. \<not> list_ex (managedTLS E) cs \<and> gunicornLoop E cs = Inr None) q"
  by (simp add: settled_def holdsOf_def)

lemma spec_putComponents:
  assumes doc: "nestedSlice E = scr_nestedSlice" "setNestedField E = scr_setNestedField" and P: "P cs"
  shows "spec (putComponents E q cs) (\<lambda>es (q', err). err = None \<and> keepsComponents E es \<longrightarrow> holdsOf E P q')"
proof -
  have "scr_nestedSlice obj [''spec'', ''components''] = (cs, True, None)"
    if "scr_setNestedField (u_Object q) (GList cs) [''spec'', ''components''] = Inr obj" for obj
    using that by (rule scr_read_after_write)
  with P show ?thesis
    unfolding putComponents_def
    by (intro spec_intros) (auto simp: doc holdsOf_def keepsComponents_def simp del: scr_setNestedField.simps split: sum.splits)
qed

text \<open>Nested fields are read and written as documented.\<close>

definition documentedFields :: "('w, 'x) platformEnv_scheme \<Rightarrow> bool" where
  "documentedFields E \<longleftrightarrow> nestedString E = scr_nestedString \<and> nestedSlice E = scr_nestedSlice \<and> setNestedField E = scr_setNestedField \<and>
     (\<forall>v fs b. walk v fs = Some (GBool b) \<longrightarrow> nestedBool E v fs = (b, True, None)) \<and>
     (\<forall>v w fs. walk v fs = walk w fs \<longrightarrow> nestedBool E v fs = nestedBool E w fs)"

lemma unmanaged: "documentedFields E \<Longrightarrow> \<not> managedTLS E (unmanage E c)"
  by (auto simp: unmanage_def managedTLS_def documentedFields_def)

lemma walk_beside: "walk (GMap (c(''overrides'' \<mapsto> x))) [''managed''] = walk (GMap c) [''managed'']"
  by simp

lemma gunicorn_keeps_managed:
  assumes doc: "documentedFields E"
  shows "gunicornLoop E cs = Inr (Some cs') \<Longrightarrow> list_ex (managedTLS E) cs' = list_ex (managedTLS E) cs"
proof (induction cs arbitrary: cs')
  case (Cons item cs)
  have same: "managedTLS E (GMap (c(''overrides'' \<mapsto> x))) = managedTLS E item" if "asMap (Some item) = Some c" for c x
  proof -
    have "nestedBool E (GMap (c(''overrides'' \<mapsto> x))) [''managed''] = nestedBool E (GMap c) [''managed'']"
      using doc walk_beside unfolding documentedFields_def by blast
    moreover have "nestedString E = scr_nestedString" using doc by (simp add: documentedFields_def)
    ultimately show ?thesis using that by (simp add: managedTLS_def componentKind_def scr_nestedString_def)
  qed
  show ?case
  proof (cases "\<exists>c. asMap (Some item) = Some c \<and> componentKind E c = ''quay''")
    case False
    with Cons.prems obtain cs1 where "cs' = item # cs1" "gunicornLoop E cs = Inr (Some cs1)"
      by (auto split: option.splits sum.splits if_splits)
    with Cons.IH show ?thesis by simp
  next
    case True
    then obtain c where "asMap (Some item) = Some c" "componentKind E c = ''quay''" by blast
    with Cons.prems obtain x where "cs' = GMap (c(''overrides'' \<mapsto> x)) # cs"
      by (auto simp: Let_def split: if_splits option.splits goval.splits prod.splits)
    with same [OF \<open>asMap (Some item) = Some c\<close>] show ?thesis by simp
  qed
qed simp

text \<open>C30. The repairs of an existing registry settle: once both ran without an error, and the server kept the components that they
  wrote, nothing is left to repair, so both leave the registry alone, whenever they run again.\<close>

theorem quay_repairs_settle:
  assumes doc: "documentedFields E"
  shows "spec (do { (q, e1) \<leftarrow> ensureQuayComponentsUnmanaged E q; (q, e2) \<leftarrow> ensureQuayGunicornTimeout E q; return (q, e1, e2) })
    (\<lambda>es (q', e1, e2). e1 = None \<and> e2 = None \<and> keepsComponents E es \<longrightarrow>
       (\<forall>s. run_state (ensureQuayComponentsUnmanaged E q') s = ((q', None), s) \<and> run_state (ensureQuayGunicornTimeout E q') s = ((q', None), s)))"
proof -
  have fields: "nestedString E = scr_nestedString" "nestedSlice E = scr_nestedSlice" "setNestedField E = scr_setNestedField"
    using doc by (simp_all add: documentedFields_def)
  let ?off = "\<lambda>cs. \<not> list_ex (managedTLS E) cs"
  have off: "?off (map (unmanage E) cs)" for cs
    using unmanaged [OF doc] by (auto simp: list_ex_iff)
  have one: "spec (ensureQuayComponentsUnmanaged E q) (\<lambda>es (q', err). err = None \<and> keepsComponents E es \<longrightarrow> holdsOf E ?off q')"
    unfolding ensureQuayComponentsUnmanaged_def
    by (intro spec_intros spec_putComponents [where P = ?off, OF fields(2,3) off]) (auto simp: holdsOf_def)
  have two: "spec (ensureQuayGunicornTimeout E q1) (\<lambda>es (q', err). err = None \<and> keepsComponents E es \<longrightarrow> settled E q')"
    if "holdsOf E ?off q1" for q1
    using that gunicorn_settles [OF fields(1,2)] gunicorn_keeps_managed [OF doc]
    unfolding ensureQuayGunicornTimeout_def settled_holdsOf
    by (intro spec_intros spec_putComponents [where P = "\<lambda>cs. ?off cs \<and> gunicornLoop E cs = Inr None", OF fields(2,3)])
      (auto simp: holdsOf_def)
  have any: "spec (ensureQuayGunicornTimeout E q1) (\<lambda>_ _. True)" for q1
    unfolding ensureQuayGunicornTimeout_def putComponents_def by (intro spec_intros) simp_all
  show ?thesis
  proof (rule spec_bindI [OF one], goal_cases)
    case (1 es x)
    obtain q1 e1 where x: "x = (q1, e1)" by (cases x)
    show ?case
    proof (cases "e1 = None \<and> keepsComponents E es")
      case True
      with 1 x have "holdsOf E ?off q1" by simp
      then show ?thesis
        unfolding x prod.case by (intro spec_bindI [OF two] spec_case_prod spec_returnI) (auto dest: settled_quiet)
    next
      case False
      then show ?thesis
        unfolding x prod.case by (intro spec_bindI [OF any] spec_case_prod spec_returnI) auto
    qed
  qed
qed

definition quayEnv :: "response list platformEnv" where
  "quayEnv = scriptedPlatform (\<lambda>_. Inl (errorf ''no json'')) (\<lambda>_. Inl (errorf ''no json'')) (\<lambda>_. [])"

lemma quayEnv_fields:
  "nestedString quayEnv = scr_nestedString" "nestedSlice quayEnv = scr_nestedSlice" "setNestedField quayEnv = scr_setNestedField"
  "nestedBool quayEnv v fs = (case walk v fs of Some (GBool b) \<Rightarrow> (b, True, None) | None \<Rightarrow> (False, False, None)
      | _ \<Rightarrow> (False, False, Some (errorf ''not a bool'')))"
  by (simp_all add: quayEnv_def scriptedPlatform_def scripted_def cryptoEnv.defs env.defs platformEnv.defs)

lemma quayEnv_documented: "documentedFields quayEnv"
  by (simp add: documentedFields_def quayEnv_fields)

text \<open>A registry as the operator creates it, with a managed route: both repairs write it, once.\<close>

definition sampleComponents :: "goval list" where
  "sampleComponents = [makeComponent None ''route'' True, makeComponent None ''quay'' True]"

definition registryWith :: "goval list \<Rightarrow> unstr" where
  "registryWith cs = withSpec [''components'' \<mapsto> GList cs] (newUnstr quayRegistryGVK architectNamespace ''mirror-operator-quay'')"

lemma run_repairs:
  assumes tls: "list_ex (managedTLS quayEnv) cs"
    and gunicorn: "gunicornLoop quayEnv (map (unmanage quayEnv) cs) = Inr (Some cs')"
  shows "run_state (do { (q, e1) \<leftarrow> ensureQuayComponentsUnmanaged quayEnv (registryWith cs); (q, e2) \<leftarrow> ensureQuayGunicornTimeout quayEnv q;
       return (q, e1, e2) }) (start [Inr [OUnstr (registryWith (map (unmanage quayEnv) cs))], Inr [OUnstr (registryWith cs')]]) =
     ((registryWith cs', None, None), \<lparr>world = [], trace = map (\<lambda>cs. (RUpdate (OUnstr (registryWith cs)), Inr [OUnstr (registryWith cs)]))
        [map (unmanage quayEnv) cs, cs']\<rparr>)"
proof -
  have read: "nestedSlice quayEnv (u_Object (registryWith cs)) [''spec'', ''components''] = (cs, True, None)"
    and put: "setNestedField quayEnv (u_Object (registryWith cs)) (GList cs') [''spec'', ''components''] = Inr (u_Object (registryWith cs'))"
    and same: "(registryWith cs)\<lparr>u_Object := u_Object (registryWith cs')\<rparr> = registryWith cs'" for cs cs'
    by (simp_all add: quayEnv_fields registryWith_def withSpec_def newUnstr_def scr_nestedSlice_def)
  have update: "run_state (Update quayEnv OUnstr theUnstr x) \<lparr>world = r # rs, trace = t\<rparr> =
      (decode1 theUnstr r, \<lparr>world = rs, trace = t @ [(RUpdate (OUnstr x), r)]\<rparr>)" for x r rs t
    by (simp add: quayEnv_def scripted_simps)
  show ?thesis
    by (simp add: ensureQuayComponentsUnmanaged_def ensureQuayGunicornTimeout_def putComponents_def start_def read put same update tls gunicorn)
qed

theorem quay_repairs_settle_witness:
  "\<exists>q' replies. fst (run_state (do { (q, e1) \<leftarrow> ensureQuayComponentsUnmanaged quayEnv (registryWith sampleComponents);
       (q, e2) \<leftarrow> ensureQuayGunicornTimeout quayEnv q; return (q, e1, e2) }) (start replies)) = (q', None, None) \<and>
     (\<forall>s. run_state (ensureQuayGunicornTimeout quayEnv q') s = ((q', None), s))"
proof -
  let ?cs = sampleComponents
  note doc = quayEnv_documented and eval = sampleComponents_def makeComponent_def managedTLS_def componentKind_def quayEnv_fields
    scr_nestedString_def scr_nestedSlice_def Let_def
  have tls: "list_ex (managedTLS quayEnv) ?cs" by (simp add: eval)
  have route: "asMap (Some (unmanage quayEnv (makeComponent None ''route'' True))) = Some [''kind'' \<mapsto> GStr ''route'', ''managed'' \<mapsto> GBool False]"
    by (simp add: eval unmanage_def)
  have quay: "unmanage quayEnv (makeComponent None ''quay'' True) = makeComponent None ''quay'' True"
    by (simp add: eval unmanage_def)
  have "\<exists>c'. gunicornLoop quayEnv [makeComponent None ''quay'' True] = Inr (Some c')"
    by (simp add: eval missingEnvVars_def desiredEnvVars_def envEntry_def)
  then obtain c' where "gunicornLoop quayEnv [makeComponent None ''quay'' True] = Inr (Some c')" ..
  with route have "gunicornLoop quayEnv (map (unmanage quayEnv) ?cs) =
      Inr (Some (unmanage quayEnv (makeComponent None ''route'' True) # c'))"
    by (simp add: gunicornLoop.simps(2) [of _ "unmanage _ _"] sampleComponents_def componentKind_def quayEnv_fields scr_nestedString_def
        quay del: gunicornLoop.simps)
  then obtain cs' where gunicorn: "gunicornLoop quayEnv (map (unmanage quayEnv) ?cs) = Inr (Some cs')" by blast
  note run = run_repairs [OF tls gunicorn]
  from spec_run [OF quay_repairs_settle [OF doc, of "registryWith ?cs"],
      of "start [Inr [OUnstr (registryWith (map (unmanage quayEnv) ?cs))], Inr [OUnstr (registryWith cs')]]"]
  have quiet: "\<forall>s. run_state (ensureQuayGunicornTimeout quayEnv (registryWith cs')) s = ((registryWith cs', None), s)"
    unfolding run by (auto simp: start_def keepsComponents_def)
  show ?thesis
    by (rule exI, rule exI, rule conjI, rule trans [OF arg_cong [where f = fst, OF run] fst_conv], rule quiet)
qed

section \<open>What the reconciliation writes\<close>

text \<open>The requests of the Quay reconciliation beside the one that records the address: nothing writes a platform or a status, and
  only routes are deleted.\<close>

definition quayRequest :: "request \<Rightarrow> bool" where
  "quayRequest q =
     (case q of
        RCreate x \<Rightarrow> thePlatform x = None
      | RUpdate x \<Rightarrow> thePlatform x = None
      | RStatusUpdate _ \<Rightarrow> False
      | RDelete k _ \<Rightarrow> k = KUnstr routeGVK
      | _ \<Rightarrow> True)"

lemma quayRequest_simps [simp]:
  "quayRequest (RGet k nn)" "quayRequest (RList k lo)" "quayRequest (RCreate (OUnstr u))" "quayRequest (RUpdate (OUnstr u))"
  "quayRequest (RCreate (OSecret s))" "quayRequest (RUpdate (OSecret s))" "quayRequest (RUpdate (ONative n))"
  "quayRequest (RDelete (KUnstr routeGVK) nn)"
  by (simp_all add: quayRequest_def)

lemma only_quay_logError [only_intros]: "only P m \<Longrightarrow> only P (logError m)"
  unfolding logError_def by (intro only_intros)

lemma only_untilError: "list_all (only P) ms \<Longrightarrow> only P (untilError ms)"
  by (induction ms) (auto intro!: only_intros)

lemma only_quay_reads [only_intros]:
  "only quayRequest (getClusterCABundleData E)" "only quayRequest (getQuayRegistry E)" "only quayRequest (getQuayHostname E q)"
  "only quayRequest (resolveQuayReplicaOverride E n)" "only quayRequest (getClusterIngressDomain E)" "only quayRequest (getQuayTLSCertData E)"
  unfolding getClusterCABundleData_def getQuayRegistry_def getQuayHostname_def resolveQuayReplicaOverride_def
    getClusterIngressDomain_def getQuayTLSCertData_def isSingleNodeOpenShift_def
  by (intro only_intros; simp)+

lemma only_quay_storage [only_intros]:
  "only quayRequest (resolveQuayS3Credentials E platform storage)"
  unfolding resolveQuayS3Credentials_def reconcileQuayOBC_def createBucketClaim_def
  by (intro only_intros; simp)+

lemma only_quay_bundle [only_intros]:
  "only quayRequest (ensureQuayCAInConfigBundle E q)" "only quayRequest (createOrUpdateQuayS3ConfigSecret E q creds hostname)"
  unfolding ensureQuayCAInConfigBundle_def createOrUpdateQuayS3ConfigSecret_def
  by (intro only_intros; simp)+

lemma only_quay_clair [only_intros]:
  "only quayRequest (configureClairVEX E q)"
  unfolding configureClairVEX_def writeClairSecret_def
  by (intro only_intros; simp)+

lemma only_quay_registry [only_intros]:
  "only quayRequest (ensureQuayGunicornTimeout E q)" "only quayRequest (ensureQuayComponentsUnmanaged E q)"
  "only quayRequest (ensureQuayTLSCertificate E platform hostname)" "only quayRequest (ensureQuayPassthroughRoute E platform q)"
  unfolding ensureQuayGunicornTimeout_def ensureQuayComponentsUnmanaged_def putComponents_def ensureQuayTLSCertificate_def createMissing_def
    ensureQuayPassthroughRoute_def createPassthroughRoute_def
  by (intro only_intros; simp)+

lemma only_quay_finish [only_intros]: "only quayRequest (finishManagedQuay E platform managed creds q)"
  unfolding finishManagedQuay_def by (intro only_intros only_untilError) (auto intro!: only_intros)

lemma only_quay_parts [only_intros]:
  "only quayRequest (ensureBundle E platform managed q hostname)" "only quayRequest (ensurePassthrough E platform managed q hostname)"
  "only quayRequest (createManagedQuay E platform managed)"
  unfolding ensureBundle_def ensurePassthrough_def createManagedQuay_def
  by (intro only_intros)+

text \<open>What the reconciliation does to the platform: nothing, or one update of the address in the platform as it was read before.\<close>

definition addressOnly :: "disconnectedPlatform \<Rightarrow> event list \<Rightarrow> bool" where
  "addressOnly platform es \<longleftrightarrow> (\<exists>url latest. list_all (\<lambda>e. quayRequest (fst e) \<or>
     fst e = RUpdate (OPlatform (setMirrorRegistry url latest)) \<and>
     (RGet KPlatform (m_Namespace (dp_ObjectMeta platform), m_Name (dp_ObjectMeta platform)), Inr [OPlatform latest]) \<in> set es) es)"

lemma addressOnly_quiet: "list_all (\<lambda>e. quayRequest (fst e)) es \<Longrightarrow> addressOnly platform es"
  by (auto simp: addressOnly_def list_all_iff)

lemma addressOnly_around:
  "addressOnly platform es \<Longrightarrow> list_all (\<lambda>e. quayRequest (fst e)) xs \<Longrightarrow> list_all (\<lambda>e. quayRequest (fst e)) ys \<Longrightarrow>
   addressOnly platform (xs @ es @ ys)"
  unfolding addressOnly_def by (elim exE, intro exI) (auto simp: list_all_iff)

lemma spec_record: "spec (recordMirrorRegistry E platform url) (\<lambda>es _. addressOnly platform es)"
  unfolding recordMirrorRegistry_def
  by (intro spec_intros) (auto simp: addressOnly_def intro!: exI [of _ url])

lemma spec_updateManaged:
  "spec (updateManagedQuay E platform con managed q) (\<lambda>es (p', err). addressOnly platform es \<and> (p' = platform \<or> (\<exists>url. p' = setMirrorRegistry url platform)))"
proof -
  have recorded: "spec (if stale then recordMirrorRegistry E platform url else return None) (\<lambda>es _. addressOnly platform es)" for stale url
    using spec_record by (auto simp: addressOnly_quiet)
  show ?thesis
    unfolding updateManagedQuay_def Let_def
    by (intro spec_bindI [OF only_quay_reads(3) [unfolded only_def]] spec_bindI [OF only_quay_parts(1) [unfolded only_def]]
        spec_bindI [OF only_quay_parts(2) [unfolded only_def]] spec_bindI [OF recorded] spec_case_sum spec_case_option spec_returnI)
      (auto intro: addressOnly_quiet addressOnly_around [where ys = "[]", simplified] addressOnly_around)
qed

text \<open>C29. The reconciliation of Quay creates and deletes no platform, writes no status and deletes nothing but routes. The platform that
  it goes on with differs at most in the address of the registry, and the only update of a platform it makes is that of the address, in
  the platform as the server returned it just before.\<close>

theorem quay_writes_address_only:
  "spec (reconcileQuayConfig E platform)
     (\<lambda>es (p', err). addressOnly platform es \<and> (p' = platform \<or> (\<exists>url. p' = setMirrorRegistry url platform)))"
proof -
  have create: "spec (do { err \<leftarrow> createManagedQuay E platform managed; return (platform, err) })
      (\<lambda>es (p', err). addressOnly platform (es0 @ es) \<and> (p' = platform \<or> (\<exists>url. p' = setMirrorRegistry url platform)))"
    if "list_all (\<lambda>e. quayRequest (fst e)) es0" for managed es0
    using that by (intro spec_bindI [OF only_quay_parts(3) [unfolded only_def]] spec_returnI) (auto intro: addressOnly_quiet)
  show ?thesis
    unfolding reconcileQuayConfig_def
    by (intro spec_case_option spec_if spec_returnI spec_bindI [OF only_quay_reads(2) [unfolded only_def]] spec_case_sum create
        spec_mono [OF spec_updateManaged])
      (auto intro: addressOnly_quiet addressOnly_around [where ys = "[]", simplified])
qed

end
