(* ===== verification/ImportScanner.thy ===== *)
theory ImportScanner
  imports Quay
begin

text \<open>
  The scanner that looks for bundles on the import node, from \<^verbatim>\<open>disconnectedplatform_airgapped.go\<close>: accounts and roles, the script, the
  cron job. The update service of both modes, which serves the upgrade graph from the registry, and the role of the pipeline
  that reads it. Roles and bindings have no specification: the \<open>n_Spec\<close> of theirs is the value of their other fields.
\<close>

section \<open>Shared helpers\<close>

text \<open>An owner that cannot be set is logged, the object created without it.\<close>

definition ownedMeta :: "('w, 'x) platformEnv_scheme \<Rightarrow> disconnectedPlatform \<Rightarrow> objectMeta \<Rightarrow> objectMeta" where
  "ownedMeta E platform m = (case setControllerReference E (dp_ObjectMeta platform) m of Inl _ \<Rightarrow> m | Inr m' \<Rightarrow> m')"

definition nameMeta :: "string \<Rightarrow> string \<Rightarrow> objectMeta" where
  "nameMeta ns name = emptyMeta\<lparr>m_Name := name, m_Namespace := ns\<rparr>"

text \<open>Creating what is missing; that it exists by now is no error, and other errors of the read are ignored.\<close>

definition createAbsent ::
  "('w, 'x) env_scheme \<Rightarrow> kind \<Rightarrow> ('a \<Rightarrow> kobj) \<Rightarrow> (kobj \<Rightarrow> 'a option) \<Rightarrow> nsname \<Rightarrow> 'a \<Rightarrow> ('w, goerr option) go" where
  "createAbsent E k mk prj nn x = do {
     existing \<leftarrow> Get E k prj nn;
     case existing of
       Inr _ \<Rightarrow> return None
     | Inl err \<Rightarrow>
         if isNotFound err then do {
           c \<leftarrow> Create E mk prj x;
           return (case c of Inl err \<Rightarrow> if isAlreadyExists err then None else Some err | Inr _ \<Rightarrow> None) }
         else return None }"

text \<open>A role whose rules are written at every reconciliation.\<close>

definition ensureRole :: "('w, 'x) env_scheme \<Rightarrow> nativeObj \<Rightarrow> goval \<Rightarrow> ('w, goerr option) go" where
  "ensureRole E role rules = do {
     let nn = (m_Namespace (n_Meta role), m_Name (n_Meta role));
     existingRole \<leftarrow> Get E (KNative (n_Kind role)) theNative nn;
     case existingRole of
       Inr existingRole \<Rightarrow> do {
         u \<leftarrow> Update E ONative theNative (existingRole\<lparr>n_Spec := onKey ''rules'' (\<lambda>_. rules) (n_Spec existingRole)\<rparr>);
         return (errOf u) }
     | Inl err \<Rightarrow>
         if isNotFound err then do {
           c \<leftarrow> Create E ONative theNative role;
           return (case c of Inl err \<Rightarrow> if isAlreadyExists err then None else Some err | Inr _ \<Rightarrow> None) }
         else return None }"

definition fieldsOnly :: "string \<Rightarrow> objectMeta \<Rightarrow> gomap \<Rightarrow> nativeObj" where
  "fieldsOnly k m fs = \<lparr>n_Kind = k, n_Meta = m, n_Spec = GMap fs, n_Status = GNil\<rparr>"

definition bindingFields :: "string \<Rightarrow> string \<Rightarrow> gomap" where
  "bindingFields roleKind name =
     [''subjects'' \<mapsto> GList [GMap [''kind'' \<mapsto> GStr ''ServiceAccount'', ''name'' \<mapsto> GStr name, ''namespace'' \<mapsto> GStr architectNamespace]],
      ''roleRef'' \<mapsto> GMap [''apiGroup'' \<mapsto> GStr ''rbac.authorization.k8s.io'', ''kind'' \<mapsto> GStr roleKind, ''name'' \<mapsto> GStr name]]"

definition accountNamed :: "objectMeta \<Rightarrow> serviceAccount" where
  "accountNamed m = \<lparr>sa_Meta = m, sa_ImagePullSecrets = []\<rparr>"

section \<open>Roles of the scanner and of the import job\<close>

definition scannerName :: string where "scannerName = ''import-bundle-scanner''"

definition scannerRules :: goval where
  "scannerRules = GList [rule ''mirror.mirror.mathianasj.github.com'' [''mirrorimports''] [''get'', ''list'', ''create'']]"

definition ensureImportScannerRBAC :: "('w, 'x) platformEnv_scheme \<Rightarrow> disconnectedPlatform \<Rightarrow> ('w, goerr option) go" where
  "ensureImportScannerRBAC E platform =
     (let m = ownedMeta E platform (nameMeta architectNamespace scannerName); nn = (architectNamespace, scannerName) in
      untilError
        [createAbsent E KServiceAccount OServiceAccount theServiceAccount nn (accountNamed m),
         ensureRole E (fieldsOnly ''Role'' m [''rules'' \<mapsto> scannerRules]) scannerRules,
         createAbsent E (KNative ''RoleBinding'') ONative theNative nn (fieldsOnly ''RoleBinding'' m (bindingFields ''Role'' scannerName))])"

definition importJobName :: string where "importJobName = ''mirror-import-job''"

definition importJobRules :: goval where
  "importJobRules = GList
     [rule ''config.openshift.io'' [''imagedigestmirrorsets'', ''imagetagmirrorsets''] [''get'', ''create'', ''update'', ''patch''],
      rule ''operators.coreos.com'' [''catalogsources''] [''get'', ''create'', ''update'', ''patch'']]"

definition ensureImportJobRBAC :: "('w, 'x) platformEnv_scheme \<Rightarrow> disconnectedPlatform \<Rightarrow> ('w, goerr option) go" where
  "ensureImportJobRBAC E platform =
     (let m = nameMeta [] importJobName in
      untilError
        [createAbsent E KServiceAccount OServiceAccount theServiceAccount (architectNamespace, importJobName)
           (accountNamed (ownedMeta E platform (nameMeta architectNamespace importJobName))),
         ensureRole E (fieldsOnly ''ClusterRole'' m [''rules'' \<mapsto> importJobRules]) importJobRules,
         createAbsent E (KNative ''ClusterRoleBinding'') ONative theNative ([], importJobName)
           (fieldsOnly ''ClusterRoleBinding'' m (bindingFields ''ClusterRole'' importJobName))])"

section \<open>The script\<close>

definition scannerScript :: string where
  \<open>scannerScript =
     unlines
     [''#!/bin/bash'',
      ''set -euo pipefail'',
      [],
      ''echo "Scanning ${IMPORT_PATH} for new bundles..."'',
      [],
      ''# List all .tar and .tar.gz files in the import path'',
      ''shopt -s nullglob'',
      ''bundles=("${IMPORT_PATH}"/*.tar "${IMPORT_PATH}"/*.tar.gz)'',
      [],
      ''if [ ${#bundles[@]} -eq 0 ]; then'',
      ''  echo "No bundles found in ${IMPORT_PATH}"'',
      ''  exit 0'',
      ''fi'',
      [],
      ''for bundle in "${bundles[@]}"; do'',
      ''  filename=$(basename "$bundle")'',
      ''  # Sanitize filename for use as CR name'',
      ''  cr_name="import-$(echo "$filename" | sed '' @ [CHR 0x27] @ ''s/[^a-zA-Z0-9-]/-/g'' @ [CHR 0x27] @ '' | tr '' @ [CHR 0x27] @ ''[:upper:]'' @ [CHR 0x27] @ '' '' @ [CHR 0x27] @ ''[:lower:]'' @ [CHR 0x27] @ '' | sed '' @ [CHR 0x27] @ ''s/--*/-/g'' @ [CHR 0x27] @ '' | sed '' @ [CHR 0x27] @ ''s/-$//'' @ [CHR 0x27] @ '' | cut -c1-63)"'',
      [],
      ''  # Check if MirrorImport CR already exists'',
      ''  if oc get mirrorimport "$cr_name" -n "${NAMESPACE}" &>/dev/null; then'',
      ''    echo "MirrorImport $cr_name already exists, skipping"'',
      ''    continue'',
      ''  fi'',
      [],
      ''  # Extract imageset-config.yaml from bundle for the import Job'',
      ''  imagesetconfig=""'',
      ''  tmpdir=$(mktemp -d)'',
      ''  if tar -xf "$bundle" -C "$tmpdir" imageset-config.yaml 2>/dev/null; then'',
      ''    imagesetconfig=$(cat "$tmpdir/imageset-config.yaml")'',
      ''  fi'',
      ''  rm -rf "$tmpdir"'',
      [],
      ''  echo "Creating MirrorImport for $filename"'',
      ''  cat <<EOFI | oc apply -f -'',
      ''apiVersion: mirror.mirror.mathianasj.github.com/v1'',
      ''kind: MirrorImport'',
      ''metadata:'',
      ''  name: ${cr_name}'',
      ''  namespace: ${NAMESPACE}'',
      ''spec:'',
      ''  imageSetConfig: |'',
      ''$(echo "$imagesetconfig" | sed '' @ [CHR 0x27] @ ''s/^/    /'' @ [CHR 0x27] @ '')'',
      ''  bundle:'',
      ''    pvc: ${IMPORT_PVC}'',
      ''    filename: ${filename}'',
      ''  targetRegistry:'',
      ''    url: ${TARGET_REGISTRY}'',
      ''  publish:'',
      ''    catalogSource: true'',
      ''    imageContentSourcePolicy: true'',
      ''EOFI'',
      ''done'',
      [],
      ''echo "Import scan complete"'']\<close>

definition ensureImportScannerScript :: "('w, 'x) platformEnv_scheme \<Rightarrow> disconnectedPlatform \<Rightarrow> ('w, goerr option) go" where
  "ensureImportScannerScript E platform = do {
     let data = Some [''scan-imports.sh'' \<mapsto> scannerScript];
     let m = nameMeta architectNamespace ''import-scanner-script'';
     existing \<leftarrow> Get E KConfigMap theConfigMap (architectNamespace, ''import-scanner-script'');
     case existing of
       Inr existing \<Rightarrow>
         if cmGet existing ''scan-imports.sh'' \<noteq> scannerScript then do {
           u \<leftarrow> Update E OConfigMap theConfigMap (existing\<lparr>cm_Data := data\<rparr>);
           return (errOf u) }
         else return None
     | Inl err \<Rightarrow>
         if isNotFound err then do {
           c \<leftarrow> Create E OConfigMap theConfigMap \<lparr>cm_Meta = ownedMeta E platform m, cm_Data = data\<rparr>;
           return (errOf c) }
         else return (Some err) }"

section \<open>The cron job\<close>

definition scannerEnvs :: "disconnectedPlatform \<Rightarrow> airgappedConfig \<Rightarrow> (string \<times> string) list" where
  "scannerEnvs platform ag =
     [(''IMPORT_PATH'', ag_ImportPath ag), (''NAMESPACE'', architectNamespace), (''PLATFORM_NAME'', m_Name (dp_ObjectMeta platform)),
      (''TARGET_REGISTRY'', ag_MirrorRegistry ag), (''IMPORT_PVC'', ''import-data'')]"

definition scannerPodSpec :: "disconnectedPlatform \<Rightarrow> airgappedConfig \<Rightarrow> gomap" where
  "scannerPodSpec platform ag =
     [''serviceAccountName'' \<mapsto> GStr scannerName, ''restartPolicy'' \<mapsto> GStr ''Never'',
      ''nodeSelector'' \<mapsto> GMap [''mirror-operator.io/import-node'' \<mapsto> GStr ''true''],
      ''containers'' \<mapsto> GList [GMap
        [''name'' \<mapsto> GStr ''scanner'', ''image'' \<mapsto> GStr ''registry.redhat.io/openshift4/ose-cli:latest'',
         ''command'' \<mapsto> GList [GStr ''/bin/bash'', GStr ''/scripts/scan-imports.sh''],
         ''env'' \<mapsto> GList (map (\<lambda>(k, v). GMap (envEntry k v)) (scannerEnvs platform ag)),
         ''volumeMounts'' \<mapsto> GList [volumeMount ''import-path'' (ag_ImportPath ag) True, volumeMount ''scanner-script'' ''/scripts'' False],
         ''resources'' \<mapsto> GMap
           [''requests'' \<mapsto> GMap [''cpu'' \<mapsto> GStr ''100m'', ''memory'' \<mapsto> GStr ''128Mi''],
            ''limits'' \<mapsto> GMap [''cpu'' \<mapsto> GStr ''500m'', ''memory'' \<mapsto> GStr ''256Mi'']]]],
      ''volumes'' \<mapsto> GList
        [GMap [''name'' \<mapsto> GStr ''import-path'', ''hostPath'' \<mapsto> GMap [''path'' \<mapsto> GStr (ag_ImportPath ag)]],
         GMap [''name'' \<mapsto> GStr ''scanner-script'',
               ''configMap'' \<mapsto> GMap [''name'' \<mapsto> GStr ''import-scanner-script'', ''defaultMode'' \<mapsto> GInt 493]]]]"

definition scannerCronJob :: "('w, 'x) platformEnv_scheme \<Rightarrow> disconnectedPlatform \<Rightarrow> airgappedConfig \<Rightarrow> string \<Rightarrow> nativeObj" where
  "scannerCronJob E platform ag schedule =
     fieldsOnly ''CronJob'' (ownedMeta E platform (nameMeta architectNamespace scannerName))
       [''schedule'' \<mapsto> GStr schedule, ''successfulJobsHistoryLimit'' \<mapsto> GInt 3, ''failedJobsHistoryLimit'' \<mapsto> GInt 3,
        ''jobTemplate'' \<mapsto> GMap [''spec'' \<mapsto> GMap
          [''backoffLimit'' \<mapsto> GInt 1, ''template'' \<mapsto> GMap [''spec'' \<mapsto> GMap (scannerPodSpec platform ag)]]]]"

definition ensureScannerCronJob ::
  "('w, 'x) platformEnv_scheme \<Rightarrow> disconnectedPlatform \<Rightarrow> airgappedConfig \<Rightarrow> string \<Rightarrow> ('w, goerr option) go" where
  "ensureScannerCronJob E platform ag schedule = do {
     existing \<leftarrow> Get E (KNative ''CronJob'') theNative (architectNamespace, scannerName);
     case existing of
       Inr existing \<Rightarrow>
         if strOrEmpty (walk (n_Spec existing) [''schedule'']) \<noteq> schedule then do {
           u \<leftarrow> Update E ONative theNative (existing\<lparr>n_Spec := onKey ''schedule'' (\<lambda>_. GStr schedule) (n_Spec existing)\<rparr>);
           return (map_option (wrap ''failed to update import scanner CronJob'') (errOf u)) }
         else return None
     | Inl err \<Rightarrow>
         if \<not> isNotFound err then return (Some err)
         else do {
           c \<leftarrow> Create E ONative theNative (scannerCronJob E platform ag schedule);
           return (map_option (wrap ''failed to create import scanner CronJob'') (errOf c)) } }"

text \<open>A step of a function with a text for its error.\<close>

definition wrapped :: "string \<Rightarrow> ('w, goerr option) go \<Rightarrow> ('w, goerr option) go" where
  "wrapped msg m = do { e \<leftarrow> m; return (map_option (wrap msg) e) }"

definition reconcileImportScanner ::
  "('w, 'x) platformEnv_scheme \<Rightarrow> disconnectedPlatform \<Rightarrow> airgappedConfig \<Rightarrow> ('w, goerr option) go" where
  "reconcileImportScanner E platform ag =
     untilError
       [wrapped ''failed to ensure import scanner RBAC'' (ensureImportScannerRBAC E platform),
        wrapped ''failed to ensure import job RBAC'' (ensureImportJobRBAC E platform),
        wrapped ''failed to ensure import scanner script'' (ensureImportScannerScript E platform),
        ensureScannerCronJob E platform ag (orElse (ag_ImportScanSchedule ag) ''*/30 * * * *'')]"

section \<open>The update service\<close>

definition updateServiceGVK :: gvk where
  "updateServiceGVK = \<lparr>g_Group = ''updateservice.operator.openshift.io'', g_Version = ''v1'', g_Kind = ''UpdateService''\<rparr>"

definition updateServiceSpec :: "string \<Rightarrow> string \<Rightarrow> gomap" where
  "updateServiceSpec host orgName =
     [''graphDataImage'' \<mapsto> GStr (host @ ''/'' @ orgName @ ''/openshift/graph-image:latest''),
      ''releases'' \<mapsto> GStr (host @ ''/'' @ orgName @ ''/openshift/release-images''), ''replicas'' \<mapsto> GInt 2]"

text \<open>The part of a registry before the first slash, all of it where there is none or nothing before it.\<close>

definition registryHostOf :: "string \<Rightarrow> string" where
  "registryHostOf registry = (case cutByte (CHR ''/'') registry of Some (h, _) \<Rightarrow> if h \<noteq> [] then h else registry | None \<Rightarrow> registry)"

text \<open>Both functions write the one update service where a field they ask for prints differently; the texts of their errors differ.\<close>

definition putUpdateService :: "('w, 'x) platformEnv_scheme \<Rightarrow> string \<Rightarrow> gomap \<Rightarrow> ('w, goerr option) go" where
  "putUpdateService E what desired = do {
     existing \<leftarrow> Get E (KUnstr updateServiceGVK) theUnstr (osusNamespace, ''update-service-oc-mirror'');
     case existing of
       Inr existing \<Rightarrow>
         let (currentSpec, _, _) = nestedMap E (u_Object existing) [''spec''];
             needsUpdate = list_ex (\<lambda>k. sprintV E (entry currentSpec k) \<noteq> sprintV E (entry desired k)) [''graphDataImage'', ''releases'', ''replicas'']
         in if \<not> needsUpdate then return None
            else (case setNestedField E (u_Object existing) (GMap desired) [''spec''] of
                Inl err \<Rightarrow> return (Some err)
              | Inr obj \<Rightarrow> do {
                  u \<leftarrow> Update E OUnstr theUnstr (existing\<lparr>u_Object := obj\<rparr>);
                  return (map_option (wrap (''failed to update '' @ what)) (errOf u)) })
     | Inl err \<Rightarrow>
         if \<not> isNotFound err then return (Some err)
         else do {
           c \<leftarrow> Create E OUnstr theUnstr (withSpec desired (newUnstr updateServiceGVK osusNamespace ''update-service-oc-mirror''));
           return (map_option (wrap (''failed to create '' @ what)) (errOf c)) } }"

definition airgappedOrg :: "airgappedConfig \<Rightarrow> string" where
  "airgappedOrg ag = orElse (case ag_Quay ag of None \<Rightarrow> [] | Some q \<Rightarrow> aq_OrganizationName q) ''mirror''"

definition ensureAirgappedUpdateService :: "('w, 'x) platformEnv_scheme \<Rightarrow> airgappedConfig \<Rightarrow> ('w, goerr option) go" where
  "ensureAirgappedUpdateService E ag =
     (if ag_MirrorRegistry ag = [] then return None
      else putUpdateService E ''airgapped UpdateService'' (updateServiceSpec (registryHostOf (ag_MirrorRegistry ag)) (airgappedOrg ag)))"

text \<open>The connected block is read only where there is a registry with a host name; the caller has checked that it is there.\<close>

definition connectedOrg :: "connectedConfig \<Rightarrow> string" where
  "connectedOrg con = orElse (case con_Quay con \<bind> quay_Managed of None \<Rightarrow> [] | Some m \<Rightarrow> mq_OrganizationName m) ''mirror''"

definition ensureUpdateService :: "('w, 'x) platformEnv_scheme \<Rightarrow> disconnectedPlatform \<Rightarrow> ('w, goerr option) go" where
  "ensureUpdateService E platform = do {
     q \<leftarrow> getQuayRegistry E;
     case q of
       Inl _ \<Rightarrow> return None
     | Inr q \<Rightarrow> do {
         quayHostname \<leftarrow> getQuayHostname E q;
         case quayHostname of
           Inl _ \<Rightarrow> return None
         | Inr quayHostname \<Rightarrow>
             if quayHostname = [] then return None
             else (case dps_Connected (dp_Spec platform) of
                 None \<Rightarrow> return (Some (panic ''nil pointer dereference: platform.Spec.Connected''))
               | Some con \<Rightarrow> putUpdateService E ''UpdateService'' (updateServiceSpec quayHostname (connectedOrg con))) } }"

section \<open>The role of the pipeline\<close>

definition osusReaderName :: string where "osusReaderName = ''mirror-operator-pipeline-osus-reader''"

text \<open>Creating what is missing; any other error of the read is returned.\<close>

definition createUnstr :: "('w, 'x) env_scheme \<Rightarrow> string \<Rightarrow> unstr \<Rightarrow> ('w, goerr option) go" where
  "createUnstr E msg u = do {
     existing \<leftarrow> Get E (KUnstr (u_GVK u)) theUnstr (u_Namespace u, u_Name u);
     case existing of
       Inr _ \<Rightarrow> return None
     | Inl err \<Rightarrow>
         if isNotFound err then do { c \<leftarrow> Create E OUnstr theUnstr u; return (map_option (wrap msg) (errOf c)) }
         else return (Some err) }"

definition osusReaderRole :: "('w, 'x) env_scheme \<Rightarrow> unstr" where
  "osusReaderRole E = onObject (setField E (GList [rule ''updateservice.operator.openshift.io'' [''updateservices''] [''get'', ''list'', ''watch'']])
     [''rules'']) (newUnstr (rbacGVK ''ClusterRole'') [] osusReaderName)"

definition osusReaderBinding :: "('w, 'x) env_scheme \<Rightarrow> unstr" where
  "osusReaderBinding E =
     onObject (setField E (GMap [''kind'' \<mapsto> GStr ''ClusterRole'', ''name'' \<mapsto> GStr osusReaderName,
         ''apiGroup'' \<mapsto> GStr ''rbac.authorization.k8s.io'']) [''roleRef''])
       (onObject (setField E (GList [GMap [''kind'' \<mapsto> GStr ''ServiceAccount'', ''name'' \<mapsto> GStr ''pipeline'',
           ''namespace'' \<mapsto> GStr architectNamespace]]) [''subjects''])
         (newUnstr (rbacGVK ''ClusterRoleBinding'') [] osusReaderName))"

definition ensurePipelineOSUSAccess :: "('w, 'x) env_scheme \<Rightarrow> ('w, goerr option) go" where
  "ensurePipelineOSUSAccess E =
     untilError
       [createUnstr E (''failed to create ClusterRole '' @ osusReaderName) (osusReaderRole E),
        createUnstr E (''failed to create ClusterRoleBinding '' @ osusReaderName) (osusReaderBinding E)]"

end
