(* ===== verification/HostInventory.thy ===== *)
theory HostInventory
  imports ImportScanner
begin

text \<open>
  Advanced Cluster Management and the host inventory on a disconnected cluster, from \<^verbatim>\<open>disconnectedplatform_airgapped.go\<close>: operator and
  hub, the provisioning configuration, the RHCOS server, the mirror configuration of the assisted installer with the registries it
  lists, the agent service, cluster image sets, discovery environment with its signature policy, credential, and the removal.
\<close>

section \<open>Advanced Cluster Management\<close>

definition acmNamespace :: string where "acmNamespace = ''open-cluster-management''"

definition acmOperator :: "string \<Rightarrow> string \<Rightarrow> string \<Rightarrow> operatorDef" where
  "acmOperator catalog catalogNS channel =
     \<lparr>od_name = ''advanced-cluster-management'', od_pkg = ''advanced-cluster-management'', od_channel = channel, od_catalog = catalog,
      od_catalogNS = catalogNS, od_ns = acmNamespace\<rparr>"

definition hubGVK :: gvk where
  "hubGVK = \<lparr>g_Group = ''operator.open-cluster-management.io'', g_Version = ''v1'', g_Kind = ''MultiClusterHub''\<rparr>"

definition hubComponent :: "string \<Rightarrow> componentStatus" where
  "hubComponent status = \<lparr>cst_Name = ''multiclusterhub'', cst_Status = status, cst_Kind = ''MultiClusterHub'',
     cst_APIGroup = ''operator.open-cluster-management.io'', cst_Namespace = acmNamespace, cst_URL = [], cst_LastCheck = None\<rparr>"

definition hubPhase :: "('w, 'x) env_scheme \<Rightarrow> unstr \<Rightarrow> string" where
  "hubPhase E mch = fst (nestedString E (u_Object mch) [''status'', ''phase''])"

definition hubSpec :: "airgappedConfig \<Rightarrow> multiClusterHubConfig option \<Rightarrow> gomap" where
  "hubSpec ag cfg =
     (let pull = (case cfg \<bind> mch_ImagePullSecret of
                Some s \<Rightarrow> lor_Name s
              | None \<Rightarrow> (case ag_RegistryCredentials ag of Some s \<Rightarrow> lor_Name s | None \<Rightarrow> ''pull-secret''));
          m = [''imagePullSecret'' \<mapsto> GStr pull];
          ca = (case cfg of None \<Rightarrow> [] | Some c \<Rightarrow> mch_CustomCAConfigMap c);
          m = (if ca \<noteq> [] then m(''customCAConfigmap'' \<mapsto> GStr ca) else m)
      in if (case cfg of None \<Rightarrow> False | Some c \<Rightarrow> mch_DisableHubSelfManagement c)
         then m(''disableHubSelfManagement'' \<mapsto> GBool True) else m)"

text \<open>The component that the function appends is part of its result, \<open>None\<close> where it appends none.\<close>

definition ensureMultiClusterHub ::
  "('w, 'x) env_scheme \<Rightarrow> airgappedConfig \<Rightarrow> airgappedACMConfig \<Rightarrow> ('w, componentStatus option \<times> goerr option) go" where
  "ensureMultiClusterHub E ag acm = do {
     existing \<leftarrow> Get E (KUnstr hubGVK) theUnstr (acmNamespace, ''multiclusterhub'');
     case existing of
       Inr existing \<Rightarrow> return (Some (hubComponent (if hubPhase E existing = ''Running'' then ''Running'' else ''Installing'')), None)
     | Inl err \<Rightarrow>
         if \<not> isNotFound err then return (None, Some err)
         else do {
           c \<leftarrow> Create E OUnstr theUnstr (withSpec (hubSpec ag (acm_MultiClusterHub acm)) (newUnstr hubGVK acmNamespace ''multiclusterhub''));
           return (case c of
               Inl err \<Rightarrow> (None, Some (wrap ''failed to create MultiClusterHub'' err))
             | Inr _ \<Rightarrow> (Some (hubComponent ''Installing''), None)) } }"

definition acmStatus :: "string \<Rightarrow> operatorDef \<Rightarrow> componentStatus" where
  "acmStatus csvPhase op = operatorComponent op (orElse csvPhase ''Installing'')"

text \<open>With the operator installed: the pull secret, whose error is logged, the hub, and whether the hub is running.\<close>

definition reconcileHub ::
  "('w, 'x) env_scheme \<Rightarrow> disconnectedPlatform \<Rightarrow> airgappedConfig \<Rightarrow> airgappedACMConfig \<Rightarrow>
     ('w, disconnectedPlatform \<times> bool \<times> goerr option) go" where
  "reconcileHub E platform ag acm = do {
     _ \<leftarrow> ensureACMPullSecret E;
     (component, err) \<leftarrow> ensureMultiClusterHub E ag acm;
     let platform = (case component of None \<Rightarrow> platform | Some c \<Rightarrow> appendComponents [c] platform);
     case err of
       Some err \<Rightarrow> return (platform, False, Some (wrap ''failed to ensure MultiClusterHub'' err))
     | None \<Rightarrow> do {
         mch \<leftarrow> Get E (KUnstr hubGVK) theUnstr (acmNamespace, ''multiclusterhub'');
         return (platform, (case mch of Inl _ \<Rightarrow> False | Inr mch \<Rightarrow> hubPhase E mch = ''Running''), None) } }"

definition reconcileAirgappedACM ::
  "('w, 'x) env_scheme \<Rightarrow> disconnectedPlatform \<Rightarrow> airgappedConfig \<Rightarrow> airgappedACMConfig \<Rightarrow>
     ('w, disconnectedPlatform \<times> bool \<times> goerr option) go" where
  "reconcileAirgappedACM E platform ag acm = do {
     info \<leftarrow> discoverPackageInfo E ''advanced-cluster-management'';
     case info of
       Inl _ \<Rightarrow> return (platform, False, None)
     | Inr (catalog, catalogNS, channel) \<Rightarrow> do {
         let op = acmOperator catalog catalogNS channel;
         err \<leftarrow> untilError
           [wrapped ''namespace for ACM'' (ensureNamespace E (od_ns op)),
            wrapped ''operatorgroup for ACM'' (ensureOperatorGroup E op),
            wrapped ''subscription for ACM'' (ensureSubscription E op (acm_Subscription acm))];
         case err of
           Some err \<Rightarrow> return (platform, False, Some err)
         | None \<Rightarrow> do {
             csvPhase \<leftarrow> csvStatus E op;
             let platform = appendComponents [acmStatus csvPhase op] platform;
             if csvPhase \<noteq> ''Succeeded'' then return (platform, False, None)
             else reconcileHub E platform ag acm } } }"

definition provisioningGVK :: gvk where
  "provisioningGVK = \<lparr>g_Group = ''metal3.io'', g_Version = ''v1alpha1'', g_Kind = ''Provisioning''\<rparr>"

definition ensureProvisioningConfiguration :: "('w, 'x) platformEnv_scheme \<Rightarrow> ('w, goerr option) go" where
  "ensureProvisioningConfiguration E = do {
     existing \<leftarrow> Get E (KUnstr provisioningGVK) theUnstr ([], ''provisioning-configuration'');
     case existing of
       Inr existing \<Rightarrow>
         if fst (nestedString E (u_Object existing) [''spec'', ''provisioningNetwork'']) = ''Disabled'' \<and>
            fst (nestedBool E (u_Object existing) [''spec'', ''watchAllNamespaces'']) then return None
         else (case setNestedField E (u_Object existing) (GStr ''Disabled'') [''spec'', ''provisioningNetwork''] of
             Inl err \<Rightarrow> return (Some err)
           | Inr obj \<Rightarrow>
               (case setNestedField E obj (GBool True) [''spec'', ''watchAllNamespaces''] of
                  Inl err \<Rightarrow> return (Some err)
                | Inr obj \<Rightarrow> do {
                    u \<leftarrow> Update E OUnstr theUnstr (existing\<lparr>u_Object := obj\<rparr>);
                    return (map_option (wrap ''failed to update Provisioning configuration'') (errOf u)) }))
     | Inl err \<Rightarrow>
         if \<not> isNotFound err then return (Some err)
         else do {
           c \<leftarrow> Create E OUnstr theUnstr (withSpec [''provisioningNetwork'' \<mapsto> GStr ''Disabled'', ''watchAllNamespaces'' \<mapsto> GBool True]
                 (newUnstr provisioningGVK [] ''provisioning-configuration''));
           return (map_option (wrap ''failed to create Provisioning configuration'') (errOf c)) } }"

section \<open>The RHCOS server\<close>

definition rhcosServer :: string where "rhcosServer = ''rhcos-server''"

definition rhcosDeploymentSpec :: "string \<Rightarrow> gomap" where
  "rhcosDeploymentSpec img =
     [''replicas'' \<mapsto> GInt 1, ''selector'' \<mapsto> GMap [''matchLabels'' \<mapsto> GMap [''app'' \<mapsto> GStr rhcosServer]],
      ''template'' \<mapsto> GMap
        [''metadata'' \<mapsto> GMap [''labels'' \<mapsto> GMap [''app'' \<mapsto> GStr rhcosServer]],
         ''spec'' \<mapsto> GMap [''containers'' \<mapsto> GList [GMap
            [''name'' \<mapsto> GStr ''nginx'', ''image'' \<mapsto> GStr img,
             ''ports'' \<mapsto> GList [GMap [''containerPort'' \<mapsto> GInt 8080, ''protocol'' \<mapsto> GStr ''TCP'']],
             ''resources'' \<mapsto> GMap [''requests'' \<mapsto> GMap [''cpu'' \<mapsto> GStr ''100m'', ''memory'' \<mapsto> GStr ''128Mi'']]]]]]]"

definition rhcosServiceSpec :: gomap where
  "rhcosServiceSpec =
     [''selector'' \<mapsto> GMap [''app'' \<mapsto> GStr rhcosServer],
      ''ports'' \<mapsto> GList [GMap [''name'' \<mapsto> GStr ''http'', ''port'' \<mapsto> GInt 8080, ''targetPort'' \<mapsto> GInt 8080, ''protocol'' \<mapsto> GStr ''TCP'']]]"

text \<open>The image of the first container, which panics where there is none.\<close>

definition setFirstImage :: "string \<Rightarrow> goval list \<Rightarrow> goval list" where
  "setFirstImage img cs = (case cs of [] \<Rightarrow> [] | c # cs \<Rightarrow> onKey ''image'' (\<lambda>_. GStr img) c # cs)"

definition containersOf :: "nativeObj \<Rightarrow> goval list" where
  "containersOf dep = (case walk (n_Spec dep) [''template'', ''spec'', ''containers''] of Some (GList l) \<Rightarrow> l | _ \<Rightarrow> [])"

definition setContainers :: "goval list \<Rightarrow> nativeObj \<Rightarrow> nativeObj" where
  "setContainers cs dep = dep\<lparr>n_Spec := onKey ''template'' (onKey ''spec'' (onKey ''containers'' (\<lambda>_. GList cs))) (n_Spec dep)\<rparr>"

definition ensureRHCOSDeployment :: "('w, 'x) platformEnv_scheme \<Rightarrow> disconnectedPlatform \<Rightarrow> string \<Rightarrow> ('w, goerr option) go" where
  "ensureRHCOSDeployment E platform img = do {
     existing \<leftarrow> Get E (KNative ''Deployment'') theNative (architectNamespace, rhcosServer);
     case existing of
       Inr existing \<Rightarrow>
         (case containersOf existing of
            [] \<Rightarrow> return (Some (panic ''index out of range''))
          | c # cs \<Rightarrow>
              if strOrEmpty (orEmptyMap (asMap (Some c)) ''image'') = img then return None
              else do {
                u \<leftarrow> Update E ONative theNative (setContainers (setFirstImage img (c # cs)) existing);
                return (map_option (wrap ''failed to update RHCOS server deployment'') (errOf u)) })
     | Inl err \<Rightarrow>
         if isNotFound err then do {
           c \<leftarrow> Create E ONative theNative
                 (fieldsOnly ''Deployment'' (ownedMeta E platform (nameMeta architectNamespace rhcosServer)) (rhcosDeploymentSpec img));
           return (map_option (wrap ''failed to create RHCOS server deployment'') (errOf c)) }
         else return (Some err) }"

definition ensureRHCOSService :: "('w, 'x) platformEnv_scheme \<Rightarrow> disconnectedPlatform \<Rightarrow> ('w, goerr option) go" where
  "ensureRHCOSService E platform = do {
     existing \<leftarrow> Get E (KNative ''Service'') theNative (architectNamespace, rhcosServer);
     case existing of
       Inr _ \<Rightarrow> return None
     | Inl err \<Rightarrow>
         if isNotFound err then do {
           c \<leftarrow> Create E ONative theNative
                 (fieldsOnly ''Service'' (ownedMeta E platform (nameMeta architectNamespace rhcosServer)) rhcosServiceSpec);
           return (map_option (wrap ''failed to create RHCOS server service'') (errOf c)) }
         else return (Some err) }"

definition inventoryOf :: "airgappedConfig \<Rightarrow> hostInventoryConfig option" where
  "inventoryOf ag = (case ag_ACM ag \<bind> acm_HostInventory of None \<Rightarrow> None | Some hostInv \<Rightarrow> if hi_Enabled hostInv then Some hostInv else None)"

definition rhcosImageOf ::
  "('w, 'x) env_scheme \<Rightarrow> disconnectedPlatform \<Rightarrow> airgappedConfig \<Rightarrow> hostInventoryConfig \<Rightarrow> string \<Rightarrow> ('w, string res) go" where
  "rhcosImageOf E platform ag hostInv version =
     (if hi_RHCOSImage hostInv \<noteq> [] then return (Inr (hi_RHCOSImage hostInv))
      else if ag_MirrorRegistryConfig ag \<noteq> None then do {
        addr \<leftarrow> GetRegistryAddress E platform;
        return (case addr of
            Inl err \<Rightarrow> Inl (if isPanic err then err else wrap ''resolving mirror registry address for RHCOS image'' err)
          | Inr addr \<Rightarrow> Inr (addr @ ''/rhcos-server:'' @ version)) }
      else return (Inr (ag_MirrorRegistry ag @ ''/rhcos-server:'' @ version)))"

definition reconcileRHCOSServer ::
  "('w, 'x) platformEnv_scheme \<Rightarrow> disconnectedPlatform \<Rightarrow> airgappedConfig \<Rightarrow> ('w, goerr option) go" where
  "reconcileRHCOSServer E platform ag =
     (if ag_MirrorRegistry ag = [] then return None
      else (case inventoryOf ag of
          None \<Rightarrow> return None
        | Some hostInv \<Rightarrow>
            let version = (case hi_Versions hostInv of [] \<Rightarrow> [] | v # _ \<Rightarrow> hiv_OpenshiftVersion v) in
            if version = [] then return None
            else do {
              img \<leftarrow> rhcosImageOf E platform ag hostInv version;
              case img of
                Inl err \<Rightarrow> return (Some err)
              | Inr img \<Rightarrow> untilError [ensureRHCOSDeployment E platform img, ensureRHCOSService E platform] }))"

section \<open>The registries of the assisted installer\<close>

record mirrorEntry =
  me_Source :: string
  me_Mirrors :: "string list"
  me_DigestOnly :: bool

definition isInstallSafe :: "string \<Rightarrow> bool" where
  "isInstallSafe source \<longleftrightarrow>
     (case cutByte (CHR ''/'') source of
        None \<Rightarrow> False
      | Some (host, path) \<Rightarrow> path \<noteq> [] \<and> \<not> ((host = ''docker.io'' \<or> host = ''index.docker.io'') \<and> CHR ''/'' \<notin> set path))"

fun addMirrors :: "string list \<Rightarrow> string list \<Rightarrow> string list" where
  "addMirrors ms [] = ms"
| "addMirrors ms (n # ns) = addMirrors (if n \<in> set ms then ms else ms @ [n]) ns"

text \<open>The closure \<^verbatim>\<open>addEntry\<close>: map and list of sources are one list of entries in their order.\<close>

fun addEntry :: "string \<Rightarrow> string list \<Rightarrow> bool \<Rightarrow> mirrorEntry list \<Rightarrow> mirrorEntry list" where
  "addEntry source mirrors digestOnly [] = [\<lparr>me_Source = source, me_Mirrors = mirrors, me_DigestOnly = digestOnly\<rparr>]"
| "addEntry source mirrors digestOnly (e # es) =
     (if me_Source e = source then e\<lparr>me_Mirrors := addMirrors (me_Mirrors e) mirrors\<rparr> # es
      else e # addEntry source mirrors digestOnly es)"

text \<open>The entries of the mirror sets of one kind that the installer accepts, and what they add.\<close>

definition mirrorSources :: "('w, 'x) env_scheme \<Rightarrow> string \<Rightarrow> unstr list \<Rightarrow> (string \<times> string list) list" where
  "mirrorSources E field items =
     concat (map (\<lambda>item. concat (map (\<lambda>entry. case asMap (Some entry) of
         None \<Rightarrow> []
       | Some e \<Rightarrow>
           let source = fst (nestedString E (GMap e) [''source'']) in
           if source = [] \<or> \<not> isInstallSafe source then [] else [(source, fst (nestedStringSlice E (GMap e) [''mirrors'']))])
       (fst (nestedSlice E (u_Object item) [''spec'', field])))) items)"

definition addAll :: "bool \<Rightarrow> (string \<times> string list) list \<Rightarrow> mirrorEntry list \<Rightarrow> mirrorEntry list" where
  "addAll digestOnly sources es = foldl (\<lambda>es (source, mirrors). addEntry source mirrors digestOnly es) es sources"

definition quayMirror :: "string \<Rightarrow> string \<Rightarrow> string" where
  "quayMirror host source = (case cutByte (CHR ''/'') source of None \<Rightarrow> host | Some (_, path) \<Rightarrow> host @ ''/'' @ path)"

definition addQuay :: "string \<Rightarrow> mirrorEntry \<Rightarrow> mirrorEntry" where
  "addQuay host e = e\<lparr>me_Mirrors := addMirrors (me_Mirrors e) [quayMirror host (me_Source e)]\<rparr>"

definition mirrorEntries :: "string \<Rightarrow> (string \<times> string list) list \<Rightarrow> (string \<times> string list) list \<Rightarrow> mirrorEntry list" where
  "mirrorEntries host digestSources tagSources =
     map (addQuay host) (addAll False tagSources (addAll True digestSources []))"

definition entryLines :: "mirrorEntry \<Rightarrow> string list" where
  "entryLines e =
     [[], ''[[registry]]'', ''  prefix = '' @ quoted [], ''  location = '' @ quoted (me_Source e),
      ''  mirror-by-digest-only = '' @ (if me_DigestOnly e then ''true'' else ''false'')] @
     concat (map (\<lambda>m. [[], ''  [[registry.mirror]]'', ''    location = '' @ quoted m]) (me_Mirrors e))"

definition registriesConf :: "mirrorEntry list \<Rightarrow> string" where
  "registriesConf es = unlines
     ((''unqualified-search-registries = ['' @ quoted ''registry.access.redhat.com'' @ '', '' @ quoted ''docker.io'' @ '']'') #
      concat (map entryLines es))"

text \<open>The items of a list request, none where it failed.\<close>

definition itemsOr :: "'a list res \<Rightarrow> 'a list" where
  "itemsOr l = (case l of Inl _ \<Rightarrow> [] | Inr xs \<Rightarrow> xs)"

definition secretValue :: "('w, 'x) env_scheme \<Rightarrow> string \<Rightarrow> string \<Rightarrow> ('w, string) go" where
  "secretValue E name key = do {
     s \<leftarrow> Get E KSecret theSecret (architectNamespace, name);
     return (case s of Inl _ \<Rightarrow> [] | Inr s \<Rightarrow> secGet s key) }"

definition userCABundle :: "('w, 'x) env_scheme \<Rightarrow> ('w, string) go" where
  "userCABundle E = do {
     cm \<leftarrow> Get E KConfigMap theConfigMap (''openshift-config'', ''user-ca-bundle'');
     return (case cm of Inl _ \<Rightarrow> [] | Inr cm \<Rightarrow> cmGet cm ''ca-bundle.crt'') }"

definition getMirrorRegistryCA :: "('w, 'x) env_scheme \<Rightarrow> airgappedConfig \<Rightarrow> ('w, string) go" where
  "getMirrorRegistryCA E ag =
     (if (case ag_Quay ag of None \<Rightarrow> False | Some q \<Rightarrow> aq_Enabled q) then do {
        ca \<leftarrow> secretValue E ''mirror-operator-quay-config-bundle'' ''ssl.cert'';
        if ca \<noteq> [] then return ca
        else do {
          ca \<leftarrow> secretValue E ''mirror-operator-quay-quay-ssl'' ''tls.crt'';
          if ca \<noteq> [] then return ca else userCABundle E } }
      else userCABundle E)"

definition mirrorConfigName :: string where "mirrorConfigName = ''assisted-installer-mirror-config''"

definition putMirrorConfig :: "('w, 'x) env_scheme \<Rightarrow> string \<Rightarrow> string \<Rightarrow> ('w, goerr option) go" where
  "putMirrorConfig E caBundlePEM conf = do {
     let labels = [''app'' \<mapsto> ''assisted-service''];
     let data = Some [''ca-bundle.crt'' \<mapsto> caBundlePEM, ''registries.conf'' \<mapsto> conf];
     existing \<leftarrow> Get E KConfigMap theConfigMap (''multicluster-engine'', mirrorConfigName);
     case existing of
       Inr existing \<Rightarrow>
         if cmGet existing ''ca-bundle.crt'' \<noteq> caBundlePEM \<or> cmGet existing ''registries.conf'' \<noteq> conf then do {
           u \<leftarrow> Update E OConfigMap theConfigMap (existing\<lparr>cm_Data := data, cm_Meta := (cm_Meta existing)\<lparr>m_Labels := labels\<rparr>\<rparr>);
           return (map_option (wrap ''failed to update assisted-installer-mirror-config'') (errOf u)) }
         else return None
     | Inl err \<Rightarrow>
         if isNotFound err then do {
           c \<leftarrow> Create E OConfigMap theConfigMap
                 \<lparr>cm_Meta = (nameMeta ''multicluster-engine'' mirrorConfigName)\<lparr>m_Labels := labels\<rparr>, cm_Data = data\<rparr>;
           return (map_option (wrap ''failed to create assisted-installer-mirror-config'') (errOf c)) }
         else return (Some err) }"

definition ensureAssistedInstallerMirrorConfig :: "('w, 'x) env_scheme \<Rightarrow> airgappedConfig \<Rightarrow> ('w, goerr option) go" where
  "ensureAssistedInstallerMirrorConfig E ag =
     (if ag_MirrorRegistry ag = [] then return None
      else do {
        caBundlePEM \<leftarrow> getMirrorRegistryCA E ag;
        idms \<leftarrow> ListObjs E (KUnstr (configGVK ''ImageDigestMirrorSet'')) theUnstr allObjects;
        itms \<leftarrow> ListObjs E (KUnstr (configGVK ''ImageTagMirrorSet'')) theUnstr allObjects;
        let es = mirrorEntries (registryHostOf (ag_MirrorRegistry ag)) (mirrorSources E ''imageDigestMirrors'' (itemsOr idms))
                   (mirrorSources E ''imageTagMirrors'' (itemsOr itms));
        err \<leftarrow> ensureNamespace E ''multicluster-engine'';
        case err of
          Some err \<Rightarrow> return (Some (wrap ''failed to ensure multicluster-engine namespace'' err))
        | None \<Rightarrow> putMirrorConfig E caBundlePEM (registriesConf es) })"

section \<open>Agent service and cluster image sets\<close>

definition agentGVK :: "string \<Rightarrow> gvk" where
  "agentGVK k = \<lparr>g_Group = ''agent-install.openshift.io'', g_Version = ''v1beta1'', g_Kind = k\<rparr>"

definition buildStorage :: "hostInventoryConfig \<Rightarrow> string \<Rightarrow> goval" where
  "buildStorage hostInv sz =
     (let storage = [''accessModes'' \<mapsto> GList [GStr ''ReadWriteOnce''],
                     ''resources'' \<mapsto> GMap [''requests'' \<mapsto> GMap [''storage'' \<mapsto> GStr sz]]]
      in GMap (if hi_StorageClass hostInv \<noteq> [] then storage(''storageClassName'' \<mapsto> GStr (hi_StorageClass hostInv)) else storage))"

definition osImage :: "string \<Rightarrow> hostInventoryVersion \<Rightarrow> goval" where
  "osImage rhcosServerURL v =
     (let arch = orElse (hiv_CpuArchitecture v) ''x86_64'' in GMap
        [''openshiftVersion'' \<mapsto> GStr (hiv_OpenshiftVersion v), ''cpuArchitecture'' \<mapsto> GStr arch,
         ''rootFSUrl'' \<mapsto> GStr (rhcosServerURL @ ''/rhcos-live-rootfs.'' @ arch @ ''.img''),
         ''url'' \<mapsto> GStr (rhcosServerURL @ ''/rhcos-live.'' @ arch @ ''.iso''), ''version'' \<mapsto> GStr (hiv_OpenshiftVersion v)])"

definition agentServiceSpec :: "hostInventoryConfig \<Rightarrow> string \<Rightarrow> gomap" where
  "agentServiceSpec hostInv rhcosServerURL =
     [''databaseStorage'' \<mapsto> buildStorage hostInv (orElse (hi_DatabaseStorageSize hostInv) ''200Gi''),
      ''filesystemStorage'' \<mapsto> buildStorage hostInv (orElse (hi_FilesystemStorageSize hostInv) ''200Gi''),
      ''imageStorage'' \<mapsto> buildStorage hostInv (orElse (hi_ImageStorageSize hostInv) ''100Gi''),
      ''mirrorRegistryRef'' \<mapsto> GMap [''name'' \<mapsto> GStr mirrorConfigName],
      ''osImages'' \<mapsto> GList (map (osImage rhcosServerURL) (hi_Versions hostInv))]"

definition ensureAgentServiceConfig :: "('w, 'x) env_scheme \<Rightarrow> hostInventoryConfig \<Rightarrow> string \<Rightarrow> ('w, goerr option) go" where
  "ensureAgentServiceConfig E hostInv rhcosServerURL = do {
     existing \<leftarrow> Get E (KUnstr (agentGVK ''AgentServiceConfig'')) theUnstr ([], ''agent'');
     case existing of
       Inr _ \<Rightarrow> return None
     | Inl err \<Rightarrow>
         if \<not> isNotFound err then return (Some err)
         else do {
           c \<leftarrow> Create E OUnstr theUnstr
                 (withSpec (agentServiceSpec hostInv rhcosServerURL) (newUnstr (agentGVK ''AgentServiceConfig'') [] ''agent''));
           return (map_option (wrap ''failed to create AgentServiceConfig'') (errOf c)) } }"

definition imageSetGVK :: gvk where
  "imageSetGVK = \<lparr>g_Group = ''hive.openshift.io'', g_Version = ''v1'', g_Kind = ''ClusterImageSet''\<rparr>"

definition imageSetName :: "hostInventoryVersion \<Rightarrow> string" where
  "imageSetName v = ''openshift-'' @ replaceByte (CHR ''.'') ''-'' (hiv_OpenshiftVersion v)"

definition releaseImage :: "string \<Rightarrow> hostInventoryVersion \<Rightarrow> string" where
  "releaseImage mirrorRegistry v =
     registryHostOf mirrorRegistry @ ''/openshift/release-images:'' @ hiv_OpenshiftVersion v @ ''-'' @
       orElse (hiv_CpuArchitecture v) ''x86_64''"

definition clusterImageSet :: "string \<Rightarrow> hostInventoryVersion \<Rightarrow> unstr" where
  "clusterImageSet mirrorRegistry v =
     withSpec [''releaseImage'' \<mapsto> GStr (releaseImage mirrorRegistry v)]
       (withLabels [''visible'' \<mapsto> ''true''] (newUnstr imageSetGVK [] (imageSetName v)))"

fun imageSetLoop :: "('w, 'x) env_scheme \<Rightarrow> string \<Rightarrow> hostInventoryVersion list \<Rightarrow> ('w, goerr option) go" where
  "imageSetLoop E mirrorRegistry [] = return None"
| "imageSetLoop E mirrorRegistry (v # vs) = do {
     existing \<leftarrow> Get E (KUnstr imageSetGVK) theUnstr ([], imageSetName v);
     case existing of
       Inr _ \<Rightarrow> imageSetLoop E mirrorRegistry vs
     | Inl err \<Rightarrow>
         if \<not> isNotFound err then return (Some err)
         else do {
           c \<leftarrow> Create E OUnstr theUnstr (clusterImageSet mirrorRegistry v);
           case c of
             Inl err \<Rightarrow> return (Some (wrap (''failed to create ClusterImageSet '' @ imageSetName v) err))
           | Inr _ \<Rightarrow> imageSetLoop E mirrorRegistry vs } }"

definition ensureClusterImageSets :: "('w, 'x) env_scheme \<Rightarrow> airgappedConfig \<Rightarrow> ('w, goerr option) go" where
  "ensureClusterImageSets E ag =
     (case inventoryOf ag of
        None \<Rightarrow> return None
      | Some hostInv \<Rightarrow>
          if ag_MirrorRegistry ag = [] then return None else imageSetLoop E (ag_MirrorRegistry ag) (hi_Versions hostInv))"

section \<open>The signature policy of discovered hosts\<close>

record policyEntry =
  pe_KeyData :: string
  pe_Scopes :: "string list"

text \<open>The policies that have a key and a scope, and the pairs of mirror and source of the mirror sets.\<close>

definition policiesOf :: "('w, 'x) env_scheme \<Rightarrow> unstr list \<Rightarrow> policyEntry list" where
  "policiesOf E cips =
     concat (map (\<lambda>cip.
       let keyData = fst (nestedString E (u_Object cip) [''spec'', ''policy'', ''rootOfTrust'', ''publicKey'', ''keyData'']);
           scopes = fst (nestedStringSlice E (u_Object cip) [''spec'', ''scopes''])
       in if keyData = [] \<or> scopes = [] then [] else [\<lparr>pe_KeyData = keyData, pe_Scopes = scopes\<rparr>]) cips)"

definition mappingsOf :: "('w, 'x) env_scheme \<Rightarrow> unstr list \<Rightarrow> (string \<times> string) list" where
  "mappingsOf E items =
     concat (map (\<lambda>item. concat (map (\<lambda>entry. case asMap (Some entry) of
         None \<Rightarrow> []
       | Some e \<Rightarrow>
           let source = fst (nestedString E (GMap e) [''source'']) in
           map (\<lambda>m. (m, source)) (fst (nestedStringSlice E (GMap e) [''mirrors''])))
       (fst (nestedSlice E (u_Object item) [''spec'', ''imageDigestMirrors''])))) items)"

definition acceptAnything :: goval where
  "acceptAnything = GList [GMap [''type'' \<mapsto> GStr ''insecureAcceptAnything'']]"

definition signedBy :: "string \<Rightarrow> gomap \<Rightarrow> goval" where
  "signedBy keyData signed =
     GList [GMap [''type'' \<mapsto> GStr ''sigstoreSigned'', ''keyData'' \<mapsto> GStr keyData, ''signedIdentity'' \<mapsto> GMap signed]]"

definition exactIdentity :: gomap where
  "exactIdentity = [''type'' \<mapsto> GStr ''matchRepoDigestOrExact'']"

definition remapIdentity :: "string \<Rightarrow> string \<Rightarrow> gomap" where
  "remapIdentity mirror scope = [''type'' \<mapsto> GStr ''remapIdentity'', ''prefix'' \<mapsto> GStr mirror, ''signedPrefix'' \<mapsto> GStr scope]"

text \<open>What the loops write, in their order: the scopes of the policies, each followed by its mirrors.\<close>

definition scopeKeys :: "policyEntry list \<Rightarrow> (string \<times> string) list" where
  "scopeKeys pols = concat (map (\<lambda>pol. map (\<lambda>scope. (pe_KeyData pol, scope)) (pe_Scopes pol)) pols)"

definition mirrorsOf :: "(string \<times> string) list \<Rightarrow> string \<Rightarrow> string list" where
  "mirrorsOf mappings scope = map fst (filter (\<lambda>(_, source). source = scope) mappings)"

definition transportWrites :: "(string \<times> string) list \<Rightarrow> (string \<times> string) list \<Rightarrow> (string \<times> goval) list" where
  "transportWrites mappings scopes =
     concat (map (\<lambda>(keyData, scope). (scope, signedBy keyData exactIdentity) #
       map (\<lambda>mirror. (mirror, signedBy keyData (remapIdentity mirror scope))) (mirrorsOf mappings scope)) scopes)"

definition putAll :: "(string \<times> goval) list \<Rightarrow> gomap \<Rightarrow> gomap" where
  "putAll ws m = foldl (\<lambda>m (k, v). m(k \<mapsto> v)) m ws"

definition dockerTransport :: "policyEntry list \<Rightarrow> (string \<times> string) list \<Rightarrow> gomap" where
  "dockerTransport pols mappings = (putAll (transportWrites mappings (scopeKeys pols)) Map.empty)([] \<mapsto> acceptAnything)"

definition policyJSON :: "policyEntry list \<Rightarrow> (string \<times> string) list \<Rightarrow> gomap" where
  "policyJSON pols mappings =
     [''default'' \<mapsto> acceptAnything,
      ''transports'' \<mapsto> GMap [''atomic'' \<mapsto> GMap (dockerTransport pols mappings), ''docker'' \<mapsto> GMap (dockerTransport pols mappings),
        ''docker-daemon'' \<mapsto> GMap [[] \<mapsto> acceptAnything]]]"

definition attachmentWrites :: "(string \<times> string) list \<Rightarrow> (string \<times> string) list \<Rightarrow> (string \<times> goval) list" where
  "attachmentWrites mappings scopes =
     concat (map (\<lambda>(_, scope). map (\<lambda>k. (k, GMap [''use-sigstore-attachments'' \<mapsto> GBool True])) (scope # mirrorsOf mappings scope)) scopes)"

definition registriesD :: "policyEntry list \<Rightarrow> (string \<times> string) list \<Rightarrow> gomap" where
  "registriesD pols mappings = [''docker'' \<mapsto> GMap (putAll (attachmentWrites mappings (scopeKeys pols)) Map.empty)]"

definition overrideFile :: "string \<Rightarrow> string \<Rightarrow> goval" where
  "overrideFile path content =
     GMap [''path'' \<mapsto> GStr path, ''mode'' \<mapsto> GInt 420, ''overwrite'' \<mapsto> GBool True,
           ''contents'' \<mapsto> GMap [''source'' \<mapsto> GStr (''data:text/plain;charset=utf-8;base64,'' @ stdEncodeToString content)]]"

definition ignitionConfig :: "string \<Rightarrow> string \<Rightarrow> gomap" where
  "ignitionConfig policyBytes registriesDBytes =
     [''ignition'' \<mapsto> GMap [''version'' \<mapsto> GStr ''3.2.0''],
      ''storage'' \<mapsto> GMap [''files'' \<mapsto> GList
        [overrideFile ''/etc/containers/policy.json'' policyBytes,
         overrideFile ''/etc/containers/registries.d/sigstore-registries.yaml'' registriesDBytes]]]"

text \<open>A text that cannot be encoded is logged, and there is no override.\<close>

definition ignitionText :: "('w, 'x) platformEnv_scheme \<Rightarrow> policyEntry list \<Rightarrow> (string \<times> string) list \<Rightarrow> string" where
  "ignitionText E pols mappings =
     (case jsonMarshal E (policyJSON pols mappings) of
        Inl _ \<Rightarrow> []
      | Inr policyBytes \<Rightarrow>
          (case yamlOfMap E (registriesD pols mappings) of
             Inl _ \<Rightarrow> []
           | Inr registriesDBytes \<Rightarrow>
               (case jsonMarshal E (ignitionConfig policyBytes registriesDBytes) of Inl _ \<Rightarrow> [] | Inr s \<Rightarrow> s)))"

definition buildIgnitionConfigOverride :: "('w, 'x) platformEnv_scheme \<Rightarrow> ('w, string) go" where
  "buildIgnitionConfigOverride E = do {
     cips \<leftarrow> ListObjs E (KUnstr (configGVK ''ClusterImagePolicy'')) theUnstr allObjects;
     let pols = policiesOf E (itemsOr cips);
     if pols = [] then return []
     else do {
       idms \<leftarrow> ListObjs E (KUnstr (configGVK ''ImageDigestMirrorSet'')) theUnstr allObjects;
       return (ignitionText E pols (mappingsOf E (itemsOr idms))) } }"

section \<open>The discovery environment\<close>

definition toStringInterfaceMap :: "strmap \<Rightarrow> gomap" where
  "toStringInterfaceMap m = map_option GStr \<circ> m"

definition ifSet :: "string \<Rightarrow> string \<Rightarrow> gomap \<Rightarrow> gomap" where
  "ifSet k v m = (if v \<noteq> [] then m(k \<mapsto> GStr v) else m)"

definition proxySpec :: "string \<times> string \<times> string \<Rightarrow> gomap \<Rightarrow> gomap" where
  "proxySpec p m = (case p of (httpProxy, httpsProxy, noProxy) \<Rightarrow>
     if httpProxy \<noteq> [] \<or> httpsProxy \<noteq> [] \<or> noProxy \<noteq> []
     then m(''proxy'' \<mapsto> GMap (ifSet ''noProxy'' noProxy (ifSet ''httpsProxy'' httpsProxy (ifSet ''httpProxy'' httpProxy Map.empty)))) else m)"

text \<open>The flag says whether there is a label: \<^verbatim>\<open>len\<close> of the map is not zero where \<^verbatim>\<open>range\<close> visits a key.\<close>

definition infraEnvSpec ::
  "infraEnvConfig \<Rightarrow> bool \<Rightarrow> string \<Rightarrow> string \<Rightarrow> string \<times> string \<times> string \<Rightarrow> string \<Rightarrow> string \<Rightarrow> gomap" where
  "infraEnvSpec cfg labelled version sshKey clusterProxy caBundle ignitionOverride =
     (let m = [''pullSecretRef'' \<mapsto> GMap [''name'' \<mapsto> GStr ''pull-secret'']];
          m = ifSet ''osImageVersion'' version m;
          m = m(''cpuArchitecture'' \<mapsto> GStr (orElse (ie_CpuArchitecture cfg) ''x86_64''),
                ''imageType'' \<mapsto> GStr (orElse (ie_ImageType cfg) ''full-iso''));
          m = proxySpec clusterProxy (ifSet ''sshAuthorizedKey'' sshKey m);
          m = (if ie_AdditionalNTPSources cfg \<noteq> []
               then m(''additionalNTPSources'' \<mapsto> GList (map GStr (ie_AdditionalNTPSources cfg))) else m);
          m = ifSet ''additionalTrustBundle'' caBundle m;
          m = m(''mirrorRegistryRef'' \<mapsto> GMap [''name'' \<mapsto> GStr mirrorConfigName, ''namespace'' \<mapsto> GStr ''multicluster-engine'']);
          m = (if ie_NetworkType cfg = ''static'' \<and> labelled
               then m(''nmStateConfigLabelSelector'' \<mapsto> GMap [''matchLabels'' \<mapsto> GMap (toStringInterfaceMap (ie_NMStateConfigLabels cfg))]) else m)
      in ifSet ''ignitionConfigOverride'' ignitionOverride m)"

definition ensureInfraEnv :: "('w, 'x) platformEnv_scheme \<Rightarrow> airgappedConfig \<Rightarrow> hostInventoryConfig \<Rightarrow> ('w, goerr option) go" where
  "ensureInfraEnv E ag hostInv =
     (case hi_InfraEnv hostInv of
        None \<Rightarrow> return None
      | Some cfg \<Rightarrow>
          if \<not> ie_Enabled cfg then return None
          else do {
            let ns = orElse (ie_Namespace cfg) architectNamespace;
            existing \<leftarrow> Get E (KUnstr (agentGVK ''InfraEnv'')) theUnstr (ns, ''mirror-operator-infraenv'');
            case existing of
              Inr _ \<Rightarrow> return None
            | Inl err \<Rightarrow>
                if \<not> isNotFound err then return (Some err)
                else do {
                  version \<leftarrow> getClusterVersion E;
                  sshKey \<leftarrow> (if ie_SSHAuthorizedKey cfg = [] then getClusterSSHKey E else return (ie_SSHAuthorizedKey cfg));
                  clusterProxy \<leftarrow> getClusterProxy E;
                  caBundle \<leftarrow> getMirrorRegistryCA E ag;
                  ignitionOverride \<leftarrow> buildIgnitionConfigOverride E;
                  let labelled = (rangeOrder E (toStringInterfaceMap (ie_NMStateConfigLabels cfg)) \<noteq> []);
                  c \<leftarrow> Create E OUnstr theUnstr
                        (withSpec (infraEnvSpec cfg labelled version sshKey clusterProxy caBundle ignitionOverride)
                          (newUnstr (agentGVK ''InfraEnv'') ns ''mirror-operator-infraenv''));
                  return (map_option (wrap ''failed to create InfraEnv'') (errOf c)) } })"

section \<open>The credential and the removal\<close>

definition acmCredential :: "string \<Rightarrow> string \<Rightarrow> string \<Rightarrow> string \<Rightarrow> string \<Rightarrow> secret" where
  "acmCredential name ns pullSecretJSON sshPublicKey baseDomain =
     \<lparr>sec_Meta = (nameMeta ns name)\<lparr>m_Labels :=
        [''cluster.open-cluster-management.io/type'' \<mapsto> ''hostinventory'', ''cluster.open-cluster-management.io/credentials'' \<mapsto> []]\<rparr>,
      sec_Type = opaqueType, sec_Data = None,
      sec_StringData = Some [''pullSecret'' \<mapsto> pullSecretJSON, ''ssh-publickey'' \<mapsto> sshPublicKey, ''baseDomain'' \<mapsto> baseDomain]\<rparr>"

definition ensureACMCredential :: "('w, 'x) env_scheme \<Rightarrow> hostInventoryConfig \<Rightarrow> ('w, goerr option) go" where
  "ensureACMCredential E hostInv =
     (case hi_Credential hostInv of
        None \<Rightarrow> return None
      | Some cfg \<Rightarrow>
          if \<not> cred_Enabled cfg then return None
          else do {
            let name = orElse (cred_Name cfg) ''mirror-operator-credential'';
            let ns = orElse (cred_Namespace cfg) ''multicluster-engine'';
            existing \<leftarrow> Get E KSecret theSecret (ns, name);
            case existing of
              Inr _ \<Rightarrow> return None
            | Inl err \<Rightarrow>
                if \<not> isNotFound err then return (Some err)
                else do {
                  source \<leftarrow> Get E KSecret theSecret (architectNamespace, ''pull-secret'');
                  case source of
                    Inl err \<Rightarrow> return (Some (wrap ''failed to get pull-secret for ACM credential'' err))
                  | Inr source \<Rightarrow> do {
                      let key = (case hi_InfraEnv hostInv of None \<Rightarrow> [] | Some i \<Rightarrow> ie_SSHAuthorizedKey i);
                      sshPublicKey \<leftarrow> (if key = [] then getClusterSSHKey E else return key);
                      c \<leftarrow> Create E OSecret theSecret
                            (acmCredential name ns (secGet source pullSecretKey) sshPublicKey (cred_BaseDomain cfg));
                      return (map_option (wrap ''failed to create ACM credential'') (errOf c)) } } })"

fun deleteObjects :: "('w, 'x) env_scheme \<Rightarrow> (kind \<times> nsname) list \<Rightarrow> ('w, unit) go" where
  "deleteObjects E [] = return ()"
| "deleteObjects E ((k, nn) # os) = do { _ \<leftarrow> Delete E k nn; deleteObjects E os }"

definition hostInventoryResources :: "(kind \<times> nsname) list" where
  "hostInventoryResources =
     [(KUnstr (agentGVK ''InfraEnv''), (architectNamespace, ''mirror-operator-infraenv'')),
      (KUnstr (agentGVK ''AgentServiceConfig''), ([], ''agent'')), (KNative ''Deployment'', (architectNamespace, rhcosServer)),
      (KNative ''Service'', (architectNamespace, rhcosServer)), (KConfigMap, (''multicluster-engine'', mirrorConfigName)),
      (KSecret, (''multicluster-engine'', ''mirror-operator-credential''))]"

definition deleteHostInventoryResources :: "('w, 'x) env_scheme \<Rightarrow> ('w, unit) go" where
  "deleteHostInventoryResources E = deleteObjects E hostInventoryResources"

definition acmResources :: "(kind \<times> nsname) list" where
  "acmResources =
     [(KUnstr hubGVK, (acmNamespace, ''multiclusterhub'')),
      (KUnstr subscriptionGVK, (acmNamespace, ''mirror-operator-advanced-cluster-management''))]"

definition deleteAirgappedACM :: "('w, 'x) env_scheme \<Rightarrow> ('w, unit) go" where
  "deleteAirgappedACM E = deleteObjects E acmResources"

end
