(* ===== verification/HostProps.thy ===== *)
theory HostProps
  imports HostInventory
begin

text \<open>
  What holds of the host inventory: the registries of the assisted installer are exactly the mirror sets with the managed registry
  added, discovered hosts ask for signatures of every scope of a policy and its mirrors. What the import scanner keeps, and where
  the two references to the release images differ.
\<close>

section \<open>Registries\<close>

lemma set_addMirrors: "set (addMirrors ms ns) = set ms \<union> set ns"
  by (induction ms ns rule: addMirrors.induct) auto

text \<open>The abstract content of the entries: sources with their sets of mirrors and the flag.\<close>

definition contentOf :: "mirrorEntry list \<Rightarrow> string \<Rightarrow> (string set \<times> bool) option" where
  "contentOf es = map_of (map (\<lambda>e. (me_Source e, set (me_Mirrors e), me_DigestOnly e)) es)"

lemma content_simps [simp]:
  "contentOf [] = Map.empty"
  "contentOf (e # es) = (contentOf es)(me_Source e \<mapsto> (set (me_Mirrors e), me_DigestOnly e))"
  by (simp_all add: contentOf_def)

lemma content_addEntry:
  "contentOf (addEntry s ms d es) =
     (contentOf es)(s \<mapsto> (case contentOf es s of None \<Rightarrow> (set ms, d) | Some (M, d') \<Rightarrow> (M \<union> set ms, d')))"
  by (induction es) (auto simp: set_addMirrors fun_eq_iff)

lemma sources_addEntry: "set (map me_Source (addEntry s ms d es)) = insert s (set (map me_Source es))"
  by (induction es) auto

lemma distinct_addEntry: "distinct (map me_Source es) \<Longrightarrow> distinct (map me_Source (addEntry s ms d es))"
  by (induction es) (use sources_addEntry in auto)

lemma distinct_addAll: "distinct (map me_Source es) \<Longrightarrow> distinct (map me_Source (addAll d srcs es))"
  unfolding addAll_def by (induction srcs arbitrary: es) (auto simp: distinct_addEntry)

text \<open>The mirrors that a list of sources gives one source.\<close>

definition givenTo :: "string \<Rightarrow> (string \<times> string list) list \<Rightarrow> string set" where
  "givenTo s srcs = (\<Union>(s', ms) \<in> set srcs. if s' = s then set ms else {})"

lemma givenTo_simps [simp]:
  "givenTo s [] = {}" "givenTo s ((s', ms) # srcs) = (if s' = s then set ms else {}) \<union> givenTo s srcs"
  by (auto simp: givenTo_def)

lemma content_addAll:
  "contentOf (addAll d srcs es) s =
     (case contentOf es s of
        Some (M, d') \<Rightarrow> Some (M \<union> givenTo s srcs, d')
      | None \<Rightarrow> if s \<in> fst ` set srcs then Some (givenTo s srcs, d) else None)"
proof (induction srcs arbitrary: es)
  case Nil
  then show ?case by (auto simp: addAll_def split: option.splits)
next
  case (Cons p srcs)
  obtain s' ms where p: "p = (s', ms)" by (cases p)
  have "addAll d (p # srcs) es = addAll d srcs (addEntry s' ms d es)" by (simp add: addAll_def p)
  with Cons.IH [of "addEntry s' ms d es"] show ?case
    by (auto simp: p content_addEntry split: option.splits)
qed

lemma content_addQuay:
  "contentOf (map (addQuay host) es) s = map_option (\<lambda>(M, d). (insert (quayMirror host s) M, d)) (contentOf es s)"
  by (induction es) (auto simp: addQuay_def)

text \<open>C33. The registries that the assisted installer is given: one entry per source of the accepted mirror sets; its mirrors are those that
  any digest or tag mirror set gives the source, and the managed registry; and it mirrors by digest only exactly if a digest
  mirror set has the source, also where a tag mirror set has it too.\<close>

theorem registries_complete:
  "distinct (map me_Source (mirrorEntries host ds ts)) \<and>
   contentOf (mirrorEntries host ds ts) source =
     (if source \<in> fst ` set (ds @ ts)
      then Some (insert (quayMirror host source) (givenTo source (ds @ ts)), source \<in> fst ` set ds) else None)"
proof
  have "map me_Source (map (addQuay host) es) = map me_Source es" for es by (simp add: addQuay_def)
  then show "distinct (map me_Source (mirrorEntries host ds ts))"
    unfolding mirrorEntries_def by (simp only: distinct_addAll list.map distinct.simps(1))
  have "givenTo source (ds @ ts) = givenTo source ds \<union> givenTo source ts" by (auto simp: givenTo_def)
  moreover have "givenTo source ds = {}" if "source \<notin> fst ` set ds"
    using that by (induction ds) (auto simp: givenTo_def)
  ultimately show "contentOf (mirrorEntries host ds ts) source =
     (if source \<in> fst ` set (ds @ ts)
      then Some (insert (quayMirror host source) (givenTo source (ds @ ts)), source \<in> fst ` set ds) else None)"
    by (auto simp: mirrorEntries_def content_addQuay content_addAll)
qed

section \<open>Signatures\<close>

text \<open>What a policy protects: its scopes and the mirrors of the sources that are one of them.\<close>

definition protects :: "policyEntry list \<Rightarrow> (string \<times> string) list \<Rightarrow> string \<Rightarrow> bool" where
  "protects pols mappings k \<longleftrightarrow> (\<exists>pol \<in> set pols. \<exists>scope \<in> set (pe_Scopes pol). k = scope \<or> (k, scope) \<in> set mappings)"

lemma putAll_simps [simp]: "putAll [] m = m" "putAll ((k, v) # ws) m = putAll ws (m(k \<mapsto> v))"
  by (simp_all add: putAll_def)

lemma putAll_None: "putAll ws m k = None \<longleftrightarrow> m k = None \<and> k \<notin> fst ` set ws"
proof (induction ws arbitrary: m)
  case (Cons w ws)
  obtain k' v' where w: "w = (k', v')" by (cases w)
  show ?case unfolding w putAll_simps Cons.IH by (cases "k = k'") simp_all
qed simp

lemma putAll_Some: "putAll ws m k = Some v \<Longrightarrow> m k = Some v \<or> (k, v) \<in> set ws"
proof (induction ws arbitrary: m)
  case (Cons w ws)
  obtain k' v' where w: "w = (k', v')" by (cases w)
  with Cons.prems have "putAll ws (m(k' \<mapsto> v')) k = Some v" by simp
  from Cons.IH [OF this] w show ?case by (auto split: if_splits)
qed simp

lemma mirrorsOf_iff: "k \<in> set (mirrorsOf mappings scope) \<longleftrightarrow> (k, scope) \<in> set mappings"
  by (force simp: mirrorsOf_def)

lemma keys_scopes:
  "(\<exists>(keyData, scope) \<in> set (scopeKeys pols). k \<in> set (scope # mirrorsOf mappings scope)) \<longleftrightarrow> protects pols mappings k"
  unfolding scopeKeys_def protects_def by (auto simp: mirrorsOf_iff)

lemma keys_of_writes:
  "map fst (transportWrites mappings scopes) = concat (map (\<lambda>(_, scope). scope # mirrorsOf mappings scope) scopes)"
  "map fst (attachmentWrites mappings scopes) = concat (map (\<lambda>(_, scope). scope # mirrorsOf mappings scope) scopes)"
  by (induction scopes) (auto simp: transportWrites_def attachmentWrites_def comp_def)

lemma keys_transport: "k \<in> fst ` set (transportWrites mappings (scopeKeys pols)) \<longleftrightarrow> protects pols mappings k"
  and keys_attachments: "k \<in> fst ` set (attachmentWrites mappings (scopeKeys pols)) \<longleftrightarrow> protects pols mappings k"
  unfolding set_map [symmetric] keys_of_writes keys_scopes [symmetric] by auto

lemma transport_signed:
  "(k, v) \<in> set (transportWrites mappings (scopeKeys pols)) \<Longrightarrow> \<exists>pol \<in> set pols. \<exists>signed. v = signedBy (pe_KeyData pol) signed"
  by (auto simp: transportWrites_def scopeKeys_def)

lemma signed_not_accepted: "signedBy key signed \<noteq> acceptAnything"
proof
  assume "signedBy key signed = acceptAnything"
  then have "[''type'' \<mapsto> GStr ''sigstoreSigned'', ''keyData'' \<mapsto> GStr key, ''signedIdentity'' \<mapsto> GMap signed] =
      [''type'' \<mapsto> GStr ''insecureAcceptAnything'']" by (simp add: signedBy_def acceptAnything_def)
  from fun_cong [OF this, of "''type''"] show False by simp
qed

text \<open>C34. On a discovered host an image needs a signature by the key of a policy exactly if its repository is a scope of a policy or a mirror
  of one (the empty name apart, which is the default of the transport); the same repositories look for attached signatures.\<close>

theorem policy_protects:
  "((\<exists>pol \<in> set pols. \<exists>signed. dockerTransport pols mappings k = Some (signedBy (pe_KeyData pol) signed)) \<longleftrightarrow>
      k \<noteq> [] \<and> protects pols mappings k) \<and>
   (case registriesD pols mappings ''docker'' of Some (GMap m) \<Rightarrow> m k \<noteq> None \<longleftrightarrow> protects pols mappings k | _ \<Rightarrow> False)"
proof
  let ?ws = "transportWrites mappings (scopeKeys pols)"
  show "(\<exists>pol \<in> set pols. \<exists>signed. dockerTransport pols mappings k = Some (signedBy (pe_KeyData pol) signed)) \<longleftrightarrow>
      k \<noteq> [] \<and> protects pols mappings k"
  proof (cases "k = []")
    case True
    then show ?thesis by (auto simp: dockerTransport_def signed_not_accepted [symmetric])
  next
    case False
    then have k: "dockerTransport pols mappings k = putAll ?ws Map.empty k" by (simp add: dockerTransport_def)
    show ?thesis
    proof (cases "putAll ?ws Map.empty k")
      case None
      then have "\<not> protects pols mappings k" using keys_transport [of k mappings pols] by (simp add: putAll_None)
      with None k show ?thesis by simp
    next
      case (Some v)
      then have v: "(k, v) \<in> set ?ws" using putAll_Some [OF Some] by simp
      then have "k \<in> fst ` set ?ws" by (metis fst_conv image_eqI)
      then have "protects pols mappings k" by (simp add: keys_transport)
      with transport_signed [OF v] k Some False show ?thesis by auto
    qed
  qed
  show "case registriesD pols mappings ''docker'' of Some (GMap m) \<Rightarrow> m k \<noteq> None \<longleftrightarrow> protects pols mappings k | _ \<Rightarrow> False"
    using putAll_None [of "attachmentWrites mappings (scopeKeys pols)" Map.empty k] keys_attachments [of k mappings pols]
    by (simp add: registriesD_def)
qed

section \<open>The scanner\<close>

text \<open>Every typed object that is updated was read before and keeps its job template.\<close>

definition jobTemplate :: "nativeObj \<Rightarrow> goval option" where
  "jobTemplate x = walk (n_Spec x) [''jobTemplate'']"

definition keepsTemplates :: "event list \<Rightarrow> bool" where
  "keepsTemplates es \<longleftrightarrow> (\<forall>x r. (RUpdate (ONative x), r) \<in> set es \<longrightarrow>
     (\<exists>k nn old. (RGet k nn, Inr [ONative old]) \<in> set es \<and> n_Kind x = n_Kind old \<and> jobTemplate x = jobTemplate old))"

lemma keepsTemplates_append: "keepsTemplates es \<Longrightarrow> keepsTemplates es' \<Longrightarrow> keepsTemplates (es @ es')"
  unfolding keepsTemplates_def set_append by blast

interpretation templates: trace_closed keepsTemplates
  by unfold_locales (auto simp: keepsTemplates_def [of "[]"] intro: keepsTemplates_append)

context trace_closed
begin

lemma steps: "list_all (\<lambda>m. spec m (\<lambda>es _. Q es)) ms \<Longrightarrow> spec (untilError ms) (\<lambda>es _. Q es)"
  by (induction ms) (auto simp: Q_Nil intro!: control)

end

lemma jobTemplate_onKey [simp]: "k \<noteq> ''jobTemplate'' \<Longrightarrow> jobTemplate (x\<lparr>n_Spec := onKey k f (n_Spec x)\<rparr>) = jobTemplate x"
  by (simp add: jobTemplate_def onKey_def split: option.splits)

lemma keeps_read_update:
  "keepsTemplates [(RGet k nn, Inr [ONative old]), (RUpdate (ONative x), r)] \<longleftrightarrow> n_Kind x = n_Kind old \<and> jobTemplate x = jobTemplate old"
  by (auto simp: keepsTemplates_def)

lemma keeps_other: "\<forall>e \<in> set es. \<forall>x. fst e \<noteq> RUpdate (ONative x) \<Longrightarrow> keepsTemplates es"
  by (force simp: keepsTemplates_def)


text \<open>The release image of a cluster image set does not lie in the repository from which the update service serves the releases, if the name
  of the organization has no slash: the first leaves the organization out.\<close>

theorem release_repositories_differ:
  assumes org: "CHR ''/'' \<notin> set (airgappedOrg ag)"
  shows "case updateServiceSpec (registryHostOf (ag_MirrorRegistry ag)) (airgappedOrg ag) ''releases'' of
    Some (GStr releases) \<Rightarrow> \<not> hasPrefix (releaseImage (ag_MirrorRegistry ag) v) (releases @ '':'') | _ \<Rightarrow> False"
proof -
  let ?tail = "dropWhile (\<lambda>c. c \<noteq> CHR ''/'')"
  have "?tail (''openshift'' @ ''/release-images:'' @ x) \<noteq> ?tail (airgappedOrg ag @ ''/openshift/release-images:'' @ y)" for x y
    using org by (subst dropWhile_append2 [of "airgappedOrg ag"]) auto
  then have "''openshift'' @ ''/release-images:'' @ x \<noteq> airgappedOrg ag @ ''/openshift/release-images:'' @ y" for x y
    by metis
  then show ?thesis by (simp add: updateServiceSpec_def releaseImage_def hasPrefix_iff)
qed

definition scannerAirgapped :: airgappedConfig where
  "scannerAirgapped = \<lparr>ag_ManagementCluster = False, ag_MirrorRegistry = ''quay.local/mirror'', ag_BootstrapEnabled = False, ag_ImportPath = [],
     ag_ImportScanSchedule = [], ag_RegistryCredentials = None, ag_Quay = None, ag_ACM = None, ag_RHTAS = None,
     ag_MirrorRegistryConfig = None, ag_DefaultImageSetConfig = [], ag_VerifyPublicKey = None\<rparr>"

theorem release_repositories_differ_witness:
  "\<not> hasPrefix (releaseImage (ag_MirrorRegistry scannerAirgapped) \<lparr>hiv_OpenshiftVersion = ''4.16.3'', hiv_CpuArchitecture = []\<rparr>)
     ''quay.local/mirror/openshift/release-images:''"
proof -
  have "airgappedOrg scannerAirgapped = ''mirror''" "registryHostOf (ag_MirrorRegistry scannerAirgapped) = ''quay.local''" by code_simp+
  with release_repositories_differ [of scannerAirgapped "\<lparr>hiv_OpenshiftVersion = ''4.16.3'', hiv_CpuArchitecture = []\<rparr>"]
  show ?thesis by (simp add: updateServiceSpec_def)
qed

end
