(* ===== verification/Airgapped.thy ===== *)
theory Airgapped
  imports HostProps PipelineTemplate
begin

text \<open>
  The reconciliation of the airgapped mode, from \<^verbatim>\<open>disconnectedplatform_airgapped.go\<close>: its steps in their order, each of which asks
  for another reconciliation when it fails, behind the hub of Advanced Cluster Management.
\<close>

section \<open>The reconciliation\<close>

definition reconcileMirrorRegistry :: "('w, 'x) platformEnv_scheme \<Rightarrow> disconnectedPlatform \<Rightarrow> ('w, goerr option) go" where
  "reconcileMirrorRegistry E platform = Manager_Reconcile E platform"

text \<open>A step works on the platform and may fail, which is logged and asks for a requeue; a panic ends the reconciliation.\<close>

type_synonym 'w platformStep = "disconnectedPlatform \<Rightarrow> ('w, disconnectedPlatform \<times> goerr option) go"

fun runSteps :: "'w platformStep list \<Rightarrow> disconnectedPlatform \<Rightarrow> bool \<Rightarrow> ('w, disconnectedPlatform \<times> bool \<times> goerr option) go" where
  "runSteps [] platform needsRequeue = return (platform, needsRequeue, None)"
| "runSteps (m # ms) platform needsRequeue = do {
     (platform, err) \<leftarrow> m platform;
     case logged err of
       Some p \<Rightarrow> return (platform, needsRequeue, Some p)
     | None \<Rightarrow> runSteps ms platform (needsRequeue \<or> err \<noteq> None) }"

definition reading :: "(disconnectedPlatform \<Rightarrow> ('w, goerr option) go) \<Rightarrow> 'w platformStep" where
  "reading f = (\<lambda>platform. do { err \<leftarrow> f platform; return (platform, err) })"

text \<open>A step on the airgapped block, as the platform has it by then.\<close>

definition withAirgapped ::
  "(disconnectedPlatform \<Rightarrow> airgappedConfig \<Rightarrow> ('w, disconnectedPlatform \<times> goerr option) go) \<Rightarrow> 'w platformStep" where
  "withAirgapped f = (\<lambda>platform.
     case dps_Airgapped (dp_Spec platform) of
       None \<Rightarrow> return (platform, Some (panic ''nil pointer dereference: platform.Spec.Airgapped''))
     | Some ag \<Rightarrow> f platform ag)"

definition rhcosServerURL :: string where
  "rhcosServerURL = ''http://rhcos-server.'' @ architectNamespace @ ''.svc:8080''"

definition inventoryComponent :: componentStatus where
  "inventoryComponent = \<lparr>cst_Name = ''host-inventory'', cst_Status = ''Configured'', cst_Kind = ''AgentServiceConfig'',
     cst_APIGroup = ''agent-install.openshift.io'', cst_Namespace = [], cst_URL = [], cst_LastCheck = None\<rparr>"

definition hostSteps :: "('w, 'x) platformEnv_scheme \<Rightarrow> airgappedConfig \<Rightarrow> 'w platformStep list" where
  "hostSteps E ag =
     reading (\<lambda>_. ensureProvisioningConfiguration E) #
     (case inventoryOf ag of
        None \<Rightarrow> []
      | Some hostInv \<Rightarrow>
          [reading (\<lambda>_. ensureAssistedInstallerMirrorConfig E ag),
           reading (\<lambda>platform. reconcileRHCOSServer E platform ag),
           reading (\<lambda>_. ensureAgentServiceConfig E hostInv rhcosServerURL),
           reading (\<lambda>_. ensureClusterImageSets E ag),
           reading (\<lambda>_. ensureInfraEnv E ag hostInv),
           reading (\<lambda>_. ensureACMCredential E hostInv),
           (\<lambda>platform. return (appendComponents [inventoryComponent] platform, None))])"

definition airgappedSteps :: "('w, 'x) platformEnv_scheme \<Rightarrow> platformReconciler \<Rightarrow> 'w platformStep list" where
  "airgappedSteps E r =
     [withAirgapped (\<lambda>platform ag. reading (\<lambda>platform.
        if ag_MirrorRegistryConfig ag \<noteq> None then reconcileMirrorRegistry E platform else return None) platform),
      withAirgapped (reconcileAirgappedQuay E),
      reading (ensureAirgappedRegistryCredentials E r),
      withAirgapped (\<lambda>platform ag. reading (\<lambda>platform.
        if ag_ImportPath ag \<noteq> [] then reconcileImportScanner E platform ag else return None) platform),
      withAirgapped (\<lambda>platform ag. reading (\<lambda>_. ensureAirgappedUpdateService E ag) platform),
      reading (\<lambda>platform. if dpr_TektonAvailable r then reconcileImportPipelineTemplate E r platform else return None)]"

definition reconcileAirgapped ::
  "('w, 'x) platformEnv_scheme \<Rightarrow> platformReconciler \<Rightarrow> disconnectedPlatform \<Rightarrow> ('w, disconnectedPlatform \<times> bool \<times> goerr option) go" where
  "reconcileAirgapped E r platform =
     (case dps_Airgapped (dp_Spec platform) of
        None \<Rightarrow> return (platform, False, Some (panic ''nil pointer dereference: platform.Spec.Airgapped''))
      | Some ag \<Rightarrow>
          (case ag_ACM ag of
             Some acm \<Rightarrow>
               if acm_Enabled acm then do {
                 (platform, mchReady, err) \<leftarrow> reconcileAirgappedACM E platform ag acm;
                 case logged err of
                   Some p \<Rightarrow> return (platform, False, Some p)
                 | None \<Rightarrow>
                     if \<not> mchReady then return (platform, True, None)
                     else runSteps (hostSteps E ag @ airgappedSteps E r) platform (err \<noteq> None) }
               else runSteps (airgappedSteps E r) platform False
           | None \<Rightarrow> runSteps (airgappedSteps E r) platform False))"

section \<open>Waiting for the hub\<close>

text \<open>The requests that the installation of Advanced Cluster Management may make: it creates namespaces, config maps, the pull secret, the
  operator group, the subscription and the hub, updates no typed object, writes no platform and deletes nothing.\<close>

definition acmRequest :: "request \<Rightarrow> bool" where
  "acmRequest q =
     (case q of
        RCreate x \<Rightarrow> theNamespace x \<noteq> None \<or> theConfigMap x \<noteq> None \<or> theSecret x \<noteq> None \<or>
          (case theUnstr x of Some u \<Rightarrow> u_GVK u \<in> {operatorGroupGVK, subscriptionGVK, hubGVK} | None \<Rightarrow> False)
      | RUpdate x \<Rightarrow> theUnstr x \<noteq> None \<or> theConfigMap x \<noteq> None \<or> theSecret x \<noteq> None
      | RStatusUpdate _ \<Rightarrow> False
      | RDelete _ _ \<Rightarrow> False
      | _ \<Rightarrow> True)"

lemma acmRequest_simps [simp]:
  "acmRequest (RGet k nn)" "acmRequest (RList k lo)" "acmRequest (RUpdate (OUnstr u))" "acmRequest (RUpdate (OSecret s))"
  "acmRequest (RUpdate (OConfigMap c))" "acmRequest (RCreate (ONamespace m))" "acmRequest (RCreate (OConfigMap c))"
  "acmRequest (RCreate (OSecret s))" "acmRequest (RCreate (OUnstr u)) \<longleftrightarrow> u_GVK u \<in> {operatorGroupGVK, subscriptionGVK, hubGVK}"
  by (simp_all add: acmRequest_def)

lemma gvk_of_builders [simp]:
  "u_GVK (newUnstr g ns name) = g" "u_GVK (onObject f u) = u_GVK u" "u_GVK (withSpec m u) = u_GVK u"
  by (simp_all add: newUnstr_def onObject_def withSpec_def)

lemma only_acm_operator [only_intros]:
  "only acmRequest (discoverPackageInfo E pkg)" "only acmRequest (ensureNamespace E ns)" "only acmRequest (ensureOperatorGroup E op)"
  "only acmRequest (csvStatus E op)"
  unfolding discoverPackageInfo_def ensureNamespace_def ensureOperatorGroup_def csvStatus_def
  by (intro only_intros; simp)+

lemma only_acm_subscription [only_intros]: "only acmRequest (ensureSubscription E op cfg)"
  unfolding only_def ensureSubscription_def ensureSubscriptionCABundle_def ensureClusterCABundleInNamespace_def
    getClusterCABundleData_def getClusterProxy_def
  by (intro spec_intros; simp)

lemma only_wrapped [only_intros]: "only P m \<Longrightarrow> only P (wrapped msg m)"
  unfolding wrapped_def by (intro only_intros)

lemma only_acm_hub [only_intros]:
  "only acmRequest (ensureACMPullSecret E)" "only acmRequest (ensureMultiClusterHub E ag acm)"
  unfolding ensureACMPullSecret_def ensureMultiClusterHub_def
  by (intro only_intros; simp)+

text \<open>The hub was read as running.\<close>

definition hubRunning :: "('w, 'x) env_scheme \<Rightarrow> event list \<Rightarrow> bool" where
  "hubRunning E es \<longleftrightarrow> (\<exists>mch. (RGet (KUnstr hubGVK) (acmNamespace, ''multiclusterhub''), Inr [OUnstr mch]) \<in> set es \<and> hubPhase E mch = ''Running'')"

lemma spec_reconcileHub:
  "spec (reconcileHub E platform ag acm) (\<lambda>es (p', ready, err). list_all (\<lambda>e. acmRequest (fst e)) es \<and>
     (ready \<longrightarrow> err = None \<and> hubRunning E es))"
  unfolding reconcileHub_def Let_def
  by (intro spec_bindI [OF only_acm_hub(1) [unfolded only_def]] spec_bindI [OF only_acm_hub(2) [unfolded only_def]] spec_intros)
    (auto simp: hubRunning_def split: sum.splits)

lemma spec_ACM:
  "spec (reconcileAirgappedACM E platform ag acm) (\<lambda>es (p', ready, err). list_all (\<lambda>e. acmRequest (fst e)) es \<and>
     (ready \<longrightarrow> err = None \<and> hubRunning E es))"
proof -
  have install: "only acmRequest (untilError
      [wrapped ''namespace for ACM'' (ensureNamespace E (od_ns op)), wrapped ''operatorgroup for ACM'' (ensureOperatorGroup E op),
       wrapped ''subscription for ACM'' (ensureSubscription E op (acm_Subscription acm))])" for op
    by (auto intro!: only_intros)
  have hub: "hubRunning E es \<Longrightarrow> hubRunning E (xs @ es)" for xs es by (auto simp: hubRunning_def)
  show ?thesis
    unfolding reconcileAirgappedACM_def Let_def
    by (intro spec_bindI [OF only_acm_operator(1) [unfolded only_def]] spec_bindI [OF install [unfolded only_def]]
        spec_bindI [OF only_acm_operator(4) [unfolded only_def]] spec_case_sum spec_case_prod spec_case_option spec_if spec_returnI
        spec_mono [OF spec_reconcileHub]) (auto intro: hub)
qed

text \<open>Every step only makes requests.\<close>

lemma only_any_quay [only_intros]:
  "only (\<lambda>_. True) (getQuayRegistry E)" "only (\<lambda>_. True) (getQuayHostname E q)" "only (\<lambda>_. True) (resolveQuayReplicaOverride E n)"
  "only (\<lambda>_. True) (recordAirgappedRegistry E platform url)" "only (\<lambda>_. True) (configureClairVEX E q)"
  "only (\<lambda>_. True) (ensureQuayGunicornTimeout E q)" "only (\<lambda>_. True) (createAirgappedQuayConfigSecret E' platform)"
  unfolding getQuayRegistry_def getQuayHostname_def resolveQuayReplicaOverride_def isSingleNodeOpenShift_def recordAirgappedRegistry_def
    configureClairVEX_def writeClairSecret_def ensureQuayGunicornTimeout_def putComponents_def createAirgappedQuayConfigSecret_def Let_def
  by (intro only_intros TrueI)+

lemma only_any_airgappedQuay [only_intros]: "only (\<lambda>_. True) (reconcileAirgappedQuay E platform ag)"
  unfolding reconcileAirgappedQuay_def updateAirgappedQuay_def logError_def Let_def by (intro only_intros TrueI)

lemma only_any_registry [only_intros]: "only (\<lambda>_. True) (Manager_Reconcile E platform)" "only (\<lambda>_. True) (GetRegistryAddress E' platform)"
  unfolding Manager_Reconcile_def GetRegistryAddress_def resolveConfig_def resolvePullSecret_def ensureCA_def generateCA_def getMasterNodes_def
    step_def ensureMachineConfig_def ensureTrustConfigMap_def ensureImageConfig_def ensureIDMS_def Let_def
  by (intro only_intros TrueI)+

lemma only_any_robot [only_intros]: "only (\<lambda>_. True) (ensureAirgappedRegistryCredentials E r platform)"
  unfolding ensureAirgappedRegistryCredentials_def Let_def by (intro only_intros TrueI)

lemma only_any_scanner [only_intros]:
  "only (\<lambda>_. True) (reconcileImportScanner E platform ag)" "only (\<lambda>_. True) (ensureAirgappedUpdateService E ag)"
  unfolding reconcileImportScanner_def ensureImportScannerRBAC_def ensureImportJobRBAC_def ensureImportScannerScript_def
    ensureScannerCronJob_def createAbsent_def ensureRole_def ensureAirgappedUpdateService_def putUpdateService_def Let_def
  by (auto intro!: only_intros)

lemma only_any_template [only_intros]: "only (\<lambda>_. True) (reconcileImportPipelineTemplate E r platform)"
  unfolding reconcileImportPipelineTemplate_def Let_def by (intro only_intros TrueI)

lemma only_any_hosts [only_intros]:
  "only (\<lambda>_. True) (ensureProvisioningConfiguration E)" "only (\<lambda>_. True) (ensureAssistedInstallerMirrorConfig E' ag)"
  "only (\<lambda>_. True) (reconcileRHCOSServer E platform ag)" "only (\<lambda>_. True) (ensureAgentServiceConfig E' hostInv url)"
  "only (\<lambda>_. True) (ensureACMCredential E' hostInv)"
  unfolding ensureProvisioningConfiguration_def ensureAssistedInstallerMirrorConfig_def getMirrorRegistryCA_def secretValue_def
    userCABundle_def ensureNamespace_def putMirrorConfig_def reconcileRHCOSServer_def rhcosImageOf_def ensureRHCOSDeployment_def
    ensureRHCOSService_def ensureAgentServiceConfig_def ensureACMCredential_def getClusterSSHKey_def Let_def
  by (auto intro!: only_intros)

lemma only_any_imageSets [only_intros]: "only (\<lambda>_. True) (imageSetLoop E registry vs)"
  by (induction vs) (auto intro!: only_intros)

lemma only_any_infraEnv [only_intros]:
  "only (\<lambda>_. True) (ensureInfraEnv E ag hostInv)" "only (\<lambda>_. True) (ensureClusterImageSets E' ag)"
  unfolding ensureInfraEnv_def getClusterVersion_def getClusterSSHKey_def getMirrorRegistryCA_def secretValue_def userCABundle_def
    buildIgnitionConfigOverride_def ensureClusterImageSets_def Let_def
  by (auto intro!: only_intros)

lemma only_any_runSteps: "list_all (\<lambda>m. \<forall>platform. only (\<lambda>_. True) (m platform)) ms \<Longrightarrow> only (\<lambda>_. True) (runSteps ms platform rq)"
  by (induction ms arbitrary: platform rq) (auto intro!: only_intros)

lemma only_any_allSteps: "only (\<lambda>_. True) (runSteps (hostSteps E ag @ airgappedSteps E r) platform rq)"
  by (rule only_any_runSteps)
    (auto simp: hostSteps_def airgappedSteps_def reading_def withAirgapped_def reconcileMirrorRegistry_def split: option.split intro!: only_intros)

text \<open>C32. Where Advanced Cluster Management is wanted, the rest of the airgapped installation waits for its hub: unless the hub was read as
  running, the reconciliation asks to be repeated and has made only the requests that install the hub, so no registry, no machine
  configuration, no scanner, no credential and no platform was written.\<close>

theorem airgapped_waits_for_hub:
  assumes "dps_Airgapped (dp_Spec platform) = Some ag" "ag_ACM ag = Some acm" "acm_Enabled acm"
  shows "spec (reconcileAirgapped E r platform) (\<lambda>es (p', needsRequeue, err).
     hubRunning E es \<or> (needsRequeue \<or> err \<noteq> None) \<and> list_all (\<lambda>e. acmRequest (fst e)) es)"
proof -
  have steps: "spec (runSteps (hostSteps E ag @ airgappedSteps E r) platform rq) (\<lambda>_ _. True)" for platform rq
    by (rule spec_mono [OF only_any_allSteps [unfolded only_def]]) simp
  have hub: "hubRunning E es \<Longrightarrow> hubRunning E (es @ es')" for es es' by (auto simp: hubRunning_def)
  show ?thesis
    unfolding reconcileAirgapped_def assms option.case if_P [OF assms(3)]
    by (intro spec_bindI [OF spec_ACM] spec_case_prod spec_case_option spec_if spec_returnI spec_mono [OF steps])
      (auto intro: hub)
qed

definition hubPlatform :: disconnectedPlatform where
  "hubPlatform = (samplePlatform None [])\<lparr>dp_Spec := (dp_Spec (samplePlatform None []))\<lparr>dps_Airgapped :=
     Some (scannerAirgapped\<lparr>ag_ACM := Some \<lparr>acm_Enabled = True, acm_Subscription = None, acm_MultiClusterHub = None,
       acm_HostInventory = None\<rparr>\<rparr>)\<rparr>\<rparr>"

theorem airgapped_waits_for_hub_witness:
  "let s = run_state (reconcileAirgapped samplePlatformEnv sampleReconciler hubPlatform) (start []) in
     fst (snd (fst s)) \<and> \<not> hubRunning samplePlatformEnv (trace (snd s)) \<and> list_all (\<lambda>e. acmRequest (fst e)) (trace (snd s))"
proof -
  let ?acm = "\<lparr>acm_Enabled = True, acm_Subscription = None, acm_MultiClusterHub = None, acm_HostInventory = None\<rparr>"
  let ?ag = "scannerAirgapped\<lparr>ag_ACM := Some ?acm\<rparr>"
  let ?run = "run_state (reconcileAirgapped samplePlatformEnv sampleReconciler hubPlatform) (start [])"
  have cfg: "dps_Airgapped (dp_Spec hubPlatform) = Some ?ag" "ag_ACM ?ag = Some ?acm" "acm_Enabled ?acm"
    by (simp_all add: hubPlatform_def)
  have run: "fst (snd (fst ?run)) \<and> \<not> hubRunning samplePlatformEnv (trace (snd ?run))"
    by (simp add: reconcileAirgapped_def cfg reconcileAirgappedACM_def discoverPackageInfo_def samplePlatformEnv_def scripted_simps
        logged_def hubRunning_def)
  with spec_run [OF airgapped_waits_for_hub [OF cfg, of samplePlatformEnv sampleReconciler], of "start []"]
  show ?thesis by (auto simp: start_def Let_def)
qed

end
