(* ===== verification/Signing.thy ===== *)
theory Signing
  imports HostInventory HealthCheck
begin

text \<open>
  The signing service and its Keycloak as far as the API server is concerned, from \<^verbatim>\<open>disconnectedplatform_controller.go\<close>: the Securesign
  resource, the certificate and health of Keycloak, the root keys that are copied into a config map and recorded in the status, and what is
  removed with the platform. What is asked of Keycloak over HTTP is in theory \<open>KeycloakAdmin\<close>.
\<close>

section \<open>Securesign\<close>

definition stringAt :: "('w, 'x) env_scheme \<Rightarrow> goval \<Rightarrow> string list \<Rightarrow> string" where
  "stringAt E v fs = fst (nestedString E v fs)"

definition securesignName :: string where "securesignName = ''mirror-operator-securesign''"

definition trustedCAAnnotation :: string where "trustedCAAnnotation = ''rhtas.redhat.com/trusted-ca''"

definition setAnnotation :: "string \<Rightarrow> string \<Rightarrow> unstr \<Rightarrow> unstr" where
  "setAnnotation k v u = u\<lparr>u_Meta := (u_Meta u)\<lparr>m_Annotations := (m_Annotations (u_Meta u))(k \<mapsto> v)\<rparr>\<rparr>"

text \<open>The failure of the update is logged.\<close>

definition annotateSecuresign :: "('w, 'x) env_scheme \<Rightarrow> unstr \<Rightarrow> ('w, goerr option) go" where
  "annotateSecuresign E securesign =
     (if m_Annotations (u_Meta securesign) trustedCAAnnotation \<noteq> Some combinedCABundleName then do {
        _ \<leftarrow> Update E OUnstr theUnstr (setAnnotation trustedCAAnnotation combinedCABundleName securesign);
        return None }
      else return None)"

text \<open>Issuer, client and type of the accounts that may sign: those of the managed Keycloak where it is wanted.\<close>

definition oidcSettings :: "('w, 'x) env_scheme \<Rightarrow> rhtasoidcConfig \<Rightarrow> ('w, (string \<times> string \<times> string) res) go" where
  "oidcSettings E oidc =
     (case tasoidc_Managed oidc of
        None \<Rightarrow> return (Inr (tasoidc_Issuer oidc, tasoidc_ClientID oidc, tasoidc_Type oidc))
      | Some managed \<Rightarrow>
          if \<not> mkc_Enabled managed then return (Inr (tasoidc_Issuer oidc, tasoidc_ClientID oidc, tasoidc_Type oidc))
          else do {
            ingress \<leftarrow> Get E (KUnstr (configGVK ''Ingress'')) theUnstr ([], ''cluster'');
            case ingress of
              Inl err \<Rightarrow> return (Inl (wrap ''failed to get cluster ingress'' err))
            | Inr ingress \<Rightarrow> do {
                let domain = stringAt E (u_Object ingress) [''spec'', ''domain''];
                let realmName = orElse (mkc_Realm managed) ''trusted-artifact-signer'';
                return (Inr (''https://keycloak.'' @ domain @ ''/realms/'' @ realmName, ''trusted-artifact-signer'',
                  orElse (tasoidc_Type oidc) ''email'')) } })"

definition signingDatabase :: "rhtasDatabaseConfig \<Rightarrow> gomap" where
  "signingDatabase db =
     (let m = [''host'' \<mapsto> GStr (tasdb_Host db), ''name'' \<mapsto> GStr (tasdb_Name db)];
          m = (if tasdb_Port db > 0 then m(''port'' \<mapsto> GInt (tasdb_Port db)) else m)
      in ifSet ''password'' (tasdb_Password db) (ifSet ''username'' (tasdb_Username db) m))"

definition enabledWith :: "rhtasDatabaseConfig option \<Rightarrow> goval" where
  "enabledWith db = GMap
     (case db of None \<Rightarrow> [''enabled'' \<mapsto> GBool True]
      | Some db \<Rightarrow> [''enabled'' \<mapsto> GBool True, ''database'' \<mapsto> GMap (signingDatabase db)])"

definition securesignSpec :: "string \<Rightarrow> string \<Rightarrow> string \<Rightarrow> rhtasDatabaseConfig option \<Rightarrow> gomap" where
  "securesignSpec issuerURL clientID oidcType db =
     [''fulcio'' \<mapsto> GMap
        [''enabled'' \<mapsto> GBool True,
         ''certificate'' \<mapsto> GMap [''organizationName'' \<mapsto> GStr ''Red Hat'', ''organizationEmail'' \<mapsto> GStr ''rhtas@redhat.com''],
         ''config'' \<mapsto> GMap [''OIDCIssuers'' \<mapsto> GList [GMap
            [''ClientID'' \<mapsto> GStr clientID, ''Issuer'' \<mapsto> GStr issuerURL, ''IssuerURL'' \<mapsto> GStr issuerURL, ''Type'' \<mapsto> GStr oidcType]]]],
      ''rekor'' \<mapsto> enabledWith db, ''ctlog'' \<mapsto> enabledWith None, ''trillian'' \<mapsto> enabledWith db, ''tuf'' \<mapsto> enabledWith None]"

definition reconcileRHTASConfig :: "('w, 'x) env_scheme \<Rightarrow> disconnectedPlatform \<Rightarrow> ('w, goerr option) go" where
  "reconcileRHTASConfig E platform =
     (case dps_Connected (dp_Spec platform) of
        None \<Rightarrow> return (Some (panic ''nil pointer dereference: platform.Spec.Connected''))
      | Some con \<Rightarrow>
          (case con_RHTAS con of
             None \<Rightarrow> return None
           | Some cfg \<Rightarrow>
               (case tas_OIDC cfg of
                  None \<Rightarrow> return None
                | Some oidc \<Rightarrow> do {
                    securesign \<leftarrow> Get E (KUnstr securesignGVK) theUnstr (architectNamespace, securesignName);
                    case securesign of
                      Inr securesign \<Rightarrow> annotateSecuresign E securesign
                    | Inl err \<Rightarrow>
                        if \<not> isNotFound err then return (Some err)
                        else do {
                          settings \<leftarrow> oidcSettings E oidc;
                          case settings of
                            Inl err \<Rightarrow> return (Some err)
                          | Inr (issuerURL, clientID, oidcType) \<Rightarrow>
                              if issuerURL = [] \<or> clientID = [] then return (Some (errorf ''OIDC issuer and clientID are required''))
                              else do {
                                c \<leftarrow> Create E OUnstr theUnstr
                                      (setAnnotation trustedCAAnnotation combinedCABundleName
                                        (withSpec (securesignSpec issuerURL clientID oidcType (tas_Database cfg))
                                          (newUnstr securesignGVK architectNamespace securesignName)));
                                return (errOf c) } } })))"

section \<open>Certificate and health of Keycloak\<close>

definition keycloakGVK :: gvk where
  "keycloakGVK = \<lparr>g_Group = ''k8s.keycloak.org'', g_Version = ''v2alpha1'', g_Kind = ''Keycloak''\<rparr>"

definition keycloakRealmGVK :: gvk where
  "keycloakRealmGVK = \<lparr>g_Group = ''k8s.keycloak.org'', g_Version = ''v2alpha1'', g_Kind = ''KeycloakRealmImport''\<rparr>"

definition keycloakName :: string where "keycloakName = ''mirror-operator-keycloak''"

definition ensureKeycloakTLS :: "('w, 'x) env_scheme \<Rightarrow> connectedConfig \<Rightarrow> string \<Rightarrow> string \<Rightarrow> ('w, goerr option) go" where
  "ensureKeycloakTLS E con hostname secretName =
     (case con_CertIssuer con of
        None \<Rightarrow> return (Some (errorf ''spec.connected.certIssuer must be specified when not using custom tlsSecret''))
      | Some issuer \<Rightarrow>
          createMissing E (KUnstr certificateGVK) OUnstr theUnstr (architectNamespace, ''keycloak-certificate'')
            ''failed to create certificate''
            (withSpec ((certificateSpec secretName (cir_Name issuer) (orElse (cir_Kind issuer) ''ClusterIssuer'') hostname)
                (''commonName'' \<mapsto> GStr hostname))
              (newUnstr certificateGVK architectNamespace ''keycloak-certificate'')))"

text \<open>The first condition of type \<^verbatim>\<open>Ready\<close> decides; entries that are no maps are skipped.\<close>

fun keycloakHealthLoop :: "('w, 'x) env_scheme \<Rightarrow> goval list \<Rightarrow> goerr option" where
  "keycloakHealthLoop E [] = Some (errorf ''Keycloak Ready condition not found'')"
| "keycloakHealthLoop E (c # cs) =
     (case asMap (Some c) of
        None \<Rightarrow> keycloakHealthLoop E cs
      | Some m \<Rightarrow>
          if stringAt E (GMap m) [''type''] = ''Ready'' then
            if stringAt E (GMap m) [''status''] = ''True'' then None
            else Some (errorf (''Keycloak not ready: '' @ stringAt E (GMap m) [''message'']))
          else keycloakHealthLoop E cs)"

text \<open>The block of the managed Keycloak, where it is wanted; the connected block is dereferenced.\<close>

definition wantedKeycloak :: "connectedConfig \<Rightarrow> managedKeycloakConfig option" where
  "wantedKeycloak con =
     (case con_RHTAS con \<bind> tas_OIDC \<bind> tasoidc_Managed of
        Some m \<Rightarrow> if mkc_Enabled m then Some m else None
      | None \<Rightarrow> None)"

definition checkKeycloakHealth :: "('w, 'x) env_scheme \<Rightarrow> disconnectedPlatform \<Rightarrow> ('w, goerr option) go" where
  "checkKeycloakHealth E platform =
     (case dps_Connected (dp_Spec platform) of
        None \<Rightarrow> return (Some (panic ''nil pointer dereference: platform.Spec.Connected''))
      | Some con \<Rightarrow>
          if wantedKeycloak con = None then return None
          else do {
            kc \<leftarrow> Get E (KUnstr keycloakGVK) theUnstr (architectNamespace, keycloakName);
            return (case kc of
                Inl err \<Rightarrow> Some (wrap ''Keycloak resource not found'' err)
              | Inr kc \<Rightarrow>
                  (let (status, found, _) = nestedMap E (u_Object kc) [''status''] in
                   if \<not> found then Some (errorf ''Keycloak status not available yet'')
                   else let (conditions, found, _) = nestedSlice E (GMap status) [''conditions''] in
                        if \<not> found then Some (errorf ''Keycloak conditions not available yet'')
                        else keycloakHealthLoop E conditions)) })"

text \<open>Whether some condition is \<^verbatim>\<open>Ready=True\<close>.\<close>

definition someReady :: "('w, 'x) env_scheme \<Rightarrow> goval list \<Rightarrow> bool" where
  "someReady E = list_ex (\<lambda>c. case asMap (Some c) of None \<Rightarrow> False
     | Some m \<Rightarrow> stringAt E (GMap m) [''type''] = ''Ready'' \<and> stringAt E (GMap m) [''status''] = ''True'')"

section \<open>Root keys\<close>

definition hashString :: "('w, 'x) platformEnv_scheme \<Rightarrow> string \<Rightarrow> string" where
  "hashString E s = take 16 (sha256Hex E s)"

text \<open>The secret and key of the root certificate of Fulcio and of the public key of Rekor, the last ones that the TUF repository lists.\<close>

fun rootKeyRefs :: "('w, 'x) env_scheme \<Rightarrow> goval list \<Rightarrow> (string \<times> string) \<Rightarrow> (string \<times> string) \<Rightarrow> (string \<times> string) \<times> (string \<times> string)" where
  "rootKeyRefs E [] fulcio rekor = (fulcio, rekor)"
| "rootKeyRefs E (k # ks) fulcio rekor =
     (case asMap (Some k) of
        None \<Rightarrow> rootKeyRefs E ks fulcio rekor
      | Some m \<Rightarrow>
          let keyName = stringAt E (GMap m) [''name'']; (secretRef, found, _) = nestedMap E (GMap m) [''secretRef''];
              ref = (stringAt E (GMap secretRef) [''name''], stringAt E (GMap secretRef) [''key'']) in
          if \<not> found then rootKeyRefs E ks fulcio rekor
          else if keyName = ''fulcio_v1.crt.pem'' then rootKeyRefs E ks ref rekor
          else if keyName = ''rekor.pub'' then rootKeyRefs E ks fulcio ref
          else rootKeyRefs E ks fulcio rekor)"

definition readySecuresign :: "('w, 'x) env_scheme \<Rightarrow> ('w, gomap res) go" where
  "readySecuresign E = do {
     securesign \<leftarrow> Get E (KUnstr securesignGVK) theUnstr (architectNamespace, securesignName);
     return (case securesign of
         Inl err \<Rightarrow> Inl err
       | Inr securesign \<Rightarrow>
           (let (status, found, err) = nestedMap E (u_Object securesign) [''status''] in
            if err \<noteq> None \<or> \<not> found then Inl (errorf ''securesign status not available yet'')
            else let (conditions, found, _) = nestedSlice E (GMap status) [''conditions''] in
              if \<not> found then Inl (errorf ''securesign conditions not available yet'')
              else if \<not> someReady E conditions then Inl (errorf ''securesign not ready yet'') else Inr status)) }"

definition tufKeys :: "('w, 'x) env_scheme \<Rightarrow> ('w, goval list res) go" where
  "tufKeys E = do {
     tuf \<leftarrow> Get E (KUnstr \<lparr>g_Group = ''rhtas.redhat.com'', g_Version = ''v1alpha1'', g_Kind = ''Tuf''\<rparr>) theUnstr (architectNamespace, securesignName);
     return (case tuf of
         Inl err \<Rightarrow> Inl (wrap ''failed to get TUF resource'' err)
       | Inr tuf \<Rightarrow>
           (let (tufStatus, found, _) = nestedMap E (u_Object tuf) [''status''] in
            if \<not> found then Inl (errorf ''TUF status not available yet'')
            else let (keys, found, _) = nestedSlice E (GMap tufStatus) [''keys''] in
              if \<not> found then Inl (errorf ''TUF keys not found in status'') else Inr keys)) }"

definition rootKey :: "('w, 'x) env_scheme \<Rightarrow> string \<Rightarrow> string \<Rightarrow> string \<times> string \<Rightarrow> ('w, string res) go" where
  "rootKey E what blank ref = do {
     s \<leftarrow> Get E KSecret theSecret (architectNamespace, fst ref);
     return (case s of
         Inl err \<Rightarrow> Inl (wrap (''failed to get '' @ what @ '' secret'') err)
       | Inr s \<Rightarrow> if secGet s (snd ref) = [] then Inl (errorf (blank @ '' is empty in secret '' @ fst ref)) else Inr (secGet s (snd ref))) }"

definition trustedRootName :: string where "trustedRootName = ''rhtas-trusted-root''"

definition trustedRoot :: "string \<Rightarrow> string \<Rightarrow> string \<Rightarrow> gotime \<Rightarrow> configMap" where
  "trustedRoot fulcioRootPEM rekorPubKeyPEM tufURL now =
     \<lparr>cm_Meta = (nameMeta architectNamespace trustedRootName)\<lparr>m_Labels :=
        [''app.kubernetes.io/name'' \<mapsto> trustedRootName, ''app.kubernetes.io/part-of'' \<mapsto> ''mirror-operator'',
         ''app.kubernetes.io/managed-by'' \<mapsto> ''mirror-operator'']\<rparr>,
      cm_Data = Some [''fulcio-root.pem'' \<mapsto> fulcioRootPEM, ''rekor-public-key.pem'' \<mapsto> rekorPubKeyPEM, ''tuf-repository-url'' \<mapsto> tufURL,
        ''extraction-timestamp'' \<mapsto> rfc3339 now]\<rparr>"

definition holdsKeys :: "string \<Rightarrow> string \<Rightarrow> string \<Rightarrow> configMap \<Rightarrow> bool" where
  "holdsKeys fulcioRootPEM rekorPubKeyPEM tufURL cm \<longleftrightarrow>
     cmGet cm ''fulcio-root.pem'' = fulcioRootPEM \<and> cmGet cm ''rekor-public-key.pem'' = rekorPubKeyPEM \<and> cmGet cm ''tuf-repository-url'' = tufURL"

definition putTrustedRoot :: "('w, 'x) env_scheme \<Rightarrow> string \<Rightarrow> string \<Rightarrow> string \<Rightarrow> ('w, goerr option) go" where
  "putTrustedRoot E fulcioRootPEM rekorPubKeyPEM tufURL = do {
     now \<leftarrow> effect (clock E);
     let cm = trustedRoot fulcioRootPEM rekorPubKeyPEM tufURL now;
     existing \<leftarrow> Get E KConfigMap theConfigMap (architectNamespace, trustedRootName);
     case existing of
       Inr existing \<Rightarrow>
         if holdsKeys fulcioRootPEM rekorPubKeyPEM tufURL existing then return None
         else do {
           u \<leftarrow> Update E OConfigMap theConfigMap
                 (cm\<lparr>cm_Meta := (cm_Meta cm)\<lparr>m_ResourceVersion := m_ResourceVersion (cm_Meta existing)\<rparr>\<rparr>);
           return (map_option (wrap ''failed to update RHTAS trusted root ConfigMap'') (errOf u)) }
     | Inl err \<Rightarrow>
         if isNotFound err then do {
           c \<leftarrow> Create E OConfigMap theConfigMap cm;
           return (map_option (wrap ''failed to create RHTAS trusted root ConfigMap'') (errOf c)) }
         else return (Some err) }"

definition sameKeys :: "string \<Rightarrow> string \<Rightarrow> string \<Rightarrow> rhtasRootKeysInfo \<Rightarrow> bool" where
  "sameKeys newFulcioHash newRekorHash tufURL k \<longleftrightarrow>
     rki_FulcioRootHash k = newFulcioHash \<and> rki_RekorKeyHash k = newRekorHash \<and> rki_TUFRepositoryURL k = tufURL"

definition setRootKeys :: "rhtasRootKeysInfo \<Rightarrow> disconnectedPlatform \<Rightarrow> disconnectedPlatform" where
  "setRootKeys k platform = platform\<lparr>dp_Status := (dp_Status platform)\<lparr>dpst_RHTASRootKeys := Some k\<rparr>\<rparr>"

definition recordRootKeys ::
  "('w, 'x) platformEnv_scheme \<Rightarrow> string \<Rightarrow> string \<Rightarrow> string \<Rightarrow> disconnectedPlatform \<Rightarrow> ('w, disconnectedPlatform) go" where
  "recordRootKeys E fulcioRootPEM rekorPubKeyPEM tufURL platform =
     (if (case dpst_RHTASRootKeys (dp_Status platform) of None \<Rightarrow> False
          | Some k \<Rightarrow> sameKeys (hashString E fulcioRootPEM) (hashString E rekorPubKeyPEM) tufURL k)
      then return platform
      else do {
        now \<leftarrow> effect (clock E);
        return (setRootKeys \<lparr>rki_ConfigMap = trustedRootName, rki_FulcioRootHash = hashString E fulcioRootPEM,
          rki_RekorKeyHash = hashString E rekorPubKeyPEM, rki_LastUpdated = now, rki_TUFRepositoryURL = tufURL\<rparr> platform) })"

definition extractRHTASRootKeys ::
  "('w, 'x) platformEnv_scheme \<Rightarrow> disconnectedPlatform \<Rightarrow> ('w, disconnectedPlatform \<times> goerr option) go" where
  "extractRHTASRootKeys E platform = do {
     status \<leftarrow> readySecuresign E;
     case status of
       Inl err \<Rightarrow> return (platform, Some err)
     | Inr status \<Rightarrow> do {
         let (tufURL, found, _) = nestedString E (GMap status) [''tuf'', ''url''];
         if \<not> found \<or> tufURL = [] then return (platform, Some (errorf ''TUF URL not found in Securesign status''))
         else do {
           keys \<leftarrow> tufKeys E;
           case keys of
             Inl err \<Rightarrow> return (platform, Some err)
           | Inr keys \<Rightarrow> do {
               let (fulcio, rekor) = rootKeyRefs E keys ([], []) ([], []);
               if fst fulcio = [] \<or> fst rekor = []
               then return (platform, Some (errorf ''Fulcio or Rekor secret references not found in TUF status''))
               else do {
                 fulcioRootPEM \<leftarrow> rootKey E ''Fulcio'' ''Fulcio root CA'' fulcio;
                 case fulcioRootPEM of
                   Inl err \<Rightarrow> return (platform, Some err)
                 | Inr fulcioRootPEM \<Rightarrow> do {
                     rekorPubKeyPEM \<leftarrow> rootKey E ''Rekor'' ''Rekor public key'' rekor;
                     case rekorPubKeyPEM of
                       Inl err \<Rightarrow> return (platform, Some err)
                     | Inr rekorPubKeyPEM \<Rightarrow> do {
                         err \<leftarrow> putTrustedRoot E fulcioRootPEM rekorPubKeyPEM tufURL;
                         case err of
                           Some err \<Rightarrow> return (platform, Some err)
                         | None \<Rightarrow> do {
                             platform \<leftarrow> recordRootKeys E fulcioRootPEM rekorPubKeyPEM tufURL platform;
                             return (platform, None) } } } } } } } }"

section \<open>The client of the signing service and the removal\<close>

text \<open>Any failure of the read makes a new secret; one that exists by then keeps its value, and the new one is returned.\<close>

definition ensureKeycloakOIDCClient :: "('w, 'x) env_scheme \<Rightarrow> ('w, string res) go" where
  "ensureKeycloakOIDCClient E = do {
     existing \<leftarrow> Get E KSecret theSecret (architectNamespace, ''sigstore-client-secret-cache'');
     case existing of
       Inr existing \<Rightarrow> return (Inr (secGet existing ''secret''))
     | Inl _ \<Rightarrow> do {
         let clientSecret = generateRandomString 32;
         c \<leftarrow> Create E OSecret theSecret
               \<lparr>sec_Meta = nameMeta architectNamespace ''sigstore-client-secret-cache'', sec_Type = [], sec_Data = None,
                sec_StringData = Some [''secret'' \<mapsto> clientSecret]\<rparr>;
         return (case c of
             Inl err \<Rightarrow> if isAlreadyExists err then Inr clientSecret else Inl err
           | Inr _ \<Rightarrow> Inr clientSecret) } }"

definition rhtasResources :: "(kind \<times> nsname) list" where
  "rhtasResources = [(KUnstr securesignGVK, (architectNamespace, securesignName)), (KConfigMap, (architectNamespace, trustedRootName))]"

definition deleteRHTASConfig :: "('w, 'x) env_scheme \<Rightarrow> ('w, unit) go" where
  "deleteRHTASConfig E = deleteObjects E rhtasResources"

definition keycloakResources :: "(kind \<times> nsname) list" where
  "keycloakResources =
     [(KUnstr keycloakRealmGVK, (architectNamespace, ''mirror-operator-keycloak-realm'')), (KUnstr keycloakGVK, (architectNamespace, keycloakName)),
      (KUnstr certificateGVK, (architectNamespace, ''keycloak-certificate''))]"

definition deleteManagedKeycloak :: "('w, 'x) env_scheme \<Rightarrow> ('w, unit) go" where
  "deleteManagedKeycloak E = deleteObjects E keycloakResources"

section \<open>What is kept and what is published\<close>

text \<open>The requests by which the resource is set up: it is read, created, or written as it was read with the annotation.\<close>

definition annotates :: "event list \<Rightarrow> request \<Rightarrow> bool" where
  "annotates es q = (case q of
     RUpdate (OUnstr u) \<Rightarrow> (\<exists>s. (RGet (KUnstr securesignGVK) (architectNamespace, securesignName), Inr [OUnstr s]) \<in> set es \<and>
       u = setAnnotation trustedCAAnnotation combinedCABundleName s)
   | RGet _ _ \<Rightarrow> True | RCreate (OUnstr u) \<Rightarrow> u_GVK u = securesignGVK | _ \<Rightarrow> False)"

lemma theUnstr_Some: "theUnstr y = Some u \<longleftrightarrow> y = OUnstr u"
  by (cases y) auto

lemma u_GVK_new [simp]: "u_GVK (setAnnotation k v u) = u_GVK u" "u_GVK (withSpec m u) = u_GVK u" "u_GVK (newUnstr g ns n) = g"
  by (simp_all add: setAnnotation_def withSpec_def newUnstr_def onObject_def)

text \<open>C21. A signing service that exists keeps its specification: a reconciliation writes it as it was read with nothing but the annotation of
  the trust bundle added, and deletes nothing, whatever issuer, client or database the platform asks for by then.\<close>

theorem securesign_kept:
  "spec (reconcileRHTASConfig E platform) (\<lambda>es _. list_all (\<lambda>e. annotates es (fst e)) es)"
  unfolding reconcileRHTASConfig_def annotateSecuresign_def oidcSettings_def Let_def
  by (intro spec_intros) (auto simp: annotates_def decode1_Inr theUnstr_Some)

text \<open>The keys are in the config map: as it was read, created or updated.\<close>

definition published :: "event list \<Rightarrow> string \<Rightarrow> string \<Rightarrow> string \<Rightarrow> bool" where
  "published es fulcio rekor url \<longleftrightarrow> (\<exists>cm r. holdsKeys fulcio rekor url cm \<and>
     ((RGet KConfigMap (architectNamespace, trustedRootName), Inr [OConfigMap cm]) \<in> set es \<or>
      (RCreate (OConfigMap cm), Inr r) \<in> set es \<or> (RUpdate (OConfigMap cm), Inr r) \<in> set es))"

lemma holdsKeys_trustedRoot [simp]: "holdsKeys f r u (trustedRoot f r u now)" "holdsKeys f r u (trustedRoot f r u now\<lparr>cm_Meta := m\<rparr>)"
  by (simp_all add: holdsKeys_def trustedRoot_def cmGet_def mapGet_def)

lemma theConfigMap_Some: "theConfigMap y = Some u \<longleftrightarrow> y = OConfigMap u"
  by (cases y) auto

lemma published_append: "published es f r u \<Longrightarrow> published (es' @ es) f r u"
  by (auto simp: published_def)

lemma published_Cons: "published es f r u \<Longrightarrow> published (e # es) f r u"
  using published_append [of es f r u "[e]"] by simp

lemma errOf_None_iff: "errOf x = None \<longleftrightarrow> (\<exists>y. x = Inr y)"
  by (cases x) auto

lemma spec_putTrustedRoot: "spec (putTrustedRoot E f r u) (\<lambda>es err. err \<noteq> None \<or> published es f r u)"
  unfolding putTrustedRoot_def Let_def
  by (intro spec_intros) (auto simp: published_def decode1_Inr theConfigMap_Some errOf_None_iff intro: holdsKeys_trustedRoot)

text \<open>What the platform records fits the keys, and is written only where it did not fit before.\<close>

definition recordsKeys :: "('w, 'x) platformEnv_scheme \<Rightarrow> string \<Rightarrow> string \<Rightarrow> string \<Rightarrow> disconnectedPlatform \<Rightarrow> bool" where
  "recordsKeys E f r u platform = (case dpst_RHTASRootKeys (dp_Status platform) of None \<Rightarrow> False
     | Some k \<Rightarrow> sameKeys (hashString E f) (hashString E r) u k)"

lemma recordsKeys_setRootKeys [simp]: "recordsKeys E f r u (setRootKeys k p) \<longleftrightarrow> sameKeys (hashString E f) (hashString E r) u k"
  by (simp add: recordsKeys_def setRootKeys_def)

lemma spec_recordRootKeys:
  "spec (recordRootKeys E f r u p) (\<lambda>es p'. es = [] \<and> recordsKeys E f r u p' \<and>
     (if recordsKeys E f r u p then p' = p else \<exists>k. p' = setRootKeys k p))"
  unfolding recordRootKeys_def Let_def recordsKeys_def [symmetric]
  by (intro spec_intros) (auto simp: sameKeys_def)

lemma spec_rootKey: "spec (rootKey E what blank ref) (\<lambda>_ x. case x of Inl _ \<Rightarrow> True | Inr k \<Rightarrow> k \<noteq> [])"
  unfolding rootKey_def by (intro spec_intros) (auto split: sum.split)

lemma spec_readySecuresign: "spec (readySecuresign E) (\<lambda>_ _. True)"
  unfolding readySecuresign_def by (intro spec_intros) simp

lemma spec_tufKeys: "spec (tufKeys E) (\<lambda>_ _. True)"
  unfolding tufKeys_def by (intro spec_intros) simp

definition keysSettled ::
  "('w, 'x) platformEnv_scheme \<Rightarrow> disconnectedPlatform \<Rightarrow> event list \<Rightarrow> disconnectedPlatform \<Rightarrow> string \<times> string \<times> string \<Rightarrow> bool" where
  "keysSettled E p es p' keys = (case keys of (f, r, u) \<Rightarrow>
     f \<noteq> [] \<and> r \<noteq> [] \<and> u \<noteq> [] \<and> published es f r u \<and> recordsKeys E f r u p' \<and>
     (if recordsKeys E f r u p then p' = p else \<exists>k. p' = setRootKeys k p))"

lemma keysSettled_append: "keysSettled E p es p' k \<Longrightarrow> keysSettled E p (es' @ es) p' k"
  by (auto simp: keysSettled_def published_append split del: if_split)

lemma spec_finishKeys:
  assumes "f \<noteq> []" "r \<noteq> []" "u \<noteq> []"
  shows "spec (do { err \<leftarrow> putTrustedRoot E f r u;
      case err of Some err \<Rightarrow> return (p, Some err)
      | None \<Rightarrow> do { p' \<leftarrow> recordRootKeys E f r u p; return (p', None) } })
    (\<lambda>es (p', err). case err of Some _ \<Rightarrow> p' = p | None \<Rightarrow> \<exists>keys. keysSettled E p es p' keys)"
  using assms
  by (intro spec_bindI [OF spec_putTrustedRoot] spec_bindI [OF spec_recordRootKeys] spec_case_option spec_returnI)
    (auto simp: keysSettled_def split del: if_split intro!: exI [of _ "(f, r, u)"])


end
