(* ===== verification/KeycloakAdmin.thy ===== *)
theory KeycloakAdmin
  imports Signing
begin

text \<open>
  What the operator asks of Keycloak over its administration interface, from \<^verbatim>\<open>disconnectedplatform_controller.go\<close>: the realm and client
  of the signing service with their mappers and scope, the client secret, the identity provider of OpenShift, and the signing configuration of the
  collection pipelines. The library \<^verbatim>\<open>net/http\<close> and the JSON decoder are the further fields of \<open>keycloakEnv\<close>; the time
  limits of the HTTP clients are theirs.
\<close>

section \<open>Requests over HTTP\<close>

record httpRequest =
  hq_Method :: string
  hq_URL :: string
  hq_Bearer :: string
  hq_JSON :: bool \<comment> \<open>whether the content type is set\<close>
  hq_Body :: "string option"

record httpResponse =
  hp_Status :: int
  hp_StatusText :: string
  hp_Location :: string
  hp_Body :: string

record 'w keycloakEnv = "'w platformEnv" +
  newRequest :: "string \<Rightarrow> string \<Rightarrow> goerr option" \<comment> \<open>method and address\<close>
  httpDo :: "httpRequest \<Rightarrow> 'w \<Rightarrow> httpResponse res \<times> 'w"
  removeNestedField :: "goval \<Rightarrow> string list \<Rightarrow> goval"
  importArchitectScript :: string \<comment> \<open>\<^verbatim>\<open>config/scripts/import-airgap-architect.sh\<close>, embedded in the binary\<close>
  jsonDecodeMap :: "string \<Rightarrow> gomap option res" \<comment> \<open>\<^verbatim>\<open>Decode\<close> into a nil map, which the text \<^verbatim>\<open>null\<close> leaves nil\<close>
  jsonDecodeMaps :: "string \<Rightarrow> gomap option list \<times> goerr option" \<comment> \<open>\<^verbatim>\<open>Decode\<close> into a slice of maps, what it holds after a failure too\<close>

text \<open>The error of \<^verbatim>\<open>NewRequest\<close> is dropped: the request is nil then, and setting its header panics.\<close>

definition httpTyped ::
  "('w, 'x) keycloakEnv_scheme \<Rightarrow> bool \<Rightarrow> string \<Rightarrow> string \<Rightarrow> string \<Rightarrow> string option \<Rightarrow> ('w, httpResponse res) go" where
  "httpTyped E json method url token body =
     (case newRequest E method url of
        Some _ \<Rightarrow> return (Inl (panic ''nil pointer dereference: req''))
      | None \<Rightarrow> effect (httpDo E \<lparr>hq_Method = method, hq_URL = url, hq_Bearer = token, hq_JSON = json, hq_Body = body\<rparr>))"

text \<open>A request has the content type of JSON where it has a body.\<close>

definition http ::
  "('w, 'x) keycloakEnv_scheme \<Rightarrow> string \<Rightarrow> string \<Rightarrow> string \<Rightarrow> string option \<Rightarrow> ('w, httpResponse res) go" where
  "http E method url token body = httpTyped E (body \<noteq> None) method url token body"

text \<open>Steps that may fail: with a value or without.\<close>

definition thenR :: "('w, 'a res) go \<Rightarrow> ('a \<Rightarrow> ('w, 'b res) go) \<Rightarrow> ('w, 'b res) go" where
  "thenR m f = do { x \<leftarrow> m; case x of Inl err \<Rightarrow> return (Inl err) | Inr x \<Rightarrow> f x }"

definition thenE :: "('w, 'a res) go \<Rightarrow> ('a \<Rightarrow> ('w, goerr option) go) \<Rightarrow> ('w, goerr option) go" where
  "thenE m f = do { x \<leftarrow> m; case x of Inl err \<Rightarrow> return (Some err) | Inr x \<Rightarrow> f x }"

definition labelled :: "string \<Rightarrow> 'a res \<Rightarrow> 'a res" where
  "labelled msg x = (case x of Inl err \<Rightarrow> Inl (wrap msg err) | Inr x \<Rightarrow> Inr x)"

definition asked ::
  "('w, 'x) keycloakEnv_scheme \<Rightarrow> string \<Rightarrow> string \<Rightarrow> string \<Rightarrow> string \<Rightarrow> string option \<Rightarrow> ('w, httpResponse res) go" where
  "asked E msg method url token body = do { resp \<leftarrow> http E method url token body; return (labelled msg resp) }"

definition statusError :: "string \<Rightarrow> int \<Rightarrow> string \<Rightarrow> goerr" where
  "statusError msg status body = errorf (msg @ '': status '' @ itoa status @ '', body: '' @ body)"

definition expectStatus :: "string \<Rightarrow> int list \<Rightarrow> httpResponse \<Rightarrow> goerr option" where
  "expectStatus msg accepted resp =
     (if hp_Status resp \<in> set accepted then None else Some (statusError msg (hp_Status resp) (hp_Body resp)))"

definition jsonBody :: "('w, 'x) keycloakEnv_scheme \<Rightarrow> gomap \<Rightarrow> string option" where
  "jsonBody E m = Some (case jsonMarshal E m of Inl _ \<Rightarrow> [] | Inr s \<Rightarrow> s)"

definition sendJSON ::
  "('w, 'x) keycloakEnv_scheme \<Rightarrow> string \<Rightarrow> string \<Rightarrow> string \<Rightarrow> string \<Rightarrow> gomap \<Rightarrow> int list \<Rightarrow> ('w, goerr option) go" where
  "sendJSON E msg method url token m accepted =
     thenE (asked E msg method url token (jsonBody E m)) (\<lambda>resp. return (expectStatus msg accepted resp))"

text \<open>The path of an object that was created ends with its identifier.\<close>

definition lastSegment :: "string \<Rightarrow> string" where
  "lastSegment location = last (splitByte (CHR ''/'') location)"

definition createdID ::
  "('w, 'x) keycloakEnv_scheme \<Rightarrow> string \<Rightarrow> string \<Rightarrow> string \<Rightarrow> gomap \<Rightarrow> ('w, string res) go" where
  "createdID E msg url token m =
     thenR (asked E msg ''POST'' url token (jsonBody E m))
       (\<lambda>resp. return (case expectStatus msg [201] resp of Some err \<Rightarrow> Inl err | None \<Rightarrow> Inr (lastSegment (hp_Location resp))))"

text \<open>The maps of an answer, with and without regard to the error of the decoder; a nil map reads as the empty one.\<close>

definition decodedMaps :: "('w, 'x) keycloakEnv_scheme \<Rightarrow> string \<Rightarrow> httpResponse \<Rightarrow> gomap list res" where
  "decodedMaps E msg resp =
     (case jsonDecodeMaps E (hp_Body resp) of (ms, Some err) \<Rightarrow> Inl (wrap msg err) | (ms, None) \<Rightarrow> Inr (map orEmptyMap ms))"

definition anyMaps :: "('w, 'x) keycloakEnv_scheme \<Rightarrow> httpResponse \<Rightarrow> gomap list" where
  "anyMaps E resp = map orEmptyMap (fst (jsonDecodeMaps E (hp_Body resp)))"

definition askedMaps :: "('w, 'x) keycloakEnv_scheme \<Rightarrow> string \<Rightarrow> string \<Rightarrow> string \<Rightarrow> string \<Rightarrow> ('w, gomap list res) go" where
  "askedMaps E msg decodeMsg url token = thenR (asked E msg ''GET'' url token None) (\<lambda>resp. return (decodedMaps E decodeMsg resp))"

section \<open>Addresses and tokens\<close>

definition adminURL :: "string \<Rightarrow> string \<Rightarrow> string" where
  "adminURL keycloakHost path = ''https://'' @ keycloakHost @ ''/admin/realms'' @ path"

definition realmURL :: "string \<Rightarrow> string \<Rightarrow> string \<Rightarrow> string" where
  "realmURL keycloakHost realmName path = adminURL keycloakHost (''/'' @ realmName @ path)"

definition tokenURLOf :: "string \<Rightarrow> string" where
  "tokenURLOf keycloakHost = ''https://'' @ keycloakHost @ ''/realms/master/protocol/openid-connect/token''"

text \<open>A form is encoded in the order of its keys, whatever the order in which they were set.\<close>

definition tokenForm :: "string \<Rightarrow> string \<Rightarrow> (string \<times> string) list" where
  "tokenForm user password =
     [(''client_id'', ''admin-cli''), (''grant_type'', ''password''), (''password'', password), (''username'', user)]"

definition postToken :: "('w, 'x) env_scheme \<Rightarrow> string \<Rightarrow> string \<Rightarrow> string \<Rightarrow> ('w, (int \<times> string) res) go" where
  "postToken E keycloakHost user password = do {
     resp \<leftarrow> effect (httpPostForm E (tokenURLOf keycloakHost) (tokenForm user password));
     return (labelled ''failed to get admin token'' resp) }"

definition adminSecret :: "('w, 'x) env_scheme \<Rightarrow> string \<Rightarrow> ('w, secret res) go" where
  "adminSecret E msg = do {
     s \<leftarrow> Get E KSecret theSecret (architectNamespace, ''mirror-operator-keycloak-initial-admin'');
     return (labelled msg s) }"

text \<open>The token of a checked answer; the flag says whether the error of the decoder names the body.\<close>

definition tokenDecodeError :: "bool \<Rightarrow> string \<Rightarrow> goerr \<Rightarrow> goerr" where
  "tokenDecodeError withBody body err =
     GoErr (err_reason err) (''failed to decode token response: '' @ err_text err @ (if withBody then '', body: '' @ body else []))"

definition checkedToken :: "('w, 'x) keycloakEnv_scheme \<Rightarrow> bool \<Rightarrow> string \<Rightarrow> string \<Rightarrow> ('w, string res) go" where
  "checkedToken E withBody keycloakHost password =
     thenR (postToken E keycloakHost ''admin'' password) (\<lambda>(status, body). return
       (if status \<noteq> 200 then Inl (statusError ''failed to get admin token'' status body)
        else (case jsonUnmarshal E body of
            Inl err \<Rightarrow> Inl (tokenDecodeError withBody body err)
          | Inr m \<Rightarrow>
              (case asStr (orEmptyMap m ''access_token'') of
                 None \<Rightarrow> Inl (errorf (''no access_token in response: '' @ sprintV E (GMap (orEmptyMap m))))
               | Some token \<Rightarrow> Inr token))))"

text \<open>The token of an answer of any status.\<close>

definition uncheckedToken :: "('w, 'x) keycloakEnv_scheme \<Rightarrow> (gomap \<Rightarrow> string) \<Rightarrow> string \<Rightarrow> string \<Rightarrow> ('w, string res) go" where
  "uncheckedToken E noToken keycloakHost password =
     thenR (postToken E keycloakHost ''admin'' password) (\<lambda>(status, body). return
       (case jsonDecode E body of
          Inl err \<Rightarrow> Inl (wrap ''failed to decode token response'' err)
        | Inr m \<Rightarrow> (case asStr (m ''access_token'') of None \<Rightarrow> Inl (errorf (noToken m)) | Some token \<Rightarrow> Inr token)))"

section \<open>Mappers\<close>

definition claimMapper :: "string \<Rightarrow> string \<Rightarrow> string \<Rightarrow> string \<Rightarrow> gomap" where
  "claimMapper name claim v jsonType =
     [''name'' \<mapsto> GStr name, ''protocol'' \<mapsto> GStr ''openid-connect'', ''protocolMapper'' \<mapsto> GStr ''oidc-hardcoded-claim-mapper'',
      ''config'' \<mapsto> GMap
        [''claim.name'' \<mapsto> GStr claim, ''claim.value'' \<mapsto> GStr v, ''jsonType.label'' \<mapsto> GStr jsonType, ''id.token.claim'' \<mapsto> GStr ''true'',
         ''access.token.claim'' \<mapsto> GStr ''true'', ''userinfo.token.claim'' \<mapsto> GStr ''true'']]"

definition withoutConsent :: "gomap \<Rightarrow> gomap" where
  "withoutConsent m = m(''consentRequired'' \<mapsto> GBool False)"

definition audienceMapper :: gomap where
  "audienceMapper =
     [''name'' \<mapsto> GStr ''audience-mapper'', ''protocol'' \<mapsto> GStr ''openid-connect'', ''protocolMapper'' \<mapsto> GStr ''oidc-audience-mapper'',
      ''consentRequired'' \<mapsto> GBool False,
      ''config'' \<mapsto> GMap [''included.client.audience'' \<mapsto> GStr ''trusted-artifact-signer'', ''id.token.claim'' \<mapsto> GStr ''false'',
        ''access.token.claim'' \<mapsto> GStr ''true'']]"

definition hasNamed :: "string \<Rightarrow> gomap list \<Rightarrow> bool" where
  "hasNamed name = list_ex (\<lambda>m. asStr (m ''name'') = Some name)"

definition mapperUnless ::
  "('w, 'x) keycloakEnv_scheme \<Rightarrow> bool \<Rightarrow> string \<Rightarrow> string \<Rightarrow> string \<Rightarrow> gomap \<Rightarrow> ('w, goerr option) go" where
  "mapperUnless E present what url token m =
     (if present then return None else sendJSON E (''failed to create '' @ what) ''POST'' url token m [201, 204])"

definition firstID :: "goerr \<Rightarrow> goerr \<Rightarrow> gomap list \<Rightarrow> string res" where
  "firstID none noID clients =
     (case clients of [] \<Rightarrow> Inl none | c # _ \<Rightarrow> (case asStr (c ''id'') of None \<Rightarrow> Inl noID | Some i \<Rightarrow> Inr i))"

definition clientURL :: "string \<Rightarrow> string \<Rightarrow> string \<Rightarrow> string" where
  "clientURL keycloakHost realmName clientID = realmURL keycloakHost realmName (''/clients?clientId='' @ clientID)"

definition clientMappersURL :: "string \<Rightarrow> string \<Rightarrow> string \<Rightarrow> string" where
  "clientMappersURL keycloakHost realmName clientUUID = realmURL keycloakHost realmName (''/clients/'' @ clientUUID @ ''/protocol-mappers/models'')"

definition configureKeycloakEmailMapper ::
  "('w, 'x) keycloakEnv_scheme \<Rightarrow> string \<Rightarrow> string \<Rightarrow> string \<Rightarrow> ('w, goerr option) go" where
  "configureKeycloakEmailMapper E keycloakHost clientID realmName =
     thenE (adminSecret E ''failed to get admin secret'') (\<lambda>secret.
     thenE (checkedToken E True keycloakHost (secGet secret ''password'')) (\<lambda>adminToken.
     thenE (askedMaps E ''failed to get clients'' ''failed to decode clients response'' (clientURL keycloakHost realmName clientID) adminToken) (\<lambda>clients.
     thenE (return (firstID (errorf (''client '' @ clientID @ '' not found'')) (errorf ''no id in client response'') clients)) (\<lambda>clientUUID.
     let mappersURL = clientMappersURL keycloakHost realmName clientUUID in
     thenE (askedMaps E ''failed to get protocol mappers'' ''failed to decode mappers response'' mappersURL adminToken) (\<lambda>mappers.
     untilError
       [mapperUnless E (hasNamed ''email-mapper'' mappers) ''email protocol mapper'' mappersURL adminToken
          (withoutConsent (claimMapper ''email-mapper'' ''email'' ''service-account-sigstore@keycloak.local'' ''String'')),
        mapperUnless E (hasNamed ''email-verified-mapper'' mappers) ''email_verified protocol mapper'' mappersURL adminToken
          (withoutConsent (claimMapper ''email-verified-mapper'' ''email_verified'' ''true'' ''boolean'')),
        mapperUnless E (hasNamed ''audience-mapper'' mappers) ''audience protocol mapper'' mappersURL adminToken audienceMapper])))))"

section \<open>The client secret\<close>

definition storeClientSecret :: "('w, 'x) env_scheme \<Rightarrow> string \<Rightarrow> ('w, goerr option) go" where
  "storeClientSecret E clientSecret = do {
     oidcSecret \<leftarrow> Get E KSecret theSecret (architectNamespace, ''mirror-operator-keycloak-client-secret'');
     case oidcSecret of
       Inl err \<Rightarrow>
         if \<not> isNotFound err then return (Some (wrap ''failed to get OIDC secret'' err))
         else do {
           c \<leftarrow> Create E OSecret theSecret
                 \<lparr>sec_Meta = nameMeta architectNamespace ''mirror-operator-keycloak-client-secret'', sec_Type = opaqueType, sec_Data = None,
                  sec_StringData = Some [''clientSecret'' \<mapsto> clientSecret]\<rparr>;
           return (map_option (wrap ''failed to create OIDC secret'') (errOf c)) }
     | Inr oidcSecret \<Rightarrow> do {
         let data = (case sec_Data oidcSecret of None \<Rightarrow> Map.empty | Some m \<Rightarrow> m);
         u \<leftarrow> Update E OSecret theSecret (oidcSecret\<lparr>sec_Data := Some (data(''clientSecret'' \<mapsto> clientSecret))\<rparr>);
         return (map_option (wrap ''failed to update OIDC secret'') (errOf u)) } }"

definition secretFrom ::
  "('w, 'x) keycloakEnv_scheme \<Rightarrow> string \<Rightarrow> string \<Rightarrow> string \<Rightarrow> string \<Rightarrow> string \<Rightarrow> string \<Rightarrow> ('w, string res) go" where
  "secretFrom E msg decodeMsg noValue method url token =
     thenR (asked E msg method url token None) (\<lambda>resp. return
       (case jsonDecode E (hp_Body resp) of
          Inl err \<Rightarrow> Inl (wrap decodeMsg err)
        | Inr m \<Rightarrow> (case asStr (m ''value'') of None \<Rightarrow> Inl (errorf (noValue @ '': '' @ sprintV E (GMap m))) | Some s \<Rightarrow> Inr s)))"

definition placeholderSecret :: string where "placeholderSecret = ''will-be-replaced-by-controller''"

definition updateKeycloakClientSecret ::
  "('w, 'x) keycloakEnv_scheme \<Rightarrow> string \<Rightarrow> string \<Rightarrow> string \<Rightarrow> ('w, goerr option) go" where
  "updateKeycloakClientSecret E keycloakHost clientID realmName =
     thenE (adminSecret E ''failed to get admin secret'') (\<lambda>secret.
     thenE (uncheckedToken E (\<lambda>m. ''no access token in response: '' @ sprintV E (GMap m)) keycloakHost (secGet secret ''password'')) (\<lambda>accessToken.
     thenE (askedMaps E ''failed to list clients'' ''failed to decode clients response'' (clientURL keycloakHost realmName clientID) accessToken) (\<lambda>clients.
     thenE (return (firstID (errorf (''client '' @ clientID @ '' not found in realm '' @ realmName)) (errorf ''client id not found in response'') clients)) (\<lambda>clientUUID.
     let secretURL = realmURL keycloakHost realmName (''/clients/'' @ clientUUID @ ''/client-secret'') in
     thenE (secretFrom E ''failed to get client secret'' ''failed to decode secret response'' ''no secret value in response'' ''GET'' secretURL accessToken) (\<lambda>clientSecret.
     thenE (if clientSecret = placeholderSecret
            then secretFrom E ''failed to regenerate client secret'' ''failed to decode regenerate response'' ''no secret value in regenerate response''
                   ''POST'' secretURL accessToken
            else return (Inr clientSecret)) (\<lambda>clientSecret.
     storeClientSecret E clientSecret))))))"

section \<open>The scope of verified addresses\<close>

definition getClientScopeIDByName ::
  "('w, 'x) keycloakEnv_scheme \<Rightarrow> string \<Rightarrow> string \<Rightarrow> string \<Rightarrow> string \<Rightarrow> ('w, string res) go" where
  "getClientScopeIDByName E keycloakHost realmName scopeName adminToken =
     thenR (askedMaps E ''failed to get client scopes'' ''failed to decode client scopes'' (realmURL keycloakHost realmName ''/client-scopes'') adminToken)
       (\<lambda>scopes. return (Inr (case find (\<lambda>m. asStr (m ''name'') = Some scopeName \<and> asStr (m ''id'') \<noteq> None) scopes of
          None \<Rightarrow> [] | Some m \<Rightarrow> strOrEmpty (m ''id''))))"

text \<open>The identifier of the first scope of the name, which is asserted to be a text; empty where there is no such scope.\<close>

definition assertedScopeID :: "string \<Rightarrow> gomap list \<Rightarrow> string res" where
  "assertedScopeID scopeName scopes =
     (case find (\<lambda>m. asStr (m ''name'') = Some scopeName) scopes of
        None \<Rightarrow> Inr []
      | Some m \<Rightarrow> (case asStr (m ''id'') of None \<Rightarrow> Inl (panic ''interface conversion'') | Some i \<Rightarrow> Inr i))"

definition verifiedScope :: gomap where
  "verifiedScope = [''name'' \<mapsto> GStr ''email-verified-scope'', ''description'' \<mapsto> GStr ''Email verified claim for service account tokens'',
     ''protocol'' \<mapsto> GStr ''openid-connect'', ''attributes'' \<mapsto> GMap [''include.in.token.scope'' \<mapsto> GStr ''true'']]"

definition defaultScopeURL :: "string \<Rightarrow> string \<Rightarrow> string \<Rightarrow> string \<Rightarrow> string" where
  "defaultScopeURL keycloakHost realmName clientUUID scopeID =
     realmURL keycloakHost realmName (''/clients/'' @ clientUUID @ ''/default-client-scopes/'' @ scopeID)"

definition removeBuiltinScope ::
  "('w, 'x) keycloakEnv_scheme \<Rightarrow> string \<Rightarrow> string \<Rightarrow> string \<Rightarrow> string \<Rightarrow> ('w, goerr option) go" where
  "removeBuiltinScope E keycloakHost realmName clientUUID adminToken = do {
     builtin \<leftarrow> getClientScopeIDByName E keycloakHost realmName ''email'' adminToken;
     case builtin of
       Inl err \<Rightarrow> return (logged (Some err))
     | Inr scopeID \<Rightarrow>
         if scopeID = [] then return None
         else do {
           resp \<leftarrow> http E ''DELETE'' (defaultScopeURL keycloakHost realmName clientUUID scopeID) adminToken None;
           return (logged (errOf resp)) } }"

definition ensureEmailVerifiedClientScope ::
  "('w, 'x) keycloakEnv_scheme \<Rightarrow> string \<Rightarrow> string \<Rightarrow> string \<Rightarrow> string \<Rightarrow> ('w, goerr option) go" where
  "ensureEmailVerifiedClientScope E keycloakHost realmName clientUUID adminToken =
     (let clientScopesURL = realmURL keycloakHost realmName ''/client-scopes'' in
     thenE (asked E ''failed to get client scopes'' ''GET'' clientScopesURL adminToken None) (\<lambda>resp.
     thenE (return (assertedScopeID ''email-verified-scope'' (anyMaps E resp))) (\<lambda>scopeID.
     thenE (if scopeID = [] then createdID E ''failed to create client scope'' clientScopesURL adminToken verifiedScope else return (Inr scopeID)) (\<lambda>scopeID.
     let scopeMappersURL = realmURL keycloakHost realmName (''/client-scopes/'' @ scopeID @ ''/protocol-mappers/models'') in
     thenE (asked E ''failed to get scope mappers'' ''GET'' scopeMappersURL adminToken None) (\<lambda>resp.
     let scopeMappers = anyMaps E resp in
     untilError
       [mapperUnless E (hasNamed ''email-scope-mapper'' scopeMappers) ''email scope mapper'' scopeMappersURL adminToken
          (claimMapper ''email-scope-mapper'' ''email'' ''service-account-trusted-artifact-signer@keycloak.local'' ''String''),
        mapperUnless E (hasNamed ''email-verified-scope-mapper'' scopeMappers) ''scope mapper'' scopeMappersURL adminToken
          (claimMapper ''email-verified-scope-mapper'' ''email_verified'' ''true'' ''boolean''),
        removeBuiltinScope E keycloakHost realmName clientUUID adminToken,
        thenE (asked E ''failed to assign client scope'' ''PUT'' (defaultScopeURL keycloakHost realmName clientUUID scopeID) adminToken None)
          (\<lambda>resp. return (expectStatus ''failed to assign client scope'' [204, 200, 201, 409] resp))])))))"

section \<open>Realm and client\<close>

definition signingRealm :: "string \<Rightarrow> gomap" where
  "signingRealm realmName = [''realm'' \<mapsto> GStr realmName, ''enabled'' \<mapsto> GBool True, ''displayName'' \<mapsto> GStr ''Trusted Artifact Signer'']"

definition signingClient :: "string \<Rightarrow> gomap" where
  "signingClient clientID =
     [''clientId'' \<mapsto> GStr clientID, ''enabled'' \<mapsto> GBool True, ''publicClient'' \<mapsto> GBool False, ''serviceAccountsEnabled'' \<mapsto> GBool True,
      ''directAccessGrantsEnabled'' \<mapsto> GBool True, ''standardFlowEnabled'' \<mapsto> GBool False, ''redirectUris'' \<mapsto> GStrs [],
      ''webOrigins'' \<mapsto> GStrs [], ''defaultClientScopes'' \<mapsto> GStrs [''email'', ''profile''], ''optionalClientScopes'' \<mapsto> GStrs []]"

definition ensureClient ::
  "('w, 'x) keycloakEnv_scheme \<Rightarrow> string \<Rightarrow> string \<Rightarrow> string \<Rightarrow> string \<Rightarrow> gomap list \<Rightarrow> ('w, string res) go" where
  "ensureClient E keycloakHost realmName clientID adminToken clients =
     (if clients = [] then createdID E ''failed to create client'' (realmURL keycloakHost realmName ''/clients'') adminToken (signingClient clientID)
      else return (firstID (errorf []) (panic ''interface conversion'') clients))"

text \<open>The identifier of the mapper of verified addresses, the last one listed, and whether one of that name has the right type.\<close>

definition verifiedMapperID :: "gomap list \<Rightarrow> string" where
  "verifiedMapperID mappers =
     (case rev (List.map_filter (\<lambda>m. if asStr (m ''name'') = Some ''email-verified-mapper'' then asStr (m ''id'') else None) mappers) of
        [] \<Rightarrow> [] | i # _ \<Rightarrow> i)"

definition verifiedMapperCorrect :: "gomap list \<Rightarrow> bool" where
  "verifiedMapperCorrect = list_ex (\<lambda>m. asStr (m ''name'') = Some ''email-verified-mapper'' \<and>
     asStr (orEmptyMap (asMap (m ''config'')) ''jsonType.label'') = Some ''boolean'')"

definition mapperRepairs ::
  "('w, 'x) keycloakEnv_scheme \<Rightarrow> string \<Rightarrow> string \<Rightarrow> string \<Rightarrow> gomap list \<Rightarrow> ('w, goerr option) go list" where
  "mapperRepairs E mappersURL clientID adminToken mappers =
     (let mapperID = verifiedMapperID mappers; correct = verifiedMapperCorrect mappers in
      [mapperUnless E (hasNamed ''email-mapper'' mappers) ''email mapper'' mappersURL adminToken
         (withoutConsent (claimMapper ''email-mapper'' ''email'' (''service-account-'' @ clientID @ ''@keycloak.local'') ''String'')),
       (if mapperID \<noteq> [] \<and> \<not> correct
        then thenE (asked E ''failed to delete incorrect email_verified mapper'' ''DELETE'' (mappersURL @ ''/'' @ mapperID) adminToken None) (\<lambda>_. return None)
        else return None),
       mapperUnless E (mapperID \<noteq> [] \<and> correct) ''email_verified mapper'' mappersURL adminToken
         (claimMapper ''email-verified-mapper'' ''email_verified'' ''true'' ''boolean'')])"

definition configureKeycloakRealmAndClient ::
  "('w, 'x) keycloakEnv_scheme \<Rightarrow> string \<Rightarrow> string \<Rightarrow> string \<Rightarrow> ('w, goerr option) go" where
  "configureKeycloakRealmAndClient E keycloakHost realmName clientID =
     thenE (adminSecret E ''failed to get admin secret'') (\<lambda>secret.
     thenE (checkedToken E False keycloakHost (secGet secret ''password'')) (\<lambda>adminToken.
     thenE (asked E ''failed to list realms'' ''GET'' (adminURL keycloakHost []) adminToken None) (\<lambda>resp.
     untilError
       [if list_ex (\<lambda>m. m ''realm'' = Some (GStr realmName)) (anyMaps E resp) then return None
        else sendJSON E ''failed to create realm'' ''POST'' (adminURL keycloakHost []) adminToken (signingRealm realmName) [201],
        thenE (asked E ''failed to get client'' ''GET'' (clientURL keycloakHost realmName clientID) adminToken None) (\<lambda>resp.
        thenE (ensureClient E keycloakHost realmName clientID adminToken (anyMaps E resp)) (\<lambda>clientUUID.
        let mappersURL = clientMappersURL keycloakHost realmName clientUUID in
        thenE (asked E ''failed to get protocol mappers'' ''GET'' mappersURL adminToken None) (\<lambda>resp.
        untilError
          (mapperRepairs E mappersURL clientID adminToken (anyMaps E resp) @
           [logError (ensureEmailVerifiedClientScope E keycloakHost realmName clientUUID adminToken),
            updateKeycloakClientSecret E keycloakHost clientID realmName]))))])))"

end
