(* ===== verification/KeycloakRealms.thy ===== *)
theory KeycloakRealms
  imports KeycloakAdmin
begin

text \<open>
  OpenShift as the identity provider of the realms of Keycloak, and the signing configuration of the collection pipelines, from
  \<^verbatim>\<open>disconnectedplatform_controller.go\<close>.
\<close>

section \<open>The identity provider\<close>

definition oauthClientGVK :: gvk where
  "oauthClientGVK = \<lparr>g_Group = ''oauth.openshift.io'', g_Version = ''v1'', g_Kind = ''OAuthClient''\<rparr>"

definition newOAuthClient :: "('w, 'x) env_scheme \<Rightarrow> string \<Rightarrow> string \<Rightarrow> unstr" where
  "newOAuthClient E keycloakHost realmName =
     onObject (setField E (GList [GStr (''https://'' @ keycloakHost @ ''/realms/'' @ realmName @ ''/broker/openshift/endpoint'')]) [''redirectURIs''])
       (onObject (setField E (GStr ''prompt'') [''grantMethod''])
         (onObject (setField E (GStr (generateRandomString 32)) [''secret''])
           (newUnstr oauthClientGVK [] (''keycloak-'' @ realmName))))"

definition ensureOAuthClient :: "('w, 'x) env_scheme \<Rightarrow> string \<Rightarrow> string \<Rightarrow> ('w, unstr res) go" where
  "ensureOAuthClient E keycloakHost realmName = do {
     oauthClient \<leftarrow> Get E (KUnstr oauthClientGVK) theUnstr ([], ''keycloak-'' @ realmName);
     case oauthClient of
       Inr oauthClient \<Rightarrow> return (Inr oauthClient)
     | Inl err \<Rightarrow>
         if isNotFound err then do {
           c \<leftarrow> Create E OUnstr theUnstr (newOAuthClient E keycloakHost realmName);
           return (labelled ''failed to create OAuthClient'' c) }
         else return (Inl (wrap ''failed to check OAuthClient'' err)) }"

definition flowURL :: "string \<Rightarrow> string \<Rightarrow> string" where
  "flowURL keycloakHost realmName = realmURL keycloakHost realmName ''/authentication/flows/first%20broker%20login/executions''"

text \<open>The first execution of the name that is not disabled yet is; a failure is logged.\<close>

fun reviewLoop :: "('w, 'x) keycloakEnv_scheme \<Rightarrow> string \<Rightarrow> string \<Rightarrow> gomap list \<Rightarrow> ('w, goerr option) go" where
  "reviewLoop E url adminToken [] = return None"
| "reviewLoop E url adminToken (execution # executions) =
     (if asStr (execution ''displayName'') \<noteq> Some ''Review Profile'' \<or> strOrEmpty (execution ''requirement'') = ''DISABLED''
      then reviewLoop E url adminToken executions
      else do {
        resp \<leftarrow> http E ''PUT'' url adminToken (jsonBody E (execution(''requirement'' \<mapsto> GStr ''DISABLED'')));
        return (logged (errOf resp)) })"

definition configureRealmProfileSettings ::
  "('w, 'x) keycloakEnv_scheme \<Rightarrow> string \<Rightarrow> string \<Rightarrow> string \<Rightarrow> ('w, goerr option) go" where
  "configureRealmProfileSettings E keycloakHost realmName adminToken =
     (let url = flowURL keycloakHost realmName in
     thenE (asked E ''failed to get authentication flow'' ''GET'' url adminToken None) (\<lambda>resp.
     if hp_Status resp \<noteq> 200 then return (Some (errorf (''failed to get authentication flow: status '' @ itoa (hp_Status resp))))
     else thenE (return (decodedMaps E ''failed to decode executions'' resp)) (reviewLoop E url adminToken)))"

definition idpURL :: "string \<Rightarrow> string \<Rightarrow> string" where
  "idpURL keycloakHost realmName = realmURL keycloakHost realmName ''/identity-provider/instances''"

definition userInfoURL :: "string \<Rightarrow> goval" where
  "userInfoURL apiServerURL = GStr (apiServerURL @ ''/apis/user.openshift.io/v1/users/~'')"

definition openshiftIdP :: "string \<Rightarrow> string \<Rightarrow> string \<Rightarrow> gomap" where
  "openshiftIdP realmName apiServerURL clientSecret =
     [''alias'' \<mapsto> GStr ''openshift'', ''displayName'' \<mapsto> GStr ''OpenShift'', ''providerId'' \<mapsto> GStr ''openshift-v4'',
      ''enabled'' \<mapsto> GBool True, ''trustEmail'' \<mapsto> GBool True, ''firstBrokerLoginFlowAlias'' \<mapsto> GStr ''first broker login'',
      ''updateProfileFirstLoginMode'' \<mapsto> GStr ''off'',
      ''config'' \<mapsto> GMap
        [''baseUrl'' \<mapsto> GStr apiServerURL, ''clientId'' \<mapsto> GStr (''keycloak-'' @ realmName), ''clientSecret'' \<mapsto> GStr clientSecret,
         ''defaultScope'' \<mapsto> GStr ''user:full'', ''userInfoUrl'' \<mapsto> userInfoURL apiServerURL]]"

text \<open>The configuration is asserted to be a map, after a nil document has made the write before it panic.\<close>

definition updatedIdP :: "string \<Rightarrow> string \<Rightarrow> gomap option \<Rightarrow> gomap res" where
  "updatedIdP apiServerURL clientSecret existing =
     (case existing of
        None \<Rightarrow> Inl (panic ''assignment to entry in nil map'')
      | Some idp \<Rightarrow>
          (case asMap (idp ''config'') of
             None \<Rightarrow> Inl (panic ''interface conversion'')
           | Some config \<Rightarrow> Inr (idp
               (''updateProfileFirstLoginMode'' \<mapsto> GStr ''off'',
                ''config'' \<mapsto> GMap (config(''clientSecret'' \<mapsto> GStr clientSecret, ''baseUrl'' \<mapsto> GStr apiServerURL,
                  ''userInfoUrl'' \<mapsto> userInfoURL apiServerURL))))))"

definition updateIdP ::
  "('w, 'x) keycloakEnv_scheme \<Rightarrow> string \<Rightarrow> string \<Rightarrow> string \<Rightarrow> string \<Rightarrow> string \<Rightarrow> ('w, goerr option) go" where
  "updateIdP E keycloakHost realmName apiServerURL clientSecret adminToken =
     (let getURL = idpURL keycloakHost realmName @ ''/openshift'' in
     thenE (asked E ''failed to get identity provider'' ''GET'' getURL adminToken None) (\<lambda>resp.
     thenE (return (labelled ''failed to decode identity provider'' (jsonDecodeMap E (hp_Body resp)))) (\<lambda>existing.
     thenE (return (updatedIdP apiServerURL clientSecret existing)) (\<lambda>idp.
     thenE (asked E ''failed to update identity provider'' ''PUT'' getURL adminToken (jsonBody E idp)) (\<lambda>resp.
     return (expectStatus ''failed to update identity provider secret'' [200, 204] resp))))))"

definition addOpenShiftIdentityProvider ::
  "('w, 'x) keycloakEnv_scheme \<Rightarrow> string \<Rightarrow> string \<Rightarrow> string \<Rightarrow> string \<Rightarrow> ('w, goerr option) go" where
  "addOpenShiftIdentityProvider E keycloakHost realmName apiServerURL adminToken =
     thenE (askedMaps E ''failed to list identity providers'' ''failed to decode identity providers'' (idpURL keycloakHost realmName) adminToken) (\<lambda>idps.
     thenE (ensureOAuthClient E keycloakHost realmName) (\<lambda>oauthClient.
     let clientSecret = stringAt E (u_Object oauthClient) [''secret''] in
     if clientSecret = [] then return (Some (errorf ''OAuthClient secret is empty''))
     else untilError
       [if list_ex (\<lambda>idp. asStr (idp ''alias'') = Some ''openshift'') idps
        then updateIdP E keycloakHost realmName apiServerURL clientSecret adminToken
        else sendJSON E ''failed to create identity provider'' ''POST'' (idpURL keycloakHost realmName) adminToken
               (openshiftIdP realmName apiServerURL clientSecret) [201],
        logError (configureRealmProfileSettings E keycloakHost realmName adminToken)]))"

definition usernameMapper :: gomap where
  "usernameMapper =
     [''name'' \<mapsto> GStr ''username-mapper'', ''identityProviderAlias'' \<mapsto> GStr ''openshift'',
      ''identityProviderMapper'' \<mapsto> GStr ''oidc-username-idp-mapper'',
      ''config'' \<mapsto> GMap [''template'' \<mapsto> GStr ''${CLAIM.preferred_username}'']]"

definition addOpenShiftAttributeMappers ::
  "('w, 'x) keycloakEnv_scheme \<Rightarrow> string \<Rightarrow> string \<Rightarrow> string \<Rightarrow> ('w, goerr option) go" where
  "addOpenShiftAttributeMappers E keycloakHost realmName adminToken = do {
     resp \<leftarrow> http E ''POST'' (idpURL keycloakHost realmName @ ''/openshift/mappers'') adminToken (jsonBody E usernameMapper);
     return (logged (errOf resp)) }"

definition namedToken :: "('w, 'x) keycloakEnv_scheme \<Rightarrow> string \<Rightarrow> string \<Rightarrow> string \<Rightarrow> ('w, string res) go" where
  "namedToken E keycloakHost user password =
     thenR (postToken E keycloakHost user password) (\<lambda>(status, body). return
       (if status \<noteq> 200 then Inl (statusError ''failed to get admin token'' status body)
        else (case jsonDecode E body of
            Inl err \<Rightarrow> Inl (wrap ''failed to decode token response'' err)
          | Inr m \<Rightarrow> if strOrEmpty (m ''access_token'') = [] then Inl (errorf ''no access token in response'')
                     else Inr (strOrEmpty (m ''access_token'')))))"

definition apiServerOf :: "('w, 'x) env_scheme \<Rightarrow> ('w, string res) go" where
  "apiServerOf E = do {
     infrastructure \<leftarrow> Get E (KUnstr (configGVK ''Infrastructure'')) theUnstr ([], ''cluster'');
     return (case infrastructure of
         Inl err \<Rightarrow> Inl (wrap ''failed to get cluster infrastructure'' err)
       | Inr i \<Rightarrow> (let apiServerURL = stringAt E (u_Object i) [''status'', ''apiServerURL''] in
           if apiServerURL = [] then Inl (errorf ''apiServerURL not found in cluster infrastructure'') else Inr apiServerURL)) }"

definition configureOpenShiftOAuth :: "('w, 'x) keycloakEnv_scheme \<Rightarrow> string \<Rightarrow> ('w, goerr option) go" where
  "configureOpenShiftOAuth E keycloakHost =
     thenE (adminSecret E ''failed to get Keycloak admin credentials'') (\<lambda>secret.
     thenE (apiServerOf E) (\<lambda>apiServerURL.
     thenE (namedToken E keycloakHost (secGet secret ''username'') (secGet secret ''password'')) (\<lambda>adminToken.
     untilError (map (\<lambda>realmName. logError (addOpenShiftIdentityProvider E keycloakHost realmName apiServerURL adminToken))
       [''trusted-artifact-signer'', ''trustify'']))))"

section \<open>Signing of the collections\<close>

definition keylessSigning :: "string \<Rightarrow> string \<Rightarrow> string \<Rightarrow> string \<Rightarrow> keylessSigningConfig" where
  "keylessSigning fulcioURL rekorURL tufURL oidcIssuer =
     \<lparr>ksc_FulcioURL = fulcioURL, ksc_RekorURL = rekorURL, ksc_TUFURL = tufURL, ksc_OIDCIssuer = oidcIssuer,
      ksc_OIDCClientID = ''trusted-artifact-signer'', ksc_OIDCClientSecret = Some \<lparr>lor_Name = ''mirror-operator-keycloak-client-secret''\<rparr>\<rparr>"

definition noSigning :: cosignSigningConfig where
  "noSigning = \<lparr>csc_KeySecretRef = None, csc_PasswordSecretRef = None, csc_Keyless = None\<rparr>"

definition signPipeline :: "keylessSigningConfig \<Rightarrow> collectionPipeline \<Rightarrow> collectionPipeline" where
  "signPipeline keyless pipeline = pipeline\<lparr>cp_Spec := (cp_Spec pipeline)\<lparr>cps_Signing :=
     Some ((case cps_Signing (cp_Spec pipeline) of None \<Rightarrow> noSigning | Some s \<Rightarrow> s)\<lparr>csc_Keyless := Some keyless\<rparr>)\<rparr>\<rparr>"

text \<open>Addresses of the signing services from the status of Securesign.\<close>

definition signingURLs :: "('w, 'x) env_scheme \<Rightarrow> ('w, (string \<times> string \<times> string) res) go" where
  "signingURLs E = do {
     securesign \<leftarrow> Get E (KUnstr securesignGVK) theUnstr (architectNamespace, securesignName);
     return (case securesign of
         Inl err \<Rightarrow> Inl (wrap ''waiting for Securesign to be ready'' err)
       | Inr securesign \<Rightarrow>
           (let (status, found, err) = nestedMap E (u_Object securesign) [''status''] in
            if err \<noteq> None \<or> \<not> found then Inl (errorf ''Securesign status not available yet'')
            else let fulcioURL = stringAt E (GMap status) [''fulcio'', ''url'']; rekorURL = stringAt E (GMap status) [''rekor'', ''url''];
                     tufURL = stringAt E (GMap status) [''tuf'', ''url''] in
              if fulcioURL = [] \<or> rekorURL = [] then Inl (errorf ''Fulcio or Rekor URL not available in Securesign status'')
              else Inr (fulcioURL, rekorURL, orElse tufURL ''http://tuf.mirror-operator-system.svc''))) }"

definition keycloakHostname :: "('w, 'x) env_scheme \<Rightarrow> ('w, string res) go" where
  "keycloakHostname E = do {
     kc \<leftarrow> Get E (KUnstr keycloakGVK) theUnstr (architectNamespace, keycloakName);
     return (case kc of
         Inl err \<Rightarrow> Inl (wrap ''waiting for Keycloak'' err)
       | Inr kc \<Rightarrow> (let hostname = stringAt E (u_Object kc) [''spec'', ''hostname'', ''hostname''] in
           if hostname = [] then Inl (errorf ''Keycloak hostname not available'') else Inr hostname)) }"

text \<open>The failure of an update is logged.\<close>

fun signPipelines :: "('w, 'x) env_scheme \<Rightarrow> keylessSigningConfig \<Rightarrow> collectionPipeline list \<Rightarrow> ('w, goerr option) go" where
  "signPipelines E keyless [] = return None"
| "signPipelines E keyless (p # ps) = do {
     _ \<leftarrow> Update E OPipeline thePipeline (signPipeline keyless p);
     signPipelines E keyless ps }"

definition configureCollectionPipelineSigning ::
  "('w, 'x) keycloakEnv_scheme \<Rightarrow> disconnectedPlatform \<Rightarrow> ('w, goerr option) go" where
  "configureCollectionPipelineSigning E platform =
     (case dps_Connected (dp_Spec platform) of
        None \<Rightarrow> return (Some (panic ''nil pointer dereference: platform.Spec.Connected''))
      | Some con \<Rightarrow>
          (case wantedKeycloak con of
             None \<Rightarrow> return None
           | Some managed \<Rightarrow>
               thenE (signingURLs E) (\<lambda>(fulcioURL, rekorURL, tufURL).
               thenE (keycloakHostname E) (\<lambda>hostname.
               untilError
                 [wrapped ''failed to retrieve Keycloak client secret''
                    (updateKeycloakClientSecret E hostname ''trusted-artifact-signer'' (mkc_Realm managed)),
                  wrapped ''failed to configure Keycloak email mapper''
                    (configureKeycloakEmailMapper E hostname ''trusted-artifact-signer'' (mkc_Realm managed)),
                  do {
                    pipelines \<leftarrow> ListObjs E KPipeline thePipeline allObjects;
                    case pipelines of
                      Inl err \<Rightarrow> return (Some (wrap ''failed to list CollectionPipelines'' err))
                    | Inr pipelines \<Rightarrow>
                        signPipelines E (keylessSigning fulcioURL rekorURL tufURL (''https://'' @ hostname @ ''/realms/'' @ mkc_Realm managed)) pipelines }]))))"

end
