(* ===== verification/Trustify.thy ===== *)
theory Trustify
  imports KeycloakRealms
begin

text \<open>
  The Trusted Profile Analyzer, from \<^verbatim>\<open>disconnectedplatform_controller.go\<close>: its realm, scopes, clients and role in Keycloak, the
  redirect address of its clients, and its resource with storage and database.
\<close>

section \<open>Scopes\<close>

definition documentScope :: "string \<Rightarrow> string \<Rightarrow> gomap" where
  "documentScope name description =
     [''name'' \<mapsto> GStr name, ''description'' \<mapsto> GStr description, ''protocol'' \<mapsto> GStr ''openid-connect'',
      ''attributes'' \<mapsto> GMap [''include.in.token.scope'' \<mapsto> GStr ''true'', ''display.on.consent.screen'' \<mapsto> GStr ''false'']]"

definition ensureScope ::
  "('w, 'x) keycloakEnv_scheme \<Rightarrow> string \<Rightarrow> string \<Rightarrow> string \<Rightarrow> string \<Rightarrow> string \<Rightarrow> ('w, goerr option) go" where
  "ensureScope E keycloakHost realmName adminToken scopeName description =
     (let scopesURL = realmURL keycloakHost realmName ''/client-scopes'' in
     thenE (askedMaps E ''failed to list client scopes'' ''failed to decode client scopes'' scopesURL adminToken) (\<lambda>scopes.
     if hasNamed scopeName scopes then return None
     else sendJSON E ''failed to create client scope'' ''POST'' scopesURL adminToken (documentScope scopeName description) [201]))"

definition ensureTrustifyReadOnlyScope ::
  "('w, 'x) keycloakEnv_scheme \<Rightarrow> string \<Rightarrow> string \<Rightarrow> string \<Rightarrow> ('w, goerr option) go" where
  "ensureTrustifyReadOnlyScope E keycloakHost realmName adminToken =
     ensureScope E keycloakHost realmName adminToken ''read:document'' ''Read-only access to Trustify documents (advisories, SBOMs, etc.)''"

definition ensureTrustifyCreateScope ::
  "('w, 'x) keycloakEnv_scheme \<Rightarrow> string \<Rightarrow> string \<Rightarrow> string \<Rightarrow> ('w, goerr option) go" where
  "ensureTrustifyCreateScope E keycloakHost realmName adminToken =
     ensureScope E keycloakHost realmName adminToken ''create:document'' ''Write access to Trustify documents (create SBOMs, advisories, etc.)''"

definition statusTextError :: "string \<Rightarrow> httpResponse \<Rightarrow> goerr" where
  "statusTextError msg resp = errorf (msg @ '': '' @ hp_StatusText resp @ '' - '' @ hp_Body resp)"

text \<open>A request without a body that has the content type nevertheless.\<close>

definition askedTyped :: "('w, 'x) keycloakEnv_scheme \<Rightarrow> string \<Rightarrow> string \<Rightarrow> string \<Rightarrow> string \<Rightarrow> ('w, httpResponse res) go" where
  "askedTyped E msg method url token = do { resp \<leftarrow> httpTyped E True method url token None; return (labelled msg resp) }"

text \<open>Here the name is compared as an interface, then the identifier is asserted to be a text.\<close>

definition assignScopeToClient ::
  "('w, 'x) keycloakEnv_scheme \<Rightarrow> string \<Rightarrow> string \<Rightarrow> string \<Rightarrow> string \<Rightarrow> string \<Rightarrow> ('w, goerr option) go" where
  "assignScopeToClient E keycloakHost realmName clientUUID scopeName adminToken =
     thenE (askedTyped E ''failed to list client scopes'' ''GET'' (realmURL keycloakHost realmName ''/client-scopes'') adminToken) (\<lambda>resp.
     if hp_Status resp \<noteq> 200 then return (Some (statusTextError ''failed to list client scopes'' resp))
     else thenE (return (decodedMaps E ''failed to decode client scopes response'' resp)) (\<lambda>scopes.
     thenE (return (assertedScopeID scopeName scopes)) (\<lambda>scopeUUID.
     if scopeUUID = [] then return (Some (errorf (scopeName @ '' scope not found'')))
     else thenE (askedTyped E ''failed to assign scope to client'' ''PUT'' (defaultScopeURL keycloakHost realmName clientUUID scopeUUID) adminToken) (\<lambda>resp.
       return (if hp_Status resp \<in> {204, 200} then None else Some (statusTextError ''failed to assign scope to client'' resp))))))"

definition assignReadScopeToClient ::
  "('w, 'x) keycloakEnv_scheme \<Rightarrow> string \<Rightarrow> string \<Rightarrow> string \<Rightarrow> string \<Rightarrow> ('w, goerr option) go" where
  "assignReadScopeToClient E keycloakHost realmName clientUUID adminToken =
     assignScopeToClient E keycloakHost realmName clientUUID ''read:document'' adminToken"

section \<open>The role of the command line client\<close>

definition statusInError :: "string \<Rightarrow> httpResponse \<Rightarrow> goerr" where
  "statusInError msg resp = errorf (msg @ '' (status '' @ itoa (hp_Status resp) @ ''): '' @ hp_Body resp)"

definition managerRole :: gomap where
  "managerRole =
     [''name'' \<mapsto> GStr ''trustify-manager'',
      ''description'' \<mapsto> GStr ''Trustify manager role with full access to Trustify/TPA APIs for creating and managing documents'',
      ''composite'' \<mapsto> GBool False, ''clientRole'' \<mapsto> GBool False]"

definition ensureTrustifyManagerRole ::
  "('w, 'x) keycloakEnv_scheme \<Rightarrow> string \<Rightarrow> string \<Rightarrow> string \<Rightarrow> ('w, goerr option) go" where
  "ensureTrustifyManagerRole E keycloakHost realmName adminToken =
     thenE (asked E ''failed to check for trustify-manager role'' ''GET'' (realmURL keycloakHost realmName ''/roles/trustify-manager'') adminToken None) (\<lambda>resp.
     if hp_Status resp = 200 then return None
     else if hp_Status resp \<noteq> 404 then return (Some (statusInError ''unexpected status checking role'' resp))
     else thenE (asked E ''failed to create trustify-manager role'' ''POST'' (realmURL keycloakHost realmName ''/roles'') adminToken (jsonBody E managerRole)) (\<lambda>resp.
       return (if hp_Status resp = 201 then None else Some (statusInError ''failed to create role'' resp))))"

text \<open>A list of maps as JSON; a role that is the text \<^verbatim>\<open>null\<close> is a nil map, which is sent on as such.\<close>

definition jsonList :: "('w, 'x) keycloakEnv_scheme \<Rightarrow> gomap option list \<Rightarrow> string option" where
  "jsonList E ms = Some (case jsonMarshalValue E (GList (map (\<lambda>m. case m of None \<Rightarrow> GNil | Some m \<Rightarrow> GMap m) ms)) of Inl _ \<Rightarrow> [] | Inr s \<Rightarrow> s)"

definition roleNamed ::
  "('w, 'x) keycloakEnv_scheme \<Rightarrow> string \<Rightarrow> string \<Rightarrow> string \<Rightarrow> string \<Rightarrow> string \<Rightarrow> ('w, gomap option res) go" where
  "roleNamed E keycloakHost realmName roleName adminToken decodeMsg =
     thenR (asked E ''failed to get role'' ''GET'' (realmURL keycloakHost realmName (''/roles/'' @ roleName)) adminToken None) (\<lambda>resp. return
       (if hp_Status resp = 404 then Inl (errorf (''role not found: '' @ roleName))
        else labelled decodeMsg (jsonDecodeMap E (hp_Body resp))))"

definition roleMappingsURL :: "string \<Rightarrow> string \<Rightarrow> string \<Rightarrow> string" where
  "roleMappingsURL keycloakHost realmName userUUID = realmURL keycloakHost realmName (''/users/'' @ userUUID @ ''/role-mappings/realm'')"

definition serviceAccountUser ::
  "('w, 'x) keycloakEnv_scheme \<Rightarrow> string \<Rightarrow> string \<Rightarrow> string \<Rightarrow> string \<Rightarrow> ('w, string res) go" where
  "serviceAccountUser E keycloakHost realmName clientUUID adminToken =
     thenR (asked E ''failed to get service account user'' ''GET'' (realmURL keycloakHost realmName (''/clients/'' @ clientUUID @ ''/service-account-user''))
         adminToken None) (\<lambda>resp. return
       (if hp_Status resp \<noteq> 200 then Inl (statusInError ''failed to get service account user'' resp)
        else (case jsonDecodeMap E (hp_Body resp) of
            Inl err \<Rightarrow> Inl (wrap ''failed to decode service account user'' err)
          | Inr m \<Rightarrow> (case asStr (orEmptyMap m ''id'') of
              None \<Rightarrow> Inl (errorf ''service account user ID not found in response'') | Some i \<Rightarrow> Inr i))))"

definition assignRoleToServiceAccountByClient ::
  "('w, 'x) keycloakEnv_scheme \<Rightarrow> string \<Rightarrow> string \<Rightarrow> string \<Rightarrow> string \<Rightarrow> string \<Rightarrow> ('w, goerr option) go" where
  "assignRoleToServiceAccountByClient E keycloakHost realmName clientUUID roleName adminToken =
     untilError
       [if roleName = ''trustify-manager''
        then wrapped ''failed to ensure trustify-manager role exists'' (ensureTrustifyManagerRole E keycloakHost realmName adminToken)
        else return None,
        thenE (serviceAccountUser E keycloakHost realmName clientUUID adminToken) (\<lambda>userUUID.
        thenE (roleNamed E keycloakHost realmName roleName adminToken ''failed to decode role'') (\<lambda>role.
        thenE (asked E ''failed to assign role'' ''POST'' (roleMappingsURL keycloakHost realmName userUUID) adminToken
            (jsonList E [role])) (\<lambda>resp.
        return (if hp_Status resp = 204 then None else Some (statusInError ''failed to assign role'' resp)))))]"

definition assignRoleToServiceAccount ::
  "('w, 'x) keycloakEnv_scheme \<Rightarrow> string \<Rightarrow> string \<Rightarrow> string \<Rightarrow> string \<Rightarrow> string \<Rightarrow> ('w, goerr option) go" where
  "assignRoleToServiceAccount E keycloakHost realmName username roleName adminToken =
     thenE (askedMaps E ''failed to get service account user'' ''failed to decode users response''
         (realmURL keycloakHost realmName (''/users?username='' @ username @ ''&exact=true'')) adminToken) (\<lambda>users.
     thenE (return (firstID (errorf (''service account user not found: '' @ username)) (panic ''interface conversion'') users)) (\<lambda>userUUID.
     thenE (roleNamed E keycloakHost realmName roleName adminToken ''failed to decode role response'') (\<lambda>role.
     thenE (return (case asStr (orEmptyMap role ''id'') of None \<Rightarrow> Inl (panic ''interface conversion'') | Some i \<Rightarrow> Inr i)) (\<lambda>roleUUID.
     thenE (asked E ''failed to assign role'' ''POST'' (roleMappingsURL keycloakHost realmName userUUID) adminToken
         (jsonList E [Some [''id'' \<mapsto> GStr roleUUID, ''name'' \<mapsto> GStr roleName]])) (\<lambda>resp.
     return (if hp_Status resp \<in> {204, 200, 201, 409} then None else Some (statusTextError ''failed to assign role'' resp)))))))"

text \<open>Both clients may read; the command line client may also create, with the role of a manager. All failures are logged.\<close>

definition assignScopes ::
  "('w, 'x) keycloakEnv_scheme \<Rightarrow> string \<Rightarrow> string \<Rightarrow> string \<Rightarrow> string \<Rightarrow> ('w, goerr option) go" where
  "assignScopes E keycloakHost realmName adminToken clientID =
     logError (thenE (askedMaps E [] [] (clientURL keycloakHost realmName clientID) adminToken) (\<lambda>clients.
       if clients = [] then return None
       else thenE (return (firstID (errorf []) (panic ''interface conversion'') clients)) (\<lambda>clientUUID.
         untilError (map logError
           (assignReadScopeToClient E keycloakHost realmName clientUUID adminToken #
            (if clientID = ''cli''
             then [assignScopeToClient E keycloakHost realmName clientUUID ''create:document'' adminToken,
                   assignRoleToServiceAccountByClient E keycloakHost realmName clientUUID ''trustify-manager'' adminToken]
             else []))))))"

definition assignScopeToTrustifyClients ::
  "('w, 'x) keycloakEnv_scheme \<Rightarrow> string \<Rightarrow> string \<Rightarrow> string \<Rightarrow> ('w, goerr option) go" where
  "assignScopeToTrustifyClients E keycloakHost realmName adminToken =
     untilError (map (assignScopes E keycloakHost realmName adminToken) [''frontend'', ''cli''])"

section \<open>Clients\<close>

text \<open>The host of an ingress, and the first ingress with a host that an object of the identifier owns.\<close>

definition firstRule :: "('w, 'x) env_scheme \<Rightarrow> unstr \<Rightarrow> gomap option" where
  "firstRule E ingress =
     (case nestedSlice E (u_Object ingress) [''spec'', ''rules''] of
        (r # _, True, _) \<Rightarrow> asMap (Some r) | _ \<Rightarrow> None)"

definition ownedBy :: "(ownerReference \<Rightarrow> bool) \<Rightarrow> unstr \<Rightarrow> bool" where
  "ownedBy P u = list_ex P (m_OwnerReferences (u_Meta u))"

definition clientHost :: "('w, 'x) env_scheme \<Rightarrow> string \<Rightarrow> unstr list \<Rightarrow> string" where
  "clientHost E uid ingresses =
     (case find (\<lambda>i. ownedBy (\<lambda>w. or_UID w = uid) i \<and> strOrEmpty (orEmptyMap (firstRule E i) ''host'') \<noteq> []) ingresses of
        None \<Rightarrow> [] | Some i \<Rightarrow> strOrEmpty (orEmptyMap (firstRule E i) ''host''))"

definition actualAppDomain :: "('w, 'x) env_scheme \<Rightarrow> string \<Rightarrow> ('w, string) go" where
  "actualAppDomain E appDomain = do {
     tpaList \<leftarrow> ListObjs E (KUnstr \<lparr>g_Group = ''charts.trustification.dev'', g_Version = ''v1alpha1'', g_Kind = ''TrustedProfileAnalyzerList''\<rparr>)
       theUnstr allObjects;
     case itemsOr tpaList of
       [] \<Rightarrow> return appDomain
     | tpa # _ \<Rightarrow> do {
         ingressList \<leftarrow> ListObjs E (KUnstr \<lparr>g_Group = ''networking.k8s.io'', g_Version = ''v1'', g_Kind = ''IngressList''\<rparr>)
           theUnstr (inNamespace (u_Namespace tpa));
         return (orElse (clientHost E (m_UID (u_Meta tpa)) (itemsOr ingressList)) appDomain) } }"

definition clientUpdate :: "string \<Rightarrow> bool \<Rightarrow> gomap" where
  "clientUpdate domain isPublic =
     [''redirectUris'' \<mapsto> GStrs [''https://'' @ domain @ ''/*''], ''webOrigins'' \<mapsto> GStrs [''*''], ''publicClient'' \<mapsto> GBool isPublic,
      ''serviceAccountsEnabled'' \<mapsto> GBool (\<not> isPublic), ''directAccessGrantsEnabled'' \<mapsto> GBool (\<not> isPublic)]"

definition newTrustifyClient :: "string \<Rightarrow> string \<Rightarrow> bool \<Rightarrow> string \<Rightarrow> gomap" where
  "newTrustifyClient clientID domain isPublic clientSecret =
     (let m = (clientUpdate domain isPublic)(''clientId'' \<mapsto> GStr clientID, ''enabled'' \<mapsto> GBool True, ''protocol'' \<mapsto> GStr ''openid-connect'',
        ''standardFlowEnabled'' \<mapsto> GBool True) in
      if isPublic then m else m(''secret'' \<mapsto> GStr clientSecret))"

text \<open>The secret of the client, empty where it cannot be had; a panic passes by.\<close>

definition readSecret :: "('w, 'x) keycloakEnv_scheme \<Rightarrow> string \<Rightarrow> string \<Rightarrow> ('w, string res) go" where
  "readSecret E secretURL adminToken = do {
     resp \<leftarrow> http E ''GET'' secretURL adminToken None;
     return (case resp of
         Inl err \<Rightarrow> if isPanic err then Inl err else Inr []
       | Inr resp \<Rightarrow>
           (case jsonDecodeMap E (hp_Body resp) of Inl _ \<Rightarrow> Inr [] | Inr m \<Rightarrow> Inr (strOrEmpty (orEmptyMap m ''value'')))) }"

text \<open>An existing client is updated, whatever status the answer has; identifier and secret of the client.\<close>

definition updateTrustifyClient ::
  "('w, 'x) keycloakEnv_scheme \<Rightarrow> string \<Rightarrow> string \<Rightarrow> string \<Rightarrow> string \<Rightarrow> bool \<Rightarrow> gomap list \<Rightarrow> ('w, (string \<times> string) res) go" where
  "updateTrustifyClient E keycloakHost realmName adminToken domain isPublic clients =
     thenR (return (firstID (errorf []) (panic ''interface conversion'') clients)) (\<lambda>clientUUID.
     let url = realmURL keycloakHost realmName (''/clients/'' @ clientUUID) in
     thenR (asked E ''failed to update client'' ''PUT'' url adminToken (jsonBody E (clientUpdate domain isPublic))) (\<lambda>_.
     thenR (if isPublic then return (Inr []) else readSecret E (url @ ''/client-secret'') adminToken) (\<lambda>clientSecret.
     return (Inr (clientUUID, clientSecret)))))"

definition readClientUUID :: "('w, 'x) keycloakEnv_scheme \<Rightarrow> string \<Rightarrow> string \<Rightarrow> ('w, string res) go" where
  "readClientUUID E url adminToken = do {
     resp \<leftarrow> http E ''GET'' url adminToken None;
     return (case resp of
         Inl err \<Rightarrow> if isPanic err then Inl err else Inr []
       | Inr resp \<Rightarrow>
           (case decodedMaps E [] resp of
              Inl _ \<Rightarrow> Inr []
            | Inr clients \<Rightarrow> if clients = [] then Inr [] else firstID (errorf []) (panic ''interface conversion'') clients)) }"

definition createTrustifyClient ::
  "('w, 'x) keycloakEnv_scheme \<Rightarrow> string \<Rightarrow> string \<Rightarrow> string \<Rightarrow> string \<Rightarrow> string \<Rightarrow> bool \<Rightarrow> ('w, (string \<times> string) res) go" where
  "createTrustifyClient E keycloakHost realmName adminToken clientID domain isPublic =
     (let clientSecret = (if isPublic then [] else generateRandomString 32) in
     thenR (asked E ''failed to create client'' ''POST'' (realmURL keycloakHost realmName ''/clients'') adminToken
         (jsonBody E (newTrustifyClient clientID domain isPublic clientSecret))) (\<lambda>resp.
     case expectStatus ''failed to create client'' [201] resp of
       Some err \<Rightarrow> return (Inl err)
     | None \<Rightarrow> thenR (readClientUUID E (clientURL keycloakHost realmName clientID) adminToken) (\<lambda>clientUUID.
         return (Inr (clientUUID, clientSecret)))))"

text \<open>Only the secret of the command line client is stored; a failure to read it is ignored unless it is missing.\<close>

definition storeCLISecret :: "('w, 'x) env_scheme \<Rightarrow> string \<Rightarrow> string \<Rightarrow> ('w, goerr option) go" where
  "storeCLISecret E clientID clientSecret =
     (if clientID \<noteq> ''cli'' then return None
      else do {
        let data = Some [''clientSecret'' \<mapsto> clientSecret];
        existingSecret \<leftarrow> Get E KSecret theSecret (architectNamespace, ''rhtpa-oidc-cli-secret'');
        case existingSecret of
          Inr s \<Rightarrow> do {
            u \<leftarrow> Update E OSecret theSecret (s\<lparr>sec_StringData := data\<rparr>);
            return (map_option (wrap (''failed to update '' @ clientID @ '' client secret'')) (errOf u)) }
        | Inl err \<Rightarrow>
            if isNotFound err then do {
              c \<leftarrow> Create E OSecret theSecret
                    \<lparr>sec_Meta = nameMeta architectNamespace ''rhtpa-oidc-cli-secret'', sec_Type = [], sec_Data = None, sec_StringData = data\<rparr>;
              return (map_option (wrap (''failed to create '' @ clientID @ '' client secret'')) (errOf c)) }
            else return None })"

definition ensureTrustifyOIDCClient ::
  "('w, 'x) keycloakEnv_scheme \<Rightarrow> string \<Rightarrow> string \<Rightarrow> string \<Rightarrow> string \<Rightarrow> string \<Rightarrow> bool \<Rightarrow> ('w, goerr option) go" where
  "ensureTrustifyOIDCClient E keycloakHost realmName clientID appDomain adminToken isPublic = do {
     domain \<leftarrow> actualAppDomain E appDomain;
     thenE (askedMaps E ''failed to check client'' ''failed to decode clients response'' (clientURL keycloakHost realmName clientID) adminToken) (\<lambda>clients.
     thenE (if clients \<noteq> [] then updateTrustifyClient E keycloakHost realmName adminToken domain isPublic clients
            else createTrustifyClient E keycloakHost realmName adminToken clientID domain isPublic) (\<lambda>(clientUUID, clientSecret).
     untilError
       [if clientUUID = [] then return None else logError (assignReadScopeToClient E keycloakHost realmName clientUUID adminToken),
        if isPublic \<or> clientSecret = [] then return None else storeCLISecret E clientID clientSecret])) }"

section \<open>Realm and redirect address\<close>

definition analyzerRealm :: "string \<Rightarrow> gomap" where
  "analyzerRealm realmName = [''realm'' \<mapsto> GStr realmName, ''enabled'' \<mapsto> GBool True, ''displayName'' \<mapsto> GStr ''Trusted Profile Analyzer'']"

definition ensureTrustifyRealmAndOIDC ::
  "('w, 'x) keycloakEnv_scheme \<Rightarrow> string \<Rightarrow> string \<Rightarrow> string \<Rightarrow> ('w, goerr option) go" where
  "ensureTrustifyRealmAndOIDC E keycloakHost realmName appDomain =
     thenE (adminSecret E ''failed to get Keycloak admin credentials'') (\<lambda>secret.
     thenE (namedToken E keycloakHost (secGet secret ''username'') (secGet secret ''password'')) (\<lambda>adminToken.
     thenE (asked E ''failed to check realm'' ''GET'' (realmURL keycloakHost realmName []) adminToken None) (\<lambda>resp.
     untilError
       [if hp_Status resp = 404
        then sendJSON E ''failed to create realm'' ''POST'' (adminURL keycloakHost []) adminToken (analyzerRealm realmName) [201] else return None,
        logError (ensureTrustifyReadOnlyScope E keycloakHost realmName adminToken),
        logError (ensureTrustifyCreateScope E keycloakHost realmName adminToken),
        wrapped ''failed to create frontend OIDC client'' (ensureTrustifyOIDCClient E keycloakHost realmName ''frontend'' appDomain adminToken True),
        wrapped ''failed to create CLI OIDC client'' (ensureTrustifyOIDCClient E keycloakHost realmName ''cli'' appDomain adminToken False)])))"

definition tpaGVK :: gvk where
  "tpaGVK = \<lparr>g_Group = ''rhtpa.io'', g_Version = ''v1'', g_Kind = ''TrustedProfileAnalyzer''\<rparr>"

definition tpaName :: string where "tpaName = ''mirror-operator-trusted-profile-analyzer''"

definition ruleHost :: "('w, 'x) env_scheme \<Rightarrow> unstr \<Rightarrow> string" where
  "ruleHost E ingress = (case firstRule E ingress of None \<Rightarrow> []
     | Some m \<Rightarrow> (let (host, found, _) = nestedString E (GMap m) [''host''] in if found then host else []))"

text \<open>The first ingress with a host among those of the server that the analyzer owns.\<close>

definition serverHost :: "('w, 'x) env_scheme \<Rightarrow> string \<Rightarrow> unstr list \<Rightarrow> string" where
  "serverHost E uid ingresses =
     (case find (\<lambda>i. ownedBy (\<lambda>w. or_UID w = uid \<and> or_Kind w = ''TrustedProfileAnalyzer'') i \<and> strContains (u_Name i) ''server'' \<and>
         ruleHost E i \<noteq> []) ingresses of
        None \<Rightarrow> [] | Some i \<Rightarrow> ruleHost E i)"

definition serverURLOf :: "('w, 'x) env_scheme \<Rightarrow> ('w, string res) go" where
  "serverURLOf E = do {
     tpa \<leftarrow> Get E (KUnstr tpaGVK) theUnstr (architectNamespace, tpaName);
     case tpa of
       Inl err \<Rightarrow> return (Inl (wrap ''failed to get TPA resource'' err))
     | Inr tpa \<Rightarrow> do {
         ingressList \<leftarrow> ListObjs E (KUnstr \<lparr>g_Group = ''networking.k8s.io'', g_Version = ''v1'', g_Kind = ''Ingress''\<rparr>) theUnstr
           (inNamespace architectNamespace);
         return (case ingressList of
             Inl err \<Rightarrow> Inl (wrap ''failed to list ingresses'' err)
           | Inr ingresses \<Rightarrow>
               (let host = serverHost E (m_UID (u_Meta tpa)) ingresses in
                if host = [] then Inl (errorf ''RHTPA server ingress not found yet or hostname not set'') else Inr (''https://'' @ host))) } }"

definition updateTrustifyRedirectURIs ::
  "('w, 'x) keycloakEnv_scheme \<Rightarrow> string \<Rightarrow> string \<Rightarrow> string \<Rightarrow> ('w, goerr option) go" where
  "updateTrustifyRedirectURIs E keycloakHost realmName clientID =
     thenE (serverURLOf E) (\<lambda>rhtpaServerURL.
     thenE (adminSecret E ''failed to get Keycloak admin credentials'') (\<lambda>secret.
     thenE (uncheckedToken E (\<lambda>_. ''no access token in response'') keycloakHost (secGet secret ''password'')) (\<lambda>adminToken.
     thenE (askedMaps E ''failed to check client'' ''failed to decode clients'' (clientURL keycloakHost realmName clientID) adminToken) (\<lambda>clients.
     thenE (return (firstID (errorf (''client '' @ clientID @ '' not found in realm '' @ realmName)) (panic ''interface conversion'') clients)) (\<lambda>clientUUID.
     thenE (asked E ''failed to update client'' ''PUT'' (realmURL keycloakHost realmName (''/clients/'' @ clientUUID)) adminToken
         (jsonBody E [''redirectUris'' \<mapsto> GStrs [rhtpaServerURL @ ''/*''], ''webOrigins'' \<mapsto> GStrs [''*'']])) (\<lambda>resp.
     return (expectStatus ''failed to update client redirect URIs'' [200, 204] resp)))))))"

end
