(* ===== verification/Analyzer.thy ===== *)
theory Analyzer
  imports Trustify
begin

text \<open>
  The resource of the Trusted Profile Analyzer, from \<^verbatim>\<open>disconnectedplatform_controller.go\<close>. The pause after the resource was deleted
  (\<^verbatim>\<open>time.Sleep\<close>) has no effect on what is modelled.
\<close>

section \<open>An existing analyzer\<close>

text \<open>Whether identity provider and database modules are configured; otherwise the resource is made anew.\<close>

definition analyzerConfigured :: "('w, 'x) platformEnv_scheme \<Rightarrow> unstr \<Rightarrow> bool" where
  "analyzerConfigured E tpa =
     (let (oidc, foundOIDC, _) = nestedMap E (u_Object tpa) [''spec'', ''oidc''];
          (modules, foundModules, _) = nestedMap E (u_Object tpa) [''spec'', ''modules''];
          (createDB, found, _) = nestedMap E (GMap modules) [''createDatabase''];
          (migrateDB, found2, _) = nestedMap E (GMap modules) [''migrateDatabase''] in
      foundOIDC \<and> rangeOrder E oidc \<noteq> [] \<and> foundModules \<and> found \<and> found2 \<and>
      fst (nestedBool E (GMap createDB) [''enabled'']) \<and> fst (nestedBool E (GMap migrateDB) [''enabled'']))"

text \<open>The token of any answer that has one; a panic does not arise.\<close>

definition anyToken :: "('w, 'x) keycloakEnv_scheme \<Rightarrow> string \<Rightarrow> secret \<Rightarrow> ('w, string option) go" where
  "anyToken E keycloakHost secret = do {
     resp \<leftarrow> effect (httpPostForm E (tokenURLOf keycloakHost) (tokenForm (secGet secret ''username'') (secGet secret ''password'')));
     return (case resp of
         Inl _ \<Rightarrow> None
       | Inr (_, body) \<Rightarrow>
           (case jsonDecode E body of
              Inl _ \<Rightarrow> None
            | Inr m \<Rightarrow> if strOrEmpty (m ''access_token'') = [] then None else Some (strOrEmpty (m ''access_token'')))) }"

definition trustifyClients :: "('w, 'x) keycloakEnv_scheme \<Rightarrow> string \<Rightarrow> string \<Rightarrow> string \<Rightarrow> ('w, goerr option) go list" where
  "trustifyClients E keycloakHost appDomain adminToken =
     [logError (ensureTrustifyReadOnlyScope E keycloakHost ''trustify'' adminToken),
      logError (ensureTrustifyCreateScope E keycloakHost ''trustify'' adminToken),
      logError (ensureTrustifyOIDCClient E keycloakHost ''trustify'' ''frontend'' appDomain adminToken True),
      logError (ensureTrustifyOIDCClient E keycloakHost ''trustify'' ''cli'' appDomain adminToken False),
      logError (assignScopeToTrustifyClients E keycloakHost ''trustify'' adminToken)]"

definition maintainClients :: "('w, 'x) keycloakEnv_scheme \<Rightarrow> ('w, goerr option) go" where
  "maintainClients E = do {
     ingress \<leftarrow> Get E (KUnstr (configGVK ''Ingress'')) theUnstr ([], ''cluster'');
     case ingress of
       Inl _ \<Rightarrow> return None
     | Inr ingress \<Rightarrow> do {
         let domain = stringAt E (u_Object ingress) [''spec'', ''domain''];
         let keycloakHost = ''keycloak.'' @ domain;
         secret \<leftarrow> Get E KSecret theSecret (architectNamespace, ''mirror-operator-keycloak-initial-admin'');
         untilError
           [case secret of
              Inl _ \<Rightarrow> return None
            | Inr secret \<Rightarrow> do {
                adminToken \<leftarrow> anyToken E keycloakHost secret;
                case adminToken of
                  None \<Rightarrow> return None
                | Some adminToken \<Rightarrow> untilError (trustifyClients E keycloakHost (''rhtpa.'' @ domain) adminToken) },
            logError (updateTrustifyRedirectURIs E keycloakHost ''trustify'' ''frontend'')] } }"

definition s3EndpointOf :: "('w, 'x) env_scheme \<Rightarrow> ('w, string) go" where
  "s3EndpointOf E = do {
     route \<leftarrow> Get E (KUnstr openshiftRouteGVK) theUnstr (''openshift-storage'', ''s3'');
     return (case route of
         Inl _ \<Rightarrow> ''https://s3.openshift-storage.svc''
       | Inr route \<Rightarrow> (let (host, found, _) = nestedString E (u_Object route) [''spec'', ''host''] in
           if found \<and> host \<noteq> [] then ''https://'' @ host else ''https://s3.openshift-storage.svc'')) }"

definition storageSpec :: "configMap \<Rightarrow> secret \<Rightarrow> string \<Rightarrow> gomap" where
  "storageSpec cm secret s3Endpoint =
     [''type'' \<mapsto> GStr ''s3'', ''bucket'' \<mapsto> GStr (cmGet cm ''BUCKET_NAME''), ''region'' \<mapsto> GStr s3Endpoint,
      ''accessKey'' \<mapsto> GStr (secGet secret ''AWS_ACCESS_KEY_ID''), ''secretKey'' \<mapsto> GStr (secGet secret ''AWS_SECRET_ACCESS_KEY''),
      ''pathStyle'' \<mapsto> GBool True]"

definition rhtpaBucket :: string where "rhtpaBucket = ''rhtpa-storage''"

text \<open>The storage, where config map and secret of the bucket can be read.\<close>

definition existingStorage :: "('w, 'x) env_scheme \<Rightarrow> ('w, gomap option) go" where
  "existingStorage E = do {
     cm \<leftarrow> Get E KConfigMap theConfigMap (architectNamespace, rhtpaBucket);
     case cm of
       Inl _ \<Rightarrow> return None
     | Inr cm \<Rightarrow> do {
         secret \<leftarrow> Get E KSecret theSecret (architectNamespace, rhtpaBucket);
         case secret of
           Inl _ \<Rightarrow> return None
         | Inr secret \<Rightarrow> do {
             s3Endpoint \<leftarrow> s3EndpointOf E;
             return (Some (storageSpec cm secret s3Endpoint)) } } }"

definition trustVolumes :: goval where
  "trustVolumes = GList [GMap [''name'' \<mapsto> GStr clusterCAVolumeName, ''configMap'' \<mapsto> GMap [''name'' \<mapsto> GStr clusterCABundleName]]]"

definition trustMounts :: goval where
  "trustMounts = GList [GMap [''name'' \<mapsto> GStr clusterCAVolumeName, ''mountPath'' \<mapsto> GStr clusterCAMountPath, ''readOnly'' \<mapsto> GBool True]]"

definition importersModule :: "rhtpaInstallerConfig \<Rightarrow> goval" where
  "importersModule cfg = GMap [''enabled'' \<mapsto> GBool True, ''importers'' \<mapsto> GMap (buildRHTPAImportersMap (tpa_Importers cfg))]"

text \<open>A field that is written, with the flag that something was.\<close>

definition written :: "('w, 'x) env_scheme \<Rightarrow> string list \<Rightarrow> goval \<Rightarrow> goval \<times> bool \<Rightarrow> goval \<times> bool" where
  "written E path v st = (case setNestedField E (fst st) v path of Inl _ \<Rightarrow> st | Inr obj \<Rightarrow> (obj, True))"

definition refreshed :: "('w, 'x) keycloakEnv_scheme \<Rightarrow> rhtpaInstallerConfig \<Rightarrow> gomap option \<Rightarrow> goval \<Rightarrow> goval \<times> bool" where
  "refreshed E cfg storage obj =
     (let st = (case storage of None \<Rightarrow> (obj, False) | Some m \<Rightarrow> written E [''spec'', ''storage''] (GMap m) (obj, False));
          st = written E [''spec'', ''modules'', ''createImporters''] (importersModule cfg) st;
          st = written E [''spec'', ''extraVolumes''] trustVolumes st;
          st = written E [''spec'', ''extraVolumeMounts''] trustMounts st;
          st = written E [''spec'', ''tls'', ''additionalTrustAnchor''] (GStr clusterCAFilePath) st
      in (removeNestedField E (fst st) [''spec'', ''extraEnv''], snd st))"

definition refreshAnalyzer ::
  "('w, 'x) keycloakEnv_scheme \<Rightarrow> rhtpaInstallerConfig \<Rightarrow> unstr \<Rightarrow> ('w, goerr option) go" where
  "refreshAnalyzer E cfg tpa = do {
     err \<leftarrow> maintainClients E;
     case err of
       Some p \<Rightarrow> return (Some p)
     | None \<Rightarrow> do {
         storage \<leftarrow> existingStorage E;
         let (obj, needsUpdate) = refreshed E cfg storage (u_Object tpa);
         if needsUpdate then do { _ \<leftarrow> Update E OUnstr theUnstr (tpa\<lparr>u_Object := obj\<rparr>); return None }
         else return None } }"

section \<open>A new analyzer\<close>

text \<open>An explicit identity provider, or that of the managed Keycloak.\<close>

definition explicitIssuer :: "rhtpaInstallerConfig \<Rightarrow> string" where
  "explicitIssuer cfg = (case tpa_OIDC cfg of None \<Rightarrow> [] | Some oidc \<Rightarrow> tpaoidc_Issuer oidc)"

definition analyzerIssuer :: "('w, 'x) keycloakEnv_scheme \<Rightarrow> rhtpaInstallerConfig \<Rightarrow> string \<Rightarrow> ('w, string res) go" where
  "analyzerIssuer E cfg domain =
     (if explicitIssuer cfg \<noteq> [] then return (Inr (explicitIssuer cfg))
      else do {
        err \<leftarrow> ensureTrustifyRealmAndOIDC E (''keycloak.'' @ domain) ''trustify'' (''rhtpa.'' @ domain);
        return (case err of
            Some err \<Rightarrow> Inl (wrap ''failed to configure TPA OIDC in Keycloak'' err)
          | None \<Rightarrow> Inr (''https://keycloak.'' @ domain @ ''/realms/trustify'')) })"

text \<open>A database of the specification, unless it is the example, or the managed one.\<close>

definition analyzerDatabase :: "('w, 'x) platformEnv_scheme \<Rightarrow> rhtpaInstallerConfig \<Rightarrow> ('w, databaseAccess res) go" where
  "analyzerDatabase E cfg =
     (let managed = do {
            db \<leftarrow> ensureRHTPAPostgreSQL E (tpa_DatabaseStorageSize cfg) (tpa_DatabaseMaxStorageSize cfg);
            return (labelled ''failed to create managed PostgreSQL for TPA'' db) } in
      case tpa_Database cfg of
        None \<Rightarrow> managed
      | Some db \<Rightarrow>
          if tpadb_Host db \<noteq> [] \<and> tpadb_Host db \<noteq> ''postgres.example.com''
          then return (Inr \<lparr>db_Host = tpadb_Host db, db_Name = tpadb_Name db, db_User = tpadb_Username db, db_Password = tpadb_Password db\<rparr>)
          else managed)"

definition enabledImage :: goval where
  "enabledImage = GMap [''enabled'' \<mapsto> GBool True, ''image'' \<mapsto> GMap Map.empty]"

definition analyzerModule :: "gomap \<Rightarrow> goval" where
  "analyzerModule m = GMap (m(''enabled'' \<mapsto> GBool True, ''replicas'' \<mapsto> GInt 1,
     ''resources'' \<mapsto> GMap [''requests'' \<mapsto> GMap [''cpu'' \<mapsto> GStr ''1'', ''memory'' \<mapsto> GStr ''8Gi'']]))"

definition analyzerModules :: "rhtpaInstallerConfig \<Rightarrow> gomap" where
  "analyzerModules cfg =
     [''createDatabase'' \<mapsto> enabledImage, ''migrateDatabase'' \<mapsto> enabledImage,
      ''importer'' \<mapsto> analyzerModule [''concurrency'' \<mapsto> GInt 1], ''createImporters'' \<mapsto> importersModule cfg,
      ''server'' \<mapsto> analyzerModule Map.empty]"

definition oidcClients :: gomap where
  "oidcClients =
     [''frontend'' \<mapsto> GMap [''clientId'' \<mapsto> GStr ''frontend''],
      ''cli'' \<mapsto> GMap [''clientId'' \<mapsto> GStr ''cli'', ''clientSecret'' \<mapsto> GMap [''valueFrom'' \<mapsto> GMap [''secretKeyRef'' \<mapsto> GMap
         [''name'' \<mapsto> GStr ''rhtpa-oidc-cli-secret'', ''key'' \<mapsto> GStr ''clientSecret'']]]]]"

definition analyzerSpec :: "rhtpaInstallerConfig \<Rightarrow> string \<Rightarrow> string \<Rightarrow> databaseAccess \<Rightarrow> gomap \<Rightarrow> gomap" where
  "analyzerSpec cfg appDomain issuerURL db storage =
     (let spec =
        [''appDomain'' \<mapsto> GStr appDomain, ''openshift'' \<mapsto> GMap [''useServiceCa'' \<mapsto> GBool True],
         ''tls'' \<mapsto> GMap [''additionalTrustAnchor'' \<mapsto> GStr clusterCAFilePath], ''extraVolumes'' \<mapsto> trustVolumes, ''extraVolumeMounts'' \<mapsto> trustMounts,
         ''database'' \<mapsto> GMap [''host'' \<mapsto> GStr (db_Host db), ''name'' \<mapsto> GStr (db_Name db), ''username'' \<mapsto> GStr (db_User db),
           ''password'' \<mapsto> GStr (db_Password db)],
         ''createDatabase'' \<mapsto> GMap [''enabled'' \<mapsto> GBool True, ''image'' \<mapsto> GMap Map.empty, ''name'' \<mapsto> GStr (db_Name db),
           ''username'' \<mapsto> GStr ''postgres'', ''password'' \<mapsto> GStr ''postgres''],
         ''migrateDatabase'' \<mapsto> enabledImage, ''modules'' \<mapsto> GMap (analyzerModules cfg), ''storage'' \<mapsto> GMap storage]
      in if issuerURL = [] then spec
         else spec(''oidc'' \<mapsto> GMap [''clients'' \<mapsto> GMap oidcClients, ''insecure'' \<mapsto> GBool False, ''loadUser'' \<mapsto> GBool True,
           ''issuerUrl'' \<mapsto> GStr issuerURL]))"

text \<open>The bucket is claimed where it is missing; its config map and secret must be there.\<close>

definition analyzerStorage :: "('w, 'x) env_scheme \<Rightarrow> ('w, gomap res) go" where
  "analyzerStorage E = do {
     err \<leftarrow> createMissing E (KUnstr objectBucketGVK) OUnstr theUnstr (architectNamespace, rhtpaBucket) ''failed to create RHTPA storage OBC''
       (bucketClaim rhtpaBucket);
     case err of
       Some err \<Rightarrow> return (Inl err)
     | None \<Rightarrow> do {
         cm \<leftarrow> Get E KConfigMap theConfigMap (architectNamespace, rhtpaBucket);
         case cm of
           Inl err \<Rightarrow> return (Inl (wrap ''failed to get RHTPA storage OBC ConfigMap'' err))
         | Inr cm \<Rightarrow> do {
             secret \<leftarrow> Get E KSecret theSecret (architectNamespace, rhtpaBucket);
             case secret of
               Inl err \<Rightarrow> return (Inl (wrap ''failed to get RHTPA storage OBC Secret'' err))
             | Inr secret \<Rightarrow> do {
                 s3Endpoint \<leftarrow> s3EndpointOf E;
                 return (Inr (storageSpec cm secret s3Endpoint)) } } } }"

definition putAnalyzer :: "('w, 'x) env_scheme \<Rightarrow> gomap \<Rightarrow> ('w, goerr option) go" where
  "putAnalyzer E m = do {
     let newTPA = withSpec m (newUnstr tpaGVK architectNamespace tpaName);
     currentTPA \<leftarrow> Get E (KUnstr tpaGVK) theUnstr (architectNamespace, tpaName);
     case currentTPA of
       Inr currentTPA \<Rightarrow> do { u \<leftarrow> Update E OUnstr theUnstr (withVersionOf currentTPA newTPA); return (errOf u) }
     | Inl err \<Rightarrow>
         if isNotFound err then do { c \<leftarrow> Create E OUnstr theUnstr newTPA; return (errOf c) } else return (Some err) }"

definition installAnalyzer :: "('w, 'x) keycloakEnv_scheme \<Rightarrow> rhtpaInstallerConfig \<Rightarrow> ('w, goerr option) go" where
  "installAnalyzer E cfg = do {
     ingress \<leftarrow> Get E (KUnstr (configGVK ''Ingress'')) theUnstr ([], ''cluster'');
     case ingress of
       Inl err \<Rightarrow> return (Some (wrap ''failed to get cluster ingress'' err))
     | Inr ingress \<Rightarrow> do {
         let domain = stringAt E (u_Object ingress) [''spec'', ''domain''];
         thenE (analyzerIssuer E cfg domain) (\<lambda>issuerURL.
         thenE (analyzerDatabase E cfg) (\<lambda>db.
         thenE (analyzerStorage E) (\<lambda>storage.
         untilError
           [putAnalyzer E (analyzerSpec cfg (''rhtpa.'' @ domain) issuerURL db storage),
            if explicitIssuer cfg \<noteq> [] then return None
            else logError (updateTrustifyRedirectURIs E (''keycloak.'' @ domain) ''trustify'' ''frontend'')]))) } }"

definition reconcileRHTPAConfig :: "('w, 'x) keycloakEnv_scheme \<Rightarrow> connectedConfig \<Rightarrow> ('w, goerr option) go" where
  "reconcileRHTPAConfig E con =
     (case con_RHTPA con of
        None \<Rightarrow> return None
      | Some cfg \<Rightarrow>
          if tpa_Storage cfg = None then return None
          else do {
            existingTPA \<leftarrow> Get E (KUnstr tpaGVK) theUnstr (architectNamespace, tpaName);
            case existingTPA of
              Inr tpa \<Rightarrow>
                if analyzerConfigured E tpa then refreshAnalyzer E cfg tpa
                else do {
                  d \<leftarrow> Delete E (KUnstr tpaGVK) (architectNamespace, tpaName);
                  case d of
                    Inl err \<Rightarrow> return (Some (wrap ''failed to delete existing TPA for update'' err))
                  | Inr _ \<Rightarrow> installAnalyzer E cfg }
            | Inl err \<Rightarrow> if isNotFound err then installAnalyzer E cfg else return (Some err) })"

definition deleteRHTPAConfig :: "('w, 'x) env_scheme \<Rightarrow> ('w, unit) go" where
  "deleteRHTPAConfig E = deleteObjects E [(KUnstr tpaGVK, (architectNamespace, tpaName))]"

end
