(* ===== verification/Platform.thy ===== *)
theory Platform
  imports Analyzer Airgapped PlatformStatus
begin

text \<open>
  The reconciliation of the \<^verbatim>\<open>DisconnectedPlatform\<close> (\<^verbatim>\<open>Reconcile\<close> and \<^verbatim>\<open>cleanup\<close> of
  \<^verbatim>\<open>disconnectedplatform_controller.go\<close>) with the managed Keycloak. The one Go function is split at its comments into stages, which
  pass on the platform and the two flags that ask for another reconciliation, or end it.
\<close>

section \<open>The managed Keycloak\<close>

definition keycloakSpec :: "string \<Rightarrow> string \<Rightarrow> gomap" where
  "keycloakSpec hostname tlsSecretName =
     [''instances'' \<mapsto> GInt 1, ''hostname'' \<mapsto> GMap [''hostname'' \<mapsto> GStr hostname], ''http'' \<mapsto> GMap [''tlsSecret'' \<mapsto> GStr tlsSecretName],
      ''additionalOptions'' \<mapsto> GList
        [GMap [''name'' \<mapsto> GStr ''KEYCLOAK_ADMIN'', ''value'' \<mapsto> GStr ''admin''],
         GMap [''name'' \<mapsto> GStr ''KEYCLOAK_ADMIN_PASSWORD'',
           ''secret'' \<mapsto> GMap [''name'' \<mapsto> GStr ''mirror-operator-keycloak-initial-admin'', ''key'' \<mapsto> GStr ''password'']],
         GMap [''name'' \<mapsto> GStr ''truststore-paths'', ''value'' \<mapsto> GStr clusterCAFilePath]],
      ''db'' \<mapsto> GMap
        [''vendor'' \<mapsto> GStr ''postgres'', ''host'' \<mapsto> GStr ''keycloak-postgresql.mirror-operator-system.svc'', ''port'' \<mapsto> GInt 5432,
         ''database'' \<mapsto> GStr ''keycloak'',
         ''usernameSecret'' \<mapsto> GMap [''name'' \<mapsto> GStr ''keycloak-db-secret'', ''key'' \<mapsto> GStr ''username''],
         ''passwordSecret'' \<mapsto> GMap [''name'' \<mapsto> GStr ''keycloak-db-secret'', ''key'' \<mapsto> GStr ''password'']],
      ''unsupported'' \<mapsto> GMap [''podTemplate'' \<mapsto> GMap [''spec'' \<mapsto> GMap
        [''containers'' \<mapsto> GList [GMap [''volumeMounts'' \<mapsto> trustMounts]],
         ''volumes'' \<mapsto> GList [GMap [''name'' \<mapsto> GStr clusterCAVolumeName,
           ''configMap'' \<mapsto> GMap [''name'' \<mapsto> GStr clusterCABundleName, ''optional'' \<mapsto> GBool True]]]]]]]"

definition keycloakTLS :: "('w, 'x) env_scheme \<Rightarrow> connectedConfig \<Rightarrow> managedKeycloakConfig \<Rightarrow> string \<Rightarrow> ('w, string res) go" where
  "keycloakTLS E con managed hostname =
     (let given = (case mkc_TLSSecret managed of None \<Rightarrow> [] | Some s \<Rightarrow> lor_Name s) in
      if given \<noteq> [] then return (Inr given)
      else do {
        err \<leftarrow> ensureKeycloakTLS E con hostname ''keycloak-tls'';
        case err of
          Some err \<Rightarrow> return (Inl (wrap ''failed to ensure Keycloak TLS'' err))
        | None \<Rightarrow> do {
            tlsSecret \<leftarrow> Get E KSecret theSecret (architectNamespace, ''keycloak-tls'');
            return (case tlsSecret of
                Inr _ \<Rightarrow> Inr ''keycloak-tls''
              | Inl err \<Rightarrow>
                  if isNotFound err
                  then Inl (errorf ''waiting for cert-manager to issue certificate: secret \"keycloak-tls\" not yet available'')
                  else Inl (wrap ''failed to check TLS secret'' err)) } })"

definition keycloakDatabaseSecret :: secret where
  "keycloakDatabaseSecret =
     \<lparr>sec_Meta = nameMeta architectNamespace ''keycloak-db-secret'', sec_Type = [], sec_Data = None,
      sec_StringData = Some [''username'' \<mapsto> ''keycloak'', ''password'' \<mapsto> ''keycloak-admin-password'']\<rparr>"

text \<open>The resource as the server answers it after it was created or written.\<close>

definition putKeycloak :: "('w, 'x) env_scheme \<Rightarrow> gomap \<Rightarrow> ('w, unstr res) go" where
  "putKeycloak E kcSpec = do {
     kc \<leftarrow> Get E (KUnstr keycloakGVK) theUnstr (architectNamespace, keycloakName);
     case kc of
       Inl err \<Rightarrow>
         if \<not> isNotFound err then return (Inl err)
         else do {
           c \<leftarrow> Create E OUnstr theUnstr (withSpec kcSpec (newUnstr keycloakGVK architectNamespace keycloakName));
           return (labelled ''failed to create Keycloak'' c) }
     | Inr kc \<Rightarrow> do {
         u \<leftarrow> Update E OUnstr theUnstr (withSpec kcSpec kc);
         return (labelled ''failed to update Keycloak'' u) } }"

definition keycloakReadyNow :: "('w, 'x) env_scheme \<Rightarrow> unstr \<Rightarrow> bool" where
  "keycloakReadyNow E kc =
     (let (kcStatus, found, _) = nestedMap E (u_Object kc) [''status''];
          (conditions, found2, _) = nestedSlice E (GMap kcStatus) [''conditions'']
      in found \<and> found2 \<and> someReady E conditions)"

text \<open>A realm import of an earlier version is removed; failures are logged.\<close>

definition removeRealmImport :: "('w, 'x) env_scheme \<Rightarrow> ('w, goerr option) go" where
  "removeRealmImport E = do {
     realm \<leftarrow> Get E (KUnstr keycloakRealmGVK) theUnstr (architectNamespace, ''mirror-operator-keycloak-realm'');
     case realm of
       Inl _ \<Rightarrow> return None
     | Inr realm \<Rightarrow> do { _ \<leftarrow> Delete E (KUnstr keycloakRealmGVK) (u_Namespace realm, u_Name realm); return None } }"

definition reconcileManagedKeycloak :: "('w, 'x) keycloakEnv_scheme \<Rightarrow> disconnectedPlatform \<Rightarrow> ('w, goerr option) go" where
  "reconcileManagedKeycloak E platform =
     (case dps_Connected (dp_Spec platform) of
        None \<Rightarrow> return (Some (panic ''nil pointer dereference: platform.Spec.Connected''))
      | Some con \<Rightarrow>
          (case wantedKeycloak con of
             None \<Rightarrow> return None
           | Some managed \<Rightarrow> do {
               ingress \<leftarrow> Get E (KUnstr (configGVK ''Ingress'')) theUnstr ([], ''cluster'');
               case ingress of
                 Inl err \<Rightarrow> return (Some (wrap ''failed to get cluster ingress'' err))
               | Inr ingress \<Rightarrow> do {
                   let hostname = ''keycloak.'' @ stringAt E (u_Object ingress) [''spec'', ''domain''];
                   thenE (keycloakTLS E con managed hostname) (\<lambda>tlsSecretName.
                   untilError
                     [wrapped ''failed to ensure managed PostgreSQL'' (ensureManagedPostgreSQL E),
                      createMissing E KSecret OSecret theSecret (architectNamespace, ''keycloak-db-secret'')
                        ''failed to create Keycloak database secret'' keycloakDatabaseSecret,
                      thenE (putKeycloak E (keycloakSpec hostname tlsSecretName)) (\<lambda>kc.
                        if \<not> keycloakReadyNow E kc then return None
                        else untilError
                          [wrapped ''failed to configure Keycloak realm and client''
                             (configureKeycloakRealmAndClient E hostname (orElse (mkc_Realm managed) ''trusted-artifact-signer'') ''trusted-artifact-signer''),
                           logError (configureOpenShiftOAuth E hostname),
                           removeRealmImport E])]) } }))"

section \<open>The script of the import\<close>

definition ensureImportScriptConfigMap :: "('w, 'x) keycloakEnv_scheme \<Rightarrow> ('w, goerr option) go" where
  "ensureImportScriptConfigMap E = do {
     let script = importArchitectScript E;
     let data = Some [''import-airgap-architect.sh'' \<mapsto> script];
     existing \<leftarrow> Get E KConfigMap theConfigMap (architectNamespace, ''airgap-architect-import-script'');
     case existing of
       Inr existing \<Rightarrow>
         if cmGet existing ''import-airgap-architect.sh'' \<noteq> script then do {
           u \<leftarrow> Update E OConfigMap theConfigMap (existing\<lparr>cm_Data := data\<rparr>);
           return (errOf u) }
         else return None
     | Inl err \<Rightarrow>
         if isNotFound err then do {
           c \<leftarrow> Create E OConfigMap theConfigMap \<lparr>cm_Meta = nameMeta architectNamespace ''airgap-architect-import-script'', cm_Data = data\<rparr>;
           return (errOf c) }
         else return (Some err) }"

section \<open>Stages\<close>

record progress =
  pg_Platform :: disconnectedPlatform
  pg_CRDMissing :: bool
  pg_AirgappedRequeue :: bool

type_synonym 'w stage = "progress \<Rightarrow> ('w, outcome + progress) go"

fun runStages :: "'w stage list \<Rightarrow> 'w stage" where
  "runStages [] pg = return (Inr pg)"
| "runStages (m # ms) pg = do {
     r \<leftarrow> m pg;
     case r of Inl out \<Rightarrow> return (Inl out) | Inr pg \<Rightarrow> runStages ms pg }"

definition onPlatform :: "(disconnectedPlatform \<Rightarrow> disconnectedPlatform) \<Rightarrow> progress \<Rightarrow> progress" where
  "onPlatform f pg = pg\<lparr>pg_Platform := f (pg_Platform pg)\<rparr>"

text \<open>A step whose error is logged; components that are added where it had none; the flag of a missing resource definition.\<close>

definition stepThen :: "bool \<Rightarrow> componentStatus list \<Rightarrow> (disconnectedPlatform \<Rightarrow> ('w, disconnectedPlatform \<times> goerr option) go) \<Rightarrow> 'w stage" where
  "stepThen notesCRD added f = (\<lambda>pg. do {
     (platform, err) \<leftarrow> f (pg_Platform pg);
     let pg = pg\<lparr>pg_Platform := platform\<rparr>;
     return (case err of
         None \<Rightarrow> Inr (onPlatform (appendComponents added) pg)
       | Some e \<Rightarrow>
           if isPanic e then Inl (noRequeue, Some e)
           else Inr (if notesCRD \<and> isCRDNotFoundError e then pg\<lparr>pg_CRDMissing := True\<rparr> else pg)) })"

definition stageIf :: "(disconnectedPlatform \<Rightarrow> bool) \<Rightarrow> 'w stage list \<Rightarrow> 'w stage" where
  "stageIf P ms = (\<lambda>pg. if P (pg_Platform pg) then runStages ms pg else return (Inr pg))"

text \<open>A step whose error ends the reconciliation: the platform gets the phase of an error and, where a reason is given, the condition.\<close>

definition failing ::
  "('w, 'x) env_scheme \<Rightarrow> reconcileResult \<Rightarrow> string option \<Rightarrow> (disconnectedPlatform \<Rightarrow> ('w, disconnectedPlatform \<times> goerr option) go) \<Rightarrow> 'w stage" where
  "failing E result reason f = (\<lambda>pg. do {
     (platform, err) \<leftarrow> f (pg_Platform pg);
     case err of
       None \<Rightarrow> return (Inr (pg\<lparr>pg_Platform := platform\<rparr>))
     | Some e \<Rightarrow>
         if isPanic e then return (Inl (noRequeue, Some e))
         else do {
           let platform = dp_setPhase platform PlatformPhaseError;
           platform \<leftarrow> (case reason of None \<Rightarrow> return platform | Some reason \<Rightarrow> setErrorCondition E platform reason (err_text e));
           u \<leftarrow> StatusUpdate E OPlatform thePlatform platform;
           return (Inl (result, errOf u)) } })"

definition platformComponent :: "string \<Rightarrow> string \<Rightarrow> string \<Rightarrow> componentStatus" where
  "platformComponent name k g = \<lparr>cst_Name = name, cst_Status = ''Running'', cst_Kind = k, cst_APIGroup = g, cst_Namespace = architectNamespace,
     cst_URL = [], cst_LastCheck = None\<rparr>"

definition componentSucceeded :: "string \<Rightarrow> disconnectedPlatform \<Rightarrow> bool" where
  "componentSucceeded name platform =
     list_ex (\<lambda>c. cst_Name c = name \<and> cst_Status c = ''Succeeded'') (dpst_Components (dp_Status platform))"

definition keycloakStages :: "('w, 'x) keycloakEnv_scheme \<Rightarrow> 'w stage list" where
  "keycloakStages E =
     [failing E (requeueAfter (30 * second)) (Some ''ManagedKeycloakFailed'') (reading (reconcileManagedKeycloak E)),
      stepThen False [platformComponent ''keycloak'' ''Keycloak'' ''k8s.keycloak.org'', platformComponent ''keycloak-postgresql'' ''StatefulSet'' ''apps'']
        (reading (\<lambda>_. return None)),
      failing E (requeueAfter (30 * second)) (Some ''KeycloakNotHealthy'') (reading (checkKeycloakHealth E))]"

definition healthStep :: "('w, 'x) env_scheme \<Rightarrow> 'w platformStep" where
  "healthStep E platform = do {
     err \<leftarrow> performRHTASHealthChecks E platform;
     case err of
       None \<Rightarrow> do { platform \<leftarrow> clearDegradedCondition E platform ''RHTASHealthCheckFailed''; return (platform, None) }
     | Some e \<Rightarrow>
         if isPanic e then return (platform, Some e)
         else do { platform \<leftarrow> updateDegradedCondition E platform ''RHTASHealthCheckFailed'' (err_text e); return (platform, None) } }"

definition signingStages :: "('w, 'x) keycloakEnv_scheme \<Rightarrow> 'w stage list" where
  "signingStages E =
     [stepThen False [platformComponent ''securesign'' ''Securesign'' ''rhtas.redhat.com''] (reading (reconcileRHTASConfig E)),
      stepThen False [] (extractRHTASRootKeys E),
      stepThen False [] (reading (configureCollectionPipelineSigning E)),
      stepThen False [] (healthStep E),
      stepThen False [] (updateStatusFromSecuresignHealth E)]"

definition withConnected ::
  "(disconnectedPlatform \<Rightarrow> connectedConfig \<Rightarrow> ('w, disconnectedPlatform \<times> goerr option) go) \<Rightarrow> 'w platformStep" where
  "withConnected f = (\<lambda>platform.
     case dps_Connected (dp_Spec platform) of
       None \<Rightarrow> return (platform, Some (panic ''nil pointer dereference: platform.Spec.Connected''))
     | Some con \<Rightarrow> f platform con)"

definition analyzerStage :: "('w, 'x) keycloakEnv_scheme \<Rightarrow> 'w stage" where
  "analyzerStage E =
     stageIf (\<lambda>platform. (dps_Connected (dp_Spec platform) \<bind> con_RHTPA) \<noteq> None)
       [stepThen True
          [platformComponent ''trusted-profile-analyzer'' ''TrustedProfileAnalyzer'' ''rhtpa.io'',
           platformComponent ''rhtpa-postgresql'' ''StatefulSet'' ''apps'']
          (withConnected (\<lambda>platform con. reading (\<lambda>_. reconcileRHTPAConfig E con) platform))]"

text \<open>A step of the airgapped mode asks for a requeue where it fails, too.\<close>

definition requeuing :: "(disconnectedPlatform \<Rightarrow> ('w, disconnectedPlatform \<times> bool \<times> goerr option) go) \<Rightarrow> 'w stage" where
  "requeuing f = (\<lambda>pg. do {
     (platform, requeue, err) \<leftarrow> f (pg_Platform pg);
     return (case logged err of
         Some p \<Rightarrow> Inl (noRequeue, Some p)
       | None \<Rightarrow> Inr (pg\<lparr>pg_Platform := platform, pg_AirgappedRequeue := pg_AirgappedRequeue pg \<or> requeue \<or> err \<noteq> None\<rparr>)) })"

definition airgappedStage :: "('w, 'x) platformEnv_scheme \<Rightarrow> platformReconciler \<Rightarrow> 'w stage" where
  "airgappedStage E r =
     stageIf (\<lambda>platform. dps_Mode (dp_Spec platform) = PlatformModeAirgapped \<and> dps_Airgapped (dp_Spec platform) \<noteq> None)
       [requeuing (reconcileAirgappedSubscriptions E), requeuing (reconcileAirgapped E r)]"

definition managedQuayEnabled :: "disconnectedPlatform \<Rightarrow> bool" where
  "managedQuayEnabled platform =
     (case dps_Connected (dp_Spec platform) \<bind> con_Quay \<bind> quay_Managed of None \<Rightarrow> False | Some m \<Rightarrow> mq_Enabled m)"

definition osusEnabled :: "disconnectedPlatform \<Rightarrow> bool" where
  "osusEnabled platform =
     (case dps_Connected (dp_Spec platform) \<bind> con_Operators \<bind> ops_OSUS of None \<Rightarrow> True | Some s \<Rightarrow> \<not> olm_Disabled s)"

text \<open>The component of the registry is added only where it is managed.\<close>

definition quayStep :: "('w, 'x) platformEnv_scheme \<Rightarrow> 'w platformStep" where
  "quayStep E platform = do {
     (platform, err) \<leftarrow> reconcileQuayConfig E platform;
     return (if err = None \<and> managedQuayEnabled platform
             then appendComponents [platformComponent ''quay-registry'' ''QuayRegistry'' ''quay.redhat.com''] platform else platform, err) }"

definition connectedStage :: "('w, 'x) keycloakEnv_scheme \<Rightarrow> platformReconciler \<Rightarrow> 'w stage" where
  "connectedStage E r =
     stageIf (\<lambda>platform. dps_Mode (dp_Spec platform) = PlatformModeConnected \<and> dps_Connected (dp_Spec platform) \<noteq> None)
       [stepThen True [] (quayStep E),
        stepThen False [] (reading (\<lambda>_. ensureAWSLoadBalancerTimeout E)),
        stageIf managedQuayEnabled [stepThen True [] (reading (\<lambda>_. ensureQuayCredentials E r))],
        stageIf osusEnabled
          [stepThen False [] (reading (\<lambda>_. ensureOSUSPullSecret E r)),
           stepThen False [] (reading (ensureUpdateService E)),
           stepThen False [] (reading (\<lambda>_. ensurePipelineOSUSAccess E))],
        stepThen False [platformComponent ''collection-artifacts'' ''ObjectBucketClaim'' ''objectbucket.io''] (reading (reconcileArtifactsBucket E)),
        stepThen False [] (reading (\<lambda>_. syncS3ConfigToSecret E)),
        stepThen False [] (reading (\<lambda>_. ensureImportScriptConfigMap E)),
        stepThen True [platformComponent ''collection-pipeline-template'' ''Pipeline'' ''tekton.dev''] (reading (reconcileCollectionPipelineTemplate E r))]"

text \<open>Histories, the component of the platform itself, and the condition.\<close>

definition summaryStep :: "('w, 'x) env_scheme \<Rightarrow> 'w platformStep" where
  "summaryStep E platform = do {
     st \<leftarrow> aggregateCollections E (dp_Status platform);
     st \<leftarrow> aggregateImports E st;
     platform \<leftarrow> setReadyCondition E
       (appendComponents [(platformComponent ''disconnected-platform'' ''DisconnectedPlatform'' ''mirror.mirror.mathianasj.github.com'')\<lparr>cst_Namespace := []\<rparr>]
         (platform\<lparr>dp_Status := st\<rparr>))
       ''ReconciliationSucceeded'' ''All components reconciled successfully'';
     return (platform, None) }"

text \<open>The two components are read once, after the Architect.\<close>

definition earlyStages :: "('w, 'x) keycloakEnv_scheme \<Rightarrow> platformReconciler \<Rightarrow> 'w stage list" where
  "earlyStages E r =
     [stageIf (\<lambda>platform. dps_Mode (dp_Spec platform) = PlatformModeConnected) [failing E noRequeue None (reconcileSubscriptions E)],
      stepThen False [] (reading (\<lambda>_. ensureClusterCABundle E)),
      stepThen False [] (reading (\<lambda>_. ensureOwnSubscriptionConfig E)),
      stepThen False [] (reading (\<lambda>_. ensureCombinedCABundle E)),
      failing E noRequeue (Some ''ArchitectReconcileFailed'') (reconcileArchitect E r)]"

definition lateStages :: "('w, 'x) keycloakEnv_scheme \<Rightarrow> platformReconciler \<Rightarrow> bool \<Rightarrow> bool \<Rightarrow> 'w stage list" where
  "lateStages E r kcReady signingImages =
     (if kcReady then keycloakStages E else []) @ (if signingImages then signingStages E else []) @
     [analyzerStage E, airgappedStage E r, connectedStage E r, stepThen False [] (summaryStep E)]"

definition reconcileStages :: "('w, 'x) keycloakEnv_scheme \<Rightarrow> platformReconciler \<Rightarrow> 'w stage" where
  "reconcileStages E r pg = do {
     early \<leftarrow> runStages (earlyStages E r) pg;
     case early of
       Inl out \<Rightarrow> return (Inl out)
     | Inr pg \<Rightarrow>
         runStages (lateStages E r (componentSucceeded ''rhbk-operator'' (pg_Platform pg))
           (componentSucceeded ''trusted-artifact-signer'' (pg_Platform pg))) pg }"

text \<open>The status is written where it changed; a conflict is ignored.\<close>

definition finishPlatform :: "('w, 'x) env_scheme \<Rightarrow> disconnectedPlatformStatus \<Rightarrow> progress \<Rightarrow> ('w, outcome) go" where
  "finishPlatform E originalStatus pg =
     (if originalStatus = dp_Status (pg_Platform pg) then return (noRequeue, None)
      else do {
        u \<leftarrow> StatusUpdate E OPlatform thePlatform (pg_Platform pg);
        return (case u of
            Inl err \<Rightarrow> if \<not> isConflict err then (noRequeue, Some err)
              else (if pg_AirgappedRequeue pg \<or> pg_CRDMissing pg then (requeueAfter (30 * second), None) else (noRequeue, None))
          | Inr _ \<Rightarrow> if pg_AirgappedRequeue pg \<or> pg_CRDMissing pg then (requeueAfter (30 * second), None) else (noRequeue, None)) })"

definition dp_setFinalizers :: "disconnectedPlatform \<Rightarrow> string list \<Rightarrow> disconnectedPlatform" where
  "dp_setFinalizers p fs = p\<lparr>dp_ObjectMeta := (dp_ObjectMeta p)\<lparr>m_Finalizers := fs\<rparr>\<rparr>"

definition DisconnectedPlatform_cleanup :: "('w, 'x) platformEnv_scheme \<Rightarrow> disconnectedPlatform \<Rightarrow> ('w, outcome) go" where
  "DisconnectedPlatform_cleanup E platform =
     (let fs = m_Finalizers (dp_ObjectMeta platform) in
      if \<not> containsString fs platformFinalizer then return (noRequeue, None)
      else do {
        err \<leftarrow> deleteArchitectResources E platform;
        case err of
          Some err \<Rightarrow> return (noRequeue, Some err)
        | None \<Rightarrow> do {
            deleteManagedKeycloak E;
            deleteRHTASConfig E;
            deleteRHTPAConfig E;
            deleteAirgappedACM E;
            u \<leftarrow> Update E OPlatform thePlatform (dp_setFinalizers platform (removeString fs platformFinalizer));
            return (finish u) } })"

definition startProgress :: "disconnectedPlatform \<Rightarrow> progress" where
  "startProgress platform =
     \<lparr>pg_Platform = platform\<lparr>dp_Status := (dp_Status platform)\<lparr>dpst_Phase := PlatformPhaseReady, dpst_Components := []\<rparr>\<rparr>,
      pg_CRDMissing = False, pg_AirgappedRequeue = False\<rparr>"

definition DisconnectedPlatform_Reconcile :: "('w, 'x) keycloakEnv_scheme \<Rightarrow> platformReconciler \<Rightarrow> nsname \<Rightarrow> ('w, outcome) go" where
  "DisconnectedPlatform_Reconcile E r req = do {
     platform \<leftarrow> Get E KPlatform thePlatform req;
     case platform of
       Inl err \<Rightarrow> if isNotFound err then return (noRequeue, None) else return (noRequeue, Some err)
     | Inr platform \<Rightarrow>
         let fs = m_Finalizers (dp_ObjectMeta platform) in
         if \<not> isZeroTime (m_DeletionTimestamp (dp_ObjectMeta platform)) then DisconnectedPlatform_cleanup E platform
         else if \<not> containsString fs platformFinalizer then do {
           u \<leftarrow> Update E OPlatform thePlatform (dp_setFinalizers platform (fs @ [platformFinalizer]));
           return (finish u) }
         else do {
           done \<leftarrow> reconcileStages E r (startProgress platform);
           case done of
             Inl out \<Rightarrow> return out
           | Inr pg \<Rightarrow> finishPlatform E (dp_Status platform) pg } }"

end
