(* ===== verification/FileServer.thy ===== *)
theory FileServer
  imports Signing Platform
begin

text \<open>
  The file server for the artifacts of completed collections, from \<^verbatim>\<open>disconnectedplatform_controller.go\<close>
  (\<^verbatim>\<open>reconcileArtifactFileServer\<close>). The reconciliation of the platform does not call it, only tests do.
\<close>

section \<open>Claims that are served\<close>

definition artifactsClaim :: "collectionPipeline \<Rightarrow> string" where
  "artifactsClaim pipeline =
     ''collection-artifacts-'' @
     (if cps_Incremental (cp_Spec pipeline) \<and> cps_BaseVersion (cp_Spec pipeline) \<noteq> [] then cps_BaseVersion (cp_Spec pipeline)
      else cp_Name pipeline)"

definition claimInUse :: "string \<Rightarrow> pod list \<Rightarrow> bool" where
  "claimInUse claim = list_ex (\<lambda>p. (pod_Phase p = ''Running'' \<or> pod_Phase p = ''Pending'') \<and> claim \<in> set (pod_Claims p))"

text \<open>The claim of a completed pipeline is served where it is bound and no pod that was listed uses it; the pods are not
  looked at where the listing fails.\<close>

definition servedClaim :: "('w, 'x) env_scheme \<Rightarrow> collectionPipeline \<Rightarrow> ('w, string option) go" where
  "servedClaim E pipeline =
     (if \<not> collectionVersionComplete (cp_Phase pipeline) then return None
      else do {
        let claim = artifactsClaim pipeline;
        pvc \<leftarrow> Get E KPVC thePVC (architectNamespace, claim);
        case pvc of
          Inl _ \<Rightarrow> return None
        | Inr pvc \<Rightarrow>
            if pvc_Phase pvc \<noteq> ''Bound'' then return None
            else do {
              pods \<leftarrow> ListObjs E KPod thePod (inNamespace architectNamespace);
              return (case pods of Inr pods \<Rightarrow> if claimInUse claim pods then None else Some claim | Inl _ \<Rightarrow> Some claim) } })"

definition artifactsVolume :: "collectionPipeline \<Rightarrow> string \<Rightarrow> goval" where
  "artifactsVolume pipeline claim =
     GMap [''name'' \<mapsto> GStr (''artifacts-'' @ cp_Name pipeline),
       ''persistentVolumeClaim'' \<mapsto> GMap [''claimName'' \<mapsto> GStr claim, ''readOnly'' \<mapsto> GBool True]]"

definition artifactsMount :: "collectionPipeline \<Rightarrow> goval" where
  "artifactsMount pipeline =
     GMap [''name'' \<mapsto> GStr (''artifacts-'' @ cp_Name pipeline), ''mountPath'' \<mapsto> GStr (''/opt/app-root/src/'' @ cp_Name pipeline),
       ''readOnly'' \<mapsto> GBool True]"

fun servedVolumes :: "('w, 'x) env_scheme \<Rightarrow> collectionPipeline list \<Rightarrow> ('w, (goval \<times> goval) list) go" where
  "servedVolumes E [] = return []"
| "servedVolumes E (p # ps) = do {
     claim \<leftarrow> servedClaim E p;
     rest \<leftarrow> servedVolumes E ps;
     return (case claim of None \<Rightarrow> rest | Some claim \<Rightarrow> (artifactsVolume p claim, artifactsMount p) # rest) }"

section \<open>Deployment, service and route\<close>

definition fileServerName :: string where "fileServerName = ''artifact-fileserver''"

definition fileServerSpec :: "(goval \<times> goval) list \<Rightarrow> gomap" where
  "fileServerSpec vs =
     [''replicas'' \<mapsto> GInt 1, ''selector'' \<mapsto> GMap [''matchLabels'' \<mapsto> GMap [''app'' \<mapsto> GStr fileServerName]],
      ''template'' \<mapsto> GMap
        [''metadata'' \<mapsto> GMap [''labels'' \<mapsto> GMap [''app'' \<mapsto> GStr fileServerName]],
         ''spec'' \<mapsto> GMap
           [''containers'' \<mapsto> GList [GMap
              [''name'' \<mapsto> GStr ''nginx'', ''image'' \<mapsto> GStr ''registry.access.redhat.com/ubi9/nginx-122:latest'',
               ''ports'' \<mapsto> GList [GMap [''containerPort'' \<mapsto> GInt 8080, ''protocol'' \<mapsto> GStr ''TCP'']],
               ''volumeMounts'' \<mapsto> GList (map snd vs)]],
            ''volumes'' \<mapsto> GList (map fst vs)]]]"

definition fileServiceSpec :: gomap where
  "fileServiceSpec =
     [''selector'' \<mapsto> GMap [''app'' \<mapsto> GStr fileServerName],
      ''ports'' \<mapsto> GList [GMap [''name'' \<mapsto> GStr ''http'', ''port'' \<mapsto> GInt 8080, ''targetPort'' \<mapsto> GInt 8080, ''protocol'' \<mapsto> GStr ''TCP'']]]"

definition fileRouteSpec :: gomap where
  "fileRouteSpec =
     [''to'' \<mapsto> GMap [''kind'' \<mapsto> GStr ''Service'', ''name'' \<mapsto> GStr fileServerName],
      ''port'' \<mapsto> GMap [''targetPort'' \<mapsto> GStr ''http''], ''tls'' \<mapsto> GMap [''termination'' \<mapsto> GStr ''edge'']]"

text \<open>An object that exists is overwritten under its version; an error of the read is returned as it is.\<close>

definition putObject ::
  "('w, 'x) env_scheme \<Rightarrow> kind \<Rightarrow> ('a \<Rightarrow> kobj) \<Rightarrow> (kobj \<Rightarrow> 'a option) \<Rightarrow> string \<Rightarrow> ('a \<Rightarrow> 'a) \<Rightarrow> 'a \<Rightarrow> ('w, goerr option) go" where
  "putObject E k mk prj what carry x = do {
     existing \<leftarrow> Get E k prj (architectNamespace, fileServerName);
     case existing of
       Inr existing \<Rightarrow> do {
         u \<leftarrow> Update E mk prj (carry existing);
         return (map_option (wrap (''failed to update artifact fileserver '' @ what)) (errOf u)) }
     | Inl err \<Rightarrow>
         if isNotFound err then do {
           c \<leftarrow> Create E mk prj x;
           return (map_option (wrap (''failed to create artifact fileserver '' @ what)) (errOf c)) }
         else return (Some err) }"

definition versionFrom :: "nativeObj \<Rightarrow> nativeObj \<Rightarrow> nativeObj" where
  "versionFrom x existing = x\<lparr>n_Meta := (n_Meta x)\<lparr>m_ResourceVersion := m_ResourceVersion (n_Meta existing)\<rparr>\<rparr>"

definition clusterIPFrom :: "nativeObj \<Rightarrow> nativeObj \<Rightarrow> nativeObj" where
  "clusterIPFrom x existing =
     (case walk (n_Spec existing) [''clusterIP''] of
        Some (GStr ip) \<Rightarrow> x\<lparr>n_Spec := onKey ''clusterIP'' (\<lambda>_. GStr ip) (n_Spec x)\<rparr>
      | _ \<Rightarrow> x)"

text \<open>What carries the reference to the platform, unless the reference cannot be set.\<close>

definition owned ::
  "('w, 'x) platformEnv_scheme \<Rightarrow> disconnectedPlatform \<Rightarrow> string \<Rightarrow> string \<Rightarrow> (objectMeta \<Rightarrow> ('w, goerr option) go) \<Rightarrow> ('w, goerr option) go" where
  "owned E platform ns what f =
     (case setControllerReference E (dp_ObjectMeta platform) (nameMeta ns fileServerName) of
        Inl err \<Rightarrow> return (Some (wrap (''failed to set owner reference on '' @ what) err))
      | Inr m \<Rightarrow> f m)"

definition reconcileArtifactFileServer :: "('w, 'x) platformEnv_scheme \<Rightarrow> disconnectedPlatform \<Rightarrow> ('w, goerr option) go" where
  "reconcileArtifactFileServer E platform = do {
     pipelines \<leftarrow> ListObjs E KPipeline thePipeline (inNamespace architectNamespace);
     case pipelines of
       Inl err \<Rightarrow> return (Some (wrap ''failed to list CollectionPipelines'' err))
     | Inr pipelines \<Rightarrow> do {
         vs \<leftarrow> servedVolumes E pipelines;
         if vs = [] then return None
         else untilError
           [owned E platform architectNamespace ''deployment'' (\<lambda>m.
              let x = fieldsOnly ''Deployment'' m (fileServerSpec vs) in
              putObject E (KNative ''Deployment'') ONative theNative ''deployment'' (versionFrom x) x),
            owned E platform architectNamespace ''service'' (\<lambda>m.
              let x = fieldsOnly ''Service'' m fileServiceSpec in
              putObject E (KNative ''Service'') ONative theNative ''service'' (\<lambda>existing. clusterIPFrom (versionFrom x existing) existing) x),
            case setNestedField E (u_Object (newUnstr routeGVK architectNamespace fileServerName)) (GMap fileRouteSpec) [''spec''] of
              Inl err \<Rightarrow> return (Some (wrap ''failed to set route spec'' err))
            | Inr obj \<Rightarrow>
                owned E platform architectNamespace ''route'' (\<lambda>m.
                  let x = (newUnstr routeGVK architectNamespace fileServerName)\<lparr>u_Meta := m, u_Object := obj\<rparr> in
                  putObject E (KUnstr routeGVK) OUnstr theUnstr ''route'' (\<lambda>existing. withVersionOf existing x) x)] } }"

end
