(* ===== verification/HttpLog.thy ===== *)
theory HttpLog
  imports Platform
begin

text \<open>
  What the operator sends to Keycloak. \<open>recording E\<close> is an environment that answers as \<open>E\<close> does and keeps a log of the HTTP requests with their
  answers next to the world. A log is \<open>confined\<close> to a host where its token requests go to the token endpoint of the host, and every
  other request goes to the administration of the host with a token that an earlier answer of that endpoint contained. \<open>safe\<close> says so of
  every run of a program that starts with given tokens, \<open>silent\<close> that a program sends nothing; the rules follow the structure of programs.
\<close>

section \<open>The log\<close>

datatype httpCall =
    HForm string "(string \<times> string) list" "(int \<times> string) res"
  | HDo httpRequest "httpResponse res"

definition aside :: "('w \<Rightarrow> 'a \<times> 'w) \<Rightarrow> 'w \<times> 'l \<Rightarrow> 'a \<times> 'w \<times> 'l" where
  "aside f = (\<lambda>(w, l). let (x, w') = f w in (x, w', l))"

definition noted :: "('a \<Rightarrow> 'c) \<Rightarrow> ('w \<Rightarrow> 'a \<times> 'w) \<Rightarrow> 'w \<times> 'c list \<Rightarrow> 'a \<times> 'w \<times> 'c list" where
  "noted note f = (\<lambda>(w, l). let (x, w') = f w in (x, w', l @ [note x]))"

definition recording :: "'w keycloakEnv \<Rightarrow> ('w \<times> httpCall list) keycloakEnv" where
  "recording E =
     \<lparr>api = \<lambda>q. aside (api E q), clock = aside (clock E), getenv = getenv E,
      httpPostForm = \<lambda>url form. noted (HForm url form) (httpPostForm E url form), jsonDecode = jsonDecode E, jsonUnmarshal = jsonUnmarshal E,
      nestedString = nestedString E, nestedSlice = nestedSlice E, nestedStringSlice = nestedStringSlice E, nestedMap = nestedMap E,
      setNestedField = setNestedField E, quantityCmp = quantityCmp E, newControllerRef = newControllerRef E, isDone = isDone E,
      yamlToMap = yamlToMap E, yamlOfMap = yamlOfMap E, yamlToConfig = yamlToConfig E, yamlOfConfig = yamlOfConfig E,
      generateKeyP256 = aside (generateKeyP256 E), randInt = \<lambda>n. aside (randInt E n), createCertificate = \<lambda>a b k. aside (createCertificate E a b k),
      marshalECPrivateKey = marshalECPrivateKey E, pemEncode = pemEncode E,
      jsonMarshal = jsonMarshal E, jsonMarshalValue = jsonMarshalValue E, nestedInt64 = nestedInt64 E, nestedBool = nestedBool E,
      typeMeta = typeMeta E, sha256Hex = sha256Hex E, setControllerReference = setControllerReference E, rangeOrder = rangeOrder E,
      sprintV = sprintV E, parseQuantity = parseQuantity E, quantityAdd = quantityAdd E, inClusterConfig = inClusterConfig E,
      newForConfig = newForConfig E, newSPDYExecutor = newSPDYExecutor E, streamExec = \<lambda>opts stdin. aside (streamExec E opts stdin),
      newRequest = newRequest E, httpDo = \<lambda>req. noted (HDo req) (httpDo E req), removeNestedField = removeNestedField E,
      importArchitectScript = importArchitectScript E, jsonDecodeMap = jsonDecodeMap E, jsonDecodeMaps = jsonDecodeMaps E\<rparr>"

text \<open>The tokens in an answer, read by either decoder.\<close>

definition tokenOf :: "gomap \<Rightarrow> string list" where
  "tokenOf m = (case asStr (m ''access_token'') of None \<Rightarrow> [] | Some t \<Rightarrow> [t])"

definition issued :: "('w, 'x) env_scheme \<Rightarrow> (int \<times> string) res \<Rightarrow> string list" where
  "issued E answer =
     (case answer of
        Inl _ \<Rightarrow> []
      | Inr (_, body) \<Rightarrow>
          (case jsonDecode E body of Inl _ \<Rightarrow> [] | Inr m \<Rightarrow> tokenOf m) @
          (case jsonUnmarshal E body of Inl _ \<Rightarrow> [] | Inr m \<Rightarrow> tokenOf (orEmptyMap m)))"

fun tokensAfter :: "('w, 'x) env_scheme \<Rightarrow> string list \<Rightarrow> httpCall list \<Rightarrow> string list" where
  "tokensAfter E T [] = T"
| "tokensAfter E T (HForm url form answer # l) = tokensAfter E (issued E answer @ T) l"
| "tokensAfter E T (HDo req answer # l) = tokensAfter E T l"

fun confined :: "('w, 'x) env_scheme \<Rightarrow> string \<Rightarrow> string list \<Rightarrow> httpCall list \<Rightarrow> bool" where
  "confined E h T [] \<longleftrightarrow> True"
| "confined E h T (HForm url form answer # l) \<longleftrightarrow>
     url = ''https://'' @ h @ ''/realms/master/protocol/openid-connect/token'' \<and> confined E h (issued E answer @ T) l"
| "confined E h T (HDo req answer # l) \<longleftrightarrow>
     hasPrefix (hq_URL req) (''https://'' @ h @ ''/admin/realms'') \<and> hq_Bearer req \<in> set T \<and> confined E h T l"

lemma confined_appended: "confined E h T (l @ l') \<longleftrightarrow> confined E h T l \<and> confined E h (tokensAfter E T l) l'"
  by (induction E h T l rule: confined.induct) auto

lemma tokensAfter_mono: "set T \<subseteq> set (tokensAfter E T l)"
  by (induction E T l rule: tokensAfter.induct) auto

section \<open>Programs that send nothing, and programs that stay at a host\<close>

definition logOf :: "('w \<times> httpCall list) st \<Rightarrow> httpCall list" where
  "logOf s = snd (world s)"

definition silent :: "('w \<times> httpCall list, 'a) go \<Rightarrow> bool" where
  "silent m \<longleftrightarrow> (\<forall>s. logOf (snd (run_state m s)) = logOf s)"

definition safe :: "'w keycloakEnv \<Rightarrow> string \<Rightarrow> string list \<Rightarrow> ('w \<times> httpCall list, 'a) go \<Rightarrow> bool" where
  "safe E h T m \<longleftrightarrow> (\<forall>T' s. set T \<subseteq> set T' \<longrightarrow>
     (\<exists>l. logOf (snd (run_state m s)) = logOf s @ l \<and> confined E h T' l))"

definition atSomeHost :: "'w keycloakEnv \<Rightarrow> ('w \<times> httpCall list, 'a) go \<Rightarrow> bool" where
  "atSomeHost E m \<longleftrightarrow> (\<forall>s. \<exists>h l. logOf (snd (run_state m s)) = logOf s @ l \<and> confined E h [] l)"

lemma safeD:
  "safe E h T m \<Longrightarrow> set T \<subseteq> set T' \<Longrightarrow> run_state m s = (x, s') \<Longrightarrow> \<exists>l. logOf s' = logOf s @ l \<and> confined E h T' l"
  unfolding safe_def by (metis snd_conv)

lemma silentD: "silent m \<Longrightarrow> run_state m s = (x, s') \<Longrightarrow> logOf s' = logOf s"
  unfolding silent_def by (metis snd_conv)

lemma silent_return: "silent (return x)"
  by (simp add: silent_def)

lemma silent_bind: "silent m \<Longrightarrow> (\<And>x. silent (f x)) \<Longrightarrow> silent (State_Monad.bind m f)"
  unfolding silent_def by (simp split: prod.split) (metis snd_conv)

lemma silent_aside: "silent (effect (aside f))"
  by (auto simp: silent_def effect_def aside_def logOf_def split: prod.splits)

lemma silent_call: "silent (call (recording E) q)"
  by (auto simp: silent_def call_def recording_def aside_def logOf_def split: prod.splits)

lemma silent_calls:
  "silent (Get (recording E) k prj nn)" "silent (ListObjs (recording E) k prj lo)" "silent (Create (recording E) mk prj x)"
  "silent (Update (recording E) mk prj x)" "silent (StatusUpdate (recording E) mk prj x)" "silent (Delete (recording E) k nn)"
  unfolding Get_def ListObjs_def Create_def Update_def StatusUpdate_def Delete_def
  by (intro silent_bind silent_call silent_return)+

lemma silent_control:
  "(b \<Longrightarrow> silent m) \<Longrightarrow> (\<not> b \<Longrightarrow> silent n) \<Longrightarrow> silent (if b then m else n)"
  "(\<And>e. r = Inl e \<Longrightarrow> silent (fl e)) \<Longrightarrow> (\<And>x. r = Inr x \<Longrightarrow> silent (fr x)) \<Longrightarrow> silent (case r of Inl e \<Rightarrow> fl e | Inr x \<Rightarrow> fr x)"
  "(o' = None \<Longrightarrow> silent m) \<Longrightarrow> (\<And>x. o' = Some x \<Longrightarrow> silent (g x)) \<Longrightarrow> silent (case o' of None \<Rightarrow> m | Some x \<Rightarrow> g x)"
  "(l = [] \<Longrightarrow> silent m) \<Longrightarrow> (\<And>x xs. l = x # xs \<Longrightarrow> silent (h x xs)) \<Longrightarrow> silent (case l of [] \<Rightarrow> m | x # xs \<Rightarrow> h x xs)"
  "(\<And>x y. p = (x, y) \<Longrightarrow> silent (k x y)) \<Longrightarrow> silent (case p of (x, y) \<Rightarrow> k x y)"
  "silent (j t) \<Longrightarrow> silent (Let t j)"
  by (auto split: sum.split option.split list.split prod.split)

lemma recording_simps [simp]:
  "clock (recording E) = aside (clock E)" "streamExec (recording E) o' i = aside (streamExec E o' i)"
  "httpPostForm (recording E) url form = noted (HForm url form) (httpPostForm E url form)" "httpDo (recording E) req = noted (HDo req) (httpDo E req)"
  "jsonDecode (recording E) = jsonDecode E" "jsonUnmarshal (recording E) = jsonUnmarshal E"
  by (simp_all add: recording_def)

named_theorems silent_intros "rules for programs that send no HTTP request"

declare silent_return [silent_intros] silent_bind [silent_intros] silent_aside [silent_intros] silent_calls [silent_intros]
  silent_control [silent_intros]

lemma silent_untilError [silent_intros]: "list_all silent ms \<Longrightarrow> silent (untilError ms)"
  by (induction ms) (auto intro!: silent_intros)

section \<open>Rules\<close>

lemma safe_silent: "silent m \<Longrightarrow> safe E h T m"
  by (auto simp: safe_def silent_def)

lemma safe_mono: "safe E h T m \<Longrightarrow> set T \<subseteq> set T' \<Longrightarrow> safe E h T' m"
  unfolding safe_def by (meson subset_trans)

lemma safe_return: "safe E h T (return x)"
  by (rule safe_silent [OF silent_return])

lemma safe_bind:
  assumes m: "safe E h T m" and f: "\<And>x. safe E h T (f x)"
  shows "safe E h T (State_Monad.bind m f)"
  unfolding safe_def
proof (intro allI impI)
  fix T' s assume T: "set T \<subseteq> set T'"
  obtain x s' where r: "run_state m s = (x, s')" by force
  obtain y s'' where r': "run_state (f x) s' = (y, s'')" by force
  from safeD [OF m T r] obtain l where l: "logOf s' = logOf s @ l" "confined E h T' l" by blast
  from T tokensAfter_mono have "set T \<subseteq> set (tokensAfter E T' l)" by (rule subset_trans)
  from safeD [OF f this r'] obtain l' where l': "logOf s'' = logOf s' @ l'" "confined E h (tokensAfter E T' l) l'" by blast
  from r r' l l' show "\<exists>l. logOf (snd (run_state (State_Monad.bind m f) s)) = logOf s @ l \<and> confined E h T' l"
    by (auto simp: confined_appended)
qed

lemma safe_control:
  "(b \<Longrightarrow> safe E h T m) \<Longrightarrow> (\<not> b \<Longrightarrow> safe E h T n) \<Longrightarrow> safe E h T (if b then m else n)"
  "(\<And>e. r = Inl e \<Longrightarrow> safe E h T (fl e)) \<Longrightarrow> (\<And>x. r = Inr x \<Longrightarrow> safe E h T (fr x)) \<Longrightarrow> safe E h T (case r of Inl e \<Rightarrow> fl e | Inr x \<Rightarrow> fr x)"
  "(o' = None \<Longrightarrow> safe E h T m) \<Longrightarrow> (\<And>x. o' = Some x \<Longrightarrow> safe E h T (g x)) \<Longrightarrow> safe E h T (case o' of None \<Rightarrow> m | Some x \<Rightarrow> g x)"
  "(l = [] \<Longrightarrow> safe E h T m) \<Longrightarrow> (\<And>x xs. l = x # xs \<Longrightarrow> safe E h T (c x xs)) \<Longrightarrow> safe E h T (case l of [] \<Rightarrow> m | x # xs \<Rightarrow> c x xs)"
  "(\<And>x y. p = (x, y) \<Longrightarrow> safe E h T (k x y)) \<Longrightarrow> safe E h T (case p of (x, y) \<Rightarrow> k x y)"
  "safe E h T (j t) \<Longrightarrow> safe E h T (Let t j)"
  by (auto split: sum.split option.split list.split prod.split)

named_theorems safe_intros "rules for programs that stay at a host"

declare safe_return [safe_intros] safe_bind [safe_intros] safe_control [safe_intros]
lemmas safe_calls [safe_intros] = silent_calls [THEN safe_silent] silent_aside [THEN safe_silent]

lemma safe_steps [safe_intros]:
  "safe E h T m \<Longrightarrow> (\<And>x. safe E h T (f x)) \<Longrightarrow> safe E h T (thenR m f)"
  "safe E h T n \<Longrightarrow> (\<And>x. safe E h T (g x)) \<Longrightarrow> safe E h T (thenE n g)"
  "safe E h T k \<Longrightarrow> safe E h T (logError k)"
  "safe E h T k \<Longrightarrow> safe E h T (wrapped msg k)"
  unfolding thenR_def thenE_def logError_def wrapped_def by (intro safe_intros; assumption)+

lemma safe_untilError [safe_intros]: "list_all (safe E h T) ms \<Longrightarrow> safe E h T (untilError ms)"
  by (induction ms) (auto intro!: safe_intros)

text \<open>Requests to the administration with a token that is known.\<close>

definition adminAddress :: "string \<Rightarrow> string \<Rightarrow> bool" where
  "adminAddress h url \<longleftrightarrow> hasPrefix url (''https://'' @ h @ ''/admin/realms'')"

lemma adminAddress_append: "adminAddress h url \<Longrightarrow> adminAddress h (url @ s)"
  by (auto simp: adminAddress_def hasPrefix_iff)

lemma adminAddress_adminURL [simp]: "adminAddress h (adminURL h path)"
  by (auto simp: adminAddress_def adminURL_def hasPrefix_iff)

lemma adminAddress_URLs [simp]:
  "adminAddress h (realmURL h realm path)" "adminAddress h (realmURL h realm path @ s)" "adminAddress h (clientURL h realm c)"
  "adminAddress h (clientMappersURL h realm c)" "adminAddress h (clientMappersURL h realm c @ s)"
  "adminAddress h (defaultScopeURL h realm c i)" "adminAddress h (flowURL h realm)" "adminAddress h (idpURL h realm)"
  "adminAddress h (idpURL h realm @ s)" "adminAddress h (roleMappingsURL h realm c)"
  by (simp_all add: realmURL_def clientURL_def clientMappersURL_def defaultScopeURL_def flowURL_def idpURL_def roleMappingsURL_def adminAddress_append)

lemma safe_httpTyped [safe_intros]:
  "adminAddress h url \<Longrightarrow> t \<in> set T \<Longrightarrow> safe E h T (httpTyped (recording E) json method url t body)"
  unfolding httpTyped_def
  by (intro safe_intros)
    (auto simp: safe_def effect_def noted_def logOf_def adminAddress_def split: prod.splits)

lemma safe_requests [safe_intros]:
  "adminAddress h url \<Longrightarrow> t \<in> set T \<Longrightarrow> safe E h T (http (recording E) method url t body)"
  "adminAddress h url \<Longrightarrow> t \<in> set T \<Longrightarrow> safe E h T (asked (recording E) msg method url t body)"
  "adminAddress h url \<Longrightarrow> t \<in> set T \<Longrightarrow> safe E h T (askedTyped (recording E) msg method url t)"
  "adminAddress h url \<Longrightarrow> t \<in> set T \<Longrightarrow> safe E h T (sendJSON (recording E) msg method url t m accepted)"
  "adminAddress h url \<Longrightarrow> t \<in> set T \<Longrightarrow> safe E h T (createdID (recording E) msg url t m)"
  "adminAddress h url \<Longrightarrow> t \<in> set T \<Longrightarrow> safe E h T (askedMaps (recording E) msg decodeMsg url t)"
  "adminAddress h url \<Longrightarrow> t \<in> set T \<Longrightarrow> safe E h T (mapperUnless (recording E) present what url t m)"
  "adminAddress h url \<Longrightarrow> t \<in> set T \<Longrightarrow> safe E h T (secretFrom (recording E) msg decodeMsg noValue method url t)"
  unfolding http_def asked_def askedTyped_def sendJSON_def createdID_def askedMaps_def mapperUnless_def secretFrom_def
  by (intro safe_intros; assumption)+

text \<open>A program that goes on with the token of an answer.\<close>

lemma safe_postToken:
  fixes E :: "'w keycloakEnv"
  assumes "\<And>answer. safe E h (issued E answer @ T) (f answer)"
  shows "safe E h T (State_Monad.bind (effect (httpPostForm (recording E) (tokenURLOf h) form)) f)"
  unfolding safe_def
proof (intro allI impI)
  fix T' and s :: "('w \<times> httpCall list) st"
  assume T: "set T \<subseteq> set T'"
  obtain answer w' where a: "httpPostForm E (tokenURLOf h) form (fst (world s)) = (answer, w')" by force
  let ?s = "s\<lparr>world := (w', snd (world s) @ [HForm (tokenURLOf h) form answer])\<rparr>"
  have e: "run_state (effect (httpPostForm (recording E) (tokenURLOf h) form)) s = (answer, ?s)"
    using a by (cases "world s") (simp add: effect_def noted_def)
  obtain y s'' where r: "run_state (f answer) ?s = (y, s'')" by force
  from T have "set (issued E answer @ T) \<subseteq> set (issued E answer @ T')" by auto
  from safeD [OF assms this r] obtain l where "logOf s'' = logOf ?s @ l" "confined E h (issued E answer @ T') l" by blast
  with e r show "\<exists>l. logOf (snd (run_state (State_Monad.bind (effect (httpPostForm (recording E) (tokenURLOf h) form)) f) s)) = logOf s @ l \<and>
      confined E h T' l"
    by (auto simp: logOf_def tokenURLOf_def)
qed

lemma safe_picked:
  assumes tok: "\<And>status body t. pick (status, body) = Inr t \<Longrightarrow> t \<in> set (issued E (Inr (status, body)))"
    and f: "\<And>t. safe E h (t # T) (f t)"
  shows "safe E h T (thenE (thenR (postToken (recording E) h user password) (\<lambda>a. return (pick a))) f)"
proof -
  have goOn: "safe E h (issued E answer @ T) (case labelled msg answer of Inl err \<Rightarrow> return (Some err)
      | Inr a \<Rightarrow> (case pick a of Inl err \<Rightarrow> return (Some err) | Inr t \<Rightarrow> f t))" for answer msg
  proof (cases answer)
    case (Inr a)
    have "safe E h (issued E answer @ T) (f t)" if "pick a = Inr t" for t
      using tok [of "fst a" "snd a" t] that Inr by (intro safe_mono [OF f]) auto
    with Inr show ?thesis by (auto simp: labelled_def split: sum.split intro: safe_return)
  qed (simp add: labelled_def safe_return)
  have "thenE (thenR (postToken (recording E) h user password) (\<lambda>a. return (pick a))) f =
      State_Monad.bind (effect (httpPostForm (recording E) (tokenURLOf h) (tokenForm user password)))
        (\<lambda>answer. case labelled ''failed to get admin token'' answer of Inl err \<Rightarrow> return (Some err)
          | Inr a \<Rightarrow> (case pick a of Inl err \<Rightarrow> return (Some err) | Inr t \<Rightarrow> f t))"
    unfolding thenE_def thenR_def postToken_def
    by (simp add: State_Monad.bind_assoc) (rule arg_cong [where f = "State_Monad.bind _"], auto split: sum.split)
  then show ?thesis by (simp only:) (rule safe_postToken, rule goOn)
qed

lemma tokenOf_mem: "asStr (m ''access_token'') = Some t \<Longrightarrow> t \<in> set (tokenOf m)"
  by (simp add: tokenOf_def)

lemma strOrEmpty_token: "strOrEmpty v = t \<Longrightarrow> t \<noteq> [] \<Longrightarrow> asStr v = Some t"
  by (cases "asStr v") (auto simp: strOrEmpty_def split: option.splits)

lemma safe_tokens [safe_intros]:
  assumes "\<And>t. safe E h (t # T) (f t)"
  shows "safe E h T (thenE (checkedToken (recording E) b h password) f)"
    "safe E h T (thenE (uncheckedToken (recording E) noToken h password) f)"
    "safe E h T (thenE (namedToken (recording E) h user password) f)"
  unfolding checkedToken_def uncheckedToken_def namedToken_def case_prod_unfold
  by (rule safe_picked [OF _ assms];
      auto simp: issued_def tokenOf_mem strOrEmpty_token split: if_splits sum.splits option.splits)+

end
