(* ===== verification/Confinement.thy ===== *)
theory Confinement
  imports HttpLog
begin

text \<open>
  The administration of Keycloak stays at its host: every configuration of realms, clients, scopes and identity providers sends its requests
  with a token that the token endpoint of the same host issued before, whatever Keycloak and the API server answer.
\<close>

section \<open>Parts that send nothing\<close>

lemma silent_parts [silent_intros]:
  "silent (adminSecret (recording E) msg)" "silent (apiServerOf (recording E))" "silent (ensureOAuthClient (recording E) h realm)"
  "silent (storeClientSecret (recording E) s)" "silent (actualAppDomain (recording E) d)" "silent (storeCLISecret (recording E) c s)"
  "silent (serverURLOf (recording E))" "silent (s3EndpointOf (recording E))" "silent (createMissing (recording E) k mk prj nn msg x)"
  "silent (putAnalyzer (recording E) m)" "silent (putKeycloak (recording E) m)" "silent (removeRealmImport (recording E))"
  unfolding adminSecret_def apiServerOf_def ensureOAuthClient_def storeClientSecret_def actualAppDomain_def storeCLISecret_def
    serverURLOf_def s3EndpointOf_def createMissing_def putAnalyzer_def putKeycloak_def removeRealmImport_def
  by (intro silent_intros)+

lemma silent_storage [silent_intros]: "silent (existingStorage (recording E))" "silent (analyzerStorage (recording E))"
  "silent (keycloakTLS (recording E) con managed hostname)"
  unfolding existingStorage_def analyzerStorage_def keycloakTLS_def ensureKeycloakTLS_def by (intro silent_intros)+

lemmas safe_parts [safe_intros] =
  silent_parts [THEN safe_silent] silent_storage [THEN safe_silent]

section \<open>Realms, clients and scopes\<close>

lemma safe_scopes [safe_intros]:
  assumes "t \<in> set T"
  shows "safe E h T (getClientScopeIDByName (recording E) h realm scope t)"
    "safe E h T (removeBuiltinScope (recording E) h realm c t)"
    "safe E h T (ensureEmailVerifiedClientScope (recording E) h realm c t)"
    "safe E h T (ensureClient (recording E) h realm c t clients)"
    "list_all (safe E h T) (mapperRepairs (recording E) (clientMappersURL h realm c) clientID t mappers)"
  unfolding getClientScopeIDByName_def removeBuiltinScope_def ensureEmailVerifiedClientScope_def ensureClient_def mapperRepairs_def Let_def
  using assms by (auto intro!: safe_intros)

lemma safe_realms [safe_intros]:
  "safe E h T (updateKeycloakClientSecret (recording E) h c realm)"
  "safe E h T (configureKeycloakEmailMapper (recording E) h c realm)"
  "safe E h T (configureKeycloakRealmAndClient (recording E) h realm c)"
  unfolding updateKeycloakClientSecret_def configureKeycloakEmailMapper_def configureKeycloakRealmAndClient_def Let_def
  by (auto intro!: safe_intros)

lemma safe_reviewLoop [safe_intros]:
  "adminAddress h url \<Longrightarrow> t \<in> set T \<Longrightarrow> safe E h T (reviewLoop (recording E) url t xs)"
  by (induction xs) (auto intro!: safe_intros)

lemma safe_providers [safe_intros]:
  assumes "t \<in> set T"
  shows "safe E h T (configureRealmProfileSettings (recording E) h realm t)"
    "safe E h T (updateIdP (recording E) h realm api' s t)"
    "safe E h T (addOpenShiftIdentityProvider (recording E) h realm api' t)"
  unfolding configureRealmProfileSettings_def updateIdP_def addOpenShiftIdentityProvider_def Let_def
  using assms by (auto intro!: safe_intros)

lemma safe_oauth [safe_intros]: "safe E h T (configureOpenShiftOAuth (recording E) h)"
  unfolding configureOpenShiftOAuth_def by (auto intro!: safe_intros)

section \<open>Clients of the analyzer\<close>

lemma safe_roles [safe_intros]:
  assumes "t \<in> set T"
  shows "safe E h T (assignScopeToClient (recording E) h realm c scope t)"
    "safe E h T (ensureTrustifyManagerRole (recording E) h realm t)"
    "safe E h T (serviceAccountUser (recording E) h realm c t)"
    "safe E h T (roleNamed (recording E) h realm r t msg)"
  unfolding assignScopeToClient_def ensureTrustifyManagerRole_def serviceAccountUser_def roleNamed_def Let_def
  using assms by (auto intro!: safe_intros)

lemma safe_assignments [safe_intros]:
  assumes "t \<in> set T"
  shows "safe E h T (assignReadScopeToClient (recording E) h realm c t)"
    "safe E h T (assignRoleToServiceAccountByClient (recording E) h realm c r t)"
    "safe E h T (assignScopes (recording E) h realm t c)"
    "safe E h T (assignScopeToTrustifyClients (recording E) h realm t)"
  unfolding assignReadScopeToClient_def assignRoleToServiceAccountByClient_def assignScopes_def assignScopeToTrustifyClients_def Let_def
  using assms by (auto intro!: safe_intros)

lemma safe_clients [safe_intros]:
  assumes "t \<in> set T"
  shows "safe E h T (ensureTrustifyReadOnlyScope (recording E) h realm t)"
    "safe E h T (ensureTrustifyCreateScope (recording E) h realm t)"
    "safe E h T (readSecret (recording E) (realmURL h realm p @ s) t)"
    "safe E h T (readClientUUID (recording E) (clientURL h realm c) t)"
    "safe E h T (updateTrustifyClient (recording E) h realm t d isPublic clients)"
    "safe E h T (createTrustifyClient (recording E) h realm t c d isPublic)"
    "safe E h T (ensureTrustifyOIDCClient (recording E) h realm c d t isPublic)"
  unfolding ensureTrustifyReadOnlyScope_def ensureTrustifyCreateScope_def ensureScope_def readSecret_def readClientUUID_def
    updateTrustifyClient_def createTrustifyClient_def ensureTrustifyOIDCClient_def Let_def
  using assms by (auto intro!: safe_intros)

lemma safe_analyzer [safe_intros]:
  "safe E h T (ensureTrustifyRealmAndOIDC (recording E) h realm d)"
  "safe E h T (updateTrustifyRedirectURIs (recording E) h realm c)"
  unfolding ensureTrustifyRealmAndOIDC_def updateTrustifyRedirectURIs_def Let_def by (auto intro!: safe_intros)

lemma safe_anyToken:
  assumes some: "\<And>t. safe E h (t # T) (f (Some t))" and none: "safe E h T (f None)"
  shows "safe E h T (State_Monad.bind (anyToken (recording E) h secret) f)"
proof -
  have goOn: "safe E h (issued E answer @ T) (f (case answer of Inl _ \<Rightarrow> None
      | Inr (_, body) \<Rightarrow> (case jsonDecode (recording E) body of Inl _ \<Rightarrow> None
        | Inr m \<Rightarrow> if strOrEmpty (m ''access_token'') = [] then None else Some (strOrEmpty (m ''access_token'')))))" for answer
    by (auto simp: issued_def tokenOf_mem strOrEmpty_token split: sum.split prod.split
        intro!: safe_mono [OF none] safe_mono [OF some])
  show ?thesis
    unfolding anyToken_def State_Monad.bind_assoc by (rule safe_postToken) (use goOn in simp)
qed

lemma safe_maintained [safe_intros]:
  "t \<in> set T \<Longrightarrow> list_all (safe E h T) (trustifyClients (recording E) h d t)"
  unfolding trustifyClients_def by (auto intro!: safe_intros)

section \<open>The reconciliations\<close>

lemma atSomeHost_silent: "silent m \<Longrightarrow> (\<And>x. atSomeHost E (f x)) \<Longrightarrow> atSomeHost E (State_Monad.bind m f)"
  unfolding atSomeHost_def silent_def by (simp split: prod.split) (metis snd_conv)

lemma atSomeHost_safe: "safe E h [] m \<Longrightarrow> atSomeHost E m"
  unfolding atSomeHost_def safe_def by (metis order_refl)

lemma atSomeHost_control:
  "(b \<Longrightarrow> atSomeHost E m) \<Longrightarrow> (\<not> b \<Longrightarrow> atSomeHost E n) \<Longrightarrow> atSomeHost E (if b then m else n)"
  "(\<And>e. r = Inl e \<Longrightarrow> atSomeHost E (fl e)) \<Longrightarrow> (\<And>x. r = Inr x \<Longrightarrow> atSomeHost E (fr x)) \<Longrightarrow>
   atSomeHost E (case r of Inl e \<Rightarrow> fl e | Inr x \<Rightarrow> fr x)"
  "(o' = None \<Longrightarrow> atSomeHost E m) \<Longrightarrow> (\<And>x. o' = Some x \<Longrightarrow> atSomeHost E (g x)) \<Longrightarrow>
   atSomeHost E (case o' of None \<Rightarrow> m | Some x \<Rightarrow> g x)"
  "atSomeHost E (j t) \<Longrightarrow> atSomeHost E (Let t j)"
  by (auto split: sum.split option.split)

lemmas atSomeHost_return = atSomeHost_safe [OF safe_return]

lemma silent_databases [silent_intros]:
  "silent (ensureManagedPostgreSQL (recording E))" "silent (analyzerDatabase (recording E) cfg)"
  unfolding ensureManagedPostgreSQL_def analyzerDatabase_def ensureRHTPAPostgreSQL_def createNative_def autoExpandPVC_def usagePercent_def
    rhtpaClaim_def rhtpaPassword_def Let_def
  by (auto intro!: silent_intros)

lemmas safe_databases [safe_intros] = silent_databases [THEN safe_silent]

lemma atSomeHost_keycloak: "atSomeHost E (reconcileManagedKeycloak (recording E) platform)"
  unfolding reconcileManagedKeycloak_def
  by (intro atSomeHost_control atSomeHost_return atSomeHost_silent silent_intros, rule atSomeHost_safe) (auto intro!: safe_intros)

lemma atSomeHost_install: "atSomeHost E (installAnalyzer (recording E) cfg)"
  unfolding installAnalyzer_def analyzerIssuer_def
  by (intro atSomeHost_control atSomeHost_return atSomeHost_silent silent_intros, rule atSomeHost_safe) (auto intro!: safe_intros)

lemma atSomeHost_then_silent: "atSomeHost E m \<Longrightarrow> (\<And>x. silent (f x)) \<Longrightarrow> atSomeHost E (State_Monad.bind m f)"
  unfolding atSomeHost_def silent_def by (simp split: prod.split) (metis snd_conv)

lemma safe_withAnyToken [safe_intros]:
  "safe E h T (do {
     adminToken \<leftarrow> anyToken (recording E) h secret;
     case adminToken of None \<Rightarrow> return None | Some adminToken \<Rightarrow> untilError (trustifyClients (recording E) h d adminToken) })"
  by (rule safe_anyToken) (auto intro!: safe_intros)

lemma safe_maintenance:
  "safe E h T (untilError
     [case secret of
        Inl _ \<Rightarrow> return None
      | Inr secret \<Rightarrow> do {
          adminToken \<leftarrow> anyToken (recording E) h secret;
          case adminToken of None \<Rightarrow> return None | Some adminToken \<Rightarrow> untilError (trustifyClients (recording E) h d adminToken) },
      logError (updateTrustifyRedirectURIs (recording E) h ''trustify'' ''frontend'')])"
  by (rule safe_untilError) (auto intro!: safe_intros split: sum.split)

lemma atSomeHost_maintain: "atSomeHost E (maintainClients (recording E))"
  unfolding maintainClients_def
  by (intro atSomeHost_control atSomeHost_return atSomeHost_silent silent_intros, rule atSomeHost_safe, rule safe_maintenance)

lemma atSomeHost_analyzer: "atSomeHost E (reconcileRHTPAConfig (recording E) con)"
  unfolding reconcileRHTPAConfig_def refreshAnalyzer_def
  by (intro atSomeHost_control atSomeHost_return atSomeHost_then_silent [OF atSomeHost_maintain] atSomeHost_silent silent_intros
      atSomeHost_install)

lemma atSomeHost_start: "atSomeHost E m \<Longrightarrow> \<exists>h. confined E h [] (logOf (snd (run_state m \<lparr>world = (w, []), trace = []\<rparr>)))"
  unfolding atSomeHost_def by (drule spec [where x = "\<lparr>world = (w, []), trace = []\<rparr>"]) (auto simp: logOf_def)

lemma silent_signPipelines [silent_intros]: "silent (signPipelines (recording E) keyless ps)"
  by (induction ps) (auto intro!: silent_intros)

lemma silent_signing [silent_intros]: "silent (signingURLs (recording E))" "silent (keycloakHostname (recording E))"
  unfolding signingURLs_def keycloakHostname_def by (intro silent_intros)+

lemmas safe_signing [safe_intros] = silent_signPipelines [THEN safe_silent] silent_signing [THEN safe_silent]

lemma atSomeHost_signing: "atSomeHost E (configureCollectionPipelineSigning (recording E) platform)"
  unfolding configureCollectionPipelineSigning_def thenE_def [of "signingURLs _"] thenE_def [of "keycloakHostname _"] case_prod_unfold
  by (intro atSomeHost_control atSomeHost_return atSomeHost_silent silent_intros, rule atSomeHost_safe) (auto intro!: safe_intros)

text \<open>C4. Whatever Keycloak and the API server answer, the reconciliations of the managed Keycloak, of the signing of the collections and of the
  analyzer each talk to one host only, ask its token endpoint for tokens, and send every other HTTP request to its administration with a
  token that an earlier answer of that endpoint contained.\<close>

theorem keycloak_confined:
  "(\<exists>h. confined E h [] (logOf (snd (run_state (reconcileManagedKeycloak (recording E) platform) \<lparr>world = (w, []), trace = []\<rparr>)))) \<and>
   (\<exists>h. confined E h [] (logOf (snd (run_state (configureCollectionPipelineSigning (recording E) platform) \<lparr>world = (w, []), trace = []\<rparr>)))) \<and>
   (\<exists>h. confined E h [] (logOf (snd (run_state (reconcileRHTPAConfig (recording E) con) \<lparr>world = (w, []), trace = []\<rparr>))))"
  by (intro conjI atSomeHost_start atSomeHost_keycloak atSomeHost_signing atSomeHost_analyzer)

end
