(* ===== verification/StatusWrites.thy ===== *)
theory StatusWrites
  imports Platform
begin

text \<open>
  The steps of a reconciliation of the platform write no status: the rules below say so of each of them, in the order in which the
  components build on each other. What the reconciliation itself writes, and when, is at the end.
\<close>

section \<open>Steps that write no status\<close>

fun statusFree :: "request \<Rightarrow> bool" where
  "statusFree (RStatusUpdate x) = False"
| "statusFree _ = True"

lemma free_helpers [only_intros]:
  "only statusFree (getClusterProxy E)" "only statusFree (resolveQuayReplicaOverride E explicit)" "only statusFree (getClusterSSHKey E)"
  "only statusFree (getClusterVersion E)"
  unfolding getClusterProxy_def isSingleNodeOpenShift_def resolveQuayReplicaOverride_def getClusterSSHKey_def getClusterVersion_def
  by (auto intro!: only_intros)

lemma free_collectHistory [only_intros]: "only statusFree (collectHistory E ps h)"
  by (induction E ps h rule: collectHistory.induct) (auto intro!: only_intros)

lemma free_history [only_intros]: "only statusFree (aggregateCollections E st)" "only statusFree (aggregateImports E st)"
  unfolding aggregateCollections_def aggregateImports_def by (auto intro!: only_intros)

lemma free_conditionLoops [only_intros]:
  "only statusFree (setErrorLoop E gen reason message cs)" "only statusFree (clearLoop E reason cs)"
  "only statusFree (setReadyLoop E gen reason message cs)"
  by (induction cs) (auto intro!: only_intros)

lemma free_connectivityLoop [only_intros]: "only statusFree (connectivityLoop E pod cs)"
  by (induction cs) (auto intro!: only_intros)

lemma free_conditions [only_intros]:
  "only statusFree (setErrorCondition E platform reason message)" "only statusFree (clearDegradedCondition E platform reason)"
  "only statusFree (updateDegradedCondition E platform reason message)" "only statusFree (setReadyCondition E platform reason message)"
  unfolding setErrorCondition_def clearDegradedCondition_def updateDegradedCondition_def setReadyCondition_def
  by (auto intro!: only_intros)

lemma free_applyHealth [only_intros]: "only statusFree (applyHealth E cs platform)"
  by (induction E cs platform rule: applyHealth.induct) (auto intro!: only_intros)

lemma free_health [only_intros]:
  "only statusFree (performRHTASHealthChecks E platform)" "only statusFree (updateStatusFromSecuresignHealth E platform)"
  unfolding checkAndFixTUFKeys_def checkFulcioKeycloakConnectivity_def performRHTASHealthChecks_def updateStatusFromSecuresignHealth_def
  by (auto intro!: only_intros)

lemma free_bundles [only_intros]:
  "only statusFree (ensureClusterCABundleInNamespace E ns)" "only statusFree (ensureClusterCABundle E)"
  "only statusFree (getClusterCABundleData E)" "only statusFree (ensureCombinedCABundle E)" "only statusFree (ensureSubscriptionCABundle E sub)"
  unfolding ensureClusterCABundleInNamespace_def ensureClusterCABundle_def ensureServiceCAConfigMap_def getClusterCABundleData_def
    ensureCombinedCABundle_def ensureSubscriptionCABundle_def
  by (auto intro!: only_intros)

lemma free_ownSubscription [only_intros]: "only statusFree (ownSubscriptionLoop E subs)"
  by (induction E subs rule: ownSubscriptionLoop.induct) (auto intro!: only_intros)

lemma free_operators [only_intros]:
  "only statusFree (ensureOwnSubscriptionConfig E)" "only statusFree (enableConsolePluginInOperator E pluginName)"
  "only statusFree (ensureNamespace E ns)" "only statusFree (ensureOperatorGroup E op)" "only statusFree (ensureSubscription E op cfg)"
  "only statusFree (csvStatus E op)" "only statusFree (discoverPackageInfo E pkg)"
  unfolding ensureOwnSubscriptionConfig_def enableConsolePluginInOperator_def ensureNamespace_def ensureOperatorGroup_def
    ensureSubscription_def csvStatus_def discoverPackageInfo_def
  by (auto intro!: only_intros)

lemma free_installs [only_intros]:
  "only statusFree (enablePlugins E op c)" "only statusFree (installOperator E op cfg)" "only statusFree (installedStatus E op)"
  unfolding enablePlugins_def installOperator_def installedStatus_def by (auto intro!: only_intros)

lemma free_subscriptionsLoop [only_intros]: "only statusFree (subscriptionsLoop E ov ops cs)"
  by (induction ops arbitrary: cs) (auto intro!: only_intros)

lemma free_airgappedLoop [only_intros]: "only statusFree (airgappedLoop E ops rq cs)"
  by (induction ops arbitrary: rq cs) (auto intro!: only_intros)

lemma free_subscriptions [only_intros]:
  "only statusFree (reconcileSubscriptions E platform)" "only statusFree (reconcileAirgappedSubscriptions E platform)"
  unfolding reconcileSubscriptions_def reconcileAirgappedSubscriptions_def by (auto intro!: only_intros)

lemma free_untilError [only_intros]: "list_all (only P) ms \<Longrightarrow> only P (untilError ms)"
  by (induction ms) (auto intro!: only_intros)

lemma free_logError [only_intros]: "only P m \<Longrightarrow> only P (logError m)"
  unfolding logError_def by (intro only_intros)

lemma free_databases [only_intros]:
  "only statusFree (createMissing E k mk prj nn msg x)" "only statusFree (ensureRHTPAPostgreSQL E' a b)" "only statusFree (ensureManagedPostgreSQL E')"
  unfolding createMissing_def createNative_def usagePercent_def autoExpandPVC_def rhtpaClaim_def rhtpaPassword_def ensureRHTPAPostgreSQL_def
    ensureManagedPostgreSQL_def Let_def
  by (auto intro!: only_intros)

lemma free_robot [only_intros]:
  "only statusFree (getQuayHostname E q)" "only statusFree (getQuayRegistry E)" "only statusFree (saveQuayRobotCredentials E name token)"
  "only statusFree (getQuayRobotCredentials E' r)" "only statusFree (ensureAirgappedRegistryCredentials E' r platform)"
  "only statusFree (ensureQuayCredentials E' r)"
  unfolding getQuayHostname_def getQuayRegistry_def execCommandInPod_def execInQuayPod_def queryQuayRobotToken_def
    saveQuayRobotCredentials_def getQuayRobotCredentials_def ensureQuayRobotViaPython_def ensureAirgappedRegistryCredentials_def
    ensureQuayCredentials_def Let_def
  by (auto intro!: only_intros)

lemma free_deletions [only_intros]:
  "only statusFree (deleteAllPods E pods)" "only statusFree (deleteResource E g name)"
  unfolding deleteResource_def by (induction pods) (auto intro!: only_intros)

lemma free_deleteLoops [only_intros]: "only statusFree (deleteAll E os)" "only statusFree (deleteResources E names)"
  "only statusFree (deleteObjects E ks)"
  subgoal by (induction os rule: deleteAll.induct) (auto intro!: only_intros)
  subgoal by (induction names rule: deleteResources.induct) (auto intro!: only_intros)
  subgoal by (induction ks rule: deleteObjects.induct) (auto intro!: only_intros)
  done

lemma free_pullSecrets [only_intros]:
  "only statusFree (ensurePullSecret E r name ns)" "only statusFree (ensureACMPullSecret E')" "only statusFree (ensureOSUSPullSecret E r)"
  unfolding addQuayCredentialsIfNeeded_def restartBackendPods_def updatePullSecret_def ensurePullSecret_def ensureACMPullSecret_def
    copyOSUSPullSecret_def linkOSUSPullSecret_def mergeClusterPullSecret_def ensureOSUSPullSecret_def Let_def
  by (auto intro!: only_intros)

lemma free_architectObjects [only_intros]:
  "only statusFree (ensureArchitectServiceAccount E')"
  "only statusFree (ensureDeployment E platform name img replicas labels ps builder)"
  "only statusFree (ensureArchitectService E platform name port labels)"
  "only statusFree (ensureArchitectRoute E platform name routeCfg service)"
  "only statusFree (ensureConsolePluginCR E platform name)"
  unfolding ensureArchitectServiceAccount_def ensureDeployment_def updateArchitectDeployment_def ensureArchitectService_def
    ensureArchitectRoute_def updateArchitectRoute_def ensureConsolePluginCR_def updateConsolePluginCR_def getServiceCACert_def Let_def
  by (auto intro!: only_intros)

lemma free_architect [only_intros]:
  "only statusFree (deleteArchitectResources E platform)" "only statusFree (reconcileBackend E r platform cfg replicas)"
  "only statusFree (reconcileRoute E platform cfg routeName component pre)"
  "only statusFree (reconcileFrontend E r platform cfg replicas backendHost frontendHost)"
  "only statusFree (reconcilePlugin E r platform cfg replicas)"
  unfolding deleteArchitectResources_def reconcileBackend_def reconcileRoute_def reconcileFrontend_def reconcilePlugin_def Let_def
    ensureArchitectBackend_def ensureArchitectFrontend_def ensureConsolePlugin_def routeHostname_def deleteArchitectFrontendResources_def
    deleteConsolePluginResources_def
  by (auto intro!: only_intros split: prod.splits)

lemma free_reconcileArchitect [only_intros]: "only statusFree (reconcileArchitect E r platform)"
  unfolding reconcileArchitect_def Let_def by (auto intro!: only_intros split: prod.splits)

lemma free_quayParts [only_intros]:
  "only statusFree (createAirgappedQuayConfigSecret E' platform)" "only statusFree (configureClairVEX E q)"
  "only statusFree (ensureQuayGunicornTimeout E q)" "only statusFree (recordAirgappedRegistry E platform url)"
  "only statusFree (createOrUpdateQuayS3ConfigSecret E q creds h)" "only statusFree (ensureQuayCAInConfigBundle E q)"
  "only statusFree (getClusterIngressDomain E')" "only statusFree (ensureQuayPassthroughRoute E platform q)"
  "only statusFree (ensureQuayTLSCertificate E' platform h)" "only statusFree (createBucketClaim E platform name m1 m2)"
  "only statusFree (ensureQuayComponentsUnmanaged E q)" "only statusFree (recordMirrorRegistry E platform url)"
  unfolding createAirgappedQuayConfigSecret_def writeClairSecret_def configureClairVEX_def ensureQuayGunicornTimeout_def putComponents_def
    recordAirgappedRegistry_def getQuayTLSCertData_def createOrUpdateQuayS3ConfigSecret_def ensureQuayCAInConfigBundle_def
    getClusterIngressDomain_def createPassthroughRoute_def ensureQuayPassthroughRoute_def ensureQuayTLSCertificate_def
    createBucketClaim_def ensureQuayComponentsUnmanaged_def recordMirrorRegistry_def Let_def
  by (auto intro!: only_intros)

lemma free_quaySteps [only_intros]:
  "only statusFree (reconcileQuayOBC E platform)" "only statusFree (resolveQuayS3Credentials E platform storage)"
  "only statusFree (ensureBundle E platform managed q h)" "only statusFree (ensurePassthrough E platform managed q h)"
  "only statusFree (finishManagedQuay E platform managed creds q)"
  unfolding reconcileQuayOBC_def resolveQuayS3Credentials_def ensureBundle_def ensurePassthrough_def finishManagedQuay_def Let_def
  by (auto intro!: only_intros)

lemma free_quay [only_intros]:
  "only statusFree (reconcileAirgappedQuay E platform ag)" "only statusFree (ensureAWSLoadBalancerTimeout E')"
  "only statusFree (reconcileQuayConfig E platform)" "only statusFree (reconcileArtifactsBucket E platform)"
  "only statusFree (syncS3ConfigToSecret E')"
  unfolding reconcileAirgappedQuay_def updateAirgappedQuay_def ensureAWSLoadBalancerTimeout_def createManagedQuay_def updateManagedQuay_def
    reconcileQuayConfig_def reconcileArtifactsBucket_def externalEndpoint_def syncS3ConfigToSecret_def Let_def
  by (auto intro!: only_intros)

lemma free_registry [only_intros]: "only statusFree (Manager_Reconcile E platform)" "only statusFree (GetRegistryAddress E' platform)"
  unfolding Manager_Reconcile_def GetRegistryAddress_def resolveConfig_def resolvePullSecret_def ensureCA_def generateCA_def getMasterNodes_def
    step_def ensureMachineConfig_def ensureTrustConfigMap_def ensureImageConfig_def ensureIDMS_def Let_def
  by (auto intro!: only_intros)

lemma free_scanner [only_intros]:
  "only statusFree (reconcileImportScanner E platform ag)" "only statusFree (ensureAirgappedUpdateService E ag)"
  "only statusFree (ensurePipelineOSUSAccess E')" "only statusFree (ensureUpdateService E platform)"
  unfolding reconcileImportScanner_def ensureImportScannerRBAC_def ensureImportJobRBAC_def ensureImportScannerScript_def
    ensureScannerCronJob_def createAbsent_def ensureRole_def ensureAirgappedUpdateService_def putUpdateService_def createUnstr_def
    ensurePipelineOSUSAccess_def ensureUpdateService_def Let_def
  by (auto intro!: only_intros)

lemma free_templates [only_intros]:
  "only statusFree (reconcileImportPipelineTemplate E r platform)" "only statusFree (reconcileCollectionPipelineTemplate E r platform)"
  unfolding reconcileImportPipelineTemplate_def reconcileCollectionPipelineTemplate_def Let_def by (auto intro!: only_intros)

lemma free_imageSets [only_intros]: "only statusFree (imageSetLoop E registry vs)"
  by (induction vs) (auto intro!: only_intros)

lemma free_hosts [only_intros]:
  "only statusFree (ensureProvisioningConfiguration E)" "only statusFree (ensureAssistedInstallerMirrorConfig E' ag)"
  "only statusFree (reconcileRHCOSServer E platform ag)" "only statusFree (ensureAgentServiceConfig E' hostInv url)"
  "only statusFree (ensureACMCredential E' hostInv)" "only statusFree (ensureInfraEnv E ag hostInv)"
  "only statusFree (ensureClusterImageSets E' ag)" "only statusFree (deleteAirgappedACM E')"
  unfolding ensureProvisioningConfiguration_def ensureAssistedInstallerMirrorConfig_def getMirrorRegistryCA_def secretValue_def
    userCABundle_def putMirrorConfig_def reconcileRHCOSServer_def rhcosImageOf_def ensureRHCOSDeployment_def
    ensureRHCOSService_def ensureAgentServiceConfig_def ensureACMCredential_def ensureInfraEnv_def buildIgnitionConfigOverride_def
    ensureClusterImageSets_def deleteAirgappedACM_def Let_def
  by (auto intro!: only_intros)

lemma free_hub [only_intros]: "only statusFree (reconcileAirgappedACM E platform ag acm)"
  unfolding reconcileAirgappedACM_def reconcileHub_def ensureMultiClusterHub_def Let_def by (auto intro!: only_intros)

lemma free_runSteps: "list_all (\<lambda>m. \<forall>platform. only P (m platform)) ms \<Longrightarrow> only P (runSteps ms platform rq)"
  by (induction ms arbitrary: platform rq) (auto intro!: only_intros)

lemma free_airgapped [only_intros]: "only statusFree (reconcileAirgapped E r platform)"
proof -
  have "only statusFree (runSteps (hostSteps E ag @ airgappedSteps E r) platform rq)" for ag platform rq
    by (rule free_runSteps)
      (auto simp: hostSteps_def airgappedSteps_def reading_def withAirgapped_def reconcileMirrorRegistry_def split: option.split intro!: only_intros)
  moreover have "only statusFree (runSteps (airgappedSteps E r) platform rq)" for platform rq
    by (rule free_runSteps)
      (auto simp: airgappedSteps_def reading_def withAirgapped_def reconcileMirrorRegistry_def split: option.split intro!: only_intros)
  ultimately show ?thesis unfolding reconcileAirgapped_def Let_def by (auto intro!: only_intros)
qed

section \<open>Keycloak and the signing service\<close>

lemma free_steps [only_intros]:
  "only P m \<Longrightarrow> (\<And>x. only P (f x)) \<Longrightarrow> only P (thenR m f)"
  "only P n \<Longrightarrow> (\<And>x. only P (g x)) \<Longrightarrow> only P (thenE n g)"
  unfolding thenR_def thenE_def by (intro only_intros; assumption)+

lemma free_requests [only_intros]:
  "only P (httpTyped E json method url t body)" "only P (http E method url t body)" "only P (asked E msg method url t body)"
  "only P (askedTyped E msg method url t)" "only P (sendJSON E msg method url t m accepted)" "only P (createdID E msg url t m)"
  "only P (askedMaps E msg decodeMsg url t)" "only P (mapperUnless E present what url t m)"
  "only P (secretFrom E msg decodeMsg noValue method url t)" "only P (postToken E h user pw)"
  unfolding httpTyped_def http_def asked_def askedTyped_def sendJSON_def createdID_def askedMaps_def mapperUnless_def secretFrom_def postToken_def
    thenR_def thenE_def http_def
  by (auto intro!: only_intros)

lemma free_tokens [only_intros]:
  "only P (checkedToken E b h pw)" "only P (uncheckedToken E noToken h pw)" "only P (namedToken E h user pw)" "only P (anyToken E h secret)"
  unfolding checkedToken_def uncheckedToken_def namedToken_def anyToken_def by (auto intro!: only_intros)

lemma free_parts [only_intros]:
  "only statusFree (adminSecret E' msg)" "only statusFree (apiServerOf E')" "only statusFree (ensureOAuthClient E' h realm)"
  "only statusFree (storeClientSecret E' s)" "only statusFree (actualAppDomain E' d)" "only statusFree (storeCLISecret E' c s)"
  "only statusFree (serverURLOf E')" "only statusFree (s3EndpointOf E')" "only statusFree (putAnalyzer E' m)" "only statusFree (putKeycloak E' m)"
  "only statusFree (removeRealmImport E')" "only statusFree (existingStorage E')" "only statusFree (analyzerStorage E')"
  "only statusFree (keycloakTLS E' con managed hostname)" "only statusFree (signingURLs E')" "only statusFree (keycloakHostname E')"
  unfolding adminSecret_def apiServerOf_def ensureOAuthClient_def storeClientSecret_def actualAppDomain_def storeCLISecret_def
    serverURLOf_def s3EndpointOf_def putAnalyzer_def putKeycloak_def removeRealmImport_def existingStorage_def analyzerStorage_def
    keycloakTLS_def ensureKeycloakTLS_def signingURLs_def keycloakHostname_def
  by (auto intro!: only_intros)

lemma free_realms [only_intros]:
  "only statusFree (ensureEmailVerifiedClientScope E h realm c t)" "only statusFree (ensureClient E h realm c t clients)"
  "list_all (only statusFree) (mapperRepairs E url clientID t mappers)" "only statusFree (updateKeycloakClientSecret E h c realm)"
  "only statusFree (configureKeycloakEmailMapper E h c realm)"
  unfolding getClientScopeIDByName_def removeBuiltinScope_def ensureEmailVerifiedClientScope_def ensureClient_def mapperRepairs_def
    updateKeycloakClientSecret_def configureKeycloakEmailMapper_def Let_def
  by (auto intro!: only_intros)

lemma free_reviewLoop [only_intros]: "only P (reviewLoop E url t xs)"
  by (induction xs) (auto intro!: only_intros)

lemma free_providers [only_intros]:
  "only statusFree (configureKeycloakRealmAndClient E h realm c)" "only statusFree (addOpenShiftIdentityProvider E h realm api' t)"
  unfolding configureKeycloakRealmAndClient_def configureRealmProfileSettings_def updateIdP_def addOpenShiftIdentityProvider_def Let_def
  by (auto intro!: only_intros)

lemma free_signPipelines [only_intros]: "only statusFree (signPipelines E keyless ps)"
  by (induction ps) (auto intro!: only_intros)

lemma free_signing [only_intros]:
  "only statusFree (configureOpenShiftOAuth E h)" "only statusFree (configureCollectionPipelineSigning E platform)"
  unfolding configureOpenShiftOAuth_def configureCollectionPipelineSigning_def by (auto intro!: only_intros)

lemma free_securesign [only_intros]:
  "only statusFree (checkKeycloakHealth E platform)" "only statusFree (reconcileRHTASConfig E platform)"
  "only statusFree (extractRHTASRootKeys E' platform)"
  unfolding checkKeycloakHealth_def reconcileRHTASConfig_def annotateSecuresign_def oidcSettings_def extractRHTASRootKeys_def putTrustedRoot_def
    readySecuresign_def recordRootKeys_def rootKey_def tufKeys_def Let_def
  by (auto intro!: only_intros)

lemma free_assignments [only_intros]:
  "only statusFree (assignScopeToClient E h realm c scope t)" "only statusFree (assignScopes E h realm t c)"
  unfolding assignScopeToClient_def ensureTrustifyManagerRole_def serviceAccountUser_def roleNamed_def assignReadScopeToClient_def
    assignRoleToServiceAccountByClient_def assignScopes_def Let_def
  by (auto intro!: only_intros)

lemma free_clients [only_intros]:
  "only statusFree (ensureTrustifyReadOnlyScope E h realm t)" "only statusFree (ensureTrustifyCreateScope E h realm t)"
  "only statusFree (ensureTrustifyOIDCClient E h realm c d t isPublic)" "only statusFree (assignScopeToTrustifyClients E h realm t)"
  "only statusFree (updateTrustifyRedirectURIs E h realm c)"
  unfolding ensureTrustifyReadOnlyScope_def ensureTrustifyCreateScope_def ensureScope_def readSecret_def readClientUUID_def
    updateTrustifyClient_def createTrustifyClient_def ensureTrustifyOIDCClient_def assignScopeToTrustifyClients_def
    assignReadScopeToClient_def updateTrustifyRedirectURIs_def Let_def
  by (auto intro!: only_intros)

lemma free_analyzerParts [only_intros]:
  "only statusFree (ensureTrustifyRealmAndOIDC E h realm d)" "only statusFree (maintainClients E)" "only statusFree (analyzerDatabase E' cfg)"
  unfolding ensureTrustifyRealmAndOIDC_def maintainClients_def trustifyClients_def analyzerDatabase_def Let_def by (auto intro!: only_intros)

lemma free_analyzer [only_intros]: "only statusFree (reconcileRHTPAConfig E con)"
  unfolding reconcileRHTPAConfig_def refreshAnalyzer_def installAnalyzer_def analyzerIssuer_def Let_def by (auto intro!: only_intros)

lemma free_keycloak [only_intros]: "only statusFree (reconcileManagedKeycloak E platform)" "only statusFree (ensureImportScriptConfigMap E)"
  unfolding reconcileManagedKeycloak_def ensureImportScriptConfigMap_def Let_def by (auto intro!: only_intros)

section \<open>Stages\<close>

definition quiet :: "event list \<Rightarrow> bool" where
  "quiet es \<longleftrightarrow> list_all (\<lambda>e. statusFree (fst e)) es"

lemma quiet_simps [simp]: "quiet []" "quiet (es @ es') \<longleftrightarrow> quiet es \<and> quiet es'"
  by (auto simp: quiet_def)

text \<open>The platform is written with the phase of an error, as the last request, whose error is that of the outcome.\<close>

definition errorWritten :: "event list \<Rightarrow> outcome \<Rightarrow> bool" where
  "errorWritten es out \<longleftrightarrow> (\<exists>pre w resp. es = pre @ [(RStatusUpdate (OPlatform w), resp)] \<and> quiet pre \<and>
     dp_Phase w = PlatformPhaseError \<and> fst out \<in> {noRequeue, requeueAfter (30 * second)} \<and> snd out = errOf (decode1 thePlatform resp))"

lemma errorWritten_after: "quiet es \<Longrightarrow> errorWritten es' out \<Longrightarrow> errorWritten (es @ es') out"
  unfolding errorWritten_def by (metis append.assoc quiet_simps(2))

text \<open>A stage that ends the reconciliation has written such an error, or panicked before any status was written.\<close>

definition stageEnd :: "event list \<Rightarrow> outcome + progress \<Rightarrow> bool" where
  "stageEnd es res = (case res of Inl out \<Rightarrow> errorWritten es out \<or> quiet es \<and> (\<exists>e. out = (noRequeue, Some e) \<and> isPanic e) | Inr _ \<Rightarrow> quiet es)"

definition stageOk :: "'w stage \<Rightarrow> bool" where
  "stageOk m \<longleftrightarrow> (\<forall>pg. spec (m pg) stageEnd)"

lemma stageEnd_after: "quiet es \<Longrightarrow> stageEnd es' res \<Longrightarrow> stageEnd (es @ es') res"
  by (auto simp: stageEnd_def errorWritten_after split: sum.splits)

lemma stageOk_bind:
  assumes m: "spec m stageEnd" and f: "\<And>pg. spec (f pg) stageEnd"
  shows "spec (do { r \<leftarrow> m; case r of Inl out \<Rightarrow> return (Inl out) | Inr pg \<Rightarrow> f pg }) stageEnd"
proof (rule spec_bindI [OF m])
  fix es and r :: "outcome + progress" assume "stageEnd es r"
  then show "spec (case r of Inl out \<Rightarrow> return (Inl out) | Inr pg \<Rightarrow> f pg) (\<lambda>es'. stageEnd (es @ es'))"
    by (cases r) (auto simp: stageEnd_def [of _ "Inr _"] intro: spec_mono [OF f] stageEnd_after)
qed

lemma stageOk_runStages: "list_all stageOk ms \<Longrightarrow> stageOk (runStages ms)"
proof (induction ms)
  case (Cons m ms)
  then show ?case by (auto simp: stageOk_def intro: stageOk_bind)
qed (simp add: stageOk_def stageEnd_def)

lemma stageOk_stageIf: "list_all stageOk ms \<Longrightarrow> stageOk (stageIf P ms)"
  using stageOk_runStages [of ms] by (auto simp: stageOk_def stageIf_def stageEnd_def [of _ "Inr _"])

lemma spec_after_free:
  "only statusFree m \<Longrightarrow> (\<And>es x. quiet es \<Longrightarrow> spec (f x) (\<lambda>es'. R (es @ es'))) \<Longrightarrow> spec (State_Monad.bind m f) R"
  unfolding only_def quiet_def by (erule spec_bindI)

lemma stageOk_stepThen: "(\<And>p. only statusFree (f p)) \<Longrightarrow> stageOk (stepThen notes added f)"
  unfolding stageOk_def stepThen_def
  by (intro allI, rule spec_after_free, assumption) (auto simp: stageEnd_def Let_def split: option.split)

lemma stageOk_requeuing: "(\<And>p. only statusFree (f p)) \<Longrightarrow> stageOk (requeuing f)"
  unfolding stageOk_def requeuing_def
  by (intro allI, rule spec_after_free, assumption) (auto simp: stageEnd_def logged_def split: option.split if_splits)

lemma stageOk_failing:
  assumes f: "\<And>p. only statusFree (f p)" and result: "result \<in> {noRequeue, requeueAfter (30 * second)}"
  shows "stageOk (failing E result reason f)"
proof -
  have written: "spec (do {
        platform \<leftarrow> (case reason of None \<Rightarrow> return p | Some reason \<Rightarrow> setErrorCondition E p reason message);
        u \<leftarrow> StatusUpdate E OPlatform thePlatform platform;
        return (Inl (result, errOf u)) }) stageEnd" if "dp_Phase p = PlatformPhaseError" for p message
    using that result
    by (intro spec_bindI [where P = "\<lambda>es p. es = [] \<and> dp_Phase p = PlatformPhaseError"] spec_bind_StatusUpdate spec_returnI
        spec_case_option spec_mono [OF spec_setErrorCondition])
      (auto simp: stageEnd_def errorWritten_def)
  show ?thesis
    unfolding stageOk_def failing_def Let_def
  proof (intro allI, rule spec_after_free, rule f)
    fix pg es x assume es: "quiet es"
    show "spec (case x of (platform, err) \<Rightarrow> case err of None \<Rightarrow> return (Inr (pg\<lparr>pg_Platform := platform\<rparr>))
       | Some e \<Rightarrow> if isPanic e then return (Inl (noRequeue, Some e))
         else do {
           platform \<leftarrow> (case reason of None \<Rightarrow> return (dp_setPhase platform PlatformPhaseError)
             | Some reason \<Rightarrow> setErrorCondition E (dp_setPhase platform PlatformPhaseError) reason (err_text e));
           u \<leftarrow> StatusUpdate E OPlatform thePlatform platform;
           return (Inl (result, errOf u)) }) (\<lambda>es'. stageEnd (es @ es'))"
    proof (intro spec_case_prod spec_case_option spec_if)
      fix p err e assume "x = (p, err)" "err = Some e" "\<not> isPanic e"
      show "spec (do {
           platform \<leftarrow> (case reason of None \<Rightarrow> return (dp_setPhase p PlatformPhaseError)
             | Some reason \<Rightarrow> setErrorCondition E (dp_setPhase p PlatformPhaseError) reason (err_text e));
           u \<leftarrow> StatusUpdate E OPlatform thePlatform platform;
           return (Inl (result, errOf u)) }) (\<lambda>es'. stageEnd (es @ es'))"
        by (rule spec_mono [OF written]) (simp_all add: stageEnd_after es)
    qed (use es in \<open>auto simp: stageEnd_def\<close>)
  qed
qed

lemma stageOk_early: "list_all stageOk (earlyStages E r)"
  unfolding earlyStages_def reading_def
  by (simp, intro conjI stageOk_stageIf stageOk_failing stageOk_stepThen; (simp, intro conjI stageOk_failing)?; auto intro!: only_intros)

lemma free_keycloakSteps [only_intros]: "only statusFree (healthStep E platform)" "only statusFree (quayStep E' platform)"
  "only statusFree (withConnected f platform)" if "\<And>p c. only statusFree (f p c)"
  using that unfolding healthStep_def quayStep_def withConnected_def by (auto intro!: only_intros)

lemma stageOk_late: "list_all stageOk (keycloakStages E)" "list_all stageOk (signingStages E)" "stageOk (analyzerStage E)"
  "stageOk (airgappedStage E' r)" "stageOk (connectedStage E r)"
  unfolding keycloakStages_def signingStages_def analyzerStage_def airgappedStage_def connectedStage_def reading_def list.pred_inject
  by (intro conjI TrueI stageOk_stageIf stageOk_failing stageOk_stepThen stageOk_requeuing;
      (unfold list.pred_inject, intro conjI TrueI stageOk_stageIf stageOk_stepThen stageOk_requeuing)?;
      (unfold list.pred_inject, intro conjI TrueI stageOk_stepThen)?; auto intro!: only_intros free_keycloakSteps)+

text \<open>The first \<^verbatim>\<open>Ready\<close> condition says that the generation was reconciled.\<close>

definition readyNow :: "disconnectedPlatform \<Rightarrow> bool" where
  "readyNow p \<longleftrightarrow> (case find isReady (dp_Conditions p) of
     None \<Rightarrow> False | Some c \<Rightarrow> c_Status c = ''True'' \<and> c_ObservedGeneration c = dp_Generation p)"

definition readyEnd :: "event list \<Rightarrow> outcome + progress \<Rightarrow> bool" where
  "readyEnd es res \<longleftrightarrow> stageEnd es res \<and> (case res of Inl _ \<Rightarrow> True | Inr pg \<Rightarrow> readyNow (pg_Platform pg))"

lemma readyNow_set [simp]:
  "readyNow (dp_setConditions p (setCond ''True'' (\<lambda>g c. c_ObservedGeneration c = g) now (dp_Generation p) r m (dp_Conditions p)))"
  using success_setter.first [of now "dp_Generation p" r m "dp_Conditions p"] by (auto simp: readyNow_def split: option.splits)

lemma spec_summary: "spec (summaryStep E platform) (\<lambda>es (p, err). quiet es \<and> err = None \<and> readyNow p)"
  unfolding summaryStep_def
  by (intro spec_after_free free_history spec_bindI [OF spec_setReadyCondition]) auto

lemma readyEnd_after: "quiet es \<Longrightarrow> readyEnd es' res \<Longrightarrow> readyEnd (es @ es') res"
  by (simp add: readyEnd_def stageEnd_after)

lemma spec_runStages_snoc:
  assumes "list_all stageOk ms" and m: "\<And>pg. spec (m pg) readyEnd"
  shows "spec (runStages (ms @ [m]) pg) readyEnd"
  using assms(1)
proof (induction ms arbitrary: pg)
  case Nil
  have "spec (case r of Inl out \<Rightarrow> return (Inl out) | Inr pg \<Rightarrow> runStages [] pg) (\<lambda>es'. readyEnd (es @ es'))"
    if "readyEnd es r" for es r
    using that by (cases r) simp_all
  then show ?case by (simp del: runStages.simps(1)) (rule spec_bindI [OF m])
next
  case (Cons m' ms)
  then have first: "spec (m' pg) stageEnd" by (simp add: stageOk_def)
  have "spec (case r of Inl out \<Rightarrow> return (Inl out) | Inr pg \<Rightarrow> runStages (ms @ [m]) pg) (\<lambda>es'. readyEnd (es @ es'))"
    if "stageEnd es r" for es r
  proof (cases r)
    case (Inr pg')
    have "quiet es" using that by (simp add: Inr stageEnd_def)
    moreover have "spec (runStages (ms @ [m]) pg') readyEnd" by (rule Cons.IH) (use Cons.prems in simp)
    ultimately show ?thesis by (simp add: Inr) (erule spec_mono, rule readyEnd_after)
  qed (use that in \<open>simp add: readyEnd_def\<close>)
  then show ?case by simp (rule spec_bindI [OF first])
qed

lemma spec_stages: "spec (reconcileStages E r pg) readyEnd"
proof -
  have summary: "spec (stepThen False [] (summaryStep E) pg) readyEnd" for pg
    unfolding stepThen_def Let_def
    by (rule spec_bindI [OF spec_summary])
      (auto simp: readyEnd_def stageEnd_def onPlatform_def appendComponents_def readyNow_def split: prod.splits)
  have early: "spec (runStages (earlyStages E r) pg) stageEnd"
    using stageOk_runStages [OF stageOk_early [of E r]] by (simp add: stageOk_def)
  have late: "spec (runStages (lateStages E r b c) pg) readyEnd" for b c pg
  proof -
    let ?ms = "(if b then keycloakStages E else []) @ (if c then signingStages E else []) @
        [analyzerStage E, airgappedStage E r, connectedStage E r]"
    have "lateStages E r b c = ?ms @ [stepThen False [] (summaryStep E)]" by (simp add: lateStages_def)
    moreover have "list_all stageOk ?ms" by (simp add: stageOk_late)
    ultimately show ?thesis by (simp only:) (rule spec_runStages_snoc [OF _ summary])
  qed
  show ?thesis
    unfolding reconcileStages_def
  proof (rule spec_bindI [OF early])
    fix es res assume res: "stageEnd es res"
    show "spec (case res of Inl out \<Rightarrow> return (Inl out) | Inr pg \<Rightarrow> runStages (lateStages E r
        (componentSucceeded ''rhbk-operator'' (pg_Platform pg)) (componentSucceeded ''trusted-artifact-signer'' (pg_Platform pg))) pg)
      (\<lambda>es'. readyEnd (es @ es'))"
    proof (cases res)
      case (Inr pg')
      have "quiet es" using res by (simp add: Inr stageEnd_def)
      with Inr show ?thesis by (auto intro: spec_mono [OF late] readyEnd_after)
    qed (use res in \<open>simp add: readyEnd_def\<close>)
  qed
qed

section \<open>The reconciliation\<close>

text \<open>What a reconciliation ends with where it wrote the status: the status of an error, whose outcome is the error of the write, or that of a
  platform whose \<^verbatim>\<open>Ready\<close> condition holds for its generation, where a conflict is no error.\<close>

definition statusSettled :: "disconnectedPlatform \<Rightarrow> response \<Rightarrow> goerr option \<Rightarrow> bool" where
  "statusSettled w resp err \<longleftrightarrow>
     (case decode1 thePlatform resp of
        Inr _ \<Rightarrow> err = None \<and> (dp_Phase w = PlatformPhaseError \<or> readyNow w)
      | Inl e \<Rightarrow> err = Some e \<and> dp_Phase w = PlatformPhaseError \<or>
          err = (if isConflict e then None else Some e) \<and> readyNow w)"

definition writesStatusLast :: "event list \<Rightarrow> outcome \<Rightarrow> bool" where
  "writesStatusLast es out \<longleftrightarrow>
     quiet es \<or> (\<exists>pre w resp. es = pre @ [(RStatusUpdate (OPlatform w), resp)] \<and> quiet pre \<and> statusSettled w resp (snd out))"

lemma writesStatusLast_after: "quiet es \<Longrightarrow> writesStatusLast es' out \<Longrightarrow> writesStatusLast (es @ es') out"
  unfolding writesStatusLast_def by (metis append.assoc quiet_simps(2))

lemma errorWritten_last: "errorWritten es out \<Longrightarrow> writesStatusLast es out"
  by (fastforce simp: errorWritten_def writesStatusLast_def statusSettled_def split: sum.splits)

lemma quiet_last: "quiet es \<Longrightarrow> writesStatusLast es out"
  by (simp add: writesStatusLast_def)

lemma spec_finishPlatform: "readyNow (pg_Platform pg) \<Longrightarrow> spec (finishPlatform E st pg) writesStatusLast"
  unfolding finishPlatform_def
  by (intro spec_if spec_returnI spec_bind_StatusUpdate) (auto simp: writesStatusLast_def statusSettled_def quiet_def split: sum.splits)

lemma free_cleanup [only_intros]: "only statusFree (DisconnectedPlatform_cleanup E platform)"
  unfolding DisconnectedPlatform_cleanup_def deleteManagedKeycloak_def deleteRHTASConfig_def deleteRHTPAConfig_def Let_def
  by (auto intro!: only_intros)

text \<open>C5. A reconciliation of the platform writes its status at most once, as its last request: the status of an error, or one whose
  \<^verbatim>\<open>Ready\<close> condition holds for the generation that was read; its error is the error of that write, unless the write of the
  latter was in conflict with another one.\<close>

theorem platform_status_last: "spec (DisconnectedPlatform_Reconcile E r req) writesStatusLast"
proof -
  have ends: "spec (case res of Inl out \<Rightarrow> return out | Inr pg \<Rightarrow> finishPlatform E st pg) (\<lambda>es'. writesStatusLast (es @ es'))"
    if "readyEnd es res" for es st and res :: "outcome + progress"
  proof (cases res)
    case (Inl out)
    then show ?thesis using that by (auto simp: readyEnd_def stageEnd_def intro: errorWritten_last quiet_last)
  next
    case (Inr pg)
    then show ?thesis using that
      by (auto simp: readyEnd_def stageEnd_def intro: spec_mono [OF spec_finishPlatform] writesStatusLast_after)
  qed
  have get: "writesStatusLast es out \<Longrightarrow> writesStatusLast ((RGet k nn, resp) # es) out" for es out k nn resp
    using writesStatusLast_after [of "[(RGet k nn, resp)]" es out] by (simp add: quiet_def)
  show ?thesis
    unfolding DisconnectedPlatform_Reconcile_def Let_def
    by (rule spec_bind_Get, rule spec_mono [where R = writesStatusLast, OF _ get],
        intro spec_case_sum spec_if spec_returnI spec_bind_Update spec_bindI [OF spec_stages] only_spec [OF free_cleanup] ends)
      (auto simp: writesStatusLast_def quiet_def)
qed

section \<open>The end of a platform\<close>

definition deletesOnly :: "event list \<Rightarrow> bool" where
  "deletesOnly es \<longleftrightarrow> list_all (\<lambda>e. isRead (fst e) \<or> (\<exists>k nn. fst e = RDelete k nn)) es"

text \<open>Each object was asked to be deleted, whatever the answers were.\<close>

definition attempted :: "(kind \<times> nsname) list \<Rightarrow> event list \<Rightarrow> bool" where
  "attempted os es \<longleftrightarrow> list_all (\<lambda>(k, nn). RDelete k nn \<in> fst ` set es) os"

lemma spec_deleteObjects: "spec (deleteObjects E os) (\<lambda>es _. deletesOnly es \<and> attempted os es)"
proof (induction os)
  case (Cons o' os)
  then show ?case
    by (cases o') (auto simp: deletesOnly_def attempted_def list_all_iff intro!: spec_bind_Delete elim!: spec_mono)
qed (simp add: deletesOnly_def attempted_def)

lemma deletesOnly_append: "deletesOnly (es @ es') \<longleftrightarrow> deletesOnly es \<and> deletesOnly es'"
  by (auto simp: deletesOnly_def)

lemma attempted_Cons: "attempted (x # os) es \<longleftrightarrow> attempted [x] es \<and> attempted os es"
  by (auto simp: attempted_def)

lemma attempted_append: "attempted os es \<Longrightarrow> attempted os (es @ es')" "attempted os es' \<Longrightarrow> attempted os (es @ es')"
  "attempted (os @ os') es \<longleftrightarrow> attempted os es \<and> attempted os' es"
  by (auto simp: attempted_def list_all_iff) (fastforce simp: list_all_iff)+

lemma spec_deleteArchitect: "spec (deleteArchitectResources E p) (\<lambda>es err. deletesOnly es \<and> err = None)"
proof -
  have "spec (deleteArchitectResources E p) (\<lambda>_ err. err = None)"
    unfolding deleteArchitectResources_def by (intro spec_bind_value spec_returnI only_intros refl)
  from spec_conj [OF this only_deletions [unfolded only_def]] show ?thesis by (simp add: deletesOnly_def)
qed

definition platformResources :: "(kind \<times> nsname) list" where
  "platformResources = keycloakResources @ rhtasResources @ [(KUnstr tpaGVK, (architectNamespace, tpaName))] @ acmResources"

text \<open>C19. A platform that is deleted is released last: with the finalizer, the controller reads and deletes only, tries to delete Keycloak, the
  signing service, the analyzer and the hub whatever the server answers, and then removes exactly its finalizer; without the finalizer it
  does nothing.\<close>

theorem platform_released_last:
  "spec (DisconnectedPlatform_cleanup E p) (\<lambda>es out.
     if containsString (m_Finalizers (dp_ObjectMeta p)) platformFinalizer
     then \<exists>pre resp. es = pre @ [(RUpdate (OPlatform (dp_setFinalizers p (removeString (m_Finalizers (dp_ObjectMeta p)) platformFinalizer))), resp)] \<and>
       deletesOnly pre \<and> attempted platformResources pre \<and> out = (noRequeue, errOf (decode1 thePlatform resp))
     else es = [] \<and> out = (noRequeue, None))"
  unfolding DisconnectedPlatform_cleanup_def Let_def deleteManagedKeycloak_def deleteRHTASConfig_def deleteRHTPAConfig_def deleteAirgappedACM_def
  by (intro spec_if spec_returnI spec_bindI [OF spec_deleteArchitect] spec_case_option spec_bindI [OF spec_deleteObjects] spec_bind_Update)
    (auto simp: finish_def deletesOnly_append attempted_append attempted_Cons [of _ acmResources] platformResources_def)

end
