(* ===== verification/SigningGate.thy ===== *)
theory SigningGate
  imports StatusWrites Collection
begin

text \<open>
  Two controllers meet at the keyless signing of a collection: the controller of the pipelines does not start a run before its pipeline names the
  signing services (\<^verbatim>\<open>collectionpipeline_controller.go\<close>), the controller of the platform writes them into every pipeline
  (\<^verbatim>\<open>configureCollectionPipelineSigning\<close>). They agree where the managed Keycloak is enabled, and do not where it is declared but disabled.
\<close>

section \<open>Pipelines that are written\<close>

fun pipelineUpdate :: "event \<Rightarrow> collectionPipeline option" where
  "pipelineUpdate (RUpdate (OPipeline p), r) = Some p"
| "pipelineUpdate _ = None"

definition pipelineUpdates :: "event list \<Rightarrow> collectionPipeline list" where
  "pipelineUpdates es = List.map_filter pipelineUpdate es"

lemma pipelineUpdates_simps [simp]:
  "pipelineUpdates [] = []" "pipelineUpdates ((RUpdate (OPipeline p), r) # es) = p # pipelineUpdates es"
  "pipelineUpdates ((RGet k nn, r) # es) = pipelineUpdates es" "pipelineUpdates ((RList k lo, r) # es) = pipelineUpdates es"
  "pipelineUpdates (es @ es') = pipelineUpdates es @ pipelineUpdates es'"
  by (simp_all add: pipelineUpdates_def map_filter_def)

definition noPipelineUpdate :: "request \<Rightarrow> bool" where
  "noPipelineUpdate q \<longleftrightarrow> (case q of RUpdate x \<Rightarrow> thePipeline x = None | _ \<Rightarrow> True)"

lemma noPipelineUpdate_simps [simp]:
  "noPipelineUpdate (RGet k nn)" "noPipelineUpdate (RList k lo)" "noPipelineUpdate (RCreate x)" "noPipelineUpdate (RUpdate (OSecret s))"
  "noPipelineUpdate (RUpdate (OUnstr u))" "noPipelineUpdate (RDelete k nn)"
  by (simp_all add: noPipelineUpdate_def)

lemma no_updates: "list_all (\<lambda>e. noPipelineUpdate (fst e)) es \<Longrightarrow> pipelineUpdates es = []"
proof (induction es)
  case (Cons e es)
  then show ?case
    by (cases e; cases "fst e"; cases "pipelineUpdate e")
      (auto simp: pipelineUpdates_def map_filter_def noPipelineUpdate_def elim!: pipelineUpdate.elims)
qed simp

lemma only_keycloak [only_intros]:
  "only noPipelineUpdate (updateKeycloakClientSecret E h c realm)" "only noPipelineUpdate (configureKeycloakEmailMapper E h c realm)"
  unfolding updateKeycloakClientSecret_def configureKeycloakEmailMapper_def adminSecret_def storeClientSecret_def Let_def
  by (auto intro!: only_intros)

lemma spec_signPipelines:
  "spec (signPipelines E keyless ps) (\<lambda>es err. err = None \<and> pipelineUpdates es = map (signPipeline keyless) ps)"
  by (induction ps) (auto intro!: spec_bind_Update elim!: spec_mono)

lemma signed_passes: "\<not> waitForSigning (signPipeline keyless p) platform"
  by (auto simp: waitForSigning_def signPipeline_def split: sum.split option.split)

text \<open>The pipelines as they were listed.\<close>

definition listedPipelines :: "event list \<Rightarrow> collectionPipeline list \<Rightarrow> bool" where
  "listedPipelines es ps \<longleftrightarrow> (RList KPipeline allObjects, Inr (map OPipeline ps)) \<in> set es"

lemma decodeAll_pipelines: "decodeAll thePipeline r = Inr ps \<Longrightarrow> r = Inr (map OPipeline ps)"
proof (cases r)
  case (Inr xs)
  assume "decodeAll thePipeline r = Inr ps"
  with Inr have "those (map thePipeline xs) = Some ps" by (auto split: option.splits)
  then have "xs = map OPipeline ps"
    by (induction xs arbitrary: ps) (auto split: option.splits simp: map_option_case)
  with Inr show ?thesis by simp
qed simp

text \<open>The outcome of the signing: without an error all pipelines that were listed are written with one configuration that names the service,
  otherwise none is.\<close>

definition allSigned :: "event list \<Rightarrow> goerr option \<Rightarrow> bool" where
  "allSigned es err \<longleftrightarrow>
     (case err of
        Some _ \<Rightarrow> pipelineUpdates es = []
      | None \<Rightarrow> \<exists>ps keyless. listedPipelines es ps \<and> pipelineUpdates es = map (signPipeline keyless) ps \<and>
          ksc_FulcioURL keyless \<noteq> [] \<and> ksc_RekorURL keyless \<noteq> [] \<and> ksc_TUFURL keyless \<noteq> [])"

lemma allSignedI:
  "listedPipelines es ps \<Longrightarrow> pipelineUpdates es = map (signPipeline keyless) ps \<Longrightarrow>
   ksc_FulcioURL keyless \<noteq> [] \<Longrightarrow> ksc_RekorURL keyless \<noteq> [] \<Longrightarrow> ksc_TUFURL keyless \<noteq> [] \<Longrightarrow> allSigned es None"
  by (auto simp: allSigned_def)

lemma allSigned_after: "pipelineUpdates es = [] \<Longrightarrow> allSigned es' err \<Longrightarrow> allSigned (es @ es') err"
  by (auto simp: allSigned_def listedPipelines_def split: option.splits)

lemma allSigned_error: "pipelineUpdates es = [] \<Longrightarrow> allSigned es (Some e)"
  by (simp add: allSigned_def)

lemma spec_thenE_free:
  assumes "spec m (\<lambda>es x. pipelineUpdates es = [] \<and> (case x of Inl _ \<Rightarrow> True | Inr x \<Rightarrow> P x))"
    and "\<And>x. P x \<Longrightarrow> spec (f x) allSigned"
  shows "spec (thenE m f) allSigned"
  unfolding thenE_def
  by (rule spec_bindI [OF assms(1)], rule spec_case_sum)
    (auto intro: allSigned_error allSigned_after spec_mono [OF assms(2)])

lemma spec_untilError_free:
  assumes "only noPipelineUpdate m" "spec (untilError ms) allSigned"
  shows "spec (untilError (m # ms)) allSigned"
  unfolding untilError.simps
proof (rule spec_bindI [OF assms(1) [unfolded only_def]])
  fix es :: "event list" and err :: "goerr option" assume "list_all (\<lambda>e. noPipelineUpdate (fst e)) es"
  then have "pipelineUpdates es = []" by (rule no_updates)
  then show "spec (case err of Some err \<Rightarrow> return (Some err) | None \<Rightarrow> untilError ms) (\<lambda>es'. allSigned (es @ es'))"
    by (cases err) (auto intro: allSigned_error allSigned_after spec_mono [OF assms(2)])
qed

lemma spec_signingURLs:
  "spec (signingURLs E) (\<lambda>es x. pipelineUpdates es = [] \<and> (case x of Inl _ \<Rightarrow> True | Inr (f, r, t) \<Rightarrow> f \<noteq> [] \<and> r \<noteq> [] \<and> t \<noteq> []))"
  unfolding signingURLs_def by (intro spec_intros) (auto simp: Let_def orElse_def split: sum.splits prod.splits)

lemma spec_keycloakHostname: "spec (keycloakHostname E) (\<lambda>es x. pipelineUpdates es = [] \<and> (case x of Inl _ \<Rightarrow> True | Inr h \<Rightarrow> True))"
  unfolding keycloakHostname_def by (intro spec_intros) (auto split: sum.splits)

text \<open>C6. Where the managed Keycloak is enabled, the signing configuration reaches every pipeline: without an error, every pipeline that was
  listed is written with the same addresses of the three services, none of them empty, and changed in nothing else, and with an error none
  is written; where it is not, nothing is requested. A pipeline that was written is not held back by its own controller any more,
  whatever platform that finds.\<close>

theorem signing_gate_opens:
  "spec (configureCollectionPipelineSigning E platform) (\<lambda>es err.
     case dps_Connected (dp_Spec platform) \<bind> wantedKeycloak of
       None \<Rightarrow> es = []
     | Some _ \<Rightarrow> allSigned es err \<and> list_all (\<lambda>p. \<not> waitForSigning p found) (pipelineUpdates es))"
proof -
  have passes: "list_all (\<lambda>p. \<not> waitForSigning p found) (pipelineUpdates es)" if "allSigned es err" for es err
    using that by (auto simp: allSigned_def signed_passes list_all_iff split: option.splits)
  have update: "spec (do {
        pipelines \<leftarrow> ListObjs E KPipeline thePipeline allObjects;
        case pipelines of
          Inl err \<Rightarrow> return (Some (wrap ''failed to list CollectionPipelines'' err))
        | Inr pipelines \<Rightarrow> signPipelines E keyless pipelines }) allSigned"
    if "ksc_FulcioURL keyless \<noteq> []" "ksc_RekorURL keyless \<noteq> []" "ksc_TUFURL keyless \<noteq> []" for keyless
    by (intro spec_bind_ListObjs spec_case_sum spec_returnI spec_mono [OF spec_signPipelines])
      (auto simp: listedPipelines_def that dest!: decodeAll_pipelines intro!: allSignedI allSigned_error)
  have last: "spec m allSigned \<Longrightarrow> spec (untilError [m]) allSigned" for m
    by (simp, rule spec_bindI, assumption) (auto split: option.splits)
  have signed: "spec (configureCollectionPipelineSigning E platform) allSigned"
    if "(dps_Connected (dp_Spec platform) \<bind> wantedKeycloak) \<noteq> None"
    using that unfolding configureCollectionPipelineSigning_def
    by (intro spec_case_option spec_thenE_free [OF spec_signingURLs] spec_case_prod spec_thenE_free [OF spec_keycloakHostname]
        spec_untilError_free last update)
      (auto simp: keylessSigning_def intro!: only_intros)
  have idle: "spec (configureCollectionPipelineSigning E platform) (\<lambda>es err. es = [])"
    if "(dps_Connected (dp_Spec platform) \<bind> wantedKeycloak) = None"
    using that unfolding configureCollectionPipelineSigning_def by (auto split: option.split bind_splits)
  show ?thesis
    using signed idle by (cases "dps_Connected (dp_Spec platform) \<bind> wantedKeycloak") (auto intro: spec_mono passes)
qed

section \<open>A managed Keycloak that is disabled\<close>

definition disabledSigning :: "disconnectedPlatform \<Rightarrow> bool" where
  "disabledSigning platform \<longleftrightarrow> managedSigning platform \<and> (dps_Connected (dp_Spec platform) \<bind> wantedKeycloak) = None"

lemma disabledSigning_iff:
  "disabledSigning platform \<longleftrightarrow>
     (\<exists>con t o' m. dps_Connected (dp_Spec platform) = Some con \<and> con_RHTAS con = Some t \<and> tas_OIDC t = Some o' \<and>
        tasoidc_Managed o' = Some m \<and> \<not> mkc_Enabled m)"
  by (auto simp: disabledSigning_def managedSigning_def connectedOf_def wantedKeycloak_def split: bind_splits option.splits)


definition disabledPlatform :: disconnectedPlatform where
  "disabledPlatform = samplePlatform (Some (sampleConnected\<lparr>con_RHTAS := Some
     \<lparr>tas_OIDC = Some \<lparr>tasoidc_Issuer = ''https://sso.example.com'', tasoidc_ClientID = [], tasoidc_ClientSecret = [], tasoidc_Type = [],
        tasoidc_Managed = Some \<lparr>mkc_Enabled = False, mkc_Realm = [], mkc_AdminUser = [], mkc_AdminPassword = [], mkc_TLSSecret = None\<rparr>\<rparr>,
      tas_Database = None, tas_TrustedRootKeys = None\<rparr>\<rparr>)) []"


end
