(* ===== verification/Startup.thy ===== *)
theory Startup
  imports Airgapped PlatformStatus
begin

text \<open>
  The manager process (\<^verbatim>\<open>cmd/main.go\<close>): its flags, the registration of the five controllers with what each of them watches
  (\<^verbatim>\<open>SetupWithManager\<close>), and the watchers that register a controller later, when the resources it works on appear. What the process
  asks of controller-runtime and of the discovery client is an \<open>action\<close>; a function answers each of them with an error or none.
\<close>

section \<open>Flags\<close>

record flags =
  fl_metricsAddr :: string
  fl_probeAddr :: string
  fl_enableLeaderElection :: bool
  fl_secureMetrics :: bool
  fl_enableHTTP2 :: bool
  fl_mirrorImage :: string
  fl_architectFrontendImage :: string
  fl_architectBackendImage :: string
  fl_architectConsolePluginImage :: string
  fl_skopeoImage :: string
  fl_ubi9Image :: string
  fl_ubi9MinimalImage :: string

text \<open>The values of the flags that the command line does not give.\<close>

definition flagDefaults :: "('w, 'x) env_scheme \<Rightarrow> flags" where
  "flagDefaults E =
     \<lparr>fl_metricsAddr = ''0'', fl_probeAddr = '':8081'', fl_enableLeaderElection = False, fl_secureMetrics = True, fl_enableHTTP2 = False,
      fl_mirrorImage = envOrDefault E ''RELATED_IMAGE_OC_MIRROR'' ''quay.io/mathianasj/oc-mirror:v2'',
      fl_architectFrontendImage =
        envOrDefault E ''RELATED_IMAGE_ARCHITECT_FRONTEND'' ''quay.io/mathianasj/openshift-airgap-architect-frontend:latest'',
      fl_architectBackendImage =
        envOrDefault E ''RELATED_IMAGE_ARCHITECT_BACKEND'' ''quay.io/mathianasj/openshift-airgap-architect-backend:latest'',
      fl_architectConsolePluginImage =
        envOrDefault E ''RELATED_IMAGE_ARCHITECT_CONSOLE_PLUGIN'' ''quay.io/mathianasj/openshift-airgap-architect-console-plugin:latest'',
      fl_skopeoImage = envOrDefault E ''RELATED_IMAGE_SKOPEO'' ''quay.io/skopeo/stable:v1.22.2-immutable'',
      fl_ubi9Image = envOrDefault E ''RELATED_IMAGE_UBI9'' ''registry.access.redhat.com/ubi9/ubi:latest'',
      fl_ubi9MinimalImage = envOrDefault E ''RELATED_IMAGE_UBI9_MINIMAL'' ''registry.access.redhat.com/ubi9/ubi-minimal:latest''\<rparr>"

section \<open>Options of the manager\<close>

record tlsConfig =
  tls_NextProtos :: "string list"

record managerOptions =
  mo_WebhookTLSOpts :: "(tlsConfig \<Rightarrow> tlsConfig) list"
  mo_MetricsAddr :: string
  mo_SecureServing :: bool
  mo_MetricsTLSOpts :: "(tlsConfig \<Rightarrow> tlsConfig) list"
  mo_Authenticated :: bool
  mo_ProbeAddr :: string
  mo_LeaderElection :: bool
  mo_LeaderElectionID :: string
  mo_CacheNamespaces :: "(gvk \<times> string list) list"

definition disableHTTP2 :: "tlsConfig \<Rightarrow> tlsConfig" where
  "disableHTTP2 c = c\<lparr>tls_NextProtos := [''http/1.1'']\<rparr>"

definition tlsOpts :: "flags \<Rightarrow> (tlsConfig \<Rightarrow> tlsConfig) list" where
  "tlsOpts fl = (if \<not> fl_enableHTTP2 fl then [disableHTTP2] else [])"

definition taskRunGVK :: gvk where
  "taskRunGVK = \<lparr>g_Group = ''tekton.dev'', g_Version = ''v1'', g_Kind = ''TaskRun''\<rparr>"

text \<open>Task runs are cached for the namespace of the operator only, where the resource exists.\<close>

definition cacheOpts :: "bool \<Rightarrow> (gvk \<times> string list) list" where
  "cacheOpts tektonAvailable = (if tektonAvailable then [(taskRunGVK, [''mirror-operator-system''])] else [])"

definition managerOptionsOf :: "flags \<Rightarrow> bool \<Rightarrow> managerOptions" where
  "managerOptionsOf fl tektonAvailable =
     \<lparr>mo_WebhookTLSOpts = tlsOpts fl, mo_MetricsAddr = fl_metricsAddr fl, mo_SecureServing = fl_secureMetrics fl,
      mo_MetricsTLSOpts = tlsOpts fl, mo_Authenticated = fl_secureMetrics fl, mo_ProbeAddr = fl_probeAddr fl,
      mo_LeaderElection = fl_enableLeaderElection fl, mo_LeaderElectionID = ''5ac9daef.mirror.mathianasj.github.com'',
      mo_CacheNamespaces = cacheOpts tektonAvailable\<rparr>"

section \<open>Controllers and what they watch\<close>

datatype watchHandler = SecretEventHandler | CollectionPipelineEventHandler | NodeEventHandler | TaskRunEventHandler

record controllerBuilder =
  b_For :: kind
  b_Owns :: "kind list"
  b_Watches :: "(kind \<times> watchHandler) list"

definition DisconnectedPlatform_SetupWithManager :: "platformReconciler \<Rightarrow> controllerBuilder" where
  "DisconnectedPlatform_SetupWithManager r =
     \<lparr>b_For = KPlatform,
      b_Owns = [KUnstr deploymentGVK, KUnstr serviceGVK, KUnstr routeGVK] @
        (if dpr_TektonAvailable r then [KUnstr tektonPipelineGVK] else []),
      b_Watches = (if dpr_TektonAvailable r then [(KUnstr taskRunGVK, TaskRunEventHandler)] else []) @
        [(KSecret, SecretEventHandler), (KPipeline, CollectionPipelineEventHandler), (KNode, NodeEventHandler)]\<rparr>"

definition CollectionPipeline_SetupWithManager :: controllerBuilder where
  "CollectionPipeline_SetupWithManager = \<lparr>b_For = KPipeline, b_Owns = [KPipelineRun, KJob], b_Watches = []\<rparr>"

definition MirrorImport_SetupWithManager :: controllerBuilder where
  "MirrorImport_SetupWithManager = \<lparr>b_For = KImport, b_Owns = [KPipelineRun], b_Watches = []\<rparr>"

definition ClusterBootstrap_SetupWithManager :: controllerBuilder where
  "ClusterBootstrap_SetupWithManager = \<lparr>b_For = KBootstrap, b_Owns = [], b_Watches = []\<rparr>"

definition RHTASHealthCheck_SetupWithManager :: controllerBuilder where
  "RHTASHealthCheck_SetupWithManager = \<lparr>b_For = KUnstr securesignGVK, b_Owns = [], b_Watches = []\<rparr>"

text \<open>The reconcilers with the fields that the process gives them beside the client.\<close>

datatype reconciler =
    PlatformReconciler platformReconciler
  | CollectionReconciler string
  | ImportReconciler string
  | BootstrapReconciler
  | HealthReconciler

fun SetupWithManager :: "reconciler \<Rightarrow> controllerBuilder" where
  "SetupWithManager (PlatformReconciler r) = DisconnectedPlatform_SetupWithManager r"
| "SetupWithManager (CollectionReconciler _) = CollectionPipeline_SetupWithManager"
| "SetupWithManager (ImportReconciler _) = MirrorImport_SetupWithManager"
| "SetupWithManager BootstrapReconciler = ClusterBootstrap_SetupWithManager"
| "SetupWithManager HealthReconciler = RHTASHealthCheck_SetupWithManager"

definition platformReconcilerOf :: "flags \<Rightarrow> bool \<Rightarrow> platformReconciler" where
  "platformReconcilerOf fl tektonAvailable =
     \<lparr>dpr_MirrorImage = fl_mirrorImage fl, dpr_ArchitectFrontendImage = fl_architectFrontendImage fl,
      dpr_ArchitectBackendImage = fl_architectBackendImage fl, dpr_ArchitectConsolePluginImage = fl_architectConsolePluginImage fl,
      dpr_SkopeoImage = fl_skopeoImage fl, dpr_UBI9Image = fl_ubi9Image fl, dpr_UBI9MinimalImage = fl_ubi9MinimalImage fl,
      dpr_ExecClients = True, dpr_TektonAvailable = tektonAvailable\<rparr>"

text \<open>The methods of the handlers, by event; those without a body queue nothing.\<close>

datatype watchEvent = Created kobj | Updated kobj kobj | Deleted kobj | Generic kobj

fun handleEvent :: "('w, 'x) env_scheme \<Rightarrow> watchHandler \<Rightarrow> watchEvent \<Rightarrow> ('w, nsname list) go" where
  "handleEvent E SecretEventHandler (Updated objectOld objectNew) = handleSecret E objectNew"
| "handleEvent E CollectionPipelineEventHandler (Created object) = triggerPlatformReconcile E"
| "handleEvent E CollectionPipelineEventHandler (Updated objectOld objectNew) = collectionPipeline_Update E objectOld objectNew"
| "handleEvent E CollectionPipelineEventHandler (Deleted object) = triggerPlatformReconcile E"
| "handleEvent E NodeEventHandler (Updated objectOld objectNew) = node_Update E objectOld objectNew"
| "handleEvent E NodeEventHandler (Deleted object) = node_Delete E object"
| "handleEvent E TaskRunEventHandler (Updated objectOld objectNew) = do { handleTaskRun E objectOld objectNew; return [] }"
| "handleEvent E _ _ = return []"

definition handlerRequest :: "watchHandler \<Rightarrow> request \<Rightarrow> bool" where
  "handlerRequest h q = (case q of RList _ _ \<Rightarrow> True | RDelete KPod _ \<Rightarrow> h = TaskRunEventHandler | _ \<Rightarrow> False)"

lemma handlerRequest_simps [simp]: "handlerRequest h (RList k lo)" "handlerRequest TaskRunEventHandler (RDelete KPod nn)"
  by (simp_all add: handlerRequest_def)

lemma only_deletePods [only_intros]: "only (handlerRequest TaskRunEventHandler) (deletePods E ps)"
  by (induction ps) (auto intro!: only_intros)

text \<open>Whatever happens to a watched object, its handler writes nothing but, for a task run, deletions of pods.\<close>

lemma handlers_only_list: "only (handlerRequest h) (handleEvent E h ev)"
  by (cases h; cases ev)
    (auto simp: handleSecret_def triggerPlatformReconcile_def collectionPipeline_Update_def node_Update_def node_Delete_def handleTaskRun_def
      intro!: only_intros split: option.split prod.split)

section \<open>The process\<close>

datatype action =
    LoadConfig
  | NewClientSet
  | Discover string
  | NewManager managerOptions
  | Register reconciler controllerBuilder
  | AddWatcher string reconciler
  | AddHealthzCheck
  | AddReadyzCheck
  | StartManager

type_synonym 'w machine = "action \<Rightarrow> 'w \<Rightarrow> goerr option \<times> 'w"

record 'w boot =
  bt_World :: 'w
  bt_Actions :: "(action \<times> goerr option) list"

definition perform :: "'w machine \<Rightarrow> action \<Rightarrow> ('w boot, goerr option) state" where
  "perform M a = State (\<lambda>s. let (e, w) = M a (bt_World s) in (e, \<lparr>bt_World = w, bt_Actions = bt_Actions s @ [(a, e)]\<rparr>))"

definition isAPIGroupAvailable :: "'w machine \<Rightarrow> string \<Rightarrow> ('w boot, bool) state" where
  "isAPIGroupAvailable M groupVersion = do { err \<leftarrow> perform M (Discover groupVersion); State_Monad.return (err = None) }"

definition setupController :: "'w machine \<Rightarrow> reconciler \<Rightarrow> ('w boot, goerr option) state" where
  "setupController M rc = perform M (Register rc (SetupWithManager rc))"

definition registerWhenCRDAvailable :: "'w machine \<Rightarrow> string \<Rightarrow> reconciler \<Rightarrow> ('w boot, goerr option) state" where
  "registerWhenCRDAvailable M apiGroup rc = perform M (AddWatcher apiGroup rc)"

definition setupOrWait :: "'w machine \<Rightarrow> bool \<Rightarrow> string \<Rightarrow> reconciler \<Rightarrow> ('w boot, goerr option) state" where
  "setupOrWait M available apiGroup rc = (if available then setupController M rc else registerWhenCRDAvailable M apiGroup rc)"

text \<open>The process exits with code 1 at the first error.\<close>

definition orExit :: "('w boot, goerr option) state \<Rightarrow> ('w boot, nat option) state \<Rightarrow> ('w boot, nat option) state" where
  "orExit m k = do { err \<leftarrow> m; case err of Some _ \<Rightarrow> State_Monad.return (Some 1) | None \<Rightarrow> k }"

definition tektonGroup :: string where "tektonGroup = ''tekton.dev/v1''"

definition rhtasGroup :: string where "rhtasGroup = ''rhtas.redhat.com/v1alpha1''"

definition main :: "'w machine \<Rightarrow> flags \<Rightarrow> ('w boot, nat option) state" where
  "main M fl =
     orExit (perform M LoadConfig) (
     orExit (perform M NewClientSet) (do {
       tektonAvailable \<leftarrow> isAPIGroupAvailable M tektonGroup;
       securesignAvailable \<leftarrow> isAPIGroupAvailable M rhtasGroup;
       orExit (perform M (NewManager (managerOptionsOf fl tektonAvailable))) (
       orExit (setupController M (PlatformReconciler (platformReconcilerOf fl tektonAvailable))) (
       orExit (setupOrWait M tektonAvailable tektonGroup (CollectionReconciler (fl_mirrorImage fl))) (
       orExit (setupOrWait M tektonAvailable tektonGroup (ImportReconciler (fl_mirrorImage fl))) (
       orExit (setupController M BootstrapReconciler) (
       orExit (setupOrWait M securesignAvailable rhtasGroup HealthReconciler) (
       orExit (perform M AddHealthzCheck) (
       orExit (perform M AddReadyzCheck) (
       orExit (perform M StartManager) (State_Monad.return None))))))))) }))"

section \<open>Watchers\<close>

text \<open>A watcher is woken by its ticker or by the end of the process; where both are ready the runtime chooses, which the list of events fixes.\<close>

datatype wakeUp = Tick | Done

datatype watcherState = Waiting | Registered | Stopped

fun watcherLoop :: "'w machine \<Rightarrow> string \<Rightarrow> reconciler \<Rightarrow> wakeUp list \<Rightarrow> ('w boot, watcherState) state" where
  "watcherLoop M apiGroup rc [] = State_Monad.return Waiting"
| "watcherLoop M apiGroup rc (Done # _) = State_Monad.return Stopped"
| "watcherLoop M apiGroup rc (Tick # ws) = do {
     available \<leftarrow> isAPIGroupAvailable M apiGroup;
     if available then do {
       err \<leftarrow> setupController M rc;
       case err of
         Some _ \<Rightarrow> watcherLoop M apiGroup rc ws
       | None \<Rightarrow> State_Monad.return Registered }
     else watcherLoop M apiGroup rc ws }"

section \<open>Runs of the process\<close>

text \<open>Every run of \<open>m\<close> appends actions \<open>as'\<close> and returns \<open>x\<close> with \<open>R as' x\<close>.\<close>

definition boots :: "('w boot, 'a) state \<Rightarrow> ((action \<times> goerr option) list \<Rightarrow> 'a \<Rightarrow> bool) \<Rightarrow> bool" where
  "boots m R \<longleftrightarrow> (\<forall>s. \<exists>xs. bt_Actions (snd (run_state m s)) = bt_Actions s @ xs \<and> R xs (fst (run_state m s)))"

named_theorems boots_intros

lemma boots_mono: "boots m R \<Longrightarrow> (\<And>xs x. R xs x \<Longrightarrow> R' xs x) \<Longrightarrow> boots m R'"
  unfolding boots_def by blast

lemma boots_run:
  "boots m R \<Longrightarrow> bt_Actions s = [] \<Longrightarrow> R (bt_Actions (snd (run_state m s))) (fst (run_state m s))"
  unfolding boots_def by (metis append_Nil)

lemma boots_return [boots_intros]: "R [] x \<Longrightarrow> boots (State_Monad.return x) R"
  by (simp add: boots_def)

lemma boots_bindI:
  assumes "boots m P" "\<And>xs x. P xs x \<Longrightarrow> boots (f x) (\<lambda>ys. R (xs @ ys))"
  shows "boots (State_Monad.bind m f) R"
  unfolding boots_def
proof
  fix s
  obtain x s' where r: "run_state m s = (x, s')" by force
  with assms(1) obtain xs where xs: "bt_Actions s' = bt_Actions s @ xs" "P xs x" unfolding boots_def by (metis fst_conv snd_conv)
  obtain y s'' where r': "run_state (f x) s' = (y, s'')" by force
  with assms(2) [OF xs(2)] obtain ys where "bt_Actions s'' = bt_Actions s' @ ys" "R (xs @ ys) y" unfolding boots_def by (metis fst_conv snd_conv)
  with r r' xs(1) show "\<exists>xs. bt_Actions (snd (run_state (State_Monad.bind m f) s)) = bt_Actions s @ xs \<and>
      R xs (fst (run_state (State_Monad.bind m f) s))"
    by auto
qed

lemma boots_perform [boots_intros]: "(\<And>e. R [(a, e)] e) \<Longrightarrow> boots (perform M a) R"
  by (auto simp: boots_def perform_def split: prod.splits)

lemma boots_bind_perform [boots_intros]:
  "(\<And>e. boots (f e) (\<lambda>xs. R ((a, e) # xs))) \<Longrightarrow> boots (State_Monad.bind (perform M a) f) R"
  by (rule boots_bindI [OF boots_perform [where R = "\<lambda>xs e. xs = [(a, e)]"]]) auto

lemma boots_bind_available [boots_intros]:
  "(\<And>e. boots (f (e = None)) (\<lambda>xs. R ((Discover g, e) # xs))) \<Longrightarrow> boots (State_Monad.bind (isAPIGroupAvailable M g) f) R"
  unfolding isAPIGroupAvailable_def by (auto intro: boots_intros)

lemma boots_orExit [boots_intros]:
  "(\<And>e. R [(a, Some e)] (Some 1)) \<Longrightarrow> boots k (\<lambda>xs. R ((a, None) # xs)) \<Longrightarrow> boots (orExit (perform M a) k) R"
  unfolding orExit_def by (rule boots_bind_perform) (auto split: option.split intro: boots_return)

section \<open>Every controller is accounted for\<close>

definition discovered :: "(action \<times> goerr option) list \<Rightarrow> string \<Rightarrow> bool" where
  "discovered xs g \<longleftrightarrow> (Discover g, None) \<in> set xs"

definition registered :: "(action \<times> goerr option) list \<Rightarrow> reconciler \<Rightarrow> bool" where
  "registered xs rc \<longleftrightarrow> (Register rc (SetupWithManager rc), None) \<in> set xs"

definition attempts :: "(action \<times> goerr option) list \<Rightarrow> reconciler list" where
  "attempts xs = List.map_filter (\<lambda>(a, _). case a of Register rc _ \<Rightarrow> Some rc | _ \<Rightarrow> None) xs"

definition watchers :: "(action \<times> goerr option) list \<Rightarrow> (string \<times> reconciler) list" where
  "watchers xs = List.map_filter (\<lambda>(a, _). case a of AddWatcher g rc \<Rightarrow> Some (g, rc) | _ \<Rightarrow> None) xs"

definition started :: "(action \<times> goerr option) list \<Rightarrow> bool" where
  "started xs \<longleftrightarrow> StartManager \<in> fst ` set xs"

lemma attempts_simps [simp]:
  "attempts [] = []" "attempts ((a, e) # xs) = (case a of Register rc _ \<Rightarrow> [rc] | _ \<Rightarrow> []) @ attempts xs"
  "watchers [] = []" "watchers ((a, e) # xs) = (case a of AddWatcher g rc \<Rightarrow> [(g, rc)] | _ \<Rightarrow> []) @ watchers xs"
  by (auto simp: attempts_def watchers_def map_filter_def split: action.split)

lemma groups_differ [simp]: "tektonGroup \<noteq> rhtasGroup" "rhtasGroup \<noteq> tektonGroup"
  by (simp_all add: tektonGroup_def rhtasGroup_def)

fun isPlatformReconciler :: "reconciler \<Rightarrow> bool" where
  "isPlatformReconciler (PlatformReconciler r) = True"
| "isPlatformReconciler _ = False"

definition needsTekton :: "flags \<Rightarrow> reconciler list" where
  "needsTekton fl = [CollectionReconciler (fl_mirrorImage fl), ImportReconciler (fl_mirrorImage fl)]"

text \<open>What a process has done that started its manager: the controllers are registered whose resources were found, for the others a
  watcher is added.\<close>

definition accounted :: "flags \<Rightarrow> (action \<times> goerr option) list \<Rightarrow> bool" where
  "accounted fl xs \<longleftrightarrow>
     attempts xs = [PlatformReconciler (platformReconcilerOf fl (discovered xs tektonGroup))] @
       (if discovered xs tektonGroup then needsTekton fl else []) @ [BootstrapReconciler] @
       (if discovered xs rhtasGroup then [HealthReconciler] else []) \<and>
     list_all (registered xs) (attempts xs) \<and>
     watchers xs = (if discovered xs tektonGroup then [] else map (Pair tektonGroup) (needsTekton fl)) @
       (if discovered xs rhtasGroup then [] else [(rhtasGroup, HealthReconciler)])"

lemma main_accounts:
  "boots (main M fl) (\<lambda>xs code.
     if started xs then accounted fl xs \<and> fst (last xs) = StartManager \<and> (code = None \<longleftrightarrow> snd (last xs) = None)
     else code = Some 1 \<and> snd (last xs) \<noteq> None)"
  unfolding main_def setupController_def setupOrWait_def registerWhenCRDAvailable_def if_distrib [of "\<lambda>m. orExit m _"]
  by (intro boots_intros)
    (auto simp: accounted_def started_def discovered_def registered_def needsTekton_def intro!: boots_intros split: if_splits)


section \<open>A watcher registers its controller once\<close>

text \<open>A round of a watcher: the group is still missing, or the registration is tried, with its error.\<close>

datatype watcherRound = Missing goerr | Tried "goerr option"

fun roundActions :: "string \<Rightarrow> reconciler \<Rightarrow> watcherRound \<Rightarrow> (action \<times> goerr option) list" where
  "roundActions g rc (Missing e) = [(Discover g, Some e)]"
| "roundActions g rc (Tried r) = [(Discover g, None), (Register rc (SetupWithManager rc), r)]"

definition ticks :: "wakeUp list \<Rightarrow> nat" where
  "ticks ws = length (takeWhile ((=) Tick) ws)"

lemma ticks_simps [simp]: "ticks [] = 0" "ticks (Tick # ws) = Suc (ticks ws)" "ticks (Done # ws) = 0"
  by (simp_all add: ticks_def)

definition watched :: "string \<Rightarrow> reconciler \<Rightarrow> wakeUp list \<Rightarrow> (action \<times> goerr option) list \<Rightarrow> watcherState \<Rightarrow> bool" where
  "watched g rc ws xs st \<longleftrightarrow> (\<exists>rounds. xs = concat (map (roundActions g rc) rounds) \<and>
     (case st of
        Registered \<Rightarrow> \<exists>rs. rounds = rs @ [Tried None] \<and> Tried None \<notin> set rs \<and> length rounds \<le> ticks ws
      | Waiting \<Rightarrow> Tried None \<notin> set rounds \<and> length rounds = ticks ws \<and> Done \<notin> set ws
      | Stopped \<Rightarrow> Tried None \<notin> set rounds \<and> length rounds = ticks ws \<and> Done \<in> set ws))"

lemma watched_round:
  assumes "watched g rc ws xs st" "r \<noteq> Tried None"
  shows "watched g rc (Tick # ws) (roundActions g rc r @ xs) st"
proof -
  obtain rounds where r: "xs = concat (map (roundActions g rc) rounds)"
    "case st of
        Registered \<Rightarrow> \<exists>rs. rounds = rs @ [Tried None] \<and> Tried None \<notin> set rs \<and> length rounds \<le> ticks ws
      | Waiting \<Rightarrow> Tried None \<notin> set rounds \<and> length rounds = ticks ws \<and> Done \<notin> set ws
      | Stopped \<Rightarrow> Tried None \<notin> set rounds \<and> length rounds = ticks ws \<and> Done \<in> set ws"
    using assms(1) unfolding watched_def by blast
  show ?thesis
    unfolding watched_def
  proof (rule exI [where x = "r # rounds"], cases st)
    case Registered
    with r obtain rs where "rounds = rs @ [Tried None]" "Tried None \<notin> set rs" "length rounds \<le> ticks ws" by auto
    with r(1) assms(2) Registered show "roundActions g rc r @ xs = concat (map (roundActions g rc) (r # rounds)) \<and>
      (case st of
         Registered \<Rightarrow> \<exists>rs. r # rounds = rs @ [Tried None] \<and> Tried None \<notin> set rs \<and> length (r # rounds) \<le> ticks (Tick # ws)
       | Waiting \<Rightarrow> Tried None \<notin> set (r # rounds) \<and> length (r # rounds) = ticks (Tick # ws) \<and> Done \<notin> set (Tick # ws)
       | Stopped \<Rightarrow> Tried None \<notin> set (r # rounds) \<and> length (r # rounds) = ticks (Tick # ws) \<and> Done \<in> set (Tick # ws))"
      by (auto intro!: exI [where x = "r # rs"])
  qed (use r assms(2) in auto)
qed

text \<open>C17. A watcher looks for its group at every tick and tries to register its controller exactly when it found it; it ends with the first
  registration that succeeds, so a controller is registered at most once, and it goes on waiting, or stops with the process, only where
  at every tick before that the group was missing or the registration failed.\<close>

theorem watcher_registers_once:
  "boots (watcherLoop M apiGroup rc ws) (watched apiGroup rc ws)"
proof (induction ws)
  case Nil
  then show ?case by (auto simp: watched_def intro!: boots_intros)
next
  case (Cons w ws)
  have missing: "boots (watcherLoop M apiGroup rc ws) (\<lambda>xs. watched apiGroup rc (Tick # ws) ((Discover apiGroup, Some e) # xs))" for e
    by (rule boots_mono [OF Cons.IH]) (auto dest: watched_round [where r = "Missing e"])
  have failed: "boots (watcherLoop M apiGroup rc ws)
      (\<lambda>xs. watched apiGroup rc (Tick # ws) ((Discover apiGroup, None) # (Register rc (SetupWithManager rc), Some e) # xs))" for e
    by (rule boots_mono [OF Cons.IH]) (auto dest: watched_round [where r = "Tried (Some e)"])
  have now: "watched apiGroup rc (Tick # ws) [(Discover apiGroup, None), (Register rc (SetupWithManager rc), None)] Registered"
    unfolding watched_def by (rule exI [where x = "[Tried None]"]) auto
  have stopped: "watched apiGroup rc (Done # ws) [] Stopped"
    by (auto simp: watched_def)
  have tick: "boots (watcherLoop M apiGroup rc (Tick # ws)) (watched apiGroup rc (Tick # ws))"
    unfolding watcherLoop.simps setupController_def
  proof (rule boots_bind_available)
    fix e
    show "boots (if e = None then do {
          err \<leftarrow> perform M (Register rc (SetupWithManager rc));
          case err of Some _ \<Rightarrow> watcherLoop M apiGroup rc ws | None \<Rightarrow> State_Monad.return Registered }
        else watcherLoop M apiGroup rc ws) (\<lambda>xs. watched apiGroup rc (Tick # ws) ((Discover apiGroup, e) # xs))"
      by (cases e) (auto intro!: boots_bind_perform boots_return missing failed now split: option.split)
  qed
  show ?case
    using stopped by (cases w) (auto simp del: watcherLoop.simps(3) intro: tick boots_return)
qed

end
