(* ===== verification/LateTekton.thy ===== *)
theory LateTekton
  imports Startup
begin

text \<open>
  The process looks for Tekton once, when it starts (\<^verbatim>\<open>cmd/main.go\<close>), while its own platform controller installs it. This theory follows what
  becomes of the template of the import pipeline (\<^verbatim>\<open>disconnectedplatform_airgapped.go\<close>) where Tekton was not there yet.
\<close>

section \<open>Steps that create no pipeline\<close>

fun templateFree :: "request \<Rightarrow> bool" where
  "templateFree (RCreate (OUnstr u)) = (u_GVK u \<noteq> tektonPipelineGVK)"
| "templateFree _ = True"

lemma templateFree_kinds [simp]:
  "quayRegistryGVK \<noteq> tektonPipelineGVK" "updateServiceGVK \<noteq> tektonPipelineGVK" "provisioningGVK \<noteq> tektonPipelineGVK"
  "imageSetGVK \<noteq> tektonPipelineGVK" "machineConfigGVK \<noteq> tektonPipelineGVK" "hubGVK \<noteq> tektonPipelineGVK"
  "subscriptionGVK \<noteq> tektonPipelineGVK" "operatorGroupGVK \<noteq> tektonPipelineGVK" "configGVK k \<noteq> tektonPipelineGVK"
  "agentGVK k \<noteq> tektonPipelineGVK" "u_GVK (clusterImageSet registry v) \<noteq> tektonPipelineGVK"
  by (simp_all add: clusterImageSet_def withLabels_def agentGVK_def quayRegistryGVK_def updateServiceGVK_def provisioningGVK_def imageSetGVK_def machineConfigGVK_def hubGVK_def
      subscriptionGVK_def operatorGroupGVK_def tektonPipelineGVK_def)

lemma tf_newManagedQuay: "newManagedQuay E components bundle = Inr q \<Longrightarrow> u_GVK q = quayRegistryGVK"
  by (auto simp: newManagedQuay_def Let_def split: sum.splits)

lemma acm_templateFree: "acmRequest q \<Longrightarrow> templateFree q"
  by (cases q rule: templateFree.cases) (auto simp: acmRequest_def)

lemma tf_helpers [only_intros]:
  "only templateFree (ensureNamespace E ns)" "only templateFree (getClusterSSHKey E)" "only templateFree (getClusterVersion E)"
  "only templateFree (getClusterProxy E)"
  "only templateFree (resolveQuayReplicaOverride E n)" "only templateFree (getQuayRegistry E)" "only templateFree (getQuayHostname E q)"
  unfolding ensureNamespace_def getClusterProxy_def getClusterSSHKey_def getClusterVersion_def resolveQuayReplicaOverride_def isSingleNodeOpenShift_def
    getQuayRegistry_def getQuayHostname_def
  by (auto intro!: only_intros)

lemma tf_quay [only_intros]:
  "only templateFree (recordAirgappedRegistry E platform url)" "only templateFree (configureClairVEX E q)"
  "only templateFree (ensureQuayGunicornTimeout E q)" "only templateFree (createAirgappedQuayConfigSecret E' platform)"
  unfolding recordAirgappedRegistry_def configureClairVEX_def writeClairSecret_def ensureQuayGunicornTimeout_def putComponents_def
    createAirgappedQuayConfigSecret_def Let_def
  by (auto intro!: only_intros)

lemma tf_airgappedQuay [only_intros]: "only templateFree (reconcileAirgappedQuay E platform ag)"
  unfolding reconcileAirgappedQuay_def updateAirgappedQuay_def logError_def Let_def
  by (auto intro!: only_intros simp: tf_newManagedQuay)

lemma tf_registry [only_intros]:
  "only templateFree (Manager_Reconcile E platform)" "only templateFree (GetRegistryAddress E' platform)"
  unfolding Manager_Reconcile_def GetRegistryAddress_def resolveConfig_def resolvePullSecret_def ensureCA_def generateCA_def getMasterNodes_def
    step_def ensureMachineConfig_def ensureTrustConfigMap_def ensureImageConfig_def ensureIDMS_def Let_def
  by (auto intro!: only_intros)

lemma tf_untilError: "list_all (only P) ms \<Longrightarrow> only P (untilError ms)"
  by (induction ms) (auto intro!: only_intros)

lemma tf_robot [only_intros]: "only templateFree (ensureAirgappedRegistryCredentials E r platform)"
  unfolding ensureAirgappedRegistryCredentials_def execCommandInPod_def execInQuayPod_def queryQuayRobotToken_def
    saveQuayRobotCredentials_def ensureQuayRobotViaPython_def Let_def
  by (auto intro!: only_intros)

lemma tf_scanner [only_intros]:
  "only templateFree (reconcileImportScanner E platform ag)" "only templateFree (ensureAirgappedUpdateService E ag)"
  unfolding reconcileImportScanner_def ensureImportScannerRBAC_def ensureImportJobRBAC_def ensureImportScannerScript_def
    ensureScannerCronJob_def createAbsent_def ensureRole_def ensureAirgappedUpdateService_def putUpdateService_def createUnstr_def Let_def
  by (auto intro!: only_intros tf_untilError)

lemma tf_imageSets [only_intros]: "only templateFree (imageSetLoop E registry vs)"
  by (induction vs) (auto intro!: only_intros)

lemma tf_hosts [only_intros]:
  "only templateFree (ensureProvisioningConfiguration E)" "only templateFree (ensureAssistedInstallerMirrorConfig E' ag)"
  "only templateFree (reconcileRHCOSServer E platform ag)" "only templateFree (ensureAgentServiceConfig E' hostInv url)"
  "only templateFree (ensureACMCredential E' hostInv)" "only templateFree (ensureInfraEnv E ag hostInv)"
  "only templateFree (ensureClusterImageSets E' ag)"
  unfolding ensureProvisioningConfiguration_def ensureAssistedInstallerMirrorConfig_def getMirrorRegistryCA_def secretValue_def
    userCABundle_def putMirrorConfig_def reconcileRHCOSServer_def rhcosImageOf_def ensureRHCOSDeployment_def
    ensureRHCOSService_def ensureAgentServiceConfig_def ensureACMCredential_def ensureInfraEnv_def buildIgnitionConfigOverride_def
    ensureClusterImageSets_def Let_def
  by (auto intro!: only_intros)

lemma tf_ACM [only_intros]: "only templateFree (reconcileAirgappedACM E platform ag acm)"
  unfolding only_def
  by (rule spec_mono [OF spec_ACM]) (auto simp: list_all_iff split: prod.splits dest: acm_templateFree)

lemma tf_runSteps: "list_all (\<lambda>m. \<forall>platform. only P (m platform)) ms \<Longrightarrow> only P (runSteps ms platform rq)"
  by (induction ms arbitrary: platform rq) (auto intro!: only_intros)

lemma tf_hostSteps: "list_all (\<lambda>m. \<forall>platform. only templateFree (m platform)) (hostSteps E ag)"
  by (auto simp: hostSteps_def reading_def split: option.split intro!: only_intros)

lemma tf_airgappedSteps:
  "\<not> dpr_TektonAvailable r \<Longrightarrow> list_all (\<lambda>m. \<forall>platform. only templateFree (m platform)) (airgappedSteps E r)"
  by (auto simp: airgappedSteps_def reading_def withAirgapped_def reconcileMirrorRegistry_def split: option.split intro!: only_intros)

lemma tf_airgapped: "\<not> dpr_TektonAvailable r \<Longrightarrow> only templateFree (reconcileAirgapped E r platform)"
  unfolding reconcileAirgapped_def Let_def
  by (auto intro!: only_intros tf_runSteps simp: tf_hostSteps tf_airgappedSteps)

section \<open>Tekton that is installed later\<close>

text \<open>C18. A process that starts before Tekton is there keeps to it: its one platform controller is registered without the pipelines and task
  runs of Tekton and, whatever the platform and the cluster are by then, its airgapped reconciliation never creates the template of the
  import pipeline, although a watcher goes on waiting for Tekton to register the controller of the imports that use the template.\<close>

theorem late_tekton_no_template:
  "boots (main M fl) (\<lambda>xs code.
     if started xs \<and> \<not> discovered xs tektonGroup
     then \<exists>r. [rc \<leftarrow> attempts xs. isPlatformReconciler rc] = [PlatformReconciler r] \<and>
       KUnstr tektonPipelineGVK \<notin> set (b_Owns (SetupWithManager (PlatformReconciler r))) \<and>
       KUnstr taskRunGVK \<notin> fst ` set (b_Watches (SetupWithManager (PlatformReconciler r))) \<and>
       only templateFree (reconcileAirgapped E r platform) \<and>
       (tektonGroup, ImportReconciler (fl_mirrorImage fl)) \<in> set (watchers xs)
     else True)"
proof (rule boots_mono [OF main_accounts])
  fix xs code
  let ?r = "platformReconcilerOf fl False"
  assume main: "if started xs then accounted fl xs \<and> fst (last xs) = StartManager \<and> (code = None \<longleftrightarrow> snd (last xs) = None)
     else code = Some 1 \<and> snd (last xs) \<noteq> None"
  have "only templateFree (reconcileAirgapped E ?r platform)" by (rule tf_airgapped) (simp add: platformReconcilerOf_def)
  moreover have "KUnstr tektonPipelineGVK \<notin> set (b_Owns (SetupWithManager (PlatformReconciler ?r)))"
    "KUnstr taskRunGVK \<notin> fst ` set (b_Watches (SetupWithManager (PlatformReconciler ?r)))"
    by (simp_all add: DisconnectedPlatform_SetupWithManager_def platformReconcilerOf_def deploymentGVK_def serviceGVK_def routeGVK_def
        tektonPipelineGVK_def)
  ultimately show "if started xs \<and> \<not> discovered xs tektonGroup
     then \<exists>r. [rc \<leftarrow> attempts xs. isPlatformReconciler rc] = [PlatformReconciler r] \<and>
       KUnstr tektonPipelineGVK \<notin> set (b_Owns (SetupWithManager (PlatformReconciler r))) \<and>
       KUnstr taskRunGVK \<notin> fst ` set (b_Watches (SetupWithManager (PlatformReconciler r))) \<and>
       only templateFree (reconcileAirgapped E r platform) \<and>
       (tektonGroup, ImportReconciler (fl_mirrorImage fl)) \<in> set (watchers xs)
     else True"
    using main by (auto simp: accounted_def needsTekton_def intro!: exI [where x = ?r])
qed

text \<open>A cluster that serves neither group, and answers everything else.\<close>

definition bareCluster :: "unit machine" where
  "bareCluster a w = (case a of Discover g \<Rightarrow> (Some (errorf ''the server could not find the requested resource''), w) | _ \<Rightarrow> (None, w))"

lemma late_tekton_no_template_witness:
  "let fl = flagDefaults scripted; xs = bt_Actions (snd (run_state (main bareCluster fl) \<lparr>bt_World = (), bt_Actions = []\<rparr>))
   in started xs \<and> \<not> discovered xs tektonGroup \<and> (tektonGroup, ImportReconciler (fl_mirrorImage fl)) \<in> set (watchers xs)"
proof -
  let ?fl = "flagDefaults scripted"
  let ?run = "run_state (main bareCluster ?fl) \<lparr>bt_World = (), bt_Actions = []\<rparr>"
  have "started (bt_Actions (snd ?run)) \<and> \<not> discovered (bt_Actions (snd ?run)) tektonGroup"
    by (simp add: main_def orExit_def perform_def isAPIGroupAvailable_def setupController_def setupOrWait_def registerWhenCRDAvailable_def
        bareCluster_def started_def discovered_def)
  with boots_run [OF late_tekton_no_template [of bareCluster ?fl samplePlatformEnv "samplePlatform None []"],
      of "\<lparr>bt_World = (), bt_Actions = []\<rparr>"]
  show ?thesis by (auto simp: Let_def)
qed

end
