(* ===== verification/Spec2Isabelle.thy ===== *)
theory Spec2Isabelle
  imports Bootstrap HealthCheck PlatformStatus Subscriptions PipelineFit PullSecrets Database QuayProps Airgapped FileServer Confinement SigningGate LateTekton
begin

text \<open>
  A verification development for the mirror operator, a Kubernetes operator that collects OpenShift content into
  bundles on a connected cluster and imports it on a disconnected one.

  \<^bold>\<open>The program.\<close> Five resources (\<^verbatim>\<open>api/v1\<close>): a \<^verbatim>\<open>DisconnectedPlatform\<close> describes the installation and keeps
  the history of collections and imports in its status; a \<^verbatim>\<open>CollectionPipeline\<close> runs a Tekton
  \<^verbatim>\<open>PipelineRun\<close> that mirrors what an \<^verbatim>\<open>ImageSetConfiguration\<close> lists into a working volume and a bucket; a
  \<^verbatim>\<open>MirrorImport\<close> runs another that loads a bundle into the registries; a \<^verbatim>\<open>ClusterBootstrap\<close> and a
  \<^verbatim>\<open>MirrorRelease\<close> are requests with little code. One controller per resource (\<^verbatim>\<open>internal/controller\<close>) reads it and
  takes the next step; the controllers interact only through the API server: a pipeline waits for its parent
  pipeline, an incremental pipeline and an import look versions up in the history of the platform, both append to it,
  the platform controller puts the registry manager's machine configuration, trust and mirror set on the nodes to which
  imports push.

  \<^bold>\<open>The theories.\<close>
  \<^item> \<open>Prelude\<close>: Go's strings, numbers, times, errors, dynamically typed values and base64, with the lemmas all
    others use.
  \<^item> \<open>Types\<close>: the records of \<^verbatim>\<open>api/v1/*_types.go\<close>, field by field, of the \<^verbatim>\<open>ImageSetConfiguration\<close>, and of the
    Kubernetes and Tekton objects as far as the code reads or writes them.
  \<^item> \<open>Client\<close>: the boundary. The record \<open>env\<close> has a field for every call that leaves the repository: API server,
    clock, environment variables, HTTP, JSON, YAML, quantities, the helpers on unstructured content. A controller is a
    program in the state monad over a world of any type and the trace of its API requests. \<open>spec m R\<close> says that every run
    of \<open>m\<close>, whatever the environment answers, appends events \<open>es\<close> and returns \<open>x\<close> with \<open>R es x\<close>; since programs are
    total functions it is a total correctness statement (\<open>spec_run\<close>). \<open>only\<close> is the special case of a property of
    every request; the locale \<open>trace_closed\<close> generalizes it to predicates closed under concatenation.
  \<^item> \<open>Scripted\<close>: an environment whose server answers from a list, and sample objects, for witnesses.
  \<^item> \<open>Helpers\<close> (\<^verbatim>\<open>helpers.go\<close>): environment defaults, Quay components, cluster reads, CA and proxy injection. The locale
    \<open>finalizer_ops\<close> is the contract of the finalizer lists, interpreted for each controller's finalizer.
  \<^item> \<open>History\<close>: what the controllers share on the platform's history and on the phases of runs; the locale
    \<open>run_phases\<close> is the contract of the two functions that read a phase from a run.
  \<^item> \<open>Bootstrap\<close> (\<^verbatim>\<open>clusterbootstrap_controller.go\<close>).
  \<^item> \<open>Import\<close> (\<^verbatim>\<open>mirrorimport_controller.go\<close>): the reconciler, the state machine \<open>import_step\<close> that it refines, and
    the invariant of that machine over the life of an import.
  \<^item> \<open>ImageSet\<close> (the part of \<^verbatim>\<open>collectionpipeline_controller.go\<close> on configurations): image references, version detection, the
    injectors, which share the contract \<open>config_injector\<close>, and the intermediate configuration.
  \<^item> \<open>Collection\<close> and \<open>CollectionProps\<close> (the rest of that file): the reconciler, whose one Go function is split
    at its comments into \<open>resetForTrigger\<close>, \<open>expandStorage\<close>, \<open>reconcileRun\<close>, \<open>validateParent\<close>,
    \<open>checkBaseVersion\<close>, \<open>ensureVersion\<close>, \<open>waitForSigning\<close> and \<open>launchRun\<close>; the working volume; the run; tracking; cleanup.
  \<^item> \<open>HealthCheck\<close> (\<^verbatim>\<open>rhtashealthcheck_controller.go\<close>): the four checks and the condition they write.
  \<^item> \<open>Ignition\<close> and \<open>Registry\<close> (\<^verbatim>\<open>mirrorregistry/\<close>): the texts and files put on the nodes; CA, trust, machine
    configuration and mirror set. Key generation and certificates are the further fields of \<open>cryptoEnv\<close>.
  \<^item> \<open>Objects\<close>: operations on config maps, secrets and unstructured objects that controllers share.
  \<^item> \<open>PlatformStatus\<close>, \<open>Subscriptions\<close> (parts of \<^verbatim>\<open>disconnectedplatform_controller.go\<close>): the conditions of the platform and
    the health checks behind them, the watch handlers; the operator subscriptions of both modes. The locale \<open>ready_setter\<close> is
    the contract of the two functions that write the \<^verbatim>\<open>Ready\<close> condition.
  \<^item> \<open>PlatformEnv\<close>: what the platform controller calls beyond the other controllers, and the fields of its reconciler.
  \<^item> \<open>QuayRobot\<close>, \<open>PullSecrets\<close>, \<open>Database\<close>: the robot account of the managed Quay with the scripts and commands that create it,
    the pull secrets that are merged and copied with its credentials, the databases of Keycloak and RHTPA and the expansion of their volume.
  \<^item> \<open>ArchitectObjects\<close>, \<open>Architect\<close>: the manifests of the Architect (backend, frontend, console plugin) as values, and the
    operations that install, update and delete them; deployments are closed, updates follow the image only.
  \<^item> \<open>Quay\<close>, \<open>QuayProps\<close>: the managed Quay registry in both modes: storage credentials, configuration bundle, Clair, the
    repair of components, certificate and route; what a reconciliation writes, and that the repairs settle.
  \<^item> \<open>ImportScanner\<close>: the cron job that looks for bundles, with its script and roles, and the update service of both modes.
  \<^item> \<open>HostInventory\<close>, \<open>HostProps\<close>: the installation of Advanced Cluster Management and of its hub, the RHCOS server, and what the
    assisted installer is given: registries, cluster image sets, discovery environment, signature policy.
  \<^item> \<open>Airgapped\<close>: the reconciliation in airgapped mode as a sequence of steps, and that it waits for the hub.
  \<^item> \<open>Signing\<close>: the signing service RHTAS and its root keys. \<open>KeycloakAdmin\<close>, \<open>KeycloakRealms\<close>: the administration of the managed
    Keycloak over HTTP (tokens, realms, clients, mappers, users) and the signing configuration of the pipelines. \<open>Trustify\<close>, \<open>Analyzer\<close>: the
    analyzer RHTPA with its clients. The record \<open>keycloakEnv\<close> has what they use beyond \<open>platformEnv\<close>: the HTTP client, the construction
    of requests, the printing and decoding of JSON.
  \<^item> \<open>Platform\<close>: the main loop of the platform controller. The one Go function is split into \<open>earlyStages\<close> and \<open>lateStages\<close>, each stage
    one of its blocks with what it does on an error (written into the status, or logged), then \<open>finishPlatform\<close>; its cleanup.
    \<open>FileServer\<close>: the file server for artifacts, which only tests call.
  \<^item> \<open>Startup\<close> (\<^verbatim>\<open>cmd/main.go\<close>, the functions \<^verbatim>\<open>SetupWithManager\<close>): flags, options, registration of the controllers with what they
    watch, the watchers that register a controller when its resources appear. The process is a program over \<open>action\<close>s, which a
    function answers; \<open>boots\<close> is to them what \<open>spec\<close> is to API requests. \<open>LateTekton\<close>: what becomes of a process that starts before Tekton.
  \<^item> \<open>HttpLog\<close>, \<open>Confinement\<close>: any environment with a log of its HTTP calls beside the world, and where the calls of the Keycloak
    administration go. \<open>StatusWrites\<close>: status writes and deletions of the main loop. \<open>SigningGate\<close>: platform and collection controller meet
    at the signing of a collection.
  \<^item> \<open>PipelineScripts\<close>, \<open>PipelineTasks\<close>, \<open>PipelineTemplate\<close> (\<^verbatim>\<open>buildPipelineTasks\<close>, \<^verbatim>\<open>buildPipelineFinallyTasks\<close>,
    \<^verbatim>\<open>buildImportPipelineTasks\<close>, \<^verbatim>\<open>pipelines/rhcos.go\<close> and the two functions that install the templates): the scripts as texts,
    the tasks and the templates as dynamically typed values. \<open>PipelineRefs\<close> finds the references in the scripts,
    \<open>PipelineProps\<close> shows that the templates are closed and ordered, \<open>PipelineFit\<close> relates the runs of the collection and import
    controllers to them.

  \<^bold>\<open>What is shown.\<close> For the collection controller: runs start only behind the gates, one per reconciliation, recorded or
  deleted; volumes are never made smaller, are the ones the run uses, and are not deleted while children
  use them, unless listing the children fails; tracking follows the run; a trigger fires once. For imports: the refinement
  of the state machine and its invariant, the same protocol for runs, the check against the history and its extension.
  For configurations: injecting keeps what was there and is idempotent; references are rewritten to the registry and only once.
  For the registry: round trip of the node files, coverage of trust and mirror set. For the health check:
  convergence of its repair, its guards, its periodicity.
  For the platform: its conditions settle and follow the health checks, every operator is accounted for, events wake it only
  on change. For the templates: every reference resolves, the order of tasks has no cycle, the runs of the other
  controllers give what the templates ask for and mirror in one way. For the main loop: the status is written once and last, a deleted
  platform is released last, requests to Keycloak stay at one host and carry tokens that its answers gave, the signing
  gate opens where Keycloak is enabled and never where it is declared but disabled. For the process: controllers are registered or
  waited for, a watcher registers once, and a process that started before Tekton never makes the import template. This theory adds what relates the registry to the imports.

  \<^bold>\<open>Correspondence.\<close> Names are those of the source; a method that shares its name with another controller's
  carries its receiver (\<open>CollectionPipeline_cleanup\<close>). A Go error is \<open>goerr\<close> with the kind the API machinery tests
  (\<open>isNotFound\<close>), a result with error is \<open>'a res\<close>, a panic is an error that \<open>isPanic\<close> recognizes and that passes every
  later step by. A pointer is an option, a nil map the \<open>None\<close> of an optional map, the write to which panics. A function
  that changes its argument returns it; an update returns the object as the server answers it, which replaces the
  argument as in the client library. There is no fuel: every loop of the modelled code is over a finite list.
  (\<open>before\<close>, which follows the waiting of tasks in a proof, takes 12 steps, the length of the longest path.)

  \<^bold>\<open>What is not modelled.\<close> Logging; the parsing of the command line and the scheme; predicates and queues of controller-runtime; generated code;
  the text \<^verbatim>\<open>%v\<close> prints for a claim that is not a boolean; time zones, since times are in UTC. What the shell scripts of the
  tasks do; time limits of the HTTP clients, \<^verbatim>\<open>time.Sleep\<close> and TLS settings; the random bytes of \<^verbatim>\<open>generateRandomPassword\<close>, which only
  tests call. The import script that \<^verbatim>\<open>go:embed\<close> reads from a file is a parameter.
\<close>

section \<open>Properties that span components\<close>

lemma firstAddress_InternalIP: "firstAddress ''InternalIP'' as = firstInternalIP as"
  by (induction as) auto

text \<open>C38. Where every master node has an internal IP, an import run pushes to every mirror the mirror set lists, at the port the
  registry is configured with.\<close>

theorem import_reaches_mirrors:
  assumes "\<And>n. n \<in> set nodes \<Longrightarrow> firstInternalIP (node_Addresses n) \<noteq> None"
  shows "set (readyMirrors cfg nodes) \<subseteq> set (nodeTargets (rc_Port cfg) nodes)"
proof
  fix m
  assume "m \<in> set (readyMirrors cfg nodes)"
  then obtain n where n: "n \<in> set nodes" "m = getNodeInternalAddress n @ '':'' @ itoa (rc_Port cfg)"
    unfolding set_readyMirrors by blast
  obtain a where a: "firstInternalIP (node_Addresses n) = Some a"
    using assms [OF n(1)] by blast
  then have "getNodeInternalAddress n = a"
    by (simp add: getNodeInternalAddress_def firstAddress_InternalIP)
  then show "m \<in> set (nodeTargets (rc_Port cfg) nodes)"
    using n a by (force simp: nodeTargets_def map_filter_def)
qed

definition sampleNode :: "string \<Rightarrow> string \<Rightarrow> node" where
  "sampleNode ty addr = \<lparr>node_Meta = emptyMeta, node_Addresses = [\<lparr>na_Type = ty, na_Address = addr\<rparr>],
     node_Conditions = [\<lparr>nc_Type = ''Ready'', nc_Status = ''True''\<rparr>]\<rparr>"

definition sampleRegistry :: config where
  "sampleRegistry = \<lparr>rc_DataPath = [], rc_Port = 8443, rc_QuayImage = [], rc_RedisImage = [], rc_PauseImage = [],
     rc_PullSecretJSON = [], rc_CACertPEM = [], rc_CAKeyPEM = []\<rparr>"

theorem import_reaches_mirrors_witness:
  "readyMirrors sampleRegistry [sampleNode ''InternalIP'' ''10.0.0.1''] \<noteq> [] \<and>
   set (readyMirrors sampleRegistry [sampleNode ''InternalIP'' ''10.0.0.1'']) \<subseteq>
   set (nodeTargets 8443 [sampleNode ''InternalIP'' ''10.0.0.1''])"
  using import_reaches_mirrors [of "[sampleNode ''InternalIP'' ''10.0.0.1'']" sampleRegistry]
  by (simp add: sampleNode_def sampleRegistry_def readyMirrors_def getNodeInternalAddress_def isNodeReady_def)

text \<open>C39. A node is a mirror of the mirror set but no target of an import run exactly when it is ready and known by its
  internal DNS name only.\<close>

theorem dns_node_not_imported:
  "readyMirrors cfg [n] \<noteq> [] \<and> nodeTargets (rc_Port cfg) [n] = [] \<longleftrightarrow>
   isNodeReady n \<and> firstInternalIP (node_Addresses n) = None \<and>
   (\<exists>a. firstAddress ''InternalDNS'' (node_Addresses n) = Some a \<and> a \<noteq> [])"
  by (auto simp: readyMirrors_def getNodeInternalAddress_def firstAddress_InternalIP nodeTargets_def map_filter_def
      split: option.splits if_splits)

end
